(* ===== verification/Prelude.thy ===== *)
theory Prelude
  imports Main "HOL-Library.Word" "HOL-Library.State_Monad" "HOL-Library.AList" "HOL-Library.Sublist"
begin

text \<open>
  The prelude of the development: the parts of the Go language and of its standard library
  that the modelled code uses (strings, decimal conversions, maps, errors), the state monad in
  which the effectful code is written, and the lemma collections the component theories share.

  A Go string is a list of bytes, here a \<^typ>\<open>string\<close>; the case and white-space functions are
  those of package strings on ASCII bytes.  A Go map is an association list with distinct
  keys, and the order of the list is the order in which \<open>range\<close> visits the entries:
  Go leaves that order open, so a theorem over all lists covers every order.
\<close>

named_theorems io_simps \<open>running a monadic computation\<close>
named_theorems emits_intros \<open>composition rules for the effects of a computation\<close>

section \<open>Package strings\<close>

definition HasPrefix :: "string \<Rightarrow> string \<Rightarrow> bool" where
  "HasPrefix s p = (take (length p) s = p)"

definition HasSuffix :: "string \<Rightarrow> string \<Rightarrow> bool" where
  "HasSuffix s p = (length p \<le> length s \<and> drop (length s - length p) s = p)"

definition TrimPrefix :: "string \<Rightarrow> string \<Rightarrow> string" where
  "TrimPrefix s p = (if HasPrefix s p then drop (length p) s else s)"

definition TrimSuffix :: "string \<Rightarrow> string \<Rightarrow> string" where
  "TrimSuffix s p = (if HasSuffix s p then take (length s - length p) s else s)"

fun Contains :: "string \<Rightarrow> string \<Rightarrow> bool" where
  "Contains [] p = (p = [])"
| "Contains (c # cs) p = (HasPrefix (c # cs) p \<or> Contains cs p)"

definition lower_char :: "char \<Rightarrow> char" where
  "lower_char c = (let n = (of_char c :: nat) in if 65 \<le> n \<and> n \<le> 90 then char_of (n + 32) else c)"

definition ToLower :: "string \<Rightarrow> string" where
  "ToLower = map lower_char"

definition is_space :: "char \<Rightarrow> bool" where
  "is_space c = ((of_char c :: nat) \<in> {9, 10, 11, 12, 13, 32})"

definition TrimSpace :: "string \<Rightarrow> string" where
  "TrimSpace s = rev (dropWhile is_space (rev (dropWhile is_space s)))"

text \<open>\<open>strings.Split\<close> for a non-empty separator.\<close>

fun split_go :: "string \<Rightarrow> string \<Rightarrow> string \<Rightarrow> string list" where
  "split_go sep acc [] = [rev acc]"
| "split_go sep acc (c # cs) =
     (if sep \<noteq> [] \<and> HasPrefix (c # cs) sep
      then rev acc # split_go sep [] (drop (length sep - 1) cs)
      else split_go sep (c # acc) cs)"

definition Split :: "string \<Rightarrow> string \<Rightarrow> string list" where
  "Split s sep = split_go sep [] s"

fun Join :: "string list \<Rightarrow> string \<Rightarrow> string" where
  "Join [] sep = []"
| "Join [x] sep = x"
| "Join (x # y # ys) sep = x @ sep @ Join (y # ys) sep"

text \<open>\<open>strings.Fields\<close>: the maximal runs of non-space bytes.\<close>

fun fields_go :: "string \<Rightarrow> string \<Rightarrow> string list" where
  "fields_go acc [] = (if acc = [] then [] else [rev acc])"
| "fields_go acc (c # cs) =
     (if is_space c then (if acc = [] then fields_go [] cs else rev acc # fields_go [] cs)
      else fields_go (c # acc) cs)"

definition Fields :: "string \<Rightarrow> string list" where
  "Fields s = fields_go [] s"

text \<open>\<open>strings.ReplaceAll\<close> for a non-empty old string.\<close>

definition ReplaceAll :: "string \<Rightarrow> string \<Rightarrow> string \<Rightarrow> string" where
  "ReplaceAll s old new = Join (Split s old) new"

text \<open>\<open>filepath.Join\<close>: the non-empty elements joined with slashes, and lexically cleaned.\<close>

fun clean_go :: "bool \<Rightarrow> string list \<Rightarrow> string list \<Rightarrow> string list" where
  "clean_go rooted out [] = rev out"
| "clean_go rooted out (c # cs) =
     (if c = [] \<or> c = ''.'' then clean_go rooted out cs
      else if c = ''..'' then
        (case out of
           [] \<Rightarrow> clean_go rooted (if rooted then [] else [''..'']) cs
         | x # xs \<Rightarrow> clean_go rooted (if x = ''..'' then ''..'' # out else xs) cs)
      else clean_go rooted (c # out) cs)"

definition path_clean :: "string \<Rightarrow> string" where
  "path_clean p =
     (let rooted = (p \<noteq> [] \<and> hd p = CHR ''/'');
          s = Join (clean_go rooted [] (Split p ''/'')) ''/''
      in if rooted then CHR ''/'' # s else if s = [] then ''.'' else s)"

definition path_join :: "string list \<Rightarrow> string" where
  "path_join es = (case dropWhile (\<lambda>e. e = []) es of [] \<Rightarrow> [] | es' \<Rightarrow> path_clean (Join es' ''/''))"

text \<open>\<open>strings.Compare\<close>: byte-wise lexicographic order, as -1, 0 or 1.\<close>

fun str_compare :: "string \<Rightarrow> string \<Rightarrow> int" where
  "str_compare [] [] = 0"
| "str_compare [] (_ # _) = -1"
| "str_compare (_ # _) [] = 1"
| "str_compare (c # cs) (d # ds) =
     (if (of_char c :: nat) < of_char d then -1
      else if (of_char d :: nat) < of_char c then 1 else str_compare cs ds)"

section \<open>Package strconv: decimal conversions\<close>

definition digit_char :: "nat \<Rightarrow> char" where
  "digit_char d = char_of (48 + d)"

fun nat_str :: "nat \<Rightarrow> string" where
  "nat_str n = (if n < 10 then [digit_char n] else nat_str (n div 10) @ [digit_char (n mod 10)])"

declare nat_str.simps [simp del]

definition int_str :: "int \<Rightarrow> string" where
  "int_str i = (if i < 0 then ''-'' @ nat_str (nat (- i)) else nat_str (nat i))"

definition char_digit :: "char \<Rightarrow> nat option" where
  "char_digit c = (let n = (of_char c :: nat) in if 48 \<le> n \<and> n \<le> 57 then Some (n - 48) else None)"

fun parse_digits :: "nat \<Rightarrow> string \<Rightarrow> nat option" where
  "parse_digits acc [] = Some acc"
| "parse_digits acc (c # cs) =
     (case char_digit c of None \<Rightarrow> None | Some d \<Rightarrow> parse_digits (10 * acc + d) cs)"

definition parse_nat :: "string \<Rightarrow> nat option" where
  "parse_nat s = (if s = [] then None else parse_digits 0 s)"

text \<open>\<open>strconv.ParseInt(s, 10, w)\<close>: an optional sign, at least one digit, and the range
  of a signed \<open>w\<close>-bit integer; \<open>None\<close> is a syntax or range error.\<close>

definition ParseInt :: "nat \<Rightarrow> string \<Rightarrow> int option" where
  "ParseInt w s =
     (let (neg, ds) = (case s of [] \<Rightarrow> (False, [])
        | c # cs \<Rightarrow> if c = CHR ''-'' then (True, cs) else if c = CHR ''+'' then (False, cs) else (False, s))
      in case parse_nat ds of None \<Rightarrow> None
         | Some n \<Rightarrow>
             if neg then (if n \<le> 2 ^ (w - 1) then Some (- int n) else None)
             else (if n < 2 ^ (w - 1) then Some (int n) else None))"

section \<open>Maps and booleans\<close>

type_synonym 'v gomap = "(string \<times> 'v) list"
type_synonym labels = "string gomap"

text \<open>\<open>m[k]\<close> of a string map: the zero value where the key is missing.\<close>

definition label_get :: "labels \<Rightarrow> string \<Rightarrow> string" where
  "label_get m k = (case map_of m k of None \<Rightarrow> [] | Some v \<Rightarrow> v)"

text \<open>What the API server's equality-based label selection means: every pair of the selector
  is a label of the object.\<close>

definition labels_match :: "labels \<Rightarrow> labels \<Rightarrow> bool" where
  "labels_match sel m = list_all (\<lambda>(k, v). map_of m k = Some v) sel"

definition bool_str :: "bool \<Rightarrow> string" where
  "bool_str b = (if b then ''true'' else ''false'')"

section \<open>Errors\<close>

text \<open>
  An \<open>error\<close> value is what its consumers see of it.  \<open>K8sErr\<close> is a status error of the
  Kubernetes API with its reason, \<open>TypedErr\<close> an error of the orch-library error package with
  its kind, \<open>PlainErr\<close> any other error.
\<close>

datatype status_reason =
    ReasonNotFound | ReasonConflict | ReasonBadRequest | ReasonInternalError | ReasonAlreadyExists
  | ReasonForbidden | ReasonTimeout | ReasonInvalid | ReasonServerTimeout
  | ReasonServiceUnavailable | ReasonTooManyRequests | ReasonRequestEntityTooLarge
  | ReasonUnauthorized | ReasonUnknown

datatype typed_kind =
    KUnknown | KCanceled | KNotFound | KAlreadyExists | KUnauthorized | KForbidden | KConflict
  | KInvalid | KUnavailable | KNotSupported | KTimeout | KInternal | KAborted

datatype goerror =
    K8sErr status_reason string
  | TypedErr typed_kind string
  | PlainErr string

fun err_msg :: "goerror \<Rightarrow> string" where
  "err_msg (K8sErr _ m) = m"
| "err_msg (TypedErr _ m) = m"
| "err_msg (PlainErr m) = m"

text \<open>\<open>apierrors.IsNotFound\<close> and \<open>errors.IsNotFound\<close> of the typed errors.\<close>

fun k8s_not_found :: "goerror \<Rightarrow> bool" where
  "k8s_not_found (K8sErr r _) = (r = ReasonNotFound)"
| "k8s_not_found _ = False"

fun k8s_already_exists :: "goerror \<Rightarrow> bool" where
  "k8s_already_exists (K8sErr r _) = (r = ReasonAlreadyExists)"
| "k8s_already_exists _ = False"

fun typed_not_found :: "goerror \<Rightarrow> bool" where
  "typed_not_found (TypedErr k _) = (k = KNotFound)"
| "typed_not_found _ = False"

text \<open>A function that may hit a nil dereference, a write to a nil map or a slice out of
  range returns \<open>Panicked\<close> there.\<close>

datatype 'a go = Ret 'a | Panicked

definition go_bind :: "'a go \<Rightarrow> ('a \<Rightarrow> 'b go) \<Rightarrow> 'b go" where
  "go_bind x f = (case x of Ret a \<Rightarrow> f a | Panicked \<Rightarrow> Panicked)"

fun map_go :: "('a \<Rightarrow> 'b go) \<Rightarrow> 'a list \<Rightarrow> 'b list go" where
  "map_go f [] = Ret []"
| "map_go f (x # xs) = go_bind (f x) (\<lambda>y. go_bind (map_go f xs) (\<lambda>ys. Ret (y # ys)))"

lemma go_bind_simps [simp]:
  "go_bind (Ret a) f = f a"
  "go_bind Panicked f = Panicked"
  by (simp_all add: go_bind_def)

lemma go_bind_Ret: "go_bind x f = Ret b \<longleftrightarrow> (\<exists>a. x = Ret a \<and> f a = Ret b)"
  by (cases x) simp_all

lemma map_go_Ret: "(\<And>x. x \<in> set xs \<Longrightarrow> f x = Ret (g x)) \<Longrightarrow> map_go f xs = Ret (map g xs)"
  by (induction xs) simp_all

section \<open>Effects: a world with a trace\<close>

text \<open>
  The world of a computation has the external part \<open>env\<close> (the API server, the git server,
  the clock: whatever the calls answer from) and the \<open>trace\<close> of the calls made so far.
  Every external call goes through \<open>call\<close>, which records it.
\<close>

record ('e, 'w) world =
  env :: 'w
  trace :: "'e list"

type_synonym ('e, 'w, 'a) io = "(('e, 'w) world, 'a) state"

definition call :: "'e \<Rightarrow> ('w \<Rightarrow> 'a \<times> 'w) \<Rightarrow> ('e, 'w, 'a) io" where
  "call ev f = State (\<lambda>s. case f (env s) of (a, w) \<Rightarrow> (a, s\<lparr>env := w, trace := trace s @ [ev]\<rparr>))"

fun for_each :: "('a \<Rightarrow> ('s, unit) state) \<Rightarrow> 'a list \<Rightarrow> ('s, unit) state" where
  "for_each f [] = State_Monad.return ()"
| "for_each f (x # xs) = do { _ \<leftarrow> f x; for_each f xs }"

text \<open>A loop whose body returns from the function on an error.\<close>

fun for_err :: "('a \<Rightarrow> ('s, goerror option) state) \<Rightarrow> 'a list \<Rightarrow> ('s, goerror option) state" where
  "for_err f [] = State_Monad.return None"
| "for_err f (x # xs) =
     do { e \<leftarrow> f x; case e of Some err \<Rightarrow> State_Monad.return (Some err) | None \<Rightarrow> for_err f xs }"

text \<open>The same with a value that the body updates.\<close>

fun fold_err :: "('a \<Rightarrow> 'b \<Rightarrow> ('s, goerror option \<times> 'b) state) \<Rightarrow> 'a list \<Rightarrow> 'b \<Rightarrow> ('s, goerror option \<times> 'b) state" where
  "fold_err f [] b = State_Monad.return (None, b)"
| "fold_err f (x # xs) b =
     do { (e, b') \<leftarrow> f x b;
          case e of Some err \<Rightarrow> State_Monad.return (Some err, b') | None \<Rightarrow> fold_err f xs b' }"

fun fold_io :: "('a \<Rightarrow> 'b \<Rightarrow> ('s, 'b) state) \<Rightarrow> 'a list \<Rightarrow> 'b \<Rightarrow> ('s, 'b) state" where
  "fold_io f [] b = State_Monad.return b"
| "fold_io f (x # xs) b = do { b' \<leftarrow> f x b; fold_io f xs b' }"

definition when_io :: "bool \<Rightarrow> ('s, unit) state \<Rightarrow> ('s, unit) state" where
  "when_io b m = (if b then m else State_Monad.return ())"


text \<open>
  The early return on an error, \<open>x, err := m; if err != nil { return err }\<close>, as a bind over
  results \<open>goerror + 'a\<close>, and the same for a call that returns only an error.
\<close>

type_synonym 'a res = "goerror + 'a"

definition try_io :: "('s, 'a res) state \<Rightarrow> ('a \<Rightarrow> ('s, 'b res) state) \<Rightarrow> ('s, 'b res) state" where
  "try_io m f = do { r \<leftarrow> m; case r of Inl e \<Rightarrow> State_Monad.return (Inl e) | Inr x \<Rightarrow> f x }"

definition ret_io :: "'a \<Rightarrow> ('s, 'a res) state" where
  "ret_io x = State_Monad.return (Inr x)"

definition fail_io :: "goerror \<Rightarrow> ('s, 'a res) state" where
  "fail_io e = State_Monad.return (Inl e)"

definition guard_io :: "('s, goerror option) state \<Rightarrow> ('s, unit res) state" where
  "guard_io m = do { e \<leftarrow> m; State_Monad.return (case e of None \<Rightarrow> Inr () | Some err \<Rightarrow> Inl err) }"

fun map_try :: "('a \<Rightarrow> ('s, 'b res) state) \<Rightarrow> 'a list \<Rightarrow> ('s, 'b list res) state" where
  "map_try f [] = ret_io []"
| "map_try f (x # xs) = try_io (f x) (\<lambda>y. try_io (map_try f xs) (\<lambda>ys. ret_io (y # ys)))"

fun fold_try :: "('a \<Rightarrow> 'b \<Rightarrow> ('s, 'b res) state) \<Rightarrow> 'a list \<Rightarrow> 'b \<Rightarrow> ('s, 'b res) state" where
  "fold_try f [] b = ret_io b"
| "fold_try f (x # xs) b = try_io (f x b) (fold_try f xs)"

definition err_of :: "'a res \<Rightarrow> goerror option" where
  "err_of r = (case r of Inl e \<Rightarrow> Some e | Inr _ \<Rightarrow> None)"


section \<open>Running computations\<close>

lemma run_return [io_simps, simp]: "run_state (State_Monad.return x) s = (x, s)"
  by (simp add: State_Monad.return_def)

lemma run_bind [io_simps, simp]:
  "run_state (State_Monad.bind m f) s = (case run_state m s of (a, s') \<Rightarrow> run_state (f a) s')"
  by (cases m) (simp add: State_Monad.bind_def)

lemma run_call [io_simps, simp]:
  "run_state (call ev f) s = (case f (env s) of (a, w) \<Rightarrow> (a, s\<lparr>env := w, trace := trace s @ [ev]\<rparr>))"
  by (simp add: call_def)

lemma run_when [io_simps, simp]:
  "run_state (when_io b m) s = (if b then run_state m s else ((), s))"
  by (simp add: when_io_def)

text \<open>
  \<open>does P m Q\<close>: whatever the external world answers, every call that \<open>m\<close> makes satisfies
  \<open>P\<close>, nothing is removed from the trace, and the result satisfies \<open>Q\<close>.  Its rules follow
  the structure of the code, so that a safety property of a whole handler is proved from
  the guards around its calls.
\<close>

definition does :: "('e \<Rightarrow> bool) \<Rightarrow> ('e, 'w, 'a) io \<Rightarrow> ('a \<Rightarrow> bool) \<Rightarrow> bool" where
  "does P m Q = (\<forall>s. \<exists>es. trace (snd (run_state m s)) = trace s @ es \<and> list_all P es
      \<and> Q (fst (run_state m s)))"

lemma does_return [emits_intros]: "Q x \<Longrightarrow> does P (State_Monad.return x) Q"
  by (simp add: does_def)

lemma does_call [emits_intros]: "P ev \<Longrightarrow> (\<And>a. Q a) \<Longrightarrow> does P (call ev f) Q"
  by (simp add: does_def split: prod.splits)

lemma does_call_post: "P ev \<Longrightarrow> (\<And>w. Q (fst (f w))) \<Longrightarrow> does P (call ev f) Q"
  by (simp add: does_def split: prod.splits) (metis fst_conv)

lemma does_bind:
  assumes m: "does P m R" and f: "\<And>x. R x \<Longrightarrow> does P (f x) Q"
  shows "does P (State_Monad.bind m f) Q"
  unfolding does_def
proof
  fix s
  obtain a s' where r: "run_state m s = (a, s')" by (cases "run_state m s")
  from m r obtain es where 1: "trace s' = trace s @ es" "list_all P es" "R a"
    unfolding does_def by (metis fst_conv snd_conv)
  from f [OF 1(3)] obtain es' where
    2: "trace (snd (run_state (f a) s')) = trace s' @ es'" "list_all P es'" "Q (fst (run_state (f a) s'))"
    unfolding does_def by metis
  show "\<exists>es. trace (snd (run_state (State_Monad.bind m f) s)) = trace s @ es \<and> list_all P es
     \<and> Q (fst (run_state (State_Monad.bind m f) s))"
    by (rule exI [of _ "es @ es'"]) (use r 1 2 in simp)
qed

lemma does_bind_any [emits_intros]:
  "does P m (\<lambda>_. True) \<Longrightarrow> (\<And>x. does P (f x) Q) \<Longrightarrow> does P (State_Monad.bind m f) Q"
  by (rule does_bind)

lemma does_weaken: "does P m Q \<Longrightarrow> (\<And>e. P e \<Longrightarrow> P' e) \<Longrightarrow> (\<And>a. Q a \<Longrightarrow> Q' a) \<Longrightarrow> does P' m Q'"
  unfolding does_def by (metis list.pred_mono_strong)

lemma does_if [emits_intros]:
  "(b \<Longrightarrow> does P m Q) \<Longrightarrow> (\<not> b \<Longrightarrow> does P m' Q) \<Longrightarrow> does P (if b then m else m') Q"
  by simp

lemma does_when [emits_intros]: "(b \<Longrightarrow> does P m Q) \<Longrightarrow> Q () \<Longrightarrow> does P (when_io b m) Q"
  by (simp add: when_io_def does_return)

lemma does_option [emits_intros]:
  "(x = None \<Longrightarrow> does P m Q) \<Longrightarrow> (\<And>y. x = Some y \<Longrightarrow> does P (f y) Q) \<Longrightarrow>
   does P (case x of None \<Rightarrow> m | Some y \<Rightarrow> f y) Q"
  by (cases x) auto

lemma does_sum [emits_intros]:
  "(\<And>y. x = Inl y \<Longrightarrow> does P (g y) Q) \<Longrightarrow> (\<And>y. x = Inr y \<Longrightarrow> does P (f y) Q) \<Longrightarrow>
   does P (case x of Inl y \<Rightarrow> g y | Inr y \<Rightarrow> f y) Q"
  by (cases x) auto

lemma does_list [emits_intros]:
  "(xs = [] \<Longrightarrow> does P m Q) \<Longrightarrow> (\<And>y ys. xs = y # ys \<Longrightarrow> does P (f y ys) Q) \<Longrightarrow>
   does P (case xs of [] \<Rightarrow> m | y # ys \<Rightarrow> f y ys) Q"
  by (cases xs) auto

lemma does_go [emits_intros]:
  "(\<And>y. x = Ret y \<Longrightarrow> does P (f y) Q) \<Longrightarrow> (x = Panicked \<Longrightarrow> does P m Q) \<Longrightarrow>
   does P (case x of Ret y \<Rightarrow> f y | Panicked \<Rightarrow> m) Q"
  by (cases x) auto

lemma does_prod [emits_intros]:
  "(\<And>a b. x = (a, b) \<Longrightarrow> does P (f a b) Q) \<Longrightarrow> does P (case x of (a, b) \<Rightarrow> f a b) Q"
  by (cases x) auto

lemma does_let [emits_intros]: "does P (f x) Q \<Longrightarrow> does P (let y = x in f y) Q"
  by simp

lemma does_for_each [emits_intros]:
  "(\<And>x. x \<in> set xs \<Longrightarrow> does P (f x) (\<lambda>_. True)) \<Longrightarrow> Q () \<Longrightarrow> does P (for_each f xs) Q"
  by (induction xs) (auto intro!: does_return intro: does_bind)

lemma does_for_err [emits_intros]:
  "(\<And>x. x \<in> set xs \<Longrightarrow> does P (f x) (\<lambda>_. True)) \<Longrightarrow> (\<And>r. Q r) \<Longrightarrow> does P (for_err f xs) Q"
  by (induction xs) (auto intro!: does_return does_option intro: does_bind_any)

lemma does_fold_err [emits_intros]:
  "(\<And>x b. x \<in> set xs \<Longrightarrow> does P (f x b) (\<lambda>_. True)) \<Longrightarrow> (\<And>r. Q r) \<Longrightarrow> does P (fold_err f xs b) Q"
  by (induction xs arbitrary: b) (auto intro!: does_return does_option does_prod intro: does_bind_any)

lemma does_fold_io [emits_intros]:
  "(\<And>x b. x \<in> set xs \<Longrightarrow> does P (f x b) (\<lambda>_. True)) \<Longrightarrow> (\<And>r. Q r) \<Longrightarrow> does P (fold_io f xs b) Q"
  by (induction xs arbitrary: b) (auto intro!: does_return intro: does_bind_any)

lemma does_try:
  assumes "does P m (\<lambda>r. case r of Inl _ \<Rightarrow> True | Inr x \<Rightarrow> R x)" "\<And>e. Q (Inl e)"
    and "\<And>x. R x \<Longrightarrow> does P (f x) Q"
  shows "does P (try_io m f) Q"
  unfolding try_io_def
  by (rule does_bind [OF assms(1)]) (auto intro: does_return assms(2,3) split: sum.split)

lemma does_try_any [emits_intros]:
  "does P m (\<lambda>_. True) \<Longrightarrow> (\<And>e. Q (Inl e)) \<Longrightarrow> (\<And>x. does P (f x) Q) \<Longrightarrow> does P (try_io m f) Q"
  by (rule does_try [where R = "\<lambda>_. True"]) (auto elim: does_weaken split: sum.split)

lemma does_ret [emits_intros]: "Q (Inr x) \<Longrightarrow> does P (ret_io x) Q"
  by (simp add: ret_io_def does_return)

lemma does_fail [emits_intros]: "Q (Inl e) \<Longrightarrow> does P (fail_io e) Q"
  by (simp add: fail_io_def does_return)

lemma does_guard [emits_intros]:
  "does P m (\<lambda>_. True) \<Longrightarrow> (\<And>r. Q r) \<Longrightarrow> does P (guard_io m) Q"
  unfolding guard_io_def by (rule does_bind_any) (auto intro: does_return)

lemma does_map_try [emits_intros]:
  "(\<And>x. x \<in> set xs \<Longrightarrow> does P (f x) (\<lambda>_. True)) \<Longrightarrow> (\<And>r. Q r) \<Longrightarrow> does P (map_try f xs) Q"
  by (induction xs arbitrary: Q) (auto intro!: does_ret does_try_any)

lemma does_fold_try [emits_intros]:
  "(\<And>x b. x \<in> set xs \<Longrightarrow> does P (f x b) (\<lambda>_. True)) \<Longrightarrow> (\<And>r. Q r) \<Longrightarrow> does P (fold_try f xs b) Q"
  by (induction xs arbitrary: b) (auto intro!: does_ret does_try_any)

text \<open>
  \<open>post m Q\<close>: whatever state it starts in, the result of \<open>m\<close> satisfies \<open>Q\<close>.
\<close>

definition post :: "('s, 'a) state \<Rightarrow> ('a \<Rightarrow> bool) \<Rightarrow> bool" where
  "post m Q = (\<forall>s. Q (fst (run_state m s)))"

lemma post_any [simp]: "post m (\<lambda>_. True)"
  by (simp add: post_def)

lemma post_return [simp]: "post (State_Monad.return x) Q = Q x"
  by (simp add: post_def)

lemma post_ret [simp]: "post (ret_io x) Q = Q (Inr x)"
  by (simp add: ret_io_def)

lemma post_fail [simp]: "post (fail_io e) Q = Q (Inl e)"
  by (simp add: fail_io_def)

lemma post_bind: "post m R \<Longrightarrow> (\<And>x. R x \<Longrightarrow> post (f x) Q) \<Longrightarrow> post (State_Monad.bind m f) Q"
  by (simp add: post_def split: prod.split) (metis fst_conv)

lemma post_weaken: "post m Q \<Longrightarrow> (\<And>r. Q r \<Longrightarrow> Q' r) \<Longrightarrow> post m Q'"
  by (simp add: post_def)

lemma post_bind_post: "post m (\<lambda>x. post (f x) Q) \<Longrightarrow> post (State_Monad.bind m f) Q"
  by (rule post_bind)

lemma post_bind_any: "(\<And>x. post (f x) Q) \<Longrightarrow> post (State_Monad.bind m f) Q"
  by (rule post_bind [of _ "\<lambda>_. True"]) simp_all

lemma post_prod: "(\<And>a b. x = (a, b) \<Longrightarrow> post (f a b) Q) \<Longrightarrow> post (case x of (a, b) \<Rightarrow> f a b) Q"
  by (cases x) auto

lemma post_sum:
  "(\<And>y. x = Inl y \<Longrightarrow> post (g y) Q) \<Longrightarrow> (\<And>y. x = Inr y \<Longrightarrow> post (f y) Q) \<Longrightarrow>
   post (case x of Inl y \<Rightarrow> g y | Inr y \<Rightarrow> f y) Q"
  by (cases x) auto

lemma post_option:
  "(x = None \<Longrightarrow> post m Q) \<Longrightarrow> (\<And>y. x = Some y \<Longrightarrow> post (f y) Q) \<Longrightarrow>
   post (case x of None \<Rightarrow> m | Some y \<Rightarrow> f y) Q"
  by (cases x) auto

lemma post_if: "(b \<Longrightarrow> post m Q) \<Longrightarrow> (\<not> b \<Longrightarrow> post m' Q) \<Longrightarrow> post (if b then m else m') Q"
  by simp

lemma post_call: "(\<And>w. Q (fst (f w))) \<Longrightarrow> post (call ev f) Q"
  by (simp add: post_def split: prod.split) (metis fst_conv)

lemma post_conj: "post m P \<Longrightarrow> post m Q \<Longrightarrow> post m (\<lambda>r. P r \<and> Q r)"
  by (simp add: post_def)

text \<open>The invariant of a loop may speak of the elements visited so far.\<close>

lemma post_fold_io:
  assumes "\<And>ys y b. I ys b \<Longrightarrow> post (f y b) (I (ys @ [y]))"
  shows "I ys b \<Longrightarrow> post (fold_io f xs b) (I (ys @ xs))"
proof (induction xs arbitrary: ys b)
  case (Cons x xs)
  have "post (fold_io f xs b') (I (ys @ x # xs))" if "I (ys @ [x]) b'" for b'
    using Cons.IH [OF that] by simp
  with assms [OF Cons.prems] show ?case
    by (auto intro: post_bind)
qed simp

lemma post_for_err:
  assumes "\<And>x. x \<in> set xs \<Longrightarrow> post (f x) (\<lambda>r. case r of None \<Rightarrow> True | Some e \<Rightarrow> E e)"
  shows "post (for_err f xs) (\<lambda>r. case r of None \<Rightarrow> True | Some e \<Rightarrow> E e)"
  using assms
proof (induction xs)
  case (Cons x xs)
  have 1: "post (for_err f xs) (\<lambda>r. case r of None \<Rightarrow> True | Some e \<Rightarrow> E e)"
    by (rule Cons.IH) (simp add: Cons.prems)
  have 2: "post (f x) (\<lambda>r. case r of None \<Rightarrow> True | Some e \<Rightarrow> E e)"
    by (simp add: Cons.prems)
  show ?case
    by (simp, rule post_bind [OF 2]) (auto simp: 1 split: option.split)
qed simp

text \<open>\<open>ensures m Q\<close>: if \<open>m\<close> returns without an error, its value satisfies \<open>Q\<close>.\<close>

definition ensures :: "('s, 'a res) state \<Rightarrow> ('a \<Rightarrow> bool) \<Rightarrow> bool" where
  "ensures m Q = post m (\<lambda>r. case r of Inl _ \<Rightarrow> True | Inr x \<Rightarrow> Q x)"

lemma ensures_any [simp]: "ensures m (\<lambda>_. True)"
  by (auto simp: ensures_def post_def split: sum.split)

lemma ensures_ret [simp]: "ensures (ret_io x) Q = Q x"
  by (simp add: ensures_def)

lemma ensures_fail [simp]: "ensures (fail_io e) Q"
  by (simp add: ensures_def)

lemma ensures_try: "ensures m R \<Longrightarrow> (\<And>x. R x \<Longrightarrow> ensures (f x) Q) \<Longrightarrow> ensures (try_io m f) Q"
  unfolding ensures_def try_io_def
  by (rule post_bind, assumption) (auto split: sum.splits)

lemma ensures_try_any: "(\<And>x. ensures (f x) Q) \<Longrightarrow> ensures (try_io m f) Q"
  by (rule ensures_try [of _ "\<lambda>_. True"]) auto

lemma ensures_weaken: "ensures m Q \<Longrightarrow> (\<And>x. Q x \<Longrightarrow> Q' x) \<Longrightarrow> ensures m Q'"
  unfolding ensures_def by (erule post_weaken) (auto split: sum.splits)

lemma ensures_map_try:
  "(\<And>x. ensures (f x) (R x)) \<Longrightarrow> ensures (map_try f xs) (list_all2 R xs)"
  by (induction xs) (auto intro!: ensures_try)

lemma ensures_fold_try:
  assumes "\<And>x b. x \<in> set xs \<Longrightarrow> I b \<Longrightarrow> ensures (f x b) I"
  shows "I b \<Longrightarrow> ensures (fold_try f xs b) I"
  using assms by (induction xs arbitrary: b) (auto intro!: ensures_try)

section \<open>Pre- and postconditions\<close>

text \<open>\<open>hoare P m Q\<close>: from a state with \<open>P\<close>, the result and the final state of \<open>m\<close> satisfy \<open>Q\<close>.\<close>

definition hoare :: "('s \<Rightarrow> bool) \<Rightarrow> ('s, 'a) state \<Rightarrow> ('a \<Rightarrow> 's \<Rightarrow> bool) \<Rightarrow> bool" where
  "hoare P m Q = (\<forall>s. P s \<longrightarrow> (case run_state m s of (r, s') \<Rightarrow> Q r s'))"

lemma hoareD: "hoare P m Q \<Longrightarrow> P s \<Longrightarrow> run_state m s = (r, s') \<Longrightarrow> Q r s'"
  by (auto simp: hoare_def)

lemma hoare_return: "(\<And>s. P s \<Longrightarrow> Q x s) \<Longrightarrow> hoare P (State_Monad.return x) Q"
  by (simp add: hoare_def)

lemma hoare_bind: "hoare P m R \<Longrightarrow> (\<And>x. hoare (R x) (f x) Q) \<Longrightarrow> hoare P (State_Monad.bind m f) Q"
  by (fastforce simp: hoare_def split: prod.splits)

lemma hoare_call:
  "(\<And>s a w. P s \<Longrightarrow> f (env s) = (a, w) \<Longrightarrow> Q a (s\<lparr>env := w, trace := trace s @ [ev]\<rparr>)) \<Longrightarrow>
   hoare P (call ev f) Q"
  by (auto simp: hoare_def split: prod.split)

lemma hoare_pre: "hoare P m Q \<Longrightarrow> (\<And>s. P' s \<Longrightarrow> P s) \<Longrightarrow> hoare P' m Q"
  by (auto simp: hoare_def)

lemma hoare_post: "hoare P m Q \<Longrightarrow> (\<And>r s. Q r s \<Longrightarrow> Q' r s) \<Longrightarrow> hoare P m Q'"
  by (fastforce simp: hoare_def split: prod.splits)

lemma hoare_assume: "(\<And>s. P s \<Longrightarrow> hoare (\<lambda>t. t = s) m Q) \<Longrightarrow> hoare P m Q"
  by (auto simp: hoare_def)

lemma hoare_fact: "(b \<Longrightarrow> hoare P m Q) \<Longrightarrow> hoare (\<lambda>s. b \<and> P s) m Q"
  by (auto simp: hoare_def)

lemma hoare_prod: "(\<And>a b. x = (a, b) \<Longrightarrow> hoare P (f a b) Q) \<Longrightarrow> hoare P (case x of (a, b) \<Rightarrow> f a b) Q"
  by (cases x) auto

lemma hoare_option:
  "(x = None \<Longrightarrow> hoare P m Q) \<Longrightarrow> (\<And>y. x = Some y \<Longrightarrow> hoare P (f y) Q) \<Longrightarrow>
   hoare P (case x of None \<Rightarrow> m | Some y \<Rightarrow> f y) Q"
  by (cases x) auto

lemma hoare_sum:
  "(\<And>y. x = Inl y \<Longrightarrow> hoare P (g y) Q) \<Longrightarrow> (\<And>y. x = Inr y \<Longrightarrow> hoare P (f y) Q) \<Longrightarrow>
   hoare P (case x of Inl y \<Rightarrow> g y | Inr y \<Rightarrow> f y) Q"
  by (cases x) auto

lemma hoare_go:
  "(\<And>y. x = Ret y \<Longrightarrow> hoare P (f y) Q) \<Longrightarrow> (x = Panicked \<Longrightarrow> hoare P m Q) \<Longrightarrow>
   hoare P (case x of Ret y \<Rightarrow> f y | Panicked \<Rightarrow> m) Q"
  by (cases x) auto

lemma hoare_any: "(\<And>r s. Q r s) \<Longrightarrow> hoare P m Q"
  by (auto simp: hoare_def split: prod.split)

text \<open>The calls a computation makes from a given world.\<close>

definition effects :: "('e, 'w, 'a) io \<Rightarrow> ('e, 'w) world \<Rightarrow> 'e list" where
  "effects m s = drop (length (trace s)) (trace (snd (run_state m s)))"

definition result :: "('s, 'a) state \<Rightarrow> 's \<Rightarrow> 'a" where
  "result m s = fst (run_state m s)"

lemma does_effects: "does P m Q \<Longrightarrow> list_all P (effects m s)"
  unfolding does_def effects_def by (metis append_eq_conv_conj)

lemma does_effectsD: "does P m Q \<Longrightarrow> e \<in> set (effects m s) \<Longrightarrow> P e"
  using does_effects [of P m Q s] by (simp add: list_all_iff)

lemma does_result: "does P m Q \<Longrightarrow> Q (result m s)"
  unfolding does_def result_def by metis

lemma post_result: "post m Q \<Longrightarrow> Q (result m s)"
  by (simp add: post_def result_def)

lemma does_run: "does P m Q \<Longrightarrow> \<exists>es. trace (snd (run_state m s)) = trace s @ es \<and> list_all P es"
  unfolding does_def by blast

lemma effects_bind:
  assumes "does (\<lambda>_. True) m (\<lambda>_. True)" "\<And>x. does (\<lambda>_. True) (f x) (\<lambda>_. True)"
  shows "effects (State_Monad.bind m f) s = effects m s @ effects (f (result m s)) (snd (run_state m s))"
proof -
  obtain x s1 where m: "run_state m s = (x, s1)" by (cases "run_state m s")
  from does_run [OF assms(1), of s] m obtain es where es: "trace s1 = trace s @ es" by auto
  from does_run [OF assms(2), of x s1] obtain es' where "trace (snd (run_state (f x) s1)) = trace s1 @ es'" by auto
  with m es show ?thesis by (simp add: effects_def result_def)
qed

lemma effects_call [simp]: "effects (call ev f) s = [ev]"
  by (simp add: effects_def split: prod.split)

lemma effects_return [simp]: "effects (State_Monad.return x) s = []"
  by (simp add: effects_def)

lemma reach_left:
  assumes "does (\<lambda>_. True) m (\<lambda>_. True)" "\<And>x. does (\<lambda>_. True) (f x) (\<lambda>_. True)"
    and "e \<in> set (effects m s)"
  shows "e \<in> set (effects (State_Monad.bind m f) s)"
  using assms(3) by (simp add: effects_bind [OF assms(1,2)])

lemma reach_right:
  assumes "does (\<lambda>_. True) m (\<lambda>_. True)" "\<And>x. does (\<lambda>_. True) (f x) (\<lambda>_. True)"
    and "\<And>x t. e \<in> set (effects (f x) t)"
  shows "e \<in> set (effects (State_Monad.bind m f) s)"
  using assms(3) by (simp add: effects_bind [OF assms(1,2)])

lemma result_call: "result (call ev f) s = fst (f (env s))"
  by (simp add: result_def split: prod.split)

lemma for_each_reaches:
  assumes "\<And>x. does (\<lambda>_. True) (f x) (\<lambda>_. True)" "\<And>s. e \<in> set (effects (f x) s)" "x \<in> set xs"
  shows "e \<in> set (effects (for_each f xs) s)"
  using assms(3)
proof (induction xs arbitrary: s)
  case (Cons y ys)
  have "does (\<lambda>_. True) (for_each f ys) (\<lambda>_. True)"
    by (intro emits_intros assms(1) TrueI)
  then have "effects (for_each f (y # ys)) s = effects (f y) s @ effects (for_each f ys) (snd (run_state (f y) s))"
    unfolding for_each.simps by (intro effects_bind assms(1))
  with Cons assms(2) [of s] show ?case by auto
qed simp

section \<open>Lists, strings and maps\<close>

lemma label_get_simps [simp]:
  "label_get [] k = []"
  "label_get ((k', v) # m) k = (if k' = k then v else label_get m k)"
  by (auto simp: label_get_def)

lemma label_get_Some: "map_of m k = Some v \<Longrightarrow> label_get m k = v"
  by (simp add: label_get_def)

lemma label_get_update [simp]: "label_get (AList.update k v m) k' = (if k' = k then v else label_get m k')"
  by (simp add: label_get_def update_conv')

lemma map_of_filter_key: "map_of (filter (\<lambda>(k, _). P k) m) k = (if P k then map_of m k else None)"
  by (induction m) auto

lemma fst_filter_key: "set (map fst (filter (\<lambda>(k, _). P k) m)) \<subseteq> {k. P k}"
  by (induction m) auto

lemma HasPrefix_append [simp]: "HasPrefix (p @ s) p"
  by (simp add: HasPrefix_def)

lemma HasPrefix_iff: "HasPrefix s p = (\<exists>r. s = p @ r)"
  by (metis HasPrefix_append HasPrefix_def append_take_drop_id)

lemma HasSuffix_append [simp]: "HasSuffix (s @ p) p"
  by (simp add: HasSuffix_def)

lemma TrimSuffix_append [simp]: "TrimSuffix (s @ p) p = s"
  by (simp add: TrimSuffix_def)

lemma TrimPrefix_append [simp]: "TrimPrefix (p @ s) p = s"
  by (simp add: TrimPrefix_def)

lemma Contains_append: "Contains (a @ p @ b) p"
proof (induction a)
  case Nil
  show ?case by (cases "p @ b") (auto simp: HasPrefix_iff, metis Cons_eq_append_conv)
next
  case (Cons c a)
  then show ?case by simp
qed

lemma Contains_split: "Contains s p \<Longrightarrow> \<exists>a b. s = a @ p @ b"
proof (induction s)
  case Nil
  then show ?case by simp
next
  case (Cons c cs)
  show ?case
  proof (cases "HasPrefix (c # cs) p")
    case True
    then show ?thesis by (metis HasPrefix_iff append_Nil)
  next
    case False
    then obtain a b where "cs = a @ p @ b" using Cons by auto
    then show ?thesis by (metis append_Cons)
  qed
qed

lemma Contains_iff: "Contains s p = (\<exists>a b. s = a @ p @ b)"
  using Contains_append Contains_split by blast

text \<open>Splitting at a character, and joining what was split.\<close>

lemma split_go_ne [simp]: "split_go sep acc t \<noteq> []"
  by (induction sep acc t rule: split_go.induct) auto

lemma split_go_no: "c \<notin> set x \<Longrightarrow> split_go [c] acc x = [rev acc @ x]"
  by (induction x arbitrary: acc) (auto simp: HasPrefix_def)

lemma split_go_sep: "c \<notin> set x \<Longrightarrow> split_go [c] acc (x @ c # t) = (rev acc @ x) # split_go [c] [] t"
  by (induction x arbitrary: acc) (auto simp: HasPrefix_def)

lemma Split_Join_char: "ks \<noteq> [] \<Longrightarrow> list_all (\<lambda>k. c \<notin> set k) ks \<Longrightarrow> Split (Join ks [c]) [c] = ks"
  by (induction ks "[c]" rule: Join.induct) (simp_all add: Split_def split_go_no split_go_sep)

lemma split_go_parts: "c \<notin> set acc \<Longrightarrow> list_all (\<lambda>x. c \<notin> set x) (split_go [c] acc s)"
  by (induction s arbitrary: acc) (auto simp: HasPrefix_def)

lemma Split_parts: "list_all (\<lambda>x. c \<notin> set x) (Split s [c])"
  by (simp add: Split_def split_go_parts)

lemma Split_ne [simp]: "Split s sep \<noteq> []"
  by (simp add: Split_def)

end
