(* ===== verification/ApiTypes.thy ===== *)
theory ApiTypes
  imports Prelude
begin

text \<open>
  The custom resources of the deployment manager (package api/v1beta1) and the fields of the
  Kubernetes and Fleet objects that the controllers read or write.

  A struct is a record whose fields carry the Go names behind a short prefix.  An enumeration
  over strings keeps its string type, because the zero value \<open>''''\<close> is meaningful in the code;
  its constants are abbreviations.  A pointer that the code dereferences, and a map that it
  writes to, is an \<open>option\<close>, with \<open>None\<close> for nil; maps that are only read, or made before every
  write, are plain association lists.  Times are integers in nanoseconds.
\<close>

section \<open>Enumerations and label keys\<close>

type_synonym StateType = string
type_synonym DeploymentType = string
type_synonym LabelType = string

abbreviation Down :: StateType where "Down \<equiv> ''Down''"
abbreviation Running :: StateType where "Running \<equiv> ''Running''"
abbreviation Unknown :: StateType where "Unknown \<equiv> ''Unknown''"
abbreviation StateError :: StateType where "StateError \<equiv> ''Error''"
abbreviation InternalError :: StateType where "InternalError \<equiv> ''InternalError''"
abbreviation Deploying :: StateType where "Deploying \<equiv> ''Deploying''"
abbreviation Updating :: StateType where "Updating \<equiv> ''Updating''"
abbreviation Terminating :: StateType where "Terminating \<equiv> ''Terminating''"
abbreviation NoTargetClusters :: StateType where "NoTargetClusters \<equiv> ''NoTargetClusters''"

abbreviation AutoScaling :: DeploymentType where "AutoScaling \<equiv> ''auto-scaling''"
abbreviation Targeted :: DeploymentType where "Targeted \<equiv> ''targeted''"

abbreviation LabelAppName :: LabelType where
  "LabelAppName \<equiv> ''app.edge-orchestrator.intel.com/app-name''"
abbreviation LabelBundleName :: LabelType where
  "LabelBundleName \<equiv> ''app.edge-orchestrator.intel.com/bundle-name''"
abbreviation LabelBundleType :: LabelType where
  "LabelBundleType \<equiv> ''app.edge-orchestrator.intel.com/bundle-type''"
abbreviation LabelDeploymentID :: LabelType where
  "LabelDeploymentID \<equiv> ''app.edge-orchestrator.intel.com/deployment-id''"
abbreviation FleetClusterID :: LabelType where
  "FleetClusterID \<equiv> ''fleet.cattle.io/cluster''"
abbreviation FleetClusterNamespace :: LabelType where
  "FleetClusterNamespace \<equiv> ''fleet.cattle.io/cluster-namespace''"
abbreviation LabelDeploymentGeneration :: LabelType where
  "LabelDeploymentGeneration \<equiv> ''deploymentGeneration''"
abbreviation LabelClusterName :: LabelType where
  "LabelClusterName \<equiv> ''edge-orchestrator.intel.com/clustername''"
abbreviation CapiInfraName :: LabelType where
  "CapiInfraName \<equiv> ''edge-orchestrator.intel.com/capiInfraName''"
abbreviation FleetProjectID :: LabelType where
  "FleetProjectID \<equiv> ''edge-orchestrator.intel.com/project-id''"
abbreviation FleetHostUuid :: LabelType where
  "FleetHostUuid \<equiv> ''edge-orchestrator.intel.com/host-uuid''"
abbreviation AppOrchActiveProjectID :: LabelType where
  "AppOrchActiveProjectID \<equiv> ''app.edge-orchestrator.intel.com/project-id''"
abbreviation FinalizerGitRemote :: string where
  "FinalizerGitRemote \<equiv> ''app.edge-orchestrator.intel.com/git-remote''"
abbreviation FinalizerCatalog :: string where
  "FinalizerCatalog \<equiv> ''app.edge-orchestrator.intel.com/catalog''"
abbreviation FinalizerDependency :: string where
  "FinalizerDependency \<equiv> ''app.edge-orchestrator.intel.com/dependency''"
abbreviation FleetRsProxy :: LabelType where
  "FleetRsProxy \<equiv> ''app.edge-orchestrator.intel.com/fleet-rs-secret''"
abbreviation FleetGitSecretName :: string where
  "FleetGitSecretName \<equiv> ''fleet-gitrepo-cred''"

section \<open>Object metadata and conditions of Kubernetes\<close>

record OwnerReference =
  ow_APIVersion :: string
  ow_Kind :: string
  ow_Name :: string
  ow_UID :: string
  ow_Controller :: bool

record ObjectMeta =
  om_Name :: string
  om_Namespace :: string
  om_UID :: string
  om_Labels :: "labels option"
  om_Annotations :: "labels option"
  om_Finalizers :: "string list"
  om_OwnerReferences :: "OwnerReference list"
  om_Generation :: int
  om_CreationTimestamp :: int
  om_DeletionTimestamp :: "int option"
  om_ResourceVersion :: string

text \<open>Reading a nil map gives the zero value, as reading an empty one does.\<close>

definition labels_of :: "ObjectMeta \<Rightarrow> labels" where
  "labels_of m = (case om_Labels m of None \<Rightarrow> [] | Some l \<Rightarrow> l)"

definition empty_meta :: ObjectMeta where
  "empty_meta = \<lparr>om_Name = [], om_Namespace = [], om_UID = [], om_Labels = None, om_Annotations = None,
     om_Finalizers = [], om_OwnerReferences = [], om_Generation = 0, om_CreationTimestamp = 0,
     om_DeletionTimestamp = None, om_ResourceVersion = []\<rparr>"

text \<open>The controller among the owners of an object, as the API machinery finds it.\<close>

definition GetControllerOf :: "ObjectMeta \<Rightarrow> OwnerReference option" where
  "GetControllerOf m = find ow_Controller (om_OwnerReferences m)"

text \<open>\<open>metav1.ConditionStatus\<close>: the strings True, False and Unknown.\<close>

type_synonym ConditionStatus = string

abbreviation ConditionTrue :: ConditionStatus where "ConditionTrue \<equiv> ''True''"
abbreviation ConditionFalse :: ConditionStatus where "ConditionFalse \<equiv> ''False''"
abbreviation ConditionUnknown :: ConditionStatus where "ConditionUnknown \<equiv> ''Unknown''"

record Condition =
  co_Type :: string
  co_Status :: ConditionStatus
  co_LastTransitionTime :: int
  co_Reason :: string
  co_Message :: string

text \<open>\<open>genericcondition.GenericCondition\<close>, the condition type of the Fleet objects.\<close>

record GenericCondition =
  gc_Type :: string
  gc_Status :: ConditionStatus
  gc_Message :: string

record ObjectReference =
  or_Name :: string
  or_Kind :: string
  or_APIVersion :: string

section \<open>deployment_types.go\<close>

record Namespace =
  ns_Name :: string
  ns_Labels :: labels
  ns_Annotations :: labels

record DeploymentPackageRef =
  dp_Name :: string
  dp_Version :: string
  dp_ProfileName :: string
  dp_ForbidsMultipleDeployments :: bool
  dp_Namespaces :: "Namespace list"

record DependentDeploymentRef =
  dd_DeploymentPackageRef :: DeploymentPackageRef
  dd_DeploymentName :: string

record HelmApp =
  ha_Chart :: string
  ha_Version :: string
  ha_Repo :: string
  ha_RepoSecretName :: string
  ha_ImageRegistry :: string
  ha_ImageRegistrySecretName :: string

record IgnoreResource =
  ir_Name :: string
  ir_Kind :: string
  ir_Namespace :: string

record Application =
  ap_Name :: string
  ap_Version :: string
  ap_Namespace :: string
  ap_NamespaceLabels :: labels
  ap_Targets :: "labels list"
  ap_ProfileSecretName :: string
  ap_ValueSecretName :: string
  ap_DependsOn :: "string list"
  ap_RedeployAfterUpdate :: bool
  ap_IgnoreResources :: "IgnoreResource list"
  ap_HelmApp :: "HelmApp option"
  ap_DependentDeploymentPackages :: "DeploymentPackageRef gomap"
  ap_EnableServiceExport :: bool

record DeploymentSpec =
  sp_DisplayName :: string
  sp_Project :: string
  sp_DeploymentPackageRef :: DeploymentPackageRef
  sp_Applications :: "Application list"
  sp_DeploymentType :: DeploymentType
  sp_ChildDeploymentList :: "DependentDeploymentRef gomap"
  sp_NetworkRef :: ObjectReference

record ClusterSummary =
  cs_Total :: int
  cs_Running :: int
  cs_Down :: int
  cs_Unknown :: int

record DeploymentStatus =
  st_Conditions :: "Condition list"
  st_Display :: string
  st_State :: StateType
  st_Message :: string
  st_Summary :: ClusterSummary
  st_DeployInProgress :: bool
  st_LastForceResync :: string
  st_LastStatusUpdate :: string
  st_ReconciledGeneration :: int
  st_ParentDeploymentList :: "DependentDeploymentRef gomap option"

record Deployment =
  d_Meta :: ObjectMeta
  d_Spec :: DeploymentSpec
  d_Status :: DeploymentStatus

text \<open>The UID of the object is the deployment ID.\<close>

definition GetId :: "Deployment \<Rightarrow> string" where
  "GetId d = om_UID (d_Meta d)"

text \<open>The zero values, as a composite literal without the field has them.\<close>

definition empty_pkgref :: DeploymentPackageRef where
  "empty_pkgref = \<lparr>dp_Name = [], dp_Version = [], dp_ProfileName = [],
     dp_ForbidsMultipleDeployments = False, dp_Namespaces = []\<rparr>"

definition empty_objref :: ObjectReference where
  "empty_objref = \<lparr>or_Name = [], or_Kind = [], or_APIVersion = []\<rparr>"

definition empty_app :: Application where
  "empty_app = \<lparr>ap_Name = [], ap_Version = [], ap_Namespace = [], ap_NamespaceLabels = [],
     ap_Targets = [], ap_ProfileSecretName = [], ap_ValueSecretName = [], ap_DependsOn = [],
     ap_RedeployAfterUpdate = False, ap_IgnoreResources = [], ap_HelmApp = None,
     ap_DependentDeploymentPackages = [], ap_EnableServiceExport = False\<rparr>"

definition empty_spec :: DeploymentSpec where
  "empty_spec = \<lparr>sp_DisplayName = [], sp_Project = [], sp_DeploymentPackageRef = empty_pkgref,
     sp_Applications = [], sp_DeploymentType = [], sp_ChildDeploymentList = [],
     sp_NetworkRef = empty_objref\<rparr>"

definition empty_status :: DeploymentStatus where
  "empty_status = \<lparr>st_Conditions = [], st_Display = [], st_State = [], st_Message = [],
     st_Summary = \<lparr>cs_Total = 0, cs_Running = 0, cs_Down = 0, cs_Unknown = 0\<rparr>,
     st_DeployInProgress = False, st_LastForceResync = [], st_LastStatusUpdate = [],
     st_ReconciledGeneration = 0, st_ParentDeploymentList = None\<rparr>"

definition empty_deployment :: Deployment where
  "empty_deployment = \<lparr>d_Meta = empty_meta, d_Spec = empty_spec, d_Status = empty_status\<rparr>"

section \<open>deploymentcluster_types.go\<close>

type_synonym CountType = string

abbreviation NotUsed :: CountType where "NotUsed \<equiv> ''notUsed''"
abbreviation ClusterCounts :: CountType where "ClusterCounts \<equiv> ''clusterCounts''"
abbreviation AppCounts :: CountType where "AppCounts \<equiv> ''appCounts''"

record Summary =
  su_Type :: CountType
  su_Total :: int
  su_Running :: int
  su_Down :: int
  su_Unknown :: int

record Status =
  ss_State :: StateType
  ss_Message :: string
  ss_Summary :: Summary

record App =
  pp_Name :: string
  pp_Id :: string
  pp_DeploymentGeneration :: int
  pp_Status :: Status

record DeploymentClusterSpec =
  dcs_DeploymentID :: string
  dcs_ClusterID :: string
  dcs_Namespace :: string

record DeploymentClusterStatus =
  dct_Conditions :: "Condition list"
  dct_Name :: string
  dct_Status :: Status
  dct_Display :: string
  dct_LastStatusUpdate :: int
  dct_Apps :: "App list"

record DeploymentCluster =
  dc_Meta :: ObjectMeta
  dc_Spec :: DeploymentClusterSpec
  dc_Status :: DeploymentClusterStatus

definition empty_summary :: Summary where
  "empty_summary = \<lparr>su_Type = [], su_Total = 0, su_Running = 0, su_Down = 0, su_Unknown = 0\<rparr>"

definition empty_dc :: DeploymentCluster where
  "empty_dc = \<lparr>dc_Meta = empty_meta,
     dc_Spec = \<lparr>dcs_DeploymentID = [], dcs_ClusterID = [], dcs_Namespace = []\<rparr>,
     dc_Status = \<lparr>dct_Conditions = [], dct_Name = [],
       dct_Status = \<lparr>ss_State = [], ss_Message = [], ss_Summary = empty_summary\<rparr>,
       dct_Display = [], dct_LastStatusUpdate = 0, dct_Apps = []\<rparr>\<rparr>"

end
