(* ===== verification/ClusterTypes.thy ===== *)
theory ClusterTypes
  imports ApiTypes
begin

text \<open>
  The Cluster resource (cluster_types.go) with its status update \<open>SetStatus\<close>, and the parts of
  the Fleet objects (package fleet.cattle.io/v1alpha1), of Jobs and of Pods that the controllers
  read or write.  The format of a time as RFC 3339 depends on the local time zone and is a
  parameter.
\<close>

section \<open>Objects of Fleet and of the batch API\<close>

record FleetBundleSummary =
  fb_NotReady :: int
  fb_WaitApplied :: int
  fb_ErrApplied :: int
  fb_OutOfSync :: int
  fb_Modified :: int
  fb_Ready :: int
  fb_Pending :: int
  fb_DesiredReady :: int

record FleetResourceCounts =
  fr_Ready :: int
  fr_DesiredReady :: int
  fr_WaitApplied :: int
  fr_Modified :: int
  fr_Orphaned :: int
  fr_Missing :: int
  fr_Unknown :: int
  fr_NotReady :: int

record FleetClusterStatus =
  fcs_Summary :: FleetBundleSummary
  fcs_ResourceCounts :: FleetResourceCounts
  fcs_AgentLastSeen :: int
  fcs_AgentNamespace :: string
  fcs_DisplayReadyBundles :: string
  fcs_DisplayState :: string
  fcs_Conditions :: "GenericCondition list"

record FleetCluster =
  fc_Meta :: ObjectMeta
  fc_KubeConfigSecret :: string
  fc_ClientID :: string
  fc_Status :: FleetClusterStatus

record BundleDeployment =
  bd_Meta :: ObjectMeta
  bd_SpecDeploymentID :: string
  bd_AppliedDeploymentID :: string
  bd_Ready :: bool
  bd_NonModified :: bool
  bd_DisplayState :: string
  bd_Conditions :: "GenericCondition list"

record GitTarget =
  gt_Name :: string
  gt_MatchLabels :: labels

record GitRepo =
  gr_Meta :: ObjectMeta
  gr_Repo :: string
  gr_Paths :: "string list"
  gr_HelmSecretName :: string
  gr_ClientSecretName :: string
  gr_Targets :: "GitTarget list"
  gr_CABundle :: string
  gr_PollingInterval :: "int option"
  gr_ForceSyncGeneration :: int
  gr_Conditions :: "GenericCondition list"
  gr_DisplayMessage :: string

record Job =
  jb_Name :: string
  jb_Succeeded :: int

text \<open>A container status holds its terminated state, as reason and message, if it has one.\<close>

record Pod =
  po_Phase :: string
  po_CreationTimestamp :: int
  po_Terminated :: "(string \<times> string) option list"

section \<open>cluster_types.go\<close>

abbreviation ClusterConditionKubeconfig :: string where
  "ClusterConditionKubeconfig \<equiv> ''KubeconfigReady''"
abbreviation ClusterOrchKeyProjectID :: string where
  "ClusterOrchKeyProjectID \<equiv> ''edge-orchestrator.intel.com/project-id''"

record ClusterSpec =
  cl_Name :: string
  cl_DisplayName :: string
  cl_KubeConfigSecretName :: string

record BundleSummary =
  bs_NotReady :: string
  bs_WaitApplied :: string
  bs_ErrApplied :: string
  bs_OutOfSync :: string
  bs_Modified :: string
  bs_Ready :: string
  bs_Pending :: string
  bs_DesiredReady :: string

record ResourceCounts =
  rc_Ready :: string
  rc_DesiredReady :: string
  rc_WaitApplied :: string
  rc_Modified :: string
  rc_Orphaned :: string
  rc_Missing :: string
  rc_Unknown :: string
  rc_NotReady :: string

record FleetAgentStatus =
  fa_LastSeen :: int
  fa_Namespace :: string

record ClusterDisplay =
  cd_ReadyBundles :: string
  cd_ReadyNodes :: string
  cd_SampleNode :: string
  cd_State :: string

record FleetStatus =
  fs_BundleSummary :: BundleSummary
  fs_ResourceCounts :: ResourceCounts
  fs_FleetAgentStatus :: FleetAgentStatus
  fs_ClusterDisplay :: ClusterDisplay

record ClusterStatus =
  cls_Conditions :: "Condition list"
  cls_Display :: string
  cls_State :: StateType
  cls_Message :: string
  cls_LastStatusUpdate :: string
  cls_ReconciledGeneration :: int
  cls_FleetClusterLastGeneration :: int
  cls_FleetStatus :: FleetStatus

record Cluster =
  c_Meta :: ObjectMeta
  c_Spec :: ClusterSpec
  c_Status :: ClusterStatus

definition deepCopyBundleSummary :: "FleetBundleSummary \<Rightarrow> BundleSummary" where
  "deepCopyBundleSummary src = \<lparr>
     bs_NotReady = int_str (fb_NotReady src),
     bs_WaitApplied = int_str (fb_WaitApplied src),
     bs_ErrApplied = int_str (fb_ErrApplied src),
     bs_OutOfSync = int_str (fb_OutOfSync src),
     bs_Modified = int_str (fb_Modified src),
     bs_Ready = int_str (fb_Ready src),
     bs_Pending = int_str (fb_Pending src),
     bs_DesiredReady = int_str (fb_DesiredReady src)\<rparr>"

definition deepCopyResourceCounts :: "FleetResourceCounts \<Rightarrow> ResourceCounts" where
  "deepCopyResourceCounts src = \<lparr>
     rc_Ready = int_str (fr_Ready src),
     rc_DesiredReady = int_str (fr_DesiredReady src),
     rc_WaitApplied = int_str (fr_WaitApplied src),
     rc_Modified = int_str (fr_Modified src),
     rc_Orphaned = int_str (fr_Orphaned src),
     rc_Missing = int_str (fr_Missing src),
     rc_Unknown = int_str (fr_Unknown src),
     rc_NotReady = int_str (fr_NotReady src)\<rparr>"

definition deepCopyAgentStatus :: "FleetClusterStatus \<Rightarrow> FleetAgentStatus" where
  "deepCopyAgentStatus src = \<lparr>fa_LastSeen = fcs_AgentLastSeen src, fa_Namespace = fcs_AgentNamespace src\<rparr>"

text \<open>The two node fields are never copied, so they are always the placeholder.\<close>

definition nil_default :: "string \<Rightarrow> string" where
  "nil_default s = (if s = [] then ''nil'' else s)"

definition deepCopyClusterDisplay :: "FleetClusterStatus \<Rightarrow> ClusterDisplay" where
  "deepCopyClusterDisplay src = (let
     result = \<lparr>cd_ReadyBundles = fcs_DisplayReadyBundles src, cd_ReadyNodes = [], cd_SampleNode = [],
       cd_State = fcs_DisplayState src\<rparr>
   in result\<lparr>cd_ReadyBundles := nil_default (cd_ReadyBundles result),
       cd_ReadyNodes := nil_default (cd_ReadyNodes result),
       cd_SampleNode := nil_default (cd_SampleNode result),
       cd_State := nil_default (cd_State result)\<rparr>)"

text \<open>The loop of \<open>SetStatus\<close> updates every condition of the type in place.\<close>

definition set_condition ::
  "int \<Rightarrow> string \<Rightarrow> string \<Rightarrow> ConditionStatus \<Rightarrow> Condition \<Rightarrow> Condition" where
  "set_condition timestamp message conditionType conditionStatus c =
     (if co_Type c = conditionType
      then c\<lparr>co_Status := conditionStatus, co_LastTransitionTime := timestamp,
             co_Reason := conditionType @ '':'' @ conditionStatus, co_Message := message\<rparr>
      else c)"

definition SetStatus ::
  "(int \<Rightarrow> string) \<Rightarrow> ClusterStatus \<Rightarrow> int \<Rightarrow> StateType \<Rightarrow> string \<Rightarrow> string \<Rightarrow> ConditionStatus \<Rightarrow>
   int \<Rightarrow> FleetClusterStatus \<Rightarrow> int \<Rightarrow> ClusterStatus" where
  "SetStatus rfc3339 c timestamp state message conditionType conditionStatus lastGen fcs fcGen = (let
     conds = map (set_condition timestamp message conditionType conditionStatus) (cls_Conditions c);
     hasCondition = list_ex (\<lambda>k. co_Type k = conditionType) (cls_Conditions c);
     conds' = (if hasCondition then conds
       else conds @ [\<lparr>co_Type = conditionType, co_Status = conditionStatus,
              co_LastTransitionTime = timestamp, co_Reason = conditionType @ '':'' @ conditionStatus,
              co_Message = message\<rparr>])
   in c\<lparr>cls_Display := state @ '':'' @ conditionType @ ''('' @ conditionStatus @ '')'',
        cls_State := state, cls_Message := message, cls_LastStatusUpdate := rfc3339 timestamp,
        cls_ReconciledGeneration := lastGen, cls_FleetClusterLastGeneration := fcGen,
        cls_Conditions := conds',
        cls_FleetStatus := \<lparr>fs_BundleSummary = deepCopyBundleSummary (fcs_Summary fcs),
          fs_ResourceCounts = deepCopyResourceCounts (fcs_ResourceCounts fcs),
          fs_FleetAgentStatus = deepCopyAgentStatus fcs,
          fs_ClusterDisplay = deepCopyClusterDisplay fcs\<rparr>\<rparr>)"

section \<open>What \<open>SetStatus\<close> promises\<close>

definition cond_statuses :: "Condition list \<Rightarrow> string \<Rightarrow> ConditionStatus set" where
  "cond_statuses cs t = {co_Status c | c. c \<in> set cs \<and> co_Type c = t}"

lemma cond_statuses_Nil [simp]: "cond_statuses [] t = {}"
  by (simp add: cond_statuses_def)

lemma cond_statuses_Cons [simp]:
  "cond_statuses (c # cs) t = (if co_Type c = t then insert (co_Status c) (cond_statuses cs t)
     else cond_statuses cs t)"
  by (auto simp: cond_statuses_def)

lemma cond_statuses_append [simp]:
  "cond_statuses (xs @ ys) t = cond_statuses xs t \<union> cond_statuses ys t"
  by (induction xs) auto

lemma cond_statuses_map:
  "cond_statuses (map (set_condition ts msg ct cst) cs) t =
     (if t = ct then (if list_ex (\<lambda>k. co_Type k = ct) cs then {cst} else {}) else cond_statuses cs t)"
proof (induction cs)
  case (Cons c cs)
  then show ?case
    by (cases "co_Type c = ct"; cases "t = ct") (simp_all add: set_condition_def)
qed simp

lemma SetStatus_conditions:
  "cond_statuses (cls_Conditions (SetStatus f c ts st msg ct cst lg fcs fg)) t =
     (if t = ct then {cst} else cond_statuses (cls_Conditions c) t)"
  by (simp add: SetStatus_def Let_def cond_statuses_map)

lemma SetStatus_types:
  "distinct (map co_Type (cls_Conditions c)) \<Longrightarrow>
   distinct (map co_Type (cls_Conditions (SetStatus f c ts st msg ct cst lg fcs fg)))"
proof -
  have e: "co_Type \<circ> set_condition ts msg ct cst = co_Type"
    by (rule ext) (simp add: set_condition_def)
  assume "distinct (map co_Type (cls_Conditions c))"
  then show ?thesis
    by (auto simp: SetStatus_def Let_def list_ex_iff e)
qed

lemma nil_default_nonempty [simp]: "nil_default s \<noteq> []"
  by (simp add: nil_default_def)

lemma SetStatus_display_filled:
  "cd \<in> {cd_ReadyBundles, cd_ReadyNodes, cd_SampleNode, cd_State} \<Longrightarrow>
   cd (fs_ClusterDisplay (cls_FleetStatus (SetStatus f c ts st msg ct cst lg fcs fg))) \<noteq> []"
  by (auto simp: SetStatus_def Let_def deepCopyClusterDisplay_def)

end
