(* ===== verification/Catalog.thy ===== *)
theory Catalog
  imports Prelude
begin

text \<open>
  Package catalogclient (internal/catalogclient/catalogclient.go): the lookups in the Catalog
  service.  The service is a record of actions over an arbitrary state; its messages (package
  catalog/v3) are records of the fields the code reads, and its replies carry non-nil messages.
\<close>

section \<open>Messages of the Catalog service\<close>

record CatParameterTemplate =
  cpt_Name :: string
  cpt_DisplayName :: string
  cpt_Type :: string
  cpt_Default :: string
  cpt_Mandatory :: bool
  cpt_Secret :: bool

record CatRequirement =
  crq_Name :: string
  crq_Version :: string
  crq_DeploymentProfileName :: string

record CatProfile =
  cpr_Name :: string
  cpr_ChartValues :: string
  cpr_ParameterTemplates :: "CatParameterTemplate list"
  cpr_DeploymentRequirement :: "CatRequirement list"

record CatResourceRef =
  crr_Name :: string
  crr_Kind :: string
  crr_Namespace :: string

record CatApplication =
  cap_Name :: string
  cap_ChartName :: string
  cap_ChartVersion :: string
  cap_HelmRegistryName :: string
  cap_ImageRegistryName :: string
  cap_Profiles :: "CatProfile list"
  cap_IgnoredResources :: "CatResourceRef list"

record CatRegistry =
  crg_RootUrl :: string
  crg_Username :: string
  crg_AuthToken :: string
  crg_Cacerts :: string

record CatDeploymentProfile =
  cdf_Name :: string
  cdf_ApplicationProfiles :: labels

record CatNamespace =
  cns_Name :: string
  cns_Labels :: labels
  cns_Annotations :: labels

record CatArtifact =
  car_Name :: string
  car_Artifact :: string

record CatDeploymentPackage =
  cdp_Name :: string
  cdp_Version :: string
  cdp_IsDeployed :: bool
  cdp_DefaultNamespaces :: labels
  cdp_ApplicationDependencies :: "(string \<times> string) list"
  cdp_DefaultProfileName :: string
  cdp_Profiles :: "CatDeploymentProfile list"
  cdp_ApplicationReferences :: "(string \<times> string) list"
  cdp_ArtifactRefs :: "(string \<times> string) list"
  cdp_Extensions :: "string list"
  cdp_ForbidsMultipleDeployments :: bool
  cdp_Namespaces :: "CatNamespace list"

record 's CatalogClient =
  cat_GetDeploymentPackage :: "string \<Rightarrow> string \<Rightarrow> ('s, CatDeploymentPackage res) state"
  cat_UpdateDeploymentPackage :: "string \<Rightarrow> string \<Rightarrow> CatDeploymentPackage \<Rightarrow> ('s, goerror option) state"
  cat_GetApplication :: "string \<Rightarrow> string \<Rightarrow> ('s, CatApplication res) state"
  cat_GetRegistry :: "string \<Rightarrow> bool \<Rightarrow> ('s, CatRegistry res) state"
  cat_ListArtifacts :: "('s, CatArtifact list res) state"

section \<open>Types of the package\<close>

record HelmCredential =
  hc_Username :: string
  hc_Password :: string
  hc_CaCerts :: string

record DockerCredential =
  dk_Username :: string
  dk_Password :: string

record ParameterTemplate =
  pt_Name :: string
  pt_DisplayName :: string
  pt_Type :: string
  pt_Mandatory :: bool
  pt_Secret :: bool

record RequiredDeploymentPackage =
  rq_Name :: string
  rq_Version :: string
  rq_Profile :: string

record CatIgnoreResource =
  ci_Name :: string
  ci_Kind :: string
  ci_Namespace :: string

record CatHelmApp =
  ch_Name :: string
  ch_Repo :: string
  ch_ImageRegistry :: string
  ch_Chart :: string
  ch_Version :: string
  ch_Profile :: string
  ch_Values :: string
  ch_DependsOn :: "string list"
  ch_RedeployAfterUpdate :: bool
  ch_DefaultNamespace :: string
  ch_HelmCredential :: HelmCredential
  ch_DockerCredential :: DockerCredential
  ch_IgnoreResource :: "CatIgnoreResource list"
  ch_RequiredDeploymentPackages :: "RequiredDeploymentPackage list"
  ch_ParameterTemplates :: "ParameterTemplate list"

definition GetDeploymentPackageID :: "string \<Rightarrow> string \<Rightarrow> string \<Rightarrow> string" where
  "GetDeploymentPackageID name version profile = name @ ''/'' @ version @ ''/'' @ profile"

definition GetID :: "RequiredDeploymentPackage \<Rightarrow> string" where
  "GetID r = GetDeploymentPackageID (rq_Name r) (rq_Version r) (rq_Profile r)"

section \<open>Helpers\<close>

text \<open>The first argument is the environment variable \<open>REDEPLOY_AFTER_UPDATE\<close>.\<close>

definition newHelmApp ::
  "string \<Rightarrow> CatApplication \<Rightarrow> CatRegistry \<Rightarrow> CatRegistry option \<Rightarrow> string \<Rightarrow> string \<Rightarrow> CatHelmApp" where
  "newHelmApp redeployEnv app helmregistry imageregistry values profile = \<lparr>
     ch_Name = cap_Name app,
     ch_Repo = crg_RootUrl helmregistry,
     ch_ImageRegistry = (case imageregistry of None \<Rightarrow> [] | Some i \<Rightarrow> crg_RootUrl i),
     ch_Chart = cap_ChartName app,
     ch_Version = cap_ChartVersion app,
     ch_Profile = profile,
     ch_Values = values,
     ch_DependsOn = [],
     ch_RedeployAfterUpdate = (redeployEnv = ''true''),
     ch_DefaultNamespace = [],
     ch_HelmCredential = \<lparr>hc_Username = crg_Username helmregistry,
       hc_Password = crg_AuthToken helmregistry, hc_CaCerts = crg_Cacerts helmregistry\<rparr>,
     ch_DockerCredential = (case imageregistry of
         None \<Rightarrow> \<lparr>dk_Username = [], dk_Password = []\<rparr>
       | Some i \<Rightarrow> \<lparr>dk_Username = crg_Username i, dk_Password = crg_AuthToken i\<rparr>),
     ch_IgnoreResource = map (\<lambda>ign. \<lparr>ci_Name = crr_Name ign, ci_Kind = crr_Kind ign,
        ci_Namespace = crr_Namespace ign\<rparr>) (cap_IgnoredResources app),
     ch_RequiredDeploymentPackages = [],
     ch_ParameterTemplates = []\<rparr>"

definition getAppValues :: "CatApplication \<Rightarrow> labels \<Rightarrow> string \<times> bool" where
  "getAppValues app profmap =
     (case map_of profmap (cap_Name app) of
        None \<Rightarrow> ([], False)
      | Some profile \<Rightarrow>
          (case find (\<lambda>p. cpr_Name p = profile) (cap_Profiles app) of
             None \<Rightarrow> ([], False)
           | Some p \<Rightarrow> (cpr_ChartValues p, True)))"

definition getProfileMap :: "CatDeploymentProfile list \<Rightarrow> string \<Rightarrow> labels" where
  "getProfileMap cps name =
     (case find (\<lambda>cp. cdf_Name cp = name) cps of None \<Rightarrow> [] | Some cp \<Rightarrow> cdf_ApplicationProfiles cp)"

text \<open>The requirements of an application among the dependency pairs, in their order.\<close>

definition deps_of :: "(string \<times> string) list \<Rightarrow> string \<Rightarrow> string list" where
  "deps_of ds name = map snd (filter (\<lambda>d. fst d = name) ds)"

section \<open>Lookup of a package with its applications\<close>

definition add_template ::
  "string \<Rightarrow> CatParameterTemplate \<Rightarrow> CatHelmApp \<Rightarrow> ('s, CatHelmApp res) state" where
  "add_template appName pt ha = (let
     displayName = (if cpt_DisplayName pt = [] then cpt_Name pt else cpt_DisplayName pt)
   in if cpt_Mandatory pt \<and> cpt_Default pt \<noteq> [] then
        fail_io (PlainErr (''application '' @ appName @ '': mandatory parameter template '' @
          displayName @ '' should have no default value''))
      else if cpt_Secret pt \<and> cpt_Default pt \<noteq> [] then
        fail_io (PlainErr (''application '' @ appName @ '': secret parameter template '' @
          displayName @ '' should have no default value''))
      else ret_io (ha\<lparr>ch_ParameterTemplates := ch_ParameterTemplates ha @
        [\<lparr>pt_Name = cpt_Name pt, pt_DisplayName = displayName, pt_Type = cpt_Type pt,
          pt_Mandatory = cpt_Mandatory pt, pt_Secret = cpt_Secret pt\<rparr>]\<rparr>))"

definition add_requirement ::
  "'s CatalogClient \<Rightarrow> CatRequirement \<Rightarrow> CatHelmApp \<Rightarrow> ('s, CatHelmApp res) state" where
  "add_requirement client dr ha =
     try_io (cat_GetDeploymentPackage client (crq_Name dr) (crq_Version dr)) (\<lambda>dp.
       let depProfileName = (if crq_DeploymentProfileName dr = [] then cdp_DefaultProfileName dp
                             else crq_DeploymentProfileName dr)
       in if depProfileName = [] then
            fail_io (PlainErr ''profile name and default profile name for dependent deployment package are empty'')
          else ret_io (ha\<lparr>ch_RequiredDeploymentPackages := ch_RequiredDeploymentPackages ha @
            [\<lparr>rq_Name = crq_Name dr, rq_Version = crq_Version dr, rq_Profile = depProfileName\<rparr>]\<rparr>))"

definition add_profile ::
  "'s CatalogClient \<Rightarrow> string \<Rightarrow> string \<Rightarrow> CatProfile \<Rightarrow> CatHelmApp \<Rightarrow> ('s, CatHelmApp res) state" where
  "add_profile client appName profile appProfile ha =
     (if cpr_Name appProfile = profile then
        try_io (fold_try (add_template appName) (cpr_ParameterTemplates appProfile) ha)
          (fold_try (add_requirement client) (cpr_DeploymentRequirement appProfile))
      else ret_io ha)"

definition lookup_app ::
  "string \<Rightarrow> 's CatalogClient \<Rightarrow> CatDeploymentPackage \<Rightarrow> labels \<Rightarrow> string \<times> string \<Rightarrow> ('s, CatHelmApp res) state" where
  "lookup_app redeployEnv client dp cp appRef =
     try_io (cat_GetApplication client (fst appRef) (snd appRef)) (\<lambda>app.
     try_io (cat_GetRegistry client (cap_HelmRegistryName app) True) (\<lambda>helmregistry.
     try_io (if cap_ImageRegistryName app \<noteq> []
             then try_io (cat_GetRegistry client (cap_ImageRegistryName app) True) (\<lambda>r. ret_io (Some r))
             else ret_io None) (\<lambda>imageregistry.
       let values = fst (getAppValues app cp);
           ha = newHelmApp redeployEnv app helmregistry imageregistry values (label_get cp (cap_Name app));
           ha = ha\<lparr>ch_DependsOn := deps_of (cdp_ApplicationDependencies dp) (cap_Name app)\<rparr>;
           ha = ha\<lparr>ch_DefaultNamespace := label_get (cdp_DefaultNamespaces dp) (fst appRef)\<rparr>
       in fold_try (add_profile client (fst appRef) (label_get cp (cap_Name app))) (cap_Profiles app) ha)))"

definition CatalogLookupDPAndHelmApps ::
  "string \<Rightarrow> 's CatalogClient \<Rightarrow> string \<Rightarrow> string \<Rightarrow> string \<Rightarrow>
   ('s, (CatDeploymentPackage \<times> CatHelmApp list \<times> string) res) state" where
  "CatalogLookupDPAndHelmApps redeployEnv client dpName dpVersion profileName = do {
     response \<leftarrow> cat_GetDeploymentPackage client dpName dpVersion;
     case response of
       Inl err \<Rightarrow> fail_io (PlainErr (''err: '' @ err_msg err))
     | Inr dp \<Rightarrow>
         (let profileName = (if profileName = [] \<and> cdp_DefaultProfileName dp \<noteq> []
                             then cdp_DefaultProfileName dp else profileName);
              cp = getProfileMap (cdp_Profiles dp) profileName
          in if profileName \<noteq> [] \<and> cp = [] then
               fail_io (PlainErr (''deployment Profile '' @ profileName @ '' not found''))
             else try_io (map_try (lookup_app redeployEnv client dp cp) (cdp_ApplicationReferences dp))
                    (\<lambda>a. ret_io (dp, a, profileName))) }"

definition CatalogLookupAPIExtensions ::
  "'s CatalogClient \<Rightarrow> string \<Rightarrow> string \<Rightarrow> ('s, string list res) state" where
  "CatalogLookupAPIExtensions client dpName dpVersion =
     try_io (cat_GetDeploymentPackage client dpName dpVersion) (\<lambda>dp. ret_io (cdp_Extensions dp))"

definition CatalogLookupDeploymentPackage ::
  "'s CatalogClient \<Rightarrow> string \<Rightarrow> string \<Rightarrow> ('s, CatDeploymentPackage res) state" where
  "CatalogLookupDeploymentPackage client dpName dpVersion =
     cat_GetDeploymentPackage client dpName dpVersion"

definition CatalogLookupGrafanaArtifacts ::
  "'s CatalogClient \<Rightarrow> string \<Rightarrow> string \<Rightarrow> ('s, CatArtifact list res) state" where
  "CatalogLookupGrafanaArtifacts client dpName dpVersion =
     try_io (cat_GetDeploymentPackage client dpName dpVersion) (\<lambda>dp.
     try_io (cat_ListArtifacts client) (\<lambda>artifacts.
       ret_io (concat (map (\<lambda>ar.
         if ToLower (snd ar) \<noteq> ''grafana'' then []
         else filter (\<lambda>a. car_Name a = fst ar) artifacts) (cdp_ArtifactRefs dp)))))"

definition UpdateIsDeployed ::
  "'s CatalogClient \<Rightarrow> string \<Rightarrow> string \<Rightarrow> bool \<Rightarrow> ('s, goerror option) state" where
  "UpdateIsDeployed client dpName dpVersion isDeployed = do {
     response \<leftarrow> cat_GetDeploymentPackage client dpName dpVersion;
     case response of
       Inl err \<Rightarrow> State_Monad.return (Some err)
     | Inr dp \<Rightarrow>
         if cdp_IsDeployed dp \<noteq> isDeployed
         then cat_UpdateDeploymentPackage client dpName dpVersion (dp\<lparr>cdp_IsDeployed := isDeployed\<rparr>)
         else State_Monad.return None }"

section \<open>What a successful lookup guarantees\<close>

text \<open>
  A HelmApp of a package: its requirements name a profile, a template without a display name
  shows its name, and its default namespace and its dependencies are those the package gives it.
\<close>

definition helm_app_ok :: "CatDeploymentPackage \<Rightarrow> string \<times> string \<Rightarrow> CatHelmApp \<Rightarrow> bool" where
  "helm_app_ok dp ref ha =
     (list_all (\<lambda>r. rq_Profile r \<noteq> []) (ch_RequiredDeploymentPackages ha) \<and>
      list_all (\<lambda>t. pt_DisplayName t = [] \<longrightarrow> pt_Name t = []) (ch_ParameterTemplates ha) \<and>
      ch_DefaultNamespace ha = label_get (cdp_DefaultNamespaces dp) (fst ref) \<and>
      ch_DependsOn ha = deps_of (cdp_ApplicationDependencies dp) (ch_Name ha))"

lemma add_template_ok: "helm_app_ok dp ref ha \<Longrightarrow> ensures (add_template n pt ha) (helm_app_ok dp ref)"
  by (auto simp: add_template_def Let_def helm_app_ok_def)

lemma add_requirement_ok:
  "helm_app_ok dp ref ha \<Longrightarrow> ensures (add_requirement client dr ha) (helm_app_ok dp ref)"
  unfolding add_requirement_def
  by (rule ensures_try_any) (auto simp: Let_def helm_app_ok_def)

lemma add_profile_ok:
  "helm_app_ok dp ref ha \<Longrightarrow> ensures (add_profile client n pr ap ha) (helm_app_ok dp ref)"
  unfolding add_profile_def
  by (auto intro!: ensures_try [of _ "helm_app_ok dp ref"] ensures_fold_try add_template_ok
      add_requirement_ok)

lemma lookup_app_ok: "ensures (lookup_app renv client dp cp ref) (helm_app_ok dp ref)"
  unfolding lookup_app_def Let_def
  by (intro ensures_try_any ensures_fold_try add_profile_ok)
     (simp_all add: helm_app_ok_def newHelmApp_def)

definition lookup_result_ok ::
  "string \<Rightarrow> CatDeploymentPackage \<times> CatHelmApp list \<times> string \<Rightarrow> bool" where
  "lookup_result_ok p r = (case r of (dp, apps, prof) \<Rightarrow>
     prof = (if p = [] then cdp_DefaultProfileName dp else p) \<and>
     (prof \<noteq> [] \<longrightarrow> getProfileMap (cdp_Profiles dp) prof \<noteq> []) \<and>
     list_all2 (helm_app_ok dp) (cdp_ApplicationReferences dp) apps)"

lemma lookup_apps_ok:
  "prof = (if p = [] then cdp_DefaultProfileName dp else p) \<Longrightarrow>
   (prof \<noteq> [] \<longrightarrow> getProfileMap (cdp_Profiles dp) prof \<noteq> []) \<Longrightarrow>
   ensures (try_io (map_try (lookup_app renv client dp cp) (cdp_ApplicationReferences dp))
      (\<lambda>a. ret_io (dp, a, prof))) (lookup_result_ok p)"
  by (rule ensures_try [OF ensures_map_try [OF lookup_app_ok]]) (simp add: lookup_result_ok_def)

lemma CatalogLookup_ok:
  "ensures (CatalogLookupDPAndHelmApps renv client n v p) (lookup_result_ok p)"
  unfolding CatalogLookupDPAndHelmApps_def ensures_def
  apply (rule post_bind [of _ "\<lambda>_. True"], simp)
  apply (simp split: sum.split)
  apply (auto simp: Let_def intro!: lookup_apps_ok [unfolded ensures_def])
  done

end
