(* ===== verification/Utils.thy ===== *)
theory Utils
  imports ClusterTypes Catalog
begin

text \<open>
  Package utils (pkg/utils/utils.go), its error conversion (pkg/utils/k8serrors) and the
  condition and finalizer helpers of the Kubernetes libraries that the controllers call.  The
  library functions are a record of parameters, \<open>k8slib\<close>; \<open>k8slib_ok\<close> states what their
  documentation promises and \<open>std_k8slib\<close> is a concrete instance.

  The functions that talk to a server take the operations of the client they are given as a record
  of actions over an arbitrary state, so that every component can pass its own client.
\<close>

section \<open>Library functions of Kubernetes\<close>

record k8slib =
  NewAggregate :: "goerror option list \<Rightarrow> goerror option"
  RemoveStatusCondition :: "string \<Rightarrow> Condition list \<Rightarrow> Condition list"
  FindStatusCondition :: "Condition list \<Rightarrow> string \<Rightarrow> Condition option"
  IsStatusConditionTrue :: "Condition list \<Rightarrow> string \<Rightarrow> bool"
  ContainsFinalizer :: "string list \<Rightarrow> string \<Rightarrow> bool"
  AddFinalizer :: "string list \<Rightarrow> string \<Rightarrow> string list"
  RemoveFinalizer :: "string list \<Rightarrow> string \<Rightarrow> string list"

definition k8slib_ok :: "k8slib \<Rightarrow> bool" where
  "k8slib_ok L =
     ((\<forall>es. NewAggregate L es = None \<longleftrightarrow> list_all (\<lambda>e. e = None) es) \<and>
      (\<forall>t cs. RemoveStatusCondition L t cs = filter (\<lambda>c. co_Type c \<noteq> t) cs) \<and>
      (\<forall>cs t. FindStatusCondition L cs t = find (\<lambda>c. co_Type c = t) cs) \<and>
      (\<forall>cs t. IsStatusConditionTrue L cs t \<longleftrightarrow>
         (case find (\<lambda>c. co_Type c = t) cs of None \<Rightarrow> False | Some c \<Rightarrow> co_Status c = ConditionTrue)) \<and>
      (\<forall>fs f. ContainsFinalizer L fs f \<longleftrightarrow> f \<in> set fs) \<and>
      (\<forall>fs f. set (AddFinalizer L fs f) = insert f (set fs)) \<and>
      (\<forall>fs f. RemoveFinalizer L fs f = filter (\<lambda>g. g \<noteq> f) fs))"

definition std_k8slib :: k8slib where
  "std_k8slib = \<lparr>
     NewAggregate = (\<lambda>es. case List.map_filter id es of [] \<Rightarrow> None
        | [e] \<Rightarrow> Some (PlainErr (err_msg e))
        | msgs \<Rightarrow> Some (PlainErr (''['' @ Join (map err_msg msgs) '', '' @ '']''))),
     RemoveStatusCondition = (\<lambda>t cs. filter (\<lambda>c. co_Type c \<noteq> t) cs),
     FindStatusCondition = (\<lambda>cs t. find (\<lambda>c. co_Type c = t) cs),
     IsStatusConditionTrue = (\<lambda>cs t. case find (\<lambda>c. co_Type c = t) cs of
        None \<Rightarrow> False | Some c \<Rightarrow> co_Status c = ConditionTrue),
     ContainsFinalizer = (\<lambda>fs f. f \<in> set fs),
     AddFinalizer = (\<lambda>fs f. if f \<in> set fs then fs else fs @ [f]),
     RemoveFinalizer = (\<lambda>fs f. filter (\<lambda>g. g \<noteq> f) fs)\<rparr>"

lemma map_filter_id_Nil: "List.map_filter id es = [] \<longleftrightarrow> list_all (\<lambda>e. e = None) es"
  by (induction es) (auto simp: List.map_filter_simps split: option.splits)

lemma std_k8slib_ok: "k8slib_ok std_k8slib"
  by (auto simp: k8slib_ok_def std_k8slib_def map_filter_id_Nil [symmetric] split: list.splits)

lemma k8slib_okD:
  assumes "k8slib_ok L"
  shows "NewAggregate L es = None \<longleftrightarrow> list_all (\<lambda>e. e = None) es"
    and "RemoveStatusCondition L t cs = filter (\<lambda>c. co_Type c \<noteq> t) cs"
    and "FindStatusCondition L cs t = find (\<lambda>c. co_Type c = t) cs"
    and "ContainsFinalizer L fs f \<longleftrightarrow> f \<in> set fs"
    and "set (AddFinalizer L fs f) = insert f (set fs)"
    and "RemoveFinalizer L fs f = filter (\<lambda>g. g \<noteq> f) fs"
  using assms by (auto simp: k8slib_ok_def)

section \<open>Conversion of Kubernetes errors\<close>

text \<open>\<open>apierrors.ReasonForError\<close> of an error that is not a status error is unknown.\<close>

fun ReasonForError :: "goerror \<Rightarrow> status_reason" where
  "ReasonForError (K8sErr r _) = r"
| "ReasonForError _ = ReasonUnknown"

definition K8sToTypedError :: "goerror \<Rightarrow> goerror" where
  "K8sToTypedError err =
     (case ReasonForError err of
        ReasonConflict \<Rightarrow> TypedErr KConflict (err_msg err)
      | ReasonBadRequest \<Rightarrow> TypedErr KInvalid (err_msg err)
      | ReasonInternalError \<Rightarrow> TypedErr KInternal (err_msg err)
      | ReasonAlreadyExists \<Rightarrow> TypedErr KAlreadyExists (err_msg err)
      | ReasonForbidden \<Rightarrow> TypedErr KForbidden (err_msg err)
      | ReasonTimeout \<Rightarrow> TypedErr KTimeout (err_msg err)
      | ReasonInvalid \<Rightarrow> TypedErr KInvalid (err_msg err)
      | ReasonNotFound \<Rightarrow> TypedErr KNotFound (err_msg err)
      | ReasonServerTimeout \<Rightarrow> TypedErr KTimeout (err_msg err)
      | ReasonServiceUnavailable \<Rightarrow> TypedErr KUnavailable (err_msg err)
      | ReasonTooManyRequests \<Rightarrow> TypedErr KUnavailable (err_msg err)
      | ReasonRequestEntityTooLarge \<Rightarrow> TypedErr KInvalid (err_msg err)
      | ReasonUnauthorized \<Rightarrow> TypedErr KForbidden (err_msg err)
      | _ \<Rightarrow> TypedErr KUnknown (err_msg err))"

lemma K8sToTypedError_msg [simp]: "err_msg (K8sToTypedError e) = err_msg e"
  by (simp add: K8sToTypedError_def split: status_reason.splits)

lemma K8sToTypedError_not_found [simp]: "typed_not_found (K8sToTypedError e) = k8s_not_found e"
  by (cases e) (auto simp: K8sToTypedError_def split: status_reason.splits)

section \<open>Deployment packages in use\<close>

definition GetAppRef :: "Deployment \<Rightarrow> string" where
  "GetAppRef d = dp_Name (sp_DeploymentPackageRef (d_Spec d)) @ ''-'' @
     dp_Version (sp_DeploymentPackageRef (d_Spec d))"

text \<open>The first argument lists the deployments whose index entry for the package reference matches.\<close>

fun is_deployed_in :: "Deployment \<Rightarrow> Deployment list \<Rightarrow> bool" where
  "is_deployed_in d [] = False"
| "is_deployed_in d (i # is) =
     (let dActiveProjectID = label_get (labels_of (d_Meta d)) AppOrchActiveProjectID;
          iActiveProjectID = label_get (labels_of (d_Meta i)) AppOrchActiveProjectID
      in if dActiveProjectID = iActiveProjectID \<and> om_Name (d_Meta d) \<noteq> om_Name (d_Meta i) then True
         else is_deployed_in d is)"

definition IsDeployed ::
  "(string \<Rightarrow> ('s, goerror + Deployment list) state) \<Rightarrow> Deployment \<Rightarrow> ('s, goerror + bool) state" where
  "IsDeployed list_by_ref d = do {
     r \<leftarrow> list_by_ref (GetAppRef d);
     State_Monad.return (case r of Inl err \<Rightarrow> Inl err | Inr items \<Rightarrow> Inr (is_deployed_in d items)) }"

lemma is_deployed_in_iff:
  "is_deployed_in d is = (\<exists>i \<in> set is. om_Name (d_Meta i) \<noteq> om_Name (d_Meta d) \<and>
     label_get (labels_of (d_Meta i)) AppOrchActiveProjectID =
     label_get (labels_of (d_Meta d)) AppOrchActiveProjectID)"
  by (induction "is") (auto simp: Let_def)

section \<open>The call context and the M2M token\<close>

text \<open>A context is represented by the outgoing gRPC metadata it carries.\<close>

type_synonym ctx = "(string \<times> string) list"

record 's VaultAuth =
  va_GetM2MToken :: "ctx \<Rightarrow> ('s, string res) state"
  va_Logout :: "ctx \<Rightarrow> ('s, goerror option) state"

definition getCtxWithToken :: "'s VaultAuth \<Rightarrow> ctx \<Rightarrow> ('s, ctx res) state" where
  "getCtxWithToken vaultAuthClient c =
     try_io (va_GetM2MToken vaultAuthClient c) (\<lambda>token.
       if token = [] then fail_io (PlainErr ''token is empty'')
       else (let outCtx = c @ [(''authorization'', ''Bearer '' @ token)]
             in try_io (guard_io (va_Logout vaultAuthClient outCtx)) (\<lambda>_. ret_io outCtx)))"

text \<open>The optional timeout bounds the calls made with the context; time is not part of the context here.\<close>

definition AddToOutgoingContext :: "'s VaultAuth \<Rightarrow> string \<Rightarrow> ctx \<Rightarrow> ('s, ctx res) state" where
  "AddToOutgoingContext vaultAuthClient activeProjectID c =
     try_io (getCtxWithToken vaultAuthClient c) (\<lambda>c'. ret_io (c' @ [(''ActiveProjectID'', activeProjectID)]))"

definition HandleIsDeployed ::
  "ctx \<Rightarrow> (ctx \<Rightarrow> 's CatalogClient) \<Rightarrow> 's VaultAuth \<Rightarrow> Deployment \<Rightarrow> bool \<Rightarrow> ('s, goerror option) state" where
  "HandleIsDeployed ctx0 c vaultAuthClient d isDeployed = (let
     setOrUnset = (if isDeployed then ''set'' else ''unset'');
     failed = (\<lambda>err. PlainErr (''failed to '' @ setOrUnset @ '' isDeployed ('' @ err_msg err @ '')''));
     activeProjectID = label_get (labels_of (d_Meta d)) AppOrchActiveProjectID
   in do {
     r \<leftarrow> AddToOutgoingContext vaultAuthClient activeProjectID ctx0;
     case r of
       Inl err \<Rightarrow> State_Monad.return (Some (failed err))
     | Inr outCtx \<Rightarrow> do {
         e \<leftarrow> UpdateIsDeployed (c outCtx) (dp_Name (sp_DeploymentPackageRef (d_Spec d)))
                (dp_Version (sp_DeploymentPackageRef (d_Spec d))) isDeployed;
         State_Monad.return (map_option failed e) } })"

section \<open>Status of a bundle deployment\<close>

definition GetGenericCondition :: "GenericCondition list \<Rightarrow> string \<Rightarrow> GenericCondition option" where
  "GetGenericCondition g cond = find (\<lambda>c. gc_Type c = cond) g"

definition GetState :: "BundleDeployment \<Rightarrow> StateType" where
  "GetState bd =
     (case GetGenericCondition (bd_Conditions bd) ''Ready'' of
        None \<Rightarrow> Down
      | Some c \<Rightarrow>
          if bd_SpecDeploymentID bd = bd_AppliedDeploymentID bd \<and>
             (gc_Status c = ConditionTrue \<and> bd_Ready bd \<or>
              bd_Ready bd \<and> \<not> bd_NonModified bd \<and> bd_DisplayState bd = ''Modified'')
          then Running else Down)"

definition AppendMessage :: "string \<Rightarrow> string \<Rightarrow> string" where
  "AppendMessage orig next_msg = (if orig = [] then next_msg else orig @ ''; '' @ next_msg)"

definition GetMessage :: "BundleDeployment \<Rightarrow> string" where
  "GetMessage bd =
     (if \<not> bd_Ready bd then
        fold (\<lambda>c message. if gc_Status c = ConditionFalse \<and> gc_Message c \<noteq> []
                           then AppendMessage message (gc_Message c) else message) (bd_Conditions bd) []
      else [])"

definition GetAppID :: "BundleDeployment \<Rightarrow> string" where
  "GetAppID bd = label_get (labels_of (bd_Meta bd)) LabelBundleName"

definition GetAppName :: "BundleDeployment \<Rightarrow> string" where
  "GetAppName bd = label_get (labels_of (bd_Meta bd)) LabelAppName"

definition GetDeploymentGeneration :: "BundleDeployment \<Rightarrow> int" where
  "GetDeploymentGeneration bd =
     (case map_of (labels_of (bd_Meta bd)) LabelDeploymentGeneration of
        None \<Rightarrow> 0
      | Some genStr \<Rightarrow> (case ParseInt 64 genStr of None \<Rightarrow> 0 | Some gen \<Rightarrow> gen))"

definition MessageFromError :: "goerror option \<Rightarrow> string" where
  "MessageFromError e = (case e of None \<Rightarrow> [] | Some err \<Rightarrow> err_msg err)"

text \<open>\<open>ToInt32Clamped\<close>, with the 32-bit result as a word.\<close>

definition ToInt32Clamped :: "int \<Rightarrow> 32 word" where
  "ToInt32Clamped i = (if i < 0 then 0 else if i > 2 ^ 31 - 1 then word_of_int (2 ^ 31 - 1) else word_of_int i)"

text \<open>The first argument is the clock.  Only the first condition of the type is overwritten.\<close>

fun UpdateStatusCondition ::
  "int \<Rightarrow> Condition list \<Rightarrow> string \<Rightarrow> ConditionStatus \<Rightarrow> string \<Rightarrow> goerror option \<Rightarrow> Condition list" where
  "UpdateStatusCondition now [] condType status reason err =
     [\<lparr>co_Type = condType, co_Status = status, co_LastTransitionTime = now, co_Reason = reason,
       co_Message = MessageFromError err\<rparr>]"
| "UpdateStatusCondition now (c # cs) condType status reason err =
     (if co_Type c \<noteq> condType then c # UpdateStatusCondition now cs condType status reason err
      else \<lparr>co_Type = condType, co_Status = status,
             co_LastTransitionTime = (if co_Status c = status then co_LastTransitionTime c else now),
             co_Reason = reason, co_Message = MessageFromError err\<rparr> # cs)"

section \<open>Namespaces, role bindings and secrets\<close>

record KNamespace =
  kn_Meta :: ObjectMeta

record RoleBinding =
  rb_Name :: string
  rb_Namespace :: string
  rb_SubjectKind :: string
  rb_SubjectName :: string
  rb_SubjectNamespace :: string
  rb_RoleName :: string

record Secret =
  se_Meta :: ObjectMeta
  se_Type :: string
  se_StringData :: labels
  se_Data :: labels

record 's Clientset =
  ks_GetNamespace :: "string \<Rightarrow> ('s, KNamespace res) state"
  ks_CreateNamespace :: "KNamespace \<Rightarrow> ('s, goerror option) state"
  ks_UpdateNamespace :: "KNamespace \<Rightarrow> ('s, goerror option) state"
  ks_CreateRoleBinding :: "RoleBinding \<Rightarrow> ('s, goerror option) state"
  ks_CreateSecret :: "Secret \<Rightarrow> ('s, goerror option) state"
  ks_GetSecret :: "string \<Rightarrow> string \<Rightarrow> ('s, Secret res) state"
  ks_UpdateSecret :: "Secret \<Rightarrow> ('s, goerror option) state"
  ks_DeleteSecret :: "string \<Rightarrow> string \<Rightarrow> ('s, goerror option) state"

definition CreateNamespace :: "'s Clientset \<Rightarrow> string \<Rightarrow> ('s, goerror option) state" where
  "CreateNamespace s namespaceName = do {
     r \<leftarrow> ks_GetNamespace s namespaceName;
     case r of
       Inl err \<Rightarrow>
         if k8s_not_found err then do {
           e \<leftarrow> ks_CreateNamespace s \<lparr>kn_Meta = empty_meta\<lparr>om_Name := namespaceName\<rparr>\<rparr>;
           State_Monad.return (map_option K8sToTypedError e) }
         else State_Monad.return (Some (K8sToTypedError err))
     | Inr _ \<Rightarrow> State_Monad.return None }"

definition UpdateNsLabels :: "'s Clientset \<Rightarrow> string \<Rightarrow> ('s, goerror option) state" where
  "UpdateNsLabels s namespaceName = do {
     r \<leftarrow> ks_GetNamespace s namespaceName;
     case r of
       Inl err \<Rightarrow> State_Monad.return (Some (K8sToTypedError err))
     | Inr namespace \<Rightarrow> do {
         e \<leftarrow> ks_UpdateNamespace s (namespace\<lparr>kn_Meta := (kn_Meta namespace)\<lparr>om_Labels :=
                Some (AList.update FleetRsProxy ''true'' (labels_of (kn_Meta namespace)))\<rparr>\<rparr>);
         State_Monad.return (map_option K8sToTypedError e) } }"

definition CreateRoleBinding :: "'s Clientset \<Rightarrow> string \<Rightarrow> string \<Rightarrow> string \<Rightarrow> ('s, goerror option) state" where
  "CreateRoleBinding s saNamespace name remoteNamespace = do {
     e \<leftarrow> ks_CreateRoleBinding s \<lparr>rb_Name = name @ ''-'' @ saNamespace, rb_Namespace = remoteNamespace,
            rb_SubjectKind = ''ServiceAccount'', rb_SubjectName = ''default'',
            rb_SubjectNamespace = saNamespace, rb_RoleName = name\<rparr>;
     State_Monad.return (case e of
         None \<Rightarrow> None
       | Some err \<Rightarrow> if k8s_already_exists err then None else Some (K8sToTypedError err)) }"

definition CreateSecret ::
  "'s Clientset \<Rightarrow> string \<Rightarrow> string \<Rightarrow> labels \<Rightarrow> bool \<Rightarrow> ('s, goerror option) state" where
  "CreateSecret s namespace secretName data basicAuth =
     ks_CreateSecret s \<lparr>se_Meta = empty_meta\<lparr>om_Name := secretName, om_Namespace := namespace\<rparr>,
       se_Type = (if basicAuth then ''kubernetes.io/basic-auth'' else ''Opaque''),
       se_StringData = data, se_Data = []\<rparr>"

definition DeleteSecret :: "'s Clientset \<Rightarrow> string \<Rightarrow> string \<Rightarrow> ('s, goerror option) state" where
  "DeleteSecret s namespace secretName = do {
     e \<leftarrow> ks_DeleteSecret s namespace secretName;
     State_Monad.return (map_option K8sToTypedError e) }"

definition GetSecretValue :: "'s Clientset \<Rightarrow> string \<Rightarrow> string \<Rightarrow> ('s, Secret res) state" where
  "GetSecretValue s namespace secretName = ks_GetSecret s namespace secretName"

section \<open>Lemmas\<close>

definition other_types :: "string \<Rightarrow> Condition list \<Rightarrow> Condition list" where
  "other_types t cs = filter (\<lambda>c. co_Type c \<noteq> t) cs"

lemma UpdateStatusCondition_find:
  "find (\<lambda>c. co_Type c = t) (UpdateStatusCondition now cs t st r e) =
     Some \<lparr>co_Type = t, co_Status = st,
       co_LastTransitionTime = (case find (\<lambda>c. co_Type c = t) cs of
          None \<Rightarrow> now | Some c \<Rightarrow> if co_Status c = st then co_LastTransitionTime c else now),
       co_Reason = r, co_Message = MessageFromError e\<rparr>"
  by (induction cs) simp_all

lemma UpdateStatusCondition_others:
  "t' \<noteq> t \<Longrightarrow> find (\<lambda>c. co_Type c = t') (UpdateStatusCondition now cs t st r e) =
     find (\<lambda>c. co_Type c = t') cs"
  by (induction cs) simp_all

lemma UpdateStatusCondition_set:
  "co_Type ` set (UpdateStatusCondition now cs t st r e) = insert t (co_Type ` set cs)"
  by (induction cs) auto

lemma UpdateStatusCondition_distinct:
  "distinct (map co_Type cs) \<Longrightarrow> distinct (map co_Type (UpdateStatusCondition now cs t st r e))"
proof (induction cs)
  case (Cons c cs)
  have "co_Type c \<noteq> t \<Longrightarrow> co_Type c \<notin> co_Type ` set (UpdateStatusCondition now cs t st r e)"
    using Cons.prems by (simp add: UpdateStatusCondition_set)
  with Cons show ?case by (cases "co_Type c = t") auto
qed simp

lemma UpdateStatusCondition_fresh:
  "t \<notin> co_Type ` set cs \<Longrightarrow> UpdateStatusCondition now cs t st r e =
     cs @ [\<lparr>co_Type = t, co_Status = st, co_LastTransitionTime = now, co_Reason = r,
            co_Message = MessageFromError e\<rparr>]"
  by (induction cs) auto

lemma ToInt32Clamped_value: "sint (ToInt32Clamped i) = max 0 (min i (2 ^ 31 - 1))"
  by (auto simp: ToInt32Clamped_def sint_sbintrunc' signed_take_bit_int_eq_self max_def min_def)

lemma AppendMessage_Contains: "Contains (AppendMessage a b) b"
  using Contains_append [of "a @ ''; ''" b "[]"] Contains_append [of "[]" b "[]"]
  by (auto simp: AppendMessage_def)

end
