(* ===== verification/Patch.thy ===== *)
theory Patch
  imports Utils
begin

text \<open>
  Package patch (internal/patch): the helper that records an object before a reconcile and
  afterwards patches what changed, metadata and spec through one request and the status
  through another.

  The conversions of Kubernetes between a typed object \<open>'o\<close> and its unstructured form (a map of
  top-level fields to JSON values \<open>'j\<close>) and the JSON merge patch are parameters, in \<open>converter\<close>.
\<close>

type_synonym 'j unstructured = "'j gomap"

record ('o, 'j) converter =
  GVKForObject :: "'o \<Rightarrow> string res"
  ToUnstructured :: "'o \<Rightarrow> 'j unstructured res"
  FromUnstructured :: "'j unstructured \<Rightarrow> 'o \<Rightarrow> 'o res"
  SetObservedGeneration :: "'j unstructured \<Rightarrow> 'j unstructured res"
  MergePatchKeys :: "'o \<Rightarrow> 'o \<Rightarrow> string list res"

text \<open>The two requests of the client: the object to send and the object it is compared with.\<close>

record ('o, 's) patch_client =
  pc_Patch :: "'o \<Rightarrow> 'o \<Rightarrow> ('s, goerror option) state"
  pc_PatchStatus :: "'o \<Rightarrow> 'o \<Rightarrow> ('s, goerror option) state"

type_synonym patchType = string

abbreviation specPatch :: patchType where "specPatch \<equiv> ''spec''"
abbreviation statusPatch :: patchType where "statusPatch \<equiv> ''status''"

definition Key :: "patchType \<Rightarrow> string" where
  "Key p = hd (Split p ''.'')"

definition preserveUnstructuredKeys :: "string list" where
  "preserveUnstructuredKeys = [''kind'', ''apiVersion'', ''metadata'']"

record ('o, 'j) Helper =
  h_gvk :: string
  h_beforeObject :: 'o
  h_before :: "'j unstructured"
  h_after :: "'j unstructured"
  h_changes :: "string list"

text \<open>A nil object is \<open>None\<close>.  A GroupVersionKind is represented by its rendering in the error message.\<close>

definition NewPatchHelper :: "('o, 'j) converter \<Rightarrow> 'o option \<Rightarrow> ('o, 'j) Helper res" where
  "NewPatchHelper C obj =
     (case obj of
        None \<Rightarrow> Inl (PlainErr ''helper could not be created: object is nil'')
      | Some ob \<Rightarrow>
          (case GVKForObject C ob of
             Inl err \<Rightarrow> Inl err
           | Inr gvk \<Rightarrow>
               (case ToUnstructured C ob of
                  Inl err \<Rightarrow> Inl err
                | Inr u \<Rightarrow> Inr \<lparr>h_gvk = gvk, h_beforeObject = ob, h_before = u, h_after = [], h_changes = []\<rparr>)))"

definition shouldPatch :: "('o, 'j) Helper \<Rightarrow> string \<Rightarrow> bool" where
  "shouldPatch h key = (key \<in> set (h_changes h))"

definition unsafeUnstructuredCopy :: "'j unstructured \<Rightarrow> patchType \<Rightarrow> 'j unstructured" where
  "unsafeUnstructuredCopy u focus =
     filter (\<lambda>(key, _). key = Key focus \<or> key \<in> set preserveUnstructuredKeys) u"

definition calculatePatch ::
  "('o, 'j) converter \<Rightarrow> ('o, 'j) Helper \<Rightarrow> 'o \<Rightarrow> patchType \<Rightarrow> ('o \<times> 'o) res" where
  "calculatePatch C h afterObj focus =
     (case FromUnstructured C (unsafeUnstructuredCopy (h_before h) focus) (h_beforeObject h) of
        Inl err \<Rightarrow> Inl err
      | Inr beforeObj \<Rightarrow>
          (case FromUnstructured C (unsafeUnstructuredCopy (h_after h) focus) afterObj of
             Inl err \<Rightarrow> Inl err
           | Inr after \<Rightarrow> Inr (beforeObj, after)))"

definition patch_spec ::
  "('o, 'j) converter \<Rightarrow> ('o, 's) patch_client \<Rightarrow> ('o, 'j) Helper \<Rightarrow> 'o \<Rightarrow> ('s, goerror option) state" where
  "patch_spec C client h obj =
     (if \<not> shouldPatch h ''metadata'' \<and> \<not> shouldPatch h ''spec'' then State_Monad.return None
      else case calculatePatch C h obj specPatch of
             Inl err \<Rightarrow> State_Monad.return (Some err)
           | Inr (beforeObject, afterObject) \<Rightarrow> pc_Patch client afterObject beforeObject)"

definition patchStatus ::
  "('o, 'j) converter \<Rightarrow> ('o, 's) patch_client \<Rightarrow> ('o, 'j) Helper \<Rightarrow> 'o \<Rightarrow> ('s, goerror option) state" where
  "patchStatus C client h obj =
     (if \<not> shouldPatch h ''status'' then State_Monad.return None
      else case calculatePatch C h obj statusPatch of
             Inl err \<Rightarrow> State_Monad.return (Some err)
           | Inr (beforeObject, afterObject) \<Rightarrow> pc_PatchStatus client afterObject beforeObject)"

definition unstructuredHasStatus :: "'j unstructured \<Rightarrow> bool" where
  "unstructuredHasStatus u = (map_of u ''status'' \<noteq> None)"

text \<open>
  \<open>Patch\<close> up to the two requests: the helper with the after form and the changes, and the object
  with its observed generation restored when the option asks for it.
\<close>

definition observe ::
  "('o, 'j) converter \<Rightarrow> bool \<Rightarrow> 'j unstructured \<Rightarrow> 'o \<Rightarrow> ('j unstructured \<times> 'o) res" where
  "observe C includeObserved after obj =
     (if unstructuredHasStatus after \<and> includeObserved then
        (case SetObservedGeneration C after of
           Inl err \<Rightarrow> Inl err
         | Inr after' \<Rightarrow>
             (case FromUnstructured C after' obj of Inl err \<Rightarrow> Inl err | Inr obj' \<Rightarrow> Inr (after', obj')))
      else Inr (after, obj))"

definition prepare ::
  "('o, 'j) converter \<Rightarrow> bool \<Rightarrow> ('o, 'j) Helper \<Rightarrow> 'o option \<Rightarrow> (('o, 'j) Helper \<times> 'o) res" where
  "prepare C includeObserved h obj =
     (case obj of
        None \<Rightarrow> Inl (PlainErr ''Patch could not be completed: object is nil'')
      | Some ob \<Rightarrow>
          (case GVKForObject C ob of
             Inl err \<Rightarrow> Inl err
           | Inr gvk \<Rightarrow>
               if gvk \<noteq> h_gvk h then
                 Inl (PlainErr (''unmatched GroupVersionKind, expected '' @ h_gvk h @ '' got '' @ gvk))
               else
                 (case ToUnstructured C ob of
                    Inl err \<Rightarrow> Inl err
                  | Inr u \<Rightarrow>
                      (case observe C includeObserved u ob of
                         Inl err \<Rightarrow> Inl err
                       | Inr (after, ob') \<Rightarrow>
                           (case MergePatchKeys C (h_beforeObject h) ob' of
                              Inl err \<Rightarrow> Inl (PlainErr (''failed to calculate patch data: '' @ err_msg err))
                            | Inr keys \<Rightarrow> Inr (h\<lparr>h_after := after, h_changes := keys\<rparr>, ob'))))))"

definition Patch ::
  "k8slib \<Rightarrow> ('o, 'j) converter \<Rightarrow> ('o, 's) patch_client \<Rightarrow> bool \<Rightarrow> ('o, 'j) Helper \<Rightarrow> 'o option \<Rightarrow>
   ('s, goerror option) state" where
  "Patch L C client includeObserved h obj =
     (case prepare C includeObserved h obj of
        Inl err \<Rightarrow> State_Monad.return (Some err)
      | Inr (h', ob) \<Rightarrow> do {
          e1 \<leftarrow> patch_spec C client h' ob;
          e2 \<leftarrow> patchStatus C client h' ob;
          State_Monad.return (NewAggregate L [e1, e2]) })"

section \<open>Lemmas\<close>

lemma Key_simps [simp]: "Key specPatch = ''spec''" "Key statusPatch = ''status''"
  by (simp_all add: Key_def Split_def HasPrefix_def)

lemma unsafeUnstructuredCopy_get:
  "map_of (unsafeUnstructuredCopy u focus) k =
     (if k = Key focus \<or> k \<in> set preserveUnstructuredKeys then map_of u k else None)"
  unfolding unsafeUnstructuredCopy_def
  by (rule map_of_filter_key)

lemma unsafeUnstructuredCopy_keys:
  "set (map fst (unsafeUnstructuredCopy u focus)) \<subseteq> insert (Key focus) (set preserveUnstructuredKeys)"
  unfolding unsafeUnstructuredCopy_def
  by (rule subset_trans [OF fst_filter_key]) blast

text \<open>Nothing is sent for an object without changes.\<close>

lemma Patch_unchanged:
  "prepare C b h obj = Inr (h', ob) \<Longrightarrow> {''metadata'', ''spec'', ''status''} \<inter> set (h_changes h') = {} \<Longrightarrow>
   Patch L C client b h obj = State_Monad.return (NewAggregate L [None, None])"
  by (auto simp: Patch_def patch_spec_def patchStatus_def shouldPatch_def)

text \<open>A status request carries no field besides the status and the preserved ones.\<close>

lemma calculatePatch_focus:
  assumes "calculatePatch C h ob focus = Inr (b, a)"
  shows "\<exists>ub ua. FromUnstructured C ub (h_beforeObject h) = Inr b \<and> FromUnstructured C ua ob = Inr a \<and>
     set (map fst ub) \<union> set (map fst ua) \<subseteq> insert (Key focus) (set preserveUnstructuredKeys)"
proof (intro exI conjI)
  show "FromUnstructured C (unsafeUnstructuredCopy (h_before h) focus) (h_beforeObject h) = Inr b"
    and "FromUnstructured C (unsafeUnstructuredCopy (h_after h) focus) ob = Inr a"
    using assms by (simp_all add: calculatePatch_def split: sum.splits)
  show "set (map fst (unsafeUnstructuredCopy (h_before h) focus)) \<union>
      set (map fst (unsafeUnstructuredCopy (h_after h) focus))
    \<subseteq> insert (Key focus) (set preserveUnstructuredKeys)"
    using unsafeUnstructuredCopy_keys by blast
qed

lemma does_Patch:
  assumes "\<And>a b. does P (pc_Patch client a b) (\<lambda>_. True)" "\<And>a b. does P (pc_PatchStatus client a b) (\<lambda>_. True)"
    "\<And>r. Q r"
  shows "does P (Patch L C client i h obj) Q"
  unfolding Patch_def patch_spec_def patchStatus_def
  by (intro emits_intros assms TrueI | rule assms)+

end
