(* ===== verification/Fleet.thy ===== *)
theory Fleet
  imports Utils
begin

text \<open>
  Package fleet (pkg/fleet/configgen.go): the Fleet configuration of a deployment.  For every
  application it writes a directory with the Helm values, two network policies, a kustomization
  and \<open>fleet.yaml\<close>, and sub-directories for the namespaces and for an image pull secret.

  YAML and JSON encoding, URL parsing and the UUID of a token are parameters (\<open>fleetlib\<close>); the API
  server, the Nexus client, the name generator and the file system are the actions of \<open>FleetEnv\<close>.
\<close>

section \<open>Types\<close>

datatype BundleType = BundleTypeUnknown | BundleTypeInit | BundleTypeApp

fun BundleType_String :: "BundleType \<Rightarrow> string" where
  "BundleType_String BundleTypeUnknown = ''unknown''"
| "BundleType_String BundleTypeInit = ''init''"
| "BundleType_String BundleTypeApp = ''app''"

abbreviation CredentialString :: string where "CredentialString \<equiv> ''%GeneratedDockerCredential%''"
abbreviation PreHookString :: string where "PreHookString \<equiv> ''%PreHookCredential%''"
abbreviation ImageRegistryURL :: string where "ImageRegistryURL \<equiv> ''%ImageRegistryURL%''"
abbreviation OrgName :: string where "OrgName \<equiv> ''%OrgName%''"
abbreviation ProjectName :: string where "ProjectName \<equiv> ''%ProjectName%''"
abbreviation NexusOrgLabel :: string where
  "NexusOrgLabel \<equiv> ''runtimeorgs.runtimeorg.edge-orchestrator.intel.com''"

record Operation =
  op_Op :: string
  op_Path :: string
  op_Value :: string

record ComparePatch =
  cp_Kind :: string
  cp_APIVersion :: string
  cp_Namespace :: string
  cp_Name :: string
  cp_Operations :: "Operation list"

record DeployLabels =
  dl_DeploymentID :: string
  dl_DeploymentGeneration :: string
  dl_AppName :: string
  dl_BundleType :: string

record FleetHelmApp =
  fh_ReleaseName :: string
  fh_Repo :: string
  fh_Chart :: string
  fh_Version :: string
  fh_ValuesFiles :: "string list"

text \<open>A dependency item names a bundle; its selector is never set.\<close>

record DependsOnItem =
  di_Name :: string

record Config =
  cf_Name :: string
  cf_Labels :: DeployLabels
  cf_DefaultNamespace :: string
  cf_DeleteCRDResources :: bool
  cf_Helm :: FleetHelmApp
  cf_KustomizeDir :: string
  cf_DependsOn :: "DependsOnItem list"
  cf_Diff :: "ComparePatch list option"
  cf_NamespaceLabels :: labels
  cf_NamespaceAnnotations :: labels

record NetworkPolicy =
  np_Name :: string
  np_PolicyTypes :: "string list"
  np_Ingress :: nat
  np_Egress :: nat

record SecretSpec =
  sx_Type :: string
  sx_Name :: string
  sx_Namespace :: string
  sx_Data :: labels

record GlobalValues =
  gv_DeploymentGeneration :: int
  gv_ClusterLabels :: labels

record SecretArgs =
  sg_Namespace :: string
  sg_Name :: string
  sg_LiteralSources :: "string list"
  sg_Type :: string

record Kustomization =
  kz_Resources :: "string list"
  kz_SecretGenerator :: "SecretArgs list"
  kz_DisableNameSuffixHash :: bool

text \<open>What is encoded as YAML.\<close>

datatype yaml_doc =
    YConfig Config | YPolicy NetworkPolicy | YSecret SecretSpec | YEmpty
  | YGlobals GlobalValues | YKustomization Kustomization

record URL =
  u_Scheme :: string
  u_Host :: string
  u_Path :: string

record fleetlib =
  fl_ParseURL :: "string \<Rightarrow> URL res"
  fl_JoinPath :: "string \<Rightarrow> string \<Rightarrow> string"
  fl_uuid :: "string \<Rightarrow> string"
  fl_yaml :: "yaml_doc \<Rightarrow> string res"
  fl_credjson :: "string \<Rightarrow> string \<Rightarrow> string \<Rightarrow> string res"

record RuntimeProject =
  rp_UID :: string
  rp_DisplayName :: string
  rp_Labels :: labels

text \<open>The two booleans are the environment settings of the process.\<close>

record 's FleetEnv =
  fe_GetSecret :: "string \<Rightarrow> string \<Rightarrow> ('s, Secret res) state"
  fe_ListRuntimeProjects :: "('s, RuntimeProject list res) state"
  fe_GenerateName :: "('s, string) state"
  fe_WriteFile :: "string \<Rightarrow> string \<Rightarrow> string \<Rightarrow> ('s, goerror option) state"
  fe_DeleteCRDResources :: bool
  fe_AddGlobalVars :: bool

section \<open>Bundle names\<close>

definition bundle_token :: "Application \<Rightarrow> string \<Rightarrow> string" where
  "bundle_token app depName =
     (if ap_RedeployAfterUpdate app then ap_Name app @ ap_Version app else ap_Name app) @ depName"

text \<open>The UUID is that of the hexadecimal SHA-1 of the token; writing to a hash never fails.\<close>

definition BundleName :: "fleetlib \<Rightarrow> Application \<Rightarrow> string \<Rightarrow> string" where
  "BundleName F app depName = ''b-'' @ take 16 (fl_uuid F (bundle_token app depName))"

section \<open>Diff options\<close>

definition IgnoreDataOp :: "Operation list" where
  "IgnoreDataOp = [\<lparr>op_Op = ''ignore'', op_Path = [], op_Value = []\<rparr>,
     \<lparr>op_Op = ''remove'', op_Path = ''/metadata'', op_Value = []\<rparr>,
     \<lparr>op_Op = ''remove'', op_Path = ''/data'', op_Value = []\<rparr>]"

definition IgnoreWHCOp :: "Operation list" where
  "IgnoreWHCOp = [\<lparr>op_Op = ''ignore'', op_Path = [], op_Value = []\<rparr>,
     \<lparr>op_Op = ''remove'', op_Path = ''/webhooks'', op_Value = []\<rparr>]"

definition IgnoreSpecOp :: "Operation list" where
  "IgnoreSpecOp = [\<lparr>op_Op = ''ignore'', op_Path = [], op_Value = []\<rparr>,
     \<lparr>op_Op = ''remove'', op_Path = ''/spec'', op_Value = []\<rparr>]"

definition mk_patch :: "string \<Rightarrow> string \<Rightarrow> string \<Rightarrow> string \<Rightarrow> Operation list \<Rightarrow> ComparePatch" where
  "mk_patch kind api ns name ops = \<lparr>cp_Kind = kind, cp_APIVersion = api, cp_Namespace = ns,
     cp_Name = name, cp_Operations = ops\<rparr>"

text \<open>One iteration of the loop over the ignored resources of an application.\<close>

definition compare_patch :: "string \<Rightarrow> IgnoreResource \<Rightarrow> ComparePatch res" where
  "compare_patch appNamespace r = (let
     ns = (if ir_Namespace r \<noteq> [] then ir_Namespace r else appNamespace);
     kind = ir_Kind r;
     no_ns = PlainErr (''namespace is not supported for '' @ kind @ '' kind in diff configuration'')
   in if kind = ''ConfigMap'' \<or> kind = ''Secret'' then
        Inr (mk_patch kind ''v1'' ns (ir_Name r) IgnoreDataOp)
      else if kind = ''ValidatingWebhookConfiguration'' \<or> kind = ''MutatingWebhookConfiguration'' then
        (if ir_Namespace r \<noteq> [] then Inl no_ns
         else Inr (mk_patch kind ''admissionregistration.k8s.io/v1'' [] (ir_Name r) IgnoreWHCOp))
      else if kind = ''CustomResourceDefinition'' then
        (if ir_Namespace r \<noteq> [] then Inl no_ns
         else Inr (mk_patch kind ''apiextensions.k8s.io/v1'' [] (ir_Name r) IgnoreSpecOp))
      else if kind = ''EnvoyFilter'' then
        Inr (mk_patch kind ''networking.istio.io/v1beta1'' ns (ir_Name r) IgnoreSpecOp)
      else if kind = ''Deployment'' then Inr (mk_patch kind ''apps/v1'' ns (ir_Name r) IgnoreSpecOp)
      else if kind = ''Job'' then Inr (mk_patch kind ''batch/v1'' ns (ir_Name r) IgnoreSpecOp)
      else Inl (PlainErr (''unsupported: Kind '' @ kind @ '' not supported in diff configuration'')))"

fun compare_patches :: "string \<Rightarrow> IgnoreResource list \<Rightarrow> ComparePatch list res" where
  "compare_patches ns [] = Inr []"
| "compare_patches ns (r # rs) =
     (case compare_patch ns r of
        Inl e \<Rightarrow> Inl e
      | Inr p \<Rightarrow> (case compare_patches ns rs of Inl e \<Rightarrow> Inl e | Inr ps \<Rightarrow> Inr (p # ps)))"

section \<open>The fleet.yaml of an application\<close>

text \<open>
  \<open>appMap\<close> maps the name of an application to its last occurrence.  A missing key gives the zero
  application, whose nil \<open>HelmApp\<close> would be dereferenced only for the application itself.
\<close>

definition appMap_of :: "Application list \<Rightarrow> string \<Rightarrow> Application" where
  "appMap_of apps n = (case find (\<lambda>a. ap_Name a = n) (rev apps) of None \<Rightarrow> empty_app | Some a \<Rightarrow> a)"

definition newFleetConfig ::
  "fleetlib \<Rightarrow> bool \<Rightarrow> string \<Rightarrow> (string \<Rightarrow> Application) \<Rightarrow> string \<Rightarrow> string \<Rightarrow> int \<Rightarrow> string \<Rightarrow> Config res go" where
  "newFleetConfig F deleteCRD appName appMap depID depName generation namespace = (let
     app = appMap appName;
     bundlename = BundleName F app depName
   in case ap_HelmApp app of
        None \<Rightarrow> Panicked
      | Some helm \<Rightarrow> Ret
          (case fl_ParseURL F (ha_Repo helm) of
             Inl err \<Rightarrow> Inl err
           | Inr u \<Rightarrow>
               (let oci = (u_Scheme u = ''oci'');
                    repoURL = (if oci then [] else ha_Repo helm);
                    chartURL = (if oci then fl_JoinPath F (ha_Repo helm) (ha_Chart helm) else ha_Chart helm)
                in case compare_patches (ap_Namespace app) (ap_IgnoreResources app) of
                     Inl err \<Rightarrow> Inl err
                   | Inr patches \<Rightarrow> Inr
                       \<lparr>cf_Name = bundlename,
                        cf_Labels = \<lparr>dl_DeploymentID = depID,
                          dl_DeploymentGeneration = int_str generation, dl_AppName = ap_Name app,
                          dl_BundleType = BundleType_String BundleTypeApp\<rparr>,
                        cf_DefaultNamespace = namespace,
                        cf_DeleteCRDResources = deleteCRD,
                        cf_Helm = \<lparr>fh_ReleaseName = bundlename, fh_Repo = repoURL, fh_Chart = chartURL,
                          fh_Version = ha_Version helm, fh_ValuesFiles = []\<rparr>,
                        cf_KustomizeDir = [],
                        cf_DependsOn = map (\<lambda>dep. \<lparr>di_Name = BundleName F (appMap dep) depName\<rparr>)
                          (ap_DependsOn app),
                        cf_Diff = Some patches,
                        cf_NamespaceLabels = [],
                        cf_NamespaceAnnotations = []\<rparr>)))"

section \<open>Reading secrets and writing files\<close>

definition valuesFromSecret :: "'s FleetEnv \<Rightarrow> string \<Rightarrow> string \<Rightarrow> ('s, string res) state" where
  "valuesFromSecret E secretName namespace =
     (if secretName = [] then ret_io []
      else try_io (fe_GetSecret E namespace secretName)
             (\<lambda>values. ret_io (label_get (se_Data values) ''values'')))"

definition write_yaml ::
  "fleetlib \<Rightarrow> 's FleetEnv \<Rightarrow> string \<Rightarrow> string \<Rightarrow> yaml_doc \<Rightarrow> ('s, unit res) state" where
  "write_yaml F E basedir name doc =
     (case fl_yaml F doc of
        Inl err \<Rightarrow> fail_io err
      | Inr data \<Rightarrow> guard_io (fe_WriteFile E basedir name data))"

definition WriteFleetConfig :: "fleetlib \<Rightarrow> 's FleetEnv \<Rightarrow> string \<Rightarrow> Config \<Rightarrow> ('s, unit res) state" where
  "WriteFleetConfig F E basedir fleetconfig = write_yaml F E basedir ''fleet.yaml'' (YConfig fleetconfig)"

definition WriteResourceConfig ::
  "fleetlib \<Rightarrow> 's FleetEnv \<Rightarrow> string \<Rightarrow> yaml_doc \<Rightarrow> string \<Rightarrow> ('s, unit res) state" where
  "WriteResourceConfig F E basedir v name = write_yaml F E basedir name v"

definition WriteNetworkPolicyConfig ::
  "fleetlib \<Rightarrow> 's FleetEnv \<Rightarrow> string \<Rightarrow> NetworkPolicy \<Rightarrow> string \<Rightarrow> ('s, unit res) state" where
  "WriteNetworkPolicyConfig F E basedir nwPolicy name = write_yaml F E basedir name (YPolicy nwPolicy)"

definition WriteKustomization :: "fleetlib \<Rightarrow> 's FleetEnv \<Rightarrow> string \<Rightarrow> Kustomization \<Rightarrow> ('s, unit res) state" where
  "WriteKustomization F E basedir k = write_yaml F E basedir ''kustomization.yaml'' (YKustomization k)"

definition WriteExtraValues ::
  "fleetlib \<Rightarrow> 's FleetEnv \<Rightarrow> string \<Rightarrow> string \<Rightarrow> GlobalValues \<Rightarrow> ('s, unit res) state" where
  "WriteExtraValues F E basedir filename e = write_yaml F E basedir filename (YGlobals e)"

definition zero_config :: Config where
  "zero_config = \<lparr>cf_Name = [],
     cf_Labels = \<lparr>dl_DeploymentID = [], dl_DeploymentGeneration = [], dl_AppName = [], dl_BundleType = []\<rparr>,
     cf_DefaultNamespace = [], cf_DeleteCRDResources = False,
     cf_Helm = \<lparr>fh_ReleaseName = [], fh_Repo = [], fh_Chart = [], fh_Version = [], fh_ValuesFiles = []\<rparr>,
     cf_KustomizeDir = [], cf_DependsOn = [], cf_Diff = None, cf_NamespaceLabels = [],
     cf_NamespaceAnnotations = []\<rparr>"

definition injectNamespaceToSubDir ::
  "fleetlib \<Rightarrow> 's FleetEnv \<Rightarrow> Namespace \<Rightarrow> string \<Rightarrow> string \<Rightarrow> ('s, unit res) state" where
  "injectNamespaceToSubDir F E ns fleetPath bundleName = (let
     subFleetConf = zero_config\<lparr>cf_Name := bundleName, cf_DefaultNamespace := ns_Name ns,
       cf_NamespaceLabels := ns_Labels ns, cf_NamespaceAnnotations := ns_Annotations ns\<rparr>;
     dir = path_join [fleetPath, ns_Name ns @ ''-ns'']
   in try_io (WriteFleetConfig F E dir subFleetConf) (\<lambda>_.
      WriteResourceConfig F E dir YEmpty ''empty.yaml''))"

definition injectImageCredentialToKustomization ::
  "fleetlib \<Rightarrow> 's FleetEnv \<Rightarrow> URL \<Rightarrow> string \<Rightarrow> string \<Rightarrow> string \<Rightarrow> string \<Rightarrow> Kustomization \<Rightarrow>
   ('s, Kustomization res) state" where
  "injectImageCredentialToKustomization F E reg regSecret secretNamespace appNamespace bundleName k =
     try_io (fe_GetSecret E secretNamespace regSecret) (\<lambda>creds. let
       username = label_get (se_Data creds) ''username'';
       password = label_get (se_Data creds) ''password''
     in case fl_credjson F (u_Host reg) username password of
          Inl err \<Rightarrow> fail_io err
        | Inr credjson \<Rightarrow> ret_io (k\<lparr>
            kz_SecretGenerator := [\<lparr>sg_Namespace = appNamespace, sg_Name = bundleName,
              sg_LiteralSources = [''.dockerconfigjson='' @ credjson, ''accessKeyId='' @ username,
                ''secretKey='' @ password],
              sg_Type = ''kubernetes.io/dockerconfigjson''\<rparr>],
            kz_DisableNameSuffixHash := True\<rparr>))"

definition injectImageCredentialSecretToSubDir ::
  "fleetlib \<Rightarrow> 's FleetEnv \<Rightarrow> URL \<Rightarrow> string \<Rightarrow> string \<Rightarrow> string \<Rightarrow> string \<Rightarrow> string \<Rightarrow> ('s, unit res) state" where
  "injectImageCredentialSecretToSubDir F E reg regSecret secretNamespace appNamespace bundleName fleetPath =
     try_io (fe_GetSecret E secretNamespace regSecret) (\<lambda>creds. let
       username = label_get (se_Data creds) ''username'';
       password = label_get (se_Data creds) ''password''
     in case fl_credjson F (u_Host reg) username password of
          Inl err \<Rightarrow> fail_io err
        | Inr credjson \<Rightarrow>
            try_io (WriteFleetConfig F E (path_join [fleetPath, ''secret-dir''])
                (zero_config\<lparr>cf_Name := ''pre-install-secret-'' @ bundleName,
                  cf_DefaultNamespace := appNamespace\<rparr>)) (\<lambda>_.
              WriteResourceConfig F E (path_join [fleetPath, ''secret-dir''])
                (YSecret \<lparr>sx_Type = ''kubernetes.io/dockerconfigjson'', sx_Name = bundleName,
                   sx_Namespace = appNamespace,
                   sx_Data = [(''.dockerconfigjson'', credjson), (''accessKeyId'', username),
                     (''secretKey'', password)]\<rparr>)
                ''image-reg-secret.yaml''))"

definition getNexusOrgAndProjectNames :: "'s FleetEnv \<Rightarrow> Deployment \<Rightarrow> ('s, (string \<times> string) res) state" where
  "getNexusOrgAndProjectNames E d = (let
     projectID = label_get (labels_of (d_Meta d)) AppOrchActiveProjectID
   in if projectID = [] then fail_io (PlainErr ''project-id not found in deployment labels'')
      else try_io (fe_ListRuntimeProjects E) (\<lambda>items.
        case find (\<lambda>p. rp_UID p = projectID) items of
          None \<Rightarrow> fail_io (PlainErr (''unable to find nexus runtime project with UID: '' @ projectID))
        | Some p \<Rightarrow>
            (let projectName = rp_DisplayName p; orgName = label_get (rp_Labels p) NexusOrgLabel
             in if orgName = [] then fail_io (PlainErr (''nexus project '' @ projectName @
                  '' has no label '' @ NexusOrgLabel))
                else ret_io (orgName, projectName))))"

section \<open>The values of an application\<close>

definition replace_creds :: "bool \<Rightarrow> string \<Rightarrow> string \<Rightarrow> string" where
  "replace_creds hasImageCreds bundleName contents =
     (if hasImageCreds then ReplaceAll contents CredentialString bundleName else contents)"

definition replace_tag :: "string \<Rightarrow> string \<Rightarrow> string \<Rightarrow> string" where
  "replace_tag tag val contents = (if Contains contents tag then ReplaceAll contents tag val else contents)"

text \<open>The profile contents after substitution, and whether they ask for the pre-hook credential.\<close>

definition profile_contents ::
  "bool \<Rightarrow> string \<Rightarrow> URL \<Rightarrow> string \<Rightarrow> string \<Rightarrow> string \<Rightarrow> (string \<times> bool) res" where
  "profile_contents hasImageCreds bundleName imageRegistryURL orgName projectName raw = (let
     contents = replace_creds hasImageCreds bundleName raw;
     hasPreHook = Contains contents PreHookString
   in if Contains contents CredentialString then
        Inl (PlainErr ''token string present without Docker credentials'')
      else if Contains contents ImageRegistryURL \<and> u_Host imageRegistryURL = [] then
        Inl (PlainErr (''imageRegistry not set but '' @ [CHR 0x27] @ ImageRegistryURL @ [CHR 0x27] @ '' tag is present''))
      else Inr (replace_tag ProjectName projectName (replace_tag OrgName orgName
             (replace_tag ImageRegistryURL (u_Host imageRegistryURL @ u_Path imageRegistryURL) contents)),
           hasPreHook))"

definition cluster_labels :: labels where
  "cluster_labels = [
     (LabelClusterName, ''global.fleet.clusterLabels.'' @ LabelClusterName),
     (FleetProjectID, ''global.fleet.clusterLabels.'' @ FleetProjectID),
     (FleetHostUuid, ''global.fleet.'' @ FleetHostUuid)]"

definition policy_name :: "Application \<Rightarrow> Deployment \<Rightarrow> string \<Rightarrow> string" where
  "policy_name app d sfx = ap_Name app @ ''-'' @ ap_Version app @ ''-'' @
     ReplaceAll (om_Name (d_Meta d)) ''deployment-'' [] @ sfx"

definition add_values_file :: "string \<Rightarrow> Config \<Rightarrow> Config" where
  "add_values_file f c = c\<lparr>cf_Helm := (cf_Helm c)\<lparr>fh_ValuesFiles := fh_ValuesFiles (cf_Helm c) @ [f]\<rparr>\<rparr>"

definition add_depends :: "string \<Rightarrow> Config \<Rightarrow> Config" where
  "add_depends n c = c\<lparr>cf_DependsOn := cf_DependsOn c @ [\<lparr>di_Name = n\<rparr>]\<rparr>"

section \<open>Generation for one application\<close>

definition write_policies ::
  "fleetlib \<Rightarrow> 's FleetEnv \<Rightarrow> Deployment \<Rightarrow> Application \<Rightarrow> string \<Rightarrow> ('s, unit res) state" where
  "write_policies F E d app fleetPath =
     try_io (WriteNetworkPolicyConfig F E (path_join [fleetPath, ''kustomize''])
        \<lparr>np_Name = policy_name app d ''-ingress'', np_PolicyTypes = [''Ingress''], np_Ingress = 1, np_Egress = 0\<rparr>
        ''network-policy-ingress.yaml'') (\<lambda>_.
     WriteNetworkPolicyConfig F E (path_join [fleetPath, ''kustomize''])
        \<lparr>np_Name = policy_name app d ''-egress'', np_PolicyTypes = [''Egress''], np_Ingress = 0, np_Egress = 1\<rparr>
        ''network-policy-egress.yaml'')"

definition inject_namespaces ::
  "fleetlib \<Rightarrow> 's FleetEnv \<Rightarrow> Deployment \<Rightarrow> string \<Rightarrow> string \<Rightarrow> Config \<Rightarrow> ('s, Config res) state" where
  "inject_namespaces F E d fleetPath initNsBundleName =
     fold_try (\<lambda>ns conf. let nsBundleName = ns_Name ns @ ''-'' @ initNsBundleName in
       try_io (injectNamespaceToSubDir F E ns fleetPath nsBundleName)
         (\<lambda>_. ret_io (add_depends nsBundleName conf)))
       (dp_Namespaces (sp_DeploymentPackageRef (d_Spec d)))"

definition write_app ::
  "fleetlib \<Rightarrow> 's FleetEnv \<Rightarrow> Deployment \<Rightarrow> string \<Rightarrow> string \<Rightarrow> string \<Rightarrow> string \<Rightarrow>
   Application \<Rightarrow> HelmApp \<Rightarrow> URL \<Rightarrow> Config \<Rightarrow> ('s, unit res) state" where
  "write_app F E d orgName projectName initNsBundleName baseDir app helm imageRegistryURL fleetConf0 = (let
     namespace = ap_Namespace app;
     depNs = om_Namespace (d_Meta d);
     regSecret = ha_ImageRegistrySecretName helm;
     hasImageCreds = (regSecret \<noteq> []);
     bundleName = BundleName F app (om_Name (d_Meta d));
     fleetPath = path_join [baseDir, ap_Name app];
     kustomizeDir = path_join [fleetPath, ''kustomize'']
   in try_io (valuesFromSecret E (ap_ProfileSecretName app) depNs) (\<lambda>raw.
      case profile_contents hasImageCreds bundleName imageRegistryURL orgName projectName raw of
        Inl err \<Rightarrow> fail_io err
      | Inr (contents, hasPreHook) \<Rightarrow>
      try_io (guard_io (fe_WriteFile E fleetPath ''profile.yaml'' contents)) (\<lambda>_.
      try_io (valuesFromSecret E (ap_ValueSecretName app) depNs) (\<lambda>raw2.
      try_io (guard_io (fe_WriteFile E fleetPath ''overrides.yaml''
        (replace_creds hasImageCreds bundleName raw2))) (\<lambda>_.
      try_io (WriteExtraValues F E fleetPath ''fleet-globals.yaml''
        \<lparr>gv_DeploymentGeneration = om_Generation (d_Meta d),
         gv_ClusterLabels = (if fe_AddGlobalVars E then cluster_labels else [])\<rparr>) (\<lambda>_.
      try_io (write_policies F E d app fleetPath) (\<lambda>_.
      try_io (inject_namespaces F E d fleetPath initNsBundleName
        (add_values_file ''fleet-globals.yaml'' (add_values_file ''overrides.yaml''
          (add_values_file ''profile.yaml'' fleetConf0)))) (\<lambda>fleetConf. let
        k = \<lparr>kz_Resources = [''network-policy-ingress.yaml'', ''network-policy-egress.yaml''],
             kz_SecretGenerator = [], kz_DisableNameSuffixHash = False\<rparr>
      in try_io
        (if hasPreHook then
           try_io (injectImageCredentialSecretToSubDir F E imageRegistryURL regSecret depNs namespace
               bundleName fleetPath)
             (\<lambda>_. ret_io (add_depends (''pre-install-secret-'' @ bundleName) fleetConf, k))
         else if hasImageCreds then
           try_io (injectImageCredentialToKustomization F E imageRegistryURL regSecret depNs namespace
               bundleName k)
             (\<lambda>k'. ret_io (fleetConf, k'))
         else ret_io (fleetConf, k)) (\<lambda>(fleetConf, k).
      try_io (WriteKustomization F E kustomizeDir k) (\<lambda>_.
      WriteFleetConfig F E fleetPath (fleetConf\<lparr>cf_KustomizeDir := ''./kustomize''\<rparr>)))))))))))"

definition generate_app ::
  "fleetlib \<Rightarrow> 's FleetEnv \<Rightarrow> Deployment \<Rightarrow> string \<Rightarrow> string \<Rightarrow> string \<Rightarrow> string \<Rightarrow> Application \<Rightarrow>
   ('s, unit res go) state" where
  "generate_app F E d orgName projectName initNsBundleName baseDir app =
     (case ap_HelmApp app of
        None \<Rightarrow> State_Monad.return Panicked
      | Some helm \<Rightarrow>
          (case fl_ParseURL F (ha_ImageRegistry helm) of
             Inl err \<Rightarrow> State_Monad.return (Ret (Inl err))
           | Inr imageRegistryURL \<Rightarrow>
               (case newFleetConfig F (fe_DeleteCRDResources E) (ap_Name app)
                       (appMap_of (sp_Applications (d_Spec d))) (GetId d) (om_Name (d_Meta d))
                       (om_Generation (d_Meta d)) (ap_Namespace app) of
                  Panicked \<Rightarrow> State_Monad.return Panicked
                | Ret (Inl err) \<Rightarrow> State_Monad.return (Ret (Inl err))
                | Ret (Inr fleetConf) \<Rightarrow> do {
                    r \<leftarrow> write_app F E d orgName projectName initNsBundleName baseDir app helm
                          imageRegistryURL fleetConf;
                    State_Monad.return (Ret r) })))"

fun generate_apps :: "(Application \<Rightarrow> ('s, unit res go) state) \<Rightarrow> Application list \<Rightarrow> ('s, unit res go) state" where
  "generate_apps g [] = State_Monad.return (Ret (Inr ()))"
| "generate_apps g (app # apps) = do {
     r \<leftarrow> g app;
     case r of Ret (Inr _) \<Rightarrow> generate_apps g apps | _ \<Rightarrow> State_Monad.return r }"

definition GenerateFleetConfigs ::
  "fleetlib \<Rightarrow> 's FleetEnv \<Rightarrow> Deployment \<Rightarrow> string \<Rightarrow> ('s, unit res go) state" where
  "GenerateFleetConfigs F E d baseDir = do {
     initNsBundleName \<leftarrow> (if dp_Namespaces (sp_DeploymentPackageRef (d_Spec d)) \<noteq> []
                         then fe_GenerateName E else State_Monad.return []);
     r \<leftarrow> getNexusOrgAndProjectNames E d;
     case r of
       Inl err \<Rightarrow> State_Monad.return (Ret (Inl err))
     | Inr (orgName, projectName) \<Rightarrow>
         generate_apps (generate_app F E d orgName projectName initNsBundleName baseDir)
           (sp_Applications (d_Spec d)) }"

section \<open>Lemmas\<close>

lemma appMap_of_in:
  "app \<in> set apps \<Longrightarrow> appMap_of apps (ap_Name app) \<in> set apps \<and> ap_Name (appMap_of apps (ap_Name app)) = ap_Name app"
proof -
  assume "app \<in> set apps"
  then have "find (\<lambda>a. ap_Name a = ap_Name app) (rev apps) \<noteq> None"
    by (auto simp: find_None_iff)
  then obtain b where b: "find (\<lambda>a. ap_Name a = ap_Name app) (rev apps) = Some b" by auto
  then have "b \<in> set apps \<and> ap_Name b = ap_Name app"
    by (metis (mono_tags, lifting) find_Some_iff in_set_conv_nth set_rev)
  with b show ?thesis by (simp add: appMap_of_def)
qed

lemma appMap_of_distinct:
  "distinct (map ap_Name apps) \<Longrightarrow> app \<in> set apps \<Longrightarrow> appMap_of apps (ap_Name app) = app"
  using appMap_of_in [of app apps] by (meson distinct_map inj_onD)

lemma newFleetConfig_panic: "newFleetConfig F del n m i dn g ns = Panicked \<longleftrightarrow> ap_HelmApp (m n) = None"
  by (auto simp: newFleetConfig_def Let_def split: option.splits)

lemma generate_app_no_panic:
  "ap_HelmApp app \<noteq> None \<Longrightarrow> ap_HelmApp (appMap_of (sp_Applications (d_Spec d)) (ap_Name app)) \<noteq> None \<Longrightarrow>
   post (generate_app F E d org proj ini dir app) (\<lambda>r. r \<noteq> Panicked)"
  unfolding generate_app_def
  by (auto simp: newFleetConfig_panic split: option.split sum.split go.split intro!: post_bind [of _ "\<lambda>_. True"])

lemma generate_apps_no_panic:
  "(\<And>app. app \<in> set apps \<Longrightarrow> post (g app) (\<lambda>r. r \<noteq> Panicked)) \<Longrightarrow>
   post (generate_apps g apps) (\<lambda>r. r \<noteq> Panicked)"
proof (induction apps)
  case (Cons app apps)
  have "post (generate_apps g apps) (\<lambda>r. r \<noteq> Panicked)" using Cons by simp
  moreover have "post (g app) (\<lambda>r. r \<noteq> Panicked)" using Cons by simp
  ultimately show ?case
    unfolding generate_apps.simps
    by (intro post_bind) (auto split: go.split sum.split)
qed simp

lemma GenerateFleetConfigs_no_panic:
  assumes "\<forall>app \<in> set (sp_Applications (d_Spec d)). ap_HelmApp app \<noteq> None"
  shows "post (GenerateFleetConfigs F E d dir) (\<lambda>r. r \<noteq> Panicked)"
  unfolding GenerateFleetConfigs_def
  by (rule post_bind [of _ "\<lambda>_. True"], simp, rule post_bind [of _ "\<lambda>_. True"], simp)
     (use assms appMap_of_in in \<open>auto split: sum.split intro!: generate_apps_no_panic generate_app_no_panic\<close>)

lemma compare_patches_all2:
  "compare_patches ns rs = Inr ps \<Longrightarrow> list_all2 (\<lambda>r p. compare_patch ns r = Inr p) rs ps"
  by (induction rs arbitrary: ps) (auto split: sum.splits)

lemma compare_patch_ok:
  "compare_patch ns r = Inr p \<Longrightarrow>
     cp_Kind p = ir_Kind r \<and> cp_Name p = ir_Name r \<and> hd (cp_Operations p) = \<lparr>op_Op = ''ignore'', op_Path = [], op_Value = []\<rparr> \<and>
     (cp_Namespace p = [] \<or> cp_Namespace p = (if ir_Namespace r \<noteq> [] then ir_Namespace r else ns))"
  by (auto simp: compare_patch_def Let_def mk_patch_def IgnoreDataOp_def IgnoreWHCOp_def IgnoreSpecOp_def
      split: if_splits)

lemma newFleetConfig_ok:
  assumes "newFleetConfig F del n m i dn g ns = Ret (Inr c)"
  shows "cf_Name c = BundleName F (m n) dn" "map di_Name (cf_DependsOn c) = map (\<lambda>dep. BundleName F (m dep) dn) (ap_DependsOn (m n))"
    "dl_DeploymentID (cf_Labels c) = i" "dl_DeploymentGeneration (cf_Labels c) = int_str g"
    "dl_AppName (cf_Labels c) = ap_Name (m n)" "fh_ReleaseName (cf_Helm c) = cf_Name c"
    "cf_DefaultNamespace c = ns" "fh_ValuesFiles (cf_Helm c) = []"
    "\<exists>ps. cf_Diff c = Some ps \<and> compare_patches (ap_Namespace (m n)) (ap_IgnoreResources (m n)) = Inr ps"
  using assms by (auto simp: newFleetConfig_def Let_def split: option.splits sum.splits)

text \<open>The token of a bundle name does not separate its parts.\<close>

lemma bundle_token_collision:
  "ap_RedeployAfterUpdate a \<Longrightarrow> \<not> ap_RedeployAfterUpdate b \<Longrightarrow> ap_Name b = ap_Name a @ ap_Version a \<Longrightarrow>
   BundleName F a n = BundleName F b n"
  by (simp add: BundleName_def bundle_token_def)

end
