(* ===== verification/DepBase.thy ===== *)
theory DepBase
  imports Patch Fleet
begin

text \<open>
  The Deployment controller (controllers/deployment/deployment_controller.go), part one: the calls
  it makes, its \<open>Reconciler\<close>, the cache of deletion metadata and the status metrics.

  Every call to the API server, the git server, the Catalog, the metrics registry and the event
  recorder is a \<open>dep_ev\<close> of the trace.  The answers come from the functions of the \<open>Reconciler\<close>
  record, which read and change the external world \<open>'w\<close>.
\<close>

section \<open>Constants\<close>

abbreviation typeReady :: string where "typeReady \<equiv> ''Ready''"
abbreviation typeGitSynced :: string where "typeGitSynced \<equiv> ''GitSynced''"
abbreviation typeGitReposUpdated :: string where "typeGitReposUpdated \<equiv> ''GitReposUpdated''"
abbreviation typeNotStalled :: string where "typeNotStalled \<equiv> ''NotStalled''"
abbreviation reasonSuccess :: string where "reasonSuccess \<equiv> ''Success''"
abbreviation reasonFailed :: string where "reasonFailed \<equiv> ''Failed''"
abbreviation reasonFleetConfigFailed :: string where "reasonFleetConfigFailed \<equiv> ''FleetConfigFailed''"
abbreviation reasonNewGitClientFailed :: string where "reasonNewGitClientFailed \<equiv> ''NewGitClientFailed''"
abbreviation reasonGitRemoteCheckFailed :: string where "reasonGitRemoteCheckFailed \<equiv> ''GitRemoteCheckFailed''"
abbreviation reasonGitInitializationFailed :: string where
  "reasonGitInitializationFailed \<equiv> ''GitInitializationFailed''"
abbreviation reasonGitCloneFailed :: string where "reasonGitCloneFailed \<equiv> ''GitCloneFailed''"
abbreviation reasonGitCommitFailed :: string where "reasonGitCommitFailed \<equiv> ''GitCommitFailed''"
abbreviation reasonGitPushFailed :: string where "reasonGitPushFailed \<equiv> ''GitPushFailed''"
abbreviation reasonGitRepoUpdateFailed :: string where "reasonGitRepoUpdateFailed \<equiv> ''GitRepoUpdateFailed''"

definition second :: int where "second = 10 ^ 9"
definition forceResyncInterval :: int where "forceResyncInterval = 60 * second"
definition readyWait :: int where "readyWait = 10"
definition noTargetClustersWait :: int where "noTargetClustersWait = 5 * 60 * second"
definition metadataCacheTTL :: int where "metadataCacheTTL = 30 * 60 * second"

section \<open>Calls\<close>

datatype kube_read_ev =
    GetDeployment string string
  | ListDCs labels | ListBDs labels | ListGitRepos string string | ListByRef string
  | ListJobs string | ListPods labels

datatype kube_write_ev =
    DeleteBD BundleDeployment | DeleteDC DeploymentCluster | DeleteGitRepo GitRepo
  | CreateGitRepo GitRepo | UpdateGitRepo GitRepo
  | PatchDeployment Deployment Deployment | PatchDeploymentStatus Deployment Deployment

datatype git_ev =
    GitNew string | GitExists string | GitDelete string | GitClone string string
  | GitInitialize string string | GitCommit string | GitPush string | GitRemoteURL string
  | RemoveAll string | GenFleet string

datatype service_ev =
    GetToken | Logout | CatalogGet string string | CatalogUpdate string string bool
  | ReadClock | GetCaCert | GenName

datatype metric_ev =
    DelDepMetric string string string string | SetDepMetric string string string string int
  | DelDCMetric string string string string string string
  | DelTimestamps string string | RecordTimestamp string string string string string
  | TimeDifference string string string string string string string

datatype dep_ev =
    Read kube_read_ev | Write kube_write_ev | Git git_ev | Service service_ev | Metric metric_ev
  | RecordEvent string string

text \<open>The API server: the client embedded in the reconciler.\<close>

record 'w DepKube =
  k_Get :: "string \<Rightarrow> string \<Rightarrow> 'w \<Rightarrow> Deployment res \<times> 'w"
  k_ListDCs :: "labels \<Rightarrow> 'w \<Rightarrow> DeploymentCluster list res \<times> 'w"
  k_ListBDs :: "labels \<Rightarrow> 'w \<Rightarrow> BundleDeployment list res \<times> 'w"
  k_ListGitRepos :: "string \<Rightarrow> string \<Rightarrow> 'w \<Rightarrow> GitRepo list res \<times> 'w"
  k_ListByRef :: "string \<Rightarrow> 'w \<Rightarrow> Deployment list res \<times> 'w"
  k_ListJobs :: "string \<Rightarrow> 'w \<Rightarrow> Job list res \<times> 'w"
  k_ListPods :: "labels \<Rightarrow> 'w \<Rightarrow> Pod list res \<times> 'w"
  k_DeleteBD :: "BundleDeployment \<Rightarrow> 'w \<Rightarrow> goerror option \<times> 'w"
  k_DeleteDC :: "DeploymentCluster \<Rightarrow> 'w \<Rightarrow> goerror option \<times> 'w"
  k_DeleteGitRepo :: "GitRepo \<Rightarrow> 'w \<Rightarrow> goerror option \<times> 'w"
  k_CreateGitRepo :: "GitRepo \<Rightarrow> 'w \<Rightarrow> goerror option \<times> 'w"
  k_UpdateGitRepo :: "GitRepo \<Rightarrow> 'w \<Rightarrow> goerror option \<times> 'w"
  k_Patch :: "Deployment \<Rightarrow> Deployment \<Rightarrow> 'w \<Rightarrow> goerror option \<times> 'w"
  k_PatchStatus :: "Deployment \<Rightarrow> Deployment \<Rightarrow> 'w \<Rightarrow> goerror option \<times> 'w"

text \<open>The repositories of \<open>gitclient\<close>, by the ID they are created for, and the local file system.\<close>

record 'w DepGit =
  g_gitclient :: "string \<Rightarrow> 'w \<Rightarrow> goerror option \<times> 'w"
  g_ExistsOnRemote :: "string \<Rightarrow> 'w \<Rightarrow> bool res \<times> 'w"
  g_RepoDelete :: "string \<Rightarrow> 'w \<Rightarrow> goerror option \<times> 'w"
  g_Clone :: "string \<Rightarrow> string \<Rightarrow> 'w \<Rightarrow> goerror option \<times> 'w"
  g_Initialize :: "string \<Rightarrow> string \<Rightarrow> 'w \<Rightarrow> goerror option \<times> 'w"
  g_CommitFiles :: "string \<Rightarrow> 'w \<Rightarrow> goerror option \<times> 'w"
  g_PushToRemote :: "string \<Rightarrow> 'w \<Rightarrow> goerror option \<times> 'w"
  g_GetRemoteURLWithCreds :: "string \<Rightarrow> 'w \<Rightarrow> string res \<times> 'w"
  g_RemoveAll :: "string \<Rightarrow> 'w \<Rightarrow> unit \<times> 'w"
  g_GenerateFleetConfigs :: "Deployment \<Rightarrow> string \<Rightarrow> 'w \<Rightarrow> unit res go \<times> 'w"

text \<open>The Catalog with its authentication, the clock, the name generator, metrics and events.\<close>

record 'w DepServices =
  s_GetM2MToken :: "ctx \<Rightarrow> 'w \<Rightarrow> string res \<times> 'w"
  s_Logout :: "ctx \<Rightarrow> 'w \<Rightarrow> goerror option \<times> 'w"
  s_GetDeploymentPackage :: "ctx \<Rightarrow> string \<Rightarrow> string \<Rightarrow> 'w \<Rightarrow> CatDeploymentPackage res \<times> 'w"
  s_UpdateDeploymentPackage :: "ctx \<Rightarrow> string \<Rightarrow> string \<Rightarrow> CatDeploymentPackage \<Rightarrow> 'w \<Rightarrow> goerror option \<times> 'w"
  s_Now :: "'w \<Rightarrow> int \<times> 'w"
  s_GetGitCaCert :: "'w \<Rightarrow> string \<times> 'w"
  s_GenerateName :: "'w \<Rightarrow> string \<times> 'w"
  s_metric :: "'w \<Rightarrow> unit \<times> 'w"
  s_record :: "'w \<Rightarrow> unit \<times> 'w"

text \<open>
  The reconciler: libraries, servers and the settings that \<open>SetupWithManager\<close> reads.  The package
  variable \<open>logchecker\<close> is the function \<open>rc_ProcessLog\<close>.
\<close>

record ('j, 'w) Reconciler =
  rc_lib :: k8slib
  rc_conv :: "(Deployment, 'j) converter"
  rc_fleet :: fleetlib
  rc_Format :: "int \<Rightarrow> string"
  rc_Parse :: "string \<Rightarrow> int res"
  rc_ProcessLog :: "string \<Rightarrow> string"
  rc_SetControllerReference :: "Deployment \<Rightarrow> GitRepo \<Rightarrow> GitRepo res"
  rc_kube :: "'w DepKube"
  rc_git :: "'w DepGit"
  rc_srv :: "'w DepServices"
  rc_deleteGitRepo :: bool
  rc_fleetGitPollingInterval :: "int option"

type_synonym ('w, 'a) dio = "(dep_ev, 'w, 'a) io"

section \<open>The calls as actions\<close>

definition kGet :: "('j, 'w) Reconciler \<Rightarrow> string \<Rightarrow> string \<Rightarrow> ('w, Deployment res) dio" where
  "kGet R ns n = call (Read (GetDeployment ns n)) (k_Get (rc_kube R) ns n)"

definition kListDCs :: "('j, 'w) Reconciler \<Rightarrow> labels \<Rightarrow> ('w, DeploymentCluster list res) dio" where
  "kListDCs R l = call (Read (ListDCs l)) (k_ListDCs (rc_kube R) l)"

definition kListBDs :: "('j, 'w) Reconciler \<Rightarrow> labels \<Rightarrow> ('w, BundleDeployment list res) dio" where
  "kListBDs R l = call (Read (ListBDs l)) (k_ListBDs (rc_kube R) l)"

definition kListGitRepos :: "('j, 'w) Reconciler \<Rightarrow> Deployment \<Rightarrow> ('w, GitRepo list res) dio" where
  "kListGitRepos R d = call (Read (ListGitRepos (om_Namespace (d_Meta d)) (om_Name (d_Meta d))))
     (k_ListGitRepos (rc_kube R) (om_Namespace (d_Meta d)) (om_Name (d_Meta d)))"

definition kListByRef :: "('j, 'w) Reconciler \<Rightarrow> string \<Rightarrow> ('w, Deployment list res) dio" where
  "kListByRef R ref = call (Read (ListByRef ref)) (k_ListByRef (rc_kube R) ref)"

definition kListJobs :: "('j, 'w) Reconciler \<Rightarrow> string \<Rightarrow> ('w, Job list res) dio" where
  "kListJobs R owner = call (Read (ListJobs owner)) (k_ListJobs (rc_kube R) owner)"

definition kListPods :: "('j, 'w) Reconciler \<Rightarrow> labels \<Rightarrow> ('w, Pod list res) dio" where
  "kListPods R l = call (Read (ListPods l)) (k_ListPods (rc_kube R) l)"

definition kDeleteBD :: "('j, 'w) Reconciler \<Rightarrow> BundleDeployment \<Rightarrow> ('w, goerror option) dio" where
  "kDeleteBD R bd = call (Write (DeleteBD bd)) (k_DeleteBD (rc_kube R) bd)"

definition kDeleteDC :: "('j, 'w) Reconciler \<Rightarrow> DeploymentCluster \<Rightarrow> ('w, goerror option) dio" where
  "kDeleteDC R dc = call (Write (DeleteDC dc)) (k_DeleteDC (rc_kube R) dc)"

definition kDeleteGitRepo :: "('j, 'w) Reconciler \<Rightarrow> GitRepo \<Rightarrow> ('w, goerror option) dio" where
  "kDeleteGitRepo R g = call (Write (DeleteGitRepo g)) (k_DeleteGitRepo (rc_kube R) g)"

definition kCreateGitRepo :: "('j, 'w) Reconciler \<Rightarrow> GitRepo \<Rightarrow> ('w, goerror option) dio" where
  "kCreateGitRepo R g = call (Write (CreateGitRepo g)) (k_CreateGitRepo (rc_kube R) g)"

definition kUpdateGitRepo :: "('j, 'w) Reconciler \<Rightarrow> GitRepo \<Rightarrow> ('w, goerror option) dio" where
  "kUpdateGitRepo R g = call (Write (UpdateGitRepo g)) (k_UpdateGitRepo (rc_kube R) g)"

text \<open>The client that the patch helper of the controller uses.\<close>

definition dep_patch_client :: "('j, 'w) Reconciler \<Rightarrow> (Deployment, (dep_ev, 'w) world) patch_client" where
  "dep_patch_client R = \<lparr>
     pc_Patch = (\<lambda>after before. call (Write (PatchDeployment after before)) (k_Patch (rc_kube R) after before)),
     pc_PatchStatus = (\<lambda>after before. call (Write (PatchDeploymentStatus after before))
        (k_PatchStatus (rc_kube R) after before))\<rparr>"

definition sNow :: "('j, 'w) Reconciler \<Rightarrow> ('w, int) dio" where
  "sNow R = call (Service ReadClock) (s_Now (rc_srv R))"

definition emit_metric :: "('j, 'w) Reconciler \<Rightarrow> metric_ev \<Rightarrow> ('w, unit) dio" where
  "emit_metric R m = call (Metric m) (s_metric (rc_srv R))"

definition record_event :: "('j, 'w) Reconciler \<Rightarrow> string \<Rightarrow> string \<Rightarrow> ('w, unit) dio" where
  "record_event R reason msg = call (RecordEvent reason msg) (s_record (rc_srv R))"

definition sVault :: "('j, 'w) Reconciler \<Rightarrow> (dep_ev, 'w) world VaultAuth" where
  "sVault R = \<lparr>
     va_GetM2MToken = (\<lambda>c. call (Service GetToken) (s_GetM2MToken (rc_srv R) c)),
     va_Logout = (\<lambda>c. call (Service Logout) (s_Logout (rc_srv R) c))\<rparr>"

text \<open>
  \<open>UpdateIsDeployed\<close> uses the first two operations of the Catalog client; the controller calls no
  other, and they answer with an error here.
\<close>

definition sCatalog :: "('j, 'w) Reconciler \<Rightarrow> ctx \<Rightarrow> (dep_ev, 'w) world CatalogClient" where
  "sCatalog R c = \<lparr>
     cat_GetDeploymentPackage = (\<lambda>n v. call (Service (CatalogGet n v)) (s_GetDeploymentPackage (rc_srv R) c n v)),
     cat_UpdateDeploymentPackage = (\<lambda>n v dp. call (Service (CatalogUpdate n v (cdp_IsDeployed dp)))
        (s_UpdateDeploymentPackage (rc_srv R) c n v dp)),
     cat_GetApplication = (\<lambda>_ _. fail_io (PlainErr ''unused'')),
     cat_GetRegistry = (\<lambda>_ _. fail_io (PlainErr ''unused'')),
     cat_ListArtifacts = fail_io (PlainErr ''unused'')\<rparr>"

section \<open>The cache of deletion metadata\<close>

record deploymentMetadata =
  md_deploymentID :: string
  md_displayName :: string
  md_projectID :: string
  md_timestamp :: int

type_synonym deploymentMetadataCache = "deploymentMetadata gomap"

definition cache_key :: "string \<Rightarrow> string \<Rightarrow> string" where
  "cache_key namespace name = namespace @ ''/'' @ name"

text \<open>The project of a deployment, empty where the label is missing.\<close>

definition project_of :: "Deployment \<Rightarrow> string" where
  "project_of d = label_get (labels_of (d_Meta d)) AppOrchActiveProjectID"

definition cacheDeploymentMetadata ::
  "int \<Rightarrow> string \<Rightarrow> string \<Rightarrow> Deployment \<Rightarrow> deploymentMetadataCache \<Rightarrow> deploymentMetadataCache" where
  "cacheDeploymentMetadata now namespace name d cache =
     AList.update (cache_key namespace name)
       \<lparr>md_deploymentID = GetId d, md_displayName = sp_DisplayName (d_Spec d),
        md_projectID = project_of d, md_timestamp = now\<rparr> cache"

definition getAndRemoveMetadata ::
  "string \<Rightarrow> string \<Rightarrow> deploymentMetadataCache \<Rightarrow> deploymentMetadata option \<times> deploymentMetadataCache" where
  "getAndRemoveMetadata namespace name cache = (let key = cache_key namespace name in
     case map_of cache key of
       Some metadata \<Rightarrow> (Some metadata, AList.delete key cache)
     | None \<Rightarrow> (None, cache))"

definition cleanupOldEntries :: "int \<Rightarrow> deploymentMetadataCache \<Rightarrow> deploymentMetadataCache" where
  "cleanupOldEntries now cache = filter (\<lambda>(_, entry). \<not> now - md_timestamp entry > metadataCacheTTL) cache"

section \<open>Status metrics\<close>

text \<open>The keys of the metric map, in the order the code sets them; Go visits them in any order.\<close>

definition metric_states :: "StateType list" where
  "metric_states = [Running, Down, Unknown, StateError, InternalError, Deploying, Updating, Terminating,
     NoTargetClusters]"

definition cleanupMetricsFromCache ::
  "('j, 'w) Reconciler \<Rightarrow> deploymentMetadata option \<Rightarrow> ('w, unit) dio" where
  "cleanupMetricsFromCache R metadata =
     (case metadata of
        None \<Rightarrow> State_Monad.return ()
      | Some m \<Rightarrow> do {
          _ \<leftarrow> for_each (\<lambda>status. emit_metric R (DelDepMetric (md_projectID m) (md_deploymentID m)
                 (md_displayName m) status)) metric_states;
          emit_metric R (DelTimestamps (md_projectID m) (md_deploymentID m)) })"

definition metric_values :: "StateType \<Rightarrow> (StateType \<times> int) list" where
  "metric_values state = AList.update state 1 (map (\<lambda>s. (s, 0)) metric_states)"

definition updateStatusMetrics :: "('j, 'w) Reconciler \<Rightarrow> Deployment \<Rightarrow> bool \<Rightarrow> ('w, unit) dio" where
  "updateStatusMetrics R d deleteMetrics = (let
     displayName = sp_DisplayName (d_Spec d); projectID = project_of d
   in if deleteMetrics then do {
        _ \<leftarrow> for_each (\<lambda>s. emit_metric R (DelDepMetric projectID (GetId d) displayName s)) metric_states;
        emit_metric R (DelTimestamps projectID (GetId d)) }
      else for_each (\<lambda>(s, val). emit_metric R (SetDepMetric projectID (GetId d) displayName s val))
             (metric_values (st_State (d_Status d))))"

section \<open>Names of GitRepo objects\<close>

definition getGitRepoName :: "string \<Rightarrow> string \<Rightarrow> string" where
  "getGitRepoName appName depID = appName @ ''-'' @ depID"

definition getAppNameForGitRepo :: "GitRepo \<Rightarrow> string \<Rightarrow> string" where
  "getAppNameForGitRepo gitrepo depID = TrimSuffix (om_Name (gr_Meta gitrepo)) (''-'' @ depID)"

text \<open>The index functions of the manager: the controller of an object, if it is of the right kind.\<close>

definition controller_index :: "string \<Rightarrow> string \<Rightarrow> ObjectMeta \<Rightarrow> string list" where
  "controller_index apiVersion kind m =
     (case GetControllerOf m of
        None \<Rightarrow> []
      | Some owner \<Rightarrow> if ow_APIVersion owner \<noteq> apiVersion \<or> ow_Kind owner \<noteq> kind then [] else [ow_Name owner])"

definition gitRepoIdxFunc :: "GitRepo \<Rightarrow> string list" where
  "gitRepoIdxFunc g = controller_index ''app.edge-orchestrator.intel.com/v1beta1'' ''Deployment'' (gr_Meta g)"

definition jobIdxFunc :: "ObjectMeta \<Rightarrow> string list" where
  "jobIdxFunc m = controller_index ''gitjob.cattle.io/v1'' ''GitJob'' m"

section \<open>Lemmas\<close>

lemmas dep_calls = kGet_def kListDCs_def kListBDs_def kListGitRepos_def kListByRef_def kListJobs_def
  kListPods_def kDeleteBD_def kDeleteDC_def kDeleteGitRepo_def kCreateGitRepo_def kUpdateGitRepo_def
  sNow_def emit_metric_def record_event_def

lemma cache_roundtrip:
  "getAndRemoveMetadata ns n (cacheDeploymentMetadata now ns n d cache) =
     (Some \<lparr>md_deploymentID = GetId d, md_displayName = sp_DisplayName (d_Spec d),
        md_projectID = project_of d, md_timestamp = now\<rparr>, AList.delete (cache_key ns n) cache)"
  by (simp add: getAndRemoveMetadata_def cacheDeploymentMetadata_def Let_def update_conv' delete_update_same)

lemma getGitRepoName_inverse:
  "om_Name (gr_Meta g) = getGitRepoName app depID \<Longrightarrow> getAppNameForGitRepo g depID = app"
  using TrimSuffix_append [of app "''-'' @ depID"] by (simp add: getGitRepoName_def getAppNameForGitRepo_def)

lemma getGitRepoName_inj: "getGitRepoName a i = getGitRepoName b i \<Longrightarrow> a = b"
  by (simp add: getGitRepoName_def)

end
