(* ===== verification/DepCleanup.thy ===== *)
theory DepCleanup
  imports DepBase
begin

text \<open>
  The Deployment controller, part two: the clean-up of metrics, BundleDeployments and
  DeploymentClusters (the functions \<open>cleanup...\<close> of deployment_controller.go), with what each of
  them may delete.
\<close>

section \<open>Metrics of deployment clusters\<close>

definition dc_states :: "StateType list" where
  "dc_states = [Running, Down, Unknown]"

definition del_dc_metrics ::
  "('j, 'w) Reconciler \<Rightarrow> Deployment \<Rightarrow> string \<Rightarrow> string \<Rightarrow> ('w, unit) dio" where
  "del_dc_metrics R d clusterID clusterName =
     for_each (\<lambda>state. emit_metric R (DelDCMetric (project_of d) (GetId d) (sp_DisplayName (d_Spec d))
       clusterID clusterName state)) dc_states"

definition cleanupOrphanedDeploymentClusterMetrics :: "('j, 'w) Reconciler \<Rightarrow> Deployment \<Rightarrow> ('w, unit) dio" where
  "cleanupOrphanedDeploymentClusterMetrics R d = do {
     r \<leftarrow> kListBDs R [];
     _ \<leftarrow> (case r of
       Inl _ \<Rightarrow> State_Monad.return ()
     | Inr items \<Rightarrow>
         for_each (\<lambda>bundle.
           case om_Labels (bd_Meta bundle) of
             None \<Rightarrow> State_Monad.return ()
           | Some bundleLabels \<Rightarrow>
               when_io (map_of bundleLabels LabelDeploymentID = Some (GetId d))
                 (for_each (\<lambda>state. do {
                    _ \<leftarrow> emit_metric R (DelDCMetric (project_of d) (GetId d) (sp_DisplayName (d_Spec d))
                           (bd_SpecDeploymentID bundle) (om_Name (bd_Meta bundle)) state);
                    emit_metric R (DelDCMetric (project_of d) (GetId d) (sp_DisplayName (d_Spec d))
                           (bd_SpecDeploymentID bundle) [] state) }) dc_states)) items);
     for_each (\<lambda>pat. del_dc_metrics R d pat pat)
       [[], ''cluster-1'', ''default'', ''local'', ''management'', ''worker''] }"

definition cleanupAllDeploymentClusterMetrics ::
  "('j, 'w) Reconciler \<Rightarrow> Deployment \<Rightarrow> ('w, goerror option) dio" where
  "cleanupAllDeploymentClusterMetrics R d = do {
     r \<leftarrow> kListDCs R [(LabelDeploymentID, GetId d)];
     case r of
       Inl err \<Rightarrow> State_Monad.return (Some err)
     | Inr items \<Rightarrow> do {
         _ \<leftarrow> for_each (\<lambda>dc. del_dc_metrics R d (dcs_ClusterID (dc_Spec dc)) (dct_Name (dc_Status dc))) items;
         _ \<leftarrow> cleanupOrphanedDeploymentClusterMetrics R d;
         State_Monad.return None } }"

section \<open>BundleDeployments\<close>

text \<open>The decision of the global search over all BundleDeployments, check by check.\<close>

definition bd_label_match :: "Deployment \<Rightarrow> GitRepo list \<Rightarrow> labels \<Rightarrow> bool" where
  "bd_label_match d gitRepos l =
     (label_get l LabelDeploymentID = GetId d \<or>
      (case map_of l ''fleet.cattle.io/repo-name'' of
         None \<Rightarrow> False
       | Some repoName \<Rightarrow> list_ex (\<lambda>g. om_Name (gr_Meta g) = repoName) gitRepos) \<or>
      (case map_of l ''fleet.cattle.io/bundle-name'' of
         None \<Rightarrow> False
       | Some bundleName \<Rightarrow>
           list_ex (\<lambda>g. bundleName = om_Name (gr_Meta g) \<or> HasPrefix bundleName (om_Name (gr_Meta g) @ ''-''))
             gitRepos))"

definition short_id :: "string \<Rightarrow> string" where
  "short_id i = (if length i > 8 then take 8 i else i)"

definition bd_should_delete :: "Deployment \<Rightarrow> GitRepo list \<Rightarrow> BundleDeployment \<Rightarrow> bool" where
  "bd_should_delete d gitRepos bd =
     ((case om_Labels (bd_Meta bd) of None \<Rightarrow> False | Some l \<Rightarrow> bd_label_match d gitRepos l) \<or>
      (case om_Annotations (bd_Meta bd) of
         None \<Rightarrow> False | Some a \<Rightarrow> label_get a LabelDeploymentID = GetId d) \<or>
      Contains (om_Name (bd_Meta bd)) (short_id (GetId d)) \<or>
      Contains (om_Name (bd_Meta bd)) (om_Name (d_Meta d)))"

text \<open>A failed deletion is only logged, here and below.\<close>

definition delete_bds :: "('j, 'w) Reconciler \<Rightarrow> BundleDeployment list \<Rightarrow> ('w, unit) dio" where
  "delete_bds R = for_each (\<lambda>bd. do { _ \<leftarrow> kDeleteBD R bd; State_Monad.return () })"

definition delete_listed_bds :: "('j, 'w) Reconciler \<Rightarrow> labels \<Rightarrow> (BundleDeployment \<Rightarrow> bool) \<Rightarrow> ('w, unit) dio" where
  "delete_listed_bds R l keep = do {
     r \<leftarrow> kListBDs R l;
     case r of
       Inl _ \<Rightarrow> State_Monad.return ()
     | Inr items \<Rightarrow> delete_bds R (filter keep items) }"

definition cleanupOrphanedBundleDeployments ::
  "('j, 'w) Reconciler \<Rightarrow> Deployment \<Rightarrow> ('w, goerror option) dio" where
  "cleanupOrphanedBundleDeployments R d = do {
     r \<leftarrow> kListGitRepos R d;
     let gitRepos = (case r of Inl _ \<Rightarrow> [] | Inr items \<Rightarrow> items);
     _ \<leftarrow> delete_listed_bds R [(LabelDeploymentID, GetId d)] (\<lambda>_. True);
     _ \<leftarrow> for_each (\<lambda>g. delete_listed_bds R [(''fleet.cattle.io/repo-name'', om_Name (gr_Meta g))] (\<lambda>_. True))
           gitRepos;
     _ \<leftarrow> delete_listed_bds R [] (bd_should_delete d gitRepos);
     State_Monad.return None }"

section \<open>DeploymentClusters\<close>

definition cleanupOrphanedDeploymentClusters ::
  "('j, 'w) Reconciler \<Rightarrow> Deployment \<Rightarrow> ('w, goerror option) dio" where
  "cleanupOrphanedDeploymentClusters R d = do {
     r \<leftarrow> kListDCs R [(LabelDeploymentID, GetId d)];
     case r of
       Inl err \<Rightarrow> State_Monad.return (Some err)
     | Inr items \<Rightarrow> do {
         _ \<leftarrow> for_each (\<lambda>dc. do { _ \<leftarrow> kDeleteDC R dc; State_Monad.return () }) items;
         State_Monad.return None } }"

text \<open>The cluster names of the targets of all applications.\<close>

definition currentTargets :: "Deployment \<Rightarrow> string list" where
  "currentTargets d =
     concat (map (\<lambda>app. concat (map (\<lambda>target.
        case map_of target LabelClusterName of
          None \<Rightarrow> []
        | Some clusterName \<Rightarrow> if clusterName \<noteq> [] then [clusterName] else []) (ap_Targets app)))
       (sp_Applications (d_Spec d)))"

definition cleanupRemovedTargetClusters ::
  "('j, 'w) Reconciler \<Rightarrow> Deployment \<Rightarrow> ('w, goerror option) dio" where
  "cleanupRemovedTargetClusters R d =
     (if sp_DeploymentType (d_Spec d) \<noteq> Targeted then State_Monad.return None
      else do {
        r \<leftarrow> kListDCs R [(LabelDeploymentID, GetId d)];
        case r of
          Inl err \<Rightarrow> State_Monad.return (Some err)
        | Inr items \<Rightarrow>
            for_err (\<lambda>dc.
              if dcs_ClusterID (dc_Spec dc) \<notin> set (currentTargets d) then do {
                e \<leftarrow> kDeleteDC R dc;
                State_Monad.return (case e of None \<Rightarrow> None
                  | Some err \<Rightarrow> if k8s_not_found err then None else Some err) }
              else State_Monad.return None) items })"

section \<open>What the clean-up functions may do\<close>

fun only_dc_metrics :: "dep_ev \<Rightarrow> bool" where
  "only_dc_metrics (Metric (DelDCMetric _ _ _ _ _ _)) = True"
| "only_dc_metrics (Read _) = True"
| "only_dc_metrics _ = False"

lemma cleanupAll_does:
  "does only_dc_metrics (cleanupAllDeploymentClusterMetrics R d) (\<lambda>_. True)"
  unfolding cleanupAllDeploymentClusterMetrics_def cleanupOrphanedDeploymentClusterMetrics_def
    del_dc_metrics_def dep_calls
  by (intro emits_intros TrueI | simp)+

text \<open>A deletion in the clean-up of BundleDeployments.\<close>

fun bd_cleanup_ev :: "dep_ev \<Rightarrow> bool" where
  "bd_cleanup_ev (Write (DeleteBD _)) = True"
| "bd_cleanup_ev (Read (ListBDs _)) = True"
| "bd_cleanup_ev (Read (ListGitRepos _ _)) = True"
| "bd_cleanup_ev _ = False"

lemma cleanupOrphanedBundleDeployments_does:
  "does bd_cleanup_ev (cleanupOrphanedBundleDeployments R d) (\<lambda>r. r = None)"
  unfolding cleanupOrphanedBundleDeployments_def delete_listed_bds_def delete_bds_def dep_calls Let_def
  by (intro emits_intros TrueI refl | simp)+

text \<open>A removed cluster: its DeploymentCluster is of the deployment, and no target names it.\<close>

fun removed_target_ev :: "Deployment \<Rightarrow> dep_ev \<Rightarrow> bool" where
  "removed_target_ev d (Write (DeleteDC dc)) =
     (sp_DeploymentType (d_Spec d) = Targeted \<and> dcs_ClusterID (dc_Spec dc) \<notin> set (currentTargets d))"
| "removed_target_ev d (Read (ListDCs l)) = (l = [(LabelDeploymentID, GetId d)])"
| "removed_target_ev d _ = False"

lemma cleanupRemovedTargetClusters_does:
  "does (removed_target_ev d) (cleanupRemovedTargetClusters R d) (\<lambda>_. True)"
  unfolding cleanupRemovedTargetClusters_def dep_calls
  by (intro emits_intros TrueI | simp)+

lemma currentTargets_iff:
  "c \<in> set (currentTargets d) \<longleftrightarrow> c \<noteq> [] \<and>
     (\<exists>app \<in> set (sp_Applications (d_Spec d)). \<exists>t \<in> set (ap_Targets app). map_of t LabelClusterName = Some c)"
  by (auto simp: currentTargets_def split: option.splits if_splits) force+

end
