(* ===== verification/DepPhases.thy ===== *)
theory DepPhases
  imports DepCleanup
begin

text \<open>
  The Deployment controller, part three: the phases of a deletion (\<open>handleFinalizer...\<close>) and of a
  reconcile (\<open>reconcileState\<close>, \<open>reconcileDependency\<close>, \<open>reconcileRepository\<close>, \<open>reconcileGitRepo\<close>).

  A phase takes the deployment object and returns its error with the object as it left it; the
  \<open>ctrl.Result\<close> of a phase is always the zero value.  The two phases that may dereference nil return
  \<open>Panicked\<close> there, after their deferred status update.
\<close>

type_synonym phase_result = "goerror option \<times> Deployment"

definition map_status :: "(DeploymentStatus \<Rightarrow> DeploymentStatus) \<Rightarrow> Deployment \<Rightarrow> Deployment" where
  "map_status f d = d\<lparr>d_Status := f (d_Status d)\<rparr>"

definition map_finalizers :: "(string list \<Rightarrow> string list) \<Rightarrow> Deployment \<Rightarrow> Deployment" where
  "map_finalizers f d = d\<lparr>d_Meta := (d_Meta d)\<lparr>om_Finalizers := f (om_Finalizers (d_Meta d))\<rparr>\<rparr>"

definition has_finalizer :: "('j, 'w) Reconciler \<Rightarrow> Deployment \<Rightarrow> string \<Rightarrow> bool" where
  "has_finalizer R d f = ContainsFinalizer (rc_lib R) (om_Finalizers (d_Meta d)) f"

definition add_finalizer :: "('j, 'w) Reconciler \<Rightarrow> string \<Rightarrow> Deployment \<Rightarrow> Deployment" where
  "add_finalizer R f d = map_finalizers (\<lambda>fs. AddFinalizer (rc_lib R) fs f) d"

definition remove_finalizer :: "('j, 'w) Reconciler \<Rightarrow> string \<Rightarrow> Deployment \<Rightarrow> Deployment" where
  "remove_finalizer R f d = map_finalizers (\<lambda>fs. RemoveFinalizer (rc_lib R) fs f) d"

definition set_condition_now ::
  "('j, 'w) Reconciler \<Rightarrow> string \<Rightarrow> ConditionStatus \<Rightarrow> string \<Rightarrow> goerror option \<Rightarrow> Deployment \<Rightarrow>
   ('w, Deployment) dio" where
  "set_condition_now R t st reason err d = do {
     now \<leftarrow> sNow R;
     State_Monad.return (map_status (\<lambda>s. s\<lparr>st_Conditions :=
       UpdateStatusCondition now (st_Conditions s) t st reason err\<rparr>) d) }"

definition wrapped :: "string \<Rightarrow> goerror \<Rightarrow> goerror" where
  "wrapped pre err = PlainErr (pre @ err_msg err)"

section \<open>Finalizers\<close>

text \<open>One child of the deletion of a parent: its entry for the parent is removed.\<close>

definition detach_child :: "('j, 'w) Reconciler \<Rightarrow> Deployment \<Rightarrow> string \<Rightarrow> ('w, goerror option) dio" where
  "detach_child R d k = do {
     r \<leftarrow> kGet R (om_Namespace (d_Meta d)) k;
     case r of
       Inl err \<Rightarrow>
         State_Monad.return (if k8s_not_found err then None
           else Some (wrapped ''children is not created yet - will requeue: '' err))
     | Inr cd \<Rightarrow>
         (case NewPatchHelper (rc_conv R) (Some cd) of
            Inl err \<Rightarrow> State_Monad.return (Some err)
          | Inr h \<Rightarrow>
              (case st_ParentDeploymentList (d_Status cd) of
                 None \<Rightarrow> State_Monad.return None
               | Some parents \<Rightarrow>
                   if parents = [] then State_Monad.return None
                   else do {
                     e \<leftarrow> Patch (rc_lib R) (rc_conv R) (dep_patch_client R) False h
                       (Some (map_status (\<lambda>s. s\<lparr>st_ParentDeploymentList :=
                          Some (AList.delete (om_Name (d_Meta d)) parents)\<rparr>) cd));
                     State_Monad.return (map_option
                       (wrapped ''children status could not be updated - will retry: '') e) })) }"

definition handleFinalizerDependency :: "('j, 'w) Reconciler \<Rightarrow> Deployment \<Rightarrow> ('w, phase_result) dio" where
  "handleFinalizerDependency R d =
     (if \<not> has_finalizer R d FinalizerDependency then State_Monad.return (None, d)
      else if sp_ChildDeploymentList (d_Spec d) = [] then
        State_Monad.return (None, remove_finalizer R FinalizerDependency d)
      else do {
        e \<leftarrow> for_err (detach_child R d) (map fst (sp_ChildDeploymentList (d_Spec d)));
        State_Monad.return (case e of
            Some err \<Rightarrow> (Some err, d)
          | None \<Rightarrow> (None, remove_finalizer R FinalizerDependency d)) })"

definition git_new :: "('j, 'w) Reconciler \<Rightarrow> string \<Rightarrow> ('w, goerror option) dio" where
  "git_new R i = call (Git (GitNew i)) (g_gitclient (rc_git R) i)"

definition git_exists :: "('j, 'w) Reconciler \<Rightarrow> string \<Rightarrow> ('w, bool res) dio" where
  "git_exists R i = call (Git (GitExists i)) (g_ExistsOnRemote (rc_git R) i)"

definition git_delete :: "('j, 'w) Reconciler \<Rightarrow> string \<Rightarrow> ('w, goerror option) dio" where
  "git_delete R i = call (Git (GitDelete i)) (g_RepoDelete (rc_git R) i)"

text \<open>An error of \<open>ExistsOnRemote\<close> is dropped, and the finalizer is removed as if there were no repository.\<close>

definition handleFinalizerGitRemote :: "('j, 'w) Reconciler \<Rightarrow> Deployment \<Rightarrow> ('w, phase_result) dio" where
  "handleFinalizerGitRemote R d =
     (if \<not> has_finalizer R d FinalizerGitRemote then State_Monad.return (None, d)
      else do {
        e \<leftarrow> git_new R (GetId d);
        case e of
          Some err \<Rightarrow> State_Monad.return (Some err, d)
        | None \<Rightarrow> do {
            ex \<leftarrow> git_exists R (GetId d);
            e' \<leftarrow> (case ex of
                 Inr True \<Rightarrow> git_delete R (GetId d)
               | _ \<Rightarrow> State_Monad.return None);
            State_Monad.return (case e' of
                Some err \<Rightarrow> (Some err, d)
              | None \<Rightarrow> (None, remove_finalizer R FinalizerGitRemote d)) } })"

definition catalog_gone :: "goerror \<Rightarrow> bool" where
  "catalog_gone err = (Contains (err_msg err) ''failed to unset isDeployed'' \<and>
     Contains (err_msg err) ''rpc error: code = NotFound'')"

definition handleFinalizerCatalog :: "('j, 'w) Reconciler \<Rightarrow> Deployment \<Rightarrow> ('w, phase_result) dio" where
  "handleFinalizerCatalog R d =
     (if \<not> has_finalizer R d FinalizerCatalog then State_Monad.return (None, d)
      else do {
        r \<leftarrow> IsDeployed (kListByRef R) d;
        e \<leftarrow> (case r of
             Inl err \<Rightarrow> State_Monad.return (Some err)
           | Inr True \<Rightarrow> State_Monad.return None
           | Inr False \<Rightarrow> HandleIsDeployed [] (sCatalog R) (sVault R) d False);
        State_Monad.return (case e of
            None \<Rightarrow> (None, remove_finalizer R FinalizerCatalog d)
          | Some err \<Rightarrow>
              if catalog_gone err then (None, remove_finalizer R FinalizerCatalog d) else (Some err, d)) })"

section \<open>Reconcile phases\<close>

definition attach_child :: "('j, 'w) Reconciler \<Rightarrow> Deployment \<Rightarrow> string \<Rightarrow> ('w, goerror option) dio" where
  "attach_child R d k = do {
     r \<leftarrow> kGet R (om_Namespace (d_Meta d)) k;
     case r of
       Inl err \<Rightarrow> State_Monad.return (Some (wrapped ''children is not created yet - will requeue: '' err))
     | Inr cd \<Rightarrow>
         (case NewPatchHelper (rc_conv R) (Some cd) of
            Inl err \<Rightarrow> State_Monad.return (Some err)
          | Inr h \<Rightarrow>
              (let parents = (case st_ParentDeploymentList (d_Status cd) of None \<Rightarrow> [] | Some p \<Rightarrow> p);
                   ref = \<lparr>dd_DeploymentPackageRef = sp_DeploymentPackageRef (d_Spec d),
                     dd_DeploymentName = om_Name (d_Meta d)\<rparr>
               in if map_of parents (om_Name (d_Meta d)) = Some ref then State_Monad.return None
                  else do {
                    e \<leftarrow> Patch (rc_lib R) (rc_conv R) (dep_patch_client R) False h
                      (Some (map_status (\<lambda>s. s\<lparr>st_ParentDeploymentList :=
                         Some (AList.update (om_Name (d_Meta d)) ref parents)\<rparr>) cd));
                    State_Monad.return (map_option
                      (wrapped ''children status could not be updated - will retry: '') e) })) }"

definition reconcileDependency :: "('j, 'w) Reconciler \<Rightarrow> Deployment \<Rightarrow> ('w, phase_result) dio" where
  "reconcileDependency R d =
     (if sp_ChildDeploymentList (d_Spec d) = [] then State_Monad.return (None, d)
      else do {
        e \<leftarrow> for_err (attach_child R d) (map fst (sp_ChildDeploymentList (d_Spec d)));
        State_Monad.return (e, d) })"

text \<open>The loop that resets the conditions ranges over the conditions as they were before it.\<close>

definition reset_conditions :: "k8slib \<Rightarrow> Condition list \<Rightarrow> Condition list" where
  "reset_conditions L cs = fold (\<lambda>c. RemoveStatusCondition L (co_Type c)) cs cs"

definition reconcileState :: "('j, 'w) Reconciler \<Rightarrow> Deployment \<Rightarrow> ('w, phase_result) dio" where
  "reconcileState R d = (let
     first = (st_State (d_Status d) = [] \<or> om_Generation (d_Meta d) = 1)
   in do {
     _ \<leftarrow> when_io first (emit_metric R (RecordTimestamp (project_of d) (GetId d)
           (sp_DisplayName (d_Spec d)) ''start'' ''CreateDeployment''));
     State_Monad.return (None, map_status (\<lambda>s. s\<lparr>
       st_State := (if first then Deploying else Updating),
       st_Conditions := reset_conditions (rc_lib R) (st_Conditions s),
       st_DeployInProgress := True\<rparr>) d) })"

text \<open>The body of \<open>reconcileRepository\<close> up to its deferred function: the error and the reason.\<close>

definition sync_repository ::
  "('j, 'w) Reconciler \<Rightarrow> Deployment \<Rightarrow> ('w, goerror option go \<times> string) dio" where
  "sync_repository R d = (let
     i = GetId d;
     basedir = path_join [''/tmp'', i];
     fails = (\<lambda>reason err. State_Monad.return (Ret (Some err), reason))
   in do {
     _ \<leftarrow> call (Git (RemoveAll basedir)) (g_RemoveAll (rc_git R) basedir);
     e \<leftarrow> git_new R i;
     case e of Some err \<Rightarrow> fails reasonNewGitClientFailed err | None \<Rightarrow> do {
     ex \<leftarrow> git_exists R i;
     case ex of Inl err \<Rightarrow> fails reasonGitRemoteCheckFailed err | Inr repoExists \<Rightarrow> do {
     e \<leftarrow> (if repoExists then call (Git (GitClone i basedir)) (g_Clone (rc_git R) i basedir)
          else call (Git (GitInitialize i basedir)) (g_Initialize (rc_git R) i basedir));
     case e of
       Some err \<Rightarrow> fails (if repoExists then reasonGitCloneFailed else reasonGitInitializationFailed) err
     | None \<Rightarrow> do {
     g \<leftarrow> call (Git (GenFleet i)) (g_GenerateFleetConfigs (rc_git R) d basedir);
     case g of Panicked \<Rightarrow> State_Monad.return (Panicked, []) | Ret f \<Rightarrow>
     (case f of Inl err \<Rightarrow> fails reasonFleetConfigFailed err | Inr _ \<Rightarrow> do {
     e \<leftarrow> call (Git (GitCommit i)) (g_CommitFiles (rc_git R) i);
     case e of Some err \<Rightarrow> fails reasonGitCommitFailed err | None \<Rightarrow> do {
     e \<leftarrow> call (Git (GitPush i)) (g_PushToRemote (rc_git R) i);
     case e of Some err \<Rightarrow> fails reasonGitPushFailed err | None \<Rightarrow> do {
     _ \<leftarrow> record_event R ''Reconciling'' (''Completed sync git repository '' @ i);
     State_Monad.return (Ret None, reasonSuccess) } } }) } } } })"

definition cond_of :: "goerror option go \<Rightarrow> ConditionStatus" where
  "cond_of r = (if r = Ret None then ConditionTrue else ConditionFalse)"

definition err_in :: "goerror option go \<Rightarrow> goerror option" where
  "err_in r = (case r of Ret e \<Rightarrow> e | Panicked \<Rightarrow> None)"

definition reconcileRepository ::
  "('j, 'w) Reconciler \<Rightarrow> Deployment \<Rightarrow> ('w, goerror option go \<times> Deployment) dio" where
  "reconcileRepository R d = do {
     (r, reason) \<leftarrow> sync_repository R d;
     d' \<leftarrow> set_condition_now R typeGitSynced (cond_of r) reason (err_in r) d;
     State_Monad.return (r, d') }"

definition gitURLHasChanged :: "('j, 'w) Reconciler \<Rightarrow> Deployment \<Rightarrow> ('w, bool res) dio" where
  "gitURLHasChanged R d =
     try_io (call (Git (GitRemoteURL (GetId d))) (g_GetRemoteURLWithCreds (rc_git R) (GetId d))) (\<lambda>gitRepoURL.
     try_io (kListGitRepos R d) (\<lambda>items.
       ret_io (list_ex (\<lambda>gr. gr_Repo gr \<noteq> gitRepoURL) items)))"

end
