(* ===== verification/DepGitRepo.thy ===== *)
theory DepGitRepo
  imports DepPhases
begin

text \<open>
  The Deployment controller, part four: \<open>reconcileGitRepo\<close>, which keeps one GitRepo object per
  application.  \<open>grmap\<close> holds the GitRepos of the deployment not yet met; what is left of it after
  the loop belongs to no application and is deleted.
\<close>

section \<open>One application\<close>

definition gen_target :: "('j, 'w) Reconciler \<Rightarrow> labels \<Rightarrow> ('w, GitTarget) dio" where
  "gen_target R t = do {
     n \<leftarrow> call (Service GenName) (s_GenerateName (rc_srv R));
     State_Monad.return \<lparr>gt_Name = ''match-'' @ n, gt_MatchLabels = t\<rparr> }"

fun gen_targets :: "('j, 'w) Reconciler \<Rightarrow> labels list \<Rightarrow> ('w, GitTarget list) dio" where
  "gen_targets R [] = State_Monad.return []"
| "gen_targets R (t # ts) = do {
     g \<leftarrow> gen_target R t;
     gs \<leftarrow> gen_targets R ts;
     State_Monad.return (g # gs) }"

definition set_cabundle :: "string \<Rightarrow> GitRepo \<Rightarrow> GitRepo" where
  "set_cabundle caCert g = (if caCert \<noteq> [] then g\<lparr>gr_CABundle := caCert\<rparr> else g)"

definition bundle_of :: "('j, 'w) Reconciler \<Rightarrow> Deployment \<Rightarrow> Application \<Rightarrow> string" where
  "bundle_of R d app = BundleName (rc_fleet R) app (om_Name (d_Meta d))"

text \<open>
  The object of an existing GitRepo after the update; a nil label map is written to, and a nil
  \<open>HelmApp\<close> dereferenced.
\<close>

definition updated_gitrepo ::
  "('j, 'w) Reconciler \<Rightarrow> Deployment \<Rightarrow> Application \<Rightarrow> string \<Rightarrow> GitTarget list \<Rightarrow> string \<Rightarrow> GitRepo \<Rightarrow> GitRepo go" where
  "updated_gitrepo R d app gitRepoURL targets caCert g =
     (case (om_Labels (gr_Meta g), ap_HelmApp app) of
        (Some l, Some helm) \<Rightarrow> Ret ((set_cabundle caCert g)\<lparr>
           gr_ClientSecretName := FleetGitSecretName,
           gr_Meta := (gr_Meta g)\<lparr>om_Labels := Some (AList.update LabelBundleName (bundle_of R d app) l)\<rparr>,
           gr_Repo := gitRepoURL,
           gr_HelmSecretName := ha_RepoSecretName helm,
           gr_Targets := targets\<rparr>)
      | _ \<Rightarrow> Panicked)"

definition new_gitrepo ::
  "('j, 'w) Reconciler \<Rightarrow> Deployment \<Rightarrow> Application \<Rightarrow> HelmApp \<Rightarrow> string \<Rightarrow> GitTarget list \<Rightarrow> string \<Rightarrow> GitRepo" where
  "new_gitrepo R d app helm gitRepoURL targets caCert = set_cabundle caCert
     \<lparr>gr_Meta = empty_meta\<lparr>om_Namespace := om_Namespace (d_Meta d),
        om_Name := getGitRepoName (ap_Name app) (GetId d),
        om_Labels := Some [(LabelBundleName, bundle_of R d app),
          (LabelBundleType, BundleType_String BundleTypeApp)]\<rparr>,
      gr_Repo = gitRepoURL, gr_Paths = [ap_Name app], gr_HelmSecretName = ha_RepoSecretName helm,
      gr_ClientSecretName = FleetGitSecretName, gr_Targets = targets, gr_CABundle = [],
      gr_PollingInterval = rc_fleetGitPollingInterval R, gr_ForceSyncGeneration = 0,
      gr_Conditions = [], gr_DisplayMessage = []\<rparr>"

definition add_label :: "string \<Rightarrow> string \<Rightarrow> GitRepo \<Rightarrow> GitRepo" where
  "add_label k v g = g\<lparr>gr_Meta := (gr_Meta g)\<lparr>om_Labels := Some (AList.update k v (labels_of (gr_Meta g)))\<rparr>\<rparr>"

text \<open>The message of a missing project label formats the error variable, which is nil there.\<close>

definition create_gitrepo ::
  "('j, 'w) Reconciler \<Rightarrow> Deployment \<Rightarrow> Application \<Rightarrow> GitRepo \<Rightarrow> ('w, goerror option) dio" where
  "create_gitrepo R d app g =
     (case map_of (labels_of (d_Meta d)) AppOrchActiveProjectID of
        None \<Rightarrow> State_Monad.return (Some (PlainErr ''GitRepo creation failed (<nil>)''))
      | Some activeProjectID \<Rightarrow>
          (case rc_SetControllerReference R d (add_label AppOrchActiveProjectID activeProjectID g) of
             Inl err \<Rightarrow> State_Monad.return (Some err)
           | Inr g' \<Rightarrow> do {
               e \<leftarrow> kCreateGitRepo R g';
               case e of
                 Some err \<Rightarrow> State_Monad.return (Some (PlainErr (''GitRepo creation failed ('' @ err_msg err @ '')'')))
               | None \<Rightarrow> do {
                   _ \<leftarrow> record_event R ''Reconciling'' (''Completed creating GitRepo '' @
                         getGitRepoName (ap_Name app) (GetId d));
                   _ \<leftarrow> emit_metric R (RecordTimestamp (project_of d) (GetId d) (sp_DisplayName (d_Spec d))
                         ''start'' ''CreateGitRepo'');
                   _ \<leftarrow> emit_metric R (TimeDifference (project_of d) (GetId d) (sp_DisplayName (d_Spec d))
                         ''start'' ''CreateDeployment'' ''start'' ''CreateGitRepo'');
                   State_Monad.return None } }))"

definition reconcile_app ::
  "('j, 'w) Reconciler \<Rightarrow> Deployment \<Rightarrow> string \<Rightarrow> Application \<Rightarrow> GitRepo gomap \<Rightarrow>
   ('w, goerror option go \<times> GitRepo gomap) dio" where
  "reconcile_app R d gitRepoURL app grmap = (let
     gitRepoName = getGitRepoName (ap_Name app) (GetId d)
   in do {
     targets \<leftarrow> gen_targets R (ap_Targets app);
     case map_of grmap gitRepoName of
       Some g \<Rightarrow> do {
         caCert \<leftarrow> call (Service GetCaCert) (s_GetGitCaCert (rc_srv R));
         case updated_gitrepo R d app gitRepoURL targets caCert g of
           Panicked \<Rightarrow> State_Monad.return (Panicked, AList.delete gitRepoName grmap)
         | Ret g' \<Rightarrow> do {
             e \<leftarrow> kUpdateGitRepo R g';
             case e of
               Some err \<Rightarrow> State_Monad.return (Ret (Some (PlainErr (''GitRepo update failed('' @ err_msg err @ '')''))),
                   AList.delete gitRepoName grmap)
             | None \<Rightarrow> do {
                 _ \<leftarrow> record_event R ''Reconciling'' (''Completed updating GitRepo '' @ gitRepoName);
                 State_Monad.return (Ret None, AList.delete gitRepoName grmap) } } }
     | None \<Rightarrow> do {
         caCert \<leftarrow> call (Service GetCaCert) (s_GetGitCaCert (rc_srv R));
         case ap_HelmApp app of
           None \<Rightarrow> State_Monad.return (Panicked, grmap)
         | Some helm \<Rightarrow> do {
             e \<leftarrow> create_gitrepo R d app (new_gitrepo R d app helm gitRepoURL targets caCert);
             State_Monad.return (Ret e, grmap) } } })"

fun app_loop ::
  "('a \<Rightarrow> 'm \<Rightarrow> ('s, goerror option go \<times> 'm) state) \<Rightarrow> 'a list \<Rightarrow> 'm \<Rightarrow> ('s, goerror option go \<times> 'm) state" where
  "app_loop f [] m = State_Monad.return (Ret None, m)"
| "app_loop f (x # xs) m = do {
     (r, m') \<leftarrow> f x m;
     if r = Ret None then app_loop f xs m' else State_Monad.return (r, m') }"

section \<open>The phase\<close>

definition grmap_of :: "GitRepo list \<Rightarrow> GitRepo gomap" where
  "grmap_of items = fold (\<lambda>gr m. AList.update (om_Name (gr_Meta gr)) gr m) items []"

definition sync_gitrepos :: "('j, 'w) Reconciler \<Rightarrow> Deployment \<Rightarrow> ('w, goerror option go) dio" where
  "sync_gitrepos R d = do {
     u \<leftarrow> call (Git (GitRemoteURL (GetId d))) (g_GetRemoteURLWithCreds (rc_git R) (GetId d));
     case u of
       Inl err \<Rightarrow> State_Monad.return (Ret (Some err))
     | Inr gitRepoURL \<Rightarrow> do {
         r \<leftarrow> kListGitRepos R d;
         case r of
           Inl err \<Rightarrow> State_Monad.return (Ret (Some err))
         | Inr items \<Rightarrow> do {
             (e, rest) \<leftarrow> app_loop (reconcile_app R d gitRepoURL) (sp_Applications (d_Spec d)) (grmap_of items);
             if e \<noteq> Ret None then State_Monad.return e
             else do {
               e' \<leftarrow> for_err (kDeleteGitRepo R) (map snd rest);
               State_Monad.return (Ret e') } } } }"

definition reconcileGitRepo ::
  "('j, 'w) Reconciler \<Rightarrow> Deployment \<Rightarrow> ('w, goerror option go \<times> Deployment) dio" where
  "reconcileGitRepo R d = do {
     r \<leftarrow> sync_gitrepos R d;
     d' \<leftarrow> set_condition_now R typeGitReposUpdated (cond_of r)
       (if r = Ret None then reasonSuccess else reasonGitRepoUpdateFailed) (err_in r) d;
     State_Monad.return (r, d') }"

section \<open>Which GitRepos are written\<close>

lemma does_app_loop [emits_intros]:
  "(\<And>x m. x \<in> set xs \<Longrightarrow> does P (f x m) (\<lambda>_. True)) \<Longrightarrow> (\<And>r. Q r) \<Longrightarrow> does P (app_loop f xs m) Q"
  by (induction xs arbitrary: m) (auto intro!: does_return does_prod does_if intro: does_bind_any)

lemma does_gen_targets: "does P (gen_targets R ts) (\<lambda>gs. map gt_MatchLabels gs = ts)"
  if "P (Service GenName)"
proof (induction ts)
  case (Cons t ts)
  have "does P (gen_target R t) (\<lambda>g. gt_MatchLabels g = t)"
    unfolding gen_target_def using that by (intro emits_intros) auto
  then show ?case
    by (simp, rule does_bind) (rule does_bind [OF Cons.IH], auto intro: does_return)
qed (simp add: does_return)

end
