(* ===== verification/DepStatus.thy ===== *)
theory DepStatus
  imports DepGitRepo
begin

text \<open>
  The Deployment controller, part five: the status of a deployment.  \<open>updateWithGitJobStatus\<close> finds
  the errors of the git jobs, \<open>updateDeploymentStatus\<close> aggregates GitRepos and DeploymentClusters
  into the state, and \<open>updateStatus\<close> decides which of them applies.  \<open>forceRedeployStuckApps\<close>
  resynchronises stuck GitRepos at most once per interval.
\<close>

section \<open>Git jobs\<close>

definition later_failed :: "Pod option \<Rightarrow> Pod \<Rightarrow> Pod option" where
  "later_failed errPod p =
     (if po_Phase p \<noteq> ''Failed'' then errPod
      else case errPod of
        None \<Rightarrow> Some p
      | Some q \<Rightarrow> if po_CreationTimestamp q < po_CreationTimestamp p then Some p else errPod)"

definition latest_failed :: "Pod list \<Rightarrow> Pod option" where
  "latest_failed pods = fold (\<lambda>p e. later_failed e p) pods None"

definition stalled_condition :: "int \<Rightarrow> ConditionStatus \<Rightarrow> string \<Rightarrow> string \<Rightarrow> Condition" where
  "stalled_condition now st reason msg = \<lparr>co_Type = typeNotStalled, co_Status = st,
     co_LastTransitionTime = now, co_Reason = reason, co_Message = msg\<rparr>"

definition container_error :: "(string \<times> string) option \<Rightarrow> string option" where
  "container_error cs =
     (case cs of
        None \<Rightarrow> None
      | Some (reason, msg) \<Rightarrow> if reason = ''Error'' \<and> msg \<noteq> [] then Some msg else None)"

definition updateWithGitJobStatus ::
  "('j, 'w) Reconciler \<Rightarrow> Deployment \<Rightarrow> GitRepo \<Rightarrow> Condition gomap \<Rightarrow>
   ('w, goerror option \<times> Condition gomap) dio" where
  "updateWithGitJobStatus R d gitRepo condMap = (let repoName = om_Name (gr_Meta gitRepo) in do {
     r \<leftarrow> kListJobs R repoName;
     case r of
       Inl err \<Rightarrow> State_Monad.return (Some err, condMap)
     | Inr [] \<Rightarrow> State_Monad.return (None, condMap)
     | Inr (job # _) \<Rightarrow>
         if jb_Succeeded job = 1 then do {
           now \<leftarrow> sNow R;
           State_Monad.return (None, AList.update repoName
             (stalled_condition now ConditionTrue reasonSuccess (MessageFromError None)) condMap) }
         else do {
           p \<leftarrow> kListPods R [(''job-name'', jb_Name job)];
           case p of
             Inl err \<Rightarrow> State_Monad.return (Some err, condMap)
           | Inr pods \<Rightarrow>
               (case latest_failed pods of
                  None \<Rightarrow> State_Monad.return (None, condMap)
                | Some errPod \<Rightarrow> do {
                    m \<leftarrow> fold_io (\<lambda>cs m.
                        case container_error cs of
                          None \<Rightarrow> State_Monad.return m
                        | Some msg \<Rightarrow> do {
                            now \<leftarrow> sNow R;
                            State_Monad.return (AList.update repoName
                              (stalled_condition now ConditionFalse reasonFailed
                                 (getAppNameForGitRepo gitRepo (GetId d) @ '': '' @ msg)) m) })
                      (po_Terminated errPod) condMap;
                    State_Monad.return (None, m) }) } })"

section \<open>The aggregated state\<close>

definition gr_walk ::
  "('j, 'w) Reconciler \<Rightarrow> Deployment \<Rightarrow> GitRepo \<Rightarrow> bool \<times> string \<Rightarrow> bool \<times> string" where
  "gr_walk R d g acc = (let
     appName = getAppNameForGitRepo g (GetId d);
     note_msg = (\<lambda>message m. AppendMessage (rc_ProcessLog R message) (''App '' @ appName @ '': '' @ m));
     (stalled, message) = acc;
     (stalled, message) =
       (case GetGenericCondition (gr_Conditions g) ''Stalled'' of
          Some sc \<Rightarrow>
            if st_DeployInProgress (d_Status d) \<and> gc_Status sc = ConditionTrue
            then (True, note_msg message (gc_Message sc)) else (stalled, message)
        | None \<Rightarrow> (stalled, message))
   in (stalled, if gr_DisplayMessage g \<noteq> [] then note_msg message (gr_DisplayMessage g) else message))"

definition not_stalled_walk ::
  "('j, 'w) Reconciler \<Rightarrow> Deployment \<Rightarrow> bool \<times> string \<Rightarrow> bool \<times> string" where
  "not_stalled_walk R d acc =
     (if st_DeployInProgress (d_Status d) then
        (case FindStatusCondition (rc_lib R) (st_Conditions (d_Status d)) typeNotStalled of
           Some cond \<Rightarrow> if co_Status cond = ConditionFalse then (True, AppendMessage (snd acc) (co_Message cond)) else acc
         | None \<Rightarrow> acc)
      else acc)"

text \<open>What the walk over the DeploymentClusters accumulates.\<close>

record dcwalk =
  dw_counts :: ClusterSummary
  dw_stalled :: bool
  dw_message :: string
  dw_requeue :: bool

definition apps_current :: "Deployment \<Rightarrow> DeploymentCluster \<Rightarrow> bool" where
  "apps_current d dc = list_all (\<lambda>app. om_Generation (d_Meta d) = pp_DeploymentGeneration app) (dct_Apps (dc_Status dc))"

definition add_running :: "ClusterSummary \<Rightarrow> ClusterSummary" where
  "add_running c = c\<lparr>cs_Running := cs_Running c + 1\<rparr>"

definition add_down :: "ClusterSummary \<Rightarrow> ClusterSummary" where
  "add_down c = c\<lparr>cs_Down := cs_Down c + 1\<rparr>"

definition add_unknown :: "ClusterSummary \<Rightarrow> ClusterSummary" where
  "add_unknown c = c\<lparr>cs_Unknown := cs_Unknown c + 1\<rparr>"

text \<open>A DeploymentCluster counts as ready only some seconds after it reported so.\<close>

definition dc_settled :: "('j, 'w) Reconciler \<Rightarrow> DeploymentCluster \<Rightarrow> ('w, bool) dio" where
  "dc_settled R dc =
     (case FindStatusCondition (rc_lib R) (dct_Conditions (dc_Status dc)) typeReady of
        None \<Rightarrow> State_Monad.return False
      | Some cond \<Rightarrow> do {
          now \<leftarrow> sNow R;
          State_Monad.return (\<not> now - co_LastTransitionTime cond \<le> readyWait * second) })"

definition dc_walk :: "('j, 'w) Reconciler \<Rightarrow> Deployment \<Rightarrow> DeploymentCluster \<Rightarrow> dcwalk \<Rightarrow> ('w, dcwalk) dio" where
  "dc_walk R d dc acc = (let
     s = dct_Status (dc_Status dc)
   in if ss_State s = Unknown then
        State_Monad.return (acc\<lparr>dw_counts := add_unknown (dw_counts acc)\<rparr>)
      else if ss_State s = Down then
        State_Monad.return (let acc = acc\<lparr>dw_counts := add_down (dw_counts acc)\<rparr> in
          if Contains (ss_Message s) ''Progress deadline exceeded''
          then acc\<lparr>dw_stalled := True, dw_message := AppendMessage (dw_message acc) (ss_Message s)\<rparr>
          else acc)
      else if ss_State s = Running then do {
        settled \<leftarrow> dc_settled R dc;
        State_Monad.return (let acc = (if settled then acc else acc\<lparr>dw_requeue := True\<rparr>) in
          if apps_current d dc \<and> settled then acc\<lparr>dw_counts := add_running (dw_counts acc)\<rparr>
          else acc\<lparr>dw_counts := add_down (dw_counts acc)\<rparr>) }
      else State_Monad.return acc)"

text \<open>The switch that computes the state; \<open>late\<close> says that the wait for target clusters is over.\<close>

definition new_state :: "bool \<Rightarrow> ClusterSummary \<Rightarrow> bool \<Rightarrow> bool \<Rightarrow> int \<Rightarrow> StateType" where
  "new_state stalled c late inProgress generation =
     (if stalled then StateError
      else if cs_Unknown c > 0 then Unknown
      else if cs_Total c = 0 then
        (if late then NoTargetClusters else if inProgress then Deploying else NoTargetClusters)
      else if cs_Down c > 0 \<or> cs_Total c > cs_Running c then
        (if inProgress then (if generation \<le> 1 then Deploying else Updating) else Down)
      else Running)"

definition zero_counts :: "int \<Rightarrow> ClusterSummary" where
  "zero_counts n = \<lparr>cs_Total = n, cs_Running = 0, cs_Down = 0, cs_Unknown = 0\<rparr>"

definition display_of :: "ClusterSummary \<Rightarrow> int \<Rightarrow> string" where
  "display_of c apps = ''Clusters: '' @ int_str (cs_Total c) @ ''/'' @ int_str (cs_Running c) @ ''/'' @
     int_str (cs_Down c) @ ''/'' @ int_str (cs_Unknown c) @ '', Apps: '' @ int_str apps"

definition finish_status :: "dcwalk \<Rightarrow> StateType \<Rightarrow> int \<Rightarrow> DeploymentStatus \<Rightarrow> DeploymentStatus" where
  "finish_status w newState apps s = s\<lparr>
     st_DeployInProgress := (if newState = Running then False else st_DeployInProgress s),
     st_Display := display_of (dw_counts w) apps,
     st_Message := dw_message w,
     st_Summary := dw_counts w,
     st_State := newState\<rparr>"

text \<open>The result carries the new value of the reconciler's \<open>requeueStatus\<close>.\<close>

definition updateDeploymentStatus ::
  "('j, 'w) Reconciler \<Rightarrow> Deployment \<Rightarrow> GitRepo list \<Rightarrow> DeploymentCluster list \<Rightarrow> ('w, Deployment \<times> bool) dio" where
  "updateDeploymentStatus R d grlist dclist = (let
     (stalled, message) = not_stalled_walk R d (fold (gr_walk R d) grlist (False, []))
   in do {
     w \<leftarrow> fold_io (dc_walk R d) dclist \<lparr>dw_counts = zero_counts (int (length dclist)),
            dw_stalled = stalled, dw_message = message, dw_requeue = False\<rparr>;
     late \<leftarrow> (if \<not> dw_stalled w \<and> cs_Unknown (dw_counts w) = 0 \<and> cs_Total (dw_counts w) = 0
             then do { now \<leftarrow> sNow R;
                       State_Monad.return (now > om_CreationTimestamp (d_Meta d) + noTargetClustersWait) }
             else State_Monad.return False);
     let newState = new_state (dw_stalled w) (dw_counts w) late (st_DeployInProgress (d_Status d))
                      (om_Generation (d_Meta d));
     _ \<leftarrow> when_io (newState = Running) (do {
            _ \<leftarrow> emit_metric R (RecordTimestamp (project_of d) (GetId d) (sp_DisplayName (d_Spec d))
                  Running ''status-change'');
            emit_metric R (TimeDifference (project_of d) (GetId d) (sp_DisplayName (d_Spec d))
                  ''start'' ''CreateDeployment'' Running ''status-change'') });
     State_Monad.return (map_status (finish_status w newState (int (length grlist))) d, dw_requeue w) })"

section \<open>\<open>updateStatus\<close>\<close>

text \<open>The \<open>NotStalled\<close> condition from the per-repository conditions.\<close>

definition failed_messages :: "Condition gomap \<Rightarrow> string list" where
  "failed_messages condMap = map (co_Message \<circ> snd) (filter (\<lambda>kv. co_Reason (snd kv) = reasonFailed) condMap)"

definition update_not_stalled ::
  "('j, 'w) Reconciler \<Rightarrow> GitRepo list \<Rightarrow> Condition gomap \<Rightarrow> Deployment \<Rightarrow> ('w, Deployment) dio" where
  "update_not_stalled R items condMap d = (let msgs = failed_messages condMap in
     if msgs \<noteq> [] then
       set_condition_now R typeNotStalled ConditionFalse reasonFailed
         (Some (PlainErr (''['' @ Join msgs '' '' @ '']''))) d
     else if length items = length condMap then
       set_condition_now R typeNotStalled ConditionTrue reasonSuccess None d
     else State_Monad.return d)"

text \<open>The result is the error, the deployment and the new \<open>requeueStatus\<close>, which keeps its old value
  wherever \<open>updateDeploymentStatus\<close> is not reached.\<close>

definition updateStatus ::
  "('j, 'w) Reconciler \<Rightarrow> bool \<Rightarrow> Deployment \<Rightarrow> ('w, goerror option \<times> Deployment \<times> bool) dio" where
  "updateStatus R requeueStatus d =
     (if om_DeletionTimestamp (d_Meta d) \<noteq> None then
        State_Monad.return (None, map_status (\<lambda>s. s\<lparr>st_State := Terminating\<rparr>) d, requeueStatus)
      else do {
        r \<leftarrow> kListGitRepos R d;
        case r of Inl err \<Rightarrow> State_Monad.return (Some err, d, requeueStatus) | Inr gitRepos \<Rightarrow> do {
        r \<leftarrow> kListDCs R [(LabelDeploymentID, GetId d)];
        case r of Inl err \<Rightarrow> State_Monad.return (Some err, d, requeueStatus) | Inr dcs \<Rightarrow> do {
        (e, condMap) \<leftarrow> (if st_DeployInProgress (d_Status d)
             then fold_err (updateWithGitJobStatus R d) gitRepos [] else State_Monad.return (None, []));
        case e of Some err \<Rightarrow> State_Monad.return (Some err, d, requeueStatus) | None \<Rightarrow> do {
        d' \<leftarrow> (if st_DeployInProgress (d_Status d) then update_not_stalled R gitRepos condMap d
              else State_Monad.return d);
        case find (\<lambda>cond. co_Status cond = ConditionFalse) (st_Conditions (d_Status d')) of
          Some cond \<Rightarrow>
            State_Monad.return (None, map_status (\<lambda>s. s\<lparr>st_Message := co_Message cond,
              st_State := InternalError\<rparr>) d', requeueStatus)
        | None \<Rightarrow> do {
            (d'', requeue) \<leftarrow> updateDeploymentStatus R d' gitRepos dcs;
            State_Monad.return (None, d'', requeue) } } } } })"

section \<open>Forced resync\<close>

definition needs_force :: "GitRepo \<Rightarrow> bool" where
  "needs_force g =
     ((case GetGenericCondition (gr_Conditions g) ''Ready'' of
         Some c \<Rightarrow> gc_Status c = ConditionFalse \<and> Contains (gc_Message c) ''Unable to continue''
       | None \<Rightarrow> False) \<or>
      (case GetGenericCondition (gr_Conditions g) ''Stalled'' of
         Some c \<Rightarrow> gc_Status c = ConditionTrue
       | None \<Rightarrow> False))"

definition stamp_resync :: "('j, 'w) Reconciler \<Rightarrow> Deployment \<Rightarrow> ('w, Deployment) dio" where
  "stamp_resync R d = do {
     now \<leftarrow> sNow R;
     State_Monad.return (map_status (\<lambda>s. s\<lparr>st_LastForceResync := rc_Format R now\<rparr>) d) }"

definition force_gitrepo ::
  "('j, 'w) Reconciler \<Rightarrow> GitRepo \<Rightarrow> Deployment \<Rightarrow> ('w, goerror option \<times> Deployment) dio" where
  "force_gitrepo R g d =
     (if \<not> needs_force g then State_Monad.return (None, d)
      else (let app = getAppNameForGitRepo g (GetId d) in do {
        e \<leftarrow> kUpdateGitRepo R (g\<lparr>gr_ForceSyncGeneration := gr_ForceSyncGeneration g + 1\<rparr>);
        case e of
          Some err \<Rightarrow> State_Monad.return
            (Some (PlainErr (''failed to force sync app '' @ app @ ''('' @ err_msg err @ '')'')), d)
        | None \<Rightarrow> do {
            d' \<leftarrow> stamp_resync R d;
            _ \<leftarrow> record_event R ''Reconciling'' (''Force sync triggered for app '' @ app);
            State_Monad.return (None, d') } }))"

definition forceRedeployStuckApps :: "('j, 'w) Reconciler \<Rightarrow> Deployment \<Rightarrow> ('w, goerror option \<times> Deployment) dio" where
  "forceRedeployStuckApps R d =
     (if st_LastForceResync (d_Status d) = [] then do {
        d' \<leftarrow> stamp_resync R d;
        State_Monad.return (None, d') }
      else case rc_Parse R (st_LastForceResync (d_Status d)) of
        Inl err \<Rightarrow> State_Monad.return (Some (PlainErr (''failed to parse LastForceResync ('' @ err_msg err @ '')'')), d)
      | Inr lastForceResync \<Rightarrow> do {
          now \<leftarrow> sNow R;
          if now - lastForceResync < forceResyncInterval then State_Monad.return (None, d)
          else do {
            r \<leftarrow> kListGitRepos R d;
            case r of
              Inl err \<Rightarrow> State_Monad.return (Some (PlainErr (''failed list GitRepos ('' @ err_msg err @ '')'')), d)
            | Inr items \<Rightarrow> fold_err (force_gitrepo R) items d } })"

end
