(* ===== verification/DepReconcile.thy ===== *)
theory DepReconcile
  imports DepStatus
begin

text \<open>
  The Deployment controller, part six: \<open>delete\<close>, \<open>reconcile\<close> and the handler \<open>Reconcile\<close> with its
  deferred status update.  The variables that survive a call (\<open>requeueStatus\<close> of the reconciler and
  the package's \<open>deletionMetadataCache\<close>) are the record \<open>rstate\<close>, passed in and returned.
\<close>

section \<open>Deletion\<close>

fun run_phases ::
  "(Deployment \<Rightarrow> ('s, goerror option \<times> Deployment) state) list \<Rightarrow> Deployment \<Rightarrow>
   ('s, goerror option list \<times> Deployment) state" where
  "run_phases [] d = State_Monad.return ([], d)"
| "run_phases (p # ps) d = do {
     (e, d') \<leftarrow> p d;
     (es, d'') \<leftarrow> run_phases ps d';
     State_Monad.return (if e = None then es else e # es, d'') }"

definition cache_metadata ::
  "('j, 'w) Reconciler \<Rightarrow> Deployment \<Rightarrow> deploymentMetadataCache \<Rightarrow> ('w, deploymentMetadataCache) dio" where
  "cache_metadata R d cache = do {
     now \<leftarrow> sNow R;
     State_Monad.return (cacheDeploymentMetadata now (om_Namespace (d_Meta d)) (om_Name (d_Meta d)) d cache) }"

definition delete ::
  "('j, 'w) Reconciler \<Rightarrow> deploymentMetadataCache \<Rightarrow> Deployment \<Rightarrow>
   ('w, goerror option \<times> Deployment \<times> deploymentMetadataCache) dio" where
  "delete R cache d = do {
     cache' \<leftarrow> cache_metadata R d cache;
     _ \<leftarrow> updateStatusMetrics R d True;
     _ \<leftarrow> cleanupAllDeploymentClusterMetrics R d;
     _ \<leftarrow> cleanupOrphanedDeploymentClusters R d;
     _ \<leftarrow> cleanupOrphanedBundleDeployments R d;
     (errs, d') \<leftarrow> run_phases
       [handleFinalizerDependency R, handleFinalizerGitRemote R, handleFinalizerCatalog R] d;
     _ \<leftarrow> updateStatusMetrics R d' True;
     _ \<leftarrow> cleanupAllDeploymentClusterMetrics R d';
     State_Monad.return (NewAggregate (rc_lib R) errs, d', cache') }"

section \<open>The reconcile loop\<close>

definition cleanupRemovedTargetClustersPhase :: "('j, 'w) Reconciler \<Rightarrow> Deployment \<Rightarrow> ('w, phase_result) dio" where
  "cleanupRemovedTargetClustersPhase R d = do {
     e \<leftarrow> cleanupRemovedTargetClusters R d;
     State_Monad.return (e, d) }"

definition no_panic ::
  "(Deployment \<Rightarrow> ('s, goerror option \<times> Deployment) state) \<Rightarrow>
   Deployment \<Rightarrow> ('s, goerror option go \<times> Deployment) state" where
  "no_panic p d = do { (e, d') \<leftarrow> p d; State_Monad.return (Ret e, d') }"

definition add_err :: "goerror option \<Rightarrow> goerror option list go \<Rightarrow> goerror option list go" where
  "add_err e rs = (case rs of Panicked \<Rightarrow> Panicked | Ret es \<Rightarrow> Ret (if e = None then es else e # es))"

fun run_go_phases ::
  "(Deployment \<Rightarrow> ('s, goerror option go \<times> Deployment) state) list \<Rightarrow> Deployment \<Rightarrow>
   ('s, goerror option list go \<times> Deployment) state" where
  "run_go_phases [] d = State_Monad.return (Ret [], d)"
| "run_go_phases (p # ps) d = do {
     (r, d') \<leftarrow> p d;
     case r of
       Panicked \<Rightarrow> State_Monad.return (Panicked, d')
     | Ret e \<Rightarrow> do {
         (rs, d'') \<leftarrow> run_go_phases ps d';
         State_Monad.return (add_err e rs, d'') } }"

definition reconcile_phases ::
  "('j, 'w) Reconciler \<Rightarrow> (Deployment \<Rightarrow> ('w, goerror option go \<times> Deployment) dio) list" where
  "reconcile_phases R = [no_panic (reconcileState R), no_panic (cleanupRemovedTargetClustersPhase R),
     no_panic (reconcileDependency R), reconcileRepository R, reconcileGitRepo R]"

definition reconcile :: "('j, 'w) Reconciler \<Rightarrow> Deployment \<Rightarrow> ('w, goerror option go \<times> Deployment) dio" where
  "reconcile R d = do {
     (r, d1) \<leftarrow> run_go_phases (reconcile_phases R) d;
     case r of
       Panicked \<Rightarrow> State_Monad.return (Panicked, d1)
     | Ret errs \<Rightarrow>
         if errs = [] then do {
           d2 \<leftarrow> set_condition_now R typeReady ConditionTrue reasonSuccess None
             (map_status (\<lambda>s. s\<lparr>st_ReconciledGeneration := om_Generation (d_Meta d1)\<rparr>) d1);
           State_Monad.return (Ret (NewAggregate (rc_lib R) errs), d2) }
         else do {
           d2 \<leftarrow> set_condition_now R typeReady ConditionFalse reasonFailed None d1;
           State_Monad.return (Ret (NewAggregate (rc_lib R) errs), d2) } }"

section \<open>The handler\<close>

record rstate =
  rs_requeueStatus :: bool
  rs_cache :: deploymentMetadataCache

definition deleting :: "Deployment \<Rightarrow> bool" where
  "deleting d = (om_DeletionTimestamp (d_Meta d) \<noteq> None)"

text \<open>The body of \<open>Reconcile\<close> from the finalizers on: its error, the object and the cache.\<close>

definition reconcile_body ::
  "('j, 'w) Reconciler \<Rightarrow> deploymentMetadataCache \<Rightarrow> Deployment \<Rightarrow>
   ('w, goerror option go \<times> Deployment \<times> deploymentMetadataCache) dio" where
  "reconcile_body R cache d =
     (if rc_deleteGitRepo R \<and> \<not> has_finalizer R d FinalizerGitRemote \<and> \<not> deleting d then
        State_Monad.return (Ret None, add_finalizer R FinalizerGitRemote d, cache)
      else if \<not> has_finalizer R d FinalizerDependency \<and> \<not> deleting d then
        State_Monad.return (Ret None, add_finalizer R FinalizerDependency d, cache)
      else if deleting d then do {
        (e, d', cache') \<leftarrow> delete R cache d;
        State_Monad.return (Ret e, d', cache') }
      else do {
        _ \<leftarrow> cleanupOrphanedBundleDeployments R d;
        c \<leftarrow> gitURLHasChanged R d;
        case c of
          Inl err \<Rightarrow> State_Monad.return (Ret (Some err), d, cache)
        | Inr changed \<Rightarrow>
            if IsStatusConditionTrue (rc_lib R) (st_Conditions (d_Status d)) typeReady \<and> \<not> changed \<and>
               st_ReconciledGeneration (d_Status d) = om_Generation (d_Meta d) then
              (if st_DeployInProgress (d_Status d) then do {
                 (e, d') \<leftarrow> forceRedeployStuckApps R d;
                 State_Monad.return (Ret e, d', cache) }
               else State_Monad.return (Ret None, d, cache))
            else do {
              (r, d') \<leftarrow> reconcile R d;
              _ \<leftarrow> (case err_in r of
                  None \<Rightarrow> State_Monad.return ()
                | Some err \<Rightarrow> record_event R ''ReconcileError'' (''Reconcile failed: '' @ err_msg err));
              State_Monad.return (r, d', cache) } })"

definition join_err :: "('j, 'w) Reconciler \<Rightarrow> goerror option \<Rightarrow> goerror option \<Rightarrow> goerror option" where
  "join_err R reterr e = (if e = None then reterr else NewAggregate (rc_lib R) [reterr, e])"

definition patch_deployment ::
  "('j, 'w) Reconciler \<Rightarrow> (Deployment, 'j) Helper \<Rightarrow> Deployment \<Rightarrow> ('w, goerror option) dio" where
  "patch_deployment R h d = Patch (rc_lib R) (rc_conv R) (dep_patch_client R) False h (Some d)"

text \<open>The deferred function: the time after which to requeue, the error and the new variables.\<close>

definition deferred ::
  "('j, 'w) Reconciler \<Rightarrow> (Deployment, 'j) Helper \<Rightarrow> rstate \<Rightarrow> goerror option \<Rightarrow> Deployment \<Rightarrow>
   ('w, int \<times> goerror option \<times> rstate) dio" where
  "deferred R h rs reterr d =
     (if deleting d then do {
        cache \<leftarrow> cache_metadata R d (rs_cache rs);
        _ \<leftarrow> updateStatusMetrics R d True;
        e \<leftarrow> patch_deployment R h d;
        State_Monad.return (0, join_err R reterr e, rs\<lparr>rs_cache := cache\<rparr>) }
      else do {
        (e1, d', requeue) \<leftarrow> updateStatus R (rs_requeueStatus rs) d;
        e2 \<leftarrow> patch_deployment R h d';
        _ \<leftarrow> updateStatusMetrics R d' False;
        State_Monad.return (if requeue then readyWait * second else 0,
          join_err R (join_err R reterr e1) e2, rs\<lparr>rs_requeueStatus := requeue\<rparr>) })"

definition Reconcile ::
  "('j, 'w) Reconciler \<Rightarrow> rstate \<Rightarrow> string \<Rightarrow> string \<Rightarrow> ('w, (int \<times> goerror option) go \<times> rstate) dio" where
  "Reconcile R rs namespace name = do {
     now \<leftarrow> sNow R;
     let rs = rs\<lparr>rs_cache := cleanupOldEntries now (rs_cache rs)\<rparr>;
     g \<leftarrow> kGet R namespace name;
     case g of
       Inl err \<Rightarrow>
         if k8s_not_found err then do {
           let (metadata, cache) = getAndRemoveMetadata namespace name (rs_cache rs);
           _ \<leftarrow> cleanupMetricsFromCache R metadata;
           State_Monad.return (Ret (0, None), rs\<lparr>rs_cache := cache\<rparr>) }
         else State_Monad.return (Ret (0, Some err), rs)
     | Inr d \<Rightarrow>
         (case NewPatchHelper (rc_conv R) (Some d) of
            Inl err \<Rightarrow> State_Monad.return (Ret (0, Some err), rs)
          | Inr h \<Rightarrow> do {
              (r, d', cache) \<leftarrow> reconcile_body R (rs_cache rs) d;
              (after, e, rs') \<leftarrow> deferred R h (rs\<lparr>rs_cache := cache\<rparr>) (err_in r) d';
              State_Monad.return (case r of Panicked \<Rightarrow> Panicked | Ret _ \<Rightarrow> Ret (after, e), rs') }) }"

end
