(* ===== verification/DepSafety.thy ===== *)
theory DepSafety
  imports DepReconcile
begin

text \<open>
  Safety of the Deployment controller: what a reconcile may do to the outside, whatever the servers
  answer.  \<open>live_ev\<close> holds of every call except those that only a deletion may make: deleting the
  git repository, the Catalog and its token, and the deletion of the deployment's metrics.
\<close>

fun live_ev :: "dep_ev \<Rightarrow> bool" where
  "live_ev (Git (GitDelete _)) = False"
| "live_ev (Service GetToken) = False"
| "live_ev (Service (CatalogGet _ _)) = False"
| "live_ev (Service (CatalogUpdate _ _ _)) = False"
| "live_ev (Metric (DelDepMetric _ _ _ _)) = False"
| "live_ev (Metric (DelTimestamps _ _)) = False"
| "live_ev (Metric (DelDCMetric _ _ _ _ _ _)) = False"
| "live_ev _ = True"

named_theorems live \<open>functions that make only live calls\<close>

lemma live_set_condition [live]: "does live_ev (set_condition_now R t st r e d) (\<lambda>_. True)"
  unfolding set_condition_now_def dep_calls by (intro emits_intros TrueI | simp)+

lemma live_cleanup_bds [live]: "does live_ev (cleanupOrphanedBundleDeployments R d) (\<lambda>_. True)"
  by (rule does_weaken [OF cleanupOrphanedBundleDeployments_does])
     (auto elim: bd_cleanup_ev.elims)

lemma live_cleanup_removed [live]: "does live_ev (cleanupRemovedTargetClustersPhase R d) (\<lambda>_. True)"
  unfolding cleanupRemovedTargetClustersPhase_def
  by (rule does_bind_any, rule does_weaken [OF cleanupRemovedTargetClusters_does])
     (auto elim: removed_target_ev.elims intro: does_return)

lemma live_patch [live]:
  "does live_ev (Patch (rc_lib R) (rc_conv R) (dep_patch_client R) b h ob) (\<lambda>_. True)"
  by (rule does_Patch) (auto simp: dep_patch_client_def intro: does_call)

lemma live_reconcileState [live]: "does live_ev (reconcileState R d) (\<lambda>_. True)"
  unfolding reconcileState_def Let_def dep_calls by (intro emits_intros TrueI | simp)+

lemma live_reconcileDependency [live]: "does live_ev (reconcileDependency R d) (\<lambda>_. True)"
  unfolding reconcileDependency_def attach_child_def Let_def dep_calls
  by (intro emits_intros live TrueI | simp)+

lemma live_reconcileRepository [live]: "does live_ev (reconcileRepository R d) (\<lambda>_. True)"
  unfolding reconcileRepository_def sync_repository_def git_new_def git_exists_def Let_def dep_calls
  by (intro emits_intros live TrueI | simp)+

lemma live_reconcile_app [live]: "does live_ev (reconcile_app R d u app m) (\<lambda>_. True)"
proof -
  have "does live_ev (gen_targets R ts) (\<lambda>_. True)" for ts
    by (rule does_weaken [OF does_gen_targets]) auto
  then show ?thesis
    unfolding reconcile_app_def create_gitrepo_def Let_def dep_calls
    by (intro emits_intros TrueI | simp)+
qed

lemma live_reconcileGitRepo [live]: "does live_ev (reconcileGitRepo R d) (\<lambda>_. True)"
  unfolding reconcileGitRepo_def sync_gitrepos_def Let_def dep_calls
  by (intro emits_intros live TrueI | simp)+

lemma does_run_go_phases [emits_intros]:
  "(\<And>p d. p \<in> set ps \<Longrightarrow> does P (p d) (\<lambda>_. True)) \<Longrightarrow> (\<And>r. Q r) \<Longrightarrow> does P (run_go_phases ps d) Q"
proof (induction ps arbitrary: d Q)
  case (Cons p ps)
  have 1: "does P (p d) (\<lambda>_. True)" by (simp add: Cons.prems(1))
  have 2: "does P (run_go_phases ps d') (\<lambda>_. True)" for d'
    by (rule Cons.IH) (simp_all add: Cons.prems(1))
  show ?case
    unfolding run_go_phases.simps by (intro emits_intros 1 2 Cons.prems(2) TrueI)
qed (simp add: does_return)

lemma live_reconcile [live]: "does live_ev (reconcile R d) (\<lambda>_. True)"
  unfolding reconcile_def reconcile_phases_def
  by (intro emits_intros live TrueI) (auto simp: no_panic_def intro!: emits_intros live)

lemma live_gitURLHasChanged [live]: "does live_ev (gitURLHasChanged R d) (\<lambda>_. True)"
  unfolding gitURLHasChanged_def dep_calls by (intro emits_intros TrueI | simp)+

lemma live_force [live]: "does live_ev (forceRedeployStuckApps R d) (\<lambda>_. True)"
  unfolding forceRedeployStuckApps_def force_gitrepo_def stamp_resync_def Let_def dep_calls
  by (intro emits_intros TrueI | simp)+

lemma live_record [live]: "does live_ev (record_event R a b) (\<lambda>_. True)"
  unfolding dep_calls by (intro emits_intros TrueI) simp

lemma live_body: "\<not> deleting d \<Longrightarrow> does live_ev (reconcile_body R cache d) (\<lambda>_. True)"
  unfolding reconcile_body_def
  by (simp, intro impI conjI emits_intros live TrueI)

end
