(* ===== verification/DepOutcome.thy ===== *)
theory DepOutcome
  imports DepSafety
begin

text \<open>
  The outcome of a reconcile: the conditions and the reconciled generation it leaves, and what
  the status update makes of them.
\<close>

section \<open>What the phases leave of the object\<close>

definition core :: "Deployment \<Rightarrow> ObjectMeta \<times> DeploymentSpec \<times> int" where
  "core d = (d_Meta d, d_Spec d, st_ReconciledGeneration (d_Status d))"

definition conds :: "Deployment \<Rightarrow> Condition list" where
  "conds d = st_Conditions (d_Status d)"

text \<open>Types and statuses of the conditions, in their order.\<close>

definition cond_table :: "Deployment \<Rightarrow> (string \<times> ConditionStatus) list" where
  "cond_table d = map (\<lambda>c. (co_Type c, co_Status c)) (conds d)"

lemma fold_remove_type:
  "fold (\<lambda>c. filter (\<lambda>k. co_Type k \<noteq> co_Type c)) xs cs = filter (\<lambda>k. co_Type k \<notin> co_Type ` set xs) cs"
  by (induction xs arbitrary: cs) (auto intro: filter_cong)

lemma reset_conditions_empty: "k8slib_ok L \<Longrightarrow> reset_conditions L cs = []"
proof -
  assume "k8slib_ok L"
  then have "RemoveStatusCondition L t = filter (\<lambda>c. co_Type c \<noteq> t)" for t
    by (intro ext) (simp add: k8slib_okD(2))
  then show ?thesis
    by (simp add: reset_conditions_def fold_remove_type filter_empty_conv)
qed

lemma post_reconcileState:
  "k8slib_ok (rc_lib R) \<Longrightarrow>
   post (reconcileState R d) (\<lambda>(e, d'). e = None \<and> core d' = core d \<and> conds d' = [] \<and>
     st_DeployInProgress (d_Status d') \<and> st_State (d_Status d') \<in> {Deploying, Updating})"
  unfolding reconcileState_def Let_def
  by (rule post_bind_any) (auto simp: map_status_def core_def conds_def reset_conditions_empty)

lemma post_removed_phase: "post (cleanupRemovedTargetClustersPhase R d) (\<lambda>(e, d'). d' = d)"
  unfolding cleanupRemovedTargetClustersPhase_def by (rule post_bind_any) simp

lemma post_reconcileDependency: "post (reconcileDependency R d) (\<lambda>(e, d'). d' = d)"
  unfolding reconcileDependency_def by (auto intro!: post_bind_any)

definition fresh_condition :: "string \<Rightarrow> goerror option go \<Rightarrow> Deployment \<Rightarrow> Deployment \<Rightarrow> bool" where
  "fresh_condition t r d d' = (core d' = core d \<and>
     (t \<notin> co_Type ` set (conds d) \<longrightarrow> cond_table d' = cond_table d @ [(t, cond_of r)]) \<and>
     co_Type ` set (conds d') = insert t (co_Type ` set (conds d)))"

lemma post_set_condition:
  "post (set_condition_now R t (cond_of r) reason e d) (fresh_condition t r d)"
  unfolding set_condition_now_def
  by (rule post_bind_any)
     (simp add: fresh_condition_def core_def conds_def cond_table_def map_status_def
        UpdateStatusCondition_fresh UpdateStatusCondition_set)

lemma post_reconcileRepository:
  "post (reconcileRepository R d) (\<lambda>(r, d'). fresh_condition typeGitSynced r d d')"
  unfolding reconcileRepository_def
  by (rule post_bind_any, rule post_prod, rule post_bind [OF post_set_condition]) simp

lemma post_reconcileGitRepo:
  "post (reconcileGitRepo R d) (\<lambda>(r, d'). fresh_condition typeGitReposUpdated r d d')"
  unfolding reconcileGitRepo_def
  by (rule post_bind_any, rule post_bind [OF post_set_condition]) simp

section \<open>The phases in sequence\<close>

lemma post_run_go_Cons:
  assumes p: "post (p d) (\<lambda>(r, d'). S r d')"
    and panic: "\<And>d'. S Panicked d' \<Longrightarrow> Q (Panicked, d')"
    and ret: "\<And>e d'. S (Ret e) d' \<Longrightarrow> post (run_go_phases ps d') (\<lambda>(rs, d''). Q (add_err e rs, d''))"
  shows "post (run_go_phases (p # ps) d) Q"
proof -
  have "post (case r of Panicked \<Rightarrow> State_Monad.return (Panicked, d')
      | Ret e \<Rightarrow> do { (rs, d'') \<leftarrow> run_go_phases ps d'; State_Monad.return (add_err e rs, d'') }) Q"
    if "S r d'" for r d'
    using that by (cases r) (auto intro: panic post_bind [OF ret])
  then show ?thesis
    unfolding run_go_phases.simps by (intro post_bind [OF p]) auto
qed

lemma post_no_panic:
  "post (p d) (\<lambda>(e, d'). S (Ret e) d') \<Longrightarrow> post (no_panic p d) (\<lambda>(r, d'). S r d')"
  unfolding no_panic_def by (erule post_bind) auto

text \<open>The conditions after the five phases, as the two git phases set them.\<close>

definition phases_left :: "Deployment \<Rightarrow> goerror option list go \<times> Deployment \<Rightarrow> bool" where
  "phases_left d = (\<lambda>(rs, d'). core d' = core d \<and>
     (case rs of Panicked \<Rightarrow> True
      | Ret es \<Rightarrow> (\<exists>r1 r2. cond_table d' = [(typeGitSynced, cond_of r1), (typeGitReposUpdated, cond_of r2)] \<and>
          (es = [] \<longrightarrow> r1 = Ret None \<and> r2 = Ret None)) \<and> list_all (\<lambda>e. e \<noteq> None) es))"

lemma phases_left_err: "phases_left d (rs, d') \<Longrightarrow> phases_left d (add_err e rs, d')"
  by (cases rs) (auto simp: phases_left_def add_err_def)

lemma phases_left_core: "core d1 = core d \<Longrightarrow> phases_left d1 = phases_left d"
  by (simp add: phases_left_def)

definition gitrepo_left :: "Deployment \<Rightarrow> goerror option go \<Rightarrow> goerror option list go \<times> Deployment \<Rightarrow> bool" where
  "gitrepo_left d r1 = (\<lambda>(rs, d'). core d' = core d \<and>
     (case rs of Panicked \<Rightarrow> True
      | Ret es \<Rightarrow> (\<exists>r2. cond_table d' = [(typeGitSynced, cond_of r1), (typeGitReposUpdated, cond_of r2)] \<and>
          (es = [] \<longrightarrow> r2 = Ret None)) \<and> list_all (\<lambda>e. e \<noteq> None) es))"

lemma gitrepo_left_err: "gitrepo_left d (Ret e) (rs, d') \<Longrightarrow> phases_left d (add_err e rs, d')"
  by (cases rs) (auto simp: gitrepo_left_def phases_left_def add_err_def)

lemma post_gitrepo_phase:
  assumes "core d1 = core d" "cond_table d1 = [(typeGitSynced, cond_of r)]"
    "co_Type ` set (conds d1) = {typeGitSynced}"
  shows "post (run_go_phases [reconcileGitRepo R] d1) (gitrepo_left d r)"
proof (rule post_run_go_Cons [OF post_reconcileGitRepo], goal_cases)
  case (1 d2)
  then show ?case using assms by (simp add: fresh_condition_def gitrepo_left_def)
next
  case (2 e d2)
  then have "core d2 = core d"
    and "cond_table d2 = [(typeGitSynced, cond_of r), (typeGitReposUpdated, cond_of (Ret e))]"
    using assms by (auto simp: fresh_condition_def)
  then show ?case by (auto simp: gitrepo_left_def add_err_def)
qed

lemma post_git_phases:
  assumes "core d1 = core d" "conds d1 = []"
  shows "post (run_go_phases [reconcileRepository R, reconcileGitRepo R] d1) (phases_left d)"
proof (rule post_run_go_Cons [OF post_reconcileRepository], goal_cases)
  case (1 d2)
  then show ?case using assms by (simp add: fresh_condition_def phases_left_def)
next
  case (2 e d2)
  then have "core d2 = core d" "cond_table d2 = [(typeGitSynced, cond_of (Ret e))]"
    "co_Type ` set (conds d2) = {typeGitSynced}"
    using assms by (auto simp: fresh_condition_def cond_table_def)
  from post_gitrepo_phase [OF this] show ?case
    by (rule post_weaken) (auto intro: gitrepo_left_err)
qed

lemma post_silent_phase:
  assumes "post (p d1) (\<lambda>(e, d'). d' = d1)" "core d1 = core d"
    and "post (run_go_phases ps d1) (phases_left d)"
  shows "post (run_go_phases (no_panic p # ps) d1) (phases_left d)"
proof (rule post_run_go_Cons [OF post_no_panic [where S = "\<lambda>r d'. d' = d1 \<and> r \<noteq> Panicked"]], goal_cases)
  case 1
  then show ?case by (rule post_weaken [OF assms(1)]) auto
next
  case (3 e d')
  then show ?case
    using assms(3) by (auto elim!: post_weaken intro: phases_left_err)
qed simp

lemma post_phases:
  assumes "k8slib_ok (rc_lib R)"
  shows "post (run_go_phases (reconcile_phases R) d) (phases_left d)"
  unfolding reconcile_phases_def
proof (rule post_run_go_Cons [OF post_no_panic
      [where S = "\<lambda>r d'. core d' = core d \<and> conds d' = [] \<and> r = Ret None"]], goal_cases)
  case 1
  then show ?case by (rule post_weaken [OF post_reconcileState [OF assms]]) auto
next
  case (3 e d1)
  then have "post (run_go_phases [no_panic (cleanupRemovedTargetClustersPhase R),
      no_panic (reconcileDependency R), reconcileRepository R, reconcileGitRepo R] d1) (phases_left d)"
    by (intro post_silent_phase post_removed_phase post_reconcileDependency post_git_phases) auto
  then show ?case by (rule post_weaken) (auto intro: phases_left_err)
qed simp

section \<open>The outcome of \<open>reconcile\<close>\<close>

definition all_synced :: "(string \<times> ConditionStatus) list" where
  "all_synced = [(typeGitSynced, ConditionTrue), (typeGitReposUpdated, ConditionTrue), (typeReady, ConditionTrue)]"

definition reconcile_left :: "Deployment \<Rightarrow> goerror option go \<times> Deployment \<Rightarrow> bool" where
  "reconcile_left d = (\<lambda>(r, d'). d_Meta d' = d_Meta d \<and> d_Spec d' = d_Spec d \<and>
     (case r of
        Panicked \<Rightarrow> st_ReconciledGeneration (d_Status d') = st_ReconciledGeneration (d_Status d)
      | Ret None \<Rightarrow> st_ReconciledGeneration (d_Status d') = om_Generation (d_Meta d) \<and> cond_table d' = all_synced
      | Ret (Some e) \<Rightarrow> st_ReconciledGeneration (d_Status d') = st_ReconciledGeneration (d_Status d) \<and>
          map fst (cond_table d') = map fst all_synced \<and> (typeReady, ConditionFalse) \<in> set (cond_table d')))"

lemma cond_table_types: "co_Type ` set (conds d) = fst ` set (cond_table d)"
  by (force simp: cond_table_def)

lemma post_ready:
  assumes "typeReady \<notin> fst ` set (cond_table d)"
    and "\<And>d'. core d' = core d \<Longrightarrow> cond_table d' = cond_table d @ [(typeReady, st)] \<Longrightarrow> Q (r, d')"
  shows "post (do { d' \<leftarrow> set_condition_now R typeReady st reason None d; State_Monad.return (r, d') }) Q"
proof (rule post_bind)
  have "typeReady \<notin> co_Type ` set (st_Conditions (d_Status d))"
    using assms(1) by (simp add: cond_table_types [symmetric] conds_def)
  then show "post (set_condition_now R typeReady st reason None d)
     (\<lambda>d'. core d' = core d \<and> cond_table d' = cond_table d @ [(typeReady, st)])"
    unfolding set_condition_now_def
    by (intro post_bind_any)
       (simp add: core_def conds_def cond_table_def map_status_def UpdateStatusCondition_fresh)
qed (use assms(2) in simp)

lemma post_reconcile:
  assumes "k8slib_ok (rc_lib R)"
  shows "post (reconcile R d) (reconcile_left d)"
  unfolding reconcile_def
proof (rule post_bind [OF post_phases [OF assms]], rule post_prod, goal_cases)
  case (1 x r d1)
  then have left: "phases_left d (r, d1)" by simp
  show ?case
  proof (cases r)
    case Panicked
    then show ?thesis using left by (simp add: phases_left_def reconcile_left_def core_def)
  next
    case (Ret es)
    with left obtain r1 r2 where t: "cond_table d1 = [(typeGitSynced, cond_of r1), (typeGitReposUpdated, cond_of r2)]"
      and ok: "es = [] \<longrightarrow> r1 = Ret None \<and> r2 = Ret None" and c: "core d1 = core d"
      and some: "list_all (\<lambda>e. e \<noteq> None) es"
      by (auto simp: phases_left_def)
    have agg: "NewAggregate (rc_lib R) es = None \<longleftrightarrow> es = []"
      using some k8slib_okD(1) [OF assms, of es] by (cases es) auto
    let ?dg = "map_status (\<lambda>s. s\<lparr>st_ReconciledGeneration := om_Generation (d_Meta d1)\<rparr>) d1"
    have tg: "cond_table ?dg = cond_table d1" and cg: "core ?dg = (d_Meta d, d_Spec d, om_Generation (d_Meta d))"
      using c by (auto simp: cond_table_def conds_def map_status_def core_def)
    have "post (do { d2 \<leftarrow> set_condition_now R typeReady ConditionTrue reasonSuccess None ?dg;
        State_Monad.return (Ret (NewAggregate (rc_lib R) es), d2) }) (reconcile_left d)" if "es = []"
      by (rule post_ready)
         (use that agg ok t tg cg in \<open>auto simp: core_def reconcile_left_def all_synced_def cond_of_def\<close>)
    moreover have "post (do { d2 \<leftarrow> set_condition_now R typeReady ConditionFalse reasonFailed None d1;
        State_Monad.return (Ret (NewAggregate (rc_lib R) es), d2) }) (reconcile_left d)" if "es \<noteq> []"
      by (rule post_ready)
         (use that agg t c in \<open>auto simp: core_def reconcile_left_def all_synced_def split: option.splits\<close>)
    ultimately show ?thesis by (simp add: Ret)
  qed
qed

end
