(* ===== verification/DepStatusProps.thy ===== *)
theory DepStatusProps
  imports DepOutcome
begin

text \<open>
  Facts about the status of a deployment: the cluster counts and the state computed from them, the
  precedence of a failed condition, and the phases of a deletion.
\<close>

section \<open>Cluster counts\<close>

definition count_state :: "StateType \<Rightarrow> DeploymentCluster list \<Rightarrow> int" where
  "count_state s dcs = int (length (filter (\<lambda>dc. ss_State (dct_Status (dc_Status dc)) = s) dcs))"

lemma count_state_simps [simp]:
  "count_state s [] = 0"
  "count_state s (xs @ [dc]) = count_state s xs + (if ss_State (dct_Status (dc_Status dc)) = s then 1 else 0)"
  by (simp_all add: count_state_def)

lemma count_state_nonneg: "0 \<le> count_state s dcs"
  by (simp add: count_state_def)

text \<open>The invariant of the walk: every cluster of a known state is counted once, a running one as
  running or, while it is not settled or current, as down.\<close>

definition counts_ok :: "int \<Rightarrow> DeploymentCluster list \<Rightarrow> ClusterSummary \<Rightarrow> bool" where
  "counts_ok n dcs c = (cs_Total c = n \<and> cs_Unknown c = count_state Unknown dcs \<and> 0 \<le> cs_Running c \<and>
     cs_Running c \<le> count_state Running dcs \<and>
     cs_Running c + cs_Down c = count_state Running dcs + count_state Down dcs)"

lemma dc_walk_counts:
  "counts_ok n ys (dw_counts acc) \<Longrightarrow> post (dc_walk R d dc acc) (\<lambda>acc'. counts_ok n (ys @ [dc]) (dw_counts acc'))"
  unfolding dc_walk_def Let_def
  by (auto simp: counts_ok_def add_running_def add_down_def add_unknown_def intro!: post_bind_any)

lemma dcs_walk_counts:
  assumes "dw_counts w = zero_counts n"
  shows "post (fold_io (dc_walk R d) dcs w) (\<lambda>w. counts_ok n dcs (dw_counts w))"
proof -
  have "counts_ok n [] (dw_counts w)" by (simp add: assms counts_ok_def zero_counts_def)
  from post_fold_io [of "\<lambda>ys w. counts_ok n ys (dw_counts w)", OF dc_walk_counts, OF _ this]
  show ?thesis by simp
qed

lemma count_state_sum:
  "count_state Running dcs + count_state Down dcs + count_state Unknown dcs \<le> int (length dcs)"
  by (induction dcs) (simp_all add: count_state_def)

lemma new_state_running:
  "counts_ok (int (length dcs)) dcs c \<Longrightarrow>
   new_state st c late ip g = Running \<longleftrightarrow>
     \<not> st \<and> dcs \<noteq> [] \<and> cs_Running c = int (length dcs) \<and> cs_Down c = 0 \<and> cs_Unknown c = 0"
  using count_state_sum [of dcs] count_state_nonneg [of Unknown dcs] count_state_nonneg [of Running dcs]
    count_state_nonneg [of Down dcs]
  by (auto simp: new_state_def counts_ok_def)

text \<open>What \<open>updateDeploymentStatus\<close> leaves in the status.\<close>

definition aggregated :: "Deployment \<Rightarrow> GitRepo list \<Rightarrow> DeploymentCluster list \<Rightarrow> Deployment \<Rightarrow> bool" where
  "aggregated d grs dcs d' = (let s = d_Status d'; c = st_Summary s in
     d_Meta d' = d_Meta d \<and> d_Spec d' = d_Spec d \<and> st_Conditions s = st_Conditions (d_Status d) \<and>
     counts_ok (int (length dcs)) dcs c \<and>
     (st_State s = Running \<longrightarrow> dcs \<noteq> [] \<and> cs_Running c = int (length dcs) \<and> cs_Down c = 0 \<and> cs_Unknown c = 0) \<and>
     st_DeployInProgress s = (st_DeployInProgress (d_Status d) \<and> st_State s \<noteq> Running) \<and>
     (st_State s \<noteq> Running \<and> \<not> st_DeployInProgress (d_Status d) \<longrightarrow>
        st_State s \<in> {StateError, Unknown, NoTargetClusters, Down}) \<and>
     st_Display s = display_of c (int (length grs)))"

lemma new_state_settled:
  "\<not> ip \<Longrightarrow> new_state st c late ip g \<in> {StateError, Unknown, NoTargetClusters, Down, Running}"
  by (auto simp: new_state_def)

lemma finish_status_simps [simp]:
  "st_Summary (finish_status w ns n s) = dw_counts w"
  "st_State (finish_status w ns n s) = ns"
  "st_Conditions (finish_status w ns n s) = st_Conditions s"
  "st_Display (finish_status w ns n s) = display_of (dw_counts w) n"
  "st_DeployInProgress (finish_status w ns n s) = (st_DeployInProgress s \<and> ns \<noteq> Running)"
  by (simp_all add: finish_status_def)

lemma map_status_simps [simp]:
  "d_Meta (map_status f d) = d_Meta d" "d_Spec (map_status f d) = d_Spec d"
  "d_Status (map_status f d) = f (d_Status d)"
  by (simp_all add: map_status_def)

lemma finish_status_aggregated:
  assumes "counts_ok (int (length dcs)) dcs (dw_counts w)"
  shows "aggregated d grs dcs (map_status (finish_status w
     (new_state st (dw_counts w) late (st_DeployInProgress (d_Status d)) g) (int (length grs))) d)"
proof -
  define ns where "ns = new_state st (dw_counts w) late (st_DeployInProgress (d_Status d)) g"
  have "ns = Running \<Longrightarrow> dcs \<noteq> [] \<and> cs_Running (dw_counts w) = int (length dcs) \<and>
      cs_Down (dw_counts w) = 0 \<and> cs_Unknown (dw_counts w) = 0"
    using new_state_running [OF assms] unfolding ns_def by blast
  moreover have "\<not> st_DeployInProgress (d_Status d) \<Longrightarrow> ns \<noteq> Running \<Longrightarrow>
      ns \<in> {StateError, Unknown, NoTargetClusters, Down}"
    using new_state_settled [of "st_DeployInProgress (d_Status d)" st "dw_counts w" late g]
    unfolding ns_def by blast
  ultimately show ?thesis
    using assms unfolding aggregated_def Let_def ns_def [symmetric] by simp
qed

lemma post_updateDeploymentStatus:
  "post (updateDeploymentStatus R d grs dcs) (\<lambda>(d', _). aggregated d grs dcs d')"
proof -
  obtain st msg where acc: "not_stalled_walk R d (fold (gr_walk R d) grs (False, [])) = (st, msg)"
    by (metis surj_pair)
  let ?w = "\<lparr>dw_counts = zero_counts (int (length dcs)), dw_stalled = st, dw_message = msg, dw_requeue = False\<rparr>"
  show ?thesis
    unfolding updateDeploymentStatus_def acc
    apply (subst Let_def)
    apply (simp only: prod.case)
    apply (rule post_bind [OF dcs_walk_counts [of ?w "int (length dcs)"]])
     apply (simp only: dcwalk.simps)
    apply (rule post_bind_any)
    apply (simp only: Let_def)
    apply (rule post_bind_any)
    apply (simp only: post_return prod.case)
    apply (rule finish_status_aggregated, assumption)
    done
qed

section \<open>A failed condition decides\<close>

definition failed_cond :: "Deployment \<Rightarrow> Condition option" where
  "failed_cond d = find (\<lambda>c. co_Status c = ConditionFalse) (conds d)"

lemma find_None_find_Some: "find P xs = None \<Longrightarrow> find Q xs = Some x \<Longrightarrow> \<not> P x"
  by (induction xs) (auto split: if_splits)

text \<open>Once no condition is false, the branch for a false \<open>NotStalled\<close> condition cannot be taken.\<close>

lemma not_stalled_walk_id:
  assumes "k8slib_ok (rc_lib R)" "failed_cond d = None"
  shows "not_stalled_walk R d acc = acc"
proof -
  have "co_Status c \<noteq> ConditionFalse" if "find (\<lambda>c. co_Type c = typeNotStalled) (conds d) = Some c" for c
    using find_None_find_Some [OF assms(2) [unfolded failed_cond_def] that] .
  then show ?thesis
    by (auto simp: not_stalled_walk_def k8slib_okD(3) [OF assms(1)] conds_def split: option.split)
qed

end
