(* ===== verification/DepDeletion.thy ===== *)
theory DepDeletion
  imports DepStatusProps
begin

text \<open>
  Facts about the Deployment controller's status update after a failure, its deletion and its
  finalizers, the forced resync and the clean-up of BundleDeployments.
\<close>

section \<open>\<open>updateStatus\<close>\<close>

text \<open>Only the \<open>NotStalled\<close> condition may change.\<close>

definition conds_kept :: "Deployment \<Rightarrow> Deployment \<Rightarrow> bool" where
  "conds_kept d d' = (\<forall>c \<in> set (conds d). co_Type c \<noteq> typeNotStalled \<longrightarrow> c \<in> set (conds d'))"

definition status_outcome :: "bool \<Rightarrow> Deployment \<Rightarrow> goerror option \<times> Deployment \<times> bool \<Rightarrow> bool" where
  "status_outcome rq d = (\<lambda>(e, d', rq').
     if deleting d then e = None \<and> d' = map_status (\<lambda>s. s\<lparr>st_State := Terminating\<rparr>) d \<and> rq' = rq
     else if e \<noteq> None then d' = d \<and> rq' = rq
     else conds_kept d d' \<and> (case failed_cond d' of
       Some c \<Rightarrow> st_State (d_Status d') = InternalError \<and> st_Message (d_Status d') = co_Message c \<and> rq' = rq
     | None \<Rightarrow> \<exists>d1 grs dcs. d_Meta d1 = d_Meta d \<and> d_Spec d1 = d_Spec d \<and> aggregated d1 grs dcs d'))"

lemma post_update_not_stalled:
  "post (update_not_stalled R items m d) (\<lambda>d'. d_Meta d' = d_Meta d \<and> d_Spec d' = d_Spec d \<and> conds_kept d d')"
proof -
  have k: "c \<in> set cs \<Longrightarrow> co_Type c \<noteq> t \<Longrightarrow> c \<in> set (UpdateStatusCondition now cs t st r e)"
    for c cs now t st r e
    by (induction cs) auto
  have "post (set_condition_now R typeNotStalled st r e d) (\<lambda>d'. d_Meta d' = d_Meta d \<and> d_Spec d' = d_Spec d \<and>
     conds_kept d d')" for st r e
    unfolding set_condition_now_def by (rule post_bind_any) (simp add: conds_kept_def conds_def k)
  moreover have "conds_kept d d" by (simp add: conds_kept_def)
  ultimately show ?thesis
    by (simp add: update_not_stalled_def Let_def)
qed

lemma conds_map_status:
  "(\<And>s. st_Conditions (f s) = st_Conditions s) \<Longrightarrow> conds (map_status f d) = conds d"
  by (simp add: conds_def)

text \<open>The last part of \<open>updateStatus\<close>, once the conditions are up to date.\<close>

lemma post_decide:
  assumes "d_Meta d1 = d_Meta d" "d_Spec d1 = d_Spec d" "conds_kept d d1" "\<not> deleting d"
  shows "post (case find (\<lambda>cond. co_Status cond = ConditionFalse) (st_Conditions (d_Status d1)) of
          Some cond \<Rightarrow>
            State_Monad.return (None, map_status (\<lambda>s. s\<lparr>st_Message := co_Message cond,
              st_State := InternalError\<rparr>) d1, rq)
        | None \<Rightarrow> do {
            (d'', requeue) \<leftarrow> updateDeploymentStatus R d1 grs dcs;
            State_Monad.return (None, d'', requeue) }) (status_outcome rq d)"
proof (cases "failed_cond d1")
  case None
  then have f: "find (\<lambda>cond. co_Status cond = ConditionFalse) (st_Conditions (d_Status d1)) = None"
    by (simp add: failed_cond_def conds_def)
  have "failed_cond d' = None \<and> conds_kept d d'" if "aggregated d1 grs dcs d'" for d'
    using that None assms(3) by (simp add: aggregated_def Let_def failed_cond_def conds_def conds_kept_def)
  then show ?thesis
    unfolding f option.case
    by (intro post_bind [OF post_updateDeploymentStatus] post_prod)
       (use assms in \<open>auto simp: status_outcome_def\<close>)
next
  case (Some c)
  then have f: "find (\<lambda>cond. co_Status cond = ConditionFalse) (st_Conditions (d_Status d1)) = Some c"
    by (simp add: failed_cond_def conds_def)
  show ?thesis
    unfolding f option.case post_return status_outcome_def
    using Some assms(3,4) by (simp add: failed_cond_def conds_map_status conds_kept_def)
qed

lemma post_updateStatus: "post (updateStatus R rq d) (status_outcome rq d)"
proof (cases "deleting d")
  case True
  then show ?thesis by (simp add: updateStatus_def deleting_def status_outcome_def)
next
  case False
  then have n: "om_DeletionTimestamp (d_Meta d) = None" by (simp add: deleting_def)
  have err: "post (State_Monad.return (Some err, d, rq)) (status_outcome rq d)" for err
    using False by (simp add: status_outcome_def)
  have d1: "post (if st_DeployInProgress (d_Status d) then update_not_stalled R grs m d else State_Monad.return d)
     (\<lambda>d1. d_Meta d1 = d_Meta d \<and> d_Spec d1 = d_Spec d \<and> conds_kept d d1)" for grs m
    by (rule post_if, rule post_update_not_stalled) (simp add: conds_kept_def)
  show ?thesis
    unfolding updateStatus_def n
    apply (simp only: not_True_eq_False simp_thms if_False)
    apply (rule post_bind_any, rule post_sum, rule err)
    apply (rule post_bind_any, rule post_sum, rule err)
    apply (rule post_bind_any, rule post_prod, rule post_option)
     apply (rule post_bind [OF d1], elim conjE, rule post_decide [OF _ _ _ False], assumption+)
    apply (rule err)
    done
qed

text \<open>After a failed reconcile the status is InternalError, and the requeue flag is the one of before.\<close>

lemma not_ready_failed:
  assumes "(typeReady, ConditionFalse) \<in> set (cond_table d)"
    and "conds_kept d d'"
  shows "failed_cond d' \<noteq> None"
proof -
  from assms(1) obtain c where "c \<in> set (conds d)" "co_Type c = typeReady" "co_Status c = ConditionFalse"
    by (auto simp: cond_table_def)
  with assms(2) have "c \<in> set (conds d')" "co_Status c = ConditionFalse" by (auto simp: conds_kept_def)
  then show ?thesis unfolding failed_cond_def by (auto simp: find_None_iff)
qed

lemma post_failed_status:
  assumes "(typeReady, ConditionFalse) \<in> set (cond_table d)" "\<not> deleting d"
  shows "post (updateStatus R rq d) (\<lambda>(e, d', rq'). e = None \<longrightarrow> st_State (d_Status d') = InternalError \<and> rq' = rq)"
proof (rule post_weaken [OF post_updateStatus], clarify)
  fix d' rq'
  assume o: "status_outcome rq d (None, d', rq')"
  then have "conds_kept d d'" using assms(2) by (simp add: status_outcome_def)
  from not_ready_failed [OF assms(1) this] obtain c where "failed_cond d' = Some c" by blast
  with o assms(2) show "st_State (d_Status d') = InternalError \<and> rq' = rq"
    by (simp add: status_outcome_def)
qed

section \<open>Deletion\<close>

definition strip :: "string \<Rightarrow> Deployment \<Rightarrow> Deployment" where
  "strip f d = map_finalizers (filter (\<lambda>g. g \<noteq> f)) d"

lemma strip_absent: "f \<notin> set (om_Finalizers (d_Meta d)) \<Longrightarrow> strip f d = d"
proof -
  assume "f \<notin> set (om_Finalizers (d_Meta d))"
  then have "filter (\<lambda>g. g \<noteq> f) (om_Finalizers (d_Meta d)) = om_Finalizers (d_Meta d)"
    by (auto simp: filter_id_conv)
  then show ?thesis by (cases d, cases "d_Meta d") (simp add: strip_def map_finalizers_def)
qed

lemma strip_finalizers: "om_Finalizers (d_Meta (strip f d)) = filter (\<lambda>g. g \<noteq> f) (om_Finalizers (d_Meta d))"
  by (simp add: strip_def map_finalizers_def)

lemma strip_same [simp]: "d_Spec (strip f d) = d_Spec d" "d_Status (strip f d) = d_Status d"
  "deleting (strip f d) = deleting d" "GetId (strip f d) = GetId d"
  by (simp_all add: strip_def map_finalizers_def deleting_def GetId_def)

lemma remove_finalizer_strip: "k8slib_ok (rc_lib R) \<Longrightarrow> remove_finalizer R f d = strip f d"
  by (simp add: remove_finalizer_def strip_def k8slib_okD(6))

lemma has_finalizer_iff: "k8slib_ok (rc_lib R) \<Longrightarrow> has_finalizer R d f \<longleftrightarrow> f \<in> set (om_Finalizers (d_Meta d))"
  by (simp add: has_finalizer_def k8slib_okD(4))

text \<open>A finalizer phase removes its finalizer or fails and leaves the object as it was.\<close>

definition finalizer_phase :: "string \<Rightarrow> Deployment \<Rightarrow> goerror option \<times> Deployment \<Rightarrow> bool" where
  "finalizer_phase f d = (\<lambda>(e, d'). d' = (if e = None then strip f d else d))"

lemma post_finalizer_phases:
  assumes "k8slib_ok (rc_lib R)"
  shows "post (handleFinalizerDependency R d) (finalizer_phase FinalizerDependency d)"
    and "post (handleFinalizerGitRemote R d) (finalizer_phase FinalizerGitRemote d)"
    and "post (handleFinalizerCatalog R d) (finalizer_phase FinalizerCatalog d)"
  unfolding handleFinalizerDependency_def handleFinalizerGitRemote_def handleFinalizerCatalog_def
  by (intro post_if post_bind_any post_option,
      auto simp: finalizer_phase_def remove_finalizer_strip [OF assms] has_finalizer_iff [OF assms] strip_absent
        split: option.split)+

definition delete_phases :: "('j, 'w) Reconciler \<Rightarrow> (Deployment \<Rightarrow> ('w, phase_result) dio) list" where
  "delete_phases R = [handleFinalizerDependency R, handleFinalizerGitRemote R, handleFinalizerCatalog R]"

text \<open>What a sequence of finalizer phases leaves: only their finalizers may go, and all of them do
  when there is no error.\<close>

definition finalizers_left :: "string list \<Rightarrow> Deployment \<Rightarrow> goerror option list \<times> Deployment \<Rightarrow> bool" where
  "finalizers_left fs d = (\<lambda>(es, d'). d_Spec d' = d_Spec d \<and> d_Status d' = d_Status d \<and>
     list_all (\<lambda>e. e \<noteq> None) es \<and>
     (\<exists>gs. set gs \<subseteq> set fs \<and> om_Finalizers (d_Meta d') = filter (\<lambda>g. g \<notin> set gs) (om_Finalizers (d_Meta d)) \<and>
        (es = [] \<longrightarrow> set gs = set fs)))"

lemma finalizers_left_step:
  assumes "finalizer_phase f d (e, d1)" "finalizers_left fs d1 (es, d2)"
  shows "finalizers_left (f # fs) d (if e = None then es else e # es, d2)"
proof -
  from assms(2) obtain gs where g: "set gs \<subseteq> set fs"
    "om_Finalizers (d_Meta d2) = filter (\<lambda>g. g \<notin> set gs) (om_Finalizers (d_Meta d1))"
    "es = [] \<longrightarrow> set gs = set fs" and r: "d_Spec d2 = d_Spec d1" "d_Status d2 = d_Status d1"
    "list_all (\<lambda>e. e \<noteq> None) es"
    by (auto simp: finalizers_left_def)
  show ?thesis
  proof (cases "e = None")
    case True
    then have "d1 = strip f d" using assms(1) by (simp add: finalizer_phase_def)
    then have "om_Finalizers (d_Meta d2) = filter (\<lambda>g. g \<notin> set (f # gs)) (om_Finalizers (d_Meta d))"
      and "d_Spec d2 = d_Spec d" "d_Status d2 = d_Status d"
      using g(2) r by (auto simp: strip_finalizers intro: filter_cong)
    moreover have "set (f # gs) \<subseteq> set (f # fs)" "es = [] \<longrightarrow> set (f # gs) = set (f # fs)"
      using g by auto
    ultimately show ?thesis
      using True r(3) unfolding finalizers_left_def by (simp only: prod.case if_True simp_thms) blast
  next
    case False
    from assms(1) have "d1 = d" unfolding finalizer_phase_def prod.case if_not_P [OF False] .
    then show ?thesis
      using False g r unfolding finalizers_left_def by auto
  qed
qed

lemma post_run_phases:
  "list_all2 (\<lambda>p f. \<forall>d. post (p d) (finalizer_phase f d)) ps fs \<Longrightarrow>
   post (run_phases ps d) (finalizers_left fs d)"
proof (induction ps fs arbitrary: d rule: list_all2_induct)
  case Nil
  have "filter (\<lambda>g. g \<notin> set []) xs = xs" for xs :: "string list" by simp
  then show ?case by (simp add: finalizers_left_def)
next
  case (Cons p ps f fs)
  have 1: "post (p d) (finalizer_phase f d)" using Cons.hyps(1) by blast
  show ?case
    unfolding run_phases.simps
    by (rule post_bind [OF 1], rule post_prod, rule post_bind [OF Cons.IH], rule post_prod)
       (simp only: post_return, rule finalizers_left_step, auto)
qed

text \<open>The outcome of \<open>delete\<close>.\<close>

abbreviation delete_finalizers :: "string list" where
  "delete_finalizers \<equiv> [FinalizerDependency, FinalizerGitRemote, FinalizerCatalog]"

definition delete_left ::
  "deploymentMetadataCache \<Rightarrow> Deployment \<Rightarrow> goerror option \<times> Deployment \<times> deploymentMetadataCache \<Rightarrow> bool" where
  "delete_left cache d = (\<lambda>(e, d', cache'). d_Spec d' = d_Spec d \<and> d_Status d' = d_Status d \<and>
     (\<forall>f. f \<in> set (om_Finalizers (d_Meta d')) \<longrightarrow> f \<in> set (om_Finalizers (d_Meta d))) \<and>
     (\<forall>f. f \<in> set (om_Finalizers (d_Meta d)) \<and> f \<notin> set delete_finalizers \<longrightarrow>
        f \<in> set (om_Finalizers (d_Meta d'))) \<and>
     (e = None \<longrightarrow> set delete_finalizers \<inter> set (om_Finalizers (d_Meta d')) = {}) \<and>
     map_of cache' (cache_key (om_Namespace (d_Meta d)) (om_Name (d_Meta d))) \<noteq> None)"

lemma delete_left_intro:
  assumes "finalizers_left delete_finalizers d (es, d')" "k8slib_ok L"
    "map_of cache' (cache_key (om_Namespace (d_Meta d)) (om_Name (d_Meta d))) \<noteq> None"
  shows "delete_left cache d (NewAggregate L es, d', cache')"
proof -
  from assms(1) obtain gs where g: "set gs \<subseteq> set delete_finalizers"
    "om_Finalizers (d_Meta d') = filter (\<lambda>g. g \<notin> set gs) (om_Finalizers (d_Meta d))"
    "es = [] \<longrightarrow> set gs = set delete_finalizers"
    and r: "d_Spec d' = d_Spec d" "d_Status d' = d_Status d" "list_all (\<lambda>e. e \<noteq> None) es"
    unfolding finalizers_left_def by blast
  have "NewAggregate L es = None \<longleftrightarrow> es = []"
    using r(3) k8slib_okD(1) [OF assms(2), of es] by (cases es) auto
  then show ?thesis
    using g r assms(3) unfolding delete_left_def by auto
qed

lemma post_cache_metadata:
  "post (cache_metadata R d cache)
     (\<lambda>c. map_of c (cache_key (om_Namespace (d_Meta d)) (om_Name (d_Meta d))) \<noteq> None)"
  unfolding cache_metadata_def
  by (rule post_bind_any) (simp add: cacheDeploymentMetadata_def update_conv')

lemma post_delete:
  assumes "k8slib_ok (rc_lib R)"
  shows "post (delete R cache d) (delete_left cache d)"
proof -
  have p: "post (run_phases [handleFinalizerDependency R, handleFinalizerGitRemote R, handleFinalizerCatalog R] d)
     (finalizers_left delete_finalizers d)"
    by (rule post_run_phases) (simp add: post_finalizer_phases [OF assms])
  show ?thesis
    unfolding delete_def
    apply (rule post_bind [OF post_cache_metadata])
    apply (rule post_bind_any, rule post_bind_any, rule post_bind_any, rule post_bind_any)
    apply (rule post_bind [OF p], rule post_prod, rule post_bind_any, rule post_bind_any)
    apply (simp only: post_return, rule delete_left_intro [OF _ assms], simp, assumption)
    done
qed

section \<open>A remote check that fails\<close>

text \<open>The finalizer is removed although the repository was not deleted.\<close>

lemma git_remote_error_dropped:
  assumes "has_finalizer R d FinalizerGitRemote"
    and "g_gitclient (rc_git R) (GetId d) (env s) = (None, w1)"
    and "g_ExistsOnRemote (rc_git R) (GetId d) w1 = (Inl err, w2)"
  shows "run_state (handleFinalizerGitRemote R d) s =
    ((None, remove_finalizer R FinalizerGitRemote d),
     s\<lparr>env := w2, trace := trace s @ [Git (GitNew (GetId d)), Git (GitExists (GetId d))]\<rparr>)"
  using assms by (simp add: handleFinalizerGitRemote_def git_new_def git_exists_def)

section \<open>Forced resync\<close>

lemma force_too_soon:
  assumes "st_LastForceResync (d_Status d) \<noteq> []" "rc_Parse R (st_LastForceResync (d_Status d)) = Inr last_sync"
    and "s_Now (rc_srv R) (env s) = (now, w)" "now < last_sync + forceResyncInterval"
  shows "run_state (forceRedeployStuckApps R d) s =
    ((None, d), s\<lparr>env := w, trace := trace s @ [Service ReadClock]\<rparr>)"
  using assms by (simp add: forceRedeployStuckApps_def sNow_def)

text \<open>Only GitRepos that need it are updated, and only their force counter, by one.\<close>

fun force_ev :: "GitRepo list \<Rightarrow> dep_ev \<Rightarrow> bool" where
  "force_ev grs (Write (UpdateGitRepo g)) =
     (\<exists>h \<in> set grs. needs_force h \<and> g = h\<lparr>gr_ForceSyncGeneration := gr_ForceSyncGeneration h + 1\<rparr>)"
| "force_ev grs (Write _) = False"
| "force_ev grs (Git _) = False"
| "force_ev grs (Metric _) = False"
| "force_ev grs _ = True"

lemma force_gitrepos_does:
  "does (force_ev grs) (fold_err (force_gitrepo R) grs d) (\<lambda>_. True)"
proof -
  have "g \<in> set grs \<Longrightarrow> does (force_ev grs) (force_gitrepo R g d) (\<lambda>_. True)" for g d
    unfolding force_gitrepo_def stamp_resync_def Let_def dep_calls
    by (intro emits_intros TrueI) auto
  then show ?thesis by (intro does_fold_err) auto
qed

section \<open>BundleDeployments\<close>

text \<open>The search deletes by name alone: another deployment's bundle whose name contains this
  deployment's name is deleted too.\<close>

lemma bd_name_match:
  "om_Name (bd_Meta bd) = a @ om_Name (d_Meta d) @ b \<Longrightarrow> bd_should_delete d grs bd"
  by (simp add: bd_should_delete_def Contains_append)

lemma bd_own_match:
  "om_Labels (bd_Meta bd) = Some l \<Longrightarrow> map_of l LabelDeploymentID = Some (GetId d) \<Longrightarrow> bd_should_delete d grs bd"
  by (simp add: bd_should_delete_def bd_label_match_def label_get_Some)

end
