(* ===== verification/DepConverge.thy ===== *)
theory DepConverge
  imports DepDeletion
begin

text \<open>
  Convergence of \<open>reconcileGitRepo\<close>: on an API server that does what it is asked, a run without an
  error leaves exactly one GitRepo per application, each up to date, and no other.

  \<open>gitrepo_store R store\<close> is the assumption about the server: \<open>store\<close> gives the GitRepos it holds for
  the deployment, by name, and the operations on GitRepos act on it as the Kubernetes API documents.
  \<open>mem_reconciler\<close> is a server in memory that satisfies it.
\<close>

section \<open>The server\<close>

definition gr_name :: "GitRepo \<Rightarrow> string" where
  "gr_name g = om_Name (gr_Meta g)"

definition gitrepo_store :: "('j, 'w) Reconciler \<Rightarrow> ('w \<Rightarrow> string \<Rightarrow> GitRepo option) \<Rightarrow> bool" where
  "gitrepo_store R store =
     ((\<forall>ns n w r w'. k_ListGitRepos (rc_kube R) ns n w = (r, w') \<longrightarrow> store w' = store w \<and>
        (\<forall>items. r = Inr items \<longrightarrow> distinct (map gr_name items) \<and>
           (\<forall>m g. store w m = Some g \<longleftrightarrow> g \<in> set items \<and> gr_name g = m))) \<and>
      (\<forall>g w w'. k_CreateGitRepo (rc_kube R) g w = (None, w') \<longrightarrow> store w' = (store w)(gr_name g \<mapsto> g)) \<and>
      (\<forall>g w w'. k_UpdateGitRepo (rc_kube R) g w = (None, w') \<longrightarrow> store w' = (store w)(gr_name g \<mapsto> g)) \<and>
      (\<forall>g w w'. k_DeleteGitRepo (rc_kube R) g w = (None, w') \<longrightarrow> store w' = (store w)(gr_name g := None)) \<and>
      (\<forall>i w. store (snd (g_GetRemoteURLWithCreds (rc_git R) i w)) = store w) \<and>
      (\<forall>w. store (snd (s_GenerateName (rc_srv R) w)) = store w) \<and>
      (\<forall>w. store (snd (s_GetGitCaCert (rc_srv R) w)) = store w) \<and>
      (\<forall>w. store (snd (s_metric (rc_srv R) w)) = store w) \<and>
      (\<forall>w. store (snd (s_record (rc_srv R) w)) = store w) \<and>
      (\<forall>w. store (snd (s_Now (rc_srv R) w)) = store w) \<and>
      (\<forall>d g g'. rc_SetControllerReference R d g = Inr g' \<longrightarrow>
         (\<exists>ors. g' = g\<lparr>gr_Meta := (gr_Meta g)\<lparr>om_OwnerReferences := ors\<rparr>\<rparr>)))"

lemma gitrepo_storeD:
  assumes "gitrepo_store R store"
  shows "k_ListGitRepos (rc_kube R) ns n w = (r, w') \<Longrightarrow> store w' = store w"
    and "k_ListGitRepos (rc_kube R) ns n w = (Inr items, w') \<Longrightarrow> distinct (map gr_name items)"
    and "k_ListGitRepos (rc_kube R) ns n w = (Inr items, w') \<Longrightarrow>
      store w m = Some g \<longleftrightarrow> g \<in> set items \<and> gr_name g = m"
    and "k_CreateGitRepo (rc_kube R) g w = (None, w') \<Longrightarrow> store w' = (store w)(gr_name g \<mapsto> g)"
    and "k_UpdateGitRepo (rc_kube R) g w = (None, w') \<Longrightarrow> store w' = (store w)(gr_name g \<mapsto> g)"
    and "k_DeleteGitRepo (rc_kube R) g w = (None, w') \<Longrightarrow> store w' = (store w)(gr_name g := None)"
    and "g_GetRemoteURLWithCreds (rc_git R) i w = (u, w') \<Longrightarrow> store w' = store w"
    and "s_GenerateName (rc_srv R) w = (x, w') \<Longrightarrow> store w' = store w"
    and "s_GetGitCaCert (rc_srv R) w = (x, w') \<Longrightarrow> store w' = store w"
    and "s_metric (rc_srv R) w = (y, w') \<Longrightarrow> store w' = store w"
    and "s_record (rc_srv R) w = (y, w') \<Longrightarrow> store w' = store w"
    and "rc_SetControllerReference R d g = Inr g' \<Longrightarrow>
      \<exists>ors. g' = g\<lparr>gr_Meta := (gr_Meta g)\<lparr>om_OwnerReferences := ors\<rparr>\<rparr>"
    and "s_Now (rc_srv R) w = (i', w') \<Longrightarrow> store w' = store w"
  using assms unfolding gitrepo_store_def by (blast | metis snd_conv)+

section \<open>The goal\<close>

text \<open>A GitRepo that is up to date for an application.\<close>

definition gitrepo_current :: "('j, 'w) Reconciler \<Rightarrow> Deployment \<Rightarrow> string \<Rightarrow> Application \<Rightarrow> GitRepo \<Rightarrow> bool" where
  "gitrepo_current R d url app g =
     (gr_name g = getGitRepoName (ap_Name app) (GetId d) \<and> gr_Repo g = url \<and>
      map gt_MatchLabels (gr_Targets g) = ap_Targets app \<and>
      map_of (labels_of (gr_Meta g)) LabelBundleName = Some (bundle_of R d app) \<and>
      map_option ha_RepoSecretName (ap_HelmApp app) = Some (gr_HelmSecretName g) \<and>
      gr_ClientSecretName g = FleetGitSecretName)"

definition repo_names :: "Deployment \<Rightarrow> Application list \<Rightarrow> string set" where
  "repo_names d apps = (\<lambda>app. getGitRepoName (ap_Name app) (GetId d)) ` set apps"

definition in_sync :: "('j, 'w) Reconciler \<Rightarrow> Deployment \<Rightarrow> string \<Rightarrow> Application list \<Rightarrow> (string \<Rightarrow> GitRepo option) \<Rightarrow> bool" where
  "in_sync R d url apps st = (\<forall>app \<in> set apps.
     \<exists>g. st (getGitRepoName (ap_Name app) (GetId d)) = Some g \<and> gitrepo_current R d url app g)"

text \<open>The invariant of the loop: the applications met are in sync, and what the server holds besides
  them is still in the map.\<close>

definition loop_inv ::
  "('j, 'w) Reconciler \<Rightarrow> Deployment \<Rightarrow> string \<Rightarrow> Application list \<Rightarrow> GitRepo gomap \<Rightarrow> (string \<Rightarrow> GitRepo option) \<Rightarrow> bool" where
  "loop_inv R d url apps m st = (in_sync R d url apps st \<and> dom st \<subseteq> repo_names d apps \<union> fst ` set m \<and>
     repo_names d apps \<inter> fst ` set m = {} \<and> (\<forall>(n, g) \<in> set m. gr_name g = n))"

lemma set_cabundle_simps [simp]:
  "gr_Meta (set_cabundle c g) = gr_Meta g" "gr_Repo (set_cabundle c g) = gr_Repo g"
  "gr_Targets (set_cabundle c g) = gr_Targets g" "gr_HelmSecretName (set_cabundle c g) = gr_HelmSecretName g"
  "gr_ClientSecretName (set_cabundle c g) = gr_ClientSecretName g"
  by (simp_all add: set_cabundle_def)

lemma updated_current:
  "updated_gitrepo R d app url targets ca g = Ret g' \<Longrightarrow> map gt_MatchLabels targets = ap_Targets app \<Longrightarrow>
   gr_name g = getGitRepoName (ap_Name app) (GetId d) \<Longrightarrow> gitrepo_current R d url app g'"
  by (auto simp: updated_gitrepo_def gitrepo_current_def gr_name_def labels_of_def update_conv'
      split: option.splits)

lemma new_current:
  "ap_HelmApp app = Some helm \<Longrightarrow> map gt_MatchLabels targets = ap_Targets app \<Longrightarrow>
   gitrepo_current R d url app
     ((add_label AppOrchActiveProjectID p (new_gitrepo R d app helm url targets ca))
       \<lparr>gr_Meta := (gr_Meta (add_label AppOrchActiveProjectID p (new_gitrepo R d app helm url targets ca)))
         \<lparr>om_OwnerReferences := ors\<rparr>\<rparr>)"
  by (simp add: new_gitrepo_def gitrepo_current_def gr_name_def add_label_def labels_of_def update_conv')

lemma loop_inv_step:
  assumes "loop_inv R d url apps m st" "gitrepo_current R d url app g"
    and "getGitRepoName (ap_Name app) (GetId d) \<notin> repo_names d apps"
  shows "loop_inv R d url (apps @ [app]) (AList.delete (getGitRepoName (ap_Name app) (GetId d)) m)
     (st(gr_name g \<mapsto> g))"
proof -
  let ?n = "getGitRepoName (ap_Name app) (GetId d)"
  have n: "gr_name g = ?n" using assms(2) by (simp add: gitrepo_current_def)
  have "in_sync R d url (apps @ [app]) (st(?n \<mapsto> g))"
    unfolding in_sync_def
  proof
    fix a assume "a \<in> set (apps @ [app])"
    then consider "a \<in> set apps" | "a = app" by auto
    then show "\<exists>h. (st(?n \<mapsto> g)) (getGitRepoName (ap_Name a) (GetId d)) = Some h \<and> gitrepo_current R d url a h"
    proof cases
      case 1
      then have "getGitRepoName (ap_Name a) (GetId d) \<noteq> ?n"
        using assms(3) by (metis imageI repo_names_def)
      then show ?thesis using assms(1) 1 by (simp add: loop_inv_def in_sync_def)
    qed (use assms(2) in simp)
  qed
  moreover have keys: "fst ` set (AList.delete ?n m) = fst ` set m - {?n}"
    by (induction m) auto
  have names: "repo_names d (apps @ [app]) = insert ?n (repo_names d apps)"
    by (simp add: repo_names_def)
  have "dom (st(?n \<mapsto> g)) \<subseteq> repo_names d (apps @ [app]) \<union> fst ` set (AList.delete ?n m)"
    and "repo_names d (apps @ [app]) \<inter> fst ` set (AList.delete ?n m) = {}"
    using assms(1) unfolding loop_inv_def keys names by auto
  moreover have "set (AList.delete ?n m) \<subseteq> set m"
    by (induction m) auto
  then have "\<forall>(k, h) \<in> set (AList.delete ?n m). gr_name h = k"
    using assms(1) unfolding loop_inv_def by blast
  ultimately show ?thesis by (simp add: loop_inv_def n)
qed

section \<open>The loop over the applications\<close>

definition keeps :: "('w \<Rightarrow> string \<Rightarrow> GitRepo option) \<Rightarrow> ('w, 'a) dio \<Rightarrow> ('a \<Rightarrow> bool) \<Rightarrow> bool" where
  "keeps store m Q = (\<forall>s r s'. run_state m s = (r, s') \<longrightarrow> store (env s') = store (env s) \<and> Q r)"

lemma keeps_call: "(\<And>w. store (snd (f w)) = store w) \<Longrightarrow> keeps store (call ev f) (\<lambda>_. True)"
  unfolding keeps_def by (auto split: prod.splits) (metis snd_conv)

lemma keeps_return: "Q x \<Longrightarrow> keeps store (State_Monad.return x) Q"
  by (simp add: keeps_def)

lemma keeps_bind:
  assumes "keeps store m P" "\<And>x. P x \<Longrightarrow> keeps store (f x) Q"
  shows "keeps store (State_Monad.bind m f) Q"
  unfolding keeps_def
proof (intro allI impI)
  fix s r s' assume run: "run_state (State_Monad.bind m f) s = (r, s')"
  obtain x s1 where 1: "run_state m s = (x, s1)" by (cases "run_state m s")
  with run have 2: "run_state (f x) s1 = (r, s')" by simp
  from 1 assms(1) have "store (env s1) = store (env s)" "P x" by (auto simp: keeps_def)
  with 2 assms(2) [of x] show "store (env s') = store (env s) \<and> Q r" by (auto simp: keeps_def)
qed

lemma keeps_gen_targets:
  assumes "gitrepo_store R store"
  shows "keeps store (gen_targets R ts) (\<lambda>gs. map gt_MatchLabels gs = ts)"
proof (induction ts)
  case (Cons t ts)
  have "keeps store (gen_target R t) (\<lambda>g. gt_MatchLabels g = t)"
    unfolding gen_target_def
    by (rule keeps_bind [OF keeps_call]) (use gitrepo_storeD(8) [OF assms] in \<open>auto intro: keeps_return simp: prod_eq_iff\<close>)
  then show ?case
    by (simp, rule keeps_bind) (rule keeps_bind [OF Cons.IH], auto intro: keeps_return)
qed (simp add: keeps_return)

lemma hoare_keeps:
  assumes "keeps store m P" "\<And>x. P x \<Longrightarrow> hoare (\<lambda>s. I (store (env s))) (f x) Q"
  shows "hoare (\<lambda>s. I (store (env s))) (State_Monad.bind m f) Q"
proof (rule hoare_bind)
  show "hoare (\<lambda>s. I (store (env s))) m (\<lambda>r s. I (store (env s)) \<and> P r)"
    using assms(1) unfolding keeps_def hoare_def by (auto split: prod.splits)
  show "hoare (\<lambda>s. I (store (env s)) \<and> P x) (f x) Q" for x
    using assms(2) [of x] unfolding hoare_def by auto
qed

lemma keeps_dep_calls:
  assumes "gitrepo_store R store"
  shows "keeps store (record_event R a b) (\<lambda>_. True)" "keeps store (emit_metric R e) (\<lambda>_. True)"
    "keeps store (call ev (s_GetGitCaCert (rc_srv R))) (\<lambda>_. True)"
    "keeps store (call ev' (g_GetRemoteURLWithCreds (rc_git R) i)) (\<lambda>_. True)"
  using gitrepo_storeD(7,9,10,11) [OF assms]
  by (auto simp: dep_calls prod_eq_iff intro!: keeps_call)

lemma hoare_write:
  assumes "\<And>w w'. I (store w) \<Longrightarrow> f w = (None, w') \<Longrightarrow> J (store w')"
  shows "hoare (\<lambda>s. I (store (env s))) (call ev f) (\<lambda>e s. e = None \<longrightarrow> J (store (env s)))"
  by (rule hoare_call) (auto intro: assms)

lemma create_gitrepo_inv:
  assumes ok: "gitrepo_store R store" and inv: "\<And>w. I (store w) \<Longrightarrow> loop_inv R d url apps m (store w)"
    and fresh: "getGitRepoName (ap_Name app) (GetId d) \<notin> repo_names d apps"
    and absent: "map_of m (getGitRepoName (ap_Name app) (GetId d)) = None"
    and helm: "ap_HelmApp app = Some helm" and targets: "map gt_MatchLabels targets = ap_Targets app"
  shows "hoare (\<lambda>s. I (store (env s))) (create_gitrepo R d app (new_gitrepo R d app helm url targets ca))
     (\<lambda>e s. e = None \<longrightarrow> loop_inv R d url (apps @ [app]) m (store (env s)))"
  unfolding create_gitrepo_def
proof (intro hoare_option hoare_sum)
  fix p g'
  let ?g = "add_label AppOrchActiveProjectID p (new_gitrepo R d app helm url targets ca)"
  assume "rc_SetControllerReference R d ?g = Inr g'"
  with gitrepo_storeD(12) [OF ok] obtain ors where "g' = ?g\<lparr>gr_Meta := (gr_Meta ?g)\<lparr>om_OwnerReferences := ors\<rparr>\<rparr>"
    by blast
  then have cur: "gitrepo_current R d url app g'"
    using new_current [OF helm targets] by simp
  have del: "AList.delete (getGitRepoName (ap_Name app) (GetId d)) m = m"
    using absent by (simp add: map_of_eq_None_iff delete_id)
  have w: "hoare (\<lambda>s. I (store (env s))) (kCreateGitRepo R g')
      (\<lambda>e s. e = None \<longrightarrow> loop_inv R d url (apps @ [app]) m (store (env s)))"
    unfolding kCreateGitRepo_def
  proof (rule hoare_write)
    fix w w' assume "I (store w)" and "k_CreateGitRepo (rc_kube R) g' w = (None, w')"
    then show "loop_inv R d url (apps @ [app]) m (store w')"
      using loop_inv_step [OF inv cur fresh] gitrepo_storeD(4) [OF ok] by (simp only: del)
  qed
  show "hoare (\<lambda>s. I (store (env s))) (do { e \<leftarrow> kCreateGitRepo R g';
       case e of Some err \<Rightarrow> State_Monad.return (Some (PlainErr (''GitRepo creation failed ('' @ err_msg err @ '')'')))
       | None \<Rightarrow> do { _ \<leftarrow> record_event R ''Reconciling'' (''Completed creating GitRepo '' @
                         getGitRepoName (ap_Name app) (GetId d));
                   _ \<leftarrow> emit_metric R (RecordTimestamp (project_of d) (GetId d) (sp_DisplayName (d_Spec d))
                         ''start'' ''CreateGitRepo'');
                   _ \<leftarrow> emit_metric R (TimeDifference (project_of d) (GetId d) (sp_DisplayName (d_Spec d))
                         ''start'' ''CreateDeployment'' ''start'' ''CreateGitRepo'');
                   State_Monad.return None } })
     (\<lambda>e s. e = None \<longrightarrow> loop_inv R d url (apps @ [app]) m (store (env s)))"
    by (rule hoare_bind [OF w], rule hoare_option, simp)
       (intro hoare_keeps [OF keeps_dep_calls(1) [OF ok]] hoare_keeps [OF keeps_dep_calls(2) [OF ok]]
          hoare_return, auto intro!: hoare_return)
qed (auto intro: hoare_return)

lemma reconcile_app_inv:
  assumes ok: "gitrepo_store R store"
    and fresh: "getGitRepoName (ap_Name app) (GetId d) \<notin> repo_names d apps"
  shows "hoare (\<lambda>s. loop_inv R d url apps m (store (env s))) (reconcile_app R d url app m)
     (\<lambda>(r, m') s. r = Ret None \<longrightarrow> loop_inv R d url (apps @ [app]) m' (store (env s)))"
  unfolding reconcile_app_def Let_def
proof (rule hoare_keeps [OF keeps_gen_targets [OF ok]], rule hoare_option, goal_cases)
  case (1 targets)
  show ?case
    by (rule hoare_keeps [OF keeps_dep_calls(3) [OF ok]], rule hoare_option)
       (auto intro!: hoare_return hoare_bind [OF create_gitrepo_inv [OF ok _ fresh 1(2) _ 1(1)]])
next
  case (2 targets g)
  let ?n = "getGitRepoName (ap_Name app) (GetId d)"
  have w: "hoare (\<lambda>s. loop_inv R d url apps m (store (env s))) (kUpdateGitRepo R g')
      (\<lambda>e s. e = None \<longrightarrow> loop_inv R d url (apps @ [app]) (AList.delete ?n m) (store (env s)))"
    if u: "updated_gitrepo R d app url targets ca g = Ret g'" for ca g'
    unfolding kUpdateGitRepo_def
  proof (rule hoare_write)
    fix w w' assume inv: "loop_inv R d url apps m (store w)" and "k_UpdateGitRepo (rc_kube R) g' w = (None, w')"
    moreover have "gr_name g = ?n" using inv map_of_SomeD [OF 2(2)] by (auto simp: loop_inv_def)
    ultimately show "loop_inv R d url (apps @ [app]) (AList.delete ?n m) (store w')"
      using loop_inv_step [OF inv updated_current [OF u 2(1)] fresh] gitrepo_storeD(5) [OF ok] by simp
  qed
  show ?case
    by (rule hoare_keeps [OF keeps_dep_calls(3) [OF ok]], rule hoare_go)
       (auto intro!: hoare_return hoare_bind [OF w] hoare_option
          hoare_keeps [OF keeps_dep_calls(1) [OF ok], where I = "\<lambda>st. None = None \<longrightarrow> loop_inv R d url (apps @ [app]) (AList.delete ?n m) st"])
qed

lemma app_loop_inv:
  assumes ok: "gitrepo_store R store"
  shows "distinct (map ap_Name (xs @ apps)) \<Longrightarrow>
   hoare (\<lambda>s. loop_inv R d url xs m (store (env s))) (app_loop (reconcile_app R d url) apps m)
     (\<lambda>(r, m') s. r = Ret None \<longrightarrow> loop_inv R d url (xs @ apps) m' (store (env s)))"
proof (induction apps arbitrary: xs m)
  case (Cons app apps)
  have fresh: "getGitRepoName (ap_Name app) (GetId d) \<notin> repo_names d xs"
    using Cons.prems getGitRepoName_inj by (force simp: repo_names_def)
  have IH: "hoare (\<lambda>s. loop_inv R d url (xs @ [app]) m' (store (env s))) (app_loop (reconcile_app R d url) apps m')
     (\<lambda>(r, m') s. r = Ret None \<longrightarrow> loop_inv R d url (xs @ app # apps) m' (store (env s)))" for m'
    using Cons.IH [of "xs @ [app]" m'] Cons.prems by simp
  show ?case
    unfolding app_loop.simps
    by (rule hoare_bind [OF reconcile_app_inv [OF ok fresh]], rule hoare_prod)
       (auto intro: hoare_pre [OF IH] hoare_return)
qed (auto intro: hoare_return)

section \<open>The deletions after the loop\<close>

lemma loop_inv_delete:
  assumes "loop_inv R d url apps (x # m) st"
  shows "loop_inv R d url apps m (st(gr_name (snd x) := None))"
proof -
  have n: "gr_name (snd x) = fst x" and f: "fst x \<notin> repo_names d apps"
    using assms by (auto simp: loop_inv_def)
  have "in_sync R d url apps (st(fst x := None))"
    unfolding in_sync_def
  proof
    fix a assume a: "a \<in> set apps"
    then have "getGitRepoName (ap_Name a) (GetId d) \<noteq> fst x"
      using f by (metis imageI repo_names_def)
    then show "\<exists>g. (st(fst x := None)) (getGitRepoName (ap_Name a) (GetId d)) = Some g \<and> gitrepo_current R d url a g"
      using assms a by (simp add: loop_inv_def in_sync_def)
  qed
  then show ?thesis using assms by (auto simp: loop_inv_def n)
qed

lemma delete_loop_inv:
  assumes ok: "gitrepo_store R store"
  shows "hoare (\<lambda>s. loop_inv R d url apps m (store (env s))) (for_err (kDeleteGitRepo R) (map snd m))
     (\<lambda>e s. e = None \<longrightarrow> loop_inv R d url apps [] (store (env s)))"
proof (induction m)
  case (Cons x m)
  have w: "hoare (\<lambda>s. loop_inv R d url apps (x # m) (store (env s))) (kDeleteGitRepo R (snd x))
     (\<lambda>e s. e = None \<longrightarrow> loop_inv R d url apps m (store (env s)))"
    unfolding kDeleteGitRepo_def
  proof (rule hoare_write)
    fix w w' assume "loop_inv R d url apps (x # m) (store w)" "k_DeleteGitRepo (rc_kube R) (snd x) w = (None, w')"
    then show "loop_inv R d url apps m (store w')"
      using loop_inv_delete gitrepo_storeD(6) [OF ok] by metis
  qed
  show ?case
    by (simp, rule hoare_bind [OF w], rule hoare_option) (auto intro: hoare_pre [OF Cons.IH] hoare_return)
qed (auto intro: hoare_return)

section \<open>Convergence\<close>

lemma set_update_subset: "set (AList.update k v al) \<subseteq> insert (k, v) (set al)"
  by (induction al) auto

lemma grmap_of_fold:
  assumes "\<forall>(n, g) \<in> set m. gr_name g = n"
  shows "(\<forall>(n, g) \<in> set (fold (\<lambda>gr m. AList.update (om_Name (gr_Meta gr)) gr m) items m). gr_name g = n) \<and>
     fst ` set (fold (\<lambda>gr m. AList.update (om_Name (gr_Meta gr)) gr m) items m) = fst ` set m \<union> gr_name ` set items"
  using assms
proof (induction items arbitrary: m)
  case (Cons g items)
  let ?m = "AList.update (om_Name (gr_Meta g)) g m"
  have "\<forall>(n, h) \<in> set ?m. gr_name h = n"
    using Cons.prems set_update_subset [of "om_Name (gr_Meta g)" g m] by (fastforce simp: gr_name_def)
  moreover have "fst ` set ?m = insert (gr_name g) (fst ` set m)"
    by (simp add: dom_update gr_name_def)
  ultimately show ?case using Cons.IH [of ?m] by (simp add: Un_assoc)
qed simp

lemma grmap_of_inv:
  assumes "gitrepo_store R store" "k_ListGitRepos (rc_kube R) ns n w = (Inr items, w')"
  shows "loop_inv R d url [] (grmap_of items) (store w)"
proof -
  have "dom (store w) \<subseteq> gr_name ` set items"
    using gitrepo_storeD(3) [OF assms] by auto
  then show ?thesis
    using grmap_of_fold [of "[]" items] by (auto simp: loop_inv_def in_sync_def repo_names_def grmap_of_def)
qed

lemma after_loop:
  assumes "gitrepo_store R store"
  shows "hoare (\<lambda>s. r = Ret None \<longrightarrow> loop_inv R d url apps m (store (env s)))
     (if r \<noteq> Ret None then State_Monad.return r
      else do { e' \<leftarrow> for_err (kDeleteGitRepo R) (map snd m); State_Monad.return (Ret e') })
     (\<lambda>r s. r = Ret None \<longrightarrow> loop_inv R d url apps [] (store (env s)))"
  by (auto intro: hoare_return hoare_bind [OF delete_loop_inv [OF assms]])

text \<open>From the list on, with the URL known.\<close>

lemma sync_listed:
  assumes ok: "gitrepo_store R store" and dist: "distinct (map ap_Name (sp_Applications (d_Spec d)))"
  shows "hoare (\<lambda>_. True)
    (do { r \<leftarrow> kListGitRepos R d;
         case r of
           Inl err \<Rightarrow> State_Monad.return (Ret (Some err))
         | Inr items \<Rightarrow> do {
             (e, rest) \<leftarrow> app_loop (reconcile_app R d url) (sp_Applications (d_Spec d)) (grmap_of items);
             if e \<noteq> Ret None then State_Monad.return e
             else do { e' \<leftarrow> for_err (kDeleteGitRepo R) (map snd rest); State_Monad.return (Ret e') } } })
    (\<lambda>r s. r = Ret None \<longrightarrow> loop_inv R d url (sp_Applications (d_Spec d)) [] (store (env s)))"
proof (rule hoare_bind [where R = "\<lambda>r s. case r of Inl _ \<Rightarrow> True | Inr items \<Rightarrow> loop_inv R d url [] (grmap_of items) (store (env s))"],
    goal_cases)
  case 1
  show ?case
    unfolding kListGitRepos_def
    by (rule hoare_call) (auto split: sum.split simp: grmap_of_inv [OF ok] gitrepo_storeD(1) [OF ok])
next
  case (2 r)
  have loop: "hoare (\<lambda>s. loop_inv R d url [] m (store (env s)))
      (app_loop (reconcile_app R d url) (sp_Applications (d_Spec d)) m)
      (\<lambda>(r, m') s. r = Ret None \<longrightarrow> loop_inv R d url (sp_Applications (d_Spec d)) m' (store (env s)))" for m
    using app_loop_inv [OF ok, of "[]" "sp_Applications (d_Spec d)"] dist by simp
  show ?case
  proof (cases r)
    case (Inr items)
    show ?thesis
      unfolding Inr sum.case
      by (rule hoare_bind [OF loop], rule hoare_prod) (simp only: prod.case, rule after_loop [OF ok])
  qed (auto intro: hoare_return)
qed

lemma sync_gitrepos_converges:
  assumes ok: "gitrepo_store R store" and dist: "distinct (map ap_Name (sp_Applications (d_Spec d)))"
    and run: "run_state (sync_gitrepos R d) s = (Ret None, s')"
  shows "\<exists>url. fst (g_GetRemoteURLWithCreds (rc_git R) (GetId d) (env s)) = Inr url \<and>
    in_sync R d url (sp_Applications (d_Spec d)) (store (env s')) \<and>
    dom (store (env s')) = repo_names d (sp_Applications (d_Spec d))"
proof -
  obtain u w where u: "g_GetRemoteURLWithCreds (rc_git R) (GetId d) (env s) = (u, w)" by force
  with run obtain url where url: "u = Inr url"
    by (cases u) (auto simp: sync_gitrepos_def)
  have "loop_inv R d url (sp_Applications (d_Spec d)) [] (store (env s'))"
    using run hoareD [OF sync_listed [OF ok dist, of url]]
    by (auto simp: sync_gitrepos_def u url)
  then show ?thesis
    using u url by (auto simp: loop_inv_def in_sync_def repo_names_def)
qed

end
