(* ===== verification/DepSample.thy ===== *)
theory DepSample
  imports DepConverge
begin

text \<open>
  A deployment controller on servers in memory: the concrete instance at which the properties of
  the controller are evaluated.  The world holds the objects; every server answers from it.
\<close>

section \<open>The world\<close>

record mem =
  mem_deployments :: "Deployment list"
  mem_gitrepos :: "GitRepo list"
  mem_dcs :: "DeploymentCluster list"
  mem_bds :: "BundleDeployment list"
  mem_clock :: int
  mem_remote :: "goerror + bool"

definition repo_store :: "mem \<Rightarrow> string \<Rightarrow> GitRepo option" where
  "repo_store w n = find (\<lambda>g. gr_name g = n) (mem_gitrepos w)"

definition listed_gitrepos :: "mem \<Rightarrow> GitRepo list" where
  "listed_gitrepos w = remdups (filter (\<lambda>g. repo_store w (gr_name g) = Some g) (mem_gitrepos w))"

definition not_found :: goerror where
  "not_found = K8sErr ReasonNotFound ''not found''"

definition put_gitrepo :: "GitRepo \<Rightarrow> mem \<Rightarrow> mem" where
  "put_gitrepo g w = w\<lparr>mem_gitrepos := g # filter (\<lambda>h. gr_name h \<noteq> gr_name g) (mem_gitrepos w)\<rparr>"

definition drop_gitrepo :: "GitRepo \<Rightarrow> mem \<Rightarrow> mem" where
  "drop_gitrepo g w = w\<lparr>mem_gitrepos := filter (\<lambda>h. gr_name h \<noteq> gr_name g) (mem_gitrepos w)\<rparr>"

definition put_deployment :: "Deployment \<Rightarrow> mem \<Rightarrow> mem" where
  "put_deployment d w = w\<lparr>mem_deployments := d # filter (\<lambda>e. om_Name (d_Meta e) \<noteq> om_Name (d_Meta d)) (mem_deployments w)\<rparr>"

section \<open>The servers\<close>

definition mem_kube :: "mem DepKube" where
  "mem_kube = \<lparr>
     k_Get = (\<lambda>ns n w. (case find (\<lambda>d. om_Name (d_Meta d) = n \<and> om_Namespace (d_Meta d) = ns) (mem_deployments w) of
        None \<Rightarrow> Inl not_found | Some d \<Rightarrow> Inr d, w)),
     k_ListDCs = (\<lambda>l w. (Inr (filter (\<lambda>dc. labels_match l (labels_of (dc_Meta dc))) (mem_dcs w)), w)),
     k_ListBDs = (\<lambda>l w. (Inr (filter (\<lambda>bd. labels_match l (labels_of (bd_Meta bd))) (mem_bds w)), w)),
     k_ListGitRepos = (\<lambda>_ _ w. (Inr (listed_gitrepos w), w)),
     k_ListByRef = (\<lambda>r w. (Inr (filter (\<lambda>d. GetAppRef d = r) (mem_deployments w)), w)),
     k_ListJobs = (\<lambda>_ w. (Inr [], w)),
     k_ListPods = (\<lambda>_ w. (Inr [], w)),
     k_DeleteBD = (\<lambda>bd w. (None, w\<lparr>mem_bds := removeAll bd (mem_bds w)\<rparr>)),
     k_DeleteDC = (\<lambda>dc w. (None, w\<lparr>mem_dcs := removeAll dc (mem_dcs w)\<rparr>)),
     k_DeleteGitRepo = (\<lambda>g w. (None, drop_gitrepo g w)),
     k_CreateGitRepo = (\<lambda>g w. if repo_store w (gr_name g) = None then (None, put_gitrepo g w)
        else (Some (K8sErr ReasonAlreadyExists ''already exists''), w)),
     k_UpdateGitRepo = (\<lambda>g w. if repo_store w (gr_name g) = None then (Some not_found, w)
        else (None, put_gitrepo g w)),
     k_Patch = (\<lambda>after _ w. (None, put_deployment after w)),
     k_PatchStatus = (\<lambda>after _ w. (None, put_deployment after w))\<rparr>"

definition mem_git :: "mem DepGit" where
  "mem_git = \<lparr>
     g_gitclient = (\<lambda>_ w. (None, w)), g_ExistsOnRemote = (\<lambda>_ w. (mem_remote w, w)),
     g_RepoDelete = (\<lambda>_ w. (None, w\<lparr>mem_remote := Inr False\<rparr>)),
     g_Clone = (\<lambda>_ _ w. (None, w)), g_Initialize = (\<lambda>_ _ w. (None, w)),
     g_CommitFiles = (\<lambda>_ w. (None, w)),
     g_PushToRemote = (\<lambda>_ w. (None, w\<lparr>mem_remote := Inr True\<rparr>)),
     g_GetRemoteURLWithCreds = (\<lambda>i w. (Inr (''https://git/adm/'' @ i @ ''.git''), w)),
     g_RemoveAll = (\<lambda>_ w. ((), w)),
     g_GenerateFleetConfigs = (\<lambda>_ _ w. (Ret (Inr ()), w))\<rparr>"

definition mem_services :: "mem DepServices" where
  "mem_services = \<lparr>
     s_GetM2MToken = (\<lambda>_ w. (Inr ''token'', w)), s_Logout = (\<lambda>_ w. (None, w)),
     s_GetDeploymentPackage = (\<lambda>_ _ _ w. (Inl not_found, w)),
     s_UpdateDeploymentPackage = (\<lambda>_ _ _ _ w. (None, w)),
     s_Now = (\<lambda>w. (mem_clock w, w\<lparr>mem_clock := mem_clock w + 1\<rparr>)),
     s_GetGitCaCert = (\<lambda>w. ([], w)), s_GenerateName = (\<lambda>w. (''x'', w)),
     s_metric = (\<lambda>w. ((), w)), s_record = (\<lambda>w. ((), w))\<rparr>"

text \<open>The unstructured form keeps the whole object under each top-level key.\<close>

definition mem_conv :: "(Deployment, Deployment) converter" where
  "mem_conv = \<lparr>
     GVKForObject = (\<lambda>_. Inr ''Deployment''),
     ToUnstructured = (\<lambda>d. Inr [(''metadata'', d), (''spec'', d), (''status'', d)]),
     FromUnstructured = (\<lambda>u d.
       let d = (case map_of u ''metadata'' of None \<Rightarrow> d | Some e \<Rightarrow> d\<lparr>d_Meta := d_Meta e\<rparr>);
           d = (case map_of u ''spec'' of None \<Rightarrow> d | Some e \<Rightarrow> d\<lparr>d_Spec := d_Spec e\<rparr>)
       in Inr (case map_of u ''status'' of None \<Rightarrow> d | Some e \<Rightarrow> d\<lparr>d_Status := d_Status e\<rparr>)),
     SetObservedGeneration = (\<lambda>u. Inr u),
     MergePatchKeys = (\<lambda>a b. Inr ((if d_Meta a \<noteq> d_Meta b then [''metadata''] else []) @
       (if d_Spec a \<noteq> d_Spec b then [''spec''] else []) @
       (if d_Status a \<noteq> d_Status b then [''status''] else [])))\<rparr>"

definition mem_fleetlib :: fleetlib where
  "mem_fleetlib = \<lparr>fl_ParseURL = (\<lambda>s. Inr \<lparr>u_Scheme = ''https'', u_Host = s, u_Path = []\<rparr>),
     fl_JoinPath = (\<lambda>a b. path_join [a, b]), fl_uuid = (\<lambda>s. s), fl_yaml = (\<lambda>_. Inr []),
     fl_credjson = (\<lambda>_ _ _. Inr [])\<rparr>"

definition mem_reconciler :: "(Deployment, mem) Reconciler" where
  "mem_reconciler = \<lparr>
     rc_lib = std_k8slib, rc_conv = mem_conv, rc_fleet = mem_fleetlib,
     rc_Format = int_str, rc_Parse = (\<lambda>s. case ParseInt 64 s of None \<Rightarrow> Inl not_found | Some i \<Rightarrow> Inr i),
     rc_ProcessLog = id,
     rc_SetControllerReference = (\<lambda>d g. Inr (g\<lparr>gr_Meta := (gr_Meta g)\<lparr>om_OwnerReferences :=
       [\<lparr>ow_APIVersion = ''app.edge-orchestrator.intel.com/v1beta1'', ow_Kind = ''Deployment'',
         ow_Name = om_Name (d_Meta d), ow_UID = GetId d, ow_Controller = True\<rparr>]\<rparr>\<rparr>)),
     rc_kube = mem_kube, rc_git = mem_git, rc_srv = mem_services,
     rc_deleteGitRepo = True, rc_fleetGitPollingInterval = None\<rparr>"

lemma mem_simps [simp]:
  "rc_kube mem_reconciler = mem_kube" "rc_git mem_reconciler = mem_git"
  "rc_srv mem_reconciler = mem_services" "rc_lib mem_reconciler = std_k8slib"
  by (simp_all add: mem_reconciler_def)

lemma repo_store_put [simp]: "repo_store (put_gitrepo g w) = (repo_store w)(gr_name g \<mapsto> g)"
proof
  fix n
  have "find (\<lambda>h. gr_name h = n) (filter (\<lambda>h. gr_name h \<noteq> gr_name g) xs) = find (\<lambda>h. gr_name h = n) xs"
    if "n \<noteq> gr_name g" for xs using that by (induction xs) auto
  then show "repo_store (put_gitrepo g w) n = ((repo_store w)(gr_name g \<mapsto> g)) n"
    by (auto simp: repo_store_def put_gitrepo_def)
qed

lemma repo_store_drop [simp]: "repo_store (drop_gitrepo g w) = (repo_store w)(gr_name g := None)"
proof
  fix n
  have "find (\<lambda>h. gr_name h = n) (filter (\<lambda>h. gr_name h \<noteq> gr_name g) xs) = (if n = gr_name g then None else find (\<lambda>h. gr_name h = n) xs)"
    for xs by (induction xs) auto
  then show "repo_store (drop_gitrepo g w) n = ((repo_store w)(gr_name g := None)) n"
    by (simp add: repo_store_def drop_gitrepo_def)
qed

lemma find_SomeD: "find P xs = Some x \<Longrightarrow> P x \<and> x \<in> set xs"
  by (induction xs) (auto split: if_splits)

lemma repo_storeD: "repo_store w n = Some g \<Longrightarrow> gr_name g = n \<and> g \<in> set (mem_gitrepos w)"
  unfolding repo_store_def by (drule find_SomeD) simp

lemma repo_store_name: "repo_store w n = Some g \<Longrightarrow> gr_name g = n"
  by (simp add: repo_storeD)

lemma listed_gitrepos_iff: "g \<in> set (listed_gitrepos w) \<longleftrightarrow> repo_store w (gr_name g) = Some g"
  unfolding listed_gitrepos_def using repo_storeD [of w "gr_name g" g] by auto

lemma listed_gitrepos_distinct: "distinct (map gr_name (listed_gitrepos w))"
proof -
  have "inj_on gr_name (set (listed_gitrepos w))"
    by (rule inj_onI) (metis listed_gitrepos_iff option.inject)
  then show ?thesis by (simp add: distinct_map) (simp add: listed_gitrepos_def)
qed

lemma repo_store_clock: "repo_store (w\<lparr>mem_clock := t\<rparr>) = repo_store w"
  by (rule ext) (simp add: repo_store_def)

lemma mem_gitrepo_store: "gitrepo_store mem_reconciler repo_store"
  unfolding gitrepo_store_def mem_simps
  apply (intro conjI allI impI)
  apply (simp_all add: mem_kube_def mem_git_def mem_services_def mem_reconciler_def repo_store_clock)
  apply (auto simp: listed_gitrepos_distinct listed_gitrepos_iff dest: repo_store_name split: if_splits)
  done

section \<open>A deployment\<close>

definition sample_app :: "string \<Rightarrow> Application" where
  "sample_app n = empty_app\<lparr>ap_Name := n, ap_Version := ''1.0'', ap_Targets := [[(LabelClusterName, ''c1'')]],
     ap_HelmApp := Some \<lparr>ha_Chart = n, ha_Version = ''1.0'', ha_Repo = ''https://charts'', ha_RepoSecretName = [],
       ha_ImageRegistry = [], ha_ImageRegistrySecretName = []\<rparr>\<rparr>"

definition sample_deployment :: Deployment where
  "sample_deployment = empty_deployment\<lparr>
     d_Meta := empty_meta\<lparr>om_Name := ''dep1'', om_Namespace := ''ns'', om_UID := ''0123456789'',
       om_Labels := Some [(AppOrchActiveProjectID, ''proj'')], om_Generation := 2,
       om_Finalizers := [FinalizerGitRemote, FinalizerDependency]\<rparr>,
     d_Spec := empty_spec\<lparr>sp_DisplayName := ''Dep'', sp_DeploymentType := Targeted,
       sp_Applications := [sample_app ''web'', sample_app ''db'']\<rparr>\<rparr>"

definition sample_gitrepo :: "string \<Rightarrow> GitRepo" where
  "sample_gitrepo n = \<lparr>gr_Meta = empty_meta\<lparr>om_Name := n, om_Namespace := ''ns'', om_Labels := Some []\<rparr>,
     gr_Repo = ''old'', gr_Paths = [], gr_HelmSecretName = [], gr_ClientSecretName = [], gr_Targets = [],
     gr_CABundle = [], gr_PollingInterval = None, gr_ForceSyncGeneration = 0, gr_Conditions = [],
     gr_DisplayMessage = []\<rparr>"

definition sample_world :: "(dep_ev, mem) world" where
  "sample_world = \<lparr>env = \<lparr>mem_deployments = [sample_deployment],
     mem_gitrepos = [sample_gitrepo ''web-0123456789'', sample_gitrepo ''old-0123456789''],
     mem_dcs = [], mem_bds = [], mem_clock = 1000, mem_remote = Inr False\<rparr>, trace = []\<rparr>"

lemma sample_sync: "fst (run_state (sync_gitrepos mem_reconciler sample_deployment) sample_world) = Ret None"
  by code_simp

end
