(* ===== verification/DepProps.thy ===== *)
theory DepProps
  imports DepSample
begin

text \<open>
  The properties of the Deployment controller, each with a witness on the servers in memory.
\<close>



section \<open>A live deployment\<close>

lemma live_update_status: "does live_ev (updateStatus R rq d) (\<lambda>_. True)"
  unfolding updateStatus_def updateDeploymentStatus_def updateWithGitJobStatus_def update_not_stalled_def
    dc_walk_def dc_settled_def Let_def dep_calls
  by (intro emits_intros live TrueI | simp only: live_ev.simps)+

definition no_teardown :: "dep_ev \<Rightarrow> bool" where
  "no_teardown e = (live_ev e \<or> (case e of Metric _ \<Rightarrow> True | _ \<Rightarrow> False))"

lemma no_teardown_metrics: "does no_teardown (updateStatusMetrics R d b) (\<lambda>_. True)"
  unfolding updateStatusMetrics_def Let_def dep_calls
  by (intro emits_intros TrueI | simp add: no_teardown_def)+

lemma live_no_teardown: "does live_ev m (\<lambda>_. True) \<Longrightarrow> does no_teardown m (\<lambda>_. True)"
  by (erule does_weaken) (simp_all add: no_teardown_def)

lemma no_teardown_deferred: "does no_teardown (deferred R h rs e d) (\<lambda>_. True)"
  unfolding deferred_def cache_metadata_def patch_deployment_def sNow_def
  by (intro emits_intros TrueI no_teardown_metrics live_no_teardown [OF live_update_status]
      live_no_teardown [OF live_patch] | simp add: no_teardown_def)+

lemma no_teardown_from_cache: "does no_teardown (cleanupMetricsFromCache R m) (\<lambda>_. True)"
  unfolding cleanupMetricsFromCache_def dep_calls
  by (intro emits_intros TrueI | simp add: no_teardown_def)+

lemma no_teardown_after_get:
  assumes "\<forall>d. g = Inr d \<longrightarrow> \<not> deleting d"
  shows "does no_teardown (case g of
       Inl err \<Rightarrow>
         if k8s_not_found err then do {
           let (metadata, cache) = getAndRemoveMetadata ns n (rs_cache rs);
           _ \<leftarrow> cleanupMetricsFromCache R metadata;
           State_Monad.return (Ret (0, None), rs\<lparr>rs_cache := cache\<rparr>) }
         else State_Monad.return (Ret (0, Some err), rs)
     | Inr d \<Rightarrow>
         (case NewPatchHelper (rc_conv R) (Some d) of
            Inl err \<Rightarrow> State_Monad.return (Ret (0, Some err), rs)
          | Inr h \<Rightarrow> do {
              (r, d', cache) \<leftarrow> reconcile_body R (rs_cache rs) d;
              (after, e, rs') \<leftarrow> deferred R h (rs\<lparr>rs_cache := cache\<rparr>) (err_in r) d';
              State_Monad.return (case r of Panicked \<Rightarrow> Panicked | Ret _ \<Rightarrow> Ret (after, e), rs') })) (\<lambda>_. True)"
  unfolding Let_def
  by (intro emits_intros TrueI no_teardown_from_cache no_teardown_deferred live_no_teardown [OF live_body])
     (use assms in auto)

text \<open>
  Claim C4. While the API server answers the handler with a deployment that is not being deleted (or
  with none), a whole run of \<open>Reconcile\<close>, its deferred status update included, never deletes the git
  repository, never fetches a Catalog token and never changes the Catalog.
\<close>

theorem reconcile_live_safe:
  assumes "s_Now (rc_srv R) (env s) = (now, w)" "k_Get (rc_kube R) ns n w = (g, w')"
    and "\<forall>d. g = Inr d \<longrightarrow> \<not> deleting d"
  shows "list_all no_teardown (effects (Reconcile R rs ns n) s)"
proof -
  let ?s = "s\<lparr>env := w', trace := trace s @ [Service ReadClock, Read (GetDeployment ns n)]\<rparr>"
  let ?rs = "rs\<lparr>rs_cache := cleanupOldEntries now (rs_cache rs)\<rparr>"
  have first: "list_all no_teardown [Service ReadClock, Read (GetDeployment ns n)]"
    by (simp add: no_teardown_def)
  from does_run [OF no_teardown_after_get [OF assms(3)], of ns n ?rs R ?s] obtain es
    where "trace (snd (run_state (Reconcile R rs ns n) s)) = trace ?s @ es" "list_all no_teardown es"
    unfolding Reconcile_def Let_def sNow_def kGet_def run_bind run_call assms(1)
    by (auto simp: assms(2))
  with first show ?thesis by (simp add: effects_def)
qed

lemma reconcile_live_safe_witness:
  "list_all no_teardown
     (effects (Reconcile mem_reconciler \<lparr>rs_requeueStatus = False, rs_cache = []\<rparr> ''ns'' ''dep1'') sample_world)"
proof (rule reconcile_live_safe)
  show "s_Now (rc_srv mem_reconciler) (env sample_world) = (1000, mem_clock_update (\<lambda>_. 1001) (env sample_world))"
    by code_simp
  show "k_Get (rc_kube mem_reconciler) ''ns'' ''dep1'' (mem_clock_update (\<lambda>_. 1001) (env sample_world)) =
    (Inr sample_deployment, mem_clock_update (\<lambda>_. 1001) (env sample_world))"
    by code_simp
  have "\<not> deleting sample_deployment" by code_simp
  then show "\<forall>d. Inr sample_deployment = Inr d \<longrightarrow> \<not> deleting d" by simp
qed

section \<open>The outcome of a reconcile\<close>

text \<open>
  Claim C11. \<open>reconcile\<close> runs all of its phases whatever fails.  Without an error it leaves exactly the
  conditions GitSynced, GitReposUpdated and Ready, all true, and the reconciled generation is the
  generation of the object; with an error Ready is false and the reconciled generation is not touched.
  Metadata and spec stay as they were.
\<close>

theorem reconcile_outcome:
  assumes "k8slib_ok (rc_lib R)"
  shows "reconcile_left d (result (reconcile R d) s)"
  by (rule post_result [OF post_reconcile [OF assms]])

lemma reconcile_outcome_witness:
  "reconcile_left sample_deployment (result (reconcile mem_reconciler sample_deployment) sample_world) \<and>
   fst (result (reconcile mem_reconciler sample_deployment) sample_world) = Ret None"
proof
  show "reconcile_left sample_deployment (result (reconcile mem_reconciler sample_deployment) sample_world)"
    by (rule reconcile_outcome) (simp add: std_k8slib_ok)
qed code_simp

text \<open>
  A reconcile that fails ends in the state InternalError: the status update that follows finds
  the false Ready condition, does not look at the clusters, and leaves the reconciler's
  \<open>requeueStatus\<close> as an earlier deployment left it.
\<close>

theorem failed_reconcile_status:
  assumes "k8slib_ok (rc_lib R)" "\<not> deleting d"
    and "result (reconcile R d) s = (Ret (Some err), d1)"
    and "result (updateStatus R rq d1) t = (None, d2, rq')"
  shows "st_State (d_Status d2) = InternalError \<and> rq' = rq"
proof -
  have "reconcile_left d (Ret (Some err), d1)"
    using post_result [OF post_reconcile [OF assms(1)], of d s] assms(3) by simp
  then have "(typeReady, ConditionFalse) \<in> set (cond_table d1)" "\<not> deleting d1"
    using assms(2) by (auto simp: reconcile_left_def deleting_def)
  from post_result [OF post_failed_status [OF this], of rq R t] show ?thesis
    by (simp add: assms(4))
qed

text \<open>A deployment without its project label cannot get its GitRepos.\<close>

definition unlabelled_deployment :: Deployment where
  "unlabelled_deployment = sample_deployment\<lparr>d_Meta := (d_Meta sample_deployment)\<lparr>om_Labels := None\<rparr>\<rparr>"

definition failed_run :: "goerror option go \<times> Deployment" where
  "failed_run = result (reconcile mem_reconciler unlabelled_deployment) sample_world"

lemma failed_reconcile_status_witness:
  "st_State (d_Status (fst (snd (result (updateStatus mem_reconciler True (snd failed_run)) sample_world)))) =
     InternalError \<and> snd (snd (result (updateStatus mem_reconciler True (snd failed_run)) sample_world)) = True"
proof (rule failed_reconcile_status)
  have "case fst failed_run of Ret (Some e) \<Rightarrow> err_msg e = ''GitRepo creation failed (<nil>)'' | _ \<Rightarrow> False"
    by code_simp
  then obtain e where "fst failed_run = Ret (Some e)" by (auto split: go.splits option.splits)
  then show "result (reconcile mem_reconciler unlabelled_deployment) sample_world =
      (Ret (Some (the (err_in (fst failed_run)))), snd failed_run)"
    unfolding failed_run_def by (simp add: prod_eq_iff err_in_def)
  show "\<not> deleting unlabelled_deployment" by code_simp
  show "k8slib_ok (rc_lib mem_reconciler)" by (simp add: std_k8slib_ok)
  have "fst (result (updateStatus mem_reconciler True (snd failed_run)) sample_world) = None" by code_simp
  then show "result (updateStatus mem_reconciler True (snd failed_run)) sample_world =
     (None, fst (snd (result (updateStatus mem_reconciler True (snd failed_run)) sample_world)),
      snd (snd (result (updateStatus mem_reconciler True (snd failed_run)) sample_world)))"
    by (simp add: prod_eq_iff)
qed

text \<open>
  Claim C24. The aggregated status of a deployment: the summary counts each listed cluster of a known
  state once, Running needs every cluster running and up to date, the deployment stays in progress until
  then, and outside a deployment in progress the state is Running, Down, Unknown, Error or
  NoTargetClusters.
\<close>

theorem status_aggregates:
  "aggregated d grs dcs (fst (result (updateDeploymentStatus R d grs dcs) s))"
  using post_result [OF post_updateDeploymentStatus, of d grs dcs R s] by (simp add: case_prod_beta)

section \<open>Deletion\<close>

text \<open>
  Claim C12. \<open>delete\<close> removes no finalizer but its own three, and without an error none of the three is
  left; spec and status stay as they were, and the metadata of the deployment is in the cache from
  which its metrics are cleaned up after it is gone.
\<close>

theorem delete_outcome:
  assumes "k8slib_ok (rc_lib R)"
  shows "delete_left cache d (result (delete R cache d) s)"
  by (rule post_result [OF post_delete [OF assms]])

definition deleted_deployment :: Deployment where
  "deleted_deployment = sample_deployment\<lparr>d_Meta := (d_Meta sample_deployment)\<lparr>om_DeletionTimestamp := Some 900\<rparr>\<rparr>"

lemma delete_outcome_witness:
  "delete_left [] deleted_deployment (result (delete mem_reconciler [] deleted_deployment) sample_world)"
  by (rule delete_outcome) (simp add: std_k8slib_ok)

text \<open>
  When the check of the remote fails, \<open>handleFinalizerGitRemote\<close> still succeeds and removes
  its finalizer, without a call that deletes the repository: the deployment goes and the repository stays.
\<close>

theorem git_remote_leak:
  assumes "has_finalizer R d FinalizerGitRemote"
    and "g_gitclient (rc_git R) (GetId d) (env s) = (None, w1)"
    and "g_ExistsOnRemote (rc_git R) (GetId d) w1 = (Inl err, w2)"
  shows "result (handleFinalizerGitRemote R d) s = (None, remove_finalizer R FinalizerGitRemote d) \<and>
    effects (handleFinalizerGitRemote R d) s = [Git (GitNew (GetId d)), Git (GitExists (GetId d))]"
  using git_remote_error_dropped [OF assms] by (simp add: result_def effects_def)

definition unreachable_world :: "(dep_ev, mem) world" where
  "unreachable_world = sample_world\<lparr>env := (env sample_world)\<lparr>mem_remote := Inl not_found\<rparr>\<rparr>"

lemma git_remote_leak_witness:
  "result (handleFinalizerGitRemote mem_reconciler deleted_deployment) unreachable_world =
     (None, remove_finalizer mem_reconciler FinalizerGitRemote deleted_deployment) \<and>
   effects (handleFinalizerGitRemote mem_reconciler deleted_deployment) unreachable_world =
     [Git (GitNew (GetId deleted_deployment)), Git (GitExists (GetId deleted_deployment))]"
  by (rule git_remote_leak [of _ _ _ "env unreachable_world" not_found "env unreachable_world"])
     (code_simp, simp_all add: mem_git_def unreachable_world_def)

section \<open>GitRepos\<close>


definition synced_world :: "(dep_ev, mem) world" where
  "synced_world = snd (run_state (sync_gitrepos mem_reconciler sample_deployment) sample_world)"


text \<open>
  Within the resync interval after the last forced resync, \<open>forceRedeployStuckApps\<close> reads
  the clock and does nothing else.
\<close>

theorem force_resync_throttled:
  assumes "st_LastForceResync (d_Status d) \<noteq> []" "rc_Parse R (st_LastForceResync (d_Status d)) = Inr last_sync"
    and "s_Now (rc_srv R) (env s) = (now, w)" "now < last_sync + forceResyncInterval"
  shows "result (forceRedeployStuckApps R d) s = (None, d) \<and> effects (forceRedeployStuckApps R d) s = [Service ReadClock]"
  using force_too_soon [OF assms] by (simp add: result_def effects_def)

definition resynced_deployment :: Deployment where
  "resynced_deployment = map_status (\<lambda>st. st\<lparr>st_LastForceResync := ''500''\<rparr>) sample_deployment"

lemma force_resync_throttled_witness:
  "result (forceRedeployStuckApps mem_reconciler resynced_deployment) sample_world = (None, resynced_deployment) \<and>
   effects (forceRedeployStuckApps mem_reconciler resynced_deployment) sample_world = [Service ReadClock]"
proof (rule force_resync_throttled)
  show "st_LastForceResync (d_Status resynced_deployment) \<noteq> []" by code_simp
  have "st_LastForceResync (d_Status resynced_deployment) = ''500''"
    by (simp add: resynced_deployment_def)
  then show "rc_Parse mem_reconciler (st_LastForceResync (d_Status resynced_deployment)) = Inr 500"
    by (simp add: mem_reconciler_def ParseInt_def parse_nat_def char_digit_def)
  show "s_Now (rc_srv mem_reconciler) (env sample_world) = (1000, mem_clock_update (\<lambda>_. 1001) (env sample_world))"
    by code_simp
  show "(1000 :: int) < 500 + forceResyncInterval" by code_simp
qed

text \<open>
  A forced resync writes only GitRepos whose Ready condition says that they cannot continue or
  which are stalled, and changes nothing of them but their force counter, by one.
\<close>

theorem force_resync_only_stuck:
  "list_all (force_ev grs) (effects (fold_err (force_gitrepo R) grs d) s)"
  by (rule does_effects [OF force_gitrepos_does])

section \<open>Clusters and bundles\<close>


lemma live_true: "does live_ev m (\<lambda>_. True) \<Longrightarrow> does (\<lambda>_. True) m (\<lambda>_. True)"
  by (erule does_weaken) simp_all

lemma cleanup_bds_true: "does (\<lambda>_. True) (cleanupOrphanedBundleDeployments R d) (\<lambda>_. True)"
  by (rule does_weaken [OF cleanupOrphanedBundleDeployments_does]) simp_all

lemma delete_listed_true: "does (\<lambda>_. True) (delete_listed_bds R l p) (\<lambda>_. True)"
  unfolding delete_listed_bds_def delete_bds_def dep_calls by (intro emits_intros TrueI)

lemma delete_listed_reaches:
  assumes "\<And>w. fst (k_ListBDs (rc_kube R) l w) = Inr items" "bd \<in> set items" "p bd"
  shows "Write (DeleteBD bd) \<in> set (effects (delete_listed_bds R l p) s)"
proof -
  have 1: "does (\<lambda>_. True) (case r of Inl e \<Rightarrow> State_Monad.return () | Inr xs \<Rightarrow> delete_bds R (filter p xs)) (\<lambda>_. True)" for r
    unfolding delete_bds_def dep_calls by (intro emits_intros TrueI)
  have one: "effects (kDeleteBD R x) t = [Write (DeleteBD x)]" for x t
    by (simp add: kDeleteBD_def)
  have "Write (DeleteBD bd) \<in> set (effects (delete_bds R xs) t)" if "bd \<in> set xs" for xs t
    using that
  proof (induction xs arbitrary: t)
    case (Cons x xs)
    have 2: "does (\<lambda>_. True) (kDeleteBD R y) (\<lambda>_. True)" for y
      unfolding kDeleteBD_def by (intro emits_intros TrueI)
    have 3: "does (\<lambda>_. True) (delete_bds R xs) (\<lambda>_. True)"
      unfolding delete_bds_def by (intro emits_intros 2 TrueI)
    from Cons show ?case
      unfolding delete_bds_def for_each.simps
      by (cases "x = bd")
         (auto simp: one delete_bds_def [symmetric] intro: reach_left [OF 2 3] reach_right [OF 2 3])
  qed simp
  with assms(2,3) have 2: "Write (DeleteBD bd) \<in> set (effects (delete_bds R (filter p items)) t)" for t by simp
  show ?thesis
    unfolding delete_listed_bds_def kListBDs_def
    by (subst effects_bind [OF _ 1]) (simp_all add: does_call result_call assms(1) 2)
qed

lemma cleanup_bds_reaches:
  assumes "\<And>w. fst (k_ListBDs (rc_kube R) [] w) = Inr items" "bd \<in> set items"
    and "\<And>grs. bd_should_delete d grs bd"
  shows "Write (DeleteBD bd) \<in> set (effects (cleanupOrphanedBundleDeployments R d) s)"
proof -
  have r: "Write (DeleteBD bd) \<in> set (effects (do { _ \<leftarrow> delete_listed_bds R [] (bd_should_delete d grs);
      State_Monad.return None }) t)" for grs t
    by (rule reach_left [OF delete_listed_true])
       (auto intro: emits_intros delete_listed_reaches [of R "[]" items bd "bd_should_delete d grs", OF assms])
  show ?thesis
    unfolding cleanupOrphanedBundleDeployments_def Let_def kListGitRepos_def
    by (rule reach_right, (intro emits_intros delete_listed_true TrueI)+,
        rule reach_right, (intro emits_intros delete_listed_true TrueI)+,
        rule reach_right, (intro emits_intros delete_listed_true TrueI)+, rule r)
qed


text \<open>A cluster with one BundleDeployment of another deployment, whose name happens to contain ours.\<close>

definition other_bundle :: BundleDeployment where
  "other_bundle = \<lparr>bd_Meta = empty_meta\<lparr>om_Name := ''b-my-dep1-x'', om_Namespace := ''cluster-ns'',
       om_Labels := Some [(LabelDeploymentID, ''another'')]\<rparr>,
     bd_SpecDeploymentID = [], bd_AppliedDeploymentID = [], bd_Ready = True, bd_NonModified = True,
     bd_DisplayState = [], bd_Conditions = []\<rparr>"

definition one_bundle_reconciler :: "(Deployment, mem) Reconciler" where
  "one_bundle_reconciler = mem_reconciler\<lparr>rc_kube := mem_kube\<lparr>k_ListBDs := (\<lambda>_ w. (Inr [other_bundle], w))\<rparr>\<rparr>"


section \<open>Metadata of deleted deployments\<close>

text \<open>
  The metadata of a deployment put into the cache when it is deleted is found again, once, by
  the reconcile that no longer finds the object, unless more than the time-to-live has passed; an
  entry older than that is gone.
\<close>

theorem deletion_metadata_survives:
  assumes "distinct (map fst cache)"
  shows "fst (getAndRemoveMetadata ns n (cleanupOldEntries later (cacheDeploymentMetadata now ns n d cache))) =
     (if later - now > metadataCacheTTL then None
      else Some \<lparr>md_deploymentID = GetId d, md_displayName = sp_DisplayName (d_Spec d),
        md_projectID = project_of d, md_timestamp = now\<rparr>)"
proof -
  let ?md = "\<lparr>md_deploymentID = GetId d, md_displayName = sp_DisplayName (d_Spec d),
        md_projectID = project_of d, md_timestamp = now\<rparr>"
  let ?c = "cacheDeploymentMetadata now ns n d cache"
  have dist: "distinct (map fst ?c)"
    by (simp add: cacheDeploymentMetadata_def distinct_update assms)
  have get: "map_of ?c (cache_key ns n) = Some ?md"
    by (simp add: cacheDeploymentMetadata_def update_conv')
  have flt: "map_of (filter P xs) k = (case map_of xs k of None \<Rightarrow> None | Some v \<Rightarrow> if P (k, v) then Some v else None)"
    if "distinct (map fst xs)" for P :: "string \<times> deploymentMetadata \<Rightarrow> bool" and xs k
    using that by (induction xs) (auto split: option.splits simp: map_of_eq_None_iff [symmetric])
  show ?thesis
    by (simp add: getAndRemoveMetadata_def cleanupOldEntries_def flt [OF dist] get Let_def split: option.split)
qed

lemma deletion_metadata_survives_witness:
  "fst (getAndRemoveMetadata ''ns'' ''dep1'' (cleanupOldEntries 20 (cacheDeploymentMetadata 10 ''ns'' ''dep1''
     sample_deployment []))) = Some \<lparr>md_deploymentID = GetId sample_deployment, md_displayName = ''Dep'',
       md_projectID = project_of sample_deployment, md_timestamp = 10\<rparr>"
  using deletion_metadata_survives [of "[]" "''ns''" "''dep1''" 20 10 sample_deployment]
  by (simp add: metadataCacheTTL_def second_def sample_deployment_def)

end
