(* ===== verification/LibProps.thy ===== *)
theory LibProps
  imports DepSample
begin

text \<open>
  Properties of the packages under the controllers: the Catalog client, the condition helpers, the
  patch helper, the Fleet configuration and the cluster status.
\<close>

section \<open>Catalog\<close>


text \<open>
  A package counts as deployed for a deployment exactly if another deployment of the same
  project references it.
\<close>

theorem is_deployed_by_another:
  "result (IsDeployed list_by_ref d) s =
    (case result (list_by_ref (GetAppRef d)) s of
       Inl err \<Rightarrow> Inl err
     | Inr items \<Rightarrow> Inr (\<exists>i \<in> set items. om_Name (d_Meta i) \<noteq> om_Name (d_Meta d) \<and>
         label_get (labels_of (d_Meta i)) AppOrchActiveProjectID =
         label_get (labels_of (d_Meta d)) AppOrchActiveProjectID))"
  by (simp add: IsDeployed_def result_def is_deployed_in_iff split: prod.split sum.split)

section \<open>Conditions\<close>

text \<open>
  \<open>UpdateStatusCondition\<close> leaves one current condition of the type, whose transition time
  moves only when the status changes, and does not touch the conditions of other types.
\<close>

theorem update_condition_correct:
  assumes "other \<noteq> t"
  shows "find (\<lambda>c. co_Type c = t) (UpdateStatusCondition now cs t st reason e) =
     Some \<lparr>co_Type = t, co_Status = st,
       co_LastTransitionTime = (case find (\<lambda>c. co_Type c = t) cs of
          None \<Rightarrow> now | Some c \<Rightarrow> if co_Status c = st then co_LastTransitionTime c else now),
       co_Reason = reason, co_Message = MessageFromError e\<rparr> \<and>
     find (\<lambda>c. co_Type c = other) (UpdateStatusCondition now cs t st reason e) = find (\<lambda>c. co_Type c = other) cs"
  using UpdateStatusCondition_find UpdateStatusCondition_others [OF assms] by blast

lemma update_condition_correct_witness:
  "find (\<lambda>c. co_Type c = typeGitSynced) (UpdateStatusCondition 7 [] typeReady ConditionTrue reasonSuccess None) = None"
proof -
  have "typeGitSynced \<noteq> typeReady" by simp
  from update_condition_correct [OF this, of 7 "[]" ConditionTrue reasonSuccess None] show ?thesis by simp
qed

text \<open>\<open>ToInt32Clamped\<close> never wraps: its signed value is the argument, cut to 0 .. MaxInt32.\<close>

theorem to_int32_never_wraps:
  "sint (ToInt32Clamped i) = max 0 (min i (2 ^ 31 - 1))"
  by (rule ToInt32Clamped_value)

text \<open>
  \<open>SetStatus\<close> of a cluster sets all conditions of the given type to the given status, adds one
  if there was none, keeps the others, and keeps one condition per type.
\<close>

theorem cluster_set_status_correct:
  assumes "distinct (map co_Type (cls_Conditions c))"
  shows "cond_statuses (cls_Conditions (SetStatus f c ts st msg ct cst lg fcs fg)) t =
      (if t = ct then {cst} else cond_statuses (cls_Conditions c) t) \<and>
    distinct (map co_Type (cls_Conditions (SetStatus f c ts st msg ct cst lg fcs fg)))"
  by (rule conjI [OF SetStatus_conditions SetStatus_types [OF assms]])

definition idle_fleet_status :: FleetClusterStatus where
  "idle_fleet_status = \<lparr>
     fcs_Summary = \<lparr>fb_NotReady = 0, fb_WaitApplied = 0, fb_ErrApplied = 0, fb_OutOfSync = 0, fb_Modified = 0,
       fb_Ready = 0, fb_Pending = 0, fb_DesiredReady = 0\<rparr>,
     fcs_ResourceCounts = \<lparr>fr_Ready = 0, fr_DesiredReady = 0, fr_WaitApplied = 0, fr_Modified = 0,
       fr_Orphaned = 0, fr_Missing = 0, fr_Unknown = 0, fr_NotReady = 0\<rparr>,
     fcs_AgentLastSeen = 0, fcs_AgentNamespace = [], fcs_DisplayReadyBundles = [], fcs_DisplayState = [],
     fcs_Conditions = []\<rparr>"

definition fresh_cluster_status :: ClusterStatus where
  "fresh_cluster_status = \<lparr>cls_Conditions = [], cls_Display = [], cls_State = Unknown, cls_Message = [],
     cls_LastStatusUpdate = [], cls_ReconciledGeneration = 0, cls_FleetClusterLastGeneration = 0,
     cls_FleetStatus = \<lparr>fs_BundleSummary = deepCopyBundleSummary (fcs_Summary idle_fleet_status),
       fs_ResourceCounts = deepCopyResourceCounts (fcs_ResourceCounts idle_fleet_status),
       fs_FleetAgentStatus = deepCopyAgentStatus idle_fleet_status,
       fs_ClusterDisplay = deepCopyClusterDisplay idle_fleet_status\<rparr>\<rparr>"

lemma cluster_set_status_correct_witness:
  "cond_statuses (cls_Conditions (SetStatus int_str fresh_cluster_status 5 Running [] typeReady ConditionTrue 1
     idle_fleet_status 1)) typeReady = {ConditionTrue}"
proof -
  have "distinct (map co_Type (cls_Conditions fresh_cluster_status))"
    by (simp add: fresh_cluster_status_def)
  from cluster_set_status_correct [OF this, of int_str 5 Running "[]" typeReady ConditionTrue 1 idle_fleet_status 1 typeReady]
  show ?thesis by simp
qed

section \<open>Patches\<close>

text \<open>
  A patch request for the spec or the status is computed from objects restricted to that field
  and to kind, apiVersion and metadata: a status request cannot carry a change of the spec, nor a
  spec request one of the status.
\<close>

theorem patch_request_focus:
  assumes "calculatePatch C h ob focus = Inr (b, a)"
  shows "\<exists>ub ua. FromUnstructured C ub (h_beforeObject h) = Inr b \<and> FromUnstructured C ua ob = Inr a \<and>
     set (map fst ub) \<union> set (map fst ua) \<subseteq> insert (Key focus) (set preserveUnstructuredKeys)"
  by (rule calculatePatch_focus [OF assms])

definition sample_helper :: "(Deployment, Deployment) Helper" where
  "sample_helper = \<lparr>h_gvk = ''Deployment'', h_beforeObject = sample_deployment,
     h_before = [(''metadata'', sample_deployment), (''spec'', sample_deployment), (''status'', sample_deployment)],
     h_after = [(''metadata'', sample_deployment), (''spec'', sample_deployment), (''status'', sample_deployment)],
     h_changes = [''status'']\<rparr>"

lemma patch_request_focus_witness:
  "\<exists>b a ub ua. calculatePatch mem_conv sample_helper sample_deployment statusPatch = Inr (b, a) \<and>
     FromUnstructured mem_conv ub (h_beforeObject sample_helper) = Inr b \<and>
     FromUnstructured mem_conv ua sample_deployment = Inr a \<and>
     set (map fst ub) \<union> set (map fst ua) \<subseteq> insert (Key statusPatch) (set preserveUnstructuredKeys)"
proof -
  obtain b a where r: "calculatePatch mem_conv sample_helper sample_deployment statusPatch = Inr (b, a)"
    by (simp add: calculatePatch_def mem_conv_def Let_def)
  from patch_request_focus [OF r] r show ?thesis by blast
qed

section \<open>Fleet\<close>

text \<open>
  The Fleet configuration of a deployment whose applications all have a Helm chart is generated
  without a nil dereference, whatever the API server, the libraries and the file system answer.
\<close>

theorem fleet_configs_no_panic:
  assumes "list_all (\<lambda>app. ap_HelmApp app \<noteq> None) (sp_Applications (d_Spec d))"
  shows "result (GenerateFleetConfigs F E d dir) s \<noteq> Panicked"
  using assms GenerateFleetConfigs_no_panic [of d F E dir] by (simp add: list_all_iff post_def result_def)

definition silent_fleet_env :: "unit FleetEnv" where
  "silent_fleet_env = \<lparr>fe_GetSecret = (\<lambda>_ _. fail_io not_found), fe_ListRuntimeProjects = ret_io [],
     fe_GenerateName = State_Monad.return ''x'', fe_WriteFile = (\<lambda>_ _ _. State_Monad.return None),
     fe_DeleteCRDResources = False, fe_AddGlobalVars = False\<rparr>"

lemma fleet_configs_no_panic_witness:
  "result (GenerateFleetConfigs mem_fleetlib silent_fleet_env sample_deployment ''/tmp'') () \<noteq> Panicked"
  by (rule fleet_configs_no_panic) code_simp



text \<open>
  Two applications of a deployment can get the same bundle name: the hashed token joins name,
  version and deployment name without a separator, and the version only for applications that are
  redeployed on an update.
\<close>

theorem bundle_names_collide:
  assumes "ap_RedeployAfterUpdate a" "\<not> ap_RedeployAfterUpdate b" "ap_Name b = ap_Name a @ ap_Version a"
  shows "BundleName F a n = BundleName F b n"
  by (rule bundle_token_collision [OF assms])

lemma bundle_names_collide_witness:
  "BundleName mem_fleetlib ((sample_app ''web'')\<lparr>ap_RedeployAfterUpdate := True\<rparr>) ''dep1'' =
   BundleName mem_fleetlib (sample_app ''web1.0'') ''dep1''"
  by (rule bundle_names_collide) (simp_all add: sample_app_def empty_app_def)

end
