(* ===== verification/NbTypes.thy ===== *)
theory NbTypes
  imports Utils
begin

text \<open>
  The messages of the northbound API (package deployment/v1, generated from the protobuf files) as
  far as the service reads or writes them, and the enumerations of their states.
\<close>

section \<open>States\<close>

datatype PbState =
    State_UNKNOWN | State_RUNNING | State_DOWN | State_INTERNAL_ERROR | State_DEPLOYING
  | State_UPDATING | State_TERMINATING | State_ERROR | State_NO_TARGET_CLUSTERS

fun State_String :: "PbState \<Rightarrow> string" where
  "State_String State_UNKNOWN = ''UNKNOWN''"
| "State_String State_RUNNING = ''RUNNING''"
| "State_String State_DOWN = ''DOWN''"
| "State_String State_INTERNAL_ERROR = ''INTERNAL_ERROR''"
| "State_String State_DEPLOYING = ''DEPLOYING''"
| "State_String State_UPDATING = ''UPDATING''"
| "State_String State_TERMINATING = ''TERMINATING''"
| "State_String State_ERROR = ''ERROR''"
| "State_String State_NO_TARGET_CLUSTERS = ''NO_TARGET_CLUSTERS''"

definition deploymentState :: "string \<Rightarrow> PbState" where
  "deploymentState s =
     (if s = ''True'' \<or> s = ''Running'' then State_RUNNING
      else if s = ''False'' \<or> s = ''Down'' then State_DOWN
      else if s = ''InternalError'' then State_INTERNAL_ERROR
      else if s = ''Deploying'' then State_DEPLOYING
      else if s = ''Updating'' then State_UPDATING
      else if s = ''Terminating'' then State_TERMINATING
      else if s = ''Error'' then State_ERROR
      else if s = ''NoTargetClusters'' then State_NO_TARGET_CLUSTERS
      else if s = ''Unknown'' then State_UNKNOWN
      else State_DEPLOYING)"

definition deploymentType :: "string \<Rightarrow> DeploymentType" where
  "deploymentType s = (if s = AutoScaling then AutoScaling else if s = Targeted then Targeted else AutoScaling)"

section \<open>Values of a structure\<close>

text \<open>
  \<open>structpb.Value\<close> with its kinds; \<open>NilKind\<close> is a value whose kind is not set.  The numbers are a
  type parameter: the code only makes one from an integer.
\<close>

datatype 'n PbValue =
    NilKind | NullValue | NumberValue 'n | StringValue string | BoolValue bool
  | StructValue "(string \<times> 'n PbValue) list" | ListValue "'n PbValue list"

type_synonym 'n PbStruct = "(string \<times> 'n PbValue) list"

section \<open>Messages\<close>

text \<open>The counts of a summary are 32-bit integers.\<close>

record PbSummary =
  ps_Total :: "32 word"
  ps_Running :: "32 word"
  ps_Down :: "32 word"
  ps_Unknown :: "32 word"
  ps_Type :: string

record PbStatus =
  pbs_State :: PbState
  pbs_Message :: string
  pbs_Summary :: PbSummary

record PbApp =
  pa_Name :: string
  pa_Id :: string
  pa_Status :: PbStatus

record PbCluster =
  pc_Name :: string
  pc_Id :: string
  pc_Status :: PbStatus
  pc_Apps :: "PbApp list"

record PbClusterInfo =
  pci_Name :: string
  pci_Id :: string
  pci_Labels :: labels
  pci_CreateTime :: int

text \<open>The label map of a target may be nil, and is then written to.\<close>

record TargetClusters =
  tc_AppName :: string
  tc_Labels :: "labels option"
  tc_ClusterId :: string

record 'n OverrideValues =
  ov_AppName :: string
  ov_TargetNamespace :: string
  ov_Values :: "'n PbStruct option"

record ServiceExport =
  se_AppName :: string
  se_Enabled :: bool

record 'n PbDeployment =
  pd_Name :: string
  pd_DisplayName :: string
  pd_AppName :: string
  pd_AppVersion :: string
  pd_ProfileName :: string
  pd_DeployId :: string
  pd_OverrideValues :: "'n OverrideValues list"
  pd_TargetClusters :: "TargetClusters list"
  pd_Status :: "PbStatus option"
  pd_Apps :: "PbApp list"
  pd_DeploymentType :: string
  pd_NetworkName :: string
  pd_ServiceExports :: "ServiceExport list"
  pd_AllAppTargetClusters :: "TargetClusters option"
  pd_CreateTime :: int

section \<open>Lemmas\<close>

lemma deploymentType_valid: "deploymentType s \<in> {AutoScaling, Targeted}"
  by (simp add: deploymentType_def)

lemma State_String_inj: "State_String a = State_String b \<Longrightarrow> a = b"
  by (cases a; cases b) simp_all

end
