(* ===== verification/Comparable.thy ===== *)
theory Comparable
  imports NbTypes
begin

text \<open>
  The comparable values of pkg/utils/dataselector/std\_comparable\_types.go: their order, the
  containment test of a filter with its wildcards, and the interface of a three-way comparison
  with the lexicographic order that the selection sorts by.

  The regular expression engine and the parser of RFC 3339 times of the standard library are
  the two functions of a \<open>textlib\<close>: \<open>lib_match p s\<close> is \<open>regexp.MatchString(p, s)\<close> (\<open>None\<close> where
  the pattern does not compile) and \<open>lib_time s\<close> the Unix time that \<open>time.Parse\<close> reads.
\<close>

section \<open>Values\<close>

datatype Comparable =
    StdComparableInt int
  | StdComparableString string
  | StdComparableRFC3339Timestamp string
  | StdComparableTime int

record textlib =
  lib_match :: "string \<Rightarrow> string \<Rightarrow> bool option"
  lib_time :: "string \<Rightarrow> int option"

definition intsCompare :: "int \<Rightarrow> int \<Rightarrow> int" where
  "intsCompare a b = (if a > b then 1 else if a = b then 0 else -1)"

definition ints64Compare :: "int \<Rightarrow> int \<Rightarrow> int" where
  "ints64Compare a b = (if a > b then 1 else if a = b then 0 else -1)"

definition string_compare :: "string \<Rightarrow> string \<Rightarrow> int" where
  "string_compare sc other = str_compare (ToLower sc) (ToLower other)"

definition timestamp_compare :: "textlib \<Rightarrow> string \<Rightarrow> string \<Rightarrow> int" where
  "timestamp_compare L sc other =
     (case (lib_time L sc, lib_time L other) of
        (Some t, Some t') \<Rightarrow> ints64Compare t t'
      | _ \<Rightarrow> str_compare sc other)"

text \<open>A value of another kind fails the type assertion.\<close>

fun Compare :: "textlib \<Rightarrow> Comparable \<Rightarrow> Comparable \<Rightarrow> int go" where
  "Compare L (StdComparableInt a) (StdComparableInt b) = Ret (intsCompare a b)"
| "Compare L (StdComparableString a) (StdComparableString b) = Ret (string_compare a b)"
| "Compare L (StdComparableRFC3339Timestamp a) (StdComparableRFC3339Timestamp b) = Ret (timestamp_compare L a b)"
| "Compare L (StdComparableTime a) (StdComparableTime b) = Ret (ints64Compare a b)"
| "Compare L _ _ = Panicked"

definition checkWildcardPattern :: "string \<Rightarrow> string" where
  "checkWildcardPattern pattern =
     (let p = (if HasPrefix pattern ''*'' then ''.*'' @ TrimPrefix pattern ''*'' else pattern)
      in ''^'' @ ReplaceAll p ''*'' ''.*'' @ ''$'')"

definition matchesRegx :: "textlib \<Rightarrow> string \<Rightarrow> string \<Rightarrow> bool" where
  "matchesRegx L fieldValue pattern = (case lib_match L pattern fieldValue of None \<Rightarrow> False | Some m \<Rightarrow> m)"

fun ContainsValue :: "textlib \<Rightarrow> Comparable \<Rightarrow> Comparable \<Rightarrow> bool go" where
  "ContainsValue L (StdComparableString sc) v =
     (case v of
        StdComparableString other \<Rightarrow>
          (let lowerOther = ToLower other; lowerSc = ToLower (ToLower sc)
           in if Contains lowerOther ''*''
              then Ret (matchesRegx L lowerSc (checkWildcardPattern lowerOther))
              else Ret (Contains lowerSc lowerOther))
      | _ \<Rightarrow> Ret False)"
| "ContainsValue L v w = go_bind (Compare L v w) (\<lambda>c. Ret (c = 0))"

section \<open>Three-way comparisons\<close>

text \<open>
  What a sort needs of a comparison: exchanging the arguments changes the sign, and \<open>\<le>\<close> is
  transitive.
\<close>

locale three_way =
  fixes cmp :: "'a \<Rightarrow> 'a \<Rightarrow> int"
  assumes swap: "cmp y x = - cmp x y"
    and trans_le: "cmp x y \<le> 0 \<Longrightarrow> cmp y z \<le> 0 \<Longrightarrow> cmp x z \<le> 0"
begin

lemma refl0 [simp]: "cmp x x = 0"
  using swap [of x x] by simp

lemma le_total: "cmp x y \<le> 0 \<or> cmp y x \<le> 0"
  using swap [of x y] by linarith

lemma eq_swap: "cmp x y = 0 \<longleftrightarrow> cmp y x = 0"
  using swap [of x y] by linarith

lemma eq_trans: "cmp x y = 0 \<Longrightarrow> cmp y z = 0 \<Longrightarrow> cmp x z = 0"
  using trans_le [of x y z] trans_le [of z y x] swap [of x y] swap [of y z] swap [of x z] by linarith

lemma lt_trans: "cmp x y < 0 \<Longrightarrow> cmp y z \<le> 0 \<Longrightarrow> cmp x z < 0"
  using trans_le [of x y z] trans_le [of y z x] swap [of x y] swap [of y z] swap [of x z] by linarith

lemma lt_trans': "cmp x y \<le> 0 \<Longrightarrow> cmp y z < 0 \<Longrightarrow> cmp x z < 0"
  using trans_le [of x y z] trans_le [of z x y] swap [of x y] swap [of y z] swap [of x z] by linarith

end

text \<open>A comparison by keys, and the comparison in the other direction.\<close>

locale keyed = three_way cmp for cmp :: "'a \<Rightarrow> 'a \<Rightarrow> int" +
  fixes key :: "'b \<Rightarrow> 'a"

sublocale keyed \<subseteq> by_key: three_way "\<lambda>x y. cmp (key x) (key y)"
  by unfold_locales (auto intro: swap trans_le)

text \<open>The comparison by one key, and where it is equal by another.\<close>

locale two_keys = fst: three_way c1 + snd: three_way c2
  for c1 c2 :: "'a \<Rightarrow> 'a \<Rightarrow> int"

sublocale two_keys \<subseteq> lex: three_way "\<lambda>x y. if c1 x y \<noteq> 0 then c1 x y else c2 x y"
proof
  fix x y z
  show "(if c1 y x \<noteq> 0 then c1 y x else c2 y x) = - (if c1 x y \<noteq> 0 then c1 x y else c2 x y)"
    using fst.swap [of x y] snd.swap [of x y] by auto
  assume "(if c1 x y \<noteq> 0 then c1 x y else c2 x y) \<le> 0" "(if c1 y z \<noteq> 0 then c1 y z else c2 y z) \<le> 0"
  then have le: "c1 x y \<le> 0" "c1 y z \<le> 0"
    and eq: "c1 x y = 0 \<longrightarrow> c2 x y \<le> 0" "c1 y z = 0 \<longrightarrow> c2 y z \<le> 0"
    by (auto split: if_splits)
  show "(if c1 x z \<noteq> 0 then c1 x z else c2 x z) \<le> 0"
  proof (cases "c1 x y = 0 \<and> c1 y z = 0")
    case True
    with eq have "c2 x z \<le> 0" by (intro snd.trans_le [of x y z]) simp_all
    moreover from True have "c1 x z = 0" by (intro fst.eq_trans [of x y z]) simp_all
    ultimately show ?thesis by simp
  next
    case False
    with le have "c1 x y < 0 \<or> c1 y z < 0" by linarith
    with le have "c1 x z < 0" using fst.lt_trans [of x y z] fst.lt_trans' [of x y z] by blast
    then show ?thesis by simp
  qed
qed

context two_keys begin

lemma three_way_lex: "three_way (\<lambda>x y. if c1 x y \<noteq> 0 then c1 x y else c2 x y)"
  by unfold_locales

end

section \<open>The comparisons of the code are three-way comparisons\<close>

interpretation ints: three_way intsCompare
  by unfold_locales (auto simp: intsCompare_def split: if_splits)

interpretation ints64: three_way ints64Compare
  by unfold_locales (auto simp: ints64Compare_def split: if_splits)

lemma str_compare_swap: "str_compare t s = - str_compare s t"
  by (induction s t rule: str_compare.induct) auto

lemma str_compare_trans: "str_compare s t \<le> 0 \<Longrightarrow> str_compare t u \<le> 0 \<Longrightarrow> str_compare s u \<le> 0"
proof (induction s t arbitrary: u rule: str_compare.induct)
  case (4 c cs d ds)
  show ?case
  proof (cases u)
    case Nil
    with 4 show ?thesis by simp
  next
    case (Cons e es)
    define a b e' where "a = (of_char c :: nat)" and "b = (of_char d :: nat)" and "e' = (of_char e :: nat)"
    have ih: "\<not> a < b \<Longrightarrow> \<not> b < a \<Longrightarrow> str_compare cs ds \<le> 0 \<Longrightarrow> str_compare ds es \<le> 0 \<Longrightarrow> str_compare cs es \<le> 0"
      using "4.IH" [of es] by (simp add: a_def b_def)
    have "a < b \<or> a = b \<and> str_compare cs ds \<le> 0" "b < e' \<or> b = e' \<and> str_compare ds es \<le> 0"
      using "4.prems" by (simp_all add: Cons a_def b_def e'_def split: if_splits)
    with ih show ?thesis by (auto simp: Cons simp flip: a_def e'_def)
  qed
next
  case (1) then show ?case by simp
next
  case (2 d ds) then show ?case by (cases u) auto
next
  case (3 c cs) then show ?case by simp
qed

interpretation strs: three_way str_compare
  by unfold_locales (fact str_compare_swap, fact str_compare_trans)

interpretation lower: keyed str_compare ToLower ..

lemma string_compare_eq: "string_compare = (\<lambda>x y. str_compare (ToLower x) (ToLower y))"
  by (simp add: fun_eq_iff string_compare_def)

interpretation names: three_way string_compare
  unfolding string_compare_eq by (fact lower.by_key.three_way_axioms)

lemma str_compare_0 [simp]: "str_compare s t = 0 \<longleftrightarrow> s = t"
  by (induction s t rule: str_compare.induct) (auto dest: of_char_eq_iff [THEN iffD1] simp: not_less_iff_gr_or_eq)

lemma str_compare_range: "str_compare s t \<in> {-1, 0, 1}"
  by (induction s t rule: str_compare.induct) auto

lemma string_compare_range: "string_compare s t \<in> {-1, 0, 1}"
  using str_compare_range by (simp add: string_compare_def)

section \<open>Wildcards\<close>

text \<open>
  What a pattern of literal characters and stars means under the regular expression it is
  translated to: a star is any sequence without a line feed.
\<close>

fun stars :: "string \<Rightarrow> string \<Rightarrow> bool" where
  "stars [] s = (s = [])"
| "stars (c # p) [] = (c = CHR ''*'' \<and> stars p [])"
| "stars (c # p) (d # s) =
     (if c = CHR ''*'' then stars p (d # s) \<or> (d \<noteq> CHR 0x0A \<and> stars (c # p) s)
      else c = d \<and> stars p s)"

text \<open>The tokens of the regular expressions that \<open>checkWildcardPattern\<close> makes of such patterns.\<close>

datatype token = Lit char | Dot | DotStar

fun render :: "token \<Rightarrow> string" where
  "render (Lit c) = [c]"
| "render Dot = ''.''"
| "render DotStar = ''.*''"

fun re_matches :: "token list \<Rightarrow> string \<Rightarrow> bool" where
  "re_matches [] s = (s = [])"
| "re_matches (Lit c # ts) s = (case s of [] \<Rightarrow> False | d # s' \<Rightarrow> c = d \<and> re_matches ts s')"
| "re_matches (Dot # ts) s = (case s of [] \<Rightarrow> False | d # s' \<Rightarrow> d \<noteq> CHR 0x0A \<and> re_matches ts s')"
| "re_matches (DotStar # ts) [] = re_matches ts []"
| "re_matches (DotStar # ts) (d # s) =
     (re_matches ts (d # s) \<or> (d \<noteq> CHR 0x0A \<and> re_matches (DotStar # ts) s))"

definition plain_char :: "char \<Rightarrow> bool" where
  "plain_char c = ((of_char c :: nat) < 128 \<and> c \<noteq> CHR 0x5C \<and> c \<notin> set ''.+*?()|[]{}^$'')"

definition plain_token :: "token \<Rightarrow> bool" where
  "plain_token t = (case t of Lit c \<Rightarrow> plain_char c | _ \<Rightarrow> True)"

text \<open>
  The documented behaviour of package regexp on such an expression and an ASCII text, between
  the anchors of the beginning and the end of the text.
\<close>

definition regexp_ok :: "textlib \<Rightarrow> bool" where
  "regexp_ok L = (\<forall>ts s. list_all plain_token ts \<and> list_all (\<lambda>c. (of_char c :: nat) < 128) s \<longrightarrow>
     lib_match L (''^'' @ concat (map render ts) @ ''$'') s = Some (re_matches ts s))"

definition pattern_tokens :: "string \<Rightarrow> token list" where
  "pattern_tokens p = map (\<lambda>c. if c = CHR ''*'' then DotStar else Lit c) p"

lemma re_matches_stars: "re_matches (pattern_tokens p) s = stars p s"
  by (induction p s rule: stars.induct) (auto simp: pattern_tokens_def)

lemma ReplaceAll_char:
  "ReplaceAll s [c] new = concat (map (\<lambda>x. if x = c then new else [x]) s)"
proof -
  have join: "Join (x # ys) sep = x @ concat (map (\<lambda>y. sep @ y) ys)" for x ys and sep :: string
    by (induction ys arbitrary: x) auto
  have ne: "split_go [c] acc t \<noteq> []" for acc t by (induction t arbitrary: acc) auto
  have "Join (split_go [c] acc t) new = rev acc @ concat (map (\<lambda>x. if x = c then new else [x]) t)" for acc t
  proof (induction t arbitrary: acc)
    case (Cons x t)
    show ?case
    proof (cases "x = c")
      case True
      obtain y ys where y: "split_go [c] [] t = y # ys" using ne by (metis neq_Nil_conv)
      then have "Join (rev acc # y # ys) new = rev acc @ new @ Join (y # ys) new" by simp
      with Cons [of "[]"] y True show ?thesis by (simp add: HasPrefix_def)
    next
      case False
      with Cons [of "x # acc"] show ?thesis by (simp add: HasPrefix_def)
    qed
  qed simp
  from this [of "[]" s] show ?thesis by (simp add: ReplaceAll_def Split_def)
qed

lemma concat_tokens:
  "concat (map (\<lambda>x. if x = CHR ''*'' then ''.*'' else [x]) p) = concat (map render (pattern_tokens p))"
  by (induction p) (auto simp: pattern_tokens_def)

lemma checkWildcardPattern_tokens:
  "checkWildcardPattern p =
     ''^'' @ concat (map render
       (case p of c # q \<Rightarrow> if c = CHR ''*'' then Dot # pattern_tokens p else pattern_tokens p | [] \<Rightarrow> [])) @ ''$''"
proof (cases p)
  case Nil
  then show ?thesis by (simp add: checkWildcardPattern_def ReplaceAll_char HasPrefix_def)
next
  case (Cons c q)
  have q: "concat (map (\<lambda>x. if x = CHR ''*'' then ''.*'' else [x]) q) = concat (map render (pattern_tokens q))"
    by (fact concat_tokens)
  show ?thesis
    unfolding checkWildcardPattern_def ReplaceAll_char Let_def Cons
    by (cases "c = CHR ''*''") (simp_all add: HasPrefix_def TrimPrefix_def q, simp_all add: pattern_tokens_def)
qed

text \<open>A star at the start of a pattern does not match the empty sequence.\<close>

lemma wildcard_match:
  assumes "regexp_ok L" "list_all (\<lambda>c. c = CHR ''*'' \<or> plain_char c) p" "p \<noteq> []"
    and "list_all (\<lambda>c. (of_char c :: nat) < 128) s"
  shows "matchesRegx L s (checkWildcardPattern p) =
     (if hd p = CHR ''*'' then s \<noteq> [] \<and> hd s \<noteq> CHR 0x0A \<and> stars p (tl s) else stars p s)"
proof -
  obtain c q where p: "p = c # q" using assms(3) by (cases p) auto
  define ts where "ts = (if c = CHR ''*'' then Dot # pattern_tokens p else pattern_tokens p)"
  have "list_all plain_token (pattern_tokens p)"
    using assms(2) by (induction p) (simp_all add: pattern_tokens_def plain_token_def, blast)
  then have "list_all plain_token ts" by (simp add: ts_def plain_token_def)
  with assms(1,4) have "lib_match L (''^'' @ concat (map render ts) @ ''$'') s = Some (re_matches ts s)"
    unfolding regexp_ok_def by blast
  moreover have "checkWildcardPattern p = ''^'' @ concat (map render ts) @ ''$''"
    unfolding checkWildcardPattern_tokens ts_def p by simp
  ultimately have "lib_match L (checkWildcardPattern p) s = Some (re_matches ts s)" by (simp only:)
  then have "matchesRegx L s (checkWildcardPattern p) = re_matches ts s"
    by (simp only: matchesRegx_def option.case)
  also have "\<dots> = (if hd p = CHR ''*'' then s \<noteq> [] \<and> hd s \<noteq> CHR 0x0A \<and> stars p (tl s) else stars p s)"
  proof (cases "c = CHR ''*''")
    case True
    then have "ts = Dot # pattern_tokens p" by (simp add: ts_def)
    then show ?thesis using True by (cases s) (simp_all add: re_matches_stars p del: stars.simps)
  next
    case False
    then have "ts = pattern_tokens p" by (simp add: ts_def)
    then show ?thesis using False by (simp add: re_matches_stars p del: stars.simps)
  qed
  finally show ?thesis .
qed

end
