(* ===== verification/DataSelect.thy ===== *)
theory DataSelect
  imports Comparable "HOL-Library.Multiset"
begin

text \<open>
  The selection of list items of pkg/utils/dataselector and its datatypes: filter, sort and
  page.  The algorithm of \<open>sort.Sort\<close> is the function \<open>srt\<close>; it gets the \<open>Less\<close> of the items it
  compares, which may panic, and its contract is the locale \<open>sorting\<close>.  Go's \<open>int\<close> has 64 bits.
\<close>

section \<open>Queries\<close>

definition ASC :: string where "ASC = ''asc''"
definition DECS :: string where "DECS = ''desc''"

record PaginationQuery =
  PageSize :: int
  OffSet :: int

record OrderBy =
  ob_Field :: string
  ob_Ascending :: bool

record FilterBy =
  fb_Field :: string
  fb_Value :: Comparable

record DataSelectQuery =
  dsq_PaginationQuery :: PaginationQuery
  dsq_SortQuery :: "OrderBy list"
  dsq_FilterQuery :: "FilterBy list"

definition DefaultPageSize :: int where "DefaultPageSize = 20"
definition MaxPageSize :: int where "MaxPageSize = 500"
definition MinPageSize :: int where "MinPageSize = 0"
definition MinOffset :: int where "MinOffset = 0"

definition NewPaginationQuery :: "int \<Rightarrow> int \<Rightarrow> PaginationQuery" where
  "NewPaginationQuery pageSize offSet = \<lparr>PageSize = pageSize, OffSet = offSet\<rparr>"

definition NoSort :: "OrderBy list" where "NoSort = []"
definition NoFilter :: "FilterBy list" where "NoFilter = []"

definition NewSortQueryOrderBy :: "OrderBy list \<Rightarrow> OrderBy list" where
  "NewSortQueryOrderBy orderByList = orderByList"

definition NewFilterQueryFilterBy :: "FilterBy list \<Rightarrow> FilterBy list" where
  "NewFilterQueryFilterBy filterByList = filterByList"

text \<open>The loop of \<open>NewSortQuery\<close>: \<open>None\<close> is its return at an invalid order option.\<close>

fun sort_options :: "string list \<Rightarrow> OrderBy list option" where
  "sort_options (opt # fld # rest) =
     (if opt = ASC then map_option ((#) \<lparr>ob_Field = fld, ob_Ascending = True\<rparr>) (sort_options rest)
      else if opt = DECS then map_option ((#) \<lparr>ob_Field = fld, ob_Ascending = False\<rparr>) (sort_options rest)
      else None)"
| "sort_options _ = Some []"

definition NewSortQuery :: "string list \<Rightarrow> OrderBy list" where
  "NewSortQuery raw =
     (if length raw mod 2 = 1 then NoSort
      else case sort_options raw of None \<Rightarrow> NoSort | Some obs \<Rightarrow> obs)"

section \<open>Pages\<close>

definition IsValidPagination :: "PaginationQuery \<Rightarrow> goerror option" where
  "IsValidPagination p =
     (if PageSize p < MinPageSize then
        Some (TypedErr KInvalid (''validation error: - page_size: value must be greater than or equal to '' @ int_str MinPageSize @ '' [uint32.gte]''))
      else if PageSize p > MaxPageSize then
        Some (TypedErr KInvalid (''validation error: - page_size: value must be less than or equal to '' @ int_str MaxPageSize @ '' [uint32.lte]''))
      else if OffSet p < MinOffset then
        Some (TypedErr KInvalid ''validation error: - offset: value must be greater than or equal to 0 [uint32.gte]'')
      else None)"

definition IsPageAvailable :: "PaginationQuery \<Rightarrow> int \<Rightarrow> int \<Rightarrow> bool" where
  "IsPageAvailable p itemsCount startingIndex = (itemsCount > startingIndex \<and> PageSize p > 0)"

definition add64 :: "int \<Rightarrow> int \<Rightarrow> int" where
  "add64 a b = signed_take_bit 63 (a + b)"

definition GetPaginationSettings :: "PaginationQuery \<Rightarrow> int \<Rightarrow> int \<times> int" where
  "GetPaginationSettings p itemsCount =
     (let startIndex = OffSet p;
          endIndex = add64 startIndex (PageSize p);
          endIndex = (if endIndex < 0 then startIndex else endIndex);
          endIndex = (if endIndex > itemsCount then itemsCount else endIndex)
      in (startIndex, endIndex))"

text \<open>The slice expression \<open>xs[i:j]\<close> of a slice whose capacity is its length.\<close>

definition slice :: "'a list \<Rightarrow> int \<Rightarrow> int \<Rightarrow> 'a list go" where
  "slice xs i j =
     (if 0 \<le> i \<and> i \<le> j \<and> j \<le> int (length xs) then Ret (take (nat j - nat i) (drop (nat i) xs)) else Panicked)"

section \<open>Items\<close>

datatype 'n DataItem =
    DeploymentItem "'n PbDeployment"
  | ClusterInfoItem PbClusterInfo
  | ClusterItem PbCluster

definition Deployment_GetField :: "'n PbDeployment \<Rightarrow> string \<Rightarrow> Comparable option go" where
  "Deployment_GetField d name =
     (if name = ''name'' then Ret (Some (StdComparableString (pd_Name d)))
      else if name = ''displayName'' then Ret (Some (StdComparableString (pd_DisplayName d)))
      else if name = ''appName'' then Ret (Some (StdComparableString (pd_AppName d)))
      else if name = ''appVersion'' then Ret (Some (StdComparableString (pd_AppVersion d)))
      else if name = ''deployId'' then Ret (Some (StdComparableString (pd_DeployId d)))
      else if name = ''status'' then
        (case pd_Status d of
           None \<Rightarrow> Panicked
         | Some st \<Rightarrow> Ret (Some (StdComparableString (State_String (pbs_State st)))))
      else Ret None)"

definition ClusterInfo_GetField :: "PbClusterInfo \<Rightarrow> string \<Rightarrow> Comparable option go" where
  "ClusterInfo_GetField ci name =
     (if name = ''name'' then Ret (Some (StdComparableString (pci_Name ci)))
      else if name = ''id'' then Ret (Some (StdComparableString (pci_Id ci)))
      else Ret None)"

definition Cluster_GetField :: "PbCluster \<Rightarrow> string \<Rightarrow> Comparable option go" where
  "Cluster_GetField c name =
     (if name = ''name'' then Ret (Some (StdComparableString (pc_Name c)))
      else if name = ''id'' then Ret (Some (StdComparableString (pc_Id c)))
      else if name = ''status'' then Ret (Some (StdComparableString (State_String (pbs_State (pc_Status c)))))
      else Ret None)"

fun GetField :: "'n DataItem \<Rightarrow> string \<Rightarrow> Comparable option go" where
  "GetField (DeploymentItem d) f = Deployment_GetField d f"
| "GetField (ClusterInfoItem ci) f = ClusterInfo_GetField ci f"
| "GetField (ClusterItem c) f = Cluster_GetField c f"

definition ToDataItemsFromDeployments :: "'n PbDeployment list \<Rightarrow> 'n DataItem list" where
  "ToDataItemsFromDeployments = map DeploymentItem"

definition FromDataItemsToDeployments :: "'n DataItem list \<Rightarrow> 'n PbDeployment list go" where
  "FromDataItemsToDeployments = map_go (\<lambda>i. case i of DeploymentItem d \<Rightarrow> Ret d | _ \<Rightarrow> Panicked)"

definition ToDataItemsFromClusterInfoList :: "PbClusterInfo list \<Rightarrow> 'n DataItem list" where
  "ToDataItemsFromClusterInfoList = map ClusterInfoItem"

definition FromDataItemsToClusterInfoList :: "'n DataItem list \<Rightarrow> PbClusterInfo list go" where
  "FromDataItemsToClusterInfoList = map_go (\<lambda>i. case i of ClusterInfoItem ci \<Rightarrow> Ret ci | _ \<Rightarrow> Panicked)"

definition ToDataItemsFromClusterList :: "PbCluster list \<Rightarrow> 'n DataItem list" where
  "ToDataItemsFromClusterList = map ClusterItem"

definition FromDataItemsToClusterList :: "'n DataItem list \<Rightarrow> PbCluster list go" where
  "FromDataItemsToClusterList = map_go (\<lambda>i. case i of ClusterItem c \<Rightarrow> Ret c | _ \<Rightarrow> Panicked)"

section \<open>The selector\<close>

record 'n DataSelector =
  GenericDataList :: "'n DataItem list"
  ds_Query :: DataSelectQuery

fun Less_loop :: "textlib \<Rightarrow> OrderBy list \<Rightarrow> 'n DataItem \<Rightarrow> 'n DataItem \<Rightarrow> bool go" where
  "Less_loop L [] x y = Ret False"
| "Less_loop L (ob # obs) x y =
     go_bind (GetField x (ob_Field ob)) (\<lambda>a. go_bind (GetField y (ob_Field ob)) (\<lambda>b.
       case (a, b) of
         (Some a, Some b) \<Rightarrow>
           go_bind (Compare L a b) (\<lambda>cmp.
             if cmp \<noteq> 0 then Ret (cmp = -1 \<and> ob_Ascending ob \<or> cmp = 1 \<and> \<not> ob_Ascending ob)
             else Less_loop L obs x y)
       | _ \<Rightarrow> Ret False))"

text \<open>\<open>Less\<close> of two items; the code addresses them by their index.\<close>

definition Less :: "textlib \<Rightarrow> 'n DataSelector \<Rightarrow> 'n DataItem \<Rightarrow> 'n DataItem \<Rightarrow> bool go" where
  "Less L ds = Less_loop L (dsq_SortQuery (ds_Query ds))"

type_synonym 'd sorter = "('d \<Rightarrow> 'd \<Rightarrow> bool go) \<Rightarrow> 'd list \<Rightarrow> 'd list go"

definition Sort :: "textlib \<Rightarrow> 'n DataItem sorter \<Rightarrow> 'n DataSelector \<Rightarrow> 'n DataSelector go" where
  "Sort L srt ds =
     go_bind (srt (Less L ds) (GenericDataList ds)) (\<lambda>xs. Ret (ds\<lparr>GenericDataList := xs\<rparr>))"

fun selects :: "textlib \<Rightarrow> FilterBy list \<Rightarrow> 'n DataItem \<Rightarrow> bool go" where
  "selects L [] c = Ret False"
| "selects L (fb # fbs) c =
     go_bind (GetField c (fb_Field fb)) (\<lambda>v.
       case v of
         None \<Rightarrow> selects L fbs c
       | Some v \<Rightarrow> go_bind (ContainsValue L v (fb_Value fb)) (\<lambda>b. if b then Ret True else selects L fbs c))"

fun filter_items :: "textlib \<Rightarrow> FilterBy list \<Rightarrow> 'n DataItem list \<Rightarrow> 'n DataItem list go" where
  "filter_items L fbs [] = Ret []"
| "filter_items L fbs (c # cs) =
     go_bind (selects L fbs c) (\<lambda>b. go_bind (filter_items L fbs cs) (\<lambda>rest. Ret (if b then c # rest else rest)))"

definition Filter :: "textlib \<Rightarrow> 'n DataSelector \<Rightarrow> 'n DataSelector go" where
  "Filter L ds =
     (let fbs = dsq_FilterQuery (ds_Query ds)
      in if fbs = [] then Ret ds
         else go_bind (filter_items L fbs (GenericDataList ds)) (\<lambda>xs. Ret (ds\<lparr>GenericDataList := xs\<rparr>)))"

definition Paginate :: "'n DataSelector \<Rightarrow> 'n DataSelector go" where
  "Paginate ds =
     (let pQuery = dsq_PaginationQuery (ds_Query ds);
          dataList = GenericDataList ds;
          (startIndex, endIndex) = GetPaginationSettings pQuery (int (length dataList))
      in if \<not> IsPageAvailable pQuery (int (length dataList)) startIndex
         then Ret (ds\<lparr>GenericDataList := []\<rparr>)
         else go_bind (slice dataList startIndex endIndex) (\<lambda>xs. Ret (ds\<lparr>GenericDataList := xs\<rparr>)))"

section \<open>The contract of a sort\<close>

text \<open>
  What package sort asks of \<open>Less\<close> and promises then: a strict weak order on the elements.
\<close>

definition strict_weak :: "'a set \<Rightarrow> ('a \<Rightarrow> 'a \<Rightarrow> bool) \<Rightarrow> bool" where
  "strict_weak A lt =
     ((\<forall>x\<in>A. \<not> lt x x) \<and> (\<forall>x\<in>A. \<forall>y\<in>A. \<forall>z\<in>A. lt x y \<longrightarrow> lt y z \<longrightarrow> lt x z) \<and>
      (\<forall>x\<in>A. \<forall>y\<in>A. \<forall>z\<in>A. \<not> lt x y \<longrightarrow> \<not> lt y x \<longrightarrow> \<not> lt y z \<longrightarrow> \<not> lt z y \<longrightarrow> \<not> lt x z \<and> \<not> lt z x))"

lemma strict_weak_subset: "strict_weak A lt \<Longrightarrow> B \<subseteq> A \<Longrightarrow> strict_weak B lt"
  unfolding strict_weak_def subset_eq by (intro conjI ballI impI) metis+

lemma strict_weak_cong:
  "strict_weak A lt \<Longrightarrow> (\<And>x y. x \<in> A \<Longrightarrow> y \<in> A \<Longrightarrow> lt' x y = lt x y) \<Longrightarrow> strict_weak A lt'"
  unfolding strict_weak_def by (intro conjI ballI impI) metis+

context three_way begin

lemma strict_weak: "strict_weak A (\<lambda>x y. cmp x y < 0)"
  unfolding strict_weak_def
proof (intro conjI ballI impI)
  fix x y z
  show "\<not> cmp x x < 0" by simp
  show "cmp x y < 0 \<Longrightarrow> cmp y z < 0 \<Longrightarrow> cmp x z < 0" using lt_trans [of x y z] by simp
  assume "\<not> cmp x y < 0" "\<not> cmp y x < 0" "\<not> cmp y z < 0" "\<not> cmp z y < 0"
  with swap [of x y] swap [of y z] have "cmp x y = 0" "cmp y z = 0" by simp_all
  then have "cmp x z = 0" by (rule eq_trans)
  with swap [of x z] show "\<not> cmp x z < 0" "\<not> cmp z x < 0" by simp_all
qed

end

locale sorting =
  fixes srt :: "('a \<Rightarrow> 'a \<Rightarrow> bool go) \<Rightarrow> 'a list \<Rightarrow> 'a list go"
  assumes permutes: "(\<And>x y. x \<in> set xs \<Longrightarrow> y \<in> set xs \<Longrightarrow> lf x y = Ret (lt x y)) \<Longrightarrow>
      \<exists>ys. srt lf xs = Ret ys \<and> mset ys = mset xs"
    and orders: "(\<And>x y. x \<in> set xs \<Longrightarrow> y \<in> set xs \<Longrightarrow> lf x y = Ret (lt x y)) \<Longrightarrow>
      strict_weak (set xs) lt \<Longrightarrow> srt lf xs = Ret ys \<Longrightarrow> sorted_wrt (\<lambda>x y. \<not> lt y x) ys"
begin

lemma sorts:
  assumes "\<And>x y. x \<in> set xs \<Longrightarrow> y \<in> set xs \<Longrightarrow> lf x y = Ret (lt x y)" "strict_weak (set xs) lt"
  shows "\<exists>ys. srt lf xs = Ret ys \<and> mset ys = mset xs \<and> sorted_wrt (\<lambda>x y. \<not> lt y x) ys"
proof -
  obtain ys where ys: "srt lf xs = Ret ys" "mset ys = mset xs"
    using permutes [of xs lf lt] assms(1) by blast
  with orders [of xs lf lt ys] assms show ?thesis by blast
qed

end

text \<open>
  \<open>insertionSort\<close> of package sort, which \<open>Sort\<close> runs on at most twelve elements: each element
  moves to the left while it is less than its neighbour.
\<close>

fun insert_left :: "('a \<Rightarrow> 'a \<Rightarrow> bool go) \<Rightarrow> 'a \<Rightarrow> 'a list \<Rightarrow> 'a list go" where
  "insert_left lf x [] = Ret [x]"
| "insert_left lf x (y # ys) =
     go_bind (lf x y) (\<lambda>b. if b then go_bind (insert_left lf x ys) (\<lambda>zs. Ret (y # zs)) else Ret (x # y # ys))"

fun insertion_go :: "('a \<Rightarrow> 'a \<Rightarrow> bool go) \<Rightarrow> 'a list \<Rightarrow> 'a list \<Rightarrow> 'a list go" where
  "insertion_go lf acc [] = Ret (rev acc)"
| "insertion_go lf acc (x # xs) = go_bind (insert_left lf x acc) (\<lambda>d. insertion_go lf d xs)"

definition insertionSort :: "('a \<Rightarrow> 'a \<Rightarrow> bool go) \<Rightarrow> 'a list \<Rightarrow> 'a list go" where
  "insertionSort lf xs = insertion_go lf [] xs"

lemma insert_left_Ret:
  assumes "\<And>y. y \<in> set ys \<Longrightarrow> lf x y = Ret (lt x y)"
  shows "\<exists>zs. insert_left lf x ys = Ret zs \<and> mset zs = add_mset x (mset ys)"
  using assms
proof (induction ys)
  case (Cons y ys)
  then obtain zs where "insert_left lf x ys = Ret zs" "mset zs = add_mset x (mset ys)" by auto
  then show ?case by (simp add: Cons.prems)
qed simp

lemma insert_left_sorted:
  assumes "\<And>y. y \<in> set ys \<Longrightarrow> lf x y = Ret (lt x y)" "strict_weak (insert x (set ys)) lt"
    "sorted_wrt (\<lambda>x y. \<not> lt x y) ys" "insert_left lf x ys = Ret zs"
  shows "sorted_wrt (\<lambda>x y. \<not> lt x y) zs"
  using assms
proof (induction ys arbitrary: zs)
  case (Cons y ys)
  have xy: "lf x y = Ret (lt x y)" by (simp add: Cons.prems)
  obtain us where us: "insert_left lf x ys = Ret us" "mset us = add_mset x (mset ys)"
    using insert_left_Ret [of ys lf x lt] Cons.prems(1) by auto
  have set_us: "set us = insert x (set ys)"
    using arg_cong [OF us(2), of set_mset] by simp
  show ?case
  proof (cases "lt x y")
    case True
    have sw: "strict_weak (insert x (set ys)) lt" by (rule strict_weak_subset [OF Cons.prems(2)]) auto
    have "sorted_wrt (\<lambda>x y. \<not> lt x y) us"
      using Cons.IH [OF _ sw _ us(1)] Cons.prems(1,3) by simp
    moreover have "\<not> lt y x" using True Cons.prems(2) unfolding strict_weak_def by (meson insertI1 list.set_intros(1) insertI2)
    ultimately show ?thesis using Cons.prems(3,4) xy True us(1) set_us by auto
  next
    case False
    have "\<not> lt x z" if z: "z \<in> set ys" for z
    proof
      assume xz: "lt x z"
      have yz: "\<not> lt y z" using Cons.prems(3) z by simp
      from False yz xz Cons.prems(2) z show False
        unfolding strict_weak_def by (meson insertI1 insertI2 list.set_intros)
    qed
    with False Cons.prems(3,4) xy show ?thesis by auto
  qed
qed auto

lemma insertion_go_sorts:
  assumes "\<And>x y. x \<in> set (d @ xs) \<Longrightarrow> y \<in> set (d @ xs) \<Longrightarrow> lf x y = Ret (lt x y)"
  shows "\<exists>ys. insertion_go lf d xs = Ret ys \<and> mset ys = mset d + mset xs \<and>
      (strict_weak (set (d @ xs)) lt \<longrightarrow> sorted_wrt (\<lambda>x y. \<not> lt x y) d \<longrightarrow> sorted_wrt (\<lambda>x y. \<not> lt y x) ys)"
  using assms
proof (induction xs arbitrary: d)
  case Nil
  then show ?case by (simp add: sorted_wrt_rev)
next
  case (Cons x xs)
  have lf: "lf x y = Ret (lt x y)" if "y \<in> set d" for y using Cons.prems that by simp
  obtain e where e: "insert_left lf x d = Ret e" "mset e = add_mset x (mset d)"
    using insert_left_Ret [of d lf x lt] lf by blast
  have set_e: "set e = insert x (set d)" using arg_cong [OF e(2), of set_mset] by simp
  have "\<exists>ys. insertion_go lf e xs = Ret ys \<and> mset ys = mset e + mset xs \<and>
      (strict_weak (set (e @ xs)) lt \<longrightarrow> sorted_wrt (\<lambda>x y. \<not> lt x y) e \<longrightarrow> sorted_wrt (\<lambda>x y. \<not> lt y x) ys)"
    using Cons.prems by (intro Cons.IH) (auto simp: set_e)
  moreover have "sorted_wrt (\<lambda>x y. \<not> lt x y) e" if "strict_weak (set (d @ x # xs)) lt" "sorted_wrt (\<lambda>x y. \<not> lt x y) d"
  proof (rule insert_left_sorted [OF lf _ that(2) e(1)])
    show "strict_weak (insert x (set d)) lt" using strict_weak_subset [OF that(1)] by auto
  qed
  moreover have "set (e @ xs) = set (d @ x # xs)" by (auto simp: set_e)
  ultimately obtain ys where "insertion_go lf e xs = Ret ys" "mset ys = mset e + mset xs"
    "strict_weak (set (d @ x # xs)) lt \<longrightarrow> sorted_wrt (\<lambda>x y. \<not> lt x y) d \<longrightarrow> sorted_wrt (\<lambda>x y. \<not> lt y x) ys"
    by metis
  with e show ?case by simp
qed

interpretation insertion: sorting insertionSort
proof
  fix xs :: "'a list" and lf :: "'a \<Rightarrow> 'a \<Rightarrow> bool go" and lt
  assume lf: "\<And>x y. x \<in> set xs \<Longrightarrow> y \<in> set xs \<Longrightarrow> lf x y = Ret (lt x y)"
  from insertion_go_sorts [of "[]" xs lf lt] lf
  show "\<exists>ys. insertionSort lf xs = Ret ys \<and> mset ys = mset xs"
    by (auto simp: insertionSort_def)
  show "sorted_wrt (\<lambda>x y. \<not> lt y x) ys" if "strict_weak (set xs) lt" "insertionSort lf xs = Ret ys" for ys
    using insertion_go_sorts [of "[]" xs lf lt] lf that by (auto simp: insertionSort_def)
qed

section \<open>What the stages compute\<close>

text \<open>The text of a field of an item; the fields an item has depend on its kind only.\<close>

definition item_field :: "'n DataItem \<Rightarrow> string \<Rightarrow> string" where
  "item_field i f = (case GetField i f of Ret (Some (StdComparableString s)) \<Rightarrow> s | _ \<Rightarrow> [])"

fun has_field :: "'n DataItem \<Rightarrow> string \<Rightarrow> bool" where
  "has_field (DeploymentItem _) f =
     (f \<in> {''name'', ''displayName'', ''appName'', ''appVersion'', ''deployId'', ''status''})"
| "has_field (ClusterInfoItem _) f = (f \<in> {''name'', ''id''})"
| "has_field (ClusterItem _) f = (f \<in> {''name'', ''id'', ''status''})"

text \<open>A deployment needs a status, which the code dereferences.\<close>

fun item_ok :: "'n DataItem \<Rightarrow> bool" where
  "item_ok (DeploymentItem d) = (pd_Status d \<noteq> None)"
| "item_ok _ = True"

lemmas GetField_defs = Deployment_GetField_def ClusterInfo_GetField_def Cluster_GetField_def

lemma GetField_ok:
  "item_ok i \<Longrightarrow> GetField i f = Ret (if has_field i f then Some (StdComparableString (item_field i f)) else None)"
  by (cases i) (auto simp: GetField_defs item_field_def)

text \<open>The order of a sort query, as one three-way comparison.\<close>

fun cmp_by :: "(string \<Rightarrow> bool) \<Rightarrow> ('d \<Rightarrow> string \<Rightarrow> string) \<Rightarrow> OrderBy list \<Rightarrow> 'd \<Rightarrow> 'd \<Rightarrow> int" where
  "cmp_by has key [] x y = 0"
| "cmp_by has key (ob # obs) x y =
     (if \<not> has (ob_Field ob) then 0
      else let c = string_compare (key x (ob_Field ob)) (key y (ob_Field ob));
               c = (if ob_Ascending ob then c else - c)
           in if c \<noteq> 0 then c else cmp_by has key obs x y)"

lemma three_way_cmp_by: "three_way (cmp_by has key obs)"
proof (induction obs)
  case Nil
  show ?case by unfold_locales simp_all
next
  case (Cons ob obs)
  define c1 where "c1 x y = (let c = string_compare (key x (ob_Field ob)) (key y (ob_Field ob))
      in if ob_Ascending ob then c else - c)" for x y
  have "three_way c1"
  proof
    fix x y z
    show "c1 y x = - c1 x y"
      using names.swap [of "key y (ob_Field ob)" "key x (ob_Field ob)"] by (simp add: c1_def Let_def)
    show "c1 x y \<le> 0 \<Longrightarrow> c1 y z \<le> 0 \<Longrightarrow> c1 x z \<le> 0"
      using names.trans_le [of "key x (ob_Field ob)" "key y (ob_Field ob)" "key z (ob_Field ob)"]
        names.trans_le [of "key z (ob_Field ob)" "key y (ob_Field ob)" "key x (ob_Field ob)"]
        names.swap [of "key x (ob_Field ob)" "key y (ob_Field ob)"] names.swap [of "key y (ob_Field ob)" "key z (ob_Field ob)"]
        names.swap [of "key x (ob_Field ob)" "key z (ob_Field ob)"]
      by (simp add: c1_def Let_def split: if_splits)
  qed
  then have "two_keys c1 (cmp_by has key obs)"
    using Cons.IH by (simp add: two_keys_def)
  from two_keys.three_way_lex [OF this]
  have lex: "three_way (\<lambda>x y. if c1 x y \<noteq> 0 then c1 x y else cmp_by has key obs x y)" .
  show ?case
  proof (cases "has (ob_Field ob)")
    case True
    then have "cmp_by has key (ob # obs) = (\<lambda>x y. if c1 x y \<noteq> 0 then c1 x y else cmp_by has key obs x y)"
      by (simp add: fun_eq_iff c1_def Let_def)
    with lex show ?thesis by simp
  next
    case False
    then have "cmp_by has key (ob # obs) = (\<lambda>x y. 0)" by (simp add: fun_eq_iff)
    then show ?thesis by (simp add: three_way_def)
  qed
qed

lemma Less_loop_ok:
  assumes "item_ok x" "item_ok y" "has_field x = has" "has_field y = has"
  shows "Less_loop L obs x y = Ret (cmp_by has item_field obs x y < 0)"
proof (induction obs)
  case (Cons ob obs)
  let ?c = "string_compare (item_field x (ob_Field ob)) (item_field y (ob_Field ob))"
  have range: "?c \<in> {-1, 0, 1}" by (rule string_compare_range)
  show ?case
  proof (cases "has (ob_Field ob)")
    case True
    then show ?thesis
      using Cons.IH range by (auto simp: GetField_ok assms Let_def)
  next
    case False
    then show ?thesis by (simp add: GetField_ok assms)
  qed
qed simp

text \<open>What a filter keeps: an item with a field that contains, or matches, a value of the query.\<close>

definition field_matches :: "textlib \<Rightarrow> string \<Rightarrow> Comparable \<Rightarrow> bool" where
  "field_matches L s v = (ContainsValue L (StdComparableString s) v = Ret True)"

lemma ContainsValue_string: "ContainsValue L (StdComparableString s) v = Ret (field_matches L s v)"
  by (cases v) (auto simp: field_matches_def Let_def)

definition kept :: "textlib \<Rightarrow> FilterBy list \<Rightarrow> 'n DataItem \<Rightarrow> bool" where
  "kept L fbs i = (fbs = [] \<or> list_ex (\<lambda>fb. has_field i (fb_Field fb) \<and> field_matches L (item_field i (fb_Field fb)) (fb_Value fb)) fbs)"

lemma selects_ok:
  "item_ok i \<Longrightarrow> selects L fbs i =
     Ret (list_ex (\<lambda>fb. has_field i (fb_Field fb) \<and> field_matches L (item_field i (fb_Field fb)) (fb_Value fb)) fbs)"
  by (induction fbs) (simp_all add: GetField_ok ContainsValue_string del: ContainsValue.simps)

lemma filter_items_ok:
  "list_all item_ok is \<Longrightarrow> fbs \<noteq> [] \<Longrightarrow> filter_items L fbs is = Ret (filter (kept L fbs) is)"
  by (induction "is") (simp_all add: selects_ok kept_def)

lemma Filter_ok:
  "list_all item_ok (GenericDataList ds) \<Longrightarrow>
   Filter L ds = Ret (ds\<lparr>GenericDataList := filter (kept L (dsq_FilterQuery (ds_Query ds))) (GenericDataList ds)\<rparr>)"
  by (simp add: Filter_def Let_def filter_items_ok kept_def)

lemma Sort_ok:
  assumes "sorting srt" "list_all item_ok (GenericDataList ds)"
    and "list_all (\<lambda>i. has_field i = has) (GenericDataList ds)"
  shows "\<exists>ys. Sort L srt ds = Ret (ds\<lparr>GenericDataList := ys\<rparr>) \<and> mset ys = mset (GenericDataList ds) \<and>
     sorted_wrt (\<lambda>x y. cmp_by has item_field (dsq_SortQuery (ds_Query ds)) x y \<le> 0) ys"
proof -
  let ?c = "cmp_by has item_field (dsq_SortQuery (ds_Query ds))"
  have tw: "three_way ?c" by (rule three_way_cmp_by)
  have less: "Less L ds x y = Ret (?c x y < 0)" if "x \<in> set (GenericDataList ds)" "y \<in> set (GenericDataList ds)" for x y
    using assms(2,3) that by (simp add: Less_def Less_loop_ok list_all_iff)
  have "strict_weak (set (GenericDataList ds)) (\<lambda>x y. ?c x y < 0)"
    by (rule three_way.strict_weak [OF tw])
  from sorting.sorts [OF assms(1) less this]
  obtain ys where ys: "srt (Less L ds) (GenericDataList ds) = Ret ys" "mset ys = mset (GenericDataList ds)"
    "sorted_wrt (\<lambda>x y. \<not> ?c y x < 0) ys" by blast
  from ys(3) have "sorted_wrt (\<lambda>x y. ?c x y \<le> 0) ys"
  proof (rule sorted_wrt_mono_rel [rotated])
    fix x y assume "\<not> ?c y x < 0"
    with three_way.swap [OF tw, of x y] show "?c x y \<le> 0" by simp
  qed
  with ys show ?thesis by (auto simp: Sort_def)
qed

lemma add64_small: "0 \<le> a + b \<Longrightarrow> a + b < 2 ^ 63 \<Longrightarrow> add64 a b = a + b"
  by (simp add: add64_def signed_take_bit_int_eq_self)

lemma Paginate_ok:
  assumes "PageSize p = int n" "OffSet p = int k" "int k + int n < 2 ^ 63" "dsq_PaginationQuery (ds_Query ds) = p"
  shows "Paginate ds = Ret (ds\<lparr>GenericDataList := take n (drop k (GenericDataList ds))\<rparr>)"
proof -
  have e: "add64 (int k) (int n) = int k + int n" by (rule add64_small) (use assms(3) in auto)
  show ?thesis
  proof (cases "k < length (GenericDataList ds) \<and> n > 0")
    case True
    then show ?thesis
      by (auto simp: Paginate_def GetPaginationSettings_def IsPageAvailable_def slice_def assms(1,2,4) e Let_def
          nat_add_distrib)
  next
    case False
    then show ?thesis
      by (auto simp: Paginate_def GetPaginationSettings_def IsPageAvailable_def assms(1,2,4) Let_def)
  qed
qed

text \<open>A page for a 64-bit size and offset: only a negative offset is out of range.\<close>

lemma Paginate_panics:
  assumes "dsq_PaginationQuery (ds_Query ds) = p" "PageSize p > 0" "OffSet p < 0"
  shows "Paginate ds = Panicked"
  using assms by (simp add: Paginate_def GetPaginationSettings_def IsPageAvailable_def slice_def Let_def)

theorem selection_ok:
  assumes "sorting srt" "list_all item_ok (GenericDataList ds)"
    and "list_all (\<lambda>i. has_field i = has) (GenericDataList ds)"
    and "dsq_PaginationQuery (ds_Query ds) = p" "PageSize p = int n" "OffSet p = int k" "int k + int n < 2 ^ 63"
  shows "\<exists>ys. go_bind (go_bind (Filter L ds) (Sort L srt)) Paginate = Ret (ds\<lparr>GenericDataList := take n (drop k ys)\<rparr>)
     \<and> mset ys = mset (filter (kept L (dsq_FilterQuery (ds_Query ds))) (GenericDataList ds))
     \<and> sorted_wrt (\<lambda>x y. cmp_by has item_field (dsq_SortQuery (ds_Query ds)) x y \<le> 0) ys"
proof -
  define ds' where "ds' = ds\<lparr>GenericDataList := filter (kept L (dsq_FilterQuery (ds_Query ds))) (GenericDataList ds)\<rparr>"
  have F: "Filter L ds = Ret ds'" unfolding ds'_def by (rule Filter_ok [OF assms(2)])
  have "list_all item_ok (GenericDataList ds')" "list_all (\<lambda>i. has_field i = has) (GenericDataList ds')"
    using assms(2,3) by (simp_all add: ds'_def list_all_iff)
  from Sort_ok [OF assms(1) this] obtain ys where
    S: "Sort L srt ds' = Ret (ds'\<lparr>GenericDataList := ys\<rparr>)" "mset ys = mset (GenericDataList ds')"
       "sorted_wrt (\<lambda>x y. cmp_by has item_field (dsq_SortQuery (ds_Query ds')) x y \<le> 0) ys" by blast
  have "Paginate (ds'\<lparr>GenericDataList := ys\<rparr>) = Ret (ds\<lparr>GenericDataList := take n (drop k ys)\<rparr>)"
    by (subst Paginate_ok [of p n k]) (use assms in \<open>simp_all add: ds'_def\<close>)
  with F S show ?thesis by (auto simp: ds'_def)
qed

end
