(* ===== verification/QueryParser.thy ===== *)
theory QueryParser
  imports DataSelect
begin

text \<open>
  The order-by and filter parameters of the list requests
  (pkg/utils/parser/query\_param\_parser.go) and the selection that the service runs on a list
  (internal/northbound/dataselection.go).
\<close>

section \<open>Order by\<close>

fun parse_orders :: "string list \<Rightarrow> OrderBy list res" where
  "parse_orders [] = Inr []"
| "parse_orders (field # flds) =
     (let parts = Fields (TrimSpace field)
      in if length parts = 0 \<or> length parts > 2
         then Inl (TypedErr KInvalid ''invalid format for order by parameter'')
         else let direction = (if length parts = 2 then ToLower (parts ! 1) else ''asc'')
              in if direction \<noteq> ''desc'' \<and> direction \<noteq> ''asc''
                 then Inl (TypedErr KInvalid (''invalid order direction; must be '' @ [CHR 0x27] @ ''asc'' @ [CHR 0x27] @ '' or '' @ [CHR 0x27] @ ''desc'' @ [CHR 0x27]))
                 else case parse_orders flds of
                        Inl e \<Rightarrow> Inl e
                      | Inr obs \<Rightarrow> Inr (\<lparr>ob_Field = parts ! 0, ob_Ascending = (direction \<noteq> ''desc'')\<rparr> # obs))"

definition ParseOrderBy :: "string \<Rightarrow> OrderBy list res" where
  "ParseOrderBy orderByParameter =
     (if orderByParameter = [] then Inr [] else parse_orders (Split orderByParameter '',''))"

section \<open>Filter\<close>

definition is_blank :: "char \<Rightarrow> bool" where
  "is_blank c = (c = CHR '' '' \<or> c = CHR 0x09)"

text \<open>
  \<open>FindStringSubmatch\<close> of the one expression of the parser, \<open>([^=]+)[ \t]*=[ \t]*(.+)\<close>, which
  prefers the leftmost match and then the longest text for each repetition in turn.  The first
  group takes everything before the sign, its blanks included.  After the sign the blanks are
  skipped; where nothing but the end of the line is left, the last blank is given back.
\<close>

definition match_value :: "string \<Rightarrow> string option" where
  "match_value r =
     (let blanks = takeWhile is_blank r;
          line = takeWhile (\<lambda>c. c \<noteq> CHR 0x0A) (dropWhile is_blank r)
      in if line \<noteq> [] then Some line
         else if blanks \<noteq> [] then Some [last blanks]
         else None)"

lemma dropWhile_shorter: "dropWhile P s = x # r \<Longrightarrow> length r < length s"
  using length_dropWhile_le [of P s] by simp

function find_submatch :: "string \<Rightarrow> (string \<times> string) option" where
  "find_submatch s =
     (let field = takeWhile (\<lambda>c. c \<noteq> CHR ''='') s;
          rest = dropWhile (\<lambda>c. c \<noteq> CHR ''='') s
      in case rest of
           [] \<Rightarrow> None
         | _ # r \<Rightarrow>
             (if field = [] then find_submatch r
              else case match_value r of
                     Some v \<Rightarrow> Some (field, v)
                   | None \<Rightarrow> find_submatch r))"
  by pat_completeness auto
termination
  by (relation "measure length") (auto intro: dropWhile_shorter [OF sym])

fun parse_filters :: "string list \<Rightarrow> FilterBy list res" where
  "parse_filters [] = Inr []"
| "parse_filters (expr # exprs) =
     (case find_submatch expr of
        None \<Rightarrow> Inl (TypedErr KInvalid ''invalid filter request'')
      | Some (f, v) \<Rightarrow>
          (case parse_filters exprs of
             Inl e \<Rightarrow> Inl e
           | Inr fbs \<Rightarrow> Inr (\<lparr>fb_Field = f, fb_Value = StdComparableString v\<rparr> # fbs)))"

definition quote :: string where "quote = [CHR 0x22]"

definition ParseFilterBy :: "string \<Rightarrow> FilterBy list res" where
  "ParseFilterBy filterByParameter =
     (if filterByParameter = [] then Inr []
      else let p = (if HasPrefix filterByParameter quote \<and> HasSuffix filterByParameter quote \<and> length filterByParameter \<noteq> 1
                    then butlast (tl filterByParameter) else filterByParameter)
           in parse_filters (Split p '' OR ''))"

section \<open>The selection of the service\<close>

text \<open>The four parameters the list requests share; the page size and the offset are signed.\<close>

record SelectRequest =
  in_OrderBy :: string
  in_Filter :: string
  in_PageSize :: "32 word"
  in_Offset :: "32 word"

definition convertPaginationParams :: "32 word \<Rightarrow> 32 word \<Rightarrow> 32 word \<times> 32 word" where
  "convertPaginationParams pageSize offset = (pageSize, offset)"

definition newPaginationQuery :: "32 word \<Rightarrow> 32 word \<Rightarrow> PaginationQuery" where
  "newPaginationQuery pageSize offset =
     (if pageSize = 0 \<and> offset = 0 then NewPaginationQuery DefaultPageSize 0
      else if pageSize = 0 \<and> offset \<noteq> 0 then NewPaginationQuery DefaultPageSize (uint offset)
      else NewPaginationQuery (uint pageSize) (uint offset))"

text \<open>The common first part of the three selections: the query of a request.\<close>

definition select_query :: "'z SelectRequest_scheme \<Rightarrow> DataSelectQuery res" where
  "select_query req =
     (let (pageSize, offset) = convertPaginationParams (in_PageSize req) (in_Offset req);
          paginationQuery = newPaginationQuery pageSize offset
      in case IsValidPagination paginationQuery of
           Some err \<Rightarrow> Inl err
         | None \<Rightarrow>
             (case ParseOrderBy (in_OrderBy req) of
                Inl err \<Rightarrow> Inl err
              | Inr orderByList \<Rightarrow>
                  let sortQuery = (if length orderByList = 0 then NoSort else NewSortQueryOrderBy orderByList)
                  in case ParseFilterBy (in_Filter req) of
                       Inl err \<Rightarrow> Inl err
                     | Inr filterByList \<Rightarrow>
                         let filterQuery = (if length filterByList = 0 then NoFilter else NewFilterQueryFilterBy filterByList)
                         in Inr \<lparr>dsq_PaginationQuery = paginationQuery, dsq_SortQuery = sortQuery, dsq_FilterQuery = filterQuery\<rparr>))"

definition run_selection :: "textlib \<Rightarrow> 'n DataItem sorter \<Rightarrow> 'n DataSelector \<Rightarrow> 'n DataSelector go" where
  "run_selection L srt ds = go_bind (go_bind (Filter L ds) (Sort L srt)) Paginate"

definition selectDeployments ::
  "textlib \<Rightarrow> 'n DataItem sorter \<Rightarrow> 'z SelectRequest_scheme \<Rightarrow> 'n PbDeployment list \<Rightarrow> 'n PbDeployment list res go" where
  "selectDeployments L srt req deployments =
     (case select_query req of
        Inl err \<Rightarrow> Ret (Inl err)
      | Inr q \<Rightarrow>
          go_bind (run_selection L srt \<lparr>GenericDataList = ToDataItemsFromDeployments deployments, ds_Query = q\<rparr>) (\<lambda>ds.
          go_bind (FromDataItemsToDeployments (GenericDataList ds)) (\<lambda>xs. Ret (Inr xs))))"

definition selectClusters ::
  "textlib \<Rightarrow> 'n DataItem sorter \<Rightarrow> 'z SelectRequest_scheme \<Rightarrow> PbClusterInfo list \<Rightarrow> PbClusterInfo list res go" where
  "selectClusters L srt req clusterInfoList =
     (case select_query req of
        Inl err \<Rightarrow> Ret (Inl err)
      | Inr q \<Rightarrow>
          go_bind (run_selection L srt \<lparr>GenericDataList = ToDataItemsFromClusterInfoList clusterInfoList, ds_Query = q\<rparr>) (\<lambda>ds.
          go_bind (FromDataItemsToClusterInfoList (GenericDataList ds)) (\<lambda>xs. Ret (Inr xs))))"

definition selectClustersPerDeployment ::
  "textlib \<Rightarrow> 'n DataItem sorter \<Rightarrow> 'z SelectRequest_scheme \<Rightarrow> PbCluster list \<Rightarrow> PbCluster list res go" where
  "selectClustersPerDeployment L srt req clusterList =
     (case select_query req of
        Inl err \<Rightarrow> Ret (Inl err)
      | Inr q \<Rightarrow>
          go_bind (run_selection L srt \<lparr>GenericDataList = ToDataItemsFromClusterList clusterList, ds_Query = q\<rparr>) (\<lambda>ds.
          go_bind (FromDataItemsToClusterList (GenericDataList ds)) (\<lambda>xs. Ret (Inr xs))))"

section \<open>Lemmas\<close>

declare find_submatch.simps [simp del]

text \<open>What an order-by clause says: a field, and optionally a direction in any case.\<close>

definition reads_order :: "string \<Rightarrow> OrderBy \<Rightarrow> bool" where
  "reads_order f ob =
     (case Fields (TrimSpace f) of
        [p] \<Rightarrow> ob = \<lparr>ob_Field = p, ob_Ascending = True\<rparr>
      | [p, d] \<Rightarrow> ToLower d = (if ob_Ascending ob then ''asc'' else ''desc'') \<and> ob_Field ob = p
      | _ \<Rightarrow> False)"

lemma reads_order_field:
  "Fields (TrimSpace f) = [p] \<Longrightarrow> reads_order f ob \<longleftrightarrow> ob = \<lparr>ob_Field = p, ob_Ascending = True\<rparr>"
  "Fields (TrimSpace f) = [p, d] \<Longrightarrow> reads_order f ob \<longleftrightarrow>
     ToLower d = (if ob_Ascending ob then ''asc'' else ''desc'') \<and> ob_Field ob = p"
  by (simp_all add: reads_order_def)

lemma parse_orders_fields: "parse_orders fs = Inr obs \<Longrightarrow> list_all2 reads_order fs obs"
proof (induction fs arbitrary: obs)
  case (Cons f fs)
  define parts where "parts = Fields (TrimSpace f)"
  from Cons.prems have "length parts \<noteq> 0 \<and> \<not> length parts > 2"
    by (auto simp: Let_def parts_def [symmetric] split: if_splits)
  then have "length parts = 1 \<or> length parts = 2" by linarith
  then consider p where "parts = [p]" | p d where "parts = [p, d]"
    by (auto simp: length_Suc_conv numeral_2_eq_2)
  then show ?case
  proof cases
    case 1
    with Cons show ?thesis
      by (auto simp: Let_def parts_def [symmetric] reads_order_field(1) [OF 1 [unfolded parts_def]] split: sum.splits)
  next
    case 2
    with Cons show ?thesis
      by (auto simp: Let_def parts_def [symmetric] reads_order_field(2) [OF 2 [unfolded parts_def]] split: sum.splits if_splits)
  qed
qed simp

lemma dropWhile_neq_Cons: "dropWhile (\<lambda>c. c \<noteq> a) s = x # r \<Longrightarrow> x = a"
  using hd_dropWhile [of "\<lambda>c. c \<noteq> a" s] by simp

text \<open>What a match is: a field without a sign, the sign, blanks, and a value on one line.\<close>

definition is_match :: "string \<Rightarrow> string \<Rightarrow> string \<Rightarrow> bool" where
  "is_match s f v = (\<exists>pre b post. s = pre @ f @ ''='' @ b @ v @ post \<and> f \<noteq> [] \<and> CHR ''='' \<notin> set f
     \<and> list_all is_blank b \<and> v \<noteq> [] \<and> CHR 0x0A \<notin> set v)"

lemma match_value_Some:
  assumes "match_value r = Some v"
  shows "\<exists>b post. r = b @ v @ post \<and> list_all is_blank b \<and> v \<noteq> [] \<and> CHR 0x0A \<notin> set v"
proof -
  define bl where "bl = takeWhile is_blank r"
  define t where "t = dropWhile is_blank r"
  have r: "r = bl @ t" by (simp add: bl_def t_def)
  have bl: "list_all is_blank bl" by (auto simp: bl_def list_all_iff dest: set_takeWhileD)
  show ?thesis
  proof (cases "takeWhile (\<lambda>c. c \<noteq> CHR 0x0A) t = []")
    case False
    then have "v = takeWhile (\<lambda>c. c \<noteq> CHR 0x0A) t"
      using assms by (simp add: match_value_def Let_def t_def)
    then have "r = bl @ v @ dropWhile (\<lambda>c. c \<noteq> CHR 0x0A) t" "v \<noteq> []" "CHR 0x0A \<notin> set v"
      using r False by (auto dest: set_takeWhileD)
    with bl show ?thesis by blast
  next
    case True
    then have ne: "bl \<noteq> []" and v: "v = [last bl]"
      using assms by (simp_all add: match_value_def Let_def t_def bl_def split: if_splits)
    have "is_blank (last bl)" using bl ne by (simp add: list_all_iff)
    then have "CHR 0x0A \<notin> set v" by (auto simp: v is_blank_def)
    moreover have "r = butlast bl @ v @ t" using r ne by (simp add: v)
    moreover have "list_all is_blank (butlast bl)" using bl by (auto simp: list_all_iff dest: in_set_butlastD)
    ultimately show ?thesis using v by blast
  qed
qed

lemma match_value_None:
  assumes "match_value r = None"
  shows "r = [] \<or> (\<exists>r'. r = CHR 0x0A # r')"
proof (cases r)
  case (Cons c r')
  have "takeWhile is_blank r = []" "takeWhile (\<lambda>c. c \<noteq> CHR 0x0A) (dropWhile is_blank r) = []"
    using assms by (simp_all add: match_value_def Let_def split: if_splits)
  then show ?thesis using Cons by (auto split: if_splits)
qed simp

lemma find_submatch_sound: "find_submatch s = Some (f, v) \<Longrightarrow> is_match s f v"
proof (induction s rule: find_submatch.induct)
  case (1 s)
  define g where "g = takeWhile (\<lambda>c. c \<noteq> CHR ''='') s"
  from 1(3) obtain x r where rest: "dropWhile (\<lambda>c. c \<noteq> CHR ''='') s = x # r"
    by (subst (asm) find_submatch.simps) (auto simp: Let_def split: list.splits)
  have s: "s = g @ ''='' @ r"
    using takeWhile_dropWhile_id [of "\<lambda>c. c \<noteq> CHR ''=''" s] rest dropWhile_neq_Cons [OF rest] by (simp add: g_def)
  have more: "is_match s f v" if "is_match r f v"
    using that s unfolding is_match_def by (metis append.assoc)
  show ?case
  proof (cases "g = [] \<or> match_value r = None")
    case True
    then have "find_submatch r = Some (f, v)"
      using 1(3) by (subst (asm) find_submatch.simps) (auto simp: Let_def rest g_def split: if_splits)
    then have "is_match r f v"
      using 1(1,2) True rest by (cases "g = []") (auto simp: g_def)
    then show ?thesis by (rule more)
  next
    case False
    then obtain w where w: "match_value r = Some w" by blast
    then have fv: "f = g" "v = w"
      using 1(3) False by (subst (asm) find_submatch.simps, simp add: Let_def rest g_def [symmetric])+
    from match_value_Some [OF w] obtain b post where
      "r = b @ w @ post" "list_all is_blank b" "w \<noteq> []" "CHR 0x0A \<notin> set w" by blast
    moreover have "CHR ''='' \<notin> set g" by (auto simp: g_def dest: set_takeWhileD)
    ultimately show ?thesis using s False fv unfolding is_match_def by (intro exI [of _ "[]"] exI [of _ b] exI [of _ post]) simp
  qed
qed

text \<open>Without a sign there is no match, and a field starts the text where there is one sign only.\<close>

lemma find_submatch_no_sign: "CHR ''='' \<notin> set s \<Longrightarrow> find_submatch s = None"
proof -
  assume "CHR ''='' \<notin> set s"
  then have "dropWhile (\<lambda>c. c \<noteq> CHR ''='') s = []" by (auto simp: dropWhile_eq_Nil_conv)
  then show ?thesis by (subst find_submatch.simps) (simp only: Let_def list.case)
qed

lemma find_submatch_simple:
  assumes "f \<noteq> []" "CHR ''='' \<notin> set f" "list_all is_blank b" "v \<noteq> []" "\<not> is_blank (hd v)" "CHR 0x0A \<notin> set v"
  shows "find_submatch (f @ ''='' @ b @ v) = Some (f, v)"
proof -
  have f: "takeWhile (\<lambda>c. c \<noteq> CHR ''='') (f @ CHR ''='' # b @ v) = f"
      "dropWhile (\<lambda>c. c \<noteq> CHR ''='') (f @ CHR ''='' # b @ v) = CHR ''='' # b @ v"
    using assms(2) by (subst takeWhile_append2 dropWhile_append2; fastforce)+
  have 1: "dropWhile is_blank (b @ v) = v"
    using assms(3,4,5) by (induction b) (auto intro: dropWhile_eq_self_iff [THEN iffD2])
  have 2: "takeWhile (\<lambda>c. c \<noteq> CHR 0x0A) v = v"
    using assms(6) by (intro takeWhile_eq_all_conv [THEN iffD2]) auto
  have "match_value (b @ v) = Some v"
    by (simp only: match_value_def Let_def 1 2) (simp add: assms(4))
  then show ?thesis by (subst find_submatch.simps) (simp add: f Let_def assms(1))
qed

end
