(* ===== verification/SelectProps.thy ===== *)
theory SelectProps
  imports QueryParser
begin

text \<open>
  The properties of the list selection: the page that a list request gets, the filter
  expressions, and two inputs on which a filter does something else than it says.
\<close>

section \<open>Lemmas\<close>

lemma uint_word32_less: "uint (w :: 32 word) < 2 ^ 32"
  using uint_lt2p [of w] by simp

lemma map_go_items:
  "map_go g (map h xs) = Ret xs" if "\<And>x. g (h x) = Ret x"
  using that by (induction xs) simp_all

lemma From_To_items [simp]:
  "FromDataItemsToDeployments (ToDataItemsFromDeployments ds) = Ret ds"
  "FromDataItemsToClusterInfoList (ToDataItemsFromClusterInfoList cs) = Ret cs"
  "FromDataItemsToClusterList (ToDataItemsFromClusterList xs) = Ret xs"
  by (simp_all add: FromDataItemsToDeployments_def ToDataItemsFromDeployments_def
      FromDataItemsToClusterInfoList_def ToDataItemsFromClusterInfoList_def
      FromDataItemsToClusterList_def ToDataItemsFromClusterList_def map_go_items)

lemma select_query_page:
  assumes "select_query req = Inr q"
  shows "1 \<le> PageSize (dsq_PaginationQuery q) \<and> PageSize (dsq_PaginationQuery q) \<le> 500
    \<and> OffSet (dsq_PaginationQuery q) = uint (in_Offset req)
    \<and> (in_PageSize req = 0 \<longrightarrow> PageSize (dsq_PaginationQuery q) = 20)
    \<and> (in_PageSize req \<noteq> 0 \<longrightarrow> PageSize (dsq_PaginationQuery q) = uint (in_PageSize req))"
proof -
  let ?p = "newPaginationQuery (in_PageSize req) (in_Offset req)"
  from assms have p: "dsq_PaginationQuery q = ?p" and v: "IsValidPagination ?p = None"
    by (auto simp: select_query_def convertPaginationParams_def Let_def split: option.splits sum.splits)
  have pos: "in_PageSize req \<noteq> 0 \<Longrightarrow> 1 \<le> uint (in_PageSize req)"
    using uint_ge_0 [of "in_PageSize req"] uint_0_iff [of "in_PageSize req"] by linarith
  from v show ?thesis
    unfolding p using pos
    by (auto simp: newPaginationQuery_def NewPaginationQuery_def DefaultPageSize_def IsValidPagination_def
        MaxPageSize_def MinPageSize_def MinOffset_def split: if_splits)
qed

lemma mset_map_inj:
  assumes "mset ys = mset (map h xs)"
  shows "\<exists>zs. ys = map h zs \<and> mset zs = mset xs"
  using assms
proof (induction ys arbitrary: xs)
  case (Cons y ys)
  then have "image_mset h (mset xs) = add_mset y (mset ys)" by simp
  from msed_map_invR [OF this] obtain N z where z: "mset xs = add_mset z N" "h z = y" "image_mset h N = mset ys"
    by blast
  obtain us where us: "mset us = N" using ex_mset by blast
  with z Cons.IH [of us] obtain zs where "ys = map h zs" "mset zs = mset us" by auto
  with z us show ?case by (intro exI [of _ "z # zs"]) simp
qed simp

text \<open>A pattern without stars is matched exactly; a star in front of it skips a part of one line.\<close>

lemma stars_plain: "CHR ''*'' \<notin> set p \<Longrightarrow> stars p s = (s = p)"
  by (induction p s rule: stars.induct) auto

lemma stars_star:
  "CHR ''*'' \<notin> set p \<Longrightarrow> stars (CHR ''*'' # p) s = (\<exists>pre. s = pre @ p \<and> CHR 0x0A \<notin> set pre)"
proof (induction s)
  case Nil
  then show ?case by (auto simp: stars_plain)
next
  case (Cons d s)
  have "(\<exists>pre. d # s = pre @ p \<and> CHR 0x0A \<notin> set pre) =
     (d # s = p \<or> d \<noteq> CHR 0x0A \<and> (\<exists>pre. s = pre @ p \<and> CHR 0x0A \<notin> set pre))"
    by (auto simp: Cons_eq_append_conv)
  with Cons show ?case by (simp add: stars_plain)
qed

text \<open>Splitting what was joined, where the separator starts with a character the parts do not have.\<close>

lemma split_go_join:
  assumes "sep = a # sep'" "a \<notin> set x"
  shows "split_go sep acc (x @ sep @ t) = (rev acc @ x) # split_go sep [] t"
  using assms(2)
proof (induction x arbitrary: acc)
  case Nil
  then show ?case by (simp add: assms(1) HasPrefix_def)
next
  case (Cons c x)
  then have "\<not> HasPrefix (c # x @ sep @ t) sep" by (auto simp: assms(1) HasPrefix_def)
  with Cons show ?case by simp
qed

lemma split_go_last:
  assumes "sep = a # sep'" "a \<notin> set x"
  shows "split_go sep acc x = [rev acc @ x]"
  using assms(2) by (induction x arbitrary: acc) (auto simp: assms(1) HasPrefix_def)

lemma Split_Join:
  assumes "sep = a # sep'" "list_all (\<lambda>x. a \<notin> set x) xs" "xs \<noteq> []"
  shows "Split (Join xs sep) sep = xs"
  using assms(3,2) unfolding Split_def
proof (induction xs rule: list_nonempty_induct)
  case (single x)
  then show ?case using split_go_last [OF assms(1)] by simp
next
  case (cons x xs)
  then obtain y ys where "xs = y # ys" by (cases xs) auto
  with cons show ?case by (simp add: split_go_join [OF assms(1)])
qed

section \<open>The page of a list request\<close>

text \<open>
  Claim C18.  A list request that is accepted gets a page of at most 500 deployments: the
  deployments its filter keeps, in the order of its order-by parameter (field by field, without
  regard to case, descending where it says so), from its offset on.  Nothing is lost or
  duplicated before the page is cut, and a request that is not accepted is answered with its
  error.  \<open>srt\<close> is the sort of package sort.
\<close>

theorem select_deployments_page:
  assumes "sorting srt" "list_all (\<lambda>d. pd_Status d \<noteq> None) deployments"
  shows "case select_query req of
      Inl err \<Rightarrow> selectDeployments L srt req deployments = Ret (Inl err)
    | Inr q \<Rightarrow>
        (\<exists>ys. selectDeployments L srt req deployments =
             Ret (Inr (take (nat (PageSize (dsq_PaginationQuery q))) (drop (unat (in_Offset req)) ys)))
           \<and> nat (PageSize (dsq_PaginationQuery q)) \<le> 500
           \<and> mset ys = mset (filter (\<lambda>d. kept L (dsq_FilterQuery q) (DeploymentItem d)) deployments)
           \<and> sorted_wrt (\<lambda>x y. cmp_by (has_field (DeploymentItem x)) (\<lambda>d. item_field (DeploymentItem d))
                (dsq_SortQuery q) x y \<le> 0) ys)"
proof (cases "select_query req")
  case (Inl e)
  then show ?thesis by (simp add: selectDeployments_def)
next
  case (Inr q)
  define p where "p = dsq_PaginationQuery q"
  define has where "has f = (f \<in> {''name'', ''displayName'', ''appName'', ''appVersion'', ''deployId'', ''status''})" for f :: string
  have has: "has_field (DeploymentItem d) = has" for d :: "'a PbDeployment"
    by (simp add: fun_eq_iff has_def)
  define ds where "ds = \<lparr>GenericDataList = map DeploymentItem deployments, ds_Query = q\<rparr>"
  from select_query_page [OF Inr] have page: "PageSize p = int (nat (PageSize p))" "PageSize p \<le> 500"
      "OffSet p = int (unat (in_Offset req))" by (simp_all add: p_def)
  have small: "int (unat (in_Offset req)) + int (nat (PageSize p)) < 2 ^ 63"
    using page(1,2) uint_word32_less [of "in_Offset req"] by simp
  have "list_all item_ok (GenericDataList ds)" "list_all (\<lambda>i. has_field i = has) (GenericDataList ds)"
    using assms(2) by (auto simp: ds_def list_all_iff has simp del: has_field.simps)
  from selection_ok [OF assms(1) this _ page(1,3) small, where L = L] obtain ys where
    run: "run_selection L srt ds = Ret (ds\<lparr>GenericDataList := take (nat (PageSize p)) (drop (unat (in_Offset req)) ys)\<rparr>)"
    and mset: "mset ys = mset (filter (kept L (dsq_FilterQuery q)) (map DeploymentItem deployments))"
    and sorted: "sorted_wrt (\<lambda>x y. cmp_by has item_field (dsq_SortQuery q) x y \<le> 0) ys"
    by (auto simp: ds_def p_def run_selection_def)
  from mset have "mset ys = mset (map DeploymentItem (filter (\<lambda>d. kept L (dsq_FilterQuery q) (DeploymentItem d)) deployments))"
    by (simp add: filter_map comp_def)
  then obtain zs where zs: "ys = map DeploymentItem zs"
      "mset zs = mset (filter (\<lambda>d. kept L (dsq_FilterQuery q) (DeploymentItem d)) deployments)"
    by (blast dest: mset_map_inj)
  have key: "cmp_by has item_field obs (DeploymentItem x) (DeploymentItem y) =
     cmp_by has (\<lambda>d. item_field (DeploymentItem d)) obs x y" for obs and x y :: "'a PbDeployment"
    by (induction obs) (simp_all add: Let_def)
  have "selectDeployments L srt req deployments = Ret (Inr (take (nat (PageSize p)) (drop (unat (in_Offset req)) zs)))"
    using run by (simp add: selectDeployments_def Inr ds_def ToDataItemsFromDeployments_def zs(1)
        take_map drop_map From_To_items(1) [unfolded ToDataItemsFromDeployments_def])
  moreover have "sorted_wrt (\<lambda>x y. cmp_by (has_field (DeploymentItem x)) (\<lambda>d. item_field (DeploymentItem d))
      (dsq_SortQuery q) x y \<le> 0) zs"
    using sorted by (simp add: zs(1) sorted_wrt_map key has)
  ultimately show ?thesis using Inr zs(2) page(2) by (auto simp: p_def)
qed
section \<open>Filters\<close>

text \<open>
  A filter parameter that joins expressions of the form field=value with OR is read
  back as exactly these filters, whatever signs the values contain.
\<close>

theorem filter_parameter_roundtrip:
  assumes "fvs \<noteq> []"
    and "list_all (\<lambda>(f, v). f \<noteq> [] \<and> v \<noteq> [] \<and> CHR ''='' \<notin> set f \<and> hd f \<noteq> CHR 0x22
      \<and> list_all (\<lambda>c. \<not> is_space c) f \<and> list_all (\<lambda>c. \<not> is_space c) v) fvs"
  shows "ParseFilterBy (Join (map (\<lambda>(f, v). f @ ''='' @ v) fvs) '' OR '') =
     Inr (map (\<lambda>(f, v). \<lparr>fb_Field = f, fb_Value = StdComparableString v\<rparr>) fvs)"
proof -
  let ?xs = "map (\<lambda>(f, v). f @ ''='' @ v) fvs"
  have space: "is_space CHR '' ''" "is_space CHR 0x0A" "is_space CHR 0x09" by (simp_all add: is_space_def)
  have xs: "list_all (\<lambda>x. CHR '' '' \<notin> set x) ?xs"
    using assms(2) space(1) by (fastforce simp: list_all_iff)
  have split: "Split (Join ?xs '' OR '') '' OR '' = ?xs"
    using xs assms(1) by (intro Split_Join [of _ "CHR '' ''" "''OR ''"]) simp_all
  obtain f v fvs' where fvs: "fvs = (f, v) # fvs'" using assms(1) by (cases fvs) auto
  have "Join ?xs '' OR '' \<noteq> []" "\<not> HasPrefix (Join ?xs '' OR '') quote"
    using assms(2) by (cases fvs'; cases f; simp add: fvs HasPrefix_def quote_def)+
  then have "ParseFilterBy (Join ?xs '' OR '') = parse_filters ?xs"
    by (simp add: ParseFilterBy_def split [simplified] Let_def)
  also have "\<dots> = Inr (map (\<lambda>(f, v). \<lparr>fb_Field = f, fb_Value = StdComparableString v\<rparr>) fvs)"
    using assms(2)
  proof (induction fvs)
    case (Cons fv fvs)
    obtain f v where fv: "fv = (f, v)" by (cases fv)
    from Cons.prems have ok: "f \<noteq> []" "v \<noteq> []" "CHR ''='' \<notin> set f" "list_all (\<lambda>c. \<not> is_space c) v"
      by (auto simp: fv)
    then have "\<not> is_blank (hd v)" "CHR 0x0A \<notin> set v"
      using space by (cases v; auto simp: is_blank_def list_all_iff)+
    then have "find_submatch (f @ ''='' @ [] @ v) = Some (f, v)"
      using ok by (intro find_submatch_simple) simp_all
    with Cons show ?case by (simp add: fv)
  qed simp
  finally show ?thesis .
qed

theorem filter_parameter_roundtrip_witness:
  "ParseFilterBy ''name=web OR status=a=b'' =
     Inr [\<lparr>fb_Field = ''name'', fb_Value = StdComparableString ''web''\<rparr>,
          \<lparr>fb_Field = ''status'', fb_Value = StdComparableString ''a=b''\<rparr>]"
  using filter_parameter_roundtrip [of "[(''name'', ''web''), (''status'', ''a=b'')]"]
  by (simp add: is_space_def)

text \<open>
  A blank before the sign of a filter expression, as in name = web, becomes a part of
  the field name.  No field has such a name, so that the selection is empty whatever the
  deployments are.
\<close>

theorem blank_before_sign_selects_nothing:
  assumes "f \<noteq> []" "CHR ''='' \<notin> set f" "hd f \<noteq> CHR 0x22" "is_blank (last f)"
    and "v \<noteq> []" "\<not> is_blank (hd v)" "CHR 0x0A \<notin> set v" "list_all is_blank b"
    and "Split (f @ ''='' @ b @ v) '' OR '' = [f @ ''='' @ b @ v]"
    and "sorting srt" "list_all (\<lambda>d. pd_Status d \<noteq> None) deployments"
    and "in_Filter req = f @ ''='' @ b @ v" "select_query req = Inr q"
  shows "selectDeployments L srt req deployments = Ret (Inr [])"
proof -
  have "find_submatch (f @ ''='' @ b @ v) = Some (f, v)"
    using assms(1-8) by (intro find_submatch_simple) simp_all
  moreover have "\<not> HasPrefix (f @ ''='' @ b @ v) quote"
    using assms(1,3) by (cases f) (simp_all add: HasPrefix_def quote_def)
  ultimately have "ParseFilterBy (in_Filter req) = Inr [\<lparr>fb_Field = f, fb_Value = StdComparableString v\<rparr>]"
    using assms(1,9) by (simp add: ParseFilterBy_def assms(12) Let_def)
  with assms(13) have fq: "dsq_FilterQuery q = [\<lparr>fb_Field = f, fb_Value = StdComparableString v\<rparr>]"
    by (auto simp: select_query_def convertPaginationParams_def NewFilterQueryFilterBy_def Let_def
        split: option.splits sum.splits)
  have "f \<notin> {''name'', ''displayName'', ''appName'', ''appVersion'', ''deployId'', ''status''}"
    using assms(4) by (auto simp: is_blank_def)
  then have none: "\<not> kept L (dsq_FilterQuery q) (DeploymentItem d)" for d :: "'a PbDeployment"
    by (simp add: kept_def fq)
  from sorting.sorts [OF assms(10), of "[]" "\<lambda>_ _. Ret False" "\<lambda>_ _. False"]
  have srt0: "srt less' [] = Ret []" for less'
    using sorting.permutes [OF assms(10), of "[]" less' "\<lambda>_ _. False"] by auto
  define ds where "ds = \<lparr>GenericDataList = map DeploymentItem deployments, ds_Query = q\<rparr>"
  have "Filter L ds = Ret (ds\<lparr>GenericDataList := []\<rparr>)"
    using assms(11) by (subst Filter_ok) (auto simp: ds_def list_all_iff none filter_empty_conv)
  then have "run_selection L srt ds = Paginate (ds\<lparr>GenericDataList := []\<rparr>)"
    by (simp add: run_selection_def Sort_def srt0)
  also have "\<dots> = Ret (ds\<lparr>GenericDataList := []\<rparr>)"
    using select_query_page [OF assms(13)] by (simp add: Paginate_def GetPaginationSettings_def IsPageAvailable_def Let_def ds_def)
  finally show ?thesis
    by (simp add: selectDeployments_def assms(13) ToDataItemsFromDeployments_def ds_def FromDataItemsToDeployments_def)
qed

text \<open>
  A star at the start of a filter value does not stand for the empty text, as a star
  at any other place does: the value *web keeps what ends in web and has at least one character
  before it, and not web itself.
\<close>

theorem leading_star_needs_a_character:
  assumes "regexp_ok L" "list_all plain_char (ToLower p)" "list_all (\<lambda>c. (of_char c :: nat) < 128) (ToLower (ToLower s))"
  shows "ContainsValue L (StdComparableString s) (StdComparableString (CHR ''*'' # p)) =
     Ret (\<exists>d pre. ToLower (ToLower s) = d # pre @ ToLower p \<and> CHR 0x0A \<notin> set (d # pre))"
proof -
  have star: "ToLower (CHR ''*'' # p) = CHR ''*'' # ToLower p" by (simp add: ToLower_def lower_char_def)
  have nostar: "CHR ''*'' \<notin> set (ToLower p)" using assms(2) by (auto simp: list_all_iff plain_char_def)
  have "Contains (CHR ''*'' # ToLower p) ''*''" by (simp add: HasPrefix_def)
  then have "ContainsValue L (StdComparableString s) (StdComparableString (CHR ''*'' # p)) =
     Ret (matchesRegx L (ToLower (ToLower s)) (checkWildcardPattern (CHR ''*'' # ToLower p)))"
    by (simp add: star Let_def)
  also have "matchesRegx L (ToLower (ToLower s)) (checkWildcardPattern (CHR ''*'' # ToLower p)) =
     (ToLower (ToLower s) \<noteq> [] \<and> hd (ToLower (ToLower s)) \<noteq> CHR 0x0A \<and> stars (CHR ''*'' # ToLower p) (tl (ToLower (ToLower s))))"
    using assms by (subst wildcard_match) (simp_all add: list.pred_mono_strong del: stars.simps)
  also have "\<dots> = (\<exists>d pre. ToLower (ToLower s) = d # pre @ ToLower p \<and> CHR 0x0A \<notin> set (d # pre))"
    by (cases "ToLower (ToLower s)") (auto simp: stars_star [OF nostar] simp del: stars.simps)
  finally show ?thesis .
qed

section \<open>A matcher for the witnesses\<close>

fun read_tokens :: "string \<Rightarrow> token list" where
  "read_tokens [] = []"
| "read_tokens [c] = (if c = CHR ''$'' then [] else [Lit c])"
| "read_tokens (c # d # r) =
     (if c = CHR ''.'' then if d = CHR ''*'' then DotStar # read_tokens r else Dot # read_tokens (d # r)
      else Lit c # read_tokens (d # r))"

definition small_textlib :: textlib where
  "small_textlib = \<lparr>lib_match = (\<lambda>p s. Some (re_matches (read_tokens (tl p)) s)), lib_time = (\<lambda>s. None)\<rparr>"

lemma read_render: "list_all plain_token ts \<Longrightarrow> read_tokens (concat (map render ts) @ ''$'') = ts"
proof (induction ts)
  case (Cons t ts)
  obtain d r where d: "concat (map render ts) @ ''$'' = d # r" by (cases "concat (map render ts)") auto
  have "d \<noteq> CHR ''*''"
    using Cons.prems d by (cases ts; cases "hd ts") (auto simp: plain_token_def plain_char_def)
  moreover have "c \<noteq> CHR ''.''" if "t = Lit c" for c
    using Cons.prems that by (auto simp: plain_token_def plain_char_def)
  ultimately show ?case using Cons d by (cases t) auto
qed simp

lemma small_textlib_ok: "regexp_ok small_textlib"
  by (simp add: regexp_ok_def small_textlib_def read_render)

theorem leading_star_needs_a_character_witness:
  "ContainsValue small_textlib (StdComparableString ''web'') (StdComparableString ''*web'') = Ret False"
  using leading_star_needs_a_character [OF small_textlib_ok, of "''web''" "''web''"]
  by (simp add: ToLower_def lower_char_def plain_char_def)

definition sample_pb :: "string \<Rightarrow> unit PbDeployment" where
  "sample_pb n = \<lparr>pd_Name = n, pd_DisplayName = [], pd_AppName = [], pd_AppVersion = [], pd_ProfileName = [],
     pd_DeployId = [], pd_OverrideValues = [], pd_TargetClusters = [],
     pd_Status = Some \<lparr>pbs_State = State_RUNNING, pbs_Message = [],
       pbs_Summary = \<lparr>ps_Total = 1, ps_Running = 1, ps_Down = 0, ps_Unknown = 0, ps_Type = []\<rparr>\<rparr>,
     pd_Apps = [], pd_DeploymentType = [], pd_NetworkName = [], pd_ServiceExports = [],
     pd_AllAppTargetClusters = None, pd_CreateTime = 0\<rparr>"

definition sample_request :: "string \<Rightarrow> string \<Rightarrow> SelectRequest" where
  "sample_request order flt = \<lparr>in_OrderBy = order, in_Filter = flt, in_PageSize = 2, in_Offset = 1\<rparr>"

definition sample_sorted_query :: "FilterBy list \<Rightarrow> DataSelectQuery" where
  "sample_sorted_query fbs = \<lparr>dsq_PaginationQuery = \<lparr>PageSize = 2, OffSet = 1\<rparr>,
     dsq_SortQuery = [\<lparr>ob_Field = ''name'', ob_Ascending = False\<rparr>], dsq_FilterQuery = fbs\<rparr>"

lemma sample_query:
  "select_query (sample_request ''name desc'' []) = Inr (sample_sorted_query [])"
  "select_query (sample_request ''name desc'' ''name = web'') =
     Inr (sample_sorted_query [\<lparr>fb_Field = ''name '', fb_Value = StdComparableString ''web''\<rparr>])"
  by code_simp+

theorem blank_before_sign_selects_nothing_witness:
  "selectDeployments small_textlib insertionSort (sample_request ''name desc'' ''name = web'')
     [sample_pb ''web'', sample_pb ''db''] = Ret (Inr [])"
  by (rule blank_before_sign_selects_nothing [of "''name ''" "''web''" "'' ''", OF _ _ _ _ _ _ _ _ _ insertion.sorting_axioms _ _ sample_query(2)])
    (simp_all add: sample_pb_def sample_request_def is_blank_def Split_def HasPrefix_def)

theorem select_deployments_page_witness:
  "\<exists>ys. selectDeployments small_textlib insertionSort (sample_request ''name desc'' [])
     [sample_pb ''web'', sample_pb ''db'', sample_pb ''API''] = Ret (Inr (take 2 (drop 1 ys)))
     \<and> length ys = 3"
proof -
  let ?ds = "[sample_pb ''web'', sample_pb ''db'', sample_pb ''API'']"
  have ok: "list_all (\<lambda>d. pd_Status d \<noteq> None) ?ds" by (simp add: sample_pb_def)
  from select_deployments_page [OF insertion.sorting_axioms ok, where req = "sample_request ''name desc'' []" and L = small_textlib]
  obtain ys where "selectDeployments small_textlib insertionSort (sample_request ''name desc'' []) ?ds =
       Ret (Inr (take 2 (drop (unat (in_Offset (sample_request ''name desc'' []))) ys)))"
    "mset ys = mset ?ds"
    by (auto simp: sample_query(1) sample_sorted_query_def kept_def)
  moreover from this(2) have "length ys = 3" by (simp flip: size_mset)
  ultimately show ?thesis by (intro exI [of _ ys]) (simp add: sample_request_def)
qed

end
