(* ===== verification/StructPb.thy ===== *)
theory StructPb
  imports NbTypes
begin

text \<open>
  The functions of internal/northbound/utils.go on the override values of a request
  (\<open>structpb.Struct\<close>): trimming, the list of keys, the conversion of a value to the type of its
  parameter template, and the masking of secrets.  A structure is the list of its fields in the
  order in which \<open>range\<close> visits them.  The code modifies structures in place; here the changed
  structure is returned.  All functions stop at a depth of \<open>maxDepth\<close>.
\<close>

definition MaskedValuePlaceholder :: string where "MaskedValuePlaceholder = ''********''"
definition maxDepth :: int where "maxDepth = 20"

section \<open>Trimming\<close>

fun trim_value :: "int \<Rightarrow> 'n PbValue \<Rightarrow> 'n PbValue"
  and trimAllPbStructStrings :: "'n PbStruct \<Rightarrow> int \<Rightarrow> 'n PbStruct" where
  "trim_value depth (StringValue s) = StringValue (if s \<noteq> [] then TrimSpace s else s)"
| "trim_value depth (StructValue fs) = StructValue (trimAllPbStructStrings fs (depth + 1))"
| "trim_value depth v = v"
| "trimAllPbStructStrings [] depth = []"
| "trimAllPbStructStrings ((k, v) # fs) depth =
     (if depth > maxDepth then (k, v) # fs
      else (k, trim_value depth v) # trimAllPbStructStrings fs depth)"

section \<open>Keys\<close>

definition removeIndex :: "string list \<Rightarrow> nat \<Rightarrow> string list go" where
  "removeIndex s index = (if index < length s then Ret (take index s @ drop (index + 1) s) else Panicked)"

fun cleanUpList :: "string list \<Rightarrow> string list \<Rightarrow> string list" where
  "cleanUpList [] list2 = []"
| "cleanUpList (item1 # list1) list2 =
     (if list_ex (\<lambda>item2. item1 = item2) list2 then cleanUpList list1 list2 else item1 # cleanUpList list1 list2)"

text \<open>
  The keys with the nested ones behind a dot, and the keys of the empty values, which are deleted.
  The empty keys that the nested call reports are those of an inner variable of the same name,
  and are lost afterwards.
\<close>

fun keys_of_value :: "int \<Rightarrow> string \<Rightarrow> 'n PbValue \<Rightarrow> string list \<Rightarrow> 'n PbValue option \<times> string list \<times> string list"
  and keys_of_fields :: "int \<Rightarrow> 'n PbStruct \<Rightarrow> string list \<Rightarrow> 'n PbStruct \<times> string list \<times> string list" where
  "keys_of_value depth k (StringValue s) empties =
     (if s = [] then (None, [k], empties @ [k]) else (Some (StringValue s), [k], empties))"
| "keys_of_value depth k (StructValue fs) empties =
     (let (fs', nestedKeys, nestedEmpties) =
            (if depth + 1 > maxDepth then (fs, [], empties) else keys_of_fields (depth + 1) fs empties)
      in (Some (StructValue fs'), k # map (\<lambda>nk. k @ ''.'' @ nk) (cleanUpList nestedKeys nestedEmpties), empties))"
| "keys_of_value depth k v empties = (Some v, [k], empties)"
| "keys_of_fields depth [] empties = ([], [], empties)"
| "keys_of_fields depth ((k, v) # fs) empties =
     (let (v', ks, empties') = keys_of_value depth k v empties;
          (fs', ks', empties'') = keys_of_fields depth fs empties'
      in ((case v' of None \<Rightarrow> fs' | Some w \<Rightarrow> (k, w) # fs'), ks @ ks', empties''))"

definition getAllPbStructKeys :: "'n PbStruct \<Rightarrow> string list \<Rightarrow> int \<Rightarrow> 'n PbStruct \<times> string list \<times> string list" where
  "getAllPbStructKeys s emptyValKeys currentDepth =
     (if currentDepth > maxDepth then (s, [], emptyValKeys) else keys_of_fields currentDepth s emptyValKeys)"

section \<open>Conversion to the type of the template\<close>

text \<open>The value of \<open>strconv.Atoi\<close> whose error is dropped: zero, or the nearest 64-bit integer.\<close>

definition atoi_value :: "string \<Rightarrow> int" where
  "atoi_value s =
     (let (neg, ds) = (case s of [] \<Rightarrow> (False, [])
        | c # cs \<Rightarrow> if c = CHR ''-'' then (True, cs) else if c = CHR ''+'' then (False, cs) else (False, s))
      in case parse_nat ds of
           None \<Rightarrow> 0
         | Some n \<Rightarrow> if neg then max (- int n) (- (2 ^ 63)) else min (int n) (2 ^ 63 - 1))"

text \<open>
  A walk that changes the value at a path of keys.  Each field compares its key with the first
  key of the path, which must exist; a structure is entered with the rest of the path.
\<close>

fun walk_value :: "(string \<Rightarrow> 'a \<Rightarrow> 'n PbValue \<times> 'a) \<Rightarrow> int \<Rightarrow> string list \<Rightarrow> 'n PbValue \<Rightarrow> 'a \<Rightarrow> ('n PbValue \<times> 'a) go"
  and walk_fields :: "(string \<Rightarrow> 'a \<Rightarrow> 'n PbValue \<times> 'a) \<Rightarrow> int \<Rightarrow> string list \<Rightarrow> 'n PbStruct \<Rightarrow> 'a \<Rightarrow> ('n PbStruct \<times> 'a) go" where
  "walk_value f depth keys (StringValue s) a = Ret (f s a)"
| "walk_value f depth keys (StructValue fs) a =
     go_bind (removeIndex keys 0) (\<lambda>keys'.
       if depth + 1 > maxDepth then Ret (StructValue fs, a)
       else go_bind (walk_fields f (depth + 1) keys' fs a) (\<lambda>(fs', a'). Ret (StructValue fs', a')))"
| "walk_value f depth keys v a = Ret (v, a)"
| "walk_fields f depth keys [] a = Ret ([], a)"
| "walk_fields f depth keys ((k, v) # fs) a =
     (case keys of
        [] \<Rightarrow> Panicked
      | key # _ \<Rightarrow>
          go_bind (if k \<noteq> key then Ret (v, a) else walk_value f depth keys v a) (\<lambda>(v', a').
          go_bind (walk_fields f depth keys fs a') (\<lambda>(fs', a''). Ret ((k, v') # fs', a''))))"

definition convert_string ::
  "(int \<Rightarrow> 'n) \<Rightarrow> string \<Rightarrow> string \<Rightarrow> int \<times> string \<Rightarrow> 'n PbValue \<times> int \<times> string" where
  "convert_string mkFloat inValType s a =
     (if inValType = ''number'' then (NumberValue (mkFloat (atoi_value s)), atoi_value s, snd a)
      else if inValType = ''boolean'' then (BoolValue (s = ''true''), fst a, s)
      else (StringValue s, a))"

definition updatePbValue ::
  "(int \<Rightarrow> 'n) \<Rightarrow> 'n PbStruct \<Rightarrow> string list \<Rightarrow> int \<Rightarrow> string \<Rightarrow> string \<Rightarrow> int \<Rightarrow> ('n PbStruct \<times> int \<times> string) go" where
  "updatePbValue mkFloat s structKeys inValInt inValStr inValType currentDepth =
     (if currentDepth > maxDepth then Ret (s, inValInt, inValStr)
      else walk_fields (convert_string mkFloat inValType) currentDepth structKeys s (inValInt, inValStr))"

section \<open>Secrets\<close>

definition maskPbValue :: "'n PbStruct \<Rightarrow> string list \<Rightarrow> string \<Rightarrow> int \<Rightarrow> ('n PbStruct \<times> string) go" where
  "maskPbValue s structKeys inValStr currentDepth =
     (if currentDepth > maxDepth then Ret (s, inValStr)
      else walk_fields (\<lambda>str _. (StringValue MaskedValuePlaceholder, str)) currentDepth structKeys s inValStr)"

text \<open>
  The placeholders are replaced by the strings that the previous secrets have under the whole
  key.  A list counts its elements.
\<close>

definition full_key :: "string \<Rightarrow> string \<Rightarrow> string" where
  "full_key pre k = (if pre \<noteq> [] then pre @ ''.'' @ k else k)"

fun unmask_value :: "'n PbStruct \<Rightarrow> string \<Rightarrow> 'n PbValue \<Rightarrow> 'n PbValue"
  and UnmaskSecrets :: "'n PbStruct \<Rightarrow> 'n PbStruct \<Rightarrow> string \<Rightarrow> 'n PbStruct"
  and unmask_items :: "'n PbStruct \<Rightarrow> string \<Rightarrow> nat \<Rightarrow> 'n PbValue list \<Rightarrow> 'n PbValue list" where
  "unmask_value previous fullKey (StringValue s) =
     (if s = MaskedValuePlaceholder
      then (case map_of previous fullKey of Some (StringValue prev) \<Rightarrow> StringValue prev | _ \<Rightarrow> StringValue s)
      else StringValue s)"
| "unmask_value previous fullKey (StructValue fs) = StructValue (UnmaskSecrets fs previous fullKey)"
| "unmask_value previous fullKey (ListValue items) = ListValue (unmask_items previous fullKey 0 items)"
| "unmask_value previous fullKey v = v"
| "UnmaskSecrets [] previous pre = []"
| "UnmaskSecrets ((k, v) # fs) previous pre =
     (k, unmask_value previous (full_key pre k) v) # UnmaskSecrets fs previous pre"
| "unmask_items previous fullKey i [] = []"
| "unmask_items previous fullKey i (item # items) =
     (case item of
        StructValue fs \<Rightarrow> StructValue (UnmaskSecrets fs previous (fullKey @ ''['' @ nat_str i @ '']''))
      | _ \<Rightarrow> item) # unmask_items previous fullKey (i + 1) items"

section \<open>Lemmas on strings\<close>

lemma dropWhile_idem: "dropWhile P (dropWhile P xs) = dropWhile P xs"
  by (induction xs) auto

lemma dropWhile_rev_dropWhile:
  assumes "xs = [] \<or> \<not> P (hd xs)"
  shows "dropWhile P (rev (dropWhile P (rev xs))) = rev (dropWhile P (rev xs))"
proof (cases xs)
  case (Cons x ys)
  with assms have "\<not> P x" by simp
  then have "dropWhile P (rev ys @ [x]) = dropWhile P (rev ys) @ [x]"
    by (cases "\<forall>y\<in>set (rev ys). P y") (auto simp: dropWhile_append3 dropWhile_append1 dropWhile_eq_Nil_conv)
  with Cons \<open>\<not> P x\<close> show ?thesis by simp
qed simp

lemma TrimSpace_idem [simp]: "TrimSpace (TrimSpace s) = TrimSpace s"
proof -
  let ?d = "dropWhile is_space"
  have "?d s = [] \<or> \<not> is_space (hd (?d s))" using hd_dropWhile by metis
  then have "?d (rev (?d (rev (?d s)))) = rev (?d (rev (?d s)))" by (rule dropWhile_rev_dropWhile)
  then show ?thesis by (simp add: TrimSpace_def dropWhile_idem)
qed

lemma Join_Cons: "xs \<noteq> [] \<Longrightarrow> Join (x # xs) sep = x @ sep @ Join xs sep"
  by (cases xs) simp_all

section \<open>Lemmas on the walks\<close>

declare walk_fields.simps(2) [simp del] walk_value.simps(2) [simp del]

text \<open>The first key of the path picks the one field that changes.\<close>

lemma walk_fields_key:
  assumes "distinct (map fst fs)"
  shows "walk_fields f depth (k # ks) fs a =
     (case map_of fs k of
        None \<Rightarrow> Ret (fs, a)
      | Some v \<Rightarrow> go_bind (walk_value f depth (k # ks) v a) (\<lambda>(v', a'). Ret (AList.update k v' fs, a')))"
  using assms
proof (induction fs arbitrary: a)
  case (Cons kv fs)
  obtain k' v where kv: "kv = (k', v)" by (cases kv)
  show ?case
  proof (cases "k' = k")
    case True
    with Cons.prems kv have "map_of fs k = None" by (simp add: map_of_eq_None_iff)
    with Cons kv True have "walk_fields f depth (k # ks) fs a' = Ret (fs, a')" for a' by simp
    then show ?thesis
      by (cases "walk_value f depth (k # ks) v a") (auto simp: kv True walk_fields.simps(2))
  next
    case False
    have IH: "walk_fields f depth (k # ks) fs a = (case map_of fs k of None \<Rightarrow> Ret (fs, a)
        | Some v \<Rightarrow> go_bind (walk_value f depth (k # ks) v a) (\<lambda>(v', a'). Ret (AList.update k v' fs, a')))"
      using Cons by (simp add: kv)
    show ?thesis
    proof (cases "map_of fs k")
      case None
      with False IH show ?thesis by (simp add: kv walk_fields.simps(2))
    next
      case (Some w)
      with False IH show ?thesis
        by (cases "walk_value f depth (k # ks) w a") (auto simp: kv walk_fields.simps(2))
    qed
  qed
qed simp

text \<open>The value at a path of keys.\<close>

fun lookup_path :: "'n PbStruct \<Rightarrow> string list \<Rightarrow> 'n PbValue option" where
  "lookup_path fs [] = None"
| "lookup_path fs [k] = map_of fs k"
| "lookup_path fs (k # k' # ks) = (case map_of fs k of Some (StructValue fs') \<Rightarrow> lookup_path fs' (k' # ks) | _ \<Rightarrow> None)"

text \<open>A structure decoded from a message has each key once, on every level.\<close>

fun distinct_value :: "'n PbValue \<Rightarrow> bool"
  and distinct_keys :: "'n PbStruct \<Rightarrow> bool" where
  "distinct_value (StructValue fs) = (distinct (map fst fs) \<and> distinct_keys fs)"
| "distinct_value v = True"
| "distinct_keys [] = True"
| "distinct_keys ((k, v) # fs) = (distinct_value v \<and> distinct_keys fs)"

definition struct_ok :: "'n PbStruct \<Rightarrow> bool" where
  "struct_ok fs = (distinct (map fst fs) \<and> distinct_keys fs)"

lemma distinct_keys_map_of: "distinct_keys fs \<Longrightarrow> map_of fs k = Some v \<Longrightarrow> distinct_value v"
  by (induction fs) (auto split: if_splits)

lemma struct_ok_nested: "struct_ok fs \<Longrightarrow> map_of fs k = Some (StructValue fs') \<Longrightarrow> struct_ok fs'"
  using distinct_keys_map_of by (fastforce simp: struct_ok_def)

text \<open>No string of the structure is the placeholder of a masked value.\<close>

fun unmasked_value :: "'n PbValue \<Rightarrow> bool"
  and unmasked :: "'n PbStruct \<Rightarrow> bool"
  and unmasked_items :: "'n PbValue list \<Rightarrow> bool" where
  "unmasked_value (StringValue s) = (s \<noteq> MaskedValuePlaceholder)"
| "unmasked_value (StructValue fs) = unmasked fs"
| "unmasked_value (ListValue vs) = unmasked_items vs"
| "unmasked_value v = True"
| "unmasked [] = True"
| "unmasked ((k, v) # fs) = (unmasked_value v \<and> unmasked fs)"
| "unmasked_items [] = True"
| "unmasked_items (v # vs) = (unmasked_value v \<and> unmasked_items vs)"

lemma unmasked_map_of: "unmasked fs \<Longrightarrow> map_of fs k = Some v \<Longrightarrow> unmasked_value v"
  by (induction fs) (auto split: if_splits)

lemma unmask_unmasked:
  "unmasked_value v \<Longrightarrow> unmask_value previous key v = v"
  "unmasked fs \<Longrightarrow> UnmaskSecrets fs previous pre = fs"
  "unmasked_items vs \<Longrightarrow> unmask_items previous key i vs = vs"
  by (induction previous key v and fs previous pre and previous key i vs
      rule: unmask_value_UnmaskSecrets_unmask_items.induct) (auto split: PbValue.splits)

lemma UnmaskSecrets_update:
  assumes "distinct (map fst fs)" "unmasked fs" "map_of fs k = Some v"
    and "unmask_value previous (full_key pre k) v' = v"
  shows "UnmaskSecrets (AList.update k v' fs) previous pre = fs"
  using assms(1-3)
proof (induction fs)
  case (Cons kv fs)
  obtain k2 v2 where kv: "kv = (k2, v2)" by (cases kv)
  show ?case
  proof (cases "k2 = k")
    case True
    with Cons.prems assms(4) show ?thesis by (simp add: kv unmask_unmasked)
  next
    case False
    with Cons show ?thesis by (simp add: kv unmask_unmasked)
  qed
qed simp

text \<open>Masking takes the string at the path out, and putting it back gives the structure again.\<close>

abbreviation mask_string :: "string \<Rightarrow> string \<Rightarrow> 'n PbValue \<times> string" where
  "mask_string \<equiv> (\<lambda>str _. (StringValue MaskedValuePlaceholder, str))"

lemma mask_walk:
  assumes "lookup_path fs keys = Some (StringValue secret)" "struct_ok fs" "unmasked fs"
    and "list_all (\<lambda>k. k \<noteq> []) keys" "depth + int (length keys) \<le> maxDepth + 1" "depth \<ge> 0"
  shows "\<exists>fs'. walk_fields mask_string depth keys fs a = Ret (fs', secret)
     \<and> lookup_path fs' keys = Some (StringValue MaskedValuePlaceholder)
     \<and> (\<forall>pre. UnmaskSecrets fs' [(full_key pre (Join keys ''.''), StringValue secret)] pre = fs)"
  using assms
proof (induction fs keys arbitrary: depth a rule: lookup_path.induct)
  case (1 fs)
  then show ?case by simp
next
  case (2 fs k)
  then have d: "distinct (map fst fs)" and k: "map_of fs k = Some (StringValue secret)"
    by (simp_all add: struct_ok_def)
  define fs' where "fs' = AList.update k (StringValue MaskedValuePlaceholder) fs"
  have "UnmaskSecrets fs' [(full_key pre k, StringValue secret)] pre = fs" for pre
    unfolding fs'_def using 2(3) d k by (intro UnmaskSecrets_update) simp_all
  moreover have "lookup_path fs' [k] = Some (StringValue MaskedValuePlaceholder)"
    by (simp add: fs'_def update_conv')
  ultimately show ?case by (simp add: walk_fields_key [OF d] k flip: fs'_def)
next
  case (3 fs k k' ks)
  then obtain g where g: "map_of fs k = Some (StructValue g)" "lookup_path g (k' # ks) = Some (StringValue secret)"
    by (auto split: option.splits PbValue.splits)
  have d: "distinct (map fst fs)" using 3(3) by (simp add: struct_ok_def)
  have ok: "struct_ok g" "unmasked g" using struct_ok_nested [OF 3(3) g(1)] unmasked_map_of [OF 3(4) g(1)] by simp_all
  from 3(6,7) have deep: "depth + 1 \<le> maxDepth" "depth + 1 + int (length (k' # ks)) \<le> maxDepth + 1" by simp_all
  from 3(1) [OF g(1) refl g(2) ok _ deep(2), of a] 3(5,7) obtain g' where
    g': "walk_fields mask_string (depth + 1) (k' # ks) g a = Ret (g', secret)"
      "lookup_path g' (k' # ks) = Some (StringValue MaskedValuePlaceholder)"
      "\<And>pre. UnmaskSecrets g' [(full_key pre (Join (k' # ks) ''.''), StringValue secret)] pre = g" by auto
  define fs' where "fs' = AList.update k (StructValue g') fs"
  have walk: "walk_fields mask_string depth (k # k' # ks) fs a = Ret (fs', secret)"
    using deep(1) by (simp add: walk_fields_key [OF d] g(1) walk_value.simps(2) removeIndex_def g'(1) fs'_def)
  have look: "lookup_path fs' (k # k' # ks) = Some (StringValue MaskedValuePlaceholder)"
    using g'(2) by (simp add: fs'_def update_conv')
  have "UnmaskSecrets fs' [(full_key pre (Join (k # k' # ks) ''.''), StringValue secret)] pre = fs" for pre
  proof -
    have "full_key (full_key pre k) (Join (k' # ks) ''.'') = full_key pre (Join (k # k' # ks) ''.'')"
      using 3(5) by (simp add: full_key_def)
    with g'(3) [of "full_key pre k"] show ?thesis
      unfolding fs'_def by (intro UnmaskSecrets_update [OF d 3(4) g(1)]) simp
  qed
  with walk look show ?case by blast
qed

section \<open>Lemmas on trimming and keys\<close>

lemma trim_idem:
  fixes v :: "'n PbValue" and fs :: "'n PbStruct"
  shows "trim_value depth (trim_value depth v) = trim_value depth v"
    and "trimAllPbStructStrings (trimAllPbStructStrings fs depth) depth = trimAllPbStructStrings fs depth"
  by (induction depth v and fs depth rule: trim_value_trimAllPbStructStrings.induct) auto

lemma set_cleanUpList: "set (cleanUpList xs ys) = set xs - set ys"
  by (induction xs) (auto simp: list_ex_iff)

lemma top_keys_listed: "set (map fst fs) \<subseteq> set (fst (snd (keys_of_fields depth fs empties)))"
proof (induction fs arbitrary: empties)
  case (Cons kv fs)
  obtain k v where kv: "kv = (k, v)" by (cases kv)
  obtain v' ks e where v: "keys_of_value depth k v empties = (v', ks, e)" by (cases "keys_of_value depth k v empties") auto
  obtain fs' ks' e' where fs: "keys_of_fields depth fs e = (fs', ks', e')" by (cases "keys_of_fields depth fs e") auto
  have "k \<in> set ks" using v by (cases v) (auto simp: Let_def split: prod.splits if_splits)
  with Cons [of e] v fs show ?case by (auto simp: kv)
qed simp

end
