(* ===== verification/GoIO.thy ===== *)
theory GoIO
  imports Prelude
begin

text \<open>
  Handlers that return an error, and may panic: computations with a result of type
  \<open>'a res go\<close>.  \<open>gtry\<close> is the sequence of two calls with the early return on an error.
\<close>

type_synonym ('s, 'a) handler = "('s, 'a res go) state"

definition gtry :: "('s, 'a) handler \<Rightarrow> ('a \<Rightarrow> ('s, 'b) handler) \<Rightarrow> ('s, 'b) handler" where
  "gtry m f = do { r \<leftarrow> m;
     case r of
       Panicked \<Rightarrow> State_Monad.return Panicked
     | Ret (Inl e) \<Rightarrow> State_Monad.return (Ret (Inl e))
     | Ret (Inr x) \<Rightarrow> f x }"

definition gret :: "'a \<Rightarrow> ('s, 'a) handler" where
  "gret x = State_Monad.return (Ret (Inr x))"

definition gfail :: "goerror \<Rightarrow> ('s, 'a) handler" where
  "gfail e = State_Monad.return (Ret (Inl e))"

definition gpanic :: "('s, 'a) handler" where
  "gpanic = State_Monad.return Panicked"

text \<open>A call that cannot panic, one that returns only an error, and a pure function that may panic.\<close>

definition glift :: "('s, 'a res) state \<Rightarrow> ('s, 'a) handler" where
  "glift m = do { r \<leftarrow> m; State_Monad.return (Ret r) }"

definition gcheck :: "('s, goerror option) state \<Rightarrow> ('s, unit) handler" where
  "gcheck m = do { e \<leftarrow> m; State_Monad.return (Ret (case e of None \<Rightarrow> Inr () | Some err \<Rightarrow> Inl err)) }"

definition gpure :: "'a res go \<Rightarrow> ('s, 'a) handler" where
  "gpure r = State_Monad.return r"

definition ggo :: "'a go \<Rightarrow> ('s, 'a) handler" where
  "ggo r = State_Monad.return (go_bind r (\<lambda>x. Ret (Inr x)))"

text \<open>The same with the error replaced on its way.\<close>

definition gmap_err :: "(goerror \<Rightarrow> goerror) \<Rightarrow> ('s, 'a) handler \<Rightarrow> ('s, 'a) handler" where
  "gmap_err h m = do { r \<leftarrow> m; State_Monad.return (case r of Ret (Inl e) \<Rightarrow> Ret (Inl (h e)) | _ \<Rightarrow> r) }"

text \<open>A call whose error the code looks at itself.\<close>

definition gcatch :: "('s, 'a) handler \<Rightarrow> ('a res \<Rightarrow> ('s, 'b) handler) \<Rightarrow> ('s, 'b) handler" where
  "gcatch m f = do { r \<leftarrow> m; case r of Panicked \<Rightarrow> State_Monad.return Panicked | Ret x \<Rightarrow> f x }"

definition gwhen :: "bool \<Rightarrow> ('s, unit) handler \<Rightarrow> ('s, unit) handler" where
  "gwhen b m = (if b then m else gret ())"

fun gfold :: "('a \<Rightarrow> 'b \<Rightarrow> ('s, 'b) handler) \<Rightarrow> 'a list \<Rightarrow> 'b \<Rightarrow> ('s, 'b) handler" where
  "gfold f [] b = gret b"
| "gfold f (x # xs) b = gtry (f x b) (gfold f xs)"

fun geach :: "('a \<Rightarrow> ('s, unit) handler) \<Rightarrow> 'a list \<Rightarrow> ('s, unit) handler" where
  "geach f [] = gret ()"
| "geach f (x # xs) = gtry (f x) (\<lambda>_. geach f xs)"

text \<open>Pure functions that return an error or panic.\<close>

definition rgo_bind :: "'a res go \<Rightarrow> ('a \<Rightarrow> 'b res go) \<Rightarrow> 'b res go" where
  "rgo_bind r f = (case r of Panicked \<Rightarrow> Panicked | Ret (Inl e) \<Rightarrow> Ret (Inl e) | Ret (Inr x) \<Rightarrow> f x)"

section \<open>Lemmas\<close>

lemma rgo_bind_simps [simp]:
  "rgo_bind Panicked f = Panicked" "rgo_bind (Ret (Inl e)) f = Ret (Inl e)" "rgo_bind (Ret (Inr x)) f = f x"
  by (simp_all add: rgo_bind_def)

lemma run_gret [io_simps, simp]: "run_state (gret x) s = (Ret (Inr x), s)"
  by (simp add: gret_def)

lemma run_gfail [io_simps, simp]: "run_state (gfail e) s = (Ret (Inl e), s)"
  by (simp add: gfail_def)

lemma run_gpanic [io_simps, simp]: "run_state gpanic s = (Panicked, s)"
  by (simp add: gpanic_def)

lemma run_gpure [io_simps, simp]: "run_state (gpure r) s = (r, s)"
  by (simp add: gpure_def)

lemma run_ggo [io_simps, simp]: "run_state (ggo r) s = (go_bind r (\<lambda>x. Ret (Inr x)), s)"
  by (simp add: ggo_def)

lemma run_glift [io_simps, simp]: "run_state (glift m) s = (case run_state m s of (r, s') \<Rightarrow> (Ret r, s'))"
  by (simp add: glift_def)

lemma run_gcheck [io_simps, simp]:
  "run_state (gcheck m) s = (case run_state m s of (e, s') \<Rightarrow> (Ret (case e of None \<Rightarrow> Inr () | Some err \<Rightarrow> Inl err), s'))"
  by (simp add: gcheck_def)

lemma run_gtry [io_simps]:
  "run_state (gtry m f) s = (case run_state m s of
      (Panicked, s') \<Rightarrow> (Panicked, s')
    | (Ret (Inl e), s') \<Rightarrow> (Ret (Inl e), s')
    | (Ret (Inr x), s') \<Rightarrow> run_state (f x) s')"
  by (auto simp: gtry_def split: prod.splits go.splits sum.splits)

lemma run_gcatch [io_simps]:
  "run_state (gcatch m f) s = (case run_state m s of (Panicked, s') \<Rightarrow> (Panicked, s') | (Ret x, s') \<Rightarrow> run_state (f x) s')"
  by (auto simp: gcatch_def split: prod.splits go.splits)

lemma run_gmap_err [io_simps]:
  "run_state (gmap_err h m) s = (case run_state m s of (r, s') \<Rightarrow> (case r of Ret (Inl e) \<Rightarrow> Ret (Inl (h e)) | _ \<Rightarrow> r, s'))"
  by (auto simp: gmap_err_def split: prod.splits)

text \<open>The effects of a handler, along its structure.\<close>

lemma does_gret [emits_intros]: "Q (Ret (Inr x)) \<Longrightarrow> does P (gret x) Q"
  by (simp add: gret_def does_return)

lemma does_gfail [emits_intros]: "Q (Ret (Inl e)) \<Longrightarrow> does P (gfail e) Q"
  by (simp add: gfail_def does_return)

lemma does_gpanic [emits_intros]: "Q Panicked \<Longrightarrow> does P gpanic Q"
  by (simp add: gpanic_def does_return)

lemma does_gpure [emits_intros]: "Q r \<Longrightarrow> does P (gpure r) Q"
  by (simp add: gpure_def does_return)

lemma does_ggo [emits_intros]: "(\<And>r. Q r) \<Longrightarrow> does P (ggo r) Q"
  by (simp add: ggo_def does_return)

lemma does_glift [emits_intros]: "does P m (\<lambda>_. True) \<Longrightarrow> (\<And>r. Q (Ret r)) \<Longrightarrow> does P (glift m) Q"
  unfolding glift_def by (rule does_bind_any) (auto intro: does_return)

lemma does_gcheck [emits_intros]: "does P m (\<lambda>_. True) \<Longrightarrow> (\<And>r. Q (Ret r)) \<Longrightarrow> does P (gcheck m) Q"
  unfolding gcheck_def by (rule does_bind_any) (auto intro: does_return)

lemma does_gtry:
  assumes "does P m (\<lambda>r. case r of Ret (Inr x) \<Rightarrow> R x | _ \<Rightarrow> True)"
    and "Q Panicked" "\<And>e. Q (Ret (Inl e))" "\<And>x. R x \<Longrightarrow> does P (f x) Q"
  shows "does P (gtry m f) Q"
  unfolding gtry_def
  by (rule does_bind [OF assms(1)]) (auto intro: does_return assms(2-) split: go.splits sum.splits)

lemma does_gtry_any [emits_intros]:
  "does P m (\<lambda>_. True) \<Longrightarrow> Q Panicked \<Longrightarrow> (\<And>e. Q (Ret (Inl e))) \<Longrightarrow> (\<And>x. does P (f x) Q) \<Longrightarrow> does P (gtry m f) Q"
  by (rule does_gtry [where R = "\<lambda>_. True"]) (auto elim: does_weaken split: go.splits sum.splits)

lemma does_gcatch [emits_intros]:
  "does P m (\<lambda>_. True) \<Longrightarrow> Q Panicked \<Longrightarrow> (\<And>x. does P (f x) Q) \<Longrightarrow> does P (gcatch m f) Q"
  unfolding gcatch_def by (rule does_bind_any) (auto intro: does_return split: go.splits)

lemma does_gmap_err [emits_intros]:
  "does P m (\<lambda>_. True) \<Longrightarrow> (\<And>r. Q r) \<Longrightarrow> does P (gmap_err h m) Q"
  unfolding gmap_err_def by (rule does_bind_any) (auto intro: does_return)

lemma does_gwhen [emits_intros]: "(b \<Longrightarrow> does P m Q) \<Longrightarrow> Q (Ret (Inr ())) \<Longrightarrow> does P (gwhen b m) Q"
  by (simp add: gwhen_def does_gret)

lemma does_gfold [emits_intros]:
  "(\<And>x b. x \<in> set xs \<Longrightarrow> does P (f x b) (\<lambda>_. True)) \<Longrightarrow> (\<And>r. Q r) \<Longrightarrow> does P (gfold f xs b) Q"
  by (induction xs arbitrary: b) (auto intro!: does_gret does_gtry_any)

lemma does_geach [emits_intros]:
  "(\<And>x. x \<in> set xs \<Longrightarrow> does P (f x) (\<lambda>_. True)) \<Longrightarrow> (\<And>r. Q r) \<Longrightarrow> does P (geach f xs) Q"
  by (induction xs) (auto intro!: does_gret does_gtry_any)

text \<open>\<open>returns m Q\<close>: whatever state \<open>m\<close> starts in, a value it returns satisfies \<open>Q\<close>.\<close>

definition returns :: "('s, 'a) handler \<Rightarrow> ('a \<Rightarrow> bool) \<Rightarrow> bool" where
  "returns m Q = post m (\<lambda>r. case r of Ret (Inr x) \<Rightarrow> Q x | _ \<Rightarrow> True)"

lemma returns_any [simp]: "returns m (\<lambda>_. True)"
  by (auto simp: returns_def post_def split: go.split sum.split)

lemma returns_simps [simp]:
  "returns (gret x) Q = Q x" "returns (gfail e) Q" "returns gpanic Q"
  by (simp_all add: returns_def gret_def gfail_def gpanic_def)

lemma returns_gtry: "returns m R \<Longrightarrow> (\<And>x. R x \<Longrightarrow> returns (f x) Q) \<Longrightarrow> returns (gtry m f) Q"
  unfolding returns_def gtry_def by (rule post_bind, assumption) (auto split: go.splits sum.splits)

lemma returns_gtry_any: "(\<And>x. returns (f x) Q) \<Longrightarrow> returns (gtry m f) Q"
  by (rule returns_gtry [of _ "\<lambda>_. True"]) auto

lemma returns_gfold:
  assumes "\<And>x b. x \<in> set xs \<Longrightarrow> I b \<Longrightarrow> returns (f x b) I"
  shows "I b \<Longrightarrow> returns (gfold f xs b) I"
  using assms by (induction xs arbitrary: b) (auto intro!: returns_gtry)

lemma gtry_gfail: "gtry (gfail e) f = gfail e"
  by (simp add: gtry_def gfail_def)

lemma gmap_err_Inr: "result (gmap_err h m) w = Ret (Inr x) \<longleftrightarrow> result m w = Ret (Inr x)"
  by (auto simp: result_def run_gmap_err split: prod.split go.split sum.split)

lemma does_gtry_returns:
  assumes "does P m (\<lambda>_. True)" "returns m R"
    and "Q Panicked" "\<And>e. Q (Ret (Inl e))" "\<And>x. R x \<Longrightarrow> does P (f x) Q"
  shows "does P (gtry m f) Q"
proof (rule does_gtry [OF _ assms(3-5)])
  show "does P m (\<lambda>r. case r of Ret (Inr x) \<Rightarrow> R x | _ \<Rightarrow> True)"
    using assms(1,2) by (simp add: does_def returns_def post_def)
qed

end
