(* ===== verification/NbDepl.thy ===== *)
theory NbDepl
  imports StructPb Catalog GoIO
begin

text \<open>
  The deployment that the northbound service builds from a request, and the pure part of its
  construction (internal/northbound/northbound.go, utils.go): the check of the parameter
  templates, the targets for all applications, and the Deployment resource made of it.

  The pointers of the code are shared in three places, where values are used here.  The list
  \<open>OverrideValuesMasked\<close> is the list of the request and \<open>OverrideValues\<close> a copy of it.  The label
  maps of the targets are those of the request; all code that writes to them is modelled by the
  targets it returns.  A child in \<open>ChildDeploymentList\<close> is only read for its package.
\<close>

section \<open>State\<close>

record ChildPackage =
  cd_AppName :: string
  cd_AppVersion :: string
  cd_ProfileName :: string

record 'n NbDeployment =
  nd_Name :: string
  nd_AppName :: string
  nd_DisplayName :: string
  nd_AppVersion :: string
  nd_ProfileName :: string
  nd_DeployID :: string
  nd_DeploymentType :: string
  nd_Project :: string
  nd_ValueSecretName :: labels
  nd_ProfileSecretName :: labels
  nd_RepoSecretName :: labels
  nd_ImageRegistrySecretName :: labels
  nd_Namespace :: string
  nd_HelmApps :: "CatHelmApp list"
  nd_OverrideValues :: "'n OverrideValues list"
  nd_OverrideValuesMasked :: "'n OverrideValues list"
  nd_TargetClusters :: "TargetClusters list"
  nd_AllAppTargetClusters :: "TargetClusters option"
  nd_ForbidsMultipleDeployments :: bool
  nd_RequiredDeploymentPackage :: "DeploymentPackageRef gomap"
  nd_ChildDeploymentList :: "ChildPackage gomap"
  nd_ActiveProjectID :: string
  nd_ServiceExports :: "ServiceExport list"
  nd_NetworkName :: string
  nd_Namespaces :: "Namespace list"
  nd_ParameterTemplateSecrets :: labels

text \<open>The libraries: JSON and YAML, the number type of a structure, and the environment.\<close>

record 'n nblib =
  nl_json_map :: "labels \<Rightarrow> string res"
  nl_json_struct :: "'n PbStruct option \<Rightarrow> string res"
  nl_unmarshal_struct :: "string \<Rightarrow> 'n PbStruct option res"
  nl_YAMLToJSON :: "string \<Rightarrow> string res"
  nl_JSONToYAML :: "string \<Rightarrow> string res"
  nl_float :: "int \<Rightarrow> 'n"
  nl_RS_PROXY_REPO :: string
  nl_RS_PROXY_REPO_SECRET :: string
  nl_RS_PROXY_REMOTE_NS :: string

section \<open>Parameter templates\<close>

text \<open>One pass over the override values of an application, which must be there.\<close>

fun for_app ::
  "string \<Rightarrow> ('n PbStruct \<Rightarrow> 'a \<Rightarrow> ('n PbStruct \<times> 'a) go) \<Rightarrow> 'n OverrideValues list \<Rightarrow> 'a \<Rightarrow> ('n OverrideValues list \<times> 'a) go" where
  "for_app name f [] a = Ret ([], a)"
| "for_app name f (oVal # oVals) a =
     (if ov_AppName oVal = name then
        (case ov_Values oVal of
           None \<Rightarrow> Panicked
         | Some s \<Rightarrow> go_bind (f s a) (\<lambda>(s', a').
             go_bind (for_app name f oVals a') (\<lambda>(oVals', a''). Ret (oVal\<lparr>ov_Values := Some s'\<rparr> # oVals', a''))))
      else go_bind (for_app name f oVals a) (\<lambda>(oVals', a'). Ret (oVal # oVals', a')))"

text \<open>Every key of the request that is the name of the template converts the value.\<close>

fun convert_keys ::
  "(int \<Rightarrow> 'n) \<Rightarrow> string \<Rightarrow> ParameterTemplate \<Rightarrow> string list \<Rightarrow> 'n OverrideValues list \<Rightarrow> 'n OverrideValues list go" where
  "convert_keys mkFloat app val [] oVals = Ret oVals"
| "convert_keys mkFloat app val (k # ks) oVals =
     (if k = pt_Name val
      then go_bind (for_app app (\<lambda>s _. go_bind (updatePbValue mkFloat s (Split (pt_Name val) ''.'') 0 [] (pt_Type val) 0)
             (\<lambda>(s', _). Ret (s', ()))) oVals ()) (\<lambda>(oVals', _). convert_keys mkFloat app val ks oVals')
      else convert_keys mkFloat app val ks oVals)"

text \<open>And masks it: the secret of the template is the last string that was masked.\<close>

definition mask_step :: "ParameterTemplate \<Rightarrow> 'n PbStruct \<Rightarrow> string \<times> labels \<Rightarrow> ('n PbStruct \<times> string \<times> labels) go" where
  "mask_step val s = (\<lambda>(secretVal, appSecretVals).
     go_bind (maskPbValue s (Split (pt_Name val) ''.'') secretVal 0) (\<lambda>(s', secretVal').
       Ret (s', secretVal', AList.update (pt_Name val) secretVal' appSecretVals)))"

fun mask_keys ::
  "string \<Rightarrow> ParameterTemplate \<Rightarrow> string list \<Rightarrow> 'n OverrideValues list \<Rightarrow> labels \<Rightarrow> ('n OverrideValues list \<times> labels) go" where
  "mask_keys app val [] masked appSecretVals = Ret (masked, appSecretVals)"
| "mask_keys app val (k # ks) masked appSecretVals =
     (if k = pt_Name val
      then go_bind (for_app app (mask_step val) masked ([], appSecretVals)) (\<lambda>(masked', _, appSecretVals').
             mask_keys app val ks masked' appSecretVals')
      else mask_keys app val ks masked appSecretVals)"

record 'n template_state =
  tp_overrides :: "'n OverrideValues list"
  tp_masked :: "'n OverrideValues list"
  tp_secrets :: labels
  tp_missing :: bool

definition check_template ::
  "(int \<Rightarrow> 'n) \<Rightarrow> string \<Rightarrow> string list \<Rightarrow> ParameterTemplate \<Rightarrow> 'n template_state \<Rightarrow> 'n template_state go" where
  "check_template mkFloat app keys val t =
     go_bind (convert_keys mkFloat app val keys (tp_overrides t)) (\<lambda>overrides.
     let missing = (tp_missing t \<or> pt_Mandatory val \<and> \<not> list_ex (\<lambda>k. k = pt_Name val) keys)
     in go_bind (if pt_Secret val then mask_keys app val keys (tp_masked t) (tp_secrets t)
                 else Ret (tp_masked t, tp_secrets t)) (\<lambda>(masked, secrets).
        Ret \<lparr>tp_overrides = overrides, tp_masked = masked, tp_secrets = secrets, tp_missing = missing\<rparr>))"

fun check_templates ::
  "(int \<Rightarrow> 'n) \<Rightarrow> string \<Rightarrow> string list \<Rightarrow> ParameterTemplate list \<Rightarrow> 'n template_state \<Rightarrow> 'n template_state go" where
  "check_templates mkFloat app keys [] t = Ret t"
| "check_templates mkFloat app keys (val # vals) t =
     go_bind (check_template mkFloat app keys val t) (check_templates mkFloat app keys vals)"

text \<open>The loop over the applications, with the names of those that miss a mandatory value.\<close>

fun check_apps ::
  "'n nblib \<Rightarrow> (string list) gomap \<Rightarrow> CatHelmApp list \<Rightarrow> 'n NbDeployment \<Rightarrow> string list \<Rightarrow> ('n NbDeployment \<times> string list) res go" where
  "check_apps NL allOverrideKeys [] d notFoundApp = Ret (Inr (d, notFoundApp))"
| "check_apps NL allOverrideKeys (app # apps) d notFoundApp =
     (let keys = (case map_of allOverrideKeys (ch_Name app) of None \<Rightarrow> [] | Some ks \<Rightarrow> ks)
      in case check_templates (nl_float NL) (ch_Name app) keys (ch_ParameterTemplates app)
             \<lparr>tp_overrides = nd_OverrideValues d, tp_masked = nd_OverrideValuesMasked d, tp_secrets = [], tp_missing = False\<rparr> of
           Panicked \<Rightarrow> Panicked
         | Ret t \<Rightarrow>
             (let d' = d\<lparr>nd_OverrideValues := tp_overrides t, nd_OverrideValuesMasked := tp_masked t\<rparr>;
                  notFoundApp' = (if tp_missing t then notFoundApp @ [ch_Name app] else notFoundApp)
              in if tp_secrets t \<noteq> [] then
                   (case nl_json_map NL (tp_secrets t) of
                      Inl err \<Rightarrow> Ret (Inl (TypedErr KInvalid (''Error: '' @ err_msg err)))
                    | Inr json \<Rightarrow> check_apps NL allOverrideKeys apps
                        (d'\<lparr>nd_ParameterTemplateSecrets := AList.update (ch_Name app) json (nd_ParameterTemplateSecrets d')\<rparr>)
                        notFoundApp')
                 else check_apps NL allOverrideKeys apps d' notFoundApp'))"

definition missing_message :: "string list \<Rightarrow> string" where
  "missing_message notFoundApp =
     (case notFoundApp of
        [a] \<Rightarrow> ''application '' @ a @ '' is missing mandatory override profile values''
      | _ \<Rightarrow> ''applications '' @ TrimSuffix (fold (\<lambda>v acc. v @ '', '' @ acc) notFoundApp []) '', '' @
             '' are missing mandatory override profile values'')"

definition checkParameterTemplate ::
  "'n nblib \<Rightarrow> 'n NbDeployment \<Rightarrow> (string list) gomap \<Rightarrow> 'n NbDeployment res go" where
  "checkParameterTemplate NL d allOverrideKeys =
     rgo_bind (check_apps NL allOverrideKeys (nd_HelmApps d)
       (d\<lparr>nd_ParameterTemplateSecrets := [], nd_OverrideValuesMasked := nd_OverrideValues d\<rparr>) [])
       (\<lambda>(d', notFoundApp).
          if notFoundApp \<noteq> [] then Ret (Inl (TypedErr KInvalid (missing_message notFoundApp)))
          else Ret (Inr d'))"

section \<open>Targets for all applications\<close>

definition merge_label :: "string \<times> string \<Rightarrow> labels option \<Rightarrow> labels option go" where
  "merge_label kv tcLabels =
     (case tcLabels of
        None \<Rightarrow> Panicked
      | Some l \<Rightarrow> Ret (Some (if map_of l (fst kv) = None then AList.update (fst kv) (snd kv) l else l)))"

fun merge_labels :: "labels \<Rightarrow> labels option \<Rightarrow> labels option go" where
  "merge_labels [] tcLabels = Ret tcLabels"
| "merge_labels (kv # kvs) tcLabels = go_bind (merge_label kv tcLabels) (merge_labels kvs)"

fun merge_app :: "string \<Rightarrow> TargetClusters \<Rightarrow> string \<Rightarrow> TargetClusters list \<Rightarrow> TargetClusters list go" where
  "merge_app dtype target name [] = Ret []"
| "merge_app dtype target name (tc # tcs) =
     go_bind (if tc_AppName tc = name \<and> dtype = AutoScaling
              then go_bind (merge_labels (case tc_Labels target of None \<Rightarrow> [] | Some l \<Rightarrow> l) (tc_Labels tc))
                     (\<lambda>l. Ret (tc\<lparr>tc_Labels := l\<rparr>))
              else Ret tc) (\<lambda>tc'. go_bind (merge_app dtype target name tcs) (\<lambda>tcs'. Ret (tc' # tcs')))"

fun merge_apps :: "string \<Rightarrow> TargetClusters \<Rightarrow> CatHelmApp list \<Rightarrow> TargetClusters list \<Rightarrow> TargetClusters list go" where
  "merge_apps dtype target [] tcs = Ret tcs"
| "merge_apps dtype target (app # apps) tcs =
     go_bind (merge_app dtype target (ch_Name app) tcs) (merge_apps dtype target apps)"

definition target_for_app :: "string \<Rightarrow> TargetClusters \<Rightarrow> CatHelmApp \<Rightarrow> TargetClusters" where
  "target_for_app dtype target app =
     \<lparr>tc_AppName = ch_Name app,
      tc_Labels = (if dtype = Targeted then None else if dtype = AutoScaling then tc_Labels target else None),
      tc_ClusterId = (if dtype = Targeted then tc_ClusterId target else [])\<rparr>"

text \<open>Called where \<open>AllAppTargetClusters\<close> is given, which is its second argument.\<close>

definition mergeAllAppTargetClusters :: "'n NbDeployment \<Rightarrow> TargetClusters \<Rightarrow> 'n NbDeployment go" where
  "mergeAllAppTargetClusters d target =
     (if nd_TargetClusters d = []
      then Ret (d\<lparr>nd_TargetClusters := map (target_for_app (nd_DeploymentType d) target) (nd_HelmApps d)\<rparr>)
      else go_bind (merge_apps (nd_DeploymentType d) target (nd_HelmApps d) (nd_TargetClusters d))
             (\<lambda>tcs. Ret (d\<lparr>nd_TargetClusters := tcs\<rparr>)))"

section \<open>The targets of an application\<close>

definition labelsMatch :: "labels \<Rightarrow> labels \<Rightarrow> bool" where
  "labelsMatch labels1 labels2 =
     (length labels1 = length labels2 \<and> list_all (\<lambda>(key, value). map_of labels2 key = Some value) labels1)"

text \<open>A targeted deployment has one target per cluster, with the labels of all requests for it.\<close>

fun find_cluster :: "string \<Rightarrow> labels list \<Rightarrow> nat option" where
  "find_cluster name [] = None"
| "find_cluster name (t # ts) =
     (if label_get t LabelClusterName = name \<and> name \<noteq> [] then Some 0 else map_option Suc (find_cluster name ts))"

definition add_targeted :: "TargetClusters \<Rightarrow> labels list \<Rightarrow> labels list go" where
  "add_targeted target targetsList =
     (case tc_Labels target of
        None \<Rightarrow> Panicked
      | Some l \<Rightarrow>
          (let l' = AList.update LabelClusterName (tc_ClusterId target) l
           in case find_cluster (label_get l' LabelClusterName) targetsList of
                Some i \<Rightarrow> Ret (targetsList[i := fold (\<lambda>(key, value). AList.update key value) l' (targetsList ! i)])
              | None \<Rightarrow> Ret (targetsList @ [l'])))"

text \<open>
  An update of an auto-scaling deployment adds the pairs of a new target that no target has yet,
  with the project of the target; without a new pair the whole target is added.
\<close>

definition has_pair :: "labels list \<Rightarrow> string \<times> string \<Rightarrow> bool" where
  "has_pair targetsList kv = list_ex (\<lambda>t. map_of t (fst kv) = Some (snd kv)) targetsList"

definition new_pairs :: "labels list \<Rightarrow> labels \<Rightarrow> labels" where
  "new_pairs targetsList l = filter (\<lambda>kv. fst kv = FleetProjectID \<or> \<not> has_pair targetsList kv) l"

definition has_new_pair :: "labels list \<Rightarrow> labels \<Rightarrow> bool" where
  "has_new_pair targetsList l = list_ex (\<lambda>kv. fst kv \<noteq> FleetProjectID \<and> \<not> has_pair targetsList kv) l"

definition add_autoscaling :: "string \<Rightarrow> labels \<Rightarrow> labels list \<Rightarrow> labels list" where
  "add_autoscaling scenario l targetsList =
     (if list_ex (\<lambda>t. labelsMatch t l) targetsList then targetsList
      else if scenario = ''update'' \<and> targetsList \<noteq> [] \<and> has_new_pair targetsList l
           then targetsList @ [new_pairs targetsList l]
           else targetsList @ [l])"

fun app_targets :: "string \<Rightarrow> string \<Rightarrow> string \<Rightarrow> TargetClusters list \<Rightarrow> labels list \<Rightarrow> labels list go" where
  "app_targets scenario dtype name [] targetsList = Ret targetsList"
| "app_targets scenario dtype name (target # targets) targetsList =
     (if name = tc_AppName target
      then go_bind (if dtype = Targeted then add_targeted target targetsList
                    else Ret (add_autoscaling scenario (case tc_Labels target of None \<Rightarrow> [] | Some l \<Rightarrow> l) targetsList))
             (app_targets scenario dtype name targets)
      else app_targets scenario dtype name targets targetsList)"

definition existing_targets :: "string \<Rightarrow> string \<Rightarrow> Deployment option \<Rightarrow> string \<Rightarrow> labels list" where
  "existing_targets scenario dtype existingDeployment name =
     (case existingDeployment of
        Some e \<Rightarrow>
          (if scenario = ''update'' \<and> dtype = AutoScaling
           then (case find (\<lambda>a. ap_Name a = name) (sp_Applications (d_Spec e)) of None \<Rightarrow> [] | Some a \<Rightarrow> ap_Targets a)
           else [])
      | None \<Rightarrow> [])"

section \<open>The Deployment resource\<close>

definition target_namespace :: "'n NbDeployment \<Rightarrow> CatHelmApp \<Rightarrow> string" where
  "target_namespace d app =
     (let ns = (case find (\<lambda>override. ch_Name app = ov_AppName override) (nd_OverrideValues d) of
                  Some override \<Rightarrow> (if ov_TargetNamespace override \<noteq> [] then ov_TargetNamespace override else ch_DefaultNamespace app)
                | None \<Rightarrow> ch_DefaultNamespace app)
      in if ns = [] then nd_Name d else ns)"

definition repo_secret :: "'n nblib \<Rightarrow> 'n NbDeployment \<Rightarrow> CatHelmApp \<Rightarrow> string" where
  "repo_secret NL d app =
     (if ch_Repo app \<noteq> [] \<and> ch_Repo app = nl_RS_PROXY_REPO NL then nl_RS_PROXY_REPO_SECRET NL
      else label_get (nd_RepoSecretName d) (ch_Name app))"

text \<open>The required packages of the deployment by ID, and the references of one application.\<close>

definition requiredDPMap :: "'n NbDeployment \<Rightarrow> DeploymentPackageRef gomap" where
  "requiredDPMap d = fold (\<lambda>(_, r). AList.update (GetDeploymentPackageID (dp_Name r) (dp_Version r) (dp_ProfileName r)) r)
     (nd_RequiredDeploymentPackage d) []"

fun dependent_packages ::
  "DeploymentPackageRef gomap \<Rightarrow> RequiredDeploymentPackage list \<Rightarrow> DeploymentPackageRef gomap \<Rightarrow> DeploymentPackageRef gomap go" where
  "dependent_packages m [] acc = Ret acc"
| "dependent_packages m (r # rs) acc =
     (case map_of m (GetID r) of
        None \<Rightarrow> Panicked
      | Some p \<Rightarrow> dependent_packages m rs (AList.update (GetID r)
          \<lparr>dp_Name = rq_Name r, dp_Version = rq_Version r, dp_ProfileName = rq_Profile r,
           dp_ForbidsMultipleDeployments = dp_ForbidsMultipleDeployments p, dp_Namespaces = []\<rparr> acc))"

definition application_of ::
  "'n nblib \<Rightarrow> 'n NbDeployment \<Rightarrow> string \<Rightarrow> Deployment option \<Rightarrow> CatHelmApp \<Rightarrow> Application go" where
  "application_of NL d scenario existingDeployment app =
     go_bind (app_targets scenario (nd_DeploymentType d) (ch_Name app) (nd_TargetClusters d)
                (existing_targets scenario (nd_DeploymentType d) existingDeployment (ch_Name app))) (\<lambda>targetsList.
     go_bind (dependent_packages (requiredDPMap d) (ch_RequiredDeploymentPackages app) []) (\<lambda>dependents.
     Ret \<lparr>ap_Name = ch_Name app, ap_Version = nd_AppVersion d, ap_Namespace = target_namespace d app,
       ap_NamespaceLabels = [], ap_Targets = targetsList,
       ap_ProfileSecretName = label_get (nd_ProfileSecretName d) (ch_Name app),
       ap_ValueSecretName = label_get (nd_ValueSecretName d) (ch_Name app),
       ap_DependsOn = ch_DependsOn app, ap_RedeployAfterUpdate = ch_RedeployAfterUpdate app,
       ap_IgnoreResources = map (\<lambda>ign. \<lparr>ir_Name = ci_Name ign, ir_Kind = ci_Kind ign, ir_Namespace = ci_Namespace ign\<rparr>)
         (ch_IgnoreResource app),
       ap_HelmApp = Some \<lparr>ha_Chart = ch_Chart app, ha_Version = ch_Version app, ha_Repo = ch_Repo app,
         ha_RepoSecretName = repo_secret NL d app, ha_ImageRegistry = ch_ImageRegistry app,
         ha_ImageRegistrySecretName = label_get (nd_ImageRegistrySecretName d) (ch_Name app)\<rparr>,
       ap_DependentDeploymentPackages = dependents,
       ap_EnableServiceExport = list_ex (\<lambda>e. ch_Name app = se_AppName e) (nd_ServiceExports d)\<rparr>))"

definition label_list :: "'n NbDeployment \<Rightarrow> labels" where
  "label_list d =
     [(''app.kubernetes.io/name'', ''deployment''), (''app.kubernetes.io/instance'', nd_Name d),
      (''app.kubernetes.io/part-of'', ''app-deployment-manager''), (''app.kubernetes.io/managed-by'', ''kustomize''),
      (''app.kubernetes.io/created-by'', ''app-deployment-manager''), (AppOrchActiveProjectID, nd_ActiveProjectID d)]"

text \<open>An update without a network keeps the one of the existing deployment.\<close>

definition network_name :: "'n NbDeployment \<Rightarrow> string \<Rightarrow> Deployment option \<Rightarrow> string" where
  "network_name d scenario existingDeployment =
     (case existingDeployment of
        Some e \<Rightarrow>
          (if scenario = ''update'' \<and> nd_NetworkName d = [] \<and> or_Name (sp_NetworkRef (d_Spec e)) \<noteq> []
           then or_Name (sp_NetworkRef (d_Spec e)) else nd_NetworkName d)
      | None \<Rightarrow> nd_NetworkName d)"

definition deployment_spec :: "'n NbDeployment \<Rightarrow> string \<Rightarrow> Application list \<Rightarrow> DeploymentSpec" where
  "deployment_spec d network applicationsList =
     \<lparr>sp_DisplayName = nd_DisplayName d, sp_Project = nd_Project d,
      sp_DeploymentPackageRef = \<lparr>dp_Name = nd_AppName d, dp_Version = nd_AppVersion d, dp_ProfileName = nd_ProfileName d,
        dp_ForbidsMultipleDeployments = nd_ForbidsMultipleDeployments d, dp_Namespaces = nd_Namespaces d\<rparr>,
      sp_Applications = applicationsList, sp_DeploymentType = deploymentType (nd_DeploymentType d),
      sp_ChildDeploymentList = [],
      sp_NetworkRef = \<lparr>or_Name = network, or_Kind = ''Network'', or_APIVersion = ''network.edge-orchestrator.intel/v1''\<rparr>\<rparr>"

definition createDeploymentCr ::
  "'n nblib \<Rightarrow> 'n NbDeployment \<Rightarrow> string \<Rightarrow> string \<Rightarrow> Deployment option \<Rightarrow> Deployment res go" where
  "createDeploymentCr NL d scenario resourceVersion existingDeployment =
     go_bind (map_go (application_of NL d scenario existingDeployment) (nd_HelmApps d)) (\<lambda>applicationsList.
     let meta = empty_meta\<lparr>om_Name := nd_Name d, om_Namespace := nd_Namespace d, om_Labels := Some (label_list d)\<rparr>;
         spec = deployment_spec d (network_name d scenario existingDeployment) applicationsList
     in if scenario = ''create'' then Ret (Inr (empty_deployment\<lparr>d_Meta := meta, d_Spec := spec\<rparr>))
        else if scenario = ''update'' then
          Ret (Inr (empty_deployment\<lparr>d_Meta := meta\<lparr>om_ResourceVersion := resourceVersion\<rparr>, d_Spec := spec\<rparr>))
        else Ret (Inl (TypedErr KInvalid (''cannot '' @ scenario @ '' deployment''))))"

end
