(* ===== verification/NbGraph.thy ===== *)
theory NbGraph
  imports NbDepl ClusterTypes
begin

text \<open>
  The dependency graph of deployments (internal/northbound/app\_dependency.go): the deployments
  that a delete request reaches, the check that no other deployment depends on them, the
  relationship of a deployment with its children, and the targets that a child inherits.
\<close>

section \<open>The deployments of a delete request\<close>

text \<open>A deployment that is not in the cluster is in the target list as a nil pointer.\<close>

type_synonym target_list = "Deployment option gomap"

fun getTargetDeploymentsForDeleteDeployment ::
    "nat \<Rightarrow> string \<Rightarrow> target_list \<Rightarrow> Deployment gomap \<Rightarrow> target_list res"
  and get_targets_of_children ::
    "nat \<Rightarrow> string list \<Rightarrow> target_list \<Rightarrow> Deployment gomap \<Rightarrow> target_list res" where
  "getTargetDeploymentsForDeleteDeployment 0 rootName targetList allDeployments =
     Inl (PlainErr ''maximum recursion depth reached'')"
| "getTargetDeploymentsForDeleteDeployment (Suc n) rootName targetList allDeployments =
     (let targetList' = AList.update rootName (map_of allDeployments rootName) targetList
      in case map_of allDeployments rootName of
           None \<Rightarrow> Inr targetList'
         | Some d \<Rightarrow> get_targets_of_children n (map fst (sp_ChildDeploymentList (d_Spec d))) targetList' allDeployments)"
| "get_targets_of_children n [] targetList allDeployments = Inr targetList"
| "get_targets_of_children n (k # ks) targetList allDeployments =
     (case getTargetDeploymentsForDeleteDeployment n k targetList allDeployments of
        Inl err \<Rightarrow> Inl err
      | Inr targetList' \<Rightarrow> get_targets_of_children n ks targetList' allDeployments)"

text \<open>The first call is at depth 0, and a call at a depth over \<open>maxDepth\<close> fails: the model counts down.\<close>

definition delete_depth :: nat where "delete_depth = 21"

definition parents_of :: "Deployment \<Rightarrow> string list" where
  "parents_of d = (case st_ParentDeploymentList (d_Status d) of None \<Rightarrow> [] | Some ps \<Rightarrow> map fst ps)"

fun validate_entries :: "target_list \<Rightarrow> target_list \<Rightarrow> bool go" where
  "validate_entries targetList [] = Ret True"
| "validate_entries targetList ((k, v) # es) =
     (case v of
        None \<Rightarrow> Panicked
      | Some d \<Rightarrow>
          (if list_all (\<lambda>p. map_of targetList p \<noteq> None) (parents_of d) then validate_entries targetList es
           else Ret False))"

definition validateTargetDeployments :: "target_list \<Rightarrow> bool go" where
  "validateTargetDeployments targetList = validate_entries targetList targetList"

section \<open>Relationships\<close>

fun getDeploymentWithDeploymentPackage :: "string \<Rightarrow> 'n NbDeployment gomap \<Rightarrow> (string \<times> 'n NbDeployment) option" where
  "getDeploymentWithDeploymentPackage dpID [] = None"
| "getDeploymentWithDeploymentPackage dpID ((k, v) # depls) =
     (if dpID = GetDeploymentPackageID (nd_AppName v) (nd_AppVersion v) (nd_ProfileName v) then Some (k, v)
      else getDeploymentWithDeploymentPackage dpID depls)"

definition dependent_ref :: "string \<Rightarrow> ChildPackage \<Rightarrow> DependentDeploymentRef" where
  "dependent_ref k v =
     \<lparr>dd_DeploymentPackageRef = \<lparr>dp_Name = cd_AppName v, dp_Version = cd_AppVersion v, dp_ProfileName = cd_ProfileName v,
        dp_ForbidsMultipleDeployments = False, dp_Namespaces = []\<rparr>,
      dd_DeploymentName = k\<rparr>"

definition addRelationshipToDeploymentCR :: "'n NbDeployment \<Rightarrow> Deployment \<Rightarrow> Deployment" where
  "addRelationshipToDeploymentCR d deploymentCR =
     deploymentCR\<lparr>d_Spec := (d_Spec deploymentCR)\<lparr>sp_ChildDeploymentList :=
       fold (\<lambda>(k, v). AList.update k (dependent_ref k v)) (nd_ChildDeploymentList d)
         (sp_ChildDeploymentList (d_Spec deploymentCR))\<rparr>\<rparr>"

definition crs_with_package :: "string \<Rightarrow> Deployment list \<Rightarrow> Deployment list" where
  "crs_with_package dpID items =
     filter (\<lambda>d. let r = sp_DeploymentPackageRef (d_Spec d)
        in GetDeploymentPackageID (dp_Name r) (dp_Version r) (dp_ProfileName r) = dpID) items"

section \<open>Targets of a child\<close>

text \<open>\<open>reflect.DeepEqual\<close> of two maps: the same pairs.\<close>

definition map_equal :: "labels \<Rightarrow> labels \<Rightarrow> bool" where
  "map_equal a b = (length a = length b \<and> list_all (\<lambda>(k, v). map_of b k = Some v) a)"

definition containTargetCluster :: "labels list \<Rightarrow> labels \<Rightarrow> bool" where
  "containTargetCluster list input = list_ex (\<lambda>e. map_equal e input) list"

text \<open>The map is the one of the input where it has one, so that the cluster is set in the input too.\<close>

definition getTargetClusterMap :: "TargetClusters \<Rightarrow> labels" where
  "getTargetClusterMap input =
     (let result = (case tc_Labels input of None \<Rightarrow> [] | Some l \<Rightarrow> l)
      in if tc_ClusterId input \<noteq> [] then AList.update LabelClusterName (tc_ClusterId input) result else result)"

definition share_labels :: "labels \<Rightarrow> TargetClusters \<Rightarrow> TargetClusters" where
  "share_labels l tc = (if tc_Labels tc = None then tc else tc\<lparr>tc_Labels := Some l\<rparr>)"

fun add_entry_to_apps :: "string \<Rightarrow> TargetClusters \<Rightarrow> Application list \<Rightarrow> Application list" where
  "add_entry_to_apps activeProjectID tc [] = []"
| "add_entry_to_apps activeProjectID tc (app # apps) =
     (let tcForApp = getTargetClusterMap tc;
          tc' = share_labels tcForApp tc
      in if tc_AppName tc = ap_Name app \<and> \<not> containTargetCluster (ap_Targets app) tcForApp \<and> length tcForApp > 0
         then (let l = AList.update ClusterOrchKeyProjectID activeProjectID tcForApp
               in app\<lparr>ap_Targets := ap_Targets app @ [l]\<rparr> # add_entry_to_apps activeProjectID (share_labels l tc') apps)
         else app # add_entry_to_apps activeProjectID tc' apps)"

definition addTargetClusterEntry :: "TargetClusters list \<Rightarrow> Deployment \<Rightarrow> string \<Rightarrow> Deployment" where
  "addTargetClusterEntry newTargetClusters deploymentCR activeProjectID =
     fold (\<lambda>tc cr. cr\<lparr>d_Spec := (d_Spec cr)\<lparr>sp_Applications :=
         add_entry_to_apps activeProjectID tc (sp_Applications (d_Spec cr))\<rparr>\<rparr>) newTargetClusters deploymentCR"

section \<open>Reachability\<close>

text \<open>One step of the graph: \<open>b\<close> is a child of the deployment \<open>a\<close>.\<close>

inductive child :: "Deployment gomap \<Rightarrow> string \<Rightarrow> string \<Rightarrow> bool" for m where
  childI: "map_of m a = Some d \<Longrightarrow> b \<in> set (map fst (sp_ChildDeploymentList (d_Spec d))) \<Longrightarrow> child m a b"

inductive_simps child_iff: "child m a b"

inductive depends :: "Deployment gomap \<Rightarrow> string \<Rightarrow> string \<Rightarrow> bool" for m where
  refl: "depends m a a"
| step: "child m a b \<Longrightarrow> depends m b c \<Longrightarrow> depends m a c"

inductive_cases dependsE: "depends m a c"

text \<open>Paths of a given length.\<close>

fun dep_path :: "Deployment gomap \<Rightarrow> nat \<Rightarrow> string \<Rightarrow> bool" where
  "dep_path m 0 a = True"
| "dep_path m (Suc n) a = (case map_of m a of None \<Rightarrow> False
     | Some d \<Rightarrow> list_ex (dep_path m n) (map fst (sp_ChildDeploymentList (d_Spec d))))"

lemma depends_unfold: "depends m a c \<longleftrightarrow> c = a \<or> (\<exists>b. child m a b \<and> depends m b c)"
  by (subst depends.simps) auto

lemma depends_trans: "depends m a b \<Longrightarrow> depends m b c \<Longrightarrow> depends m a c"
  by (induction rule: depends.induct) (auto intro: depends.step)

definition is_entry :: "Deployment gomap \<Rightarrow> target_list \<Rightarrow> bool" where
  "is_entry m tg = (\<forall>k v. map_of tg k = Some v \<longrightarrow> v = map_of m k)"

text \<open>
  The walk adds exactly the deployments below its root, whatever was in the list before, and
  fails exactly where the graph has a path that is too long.
\<close>

lemma get_targets_dom:
  "getTargetDeploymentsForDeleteDeployment n r tg m = Inr tg' \<Longrightarrow>
     dom (map_of tg') = dom (map_of tg) \<union> {k. depends m r k} \<and> (is_entry m tg \<longrightarrow> is_entry m tg')"
  "get_targets_of_children n ks tg m = Inr tg' \<Longrightarrow>
     dom (map_of tg') = dom (map_of tg) \<union> {k. \<exists>r \<in> set ks. depends m r k} \<and> (is_entry m tg \<longrightarrow> is_entry m tg')"
proof (induction n r tg m and n ks tg m arbitrary: tg' and tg'
    rule: getTargetDeploymentsForDeleteDeployment_get_targets_of_children.induct)
  case (1 r tg m)
  then show ?case by simp
next
  case (2 n r tg m)
  define tg1 where "tg1 = AList.update r (map_of m r) tg"
  have dom1: "dom (map_of tg1) = insert r (dom (map_of tg))" by (auto simp: tg1_def update_conv')
  have ent: "is_entry m tg \<longrightarrow> is_entry m tg1" by (simp add: is_entry_def tg1_def update_conv')
  show ?case
  proof (cases "map_of m r")
    case None
    then have "depends m r k \<longleftrightarrow> k = r" for k
      by (subst depends_unfold) (auto simp: child_iff)
    with None 2(2) dom1 ent show ?thesis by (simp add: Let_def tg1_def)
  next
    case (Some d)
    let ?ks = "map fst (sp_ChildDeploymentList (d_Spec d))"
    from Some 2(2) have "get_targets_of_children n ?ks tg1 m = Inr tg'" by (simp add: Let_def tg1_def)
    with 2(1) [OF tg1_def Some] have
      *: "dom (map_of tg') = dom (map_of tg1) \<union> {k. \<exists>r \<in> set ?ks. depends m r k} \<and> (is_entry m tg1 \<longrightarrow> is_entry m tg')"
      by blast
    have "depends m r k \<longleftrightarrow> k = r \<or> (\<exists>b \<in> set ?ks. depends m b k)" for k
      using Some by (subst depends_unfold) (auto simp: child_iff)
    with * dom1 ent show ?thesis by auto
  qed
next
  case (3 n tg m)
  then show ?case by simp
next
  case (4 n k ks tg m)
  then obtain tg1 where "getTargetDeploymentsForDeleteDeployment n k tg m = Inr tg1"
    "get_targets_of_children n ks tg1 m = Inr tg'" by (auto split: sum.splits)
  with 4(1) [OF this(1)] 4(2) [OF this(1,2)] show ?case by auto
qed

lemma get_targets_fails_iff:
  "(\<exists>e. getTargetDeploymentsForDeleteDeployment n r tg m = Inl e) \<longleftrightarrow> dep_path m n r"
  "(\<exists>e. get_targets_of_children n ks tg m = Inl e) \<longleftrightarrow> list_ex (dep_path m n) ks"
proof (induction n r tg m and n ks tg m rule: getTargetDeploymentsForDeleteDeployment_get_targets_of_children.induct)
  case (2 n r tg m)
  then show ?case by (cases "map_of m r") (simp_all add: Let_def)
next
  case (4 n k ks tg m)
  then show ?case by (cases "getTargetDeploymentsForDeleteDeployment n k tg m") auto
qed simp_all

text \<open>The check panics at a deployment that is not there, and otherwise looks at all parents.\<close>

lemma validate_entries_Ret:
  "list_all (\<lambda>(k, v). v \<noteq> None) es \<Longrightarrow> validate_entries tg es =
     Ret (list_all (\<lambda>(k, v). case v of None \<Rightarrow> True | Some d \<Rightarrow> list_all (\<lambda>p. map_of tg p \<noteq> None) (parents_of d)) es)"
  by (induction tg es rule: validate_entries.induct) (auto split: option.splits)

lemma validate_entries_True:
  "validate_entries tg es = Ret True \<Longrightarrow> (k, v) \<in> set es \<Longrightarrow>
     \<exists>d. v = Some d \<and> (\<forall>p \<in> set (parents_of d). map_of tg p \<noteq> None)"
  by (induction tg es rule: validate_entries.induct) (auto split: option.splits if_splits simp: list_all_iff)

lemma distinct_AList_update: "distinct (map fst m) \<Longrightarrow> distinct (map fst (AList.update k v m))"
  by (rule distinct_update)

lemma get_targets_distinct:
  "getTargetDeploymentsForDeleteDeployment n r tg m = Inr tg' \<Longrightarrow> distinct (map fst tg) \<Longrightarrow> distinct (map fst tg')"
  "get_targets_of_children n ks tg m = Inr tg' \<Longrightarrow> distinct (map fst tg) \<Longrightarrow> distinct (map fst tg')"
proof (induction n r tg m and n ks tg m arbitrary: tg' and tg'
    rule: getTargetDeploymentsForDeleteDeployment_get_targets_of_children.induct)
  case (2 n r tg m)
  have "distinct (map fst (AList.update r (map_of m r) tg))" using 2(3) by (rule distinct_update)
  with 2 show ?case by (cases "map_of m r") (simp_all add: Let_def)
next
  case (4 n k ks tg m)
  then obtain tg1 where "getTargetDeploymentsForDeleteDeployment n k tg m = Inr tg1"
    "get_targets_of_children n ks tg1 m = Inr tg'" by (auto split: sum.splits)
  with 4(1) [OF this(1)] 4(2) [OF this(1,2)] 4(4) show ?case by blast
qed simp_all

end
