(* ===== verification/NbStatus.thy ===== *)
theory NbStatus
  imports NbDepl ApiTypes
begin

text \<open>
  The messages that the service makes of the resources (internal/northbound/northbound.go,
  utils.go): clusters, the targets of a deployment with the clusters they matched, the label
  filter, and the counts of clusters by state, which are 32-bit integers.
\<close>

section \<open>Clusters\<close>

definition pb_summary :: "Summary \<Rightarrow> PbSummary" where
  "pb_summary s = \<lparr>ps_Total = ToInt32Clamped (su_Total s), ps_Running = ToInt32Clamped (su_Running s),
     ps_Down = ToInt32Clamped (su_Down s), ps_Unknown = ToInt32Clamped (su_Unknown s), ps_Type = su_Type s\<rparr>"

definition pb_status :: "Status \<Rightarrow> PbStatus" where
  "pb_status s = \<lparr>pbs_State = deploymentState (ss_State s), pbs_Message = ss_Message s, pbs_Summary = pb_summary (ss_Summary s)\<rparr>"

definition pb_apps :: "App list \<Rightarrow> PbApp list" where
  "pb_apps = map (\<lambda>app. \<lparr>pa_Name = pp_Name app, pa_Id = pp_Id app, pa_Status = pb_status (pp_Status app)\<rparr>)"

definition createDeploymentClusterCr :: "DeploymentCluster \<Rightarrow> PbCluster" where
  "createDeploymentClusterCr dc =
     \<lparr>pc_Name = dct_Name (dc_Status dc), pc_Id = dcs_ClusterID (dc_Spec dc),
      pc_Status = pb_status (dct_Status (dc_Status dc)), pc_Apps = pb_apps (dct_Apps (dc_Status dc))\<rparr>"

record DeploymentInstancesCluster =
  di_DeploymentUid :: string
  di_DeploymentName :: string
  di_DeploymentDisplayName :: string
  di_Status :: PbStatus
  di_Apps :: "PbApp list"

definition createDeploymentInstanceCluster ::
  "DeploymentCluster \<Rightarrow> string \<Rightarrow> string \<Rightarrow> string \<Rightarrow> DeploymentInstancesCluster" where
  "createDeploymentInstanceCluster dc deploymentUID deploymentName deploymentDisplayName =
     \<lparr>di_DeploymentUid = deploymentUID, di_DeploymentName = deploymentName,
      di_DeploymentDisplayName = deploymentDisplayName, di_Status = pb_status (dct_Status (dc_Status dc)),
      di_Apps = pb_apps (dct_Apps (dc_Status dc))\<rparr>"

section \<open>The label filter\<close>

definition pair_matches :: "labels \<Rightarrow> string \<Rightarrow> bool" where
  "pair_matches labelCheck v =
     (case Split v ''='' of
        k # value # _ \<Rightarrow> map_of labelCheck k = Some value
      | _ \<Rightarrow> False)"

definition checkFilter :: "string list \<Rightarrow> labels \<Rightarrow> bool" where
  "checkFilter checkFilters labelCheck =
     list_ex (\<lambda>labelSet. list_ex (pair_matches labelCheck) (Split labelSet '','')) checkFilters"

text \<open>Without filters every deployment matches, otherwise any target of any application may.\<close>

definition deployment_matches :: "string list \<Rightarrow> Deployment \<Rightarrow> bool" where
  "deployment_matches checkFilters d =
     (checkFilters = [] \<or> list_ex (\<lambda>app. list_ex (checkFilter checkFilters) (ap_Targets app)) (sp_Applications (d_Spec d)))"

section \<open>The targets of a deployment\<close>

definition of_deployment :: "string \<Rightarrow> DeploymentCluster list \<Rightarrow> DeploymentCluster list" where
  "of_deployment uid dcs = filter (\<lambda>dc. label_get (labels_of (dc_Meta dc)) LabelDeploymentID = uid) dcs"

definition add_cluster :: "string \<Rightarrow> string \<Rightarrow> (string list) gomap \<Rightarrow> (string list) gomap" where
  "add_cluster clusterID app m = AList.update app ((case map_of m app of None \<Rightarrow> [] | Some ids \<Rightarrow> ids) @ [clusterID]) m"

definition appClusterMap :: "Deployment \<Rightarrow> DeploymentCluster list \<Rightarrow> (string list) gomap" where
  "appClusterMap d dcs =
     (if sp_DeploymentType (d_Spec d) = AutoScaling
      then fold (\<lambda>dc m. if dcs_ClusterID (dc_Spec dc) = [] then m
                        else fold (\<lambda>app. add_cluster (dcs_ClusterID (dc_Spec dc)) (pp_Name app)) (dct_Apps (dc_Status dc)) m)
             (of_deployment (om_UID (d_Meta d)) dcs) []
      else [])"

definition selector_matches :: "labels \<Rightarrow> labels \<Rightarrow> bool" where
  "selector_matches actualClusterLabels selector =
     list_all (\<lambda>(k, v). k = FleetProjectID \<or> label_get actualClusterLabels k = v) selector"

text \<open>The selector that a cluster is shown with: the first that matches its labels, or the first.\<close>

definition matched_selector :: "labels gomap \<Rightarrow> labels list \<Rightarrow> string \<Rightarrow> labels option" where
  "matched_selector clusterLabelsMap labelCheckList clusterID =
     (let fallback = (case labelCheckList of [] \<Rightarrow> None | s # _ \<Rightarrow> Some s)
      in case map_of clusterLabelsMap clusterID of
           None \<Rightarrow> fallback
         | Some actual \<Rightarrow> (case find (selector_matches actual) labelCheckList of None \<Rightarrow> fallback | Some s \<Rightarrow> Some s))"

definition shown_targets ::
  "DeploymentType \<Rightarrow> (string list) gomap \<Rightarrow> labels gomap \<Rightarrow> Application \<Rightarrow> labels \<Rightarrow> TargetClusters list" where
  "shown_targets dtype acm clusterLabelsMap app l =
     (case map_of l LabelClusterName of
        Some c \<Rightarrow> [\<lparr>tc_AppName = ap_Name app, tc_Labels = Some l, tc_ClusterId = c\<rparr>]
      | None \<Rightarrow>
          (if dtype = AutoScaling
           then (case map_of acm (ap_Name app) of
                   Some (c # cs) \<Rightarrow> map (\<lambda>clusterID. \<lparr>tc_AppName = ap_Name app,
                       tc_Labels = matched_selector clusterLabelsMap (ap_Targets app) clusterID, tc_ClusterId = clusterID\<rparr>) (c # cs)
                 | _ \<Rightarrow> (case ap_Targets app of [] \<Rightarrow> []
                         | s # _ \<Rightarrow> [\<lparr>tc_AppName = ap_Name app, tc_Labels = Some s, tc_ClusterId = []\<rparr>]))
           else []))"

definition target_clusters_of :: "Deployment \<Rightarrow> DeploymentCluster list \<Rightarrow> labels gomap \<Rightarrow> TargetClusters list" where
  "target_clusters_of d dcs clusterLabelsMap =
     concat (map (\<lambda>app. concat (map (shown_targets (sp_DeploymentType (d_Spec d)) (appClusterMap d dcs) clusterLabelsMap app)
       (ap_Targets app))) (sp_Applications (d_Spec d)))"

definition cluster_summary_pb :: "ClusterSummary \<Rightarrow> PbSummary" where
  "cluster_summary_pb s = \<lparr>ps_Total = ToInt32Clamped (cs_Total s), ps_Running = ToInt32Clamped (cs_Running s),
     ps_Down = ToInt32Clamped (cs_Down s), ps_Unknown = ToInt32Clamped (cs_Unknown s), ps_Type = ClusterCounts\<rparr>"

definition nanosecond_seconds :: "int \<Rightarrow> int" where
  "nanosecond_seconds t = t div 1000000000"

text \<open>The answer, from the parts that need the cluster and the secrets.\<close>

definition deployment_response ::
  "Deployment \<Rightarrow> DeploymentCluster list \<Rightarrow> labels gomap \<Rightarrow> 'n OverrideValues list \<Rightarrow> 'n PbDeployment" where
  "deployment_response d dcs clusterLabelsMap overrideValuesList =
     \<lparr>pd_Name = om_Name (d_Meta d), pd_DisplayName = sp_DisplayName (d_Spec d),
      pd_AppName = dp_Name (sp_DeploymentPackageRef (d_Spec d)), pd_AppVersion = dp_Version (sp_DeploymentPackageRef (d_Spec d)),
      pd_ProfileName = dp_ProfileName (sp_DeploymentPackageRef (d_Spec d)), pd_DeployId = om_UID (d_Meta d),
      pd_OverrideValues = overrideValuesList, pd_TargetClusters = target_clusters_of d dcs clusterLabelsMap,
      pd_Status = Some \<lparr>pbs_State = deploymentState (st_State (d_Status d)), pbs_Message = st_Message (d_Status d),
        pbs_Summary = cluster_summary_pb (st_Summary (d_Status d))\<rparr>,
      pd_Apps = concat (map (\<lambda>dc. pc_Apps (createDeploymentClusterCr dc)) dcs),
      pd_DeploymentType = sp_DeploymentType (d_Spec d), pd_NetworkName = [], pd_ServiceExports = [],
      pd_AllAppTargetClusters = None, pd_CreateTime = nanosecond_seconds (om_CreationTimestamp (d_Meta d))\<rparr>"

section \<open>The counts\<close>

record StatusCounts =
  sc_Total :: "32 word"
  sc_Running :: "32 word"
  sc_Down :: "32 word"
  sc_Deploying :: "32 word"
  sc_Updating :: "32 word"
  sc_Terminating :: "32 word"
  sc_Unknown :: "32 word"
  sc_Error :: "32 word"

definition add_count :: "32 word \<Rightarrow> 32 word \<Rightarrow> 32 word" where
  "add_count a b = (if sint (a + b) < 0 then 0 else a + b)"

definition count_deployment :: "PbStatus \<Rightarrow> StatusCounts \<Rightarrow> StatusCounts" where
  "count_deployment status c =
     (let s = pbs_Summary status;
          c = c\<lparr>sc_Total := add_count (sc_Total c) (ps_Total s)\<rparr>
      in case pbs_State status of
           State_ERROR \<Rightarrow> c\<lparr>sc_Error := add_count (sc_Error c) (ps_Total s)\<rparr>
         | State_TERMINATING \<Rightarrow> c\<lparr>sc_Terminating := add_count (sc_Terminating c) (ps_Total s)\<rparr>
         | st \<Rightarrow>
             (let c = c\<lparr>sc_Running := add_count (sc_Running c) (ps_Running s)\<rparr>
              in case st of
                   State_DEPLOYING \<Rightarrow> c\<lparr>sc_Deploying := add_count (sc_Deploying c) (ps_Down s)\<rparr>
                 | State_UPDATING \<Rightarrow> c\<lparr>sc_Updating := add_count (sc_Updating c) (ps_Down s)\<rparr>
                 | State_UNKNOWN \<Rightarrow> c\<lparr>sc_Unknown := add_count (sc_Unknown c) (ps_Unknown s)\<rparr>
                 | _ \<Rightarrow> c\<lparr>sc_Down := add_count (sc_Down c) (ps_Down s)\<rparr>))"

definition zero_status_counts :: StatusCounts where
  "zero_status_counts = \<lparr>sc_Total = 0, sc_Running = 0, sc_Down = 0, sc_Deploying = 0, sc_Updating = 0,
     sc_Terminating = 0, sc_Unknown = 0, sc_Error = 0\<rparr>"

text \<open>A deployment without a status would be dereferenced.\<close>

fun count_deployments :: "'n PbDeployment list \<Rightarrow> StatusCounts \<Rightarrow> StatusCounts go" where
  "count_deployments [] c = Ret c"
| "count_deployments (d # ds) c =
     (case pd_Status d of None \<Rightarrow> Panicked | Some status \<Rightarrow> count_deployments ds (count_deployment status c))"

text \<open>Clusters of deployments that are gone do not count.\<close>

definition valid_clusters :: "Deployment list \<Rightarrow> DeploymentCluster list \<Rightarrow> DeploymentCluster list" where
  "valid_clusters deployments dcs =
     filter (\<lambda>dc. list_ex (\<lambda>d. om_UID (d_Meta d) = label_get (labels_of (dc_Meta dc)) LabelDeploymentID) deployments) dcs"

section \<open>Lemmas\<close>

lemma sint_add_32:
  assumes "0 \<le> sint (a :: 32 word)" "0 \<le> sint b"
  shows "sint (a + b) = (if sint a + sint b < 2 ^ 31 then sint a + sint b else sint a + sint b - 2 ^ 32)"
proof -
  have "sint (a + b) = signed_take_bit 31 (sint a + sint b)" by (simp add: sint_word_ariths(1))
  moreover have "sint a < 2 ^ 31" "sint b < 2 ^ 31" using sint_lt [of a] sint_lt [of b] by simp_all
  ultimately show ?thesis
  proof (cases "sint a + sint b < 2 ^ 31")
    case True
    with assms have "signed_take_bit 31 (sint a + sint b) = sint a + sint b"
      by (intro signed_take_bit_int_eq_self) simp_all
    with True \<open>sint (a + b) = _\<close> show ?thesis by simp
  next
    case False
    have "signed_take_bit 31 (sint a + sint b) = signed_take_bit 31 (sint a + sint b - 2 ^ 32)"
      by (rule signed_take_bit_eq_iff_take_bit_eq [THEN iffD2]) (simp add: take_bit_eq_mod mod_diff_eq)
    also have "\<dots> = sint a + sint b - 2 ^ 32"
      using False \<open>sint a < 2 ^ 31\<close> \<open>sint b < 2 ^ 31\<close> by (intro signed_take_bit_int_eq_self) simp_all
    finally show ?thesis using False \<open>sint (a + b) = _\<close> by simp
  qed
qed

text \<open>An addition is exact until it overflows, and then starts again from zero.\<close>

lemma add_count_sint:
  assumes "0 \<le> sint a" "0 \<le> sint b"
  shows "sint (add_count a b) = (if sint a + sint b < 2 ^ 31 then sint a + sint b else 0)"
proof -
  have "sint a < 2 ^ 31" "sint b < 2 ^ 31" using sint_lt [of a] sint_lt [of b] by simp_all
  then show ?thesis using sint_add_32 [OF assms] assms by (auto simp: add_count_def)
qed

end
