(* ===== verification/NbSvc.thy ===== *)
theory NbSvc
  imports NbGraph NbStatus QueryParser
begin

text \<open>
  The northbound service (internal/northbound): its servers and libraries, the calls it makes,
  authorisation (authorization.go), and the functions on secrets of utils.go.

  The functions that create, update and delete hold the mutex of the service from their first to
  their last call, so that a run of a handler is one sequence of calls.
\<close>

section \<open>Requests\<close>

record 'n CreateDeploymentReq =
  crq_Deployment :: "'n PbDeployment option"

datatype DeleteType = DeleteType_PARENT_ONLY | DeleteType_ALL

record DeleteDeploymentReq =
  drq_DeplId :: string
  drq_DeleteType :: DeleteType

record 'n UpdateDeploymentReq =
  urq_DeplId :: string
  urq_Deployment :: "'n PbDeployment option"

record ListDeploymentsReq = SelectRequest +
  lrq_Labels :: "string list"

record ListDeploymentClustersReq = SelectRequest +
  lcq_DeplId :: string

datatype 'n NbRequest =
    CreateDeploymentRequest "'n CreateDeploymentReq"
  | GetDeploymentRequest string
  | ListDeploymentsRequest ListDeploymentsReq
  | ListDeploymentsPerClusterRequest string
  | GetDeploymentsStatusRequest "string list"
  | DeleteDeploymentRequest DeleteDeploymentReq
  | UpdateDeploymentRequest "'n UpdateDeploymentReq"
  | GetAppNamespaceRequest string
  | ListDeploymentClustersRequest ListDeploymentClustersReq
  | GetKubeConfigRequest string
  | ListClustersRequest SelectRequest
  | GetClusterRequest string

text \<open>\<open>reflect.TypeOf(request).String()\<close>.\<close>

fun request_type :: "'n NbRequest \<Rightarrow> string" where
  "request_type (CreateDeploymentRequest _) = ''*deploymentv1.CreateDeploymentRequest''"
| "request_type (GetDeploymentRequest _) = ''*deploymentv1.GetDeploymentRequest''"
| "request_type (ListDeploymentsRequest _) = ''*deploymentv1.ListDeploymentsRequest''"
| "request_type (ListDeploymentsPerClusterRequest _) = ''*deploymentv1.ListDeploymentsPerClusterRequest''"
| "request_type (GetDeploymentsStatusRequest _) = ''*deploymentv1.GetDeploymentsStatusRequest''"
| "request_type (DeleteDeploymentRequest _) = ''*deploymentv1.DeleteDeploymentRequest''"
| "request_type (UpdateDeploymentRequest _) = ''*deploymentv1.UpdateDeploymentRequest''"
| "request_type (GetAppNamespaceRequest _) = ''*deploymentv1.GetAppNamespaceRequest''"
| "request_type (ListDeploymentClustersRequest _) = ''*deploymentv1.ListDeploymentClustersRequest''"
| "request_type (GetKubeConfigRequest _) = ''*deploymentv1.GetKubeConfigRequest''"
| "request_type (ListClustersRequest _) = ''*deploymentv1.ListClustersRequest''"
| "request_type (GetClusterRequest _) = ''*deploymentv1.GetClusterRequest''"

section \<open>Calls\<close>

datatype nb_read =
    ListDeploymentCRs string labels | GetDeploymentCR string string | ListClusterCRs labels
  | GetClusterCR string string | ListAllClusters string labels | GetBundle string string
  | GetSecretCR string string | GetNamespaceCR string
  | CatalogPackage string string | CatalogApplication string string | CatalogRegistry string

datatype nb_write =
    CreateDeploymentCR Deployment | UpdateDeploymentCR string Deployment | DeleteDeploymentCR string string
  | CreateSecretCR Secret | UpdateSecretCR Secret | DeleteSecretCR string string
  | CreateNamespaceCR KNamespace | UpdateNamespaceCR KNamespace | CreateRoleBindingCR RoleBinding

datatype nb_ev =
    NbRead nb_read | NbWrite nb_write | NbToken | NbLogout | NbName string
  | NbVault string | NbAuthorize string string string

datatype OpaResult = OpaBool bool | OpaObject | OpaOther

record OpaResponse =
  opa_JSON200 :: "OpaResult option"

record 'w NbKube =
  n_ListDeployments :: "string \<Rightarrow> labels \<Rightarrow> 'w \<Rightarrow> Deployment list res \<times> 'w"
  n_GetDeployment :: "string \<Rightarrow> string \<Rightarrow> 'w \<Rightarrow> Deployment res \<times> 'w"
  n_CreateDeployment :: "string \<Rightarrow> Deployment \<Rightarrow> 'w \<Rightarrow> Deployment res \<times> 'w"
  n_UpdateDeployment :: "string \<Rightarrow> string \<Rightarrow> Deployment \<Rightarrow> 'w \<Rightarrow> Deployment res \<times> 'w"
  n_DeleteDeployment :: "string \<Rightarrow> string \<Rightarrow> 'w \<Rightarrow> goerror option \<times> 'w"
  n_ListDeploymentClusters :: "labels \<Rightarrow> 'w \<Rightarrow> DeploymentCluster list res \<times> 'w"
  n_GetCluster :: "string \<Rightarrow> string \<Rightarrow> 'w \<Rightarrow> Cluster res \<times> 'w"
  n_ListClusters :: "string \<Rightarrow> labels \<Rightarrow> 'w \<Rightarrow> Cluster list res \<times> 'w"
  n_GetBundle :: "string \<Rightarrow> string \<Rightarrow> 'w \<Rightarrow> (string \<times> string) res \<times> 'w"
  n_GetNamespace :: "string \<Rightarrow> 'w \<Rightarrow> KNamespace res \<times> 'w"
  n_CreateNamespace :: "KNamespace \<Rightarrow> 'w \<Rightarrow> goerror option \<times> 'w"
  n_UpdateNamespace :: "KNamespace \<Rightarrow> 'w \<Rightarrow> goerror option \<times> 'w"
  n_CreateRoleBinding :: "RoleBinding \<Rightarrow> 'w \<Rightarrow> goerror option \<times> 'w"
  n_CreateSecret :: "Secret \<Rightarrow> 'w \<Rightarrow> goerror option \<times> 'w"
  n_GetSecret :: "string \<Rightarrow> string \<Rightarrow> 'w \<Rightarrow> Secret res \<times> 'w"
  n_UpdateSecret :: "Secret \<Rightarrow> 'w \<Rightarrow> goerror option \<times> 'w"
  n_DeleteSecret :: "string \<Rightarrow> string \<Rightarrow> 'w \<Rightarrow> goerror option \<times> 'w"

text \<open>The vault calls are the login, the value of a key at a path, and the logout.\<close>

record 'w NbServices =
  v_GetM2MToken :: "ctx \<Rightarrow> 'w \<Rightarrow> string res \<times> 'w"
  v_Logout :: "ctx \<Rightarrow> 'w \<Rightarrow> goerror option \<times> 'w"
  v_GetDeploymentPackage :: "ctx \<Rightarrow> string \<Rightarrow> string \<Rightarrow> 'w \<Rightarrow> CatDeploymentPackage res \<times> 'w"
  v_GetApplication :: "ctx \<Rightarrow> string \<Rightarrow> string \<Rightarrow> 'w \<Rightarrow> CatApplication res \<times> 'w"
  v_GetRegistry :: "ctx \<Rightarrow> string \<Rightarrow> bool \<Rightarrow> 'w \<Rightarrow> CatRegistry res \<times> 'w"
  v_GenerateName :: "string \<Rightarrow> 'w \<Rightarrow> string \<times> 'w"
  v_VaultClient :: "'w \<Rightarrow> goerror option \<times> 'w"
  v_VaultValue :: "string \<Rightarrow> string \<Rightarrow> 'w \<Rightarrow> string res \<times> 'w"
  v_VaultLogout :: "'w \<Rightarrow> goerror option \<times> 'w"
  v_PostRule :: "string \<Rightarrow> string \<Rightarrow> string \<Rightarrow> 'w \<Rightarrow> OpaResponse res \<times> 'w"

text \<open>The incoming metadata of a call, if there is any, and the outgoing ones.\<close>

record NbCtx =
  x_md :: "(string list) gomap option"
  x_out :: ctx

text \<open>
  The service.  \<open>sv_Status\<close> is \<open>errors.Status(err).Err()\<close> of the orch-library, the gRPC error of a
  typed error.
\<close>

record ('n, 'w) DeploymentSvc =
  sv_lib :: "'n nblib"
  sv_text :: textlib
  sv_sort :: "'n DataItem sorter"
  sv_kube :: "'w NbKube"
  sv_srv :: "'w NbServices"
  sv_opaClient :: bool
  sv_Status :: "goerror \<Rightarrow> goerror"
  sv_Validate :: "'n NbRequest \<Rightarrow> goerror option"
  sv_marshal :: "'n NbRequest \<Rightarrow> (string list) gomap \<Rightarrow> string res"
  sv_redeployEnv :: string
  sv_secretServiceEnabled :: "bool res"
  sv_gitPath :: string
  sv_gitUsernameKey :: string
  sv_gitPasswordKey :: string

type_synonym ('w, 'a) nbio = "((nb_ev, 'w) world, 'a) handler"

section \<open>The clients\<close>

definition svDeployments_List :: "('n, 'w) DeploymentSvc \<Rightarrow> string \<Rightarrow> labels \<Rightarrow> ('w, Deployment list) nbio" where
  "svDeployments_List s ns l = glift (call (NbRead (ListDeploymentCRs ns l)) (n_ListDeployments (sv_kube s) ns l))"

definition svDeployments_Get :: "('n, 'w) DeploymentSvc \<Rightarrow> string \<Rightarrow> string \<Rightarrow> ('w, Deployment) nbio" where
  "svDeployments_Get s ns n = glift (call (NbRead (GetDeploymentCR ns n)) (n_GetDeployment (sv_kube s) ns n))"

definition svDeployments_Create :: "('n, 'w) DeploymentSvc \<Rightarrow> string \<Rightarrow> Deployment \<Rightarrow> ('w, Deployment) nbio" where
  "svDeployments_Create s ns d = glift (call (NbWrite (CreateDeploymentCR d)) (n_CreateDeployment (sv_kube s) ns d))"

definition svDeployments_Update :: "('n, 'w) DeploymentSvc \<Rightarrow> string \<Rightarrow> string \<Rightarrow> Deployment \<Rightarrow> ('w, Deployment) nbio" where
  "svDeployments_Update s ns n d = glift (call (NbWrite (UpdateDeploymentCR n d)) (n_UpdateDeployment (sv_kube s) ns n d))"

definition svDeployments_Delete :: "('n, 'w) DeploymentSvc \<Rightarrow> string \<Rightarrow> string \<Rightarrow> ('w, unit) nbio" where
  "svDeployments_Delete s ns n = gcheck (call (NbWrite (DeleteDeploymentCR ns n)) (n_DeleteDeployment (sv_kube s) ns n))"

definition svDeploymentClusters_List :: "('n, 'w) DeploymentSvc \<Rightarrow> labels \<Rightarrow> ('w, DeploymentCluster list) nbio" where
  "svDeploymentClusters_List s l = glift (call (NbRead (ListClusterCRs l)) (n_ListDeploymentClusters (sv_kube s) l))"

definition svClusters_Get :: "('n, 'w) DeploymentSvc \<Rightarrow> string \<Rightarrow> string \<Rightarrow> ('w, Cluster) nbio" where
  "svClusters_Get s ns n = glift (call (NbRead (GetClusterCR ns n)) (n_GetCluster (sv_kube s) ns n))"

definition svClusters_List :: "('n, 'w) DeploymentSvc \<Rightarrow> string \<Rightarrow> labels \<Rightarrow> ('w, Cluster list) nbio" where
  "svClusters_List s ns l = glift (call (NbRead (ListAllClusters ns l)) (n_ListClusters (sv_kube s) ns l))"

definition svGetBundle :: "('n, 'w) DeploymentSvc \<Rightarrow> string \<Rightarrow> string \<Rightarrow> ('w, string \<times> string) nbio" where
  "svGetBundle s ns n = glift (call (NbRead (GetBundle ns n)) (n_GetBundle (sv_kube s) ns n))"

definition svGenerateName :: "('n, 'w) DeploymentSvc \<Rightarrow> string \<Rightarrow> ('w, string) nbio" where
  "svGenerateName s base = do { n \<leftarrow> call (NbName base) (v_GenerateName (sv_srv s) base); gret n }"

definition svClientset :: "('n, 'w) DeploymentSvc \<Rightarrow> (nb_ev, 'w) world Clientset" where
  "svClientset s = \<lparr>
     ks_GetNamespace = (\<lambda>n. call (NbRead (GetNamespaceCR n)) (n_GetNamespace (sv_kube s) n)),
     ks_CreateNamespace = (\<lambda>n. call (NbWrite (CreateNamespaceCR n)) (n_CreateNamespace (sv_kube s) n)),
     ks_UpdateNamespace = (\<lambda>n. call (NbWrite (UpdateNamespaceCR n)) (n_UpdateNamespace (sv_kube s) n)),
     ks_CreateRoleBinding = (\<lambda>b. call (NbWrite (CreateRoleBindingCR b)) (n_CreateRoleBinding (sv_kube s) b)),
     ks_CreateSecret = (\<lambda>x. call (NbWrite (CreateSecretCR x)) (n_CreateSecret (sv_kube s) x)),
     ks_GetSecret = (\<lambda>ns n. call (NbRead (GetSecretCR ns n)) (n_GetSecret (sv_kube s) ns n)),
     ks_UpdateSecret = (\<lambda>x. call (NbWrite (UpdateSecretCR x)) (n_UpdateSecret (sv_kube s) x)),
     ks_DeleteSecret = (\<lambda>ns n. call (NbWrite (DeleteSecretCR ns n)) (n_DeleteSecret (sv_kube s) ns n))\<rparr>"

text \<open>The Catalog client; the service looks packages up and changes none.\<close>

definition svCatalog :: "('n, 'w) DeploymentSvc \<Rightarrow> ctx \<Rightarrow> (nb_ev, 'w) world CatalogClient" where
  "svCatalog s c = \<lparr>
     cat_GetDeploymentPackage = (\<lambda>n v. call (NbRead (CatalogPackage n v)) (v_GetDeploymentPackage (sv_srv s) c n v)),
     cat_UpdateDeploymentPackage = (\<lambda>_ _ _. State_Monad.return (Some (PlainErr ''unused''))),
     cat_GetApplication = (\<lambda>n v. call (NbRead (CatalogApplication n v)) (v_GetApplication (sv_srv s) c n v)),
     cat_GetRegistry = (\<lambda>n b. call (NbRead (CatalogRegistry n)) (v_GetRegistry (sv_srv s) c n b)),
     cat_ListArtifacts = fail_io (PlainErr ''unused'')\<rparr>"

definition svVaultAuth :: "('n, 'w) DeploymentSvc \<Rightarrow> (nb_ev, 'w) world VaultAuth" where
  "svVaultAuth s = \<lparr>
     va_GetM2MToken = (\<lambda>c. call NbToken (v_GetM2MToken (sv_srv s) c)),
     va_Logout = (\<lambda>c. call NbLogout (v_Logout (sv_srv s) c))\<rparr>"

section \<open>Authorisation\<close>

definition GetActiveProjectID :: "('n, 'w) DeploymentSvc \<Rightarrow> NbCtx \<Rightarrow> string res" where
  "GetActiveProjectID s x =
     (if \<not> sv_opaClient s then Inr []
      else case x_md x of
             None \<Rightarrow> Inl (TypedErr KInvalid ''unable to extract metadata from ctx'')
           | Some md \<Rightarrow>
               (case (case map_of md ''activeprojectid'' of None \<Rightarrow> [] | Some ids \<Rightarrow> ids) of
                  [] \<Rightarrow> Inl (TypedErr KInvalid ''activeprojectid is not set'')
                | [i] \<Rightarrow> Inr i
                | _ \<Rightarrow> Inl (TypedErr KInvalid ''multiple ActiveProjectIDs are set - it should be one'')))"

text \<open>\<open>requestType[1:i]\<close> and \<open>requestType[i+1:]\<close> for the last dot at \<open>i\<close>.\<close>

definition after_last_dot :: "string \<Rightarrow> string" where
  "after_last_dot t = rev (takeWhile (\<lambda>c. c \<noteq> CHR ''.'') (rev t))"

definition before_last_dot :: "string \<Rightarrow> string" where
  "before_last_dot t = tl (take (length t - length (after_last_dot t) - 1) t)"

definition AuthCheckAllowed :: "('n, 'w) DeploymentSvc \<Rightarrow> NbCtx \<Rightarrow> 'n NbRequest \<Rightarrow> ('w, unit) nbio" where
  "AuthCheckAllowed s x request =
     (if \<not> sv_opaClient s then gret ()
      else case x_md x of
             None \<Rightarrow> gfail (TypedErr KInvalid ''unable to extract metadata from ctx'')
           | Some md \<Rightarrow>
               (case sv_marshal s request md of
                  Inl err \<Rightarrow> gfail (TypedErr KInvalid (''cannot marshal object to JSON '' @ err_msg err))
                | Inr body \<Rightarrow>
                    (let requestPackage = before_last_dot (request_type request);
                         requestName = after_last_dot (request_type request)
                     in gtry (gmap_err (\<lambda>err. TypedErr KInvalid (''OPA rule '' @ requestName @ '' OPA Post error '' @ err_msg err))
                          (glift (call (NbAuthorize requestPackage requestName body)
                             (v_PostRule (sv_srv s) requestPackage requestName body)))) (\<lambda>resp.
                        case opa_JSON200 resp of
                          None \<Rightarrow> gpanic
                        | Some OpaOther \<Rightarrow> gfail (TypedErr KForbidden ''access denied (1)'')
                        | Some OpaObject \<Rightarrow> gfail (TypedErr KForbidden ''access denied (2)'')
                        | Some (OpaBool b) \<Rightarrow> (if b then gret () else gfail (TypedErr KForbidden ''access denied (3)''))))))"

text \<open>The checks that every request starts with: its validity, the rule, and the project.\<close>

definition checked :: "('n, 'w) DeploymentSvc \<Rightarrow> NbCtx \<Rightarrow> string \<Rightarrow> 'n NbRequest \<Rightarrow> ('w, unit) nbio" where
  "checked s x what request =
     (case sv_Validate s request of
        Some err \<Rightarrow> gfail (TypedErr KInvalid (err_msg err))
      | None \<Rightarrow> gmap_err (\<lambda>err. TypedErr KForbidden (what @ '': '' @ err_msg err)) (AuthCheckAllowed s x request))"

definition active_project :: "('n, 'w) DeploymentSvc \<Rightarrow> NbCtx \<Rightarrow> ('w, string) nbio" where
  "active_project s x =
     (case GetActiveProjectID s x of
        Inl err \<Rightarrow> gfail (TypedErr KUnavailable (''failed to get tenant project ID '' @ err_msg err))
      | Inr i \<Rightarrow> gret i)"

definition project_labels :: "string \<Rightarrow> labels" where
  "project_labels activeProjectID = [(AppOrchActiveProjectID, activeProjectID)]"

text \<open>Every error of a handler is converted on its way out.\<close>

definition as_status :: "('n, 'w) DeploymentSvc \<Rightarrow> ('w, 'a) nbio \<Rightarrow> ('w, 'a) nbio" where
  "as_status s = gmap_err (sv_Status s)"

section \<open>Deployments by their UID\<close>

definition matchUIDDeployment :: "('n, 'w) DeploymentSvc \<Rightarrow> string \<Rightarrow> string \<Rightarrow> labels \<Rightarrow> ('w, Deployment) nbio" where
  "matchUIDDeployment s UID namespace listOpts =
     gtry (gmap_err K8sToTypedError (svDeployments_List s namespace listOpts)) (\<lambda>deployments.
       gret (case find (\<lambda>d. om_UID (d_Meta d) = UID) deployments of None \<Rightarrow> empty_deployment | Some d \<Rightarrow> d))"

definition getDeploymentCRWithDeploymentPackage ::
  "('n, 'w) DeploymentSvc \<Rightarrow> string \<Rightarrow> string \<Rightarrow> labels \<Rightarrow> ('w, Deployment list) nbio" where
  "getDeploymentCRWithDeploymentPackage s namespace dpID listOpts =
     gtry (gmap_err K8sToTypedError (svDeployments_List s namespace listOpts)) (\<lambda>items. gret (crs_with_package dpID items))"

end
