(* ===== verification/NbSecrets.thy ===== *)
theory NbSecrets
  imports NbSvc
begin

text \<open>
  The secrets of a deployment (internal/northbound/utils.go): their creation from the values of
  the request and the credentials of the Catalog, their owner, and their deletion; the secret of
  the git client; and the role bindings of the proxy repository.
\<close>

section \<open>Names\<close>

definition app_secret :: "string \<Rightarrow> CatHelmApp \<Rightarrow> string \<Rightarrow> string" where
  "app_secret name app kind = name @ ''-'' @ ch_Name app @ ''-'' @ ToLower (ch_Version app) @ ''-'' @ kind"

definition profile_secret :: "string \<Rightarrow> string \<Rightarrow> string \<Rightarrow> string" where
  "profile_secret name app profileName = name @ ''-'' @ app @ ''-'' @ profileName @ ''-secret''"

section \<open>Creation\<close>

definition make_secret :: "('n, 'w) DeploymentSvc \<Rightarrow> string \<Rightarrow> string \<Rightarrow> labels \<Rightarrow> bool \<Rightarrow> ('w, unit) nbio" where
  "make_secret s namespace secretName data basicAuth = gcheck (CreateSecret (svClientset s) namespace secretName data basicAuth)"

definition configureRsProxy :: "('n, 'w) DeploymentSvc \<Rightarrow> string \<Rightarrow> string \<Rightarrow> string \<Rightarrow> ('w, unit) nbio" where
  "configureRsProxy s nsName rbName remoteNsName =
     gtry (gcheck (UpdateNsLabels (svClientset s) nsName)) (\<lambda>_.
     gtry (gcheck (CreateRoleBinding (svClientset s) nsName rbName remoteNsName)) (\<lambda>_.
     gcheck (CreateRoleBinding (svClientset s) ''fleet-default'' rbName remoteNsName)))"

text \<open>
  The JSON texts of the values by application.  The text of a value that cannot be marshalled is
  the one of the value before it.
\<close>

fun json_values :: "'n nblib \<Rightarrow> 'n OverrideValues list \<Rightarrow> string \<Rightarrow> labels \<Rightarrow> labels \<times> string" where
  "json_values NL [] contents m = (m, contents)"
| "json_values NL (value # values) contents m =
     (let contents' = (case nl_json_struct NL (ov_Values value) of Inl _ \<Rightarrow> contents | Inr t \<Rightarrow> t)
      in json_values NL values contents' (AList.update (ov_AppName value) contents' m))"

definition yaml_text :: "'n nblib \<Rightarrow> string \<Rightarrow> string" where
  "yaml_text NL overrides =
     (case nl_JSONToYAML NL overrides of
        Inl _ \<Rightarrow> ''# WARNING: Values are not valid JSON, could not convert to YAML'' @ [CHR 0x0A] @ overrides @ [CHR 0x0A]
      | Inr val \<Rightarrow> val)"

text \<open>
  The variables of the loop over the applications.
\<close>

record 'n secrets_state =
  ss_d :: "'n NbDeployment"
  ss_contentsMasked :: string
  ss_rsRepoUpdated :: bool

definition profile_step :: "('n, 'w) DeploymentSvc \<Rightarrow> CatHelmApp \<Rightarrow> 'n NbDeployment \<Rightarrow> ('w, 'n NbDeployment) nbio" where
  "profile_step s app d =
     (let secretName = app_secret (nd_Name d) app ''profile'';
          d' = d\<lparr>nd_ProfileSecretName := AList.update (ch_Name app) secretName (nd_ProfileSecretName d)\<rparr>
      in gtry (make_secret s (nd_Namespace d') secretName [(''values'', ch_Values app)] False) (\<lambda>_. gret d'))"

definition overrides_step ::
  "('n, 'w) DeploymentSvc \<Rightarrow> labels \<Rightarrow> CatHelmApp \<Rightarrow> 'n NbDeployment \<Rightarrow> ('w, 'n NbDeployment) nbio" where
  "overrides_step s overrideValues app d =
     (let contents = (case map_of overrideValues (ch_Name app) of None \<Rightarrow> [] | Some t \<Rightarrow> yaml_text (sv_lib s) t);
          secretName = app_secret (nd_Name d) app ''overrides'';
          d' = d\<lparr>nd_ValueSecretName := AList.update (ch_Name app) secretName (nd_ValueSecretName d)\<rparr>
      in if contents \<noteq> []
         then gtry (make_secret s (nd_Namespace d') secretName [(''values'', contents)] False) (\<lambda>_. gret d')
         else gret d)"

definition helmrepo_step :: "('n, 'w) DeploymentSvc \<Rightarrow> CatHelmApp \<Rightarrow> 'n NbDeployment \<Rightarrow> ('w, 'n NbDeployment) nbio" where
  "helmrepo_step s app d =
     (let c = ch_HelmCredential app;
          secretName = app_secret (nd_Name d) app ''helmrepo'';
          d' = d\<lparr>nd_RepoSecretName := AList.update (ch_Name app) secretName (nd_RepoSecretName d)\<rparr>
      in if ch_Repo app \<noteq> [] \<and> (hc_CaCerts c \<noteq> [] \<or> hc_Password c \<noteq> [] \<and> hc_Username c \<noteq> [])
         then gtry (make_secret s (nd_Namespace d') secretName
                [(''cacerts'', hc_CaCerts c), (''password'', hc_Password c), (''username'', hc_Username c)] False) (\<lambda>_. gret d')
         else gret d)"

definition imagerepo_step :: "('n, 'w) DeploymentSvc \<Rightarrow> CatHelmApp \<Rightarrow> 'n NbDeployment \<Rightarrow> ('w, 'n NbDeployment) nbio" where
  "imagerepo_step s app d =
     (let c = ch_DockerCredential app;
          secretName = app_secret (nd_Name d) app ''imagerepo'';
          d' = d\<lparr>nd_ImageRegistrySecretName := AList.update (ch_Name app) secretName (nd_ImageRegistrySecretName d)\<rparr>
      in if ch_ImageRegistry app \<noteq> [] \<and> dk_Password c \<noteq> [] \<and> dk_Username c \<noteq> []
         then gtry (make_secret s (nd_Namespace d') secretName
                [(''password'', dk_Password c), (''username'', dk_Username c)] False) (\<lambda>_. gret d')
         else gret d)"

text \<open>The secret of the template values and the masked overrides; the text is that of the application before, where there is none.\<close>

definition template_step ::
  "('n, 'w) DeploymentSvc \<Rightarrow> labels \<Rightarrow> CatHelmApp \<Rightarrow> 'n NbDeployment \<Rightarrow> string \<Rightarrow> ('w, string) nbio" where
  "template_step s overrideValuesMasked app d contentsMasked =
     (let secret = label_get (nd_ParameterTemplateSecrets d) (ch_Name app)
      in if secret = [] then gret contentsMasked
         else gtry (make_secret s (nd_Namespace d) (profile_secret (nd_Name d) (ch_Name app) (nd_ProfileName d))
                [(''values'', secret)] False) (\<lambda>_.
           let contentsMasked' = (case map_of overrideValuesMasked (ch_Name app) of
                 None \<Rightarrow> contentsMasked | Some t \<Rightarrow> yaml_text (sv_lib s) t)
           in gtry (gwhen (contentsMasked' \<noteq> [])
                (make_secret s (nd_Namespace d) (app_secret (nd_Name d) app ''overrides-masked'') [(''values'', contentsMasked')] False))
                (\<lambda>_. gret contentsMasked')))"

definition create_app_secrets ::
  "('n, 'w) DeploymentSvc \<Rightarrow> labels \<Rightarrow> labels \<Rightarrow> CatHelmApp \<Rightarrow> 'n secrets_state \<Rightarrow> ('w, 'n secrets_state) nbio" where
  "create_app_secrets s overrideValues overrideValuesMasked app st =
     gtry (profile_step s app (ss_d st)) (\<lambda>d.
     gtry (overrides_step s overrideValues app d) (\<lambda>d.
     gtry (helmrepo_step s app d) (\<lambda>d.
     gtry (imagerepo_step s app d) (\<lambda>d.
     gtry (template_step s overrideValuesMasked app d (ss_contentsMasked st)) (\<lambda>contentsMasked.
     let update = (ch_Repo app \<noteq> [] \<and> ch_Repo app = nl_RS_PROXY_REPO (sv_lib s) \<and> \<not> ss_rsRepoUpdated st)
     in gtry (gwhen update (configureRsProxy s (nd_Namespace d) (nl_RS_PROXY_REPO_SECRET (sv_lib s)) (nl_RS_PROXY_REMOTE_NS (sv_lib s))))
          (\<lambda>_. gret \<lparr>ss_d = d, ss_contentsMasked = contentsMasked, ss_rsRepoUpdated = (ss_rsRepoUpdated st \<or> update)\<rparr>))))))"

definition createSecrets :: "('n, 'w) DeploymentSvc \<Rightarrow> 'n NbDeployment \<Rightarrow> ('w, 'n NbDeployment) nbio" where
  "createSecrets s d =
     (let (overrideValues, _) = json_values (sv_lib s) (nd_OverrideValues d) [] [];
          (overrideValuesMasked, contentsMasked) = json_values (sv_lib s) (nd_OverrideValuesMasked d) [] [];
          d0 = d\<lparr>nd_ProfileSecretName := [], nd_ValueSecretName := [], nd_RepoSecretName := [], nd_ImageRegistrySecretName := []\<rparr>
      in gtry (gfold (create_app_secrets s overrideValues overrideValuesMasked) (nd_HelmApps d)
           \<lparr>ss_d = d0, ss_contentsMasked = contentsMasked, ss_rsRepoUpdated = False\<rparr>) (\<lambda>st. gret (ss_d st)))"

section \<open>Owners\<close>

definition ownerReferenceList :: "'n NbDeployment \<Rightarrow> string \<Rightarrow> OwnerReference list" where
  "ownerReferenceList d kindType =
     [\<lparr>ow_APIVersion = ''app.edge-orchestrator.intel.com/v1beta1'', ow_Kind = kindType, ow_Name = nd_Name d,
       ow_UID = nd_DeployID d, ow_Controller = True\<rparr>]"

definition updateOwnerRefSecret ::
  "('n, 'w) DeploymentSvc \<Rightarrow> OwnerReference list \<Rightarrow> string \<Rightarrow> string \<Rightarrow> ('w, unit) nbio" where
  "updateOwnerRefSecret s owners secretName namespace =
     gmap_err K8sToTypedError
       (gtry (glift (ks_GetSecret (svClientset s) namespace secretName)) (\<lambda>secret.
        gcheck (ks_UpdateSecret (svClientset s) (secret\<lparr>se_Meta := (se_Meta secret)\<lparr>om_OwnerReferences := owners\<rparr>\<rparr>))))"

definition own_named :: "('n, 'w) DeploymentSvc \<Rightarrow> OwnerReference list \<Rightarrow> string \<Rightarrow> string \<Rightarrow> ('w, unit) nbio" where
  "own_named s owners secretName namespace =
     gwhen (secretName \<noteq> []) (updateOwnerRefSecret s owners secretName namespace)"

definition own_app_secrets :: "('n, 'w) DeploymentSvc \<Rightarrow> OwnerReference list \<Rightarrow> 'n NbDeployment \<Rightarrow> CatHelmApp \<Rightarrow> ('w, unit) nbio" where
  "own_app_secrets s owners d app =
     (let ns = nd_Namespace d; a = ch_Name app; templated = (label_get (nd_ParameterTemplateSecrets d) a \<noteq> []);
          valueName = label_get (nd_ValueSecretName d) a
      in gtry (updateOwnerRefSecret s owners (label_get (nd_ProfileSecretName d) a) ns) (\<lambda>_.
         gtry (gwhen (valueName \<noteq> [])
                (gtry (updateOwnerRefSecret s owners valueName ns) (\<lambda>_.
                 gwhen templated
                   (gcatch (updateOwnerRefSecret s owners (valueName @ ''-masked'') ns) (\<lambda>r.
                      case r of Inr _ \<Rightarrow> gret () | Inl err \<Rightarrow> (if typed_not_found err then gret () else gfail err)))))) (\<lambda>_.
         gtry (own_named s owners (label_get (nd_RepoSecretName d) a) ns) (\<lambda>_.
         gtry (own_named s owners (label_get (nd_ImageRegistrySecretName d) a) ns) (\<lambda>_.
         gwhen templated (updateOwnerRefSecret s owners (profile_secret (nd_Name d) a (nd_ProfileName d)) ns))))))"

definition updateOwnerRefSecrets :: "('n, 'w) DeploymentSvc \<Rightarrow> 'n NbDeployment \<Rightarrow> ('w, unit) nbio" where
  "updateOwnerRefSecrets s d =
     geach (own_app_secrets s (ownerReferenceList d ''Deployment'') d) (nd_HelmApps d)"

section \<open>Deletion\<close>

text \<open>A secret that is not there is no error.\<close>

definition delete_secret :: "('n, 'w) DeploymentSvc \<Rightarrow> string \<Rightarrow> string \<Rightarrow> ('w, unit) nbio" where
  "delete_secret s namespace secretName =
     gcatch (gcheck (DeleteSecret (svClientset s) namespace secretName)) (\<lambda>r.
       case r of Inr _ \<Rightarrow> gret () | Inl err \<Rightarrow> (if typed_not_found err then gret () else gfail err))"

definition delete_app_secrets :: "('n, 'w) DeploymentSvc \<Rightarrow> Deployment \<Rightarrow> Application \<Rightarrow> ('w, unit) nbio" where
  "delete_app_secrets s deployment app =
     (let namespace = om_Namespace (d_Meta deployment)
      in gtry (delete_secret s namespace (ap_ProfileSecretName app)) (\<lambda>_.
         gtry (gwhen (ap_ValueSecretName app \<noteq> [])
                (gtry (delete_secret s namespace (ap_ValueSecretName app)) (\<lambda>_.
                 delete_secret s namespace (ap_ValueSecretName app @ ''-masked'')))) (\<lambda>_.
         case ap_HelmApp app of
           None \<Rightarrow> gpanic
         | Some h \<Rightarrow>
             gtry (gwhen (ha_RepoSecretName h \<noteq> [] \<and> ha_RepoSecretName h \<noteq> nl_RS_PROXY_REPO_SECRET (sv_lib s))
                    (delete_secret s namespace (ha_RepoSecretName h))) (\<lambda>_.
             gtry (gwhen (ha_ImageRegistrySecretName h \<noteq> []) (delete_secret s namespace (ha_ImageRegistrySecretName h))) (\<lambda>_.
             delete_secret s namespace
               (profile_secret (om_Name (d_Meta deployment)) (ap_Name app)
                 (dp_ProfileName (sp_DeploymentPackageRef (d_Spec deployment)))))))))"

definition deleteSecrets :: "('n, 'w) DeploymentSvc \<Rightarrow> Deployment \<Rightarrow> ('w, unit) nbio" where
  "deleteSecrets s deployment = geach (delete_app_secrets s deployment) (sp_Applications (d_Spec deployment))"

section \<open>The secret of the git client\<close>

text \<open>The logout is deferred, so it follows the last read of the vault on every way out.\<close>

definition vault_value :: "('n, 'w) DeploymentSvc \<Rightarrow> string \<Rightarrow> string \<Rightarrow> ('w, string) nbio" where
  "vault_value s path key = glift (call (NbVault key) (v_VaultValue (sv_srv s) path key))"

definition createGitClientSecret :: "('n, 'w) DeploymentSvc \<Rightarrow> 'n NbDeployment \<Rightarrow> ('w, unit) nbio" where
  "createGitClientSecret s d =
     gcatch (glift (GetSecretValue (svClientset s) (nd_Namespace d) FleetGitSecretName)) (\<lambda>value.
       case value of
         Inr _ \<Rightarrow> gret ()
       | Inl err \<Rightarrow>
           (if \<not> k8s_not_found err then gfail err
            else case sv_secretServiceEnabled s of
                   Inl e \<Rightarrow> gfail e
                 | Inr enabled \<Rightarrow>
                     (if \<not> enabled then gret ()
                      else gtry (gcheck (call (NbVault ''login'') (v_VaultClient (sv_srv s)))) (\<lambda>_.
                        do { r \<leftarrow> gtry (vault_value s (sv_gitPath s) (sv_gitUsernameKey s)) (\<lambda>user.
                               gtry (vault_value s (sv_gitPath s) (sv_gitPasswordKey s)) (\<lambda>password.
                               make_secret s (nd_Namespace d) FleetGitSecretName
                                 [(''password'', password), (''username'', user)] True));
                             _ \<leftarrow> call (NbVault ''logout'') (v_VaultLogout (sv_srv s));
                             State_Monad.return r }))))"

section \<open>Lemmas\<close>

text \<open>The functions on secrets make no other call than on secrets, namespaces, role bindings and the vault.\<close>

definition secret_ev :: "nb_ev \<Rightarrow> bool" where
  "secret_ev e = (case e of
     NbRead (GetSecretCR _ _) \<Rightarrow> True | NbRead (GetNamespaceCR _) \<Rightarrow> True
   | NbWrite (CreateSecretCR _) \<Rightarrow> True | NbWrite (UpdateSecretCR _) \<Rightarrow> True | NbWrite (DeleteSecretCR _ _) \<Rightarrow> True
   | NbWrite (CreateNamespaceCR _) \<Rightarrow> True | NbWrite (UpdateNamespaceCR _) \<Rightarrow> True | NbWrite (CreateRoleBindingCR _) \<Rightarrow> True
   | NbVault _ \<Rightarrow> True | _ \<Rightarrow> False)"

lemmas secret_defs = make_secret_def CreateSecret_def DeleteSecret_def GetSecretValue_def UpdateNsLabels_def
  CreateRoleBinding_def svClientset_def Let_def

lemma make_secret_does: "does secret_ev (make_secret s ns n data b) (\<lambda>_. True)"
  unfolding secret_defs by (intro emits_intros TrueI) (simp_all add: secret_ev_def does_call)

lemma configureRsProxy_does: "does secret_ev (configureRsProxy s a b c) (\<lambda>_. True)"
  unfolding configureRsProxy_def secret_defs
  by (intro emits_intros TrueI; simp add: secret_ev_def does_call)

end
