(* ===== verification/NbInit.thy ===== *)
theory NbInit
  imports NbSecrets
begin

text \<open>
  The deployment of a create or update request (internal/northbound/northbound.go,
  \<open>initDeployment\<close>) with the deployments of the packages it requires (app\_dependency.go,
  \<open>addDepAndRelationships\<close>).  The two call each other; the model gives the depth of the stack as
  a number, and panics where the code would overflow it.
\<close>

section \<open>Checks of the request\<close>

definition formatAppNameValidationError :: "nat \<Rightarrow> string" where
  "formatAppNameValidationError index =
     ''validation error:'' @ [CHR 0x0A] @ '' - deployment.override_values['' @ nat_str index @
     ''].app_name: value length must be at least 1 characters [string.min_len]'' @ [CHR 0x0A] @
     '' - deployment.override_values['' @ nat_str index @
     ''].app_name: value does not match regex pattern `^[a-z0-9][a-z0-9-]{0,38}[a-z0-9]{0,1}$` [string.pattern]''"

text \<open>A target of the request, with the project among its labels.  Those of a targeted deployment are new.\<close>

definition label_target :: "string \<Rightarrow> string \<Rightarrow> TargetClusters \<Rightarrow> TargetClusters res go" where
  "label_target dtype project tc =
     (case (if dtype = Targeted then Some [] else tc_Labels tc) of
        None \<Rightarrow> Panicked
      | Some l \<Rightarrow> Ret (Inr (tc\<lparr>tc_Labels := Some (AList.update ClusterOrchKeyProjectID project l)\<rparr>)))"

definition check_target :: "string \<Rightarrow> string \<Rightarrow> string \<Rightarrow> TargetClusters \<Rightarrow> TargetClusters res go" where
  "check_target what dtype project tc =
     (if tc_Labels tc = None \<and> tc_ClusterId tc = [] then
        Ret (Inl (TypedErr KInvalid (''missing '' @ what @ ''.labels or '' @ what @ ''.clusterId in request'')))
      else if dtype = AutoScaling \<and> tc_Labels tc = None then
        Ret (Inl (TypedErr KInvalid (''deployment type is auto-scaling but missing '' @ what @ ''.labels'')))
      else if dtype = Targeted \<and> tc_ClusterId tc = [] then
        Ret (Inl (TypedErr KInvalid (''deployment type is targeted but missing '' @ what @ ''.clusterId'')))
      else label_target dtype project tc)"

fun check_targets :: "string \<Rightarrow> string \<Rightarrow> TargetClusters list \<Rightarrow> (TargetClusters list) res go" where
  "check_targets dtype project [] = Ret (Inr [])"
| "check_targets dtype project (val # vals) =
     (if tc_AppName val = [] then Ret (Inl (TypedErr KInvalid ''missing targetClusters.appName in request''))
      else rgo_bind (check_target ''targetClusters'' dtype project val) (\<lambda>val'.
           rgo_bind (check_targets dtype project vals) (\<lambda>vals'. Ret (Inr (val' # vals')))))"

definition check_all_targets :: "string \<Rightarrow> string \<Rightarrow> TargetClusters option \<Rightarrow> (TargetClusters option) res go" where
  "check_all_targets dtype project allTargets =
     (case allTargets of
        None \<Rightarrow> Ret (Inr None)
      | Some tc \<Rightarrow> rgo_bind (check_target ''allAppTargetClusters'' dtype project tc) (\<lambda>tc'. Ret (Inr (Some tc'))))"

text \<open>The override values, trimmed and without the empty ones, and their keys by application.\<close>

fun check_overrides ::
  "nat \<Rightarrow> 'n OverrideValues list \<Rightarrow> (string list) gomap \<Rightarrow> ('n OverrideValues list \<times> (string list) gomap) res" where
  "check_overrides i [] allOverrideKeys = Inr ([], allOverrideKeys)"
| "check_overrides i (val # vals) allOverrideKeys =
     (if ov_AppName val = [] then Inl (TypedErr KInvalid (formatAppNameValidationError i))
      else if ov_Values val = None \<and> ov_TargetNamespace val = []
      then Inl (TypedErr KInvalid ''missing overrideValues.targetNamespace or overrideValues.values in request'')
      else (let (val', keys') = (case ov_Values val of
                  None \<Rightarrow> (val, allOverrideKeys)
                | Some fs \<Rightarrow> (case getAllPbStructKeys (trimAllPbStructStrings fs 0) [] 0 of
                    (fs', keys, _) \<Rightarrow> (val\<lparr>ov_Values := Some fs'\<rparr>, AList.update (ov_AppName val) keys allOverrideKeys)))
            in case check_overrides (i + 1) vals keys' of
                 Inl err \<Rightarrow> Inl err
               | Inr (vals', keys'') \<Rightarrow> Inr (val' # vals', keys'')))"

section \<open>Namespaces of the package\<close>

definition lower_alnum :: "char \<Rightarrow> bool" where
  "lower_alnum c = (97 \<le> (of_char c :: nat) \<and> (of_char c :: nat) \<le> 122 \<or> 48 \<le> (of_char c :: nat) \<and> (of_char c :: nat) \<le> 57)"

text \<open>The expression \<open>^[a-z0-9][a-z0-9-]{0,38}[a-z0-9]{0,1}$\<close>.\<close>

definition namespace_name_ok :: "string \<Rightarrow> bool" where
  "namespace_name_ok s =
     (case s of
        [] \<Rightarrow> False
      | c # cs \<Rightarrow>
          (let inner = (\<lambda>x. lower_alnum x \<or> x = CHR ''-'')
           in lower_alnum c \<and>
              (length cs \<le> 38 \<and> list_all inner cs \<or>
               length cs = 39 \<and> list_all inner (butlast cs) \<and> lower_alnum (last cs))))"

definition check_namespace :: "CatNamespace \<Rightarrow> Namespace res" where
  "check_namespace ns =
     (let name = cns_Name ns; invalid = (\<lambda>m. Inl (TypedErr KInvalid (''namespace name \"'' @ name @ ''\" is invalid. '' @ m)))
      in if name = [] then Inl (TypedErr KInvalid ''missing namespace name'')
         else if name = ''default'' then invalid ''Namespace name cannot be \"default\"''
         else if hd (Split name ''-'') = ''kind'' then
           invalid ''Prefix \"kube-\", is reserved for Kubernetes system namespaces''
         else if \<not> namespace_name_ok name then invalid ''Use names that conforms with RFC 1123 label''
         else Inr \<lparr>ns_Name = name, ns_Labels = cns_Labels ns, ns_Annotations = cns_Annotations ns\<rparr>)"

fun check_namespaces :: "CatNamespace list \<Rightarrow> (Namespace list) res" where
  "check_namespaces [] = Inr []"
| "check_namespaces (ns # nss) =
     (case check_namespace ns of
        Inl err \<Rightarrow> Inl err
      | Inr n \<Rightarrow> (case check_namespaces nss of Inl err \<Rightarrow> Inl err | Inr ns' \<Rightarrow> Inr (n # ns')))"

section \<open>The start of the deployment\<close>

definition empty_nb_deployment :: "'n NbDeployment" where
  "empty_nb_deployment = \<lparr>nd_Name = [], nd_AppName = [], nd_DisplayName = [], nd_AppVersion = [], nd_ProfileName = [],
     nd_DeployID = [], nd_DeploymentType = [], nd_Project = [], nd_ValueSecretName = [], nd_ProfileSecretName = [],
     nd_RepoSecretName = [], nd_ImageRegistrySecretName = [], nd_Namespace = [], nd_HelmApps = [], nd_OverrideValues = [],
     nd_OverrideValuesMasked = [], nd_TargetClusters = [], nd_AllAppTargetClusters = None,
     nd_ForbidsMultipleDeployments = False, nd_RequiredDeploymentPackage = [], nd_ChildDeploymentList = [],
     nd_ActiveProjectID = [], nd_ServiceExports = [], nd_NetworkName = [], nd_Namespaces = [], nd_ParameterTemplateSecrets = []\<rparr>"

definition checked_request ::
  "'n PbDeployment \<Rightarrow> string \<Rightarrow> ('n NbDeployment \<times> (string list) gomap) res go" where
  "checked_request r activeProjectID =
     (let dtype = deploymentType (pd_DeploymentType r);
          d = empty_nb_deployment\<lparr>nd_AppName := pd_AppName r, nd_AppVersion := pd_AppVersion r,
                nd_ProfileName := pd_ProfileName r, nd_ServiceExports := pd_ServiceExports r,
                nd_NetworkName := pd_NetworkName r, nd_DeploymentType := dtype, nd_ActiveProjectID := activeProjectID\<rparr>
      in if pd_TargetClusters r = [] \<and> pd_AllAppTargetClusters r = None
         then Ret (Inl (TypedErr KInvalid ''missing targetClusters in request''))
         else rgo_bind (check_targets dtype activeProjectID (pd_TargetClusters r)) (\<lambda>targets.
              rgo_bind (check_all_targets dtype activeProjectID (pd_AllAppTargetClusters r)) (\<lambda>allTargets.
                case check_overrides 0 (pd_OverrideValues r) [] of
                  Inl err \<Rightarrow> Ret (Inl err)
                | Inr (overrides, keys) \<Rightarrow>
                    Ret (Inr (d\<lparr>nd_TargetClusters := targets, nd_AllAppTargetClusters := allTargets,
                                nd_OverrideValues := overrides, nd_Project := ''app.edge-orchestrator.intel.com''\<rparr>, keys)))))"

section \<open>The secrets of an update\<close>

definition unmask_app ::
  "('n, 'w) DeploymentSvc \<Rightarrow> CatHelmApp \<Rightarrow> 'n NbDeployment \<Rightarrow> ('w, 'n NbDeployment) nbio" where
  "unmask_app s app d =
     gcatch (glift (GetSecretValue (svClientset s) (nd_Namespace d) (profile_secret (nd_Name d) (ch_Name app) (nd_ProfileName d))))
       (\<lambda>r. case r of
          Inl _ \<Rightarrow> gret d
        | Inr secretValue \<Rightarrow>
            (case nl_YAMLToJSON (sv_lib s) (label_get (se_Data secretValue) ''values'') of
               Inl _ \<Rightarrow> gret d
             | Inr val \<Rightarrow>
                 (case nl_unmarshal_struct (sv_lib s) val of
                    Inr (Some previous) \<Rightarrow>
                      gret (d\<lparr>nd_OverrideValues := map (\<lambda>oVal. if ov_AppName oVal = ch_Name app
                          then oVal\<lparr>ov_Values := map_option (\<lambda>fs. UnmaskSecrets fs previous []) (ov_Values oVal)\<rparr>
                          else oVal) (nd_OverrideValues d)\<rparr>)
                  | _ \<Rightarrow> gret d)))"

text \<open>The name and namespace of the deployment with the ID, where it is found.\<close>

definition update_identity ::
  "('n, 'w) DeploymentSvc \<Rightarrow> string \<Rightarrow> string \<Rightarrow> 'n NbDeployment \<Rightarrow> ('w, 'n NbDeployment) nbio" where
  "update_identity s deployID activeProjectID d =
     (let d = d\<lparr>nd_DeployID := deployID\<rparr>;
          fill = (\<lambda>d. if nd_Namespace d = [] then d\<lparr>nd_Namespace := activeProjectID\<rparr> else d)
      in if nd_Name d = [] \<and> nd_DeployID d \<noteq> []
         then gcatch (matchUIDDeployment s (nd_DeployID d) activeProjectID []) (\<lambda>r.
                gret (case r of
                        Inl _ \<Rightarrow> fill d
                      | Inr cr \<Rightarrow> (if om_Name (d_Meta cr) \<noteq> []
                          then fill (d\<lparr>nd_Name := om_Name (d_Meta cr), nd_Namespace := om_Namespace (d_Meta cr)\<rparr>)
                          else fill d)))
         else gret (fill d))"

definition unmask_step ::
  "('n, 'w) DeploymentSvc \<Rightarrow> string \<Rightarrow> 'n PbDeployment \<Rightarrow> string \<Rightarrow> 'n NbDeployment \<Rightarrow> ('w, 'n NbDeployment) nbio" where
  "unmask_step s scenario r activeProjectID d =
     (if scenario = ''update''
      then gtry (update_identity s (pd_DeployId r) activeProjectID d) (\<lambda>d. gfold (unmask_app s) (nd_HelmApps d) d)
      else gret d)"

section \<open>The name of the deployment\<close>

definition name_step :: "('n, 'w) DeploymentSvc \<Rightarrow> string \<Rightarrow> 'n PbDeployment \<Rightarrow> 'n NbDeployment \<Rightarrow> ('w, 'n NbDeployment) nbio" where
  "name_step s scenario r d =
     (if scenario = ''create'' then
        gtry (svGenerateName s ''deployment-'') (\<lambda>name.
        gtry (gcheck (CreateNamespace (svClientset s) (nd_Namespace d))) (\<lambda>_.
          let d = d\<lparr>nd_Name := name\<rparr>; display = pd_DisplayName r
          in if display = [] then gret (d\<lparr>nd_DisplayName := name\<rparr>)
             else if display \<noteq> TrimSpace display
             then gfail (TypedErr KInvalid ''display-name cannot contain leading or trailing spaces'')
             else gret (d\<lparr>nd_DisplayName := display\<rparr>)))
      else if scenario = ''update'' then gret (d\<lparr>nd_DisplayName := pd_DisplayName r\<rparr>)
      else gret d)"

section \<open>The required packages\<close>

type_synonym ('n, 'w) initializer =
  "string \<Rightarrow> 'n PbDeployment \<Rightarrow> 'n NbDeployment gomap \<Rightarrow> ('w, 'n NbDeployment \<times> 'n NbDeployment gomap) nbio"

definition lookup_package ::
  "('n, 'w) DeploymentSvc \<Rightarrow> ctx \<Rightarrow> string \<Rightarrow> string \<Rightarrow> string \<Rightarrow>
   ('w, CatDeploymentPackage \<times> CatHelmApp list \<times> string) nbio" where
  "lookup_package s c name version profile =
     glift (CatalogLookupDPAndHelmApps (sv_redeployEnv s) (svCatalog s c) name version profile)"

definition child_request ::
  "RequiredDeploymentPackage \<Rightarrow> CatHelmApp list \<Rightarrow> TargetClusters \<Rightarrow> string \<Rightarrow> 'n PbDeployment" where
  "child_request dep depHelmApps target dtype =
     \<lparr>pd_Name = [], pd_DisplayName = [], pd_AppName = rq_Name dep, pd_AppVersion = rq_Version dep,
      pd_ProfileName = rq_Profile dep, pd_DeployId = [], pd_OverrideValues = [],
      pd_TargetClusters = map (\<lambda>depApp. \<lparr>tc_AppName = ch_Name depApp, tc_Labels = tc_Labels target,
        tc_ClusterId = tc_ClusterId target\<rparr>) depHelmApps,
      pd_Status = None, pd_Apps = [], pd_DeploymentType = dtype, pd_NetworkName = [], pd_ServiceExports = [],
      pd_AllAppTargetClusters = None, pd_CreateTime = 0\<rparr>"

definition child_package :: "'n NbDeployment \<Rightarrow> ChildPackage" where
  "child_package d = \<lparr>cd_AppName = nd_AppName d, cd_AppVersion = nd_AppVersion d, cd_ProfileName = nd_ProfileName d\<rparr>"

text \<open>A package that forbids several deployments takes the identity of the one in the cluster.\<close>

definition existing_identity ::
  "('n, 'w) DeploymentSvc \<Rightarrow> string \<Rightarrow> string \<Rightarrow> string \<Rightarrow> bool \<Rightarrow> 'n NbDeployment \<Rightarrow> ('w, 'n NbDeployment) nbio" where
  "existing_identity s namespace activeProjectID dpID forbids depDeployment =
     (if \<not> forbids then gret depDeployment
      else gtry (getDeploymentCRWithDeploymentPackage s namespace dpID (project_labels activeProjectID)) (\<lambda>crs.
        case crs of
          [] \<Rightarrow> gret depDeployment
        | [cr] \<Rightarrow> gret (depDeployment\<lparr>nd_Name := om_Name (d_Meta cr), nd_DeployID := om_UID (d_Meta cr)\<rparr>)
        | _ \<Rightarrow> gfail (TypedErr KAlreadyExists (''confused the target Deployment: the deployment package forbids multiple '' @
                 ''deployment package but there are multiple deployments for the deployment package''))))"

definition add_dependency ::
  "('n, 'w) DeploymentSvc \<Rightarrow> ctx \<Rightarrow> ('n, 'w) initializer \<Rightarrow> 'n PbDeployment \<Rightarrow> TargetClusters list \<Rightarrow> string \<Rightarrow>
   RequiredDeploymentPackage \<Rightarrow> 'n NbDeployment \<times> 'n NbDeployment gomap \<Rightarrow> ('w, 'n NbDeployment \<times> 'n NbDeployment gomap) nbio" where
  "add_dependency s c initialize r targets activeProjectID dep = (\<lambda>(d, dependentDepls).
     gtry (lookup_package s c (rq_Name dep) (rq_Version dep) (rq_Profile dep)) (\<lambda>(depDP, depHelmApps, _).
       let dpID = GetID dep;
           forbids = cdp_ForbidsMultipleDeployments depDP;
           ref = \<lparr>dp_Name = rq_Name dep, dp_Version = rq_Version dep, dp_ProfileName = rq_Profile dep,
                  dp_ForbidsMultipleDeployments = forbids, dp_Namespaces = []\<rparr>;
           d = d\<lparr>nd_RequiredDeploymentPackage := AList.update dpID ref (nd_RequiredDeploymentPackage d)\<rparr>;
           register = (\<lambda>dep. d\<lparr>nd_ChildDeploymentList :=
             AList.update (nd_Name dep) (child_package dep) (nd_ChildDeploymentList d)\<rparr>)
       in if depHelmApps \<noteq> [] \<and> targets = [] then gpanic
          else case (if forbids then getDeploymentWithDeploymentPackage dpID dependentDepls else None) of
            Some (_, known) \<Rightarrow> gret (register known, dependentDepls)
          | None \<Rightarrow>
              gtry (gmap_err (\<lambda>err. TypedErr KConflict (''failed to create child deployment: '' @ err_msg err))
                 (initialize ''create'' (child_request dep depHelmApps (hd targets) (pd_DeploymentType r)) dependentDepls))
                 (\<lambda>(depDeployment, dependentDepls).
              gtry (existing_identity s (nd_Namespace d) activeProjectID dpID forbids depDeployment) (\<lambda>depDeployment'.
                gret (register depDeployment', AList.update (nd_Name depDeployment) depDeployment' dependentDepls)))))"

text \<open>The targets are those of the request as the checks have left them.\<close>

definition addDepAndRelationships ::
  "('n, 'w) DeploymentSvc \<Rightarrow> ctx \<Rightarrow> ('n, 'w) initializer \<Rightarrow> 'n NbDeployment \<Rightarrow> 'n PbDeployment \<Rightarrow> 'n NbDeployment gomap \<Rightarrow>
   string \<Rightarrow> ('w, 'n NbDeployment \<times> 'n NbDeployment gomap) nbio" where
  "addDepAndRelationships s c initialize d r dependentDepls activeProjectID =
     (let targets = (if pd_TargetClusters r = [] then [] else nd_TargetClusters d)
      in gfold (add_dependency s c initialize r targets activeProjectID)
           (concat (map ch_RequiredDeploymentPackages (nd_HelmApps d)))
           (d\<lparr>nd_RequiredDeploymentPackage := [], nd_ChildDeploymentList := []\<rparr>, dependentDepls))"

section \<open>The whole deployment\<close>

definition init_deployment ::
  "('n, 'w) DeploymentSvc \<Rightarrow> ctx \<Rightarrow> string \<Rightarrow> ('n, 'w) initializer \<Rightarrow> ('n, 'w) initializer" where
  "init_deployment s c activeProjectID initialize scenario r dependentDepls =
     gtry (gpure (checked_request r activeProjectID)) (\<lambda>(d, allOverrideKeys).
     gtry (gmap_err (\<lambda>err. TypedErr KNotFound (err_msg err))
            (lookup_package s c (nd_AppName d) (nd_AppVersion d) (nd_ProfileName d))) (\<lambda>(dp, helmApps, defaultProfileName).
     gtry (gpure (Ret (check_namespaces (cdp_Namespaces dp)))) (\<lambda>namespaces.
     gtry (unmask_step s scenario r activeProjectID (d\<lparr>nd_HelmApps := helmApps, nd_Namespaces := namespaces\<rparr>)) (\<lambda>d.
     gtry (gpure (checkParameterTemplate (sv_lib s) d allOverrideKeys)) (\<lambda>d.
     gtry (name_step s scenario r
            (d\<lparr>nd_ProfileName := (if nd_ProfileName d = [] then defaultProfileName else nd_ProfileName d),
               nd_ForbidsMultipleDeployments := cdp_ForbidsMultipleDeployments dp,
               nd_Namespace := nd_ActiveProjectID d\<rparr>)) (\<lambda>d.
     gtry (ggo (case nd_AllAppTargetClusters d of None \<Rightarrow> Ret d | Some t \<Rightarrow> mergeAllAppTargetClusters d t)) (\<lambda>d.
     gmap_err (sv_Status s)
       (addDepAndRelationships s c initialize d r dependentDepls activeProjectID))))))))"

primrec initDeployment :: "nat \<Rightarrow> ('n, 'w) DeploymentSvc \<Rightarrow> ctx \<Rightarrow> string \<Rightarrow> ('n, 'w) initializer" where
  "initDeployment 0 s c activeProjectID = (\<lambda>scenario r dependentDepls. gpanic)"
| "initDeployment (Suc n) s c activeProjectID = init_deployment s c activeProjectID (initDeployment n s c activeProjectID)"

end
