(* ===== verification/NbRead.thy ===== *)
theory NbRead
  imports NbSecrets
begin

text \<open>
  The read requests of the northbound service (internal/northbound/northbound.go, cluster.go):
  deployments, their clusters and states, clusters with their kube config, and the namespace of
  an application.  An answer that has nothing but its fields is a tuple.
\<close>

section \<open>A deployment as a message\<close>

text \<open>The labels of the clusters of an auto-scaling deployment; a cluster that is not found is left out.\<close>

definition fetch_labels ::
  "('n, 'w) DeploymentSvc \<Rightarrow> string \<Rightarrow> DeploymentCluster \<Rightarrow> labels gomap \<Rightarrow> ('w, labels gomap) nbio" where
  "fetch_labels s namespace dc m =
     (if dcs_ClusterID (dc_Spec dc) = [] then gret m
      else gcatch (svClusters_Get s namespace (dcs_ClusterID (dc_Spec dc))) (\<lambda>r.
        gret (case r of
                Inl _ \<Rightarrow> m
              | Inr cluster \<Rightarrow> (case om_Labels (c_Meta cluster) of
                    None \<Rightarrow> m
                  | Some l \<Rightarrow> AList.update (dcs_ClusterID (dc_Spec dc)) l m))))"

definition clusterLabelsMap :: "('n, 'w) DeploymentSvc \<Rightarrow> Deployment \<Rightarrow> DeploymentCluster list \<Rightarrow> ('w, labels gomap) nbio" where
  "clusterLabelsMap s d dcs =
     (if sp_DeploymentType (d_Spec d) = AutoScaling
      then gfold (fetch_labels s (om_Namespace (d_Meta d))) (of_deployment (om_UID (d_Meta d)) dcs) []
      else gret [])"

text \<open>The values of an application, from the masked secret where there is one.\<close>

definition value_secret :: "('n, 'w) DeploymentSvc \<Rightarrow> string \<Rightarrow> string \<Rightarrow> ('w, Secret option) nbio" where
  "value_secret s namespace secretName =
     gcatch (glift (GetSecretValue (svClientset s) namespace (secretName @ ''-masked''))) (\<lambda>r.
       case r of
         Inr secretValue \<Rightarrow> gret (Some secretValue)
       | Inl err \<Rightarrow>
           (if k8s_not_found err
            then gcatch (glift (GetSecretValue (svClientset s) namespace secretName)) (\<lambda>r.
                   gret (case r of Inr secretValue \<Rightarrow> Some secretValue | Inl _ \<Rightarrow> None))
            else gret None))"

definition override_values ::
  "('n, 'w) DeploymentSvc \<Rightarrow> Deployment \<Rightarrow> Application \<Rightarrow> 'n OverrideValues list \<Rightarrow> ('w, 'n OverrideValues list) nbio" where
  "override_values s d app overrideValuesList =
     (if ap_ValueSecretName app = [] then gret overrideValuesList
      else gtry (value_secret s (om_Namespace (d_Meta d)) (ap_ValueSecretName app)) (\<lambda>secret.
        case secret of
          None \<Rightarrow> gret overrideValuesList
        | Some secretValue \<Rightarrow>
            (case nl_YAMLToJSON (sv_lib s) (label_get (se_Data secretValue) ''values'') of
               Inl _ \<Rightarrow> gret overrideValuesList
             | Inr val \<Rightarrow>
                 gret (overrideValuesList @ [\<lparr>ov_AppName = ap_Name app, ov_TargetNamespace = ap_Namespace app,
                   ov_Values = (case nl_unmarshal_struct (sv_lib s) val of Inl _ \<Rightarrow> None | Inr v \<Rightarrow> v)\<rparr>]))))"

definition createDeploymentObject ::
  "('n, 'w) DeploymentSvc \<Rightarrow> string list \<Rightarrow> Deployment \<Rightarrow> DeploymentCluster list \<Rightarrow> ('w, 'n PbDeployment option) nbio" where
  "createDeploymentObject s checkFilters d dcs =
     (if \<not> deployment_matches checkFilters d then gret None
      else gtry (clusterLabelsMap s d dcs) (\<lambda>labelsMap.
           gtry (gfold (override_values s d) (sp_Applications (d_Spec d)) []) (\<lambda>overrideValuesList.
           gret (Some (deployment_response d dcs labelsMap overrideValuesList)))))"

text \<open>All deployments that match the filter.\<close>

definition queryFilter ::
  "('n, 'w) DeploymentSvc \<Rightarrow> string list \<Rightarrow> Deployment list \<Rightarrow> DeploymentCluster list \<Rightarrow> ('w, 'n PbDeployment list) nbio" where
  "queryFilter s labelSet deployments dcs =
     gfold (\<lambda>d deployList. gtry (createDeploymentObject s labelSet d dcs) (\<lambda>r.
       gret (case r of None \<Rightarrow> deployList | Some deploy \<Rightarrow> deployList @ [deploy]))) deployments []"

section \<open>Deployments\<close>

definition incomplete :: "('w, 'a) nbio" where
  "incomplete = gfail (TypedErr KInvalid ''incomplete request'')"

definition missing :: "string option \<Rightarrow> bool" where
  "missing i = (i = None \<or> i = Some [])"

definition GetDeploymentsStatus :: "('n, 'w) DeploymentSvc \<Rightarrow> NbCtx \<Rightarrow> string list \<Rightarrow> ('w, StatusCounts) nbio" where
  "GetDeploymentsStatus s x labelSet = as_status s
     (gtry (checked s x ''cannot get status of deployments'' (GetDeploymentsStatusRequest labelSet)) (\<lambda>_.
      gtry (active_project s x) (\<lambda>project.
      gtry (gmap_err K8sToTypedError (svDeployments_List s project (project_labels project))) (\<lambda>deployments.
      gtry (gmap_err K8sToTypedError (svDeploymentClusters_List s (project_labels project))) (\<lambda>dcs.
      gtry (queryFilter s labelSet deployments (valid_clusters deployments dcs)) (\<lambda>deployList.
      ggo (count_deployments deployList zero_status_counts)))))))"

text \<open>The deployment of a UID, or an error where there is none.\<close>

definition found_deployment :: "('n, 'w) DeploymentSvc \<Rightarrow> string \<Rightarrow> string \<Rightarrow> string \<Rightarrow> ('w, Deployment) nbio" where
  "found_deployment s UID project message =
     gtry (matchUIDDeployment s UID project (project_labels project)) (\<lambda>d.
       if om_Name (d_Meta d) = [] then gfail (TypedErr KNotFound message) else gret d)"

definition cluster_labels_of :: "string \<Rightarrow> string \<Rightarrow> labels" where
  "cluster_labels_of UID project = [(LabelDeploymentID, UID), (AppOrchActiveProjectID, project)]"

definition GetDeployment :: "('n, 'w) DeploymentSvc \<Rightarrow> NbCtx \<Rightarrow> string option \<Rightarrow> ('w, 'n PbDeployment) nbio" where
  "GetDeployment s x deplId = as_status s
     (if missing deplId then incomplete
      else let UID = the deplId in
        gtry (checked s x ''cannot get deployment'' (GetDeploymentRequest UID)) (\<lambda>_.
        gtry (active_project s x) (\<lambda>project.
        gtry (found_deployment s UID project (''deployment id '' @ UID @ '' not found'')) (\<lambda>d.
        gtry (gmap_err K8sToTypedError (svDeploymentClusters_List s (cluster_labels_of UID project))) (\<lambda>dcs.
        gtry (createDeploymentObject s [] d (of_deployment UID dcs)) (\<lambda>r.
        case r of None \<Rightarrow> gpanic | Some deploy \<Rightarrow> gret deploy))))))"

text \<open>Deployments by their UID; of two with the same UID the later one is found.\<close>

definition deploymentMap :: "Deployment list \<Rightarrow> Deployment gomap" where
  "deploymentMap deployments = fold (\<lambda>d. AList.update (om_UID (d_Meta d)) d) deployments []"

definition instance_of :: "Deployment gomap \<Rightarrow> DeploymentCluster \<Rightarrow> DeploymentInstancesCluster option" where
  "instance_of m dc =
     (if dcs_DeploymentID (dc_Spec dc) = [] \<or> dcs_ClusterID (dc_Spec dc) = [] then None
      else case map_of m (dcs_DeploymentID (dc_Spec dc)) of
             None \<Rightarrow> None
           | Some d \<Rightarrow> Some (createDeploymentInstanceCluster dc (dcs_DeploymentID (dc_Spec dc)) (om_Name (d_Meta d))
               (sp_DisplayName (d_Spec d))))"

definition ListDeploymentsPerCluster ::
  "('n, 'w) DeploymentSvc \<Rightarrow> NbCtx \<Rightarrow> string \<Rightarrow> ('w, DeploymentInstancesCluster list \<times> 32 word) nbio" where
  "ListDeploymentsPerCluster s x clusterId = as_status s
     (gtry (checked s x ''cannot list deployments'' (ListDeploymentsPerClusterRequest clusterId)) (\<lambda>_.
      if clusterId = [] then gfail (TypedErr KInvalid ''incomplete request - cluster ID is missing'')
      else gtry (active_project s x) (\<lambda>project.
      gtry (gmap_err (\<lambda>err. TypedErr KUnavailable (''failed to get deployment list '' @ err_msg err))
             (svDeployments_List s project (project_labels project))) (\<lambda>deployments.
      gtry (gmap_err K8sToTypedError
             (svDeploymentClusters_List s (project_labels project @ [(LabelClusterName, clusterId)]))) (\<lambda>dcs.
        let deploymentList = List.map_filter (instance_of (deploymentMap deployments)) dcs
        in gret (deploymentList, ToInt32Clamped (int (length deploymentList))))))))"

definition ListDeployments ::
  "('n, 'w) DeploymentSvc \<Rightarrow> NbCtx \<Rightarrow> ListDeploymentsReq \<Rightarrow> ('w, 'n PbDeployment list \<times> 32 word) nbio" where
  "ListDeployments s x r = as_status s
     (gtry (checked s x ''cannot list deployments'' (ListDeploymentsRequest r)) (\<lambda>_.
      gtry (active_project s x) (\<lambda>project.
      gtry (gmap_err K8sToTypedError (svDeployments_List s project (project_labels project))) (\<lambda>deployments.
      gtry (queryFilter s (lrq_Labels r) deployments []) (\<lambda>deployList.
      gtry (gpure (selectDeployments (sv_text s) (sv_sort s) r deployList)) (\<lambda>selectedDeployments.
      gret (selectedDeployments, ToInt32Clamped (int (length deployList)))))))))"

section \<open>Clusters of a deployment and namespaces of applications\<close>

definition ListDeploymentClusters ::
  "('n, 'w) DeploymentSvc \<Rightarrow> NbCtx \<Rightarrow> ListDeploymentClustersReq option \<Rightarrow> ('w, PbCluster list \<times> 32 word) nbio" where
  "ListDeploymentClusters s x req = as_status s
     (if missing (map_option lcq_DeplId req) then incomplete
      else let r = the req; UID = lcq_DeplId r in
        gtry (checked s x ''cannot get deployment clusters'' (ListDeploymentClustersRequest r)) (\<lambda>_.
        gtry (active_project s x) (\<lambda>project.
        gtry (found_deployment s UID project (''deployment id '' @ UID @ '' not found'')) (\<lambda>d.
        gtry (gmap_err K8sToTypedError (svDeploymentClusters_List s (cluster_labels_of UID project))) (\<lambda>dcs.
        gtry (gmap_err (\<lambda>err. TypedErr KInvalid
               (''cannot list clusters for given deployment: '' @ UID @ '', '' @ err_msg err))
               (gpure (selectClustersPerDeployment (sv_text s) (sv_sort s) r (map createDeploymentClusterCr dcs)))) (\<lambda>selectedClusters.
        gret (selectedClusters, ToInt32Clamped (int (length dcs)))))))))"

text \<open>The target namespace and the default namespace of the bundle.\<close>

definition GetAppNamespace :: "('n, 'w) DeploymentSvc \<Rightarrow> NbCtx \<Rightarrow> string \<Rightarrow> ('w, string) nbio" where
  "GetAppNamespace s x appId = as_status s
     (case sv_Validate s (GetAppNamespaceRequest appId) of
        Some err \<Rightarrow> gfail (TypedErr KInvalid (err_msg err))
      | None \<Rightarrow>
          gtry (active_project s x) (\<lambda>clusterNameSpace.
          gtry (gmap_err K8sToTypedError (svGetBundle s clusterNameSpace appId)) (\<lambda>(target, default).
          gret (if target \<noteq> [] then target else default))))"

section \<open>Clusters\<close>

definition GetKubeConfig :: "('n, 'w) DeploymentSvc \<Rightarrow> NbCtx \<Rightarrow> string option \<Rightarrow> ('w, string) nbio" where
  "GetKubeConfig s x clusterId = as_status s
     (if missing clusterId then incomplete
      else let clusterID = the clusterId; request = GetKubeConfigRequest clusterID in
        case sv_Validate s request of
          Some err \<Rightarrow> gfail (TypedErr KInvalid (err_msg err))
        | None \<Rightarrow>
            gtry (gmap_err (\<lambda>_. TypedErr KForbidden ''cannot get kubeConfig info'') (AuthCheckAllowed s x request)) (\<lambda>_.
            gtry (active_project s x) (\<lambda>namespace.
            gtry (gmap_err K8sToTypedError (svClusters_Get s namespace clusterID)) (\<lambda>cluster.
            gtry (glift (GetSecretValue (svClientset s) namespace (cl_KubeConfigSecretName (c_Spec cluster)))) (\<lambda>kubeConfigValue.
            gret (label_get (se_Data kubeConfigValue) ''value''))))))"

definition cluster_info :: "Cluster \<Rightarrow> PbClusterInfo" where
  "cluster_info cluster =
     \<lparr>pci_Name = cl_DisplayName (c_Spec cluster), pci_Id = om_Name (c_Meta cluster), pci_Labels = labels_of (c_Meta cluster),
      pci_CreateTime = nanosecond_seconds (om_CreationTimestamp (c_Meta cluster))\<rparr>"

definition ListClusters :: "('n, 'w) DeploymentSvc \<Rightarrow> NbCtx \<Rightarrow> SelectRequest \<Rightarrow> ('w, PbClusterInfo list \<times> 32 word) nbio" where
  "ListClusters s x r = as_status s
     (gtry (checked s x ''cannot list clusters'' (ListClustersRequest r)) (\<lambda>_.
      gtry (active_project s x) (\<lambda>project.
      gtry (gmap_err K8sToTypedError (svClusters_List s project (project_labels project))) (\<lambda>clusters.
      gtry (gpure (selectClusters (sv_text s) (sv_sort s) r (map cluster_info clusters))) (\<lambda>selectedClusters.
      gret (selectedClusters, ToInt32Clamped (int (length clusters))))))))"

text \<open>The clusters of all deployments with the name add up to one.\<close>

definition merge_summary :: "PbSummary \<Rightarrow> PbSummary \<Rightarrow> PbSummary" where
  "merge_summary tmp s = s\<lparr>
     ps_Total := ToInt32Clamped (sint (ps_Total tmp) + sint (ps_Total s)),
     ps_Down := ToInt32Clamped (sint (ps_Down tmp) + sint (ps_Down s)),
     ps_Running := ToInt32Clamped (sint (ps_Running tmp) + sint (ps_Running s)),
     ps_Unknown := ToInt32Clamped (sint (ps_Unknown tmp) + sint (ps_Unknown s))\<rparr>"

definition merge_cluster :: "PbCluster \<Rightarrow> PbCluster \<Rightarrow> PbCluster" where
  "merge_cluster tmpResp r =
     (let st = pc_Status r; st' = pc_Status tmpResp
      in r\<lparr>pc_Status := st\<lparr>pbs_Summary := merge_summary (pbs_Summary st') (pbs_Summary st),
             pbs_State := (if pbs_State st' \<noteq> State_RUNNING then pbs_State st' else pbs_State st)\<rparr>,
           pc_Apps := pc_Apps r @ pc_Apps tmpResp\<rparr>)"

definition GetCluster :: "('n, 'w) DeploymentSvc \<Rightarrow> NbCtx \<Rightarrow> string option \<Rightarrow> ('w, PbCluster) nbio" where
  "GetCluster s x clusterId = as_status s
     (if missing clusterId then incomplete
      else let clusterID = the clusterId in
        gtry (checked s x ''cannot get cluster'' (GetClusterRequest clusterID)) (\<lambda>_.
        gtry (active_project s x) (\<lambda>project.
        gtry (gmap_err K8sToTypedError
               (svDeploymentClusters_List s [(LabelClusterName, clusterID), (AppOrchActiveProjectID, project)])) (\<lambda>clusters.
        case map createDeploymentClusterCr clusters of
          [] \<Rightarrow> gfail (TypedErr KNotFound (''cluster id '' @ clusterID @ '' not found''))
        | r # rs \<Rightarrow> gret (fold merge_cluster rs r)))))"

section \<open>Lemmas\<close>

text \<open>A read request changes nothing.\<close>

definition read_only :: "nb_ev \<Rightarrow> bool" where
  "read_only e = (case e of NbRead _ \<Rightarrow> True | NbAuthorize _ _ _ \<Rightarrow> True | _ \<Rightarrow> False)"

lemmas reader_defs = svDeployments_List_def svDeploymentClusters_List_def svClusters_Get_def svClusters_List_def
  svGetBundle_def GetSecretValue_def svClientset_def Clientset.simps

lemma does_AuthCheckAllowed: "does read_only (AuthCheckAllowed s x r) (\<lambda>_. True)"
  unfolding AuthCheckAllowed_def Let_def
  by (auto intro!: emits_intros simp: read_only_def split: option.splits sum.splits OpaResult.splits)

lemma does_checked: "does read_only (checked s x what r) (\<lambda>_. True)"
  unfolding checked_def by (auto intro!: emits_intros does_AuthCheckAllowed split: option.splits)

lemma does_active_project: "does P (active_project s x) (\<lambda>_. True)"
  unfolding active_project_def by (auto intro!: emits_intros split: sum.splits)

lemma does_found_deployment: "does read_only (found_deployment s UID project m) (\<lambda>_. True)"
  unfolding found_deployment_def matchUIDDeployment_def reader_defs
  by (auto intro!: emits_intros simp: read_only_def)

lemma does_createDeploymentObject: "does read_only (createDeploymentObject s fs d dcs) (\<lambda>_. True)"
proof -
  have 1: "does read_only (clusterLabelsMap s d dcs) (\<lambda>_. True)"
    unfolding clusterLabelsMap_def fetch_labels_def reader_defs
    by (auto intro!: emits_intros simp: read_only_def)
  have 2: "does read_only (value_secret s ns n) (\<lambda>_. True)" for ns n
    unfolding value_secret_def reader_defs
    by (auto intro!: emits_intros simp: read_only_def split: sum.splits)
  have 3: "does read_only (override_values s d app vs) (\<lambda>_. True)" for app vs
    unfolding override_values_def
    by (auto intro!: emits_intros 2 split: sum.splits option.splits)
  show ?thesis unfolding createDeploymentObject_def by (auto intro!: emits_intros 1 3)
qed

lemma does_queryFilter: "does read_only (queryFilter s ls ds dcs) (\<lambda>_. True)"
  unfolding queryFilter_def by (auto intro!: emits_intros does_createDeploymentObject)

lemmas read_intros = does_checked does_active_project does_found_deployment does_createDeploymentObject does_queryFilter

end
