(* ===== verification/NbCreate.thy ===== *)
theory NbCreate
  imports NbInit NbRead
begin

text \<open>
  The requests that change deployments (internal/northbound/northbound.go): creation, update and
  deletion, each with the deployments that the deployment depends on.
\<close>

section \<open>Targets for the children\<close>

definition targets_equal :: "labels list \<Rightarrow> labels list \<Rightarrow> bool" where
  "targets_equal a b = list_all2 map_equal a b"

text \<open>An auto-scaling parent replaces the targets of its children by those of its first application.\<close>

definition replace_targets :: "Application list \<Rightarrow> Application \<Rightarrow> Application \<times> bool" where
  "replace_targets parents app =
     (case parents of
        [] \<Rightarrow> (app, False)
      | parent # _ \<Rightarrow>
          (if targets_equal (ap_Targets app) (ap_Targets parent) then (app, False)
           else (app\<lparr>ap_Targets := ap_Targets parent\<rparr>, True)))"

text \<open>A targeted one adds its clusters, each once.\<close>

definition has_cluster :: "labels list \<Rightarrow> labels \<Rightarrow> bool" where
  "has_cluster targets t = list_ex (\<lambda>e. label_get e LabelClusterName = label_get t LabelClusterName) targets"

definition unique_targets :: "labels list \<Rightarrow> labels list" where
  "unique_targets allTargets = fold (\<lambda>t acc. if has_cluster acc t then acc else acc @ [t]) allTargets []"

definition add_targets :: "labels list \<Rightarrow> Application \<Rightarrow> Application \<times> bool" where
  "add_targets uniqueTargets app =
     (let targets = fold (\<lambda>t acc. if has_cluster acc t then acc else acc @ [t]) uniqueTargets (ap_Targets app)
      in (app\<lparr>ap_Targets := targets\<rparr>, length targets > length (ap_Targets app)))"

definition propagated :: "Deployment \<Rightarrow> Deployment \<Rightarrow> Deployment \<times> bool" where
  "propagated parent childDeployment =
     (let autoscaling = (sp_DeploymentType (d_Spec parent) = AutoScaling);
          parents = sp_Applications (d_Spec parent);
          step = (if autoscaling then replace_targets parents else add_targets (unique_targets (concat (map ap_Targets parents))));
          apps = map step (sp_Applications (d_Spec childDeployment));
          spec = (d_Spec childDeployment)\<lparr>sp_Applications := map fst apps\<rparr>;
          spec = (if autoscaling then spec\<lparr>sp_DeploymentType := AutoScaling\<rparr> else spec)
      in (childDeployment\<lparr>d_Spec := spec\<rparr>, list_ex snd apps))"

definition propagate_to :: "('n, 'w) DeploymentSvc \<Rightarrow> Deployment \<Rightarrow> string \<Rightarrow> ('w, unit) nbio" where
  "propagate_to s parent childName =
     gcatch (svDeployments_Get s (om_Namespace (d_Meta parent)) childName) (\<lambda>r.
       case r of
         Inl _ \<Rightarrow> gret ()
       | Inr childDeployment \<Rightarrow>
           (case propagated parent childDeployment of (child', updated) \<Rightarrow>
              gwhen updated
                (gcatch (svDeployments_Update s (om_Namespace (d_Meta parent)) childName child') (\<lambda>_. gret ()))))"

definition propagateTargetsToChildDeployments :: "('n, 'w) DeploymentSvc \<Rightarrow> Deployment \<Rightarrow> ('w, unit) nbio" where
  "propagateTargetsToChildDeployments s parent =
     geach (propagate_to s parent) (map fst (sp_ChildDeploymentList (d_Spec parent)))"

section \<open>Creation\<close>

text \<open>
  All targets of the dependents of an auto-scaling deployment share one label map, that of its
  own first target.  Where the cluster is written into it for a deployment that exists already,
  all of them have it.
\<close>

definition with_cluster :: "TargetClusters \<Rightarrow> TargetClusters" where
  "with_cluster tc =
     (if tc_ClusterId tc = [] then tc
      else tc\<lparr>tc_Labels := map_option (AList.update LabelClusterName (tc_ClusterId tc)) (tc_Labels tc)\<rparr>)"

definition share_targets :: "bool \<Rightarrow> 'n NbDeployment \<Rightarrow> 'n NbDeployment" where
  "share_targets written v =
     (if written \<and> nd_DeploymentType v = AutoScaling then v\<lparr>nd_TargetClusters := map with_cluster (nd_TargetClusters v)\<rparr> else v)"

definition share_first_target :: "bool \<Rightarrow> 'n NbDeployment \<Rightarrow> 'n NbDeployment" where
  "share_first_target written d =
     (if written \<and> nd_DeploymentType d = AutoScaling
      then d\<lparr>nd_TargetClusters := (case nd_TargetClusters d of [] \<Rightarrow> [] | t # ts \<Rightarrow> with_cluster t # ts)\<rparr> else d)"

text \<open>A dependent that is in the cluster gets the relationships and the new targets.\<close>

definition update_dependent ::
  "('n, 'w) DeploymentSvc \<Rightarrow> string \<Rightarrow> string \<Rightarrow> 'n NbDeployment \<Rightarrow> ('w, bool) nbio" where
  "update_dependent s namespace project v =
     gtry (gmap_err K8sToTypedError (svDeployments_Get s namespace (nd_Name v))) (\<lambda>cr.
       let cr = addRelationshipToDeploymentCR v cr;
           cr = addTargetClusterEntry (nd_TargetClusters v) cr project
       in gtry (gmap_err K8sToTypedError (svDeployments_Update s namespace (om_Name (d_Meta cr)) cr)) (\<lambda>_.
          gret (sp_Applications (d_Spec cr) \<noteq> [])))"

text \<open>One that is not is created; \<open>create_cr\<close> is the part that the root has too.\<close>

definition create_cr :: "('n, 'w) DeploymentSvc \<Rightarrow> string \<Rightarrow> 'n NbDeployment \<Rightarrow> ('w, 'n NbDeployment \<times> Deployment) nbio" where
  "create_cr s namespace d =
     gtry (createSecrets s d) (\<lambda>d.
     gtry (gpure (createDeploymentCr (sv_lib s) d ''create'' [] None)) (\<lambda>cr.
     gtry (gmap_err K8sToTypedError (svDeployments_Create s namespace (addRelationshipToDeploymentCR d cr))) (\<lambda>created.
       let d = d\<lparr>nd_DeployID := om_UID (d_Meta created)\<rparr>
       in gtry (updateOwnerRefSecrets s d) (\<lambda>_. gret (d, created)))))"

definition dependent_step ::
  "('n, 'w) DeploymentSvc \<Rightarrow> string \<Rightarrow> string \<Rightarrow> string \<times> 'n NbDeployment \<Rightarrow> bool \<Rightarrow> ('w, bool) nbio" where
  "dependent_step s namespace project kv written =
     (let v = share_targets written (snd kv)
      in if nd_DeployID v \<noteq> []
         then gtry (update_dependent s namespace project v) (\<lambda>w. gret (written \<or> w))
         else gtry (create_cr s namespace v) (\<lambda>_. gret written))"

definition check_duplicate :: "'n NbDeployment \<Rightarrow> Deployment list \<Rightarrow> ('w, unit) nbio" where
  "check_duplicate d crs =
     (case find (\<lambda>cr. nd_DisplayName d = sp_DisplayName (d_Spec cr)) crs of
        None \<Rightarrow> gret ()
      | Some cr \<Rightarrow> gfail (TypedErr KAlreadyExists (''Duplicate deployment exists with same name '' @ nd_DisplayName d @
                   '', deployID: '' @ om_UID (d_Meta cr))))"

text \<open>The context with the token and the project; the errors of it are typed by their kind.\<close>

definition outgoing :: "('n, 'w) DeploymentSvc \<Rightarrow> NbCtx \<Rightarrow> string \<Rightarrow> ('w, ctx) nbio" where
  "outgoing s x project = glift (AddToOutgoingContext (svVaultAuth s) project (x_out x))"

definition create_deployment ::
  "nat \<Rightarrow> ('n, 'w) DeploymentSvc \<Rightarrow> NbCtx \<Rightarrow> 'n PbDeployment \<Rightarrow> string \<Rightarrow> ('w, string) nbio" where
  "create_deployment depth s x r project =
     gtry (outgoing s x project) (\<lambda>c.
     gtry (initDeployment depth s c project ''create'' r []) (\<lambda>(d, dependentDepls).
     gtry (createGitClientSecret s d) (\<lambda>_.
     gtry (gfold (dependent_step s (nd_Namespace d) project) dependentDepls False) (\<lambda>written.
     gtry (getDeploymentCRWithDeploymentPackage s (nd_Namespace d)
            (GetDeploymentPackageID (nd_AppName d) (nd_AppVersion d) (nd_ProfileName d)) (project_labels project)) (\<lambda>crs.
     gtry (check_duplicate d crs) (\<lambda>_.
     gtry (create_cr s (nd_Namespace d) (share_first_target written d)) (\<lambda>(d, cr).
     gtry (gwhen (nd_ChildDeploymentList d \<noteq> []) (propagateTargetsToChildDeployments s cr)) (\<lambda>_.
     gret (nd_DeployID d)))))))))"

definition CreateDeployment ::
  "nat \<Rightarrow> ('n, 'w) DeploymentSvc \<Rightarrow> NbCtx \<Rightarrow> 'n CreateDeploymentReq option \<Rightarrow> ('w, string) nbio" where
  "CreateDeployment depth s x req = as_status s
     (case req of
        None \<Rightarrow> incomplete
      | Some r \<Rightarrow>
          (case crq_Deployment r of
             None \<Rightarrow> incomplete
           | Some d \<Rightarrow>
               gtry (checked s x ''cannot create deployment'' (CreateDeploymentRequest r)) (\<lambda>_.
               gtry (active_project s x) (\<lambda>project. create_deployment depth s x d project))))"

section \<open>Deletion\<close>

definition delete_cr :: "('n, 'w) DeploymentSvc \<Rightarrow> string \<Rightarrow> string \<Rightarrow> ('w, unit) nbio" where
  "delete_cr s namespace name = gmap_err K8sToTypedError (svDeployments_Delete s namespace name)"

text \<open>The resources by their name, and the error texts of a deletion of all dependents.\<close>

definition allDeploymentMap :: "Deployment list \<Rightarrow> Deployment gomap" where
  "allDeploymentMap deployments = fold (\<lambda>d. AList.update (om_Name (d_Meta d)) d) deployments []"

fun DeleteType_String :: "DeleteType \<Rightarrow> string" where
  "DeleteType_String DeleteType_PARENT_ONLY = ''PARENT_ONLY''"
| "DeleteType_String DeleteType_ALL = ''ALL''"

definition delete_all :: "('n, 'w) DeploymentSvc \<Rightarrow> string \<Rightarrow> string \<Rightarrow> DeleteType \<Rightarrow> ('w, unit) nbio" where
  "delete_all s project name dt =
     gtry (gmap_err K8sToTypedError (svDeployments_List s project (project_labels project))) (\<lambda>allDeployments.
       case getTargetDeploymentsForDeleteDeployment delete_depth name [] (allDeploymentMap allDeployments) of
         Inl err \<Rightarrow> gfail (TypedErr KNotFound (''failed to get target deployment CRs to delete deployment '' @ name @
                       '' (deleteType: '' @ DeleteType_String dt @ ''): err '' @ err_msg err))
       | Inr targetList \<Rightarrow>
           gtry (ggo (validateTargetDeployments targetList)) (\<lambda>valid.
             if \<not> valid then gfail (TypedErr KNotFound (''validation failed to delete deployment '' @ name @
               '' (deleteType: '' @ DeleteType_String dt @
               '') - one of target deployment CRs has a parent deployment CR outside of dependency graph''))
             else geach (delete_cr s project) (map fst targetList)))"

definition parents_running :: "string \<Rightarrow> string \<Rightarrow> Deployment \<Rightarrow> goerror" where
  "parents_running what name d = TypedErr KAborted (''cannot '' @ what @ '' deployment '' @ name @ '' - '' @
     nat_str (length (parents_of d)) @ '' parent deployment(s) is running'')"

definition delete_deployment :: "('n, 'w) DeploymentSvc \<Rightarrow> DeleteDeploymentReq \<Rightarrow> string \<Rightarrow> ('w, unit) nbio" where
  "delete_deployment s r project =
     gtry (found_deployment s (drq_DeplId r) project
            (''deployment '' @ drq_DeplId r @ '' not found while deleting deployment'')) (\<lambda>d.
       let name = om_Name (d_Meta d)
       in if parents_of d \<noteq> [] then gfail (parents_running ''delete'' name d)
          else if drq_DeleteType r = DeleteType_PARENT_ONLY
          then gtry (delete_cr s project name) (\<lambda>_. gcatch (deleteSecrets s d) (\<lambda>_. gret ()))
          else delete_all s project name (drq_DeleteType r))"

definition DeleteDeployment ::
  "('n, 'w) DeploymentSvc \<Rightarrow> NbCtx \<Rightarrow> DeleteDeploymentReq option \<Rightarrow> ('w, unit) nbio" where
  "DeleteDeployment s x req = as_status s
     (if missing (map_option drq_DeplId req) then incomplete
      else gtry (checked s x ''cannot delete deployment'' (DeleteDeploymentRequest (the req))) (\<lambda>_.
           gtry (active_project s x) (delete_deployment s (the req))))"

section \<open>Update\<close>

text \<open>The text of a map: its pairs in the order of the keys.\<close>

fun insert_pair :: "string \<times> string \<Rightarrow> labels \<Rightarrow> labels" where
  "insert_pair kv [] = [kv]"
| "insert_pair kv (x # xs) = (if str_compare (fst kv) (fst x) \<le> 0 then kv # x # xs else x # insert_pair kv xs)"

definition map_text :: "labels \<Rightarrow> string" where
  "map_text m = ''map['' @ Join (map (\<lambda>(k, v). k @ '':'' @ v) (foldr insert_pair m [])) '' '' @ '']''"

text \<open>The version and profile of each package, by its name only.\<close>

definition packages_by_name :: "DeploymentPackageRef list \<Rightarrow> labels" where
  "packages_by_name refs = fold (\<lambda>p. AList.update (dp_Name p) (dp_Version p @ ''/'' @ dp_ProfileName p)) refs []"

definition childDeplMap :: "Deployment \<Rightarrow> labels" where
  "childDeplMap d = packages_by_name (map (\<lambda>(_, c). dd_DeploymentPackageRef c) (sp_ChildDeploymentList (d_Spec d)))"

definition newDepDeplMap :: "'n NbDeployment \<Rightarrow> labels" where
  "newDepDeplMap d = packages_by_name (map snd (nd_RequiredDeploymentPackage d))"

definition check_update :: "'n NbDeployment \<Rightarrow> Deployment \<Rightarrow> ('w, unit) nbio" where
  "check_update d cr =
     (if parents_of cr \<noteq> [] then gfail (parents_running ''update'' (nd_Name d) cr)
      else if \<not> map_equal (childDeplMap cr) (newDepDeplMap d)
      then gfail (TypedErr KAborted (''cannot update deployment '' @ nd_Name d @
             '' - current deployment package for child and new deployment package are not matched: current - '' @
             map_text (childDeplMap cr) @ '', new - '' @ map_text (newDepDeplMap d)))
      else gret ())"

definition existing_deployment :: "('n, 'w) DeploymentSvc \<Rightarrow> string \<Rightarrow> string \<Rightarrow> string \<Rightarrow> ('w, Deployment) nbio" where
  "existing_deployment s UID namespace project =
     gtry (matchUIDDeployment s UID namespace (project_labels project)) (\<lambda>cr.
       if om_Name (d_Meta cr) = []
       then gfail (TypedErr KNotFound (''deployment '' @ UID @ '' not found while updating deployment''))
       else if om_ResourceVersion (d_Meta cr) = []
       then gfail (TypedErr KNotFound ''resourceVersion not found while updating deployment'')
       else gret cr)"

definition write_update :: "('n, 'w) DeploymentSvc \<Rightarrow> 'n NbDeployment \<Rightarrow> Deployment \<Rightarrow> ('w, 'n PbDeployment) nbio" where
  "write_update s d cr =
     gtry (deleteSecrets s cr) (\<lambda>_.
     gtry (createSecrets s d) (\<lambda>d.
     gtry (gpure (createDeploymentCr (sv_lib s) d ''update'' (om_ResourceVersion (d_Meta cr)) (Some cr))) (\<lambda>inst.
       let inst = inst\<lparr>d_Spec := (d_Spec inst)\<lparr>sp_ChildDeploymentList := sp_ChildDeploymentList (d_Spec cr)\<rparr>\<rparr>
       in gtry (gmap_err K8sToTypedError (svDeployments_Update s (nd_Namespace d) (nd_Name d) inst)) (\<lambda>updated.
          gtry (gwhen (sp_ChildDeploymentList (d_Spec inst) \<noteq> []) (propagateTargetsToChildDeployments s inst)) (\<lambda>_.
          gtry (updateOwnerRefSecrets s d) (\<lambda>_.
          gtry (createDeploymentObject s [] updated []) (\<lambda>answer.
            case answer of None \<Rightarrow> gpanic | Some deploy \<Rightarrow> gret deploy)))))))"

definition update_deployment ::
  "nat \<Rightarrow> ('n, 'w) DeploymentSvc \<Rightarrow> NbCtx \<Rightarrow> 'n PbDeployment \<Rightarrow> string \<Rightarrow> string \<Rightarrow> ('w, 'n PbDeployment) nbio" where
  "update_deployment depth s x r deplId project =
     gtry (outgoing s x project) (\<lambda>c.
     gtry (initDeployment depth s c project ''update'' (r\<lparr>pd_DeployId := deplId\<rparr>) []) (\<lambda>(d, dependentDepls).
     gtry (existing_deployment s deplId (nd_Namespace d) project) (\<lambda>cr.
       let d = d\<lparr>nd_DeployID := deplId, nd_Name := om_Name (d_Meta cr),
                 nd_DisplayName := (if nd_DisplayName d = [] then sp_DisplayName (d_Spec cr) else nd_DisplayName d)\<rparr>
       in gtry (check_update d cr) (\<lambda>_. write_update s d cr))))"

definition UpdateDeployment ::
  "nat \<Rightarrow> ('n, 'w) DeploymentSvc \<Rightarrow> NbCtx \<Rightarrow> 'n UpdateDeploymentReq option \<Rightarrow> ('w, 'n PbDeployment) nbio" where
  "UpdateDeployment depth s x req = as_status s
     (case req of
        None \<Rightarrow> incomplete
      | Some r \<Rightarrow>
          (case urq_Deployment r of
             None \<Rightarrow> incomplete
           | Some d \<Rightarrow>
               (if urq_DeplId r = [] then incomplete
                else gtry (checked s x ''cannot update deployment'' (UpdateDeploymentRequest r)) (\<lambda>_.
                     gtry (active_project s x) (\<lambda>project. update_deployment depth s x d (urq_DeplId r) project)))))"

end
