(* ===== verification/NbSample.thy ===== *)
theory NbSample
  imports NbCreate
begin

text \<open>
  A small service for the concrete instances of the properties: the API server is a list of
  deployments, and the Catalog has a package \<open>web\<close> that requires the package \<open>db\<close>.
\<close>

definition sample_cr :: "string \<Rightarrow> string list \<Rightarrow> string list \<Rightarrow> Deployment" where
  "sample_cr name children parents =
     (let ref = (\<lambda>n. (n, \<lparr>dd_DeploymentPackageRef = empty_pkgref, dd_DeploymentName = n\<rparr>))
      in empty_deployment\<lparr>d_Meta := empty_meta\<lparr>om_Name := name, om_UID := name @ ''-uid'', om_ResourceVersion := ''1''\<rparr>,
           d_Spec := empty_spec\<lparr>sp_ChildDeploymentList := map ref children\<rparr>,
           d_Status := empty_status\<lparr>st_ParentDeploymentList := Some (map ref parents)\<rparr>\<rparr>)"

definition no_such :: "string \<Rightarrow> goerror" where
  "no_such name = K8sErr ReasonNotFound (name @ '' not found'')"

definition sample_kube :: "(Deployment list) NbKube" where
  "sample_kube = \<lparr>
     n_ListDeployments = (\<lambda>_ _ w. (Inr w, w)),
     n_GetDeployment = (\<lambda>_ n w. (case find (\<lambda>d. om_Name (d_Meta d) = n) w of None \<Rightarrow> Inl (no_such n) | Some d \<Rightarrow> Inr d, w)),
     n_CreateDeployment = (\<lambda>_ d w. (Inr d, w @ [d])),
     n_UpdateDeployment = (\<lambda>_ n d w. (Inr d, map (\<lambda>d'. if om_Name (d_Meta d') = n then d else d') w)),
     n_DeleteDeployment = (\<lambda>_ n w. (None, filter (\<lambda>d. om_Name (d_Meta d) \<noteq> n) w)),
     n_ListDeploymentClusters = (\<lambda>_ w. (Inr [], w)),
     n_GetCluster = (\<lambda>_ n w. (Inl (no_such n), w)),
     n_ListClusters = (\<lambda>_ _ w. (Inr [], w)),
     n_GetBundle = (\<lambda>_ n w. (Inl (no_such n), w)),
     n_GetNamespace = (\<lambda>n w. (Inl (no_such n), w)),
     n_CreateNamespace = (\<lambda>_ w. (None, w)),
     n_UpdateNamespace = (\<lambda>_ w. (None, w)),
     n_CreateRoleBinding = (\<lambda>_ w. (None, w)),
     n_CreateSecret = (\<lambda>_ w. (None, w)),
     n_GetSecret = (\<lambda>_ n w. (Inl (no_such n), w)),
     n_UpdateSecret = (\<lambda>_ w. (None, w)),
     n_DeleteSecret = (\<lambda>_ _ w. (None, w))\<rparr>"

definition sample_app :: "string \<Rightarrow> CatRequirement list \<Rightarrow> CatApplication" where
  "sample_app name reqs = \<lparr>cap_Name = name, cap_ChartName = name, cap_ChartVersion = ''1'', cap_HelmRegistryName = ''helm'',
     cap_ImageRegistryName = [], cap_Profiles = [\<lparr>cpr_Name = ''small'', cpr_ChartValues = [], cpr_ParameterTemplates = [],
       cpr_DeploymentRequirement = reqs\<rparr>], cap_IgnoredResources = []\<rparr>"

definition sample_package :: "string \<Rightarrow> CatDeploymentPackage" where
  "sample_package name = \<lparr>cdp_Name = name, cdp_Version = ''1'', cdp_IsDeployed = False, cdp_DefaultNamespaces = [],
     cdp_ApplicationDependencies = [], cdp_DefaultProfileName = ''small'',
     cdp_Profiles = [\<lparr>cdf_Name = ''small'', cdf_ApplicationProfiles = [(name, ''small'')]\<rparr>],
     cdp_ApplicationReferences = [(name, ''1'')], cdp_ArtifactRefs = [], cdp_Extensions = [],
     cdp_ForbidsMultipleDeployments = False, cdp_Namespaces = []\<rparr>"

definition sample_services :: "'w NbServices" where
  "sample_services = \<lparr>
     v_GetM2MToken = (\<lambda>_ w. (Inr ''token'', w)),
     v_Logout = (\<lambda>_ w. (None, w)),
     v_GetDeploymentPackage = (\<lambda>_ n _ w. (Inr (sample_package n), w)),
     v_GetApplication = (\<lambda>_ n _ w. (Inr (sample_app n (if n = ''web''
       then [\<lparr>crq_Name = ''db'', crq_Version = ''1'', crq_DeploymentProfileName = ''small''\<rparr>] else [])), w)),
     v_GetRegistry = (\<lambda>_ _ _ w. (Inr \<lparr>crg_RootUrl = ''oci://helm'', crg_Username = [], crg_AuthToken = [], crg_Cacerts = []\<rparr>, w)),
     v_GenerateName = (\<lambda>base w. (base @ ''1'', w)),
     v_VaultClient = (\<lambda>w. (None, w)),
     v_VaultValue = (\<lambda>_ _ w. (Inr ''v'', w)),
     v_VaultLogout = (\<lambda>w. (None, w)),
     v_PostRule = (\<lambda>_ _ _ w. (Inr \<lparr>opa_JSON200 = Some (OpaBool False)\<rparr>, w))\<rparr>"

definition sample_nblib :: "int nblib" where
  "sample_nblib = \<lparr>nl_json_map = (\<lambda>_. Inr ''{}''), nl_json_struct = (\<lambda>_. Inr ''{}''), nl_unmarshal_struct = (\<lambda>_. Inr None),
     nl_YAMLToJSON = Inr, nl_JSONToYAML = Inr, nl_float = id, nl_RS_PROXY_REPO = ''oci://proxy'',
     nl_RS_PROXY_REPO_SECRET = ''proxy-secret'', nl_RS_PROXY_REMOTE_NS = ''proxy''\<rparr>"

definition sample_text :: textlib where
  "sample_text = \<lparr>lib_match = (\<lambda>_ _. None), lib_time = (\<lambda>_. None)\<rparr>"

definition sample_svc :: "bool \<Rightarrow> (int, Deployment list) DeploymentSvc" where
  "sample_svc opa = \<lparr>sv_lib = sample_nblib, sv_text = sample_text, sv_sort = insertionSort, sv_kube = sample_kube,
     sv_srv = sample_services, sv_opaClient = opa, sv_Status = id, sv_Validate = (\<lambda>_. None),
     sv_marshal = (\<lambda>_ _. Inr ''{}''), sv_redeployEnv = [], sv_secretServiceEnabled = Inr False,
     sv_gitPath = [], sv_gitUsernameKey = [], sv_gitPasswordKey = []\<rparr>"

definition sample_ctx :: NbCtx where
  "sample_ctx = \<lparr>x_md = Some [(''activeprojectid'', [''p''])], x_out = []\<rparr>"

definition sample_world :: "(nb_ev, Deployment list) world" where
  "sample_world = \<lparr>env = [sample_cr ''web'' [''db''] [], sample_cr ''db'' [] [''web''], sample_cr ''other'' [] []], trace = []\<rparr>"

definition sample_pb_deployment :: "int PbDeployment" where
  "sample_pb_deployment = \<lparr>pd_Name = [], pd_DisplayName = ''shop'', pd_AppName = ''web'', pd_AppVersion = ''1'',
     pd_ProfileName = ''small'', pd_DeployId = [], pd_OverrideValues = [],
     pd_TargetClusters = [\<lparr>tc_AppName = ''web'', tc_Labels = None, tc_ClusterId = ''edge1''\<rparr>],
     pd_Status = None, pd_Apps = [], pd_DeploymentType = ''targeted'', pd_NetworkName = [], pd_ServiceExports = [],
     pd_AllAppTargetClusters = None, pd_CreateTime = 0\<rparr>"

text \<open>The deletion of a deployment with its dependent.\<close>

lemma sample_delete:
  "result (delete_all (sample_svc False) ''p'' ''web'' DeleteType_ALL) sample_world = Ret (Inr ())"
  by code_simp

end
