(* ===== verification/NbProps.thy ===== *)
theory NbProps
  imports NbSample
begin

text \<open>
  The properties of the northbound service: what a deletion deletes, what a request that is
  refused leaves alone, the secrets of the override values, the targets of an application, and
  the counts of a status request.
\<close>

section \<open>Deletion\<close>

lemma geach_delete:
  assumes "run_state (geach (delete_cr s ns) ks) w = (Ret (Inr ()), w')"
  shows "trace w' = trace w @ map (\<lambda>k. NbWrite (DeleteDeploymentCR ns k)) ks"
  using assms
proof (induction ks arbitrary: w)
  case (Cons k ks)
  then obtain w1 where "run_state (delete_cr s ns k) w = (Ret (Inr ()), w1)"
    "run_state (geach (delete_cr s ns) ks) w1 = (Ret (Inr ()), w')"
    by (auto simp: run_gtry split: prod.splits go.splits sum.splits)
  moreover from this(1) have "trace w1 = trace w @ [NbWrite (DeleteDeploymentCR ns k)]"
    by (auto simp: delete_cr_def svDeployments_Delete_def run_gmap_err split: prod.splits)
  ultimately show ?case using Cons.IH by simp
qed simp

text \<open>
  Claim C5.  A request to delete a deployment with all its dependents that succeeds deletes,
  among the deployments that the API server lists, exactly those that the deployment depends on
  over any number of steps and itself, each of them once, and makes no other call; all of them
  exist, and none has a parent that is not deleted too.
\<close>

theorem delete_all_closure:
  assumes "run_state (delete_all s project name dt) w = (Ret (Inr ()), w')"
  shows "\<exists>ds ks. fst (n_ListDeployments (sv_kube s) project (project_labels project) (env w)) = Inr ds \<and>
     distinct ks \<and> set ks = {k. depends (allDeploymentMap ds) name k} \<and>
     trace w' = trace w @ NbRead (ListDeploymentCRs project (project_labels project)) #
       map (\<lambda>k. NbWrite (DeleteDeploymentCR project k)) ks \<and>
     (\<forall>k \<in> set ks. \<exists>d. map_of (allDeploymentMap ds) k = Some d \<and> set (parents_of d) \<subseteq> set ks)"
proof -
  let ?l = "project_labels project"
  obtain r e1 where call: "n_ListDeployments (sv_kube s) project ?l (env w) = (r, e1)" by force
  define w1 where "w1 = w\<lparr>env := e1, trace := trace w @ [NbRead (ListDeploymentCRs project ?l)]\<rparr>"
  obtain ds where ds: "r = Inr ds"
    using assms call by (cases r) (auto simp: delete_all_def svDeployments_List_def run_gtry run_gmap_err)
  let ?m = "allDeploymentMap ds"
  obtain tg where tg: "getTargetDeploymentsForDeleteDeployment delete_depth name [] ?m = Inr tg"
    using assms call by (cases "getTargetDeploymentsForDeleteDeployment delete_depth name [] ?m")
      (auto simp: delete_all_def svDeployments_List_def run_gtry run_gmap_err ds)
  have valid: "validateTargetDeployments tg = Ret True"
    using assms call by (cases "validateTargetDeployments tg")
      (auto simp: delete_all_def svDeployments_List_def run_gtry run_gmap_err ds tg split: if_splits)
  have run: "run_state (geach (delete_cr s project) (map fst tg)) w1 = (Ret (Inr ()), w')"
    using assms call by (simp add: delete_all_def svDeployments_List_def run_gtry run_gmap_err ds tg valid w1_def)
  have d: "distinct (map fst tg)" using get_targets_distinct(1) [OF tg] by simp
  have dom: "dom (map_of tg) = {k. depends ?m name k}" and ent: "is_entry ?m tg"
    using get_targets_dom(1) [OF tg] by (simp_all add: is_entry_def)
  have keys: "set (map fst tg) = {k. depends ?m name k}" using dom by (simp add: dom_map_of_conv_image_fst)
  have "\<exists>d. map_of ?m k = Some d \<and> set (parents_of d) \<subseteq> set (map fst tg)" if "k \<in> set (map fst tg)" for k
  proof -
    from that obtain v where kv: "(k, v) \<in> set tg" by auto
    with d have "map_of tg k = Some v" by simp
    with ent have "v = map_of ?m k" by (simp add: is_entry_def)
    moreover from validate_entries_True [OF valid [unfolded validateTargetDeployments_def] kv]
    obtain dep where "v = Some dep" "\<forall>p \<in> set (parents_of dep). map_of tg p \<noteq> None" by blast
    ultimately have "map_of ?m k = Some dep" "set (parents_of dep) \<subseteq> set (map fst tg)"
      by (auto simp: map_of_eq_None_iff)
    then show ?thesis by blast
  qed
  moreover have "trace w' = trace w @ NbRead (ListDeploymentCRs project ?l) #
      map (\<lambda>k. NbWrite (DeleteDeploymentCR project k)) (map fst tg)"
    using geach_delete [OF run] by (simp add: w1_def)
  ultimately show ?thesis using call ds d keys by (intro exI [of _ ds] exI [of _ "map fst tg"]) simp
qed

theorem delete_all_closure_witness:
  "\<exists>ds ks. set ks = {k. depends (allDeploymentMap ds) ''web'' k} \<and>
     effects (delete_all (sample_svc False) ''p'' ''web'' DeleteType_ALL) sample_world =
       NbRead (ListDeploymentCRs ''p'' (project_labels ''p'')) # map (\<lambda>k. NbWrite (DeleteDeploymentCR ''p'' k)) ks"
proof -
  let ?m = "delete_all (sample_svc False) ''p'' ''web'' DeleteType_ALL"
  obtain w' where run: "run_state ?m sample_world = (Ret (Inr ()), w')"
    using sample_delete by (cases "run_state ?m sample_world") (simp add: result_def)
  from delete_all_closure [OF run] obtain ds ks where
    "set ks = {k. depends (allDeploymentMap ds) ''web'' k}"
    "trace w' = trace sample_world @ NbRead (ListDeploymentCRs ''p'' (project_labels ''p'')) #
       map (\<lambda>k. NbWrite (DeleteDeploymentCR ''p'' k)) ks" by blast
  then show ?thesis by (intro exI [of _ ds] exI [of _ ks]) (simp add: effects_def run)
qed

text \<open>What the check of the parents says of a list that holds a whole closure.\<close>

lemma validate_entries_cases:
  assumes "distinct (map fst tg)" "dom (map_of tg) = {k. depends m name k}" "is_entry m tg"
  shows "validate_entries tg tg = Ret True \<Longrightarrow> depends m name k \<Longrightarrow>
      \<exists>d. map_of m k = Some d \<and> (\<forall>p \<in> set (parents_of d). depends m name p)"
    and "(\<forall>k d p. depends m name k \<longrightarrow> map_of m k = Some d \<longrightarrow> p \<in> set (parents_of d) \<longrightarrow> depends m name p) \<Longrightarrow>
      validate_entries tg tg = Panicked \<or> validate_entries tg tg = Ret True"
proof -
  have in_dom: "map_of tg p \<noteq> None \<longleftrightarrow> depends m name p" for p using assms(2) by (auto simp: dom_def)
  have entry: "v = map_of m k \<and> depends m name k" if "(k, v) \<in> set tg" for k v
    using that assms(1,3) in_dom [of k] by (simp add: is_entry_def)
  show "\<exists>d. map_of m k = Some d \<and> (\<forall>p \<in> set (parents_of d). depends m name p)"
    if "validate_entries tg tg = Ret True" "depends m name k" for k
  proof -
    from that(2) in_dom obtain v where "map_of tg k = Some v" by blast
    then have "(k, v) \<in> set tg" by (rule map_of_SomeD)
    with validate_entries_True [OF that(1)] entry in_dom show ?thesis by metis
  qed
  assume parents: "\<forall>k d p. depends m name k \<longrightarrow> map_of m k = Some d \<longrightarrow> p \<in> set (parents_of d) \<longrightarrow> depends m name p"
  have "validate_entries tg es = Panicked \<or> validate_entries tg es = Ret True" if "set es \<subseteq> set tg" for es
    using that
  proof (induction es)
    case (Cons kv es)
    obtain k v where kv: "kv = (k, v)" by (cases kv)
    with Cons.prems entry have "v = map_of m k" "depends m name k" by auto
    with Cons parents in_dom show ?case by (auto simp: kv list_all_iff split: option.splits)
  qed simp
  then show "validate_entries tg tg = Panicked \<or> validate_entries tg tg = Ret True" by blast
qed

text \<open>
  Claim C23.  The same request deletes nothing and fails where the graph below the deployment has
  a path of more than 20 steps, where one of the deployments it reaches has a parent outside, or
  where one of them does not exist; in the last case it panics on a nil pointer as soon as no
  parent is outside and no path is too long.
\<close>

theorem delete_all_rejects:
  assumes "n_ListDeployments (sv_kube s) project (project_labels project) (env w) = (Inr ds, e1)"
    and "dep_path (allDeploymentMap ds) delete_depth name \<or>
      (\<exists>k. depends (allDeploymentMap ds) name k \<and> (case map_of (allDeploymentMap ds) k of
         None \<Rightarrow> True | Some d \<Rightarrow> \<exists>p \<in> set (parents_of d). \<not> depends (allDeploymentMap ds) name p))"
  shows "\<exists>r w'. run_state (delete_all s project name dt) w = (r, w') \<and> (\<forall>x. r \<noteq> Ret (Inr x)) \<and>
     trace w' = trace w @ [NbRead (ListDeploymentCRs project (project_labels project))] \<and>
     (\<not> dep_path (allDeploymentMap ds) delete_depth name \<and>
      (\<forall>k d p. depends (allDeploymentMap ds) name k \<longrightarrow> map_of (allDeploymentMap ds) k = Some d \<longrightarrow>
         p \<in> set (parents_of d) \<longrightarrow> depends (allDeploymentMap ds) name p) \<longrightarrow> r = Panicked)"
proof -
  let ?m = "allDeploymentMap ds"
  let ?w1 = "w\<lparr>env := e1, trace := trace w @ [NbRead (ListDeploymentCRs project (project_labels project))]\<rparr>"
  have run: "run_state (delete_all s project name dt) w =
      run_state (case getTargetDeploymentsForDeleteDeployment delete_depth name [] ?m of
         Inl err \<Rightarrow> gfail (TypedErr KNotFound (''failed to get target deployment CRs to delete deployment '' @ name @
                       '' (deleteType: '' @ DeleteType_String dt @ ''): err '' @ err_msg err))
       | Inr targetList \<Rightarrow>
           gtry (ggo (validateTargetDeployments targetList)) (\<lambda>valid.
             if \<not> valid then gfail (TypedErr KNotFound (''validation failed to delete deployment '' @ name @
               '' (deleteType: '' @ DeleteType_String dt @
               '') - one of target deployment CRs has a parent deployment CR outside of dependency graph''))
             else geach (delete_cr s project) (map fst targetList))) ?w1"
    by (simp add: delete_all_def svDeployments_List_def run_gtry run_gmap_err assms(1))
  show ?thesis
  proof (cases "getTargetDeploymentsForDeleteDeployment delete_depth name [] ?m")
    case (Inl e)
    then have "dep_path ?m delete_depth name" using get_targets_fails_iff(1) by blast
    with Inl show ?thesis by (simp add: run)
  next
    case (Inr tg)
    have path: "\<not> dep_path ?m delete_depth name"
      using get_targets_fails_iff(1) [where n = delete_depth and r = name and m = ?m and tg = "[]"] Inr by auto
    have dom: "dom (map_of tg) = {k. depends ?m name k}" and ent: "is_entry ?m tg"
      using get_targets_dom(1) [OF Inr] by (simp_all add: is_entry_def)
    note v = validate_entries_cases [OF get_targets_distinct(1) [OF Inr] dom ent]
    have "validate_entries tg tg \<noteq> Ret True" using v(1) assms(2) path by fastforce
    then show ?thesis
      using Inr v(2) path
      by (cases "validate_entries tg tg") (auto simp: run run_gtry validateTargetDeployments_def)
  qed
qed

definition dangling_world :: "(nb_ev, Deployment list) world" where
  "dangling_world = \<lparr>env = [sample_cr ''web'' [''db''] []], trace = []\<rparr>"

lemma depends_direct: "map_of m a = Some d \<Longrightarrow> b \<in> set (map fst (sp_ChildDeploymentList (d_Spec d))) \<Longrightarrow> depends m a b"
  by (blast intro: depends.intros childI)

theorem delete_all_rejects_witness:
  "\<exists>r w'. run_state (delete_all (sample_svc False) ''p'' ''web'' DeleteType_ALL) dangling_world = (r, w') \<and>
     (\<forall>x. r \<noteq> Ret (Inr x)) \<and> trace w' = [NbRead (ListDeploymentCRs ''p'' (project_labels ''p''))]"
proof -
  let ?m = "allDeploymentMap [sample_cr ''web'' [''db''] []]"
  have "map_of ?m ''web'' = Some (sample_cr ''web'' [''db''] [])"
    by (simp add: allDeploymentMap_def sample_cr_def Let_def)
  then have "depends ?m ''web'' ''db''" by (rule depends_direct) (simp add: sample_cr_def Let_def)
  moreover have "map_of ?m ''db'' = None" by (simp add: allDeploymentMap_def sample_cr_def Let_def)
  ultimately have "\<exists>k. depends ?m ''web'' k \<and> (case map_of ?m k of None \<Rightarrow> True
      | Some d \<Rightarrow> \<exists>p \<in> set (parents_of d). \<not> depends ?m ''web'' p)" by (intro exI [of _ "''db''"]) simp
  moreover have "n_ListDeployments (sv_kube (sample_svc False)) ''p'' (project_labels ''p'') (env dangling_world) =
      (Inr [sample_cr ''web'' [''db''] []], env dangling_world)"
    by (simp add: sample_svc_def sample_kube_def dangling_world_def)
  ultimately have "\<exists>r w'. run_state (delete_all (sample_svc False) ''p'' ''web'' DeleteType_ALL) dangling_world = (r, w') \<and>
     (\<forall>x. r \<noteq> Ret (Inr x)) \<and>
     trace w' = trace dangling_world @ [NbRead (ListDeploymentCRs ''p'' (project_labels ''p''))]"
    using delete_all_rejects [of "sample_svc False" "''p''" dangling_world "[sample_cr ''web'' [''db''] []]"] by blast
  then show ?thesis by (simp add: dangling_world_def)
qed

section \<open>Secrets of the override values\<close>

text \<open>
  Claim C15.  The secret of a parameter that masking takes out of the override values, and
  replaces by the placeholder, is put back by the unmasking of an update that gets the masked
  values again, and nothing else is changed: the two are inverse to each other for every path
  down to the depth the functions look at.
\<close>

theorem mask_unmask_roundtrip:
  assumes "lookup_path fs keys = Some (StringValue secret)" "struct_ok fs" "unmasked fs"
    and "list_all (\<lambda>k. k \<noteq> [] \<and> CHR ''.'' \<notin> set k) keys" "length keys \<le> 21"
  shows "\<exists>masked. maskPbValue fs (Split (Join keys ''.'') ''.'') old 0 = Ret (masked, secret) \<and>
     lookup_path masked keys = Some (StringValue MaskedValuePlaceholder) \<and>
     UnmaskSecrets masked [(Join keys ''.'', StringValue secret)] [] = fs"
proof -
  from assms(1) have "keys \<noteq> []" by auto
  with assms(4) have split: "Split (Join keys ''.'') ''.'' = keys"
    by (intro Split_Join_char) (auto simp: list_all_iff)
  from assms(4,5) have "list_all (\<lambda>k. k \<noteq> []) keys" "0 + int (length keys) \<le> maxDepth + 1"
    by (auto simp: list_all_iff maxDepth_def)
  from mask_walk [OF assms(1-3) this order_refl, of old] obtain masked where
    *: "walk_fields mask_string 0 keys fs old = Ret (masked, secret)"
      "lookup_path masked keys = Some (StringValue MaskedValuePlaceholder)"
      "\<And>pre. UnmaskSecrets masked [(full_key pre (Join keys ''.''), StringValue secret)] pre = fs"
    by blast
  have "maskPbValue fs (Split (Join keys ''.'') ''.'') old 0 = Ret (masked, secret)"
    by (simp add: maskPbValue_def split maxDepth_def *(1))
  with *(2) *(3) [of "[]"] show ?thesis by (auto simp: full_key_def)
qed

definition sample_values :: "unit PbStruct" where
  "sample_values = [(''db'', StructValue [(''user'', StringValue ''root''), (''password'', StringValue ''s3cret'')]),
     (''mode'', BoolValue True)]"

theorem mask_unmask_roundtrip_witness:
  "\<exists>masked. maskPbValue sample_values (Split ''db.password'' ''.'') [] 0 = Ret (masked, ''s3cret'') \<and>
     UnmaskSecrets masked [(''db.password'', StringValue ''s3cret'')] [] = sample_values"
  using mask_unmask_roundtrip [of sample_values "[''db'', ''password'']" "''s3cret''" "[]"]
  by (auto simp: sample_values_def struct_ok_def MaskedValuePlaceholder_def)

section \<open>Targets\<close>

definition cluster_name :: "labels \<Rightarrow> string" where
  "cluster_name t = label_get t LabelClusterName"

lemma check_targets_targeted:
  "check_targets Targeted project vals = Ret (Inr tcs) \<Longrightarrow>
     tcs = map (\<lambda>v. v\<lparr>tc_Labels := Some [(ClusterOrchKeyProjectID, project)]\<rparr>) vals \<and> list_all (\<lambda>v. tc_ClusterId v \<noteq> []) vals"
proof (induction vals arbitrary: tcs)
  case (Cons v vs)
  then have ne: "tc_AppName v \<noteq> []" by auto
  with Cons.prems obtain v' where v': "check_target ''targetClusters'' Targeted project v = Ret (Inr v')"
    by (cases "check_target ''targetClusters'' Targeted project v") (auto simp: rgo_bind_def split: sum.splits)
  with Cons.prems ne obtain vs' where vs': "check_targets Targeted project vs = Ret (Inr vs')" "tcs = v' # vs'"
    by (cases "check_targets Targeted project vs") (auto simp: rgo_bind_def split: sum.splits)
  from v' have "v' = v\<lparr>tc_Labels := Some [(ClusterOrchKeyProjectID, project)]\<rparr>" "tc_ClusterId v \<noteq> []"
    by (auto simp: check_target_def label_target_def split: if_splits)
  with Cons.IH [OF vs'(1)] vs'(2) show ?case by simp
qed simp

lemma find_cluster_Some:
  "find_cluster n ts = Some i \<Longrightarrow> i < length ts \<and> cluster_name (ts ! i) = n"
  by (induction ts arbitrary: i) (auto simp: cluster_name_def split: if_splits)

lemma find_cluster_None: "find_cluster n ts = None \<Longrightarrow> n \<noteq> [] \<Longrightarrow> n \<notin> set (map cluster_name ts)"
  by (induction ts) (auto simp: cluster_name_def split: if_splits)

lemma add_targeted_step:
  assumes "tc_Labels tc = Some [(ClusterOrchKeyProjectID, project)]" "tc_ClusterId tc \<noteq> []"
    and "distinct (map cluster_name ts)" "list_all (\<lambda>t. label_get t ClusterOrchKeyProjectID = project) ts"
  shows "\<exists>ts'. add_targeted tc ts = Ret ts' \<and> distinct (map cluster_name ts') \<and>
     set (map cluster_name ts') = insert (tc_ClusterId tc) (set (map cluster_name ts)) \<and>
     list_all (\<lambda>t. label_get t ClusterOrchKeyProjectID = project) ts'"
proof -
  let ?l = "[(ClusterOrchKeyProjectID, project), (LabelClusterName, tc_ClusterId tc)]"
  show ?thesis
  proof (cases "find_cluster (tc_ClusterId tc) ts")
    case None
    with assms find_cluster_None [OF None] show ?thesis
      by (simp add: add_targeted_def cluster_name_def)
  next
    case (Some i)
    define t' where "t' = fold (\<lambda>(key, value). AList.update key value) ?l (ts ! i)"
    from find_cluster_Some [OF Some] have i: "i < length ts" "cluster_name (ts ! i) = tc_ClusterId tc" by auto
    have t': "cluster_name t' = tc_ClusterId tc" "label_get t' ClusterOrchKeyProjectID = project"
      by (simp_all add: t'_def cluster_name_def)
    have names: "map cluster_name (ts[i := t']) = map cluster_name ts"
      using i t'(1) by (simp add: map_update list_update_same_conv)
    have "add_targeted tc ts = Ret (ts[i := t'])"
      using assms(1,2) Some by (simp add: add_targeted_def t'_def)
    moreover have "list_all (\<lambda>t. label_get t ClusterOrchKeyProjectID = project) (ts[i := t'])"
      using assms(4) t'(2) i(1) by (auto simp: list_all_iff dest!: set_update_subset_insert [THEN subsetD])
    moreover have "tc_ClusterId tc \<in> set (map cluster_name ts)"
      using i by (metis length_map nth_map nth_mem)
    ultimately show ?thesis using assms(3) names by (metis insert_absorb)
  qed
qed

text \<open>
  Claim C29.  From the targets of a targeted request that pass the checks, every application gets
  one target per cluster, and one for exactly the clusters that the request names for it; each
  carries the project of the request.
\<close>

theorem targeted_targets_unique:
  assumes "check_targets Targeted project vals = Ret (Inr tcs)"
  shows "\<exists>ts. app_targets scenario Targeted name tcs [] = Ret ts \<and> distinct (map cluster_name ts) \<and>
     set (map cluster_name ts) = {tc_ClusterId v | v. v \<in> set vals \<and> tc_AppName v = name} \<and>
     list_all (\<lambda>t. label_get t ClusterOrchKeyProjectID = project) ts"
proof -
  have "\<exists>ts'. app_targets scenario Targeted name (map (\<lambda>v. v\<lparr>tc_Labels := Some [(ClusterOrchKeyProjectID, project)]\<rparr>) vs) ts = Ret ts' \<and>
      distinct (map cluster_name ts') \<and>
      set (map cluster_name ts') = set (map cluster_name ts) \<union> {tc_ClusterId v | v. v \<in> set vs \<and> tc_AppName v = name} \<and>
      list_all (\<lambda>t. label_get t ClusterOrchKeyProjectID = project) ts'"
    if "list_all (\<lambda>v. tc_ClusterId v \<noteq> []) vs" "distinct (map cluster_name ts)"
      "list_all (\<lambda>t. label_get t ClusterOrchKeyProjectID = project) ts" for vs ts
    using that
  proof (induction vs arbitrary: ts)
    case (Cons v vs)
    let ?v = "v\<lparr>tc_Labels := Some [(ClusterOrchKeyProjectID, project)]\<rparr>"
    show ?case
    proof (cases "name = tc_AppName v")
      case False
      then have "{tc_ClusterId v' | v'. v' \<in> set (v # vs) \<and> tc_AppName v' = name}
          = {tc_ClusterId v | v. v \<in> set vs \<and> tc_AppName v = name}" by auto
      with Cons.IH [of ts] Cons.prems False show ?thesis by simp
    next
      case True
      from add_targeted_step [of ?v project ts] Cons.prems obtain ts1 where
        1: "add_targeted ?v ts = Ret ts1" "distinct (map cluster_name ts1)"
          "set (map cluster_name ts1) = insert (tc_ClusterId v) (set (map cluster_name ts))"
          "list_all (\<lambda>t. label_get t ClusterOrchKeyProjectID = project) ts1" by auto
      from Cons.IH [of ts1] 1 Cons.prems obtain ts2 where
        2: "app_targets scenario Targeted name (map (\<lambda>v. v\<lparr>tc_Labels := Some [(ClusterOrchKeyProjectID, project)]\<rparr>) vs) ts1 = Ret ts2"
          "distinct (map cluster_name ts2)"
          "set (map cluster_name ts2) = set (map cluster_name ts1) \<union> {tc_ClusterId v | v. v \<in> set vs \<and> tc_AppName v = name}"
          "list_all (\<lambda>t. label_get t ClusterOrchKeyProjectID = project) ts2" by auto
      have "set (map cluster_name ts2) = set (map cluster_name ts) \<union> {tc_ClusterId v' | v'. v' \<in> set (v # vs) \<and> tc_AppName v' = name}"
        unfolding 2(3) 1(3) using True by auto
      with 1(1) 2 True show ?thesis by (intro exI [of _ ts2]) simp
    qed
  qed simp
  from this [of vals "[]"] check_targets_targeted [OF assms] show ?thesis by simp
qed

theorem targeted_targets_unique_witness:
  "\<exists>ts. app_targets ''create'' Targeted ''web'' [\<lparr>tc_AppName = ''web'', tc_Labels = Some [(ClusterOrchKeyProjectID, ''p'')],
       tc_ClusterId = ''edge1''\<rparr>] [] = Ret ts \<and> set (map cluster_name ts) = {''edge1''}"
proof -
  have "check_targets Targeted ''p'' [\<lparr>tc_AppName = ''web'', tc_Labels = None, tc_ClusterId = ''edge1''\<rparr>] =
      Ret (Inr [\<lparr>tc_AppName = ''web'', tc_Labels = Some [(ClusterOrchKeyProjectID, ''p'')], tc_ClusterId = ''edge1''\<rparr>])"
    by (simp add: check_target_def label_target_def)
  from targeted_targets_unique [OF this, of "''create''" "''web''"] show ?thesis by auto
qed

text \<open>
  A targeted deployment that names its cluster for all applications at once, and no
  application by itself, is accepted by the checks of the request, but its resource cannot be
  made: the targets have no label map, and writing the cluster into it panics.
\<close>

theorem targeted_all_apps_panics:
  assumes "nd_DeploymentType d = Targeted" "nd_TargetClusters d = []" "nd_HelmApps d \<noteq> []"
  shows "\<exists>d'. mergeAllAppTargetClusters d target = Ret d' \<and> nd_HelmApps d' = nd_HelmApps d \<and>
     createDeploymentCr NL d' scenario resourceVersion existing = Panicked"
proof -
  obtain app apps where apps: "nd_HelmApps d = app # apps" using assms(3) by (cases "nd_HelmApps d") auto
  define d' where "d' = d\<lparr>nd_TargetClusters := map (target_for_app Targeted target) (nd_HelmApps d)\<rparr>"
  have "mergeAllAppTargetClusters d target = Ret d'"
    using assms by (simp add: mergeAllAppTargetClusters_def d'_def)
  moreover have "application_of NL d' scenario existing app = Panicked"
    using assms(1) by (simp add: application_of_def d'_def apps target_for_app_def add_targeted_def)
  then have "createDeploymentCr NL d' scenario resourceVersion existing = Panicked"
    by (simp add: createDeploymentCr_def d'_def apps)
  ultimately show ?thesis by (simp add: d'_def)
qed

definition all_apps_deployment :: "int NbDeployment" where
  "all_apps_deployment = empty_nb_deployment\<lparr>nd_DeploymentType := Targeted,
     nd_HelmApps := [newHelmApp [] (sample_app ''web'' []) \<lparr>crg_RootUrl = [], crg_Username = [], crg_AuthToken = [], crg_Cacerts = []\<rparr>
       None [] ''small'']\<rparr>"

theorem targeted_all_apps_panics_witness:
  "\<exists>d'. mergeAllAppTargetClusters all_apps_deployment \<lparr>tc_AppName = [], tc_Labels = None, tc_ClusterId = ''edge1''\<rparr> = Ret d' \<and>
     createDeploymentCr sample_nblib d' ''create'' [] None = Panicked"
proof -
  have "nd_DeploymentType all_apps_deployment = Targeted" "nd_TargetClusters all_apps_deployment = []"
    "nd_HelmApps all_apps_deployment \<noteq> []"
    by (simp_all add: all_apps_deployment_def empty_nb_deployment_def)
  from targeted_all_apps_panics [OF this] show ?thesis by metis
qed

section \<open>Refused requests and read requests\<close>

definition only_authorizes :: "nb_ev list \<Rightarrow> bool" where
  "only_authorizes es = (length es \<le> 1 \<and> list_all (\<lambda>e. case e of NbAuthorize _ _ _ \<Rightarrow> True | _ \<Rightarrow> False) es)"

lemma checked_calls: "only_authorizes (effects (checked s x what r) w)"
  by (auto simp: only_authorizes_def effects_def checked_def AuthCheckAllowed_def Let_def run_gmap_err run_gtry
      split: option.splits sum.splits OpaResult.splits prod.splits)

lemma as_status_stops:
  assumes "result (checked s x what r) w = Ret (Inl e)"
  shows "effects (as_status s (gtry (checked s x what r) f)) w = effects (checked s x what r) w"
    and "result (as_status s (gtry (checked s x what r) f)) w = Ret (Inl (sv_Status s e))"
proof -
  obtain w1 where "run_state (checked s x what r) w = (Ret (Inl e), w1)"
    using assms by (cases "run_state (checked s x what r) w") (simp add: result_def)
  then show "effects (as_status s (gtry (checked s x what r) f)) w = effects (checked s x what r) w"
    "result (as_status s (gtry (checked s x what r) f)) w = Ret (Inl (sv_Status s e))"
    by (simp_all add: effects_def result_def as_status_def run_gmap_err run_gtry)
qed


lemma sample_denied:
  "result (checked (sample_svc True) sample_ctx what r) w = Ret (Inl (TypedErr KForbidden (what @ '': '' @ ''access denied (3)'')))"
  by (simp add: result_def checked_def AuthCheckAllowed_def Let_def run_gmap_err run_gtry sample_svc_def sample_ctx_def sample_services_def)


lemmas handler_defs = as_status_def missing_def incomplete_def Let_def

lemma read_GetAppNamespace: "does read_only (GetAppNamespace s x appId) (\<lambda>_. True)"
  unfolding GetAppNamespace_def handler_defs svGetBundle_def
  by (auto intro!: emits_intros read_intros simp: read_only_def split: option.splits)

lemma read_GetKubeConfig: "does read_only (GetKubeConfig s x i) (\<lambda>_. True)"
  unfolding GetKubeConfig_def handler_defs reader_defs
  by (auto intro!: emits_intros read_intros does_AuthCheckAllowed simp: read_only_def split: option.splits)

lemma read_clusters:
  "does read_only (ListClusters s x r) (\<lambda>_. True)"
  "does read_only (GetCluster s x i) (\<lambda>_. True)"
  unfolding ListClusters_def GetCluster_def handler_defs reader_defs
  by (auto intro!: emits_intros read_intros simp: read_only_def split: list.splits)

lemma read_deployments:
  "does read_only (GetDeploymentsStatus s x ls) (\<lambda>_. True)"
  "does read_only (GetDeployment s x i) (\<lambda>_. True)"
  "does read_only (ListDeploymentsPerCluster s x c) (\<lambda>_. True)"
  "does read_only (ListDeployments s x lr) (\<lambda>_. True)"
  "does read_only (ListDeploymentClusters s x cr) (\<lambda>_. True)"
  unfolding GetDeploymentsStatus_def GetDeployment_def ListDeploymentsPerCluster_def ListDeployments_def
    ListDeploymentClusters_def handler_defs reader_defs
  by (auto intro!: emits_intros read_intros simp: read_only_def split: option.splits)

text \<open>
  Claim C30.  The nine read requests of the service create, update and delete nothing, fetch no
  token and touch no vault, whatever the API server answers.
\<close>

theorem read_requests_write_nothing:
  "does read_only (GetDeploymentsStatus s x ls) (\<lambda>_. True) \<and> does read_only (GetDeployment s x i) (\<lambda>_. True) \<and>
   does read_only (ListDeploymentsPerCluster s x c) (\<lambda>_. True) \<and> does read_only (ListDeployments s x lr) (\<lambda>_. True) \<and>
   does read_only (ListDeploymentClusters s x lcr) (\<lambda>_. True) \<and> does read_only (GetAppNamespace s x appId) (\<lambda>_. True) \<and>
   does read_only (GetKubeConfig s x k) (\<lambda>_. True) \<and> does read_only (ListClusters s x r) (\<lambda>_. True) \<and>
   does read_only (GetCluster s x g) (\<lambda>_. True)"
  by (intro conjI read_GetAppNamespace read_GetKubeConfig read_clusters read_deployments)

section \<open>Counts\<close>

definition summary_ok :: "PbSummary \<Rightarrow> bool" where
  "summary_ok s = (sint (ps_Running s) \<ge> 0 \<and> sint (ps_Down s) \<ge> 0 \<and> sint (ps_Unknown s) \<ge> 0 \<and>
     sint (ps_Total s) = sint (ps_Running s) + sint (ps_Down s) + sint (ps_Unknown s))"

definition other_counts :: "StatusCounts \<Rightarrow> int" where
  "other_counts c = sint (sc_Running c) + sint (sc_Down c) + sint (sc_Deploying c) + sint (sc_Updating c) +
     sint (sc_Terminating c) + sint (sc_Unknown c) + sint (sc_Error c)"

definition counts_ok :: "StatusCounts \<Rightarrow> bool" where
  "counts_ok c = (list_all (\<lambda>sel. sint (sel c) \<ge> 0)
     [sc_Running, sc_Down, sc_Deploying, sc_Updating, sc_Terminating, sc_Unknown, sc_Error, sc_Total] \<and>
     other_counts c \<le> sint (sc_Total c))"

lemma count_deployment_ok:
  assumes "counts_ok c" "summary_ok (pbs_Summary st)" "sint (sc_Total c) + sint (ps_Total (pbs_Summary st)) < 2 ^ 31"
  shows "counts_ok (count_deployment st c)"
    and "sint (sc_Total (count_deployment st c)) = sint (sc_Total c) + sint (ps_Total (pbs_Summary st))"
proof -
  note ok = assms(1) [unfolded counts_ok_def other_counts_def, simplified] assms(2) [unfolded summary_ok_def]
  have "sint (add_count a b) = sint a + sint b"
    if "0 \<le> sint a" "0 \<le> sint b" "sint a \<le> sint (sc_Total c)" "sint b \<le> sint (ps_Total (pbs_Summary st))" for a b
    using add_count_sint [OF that(1,2)] that(3,4) assms(3) by simp
  note add = this
  show "sint (sc_Total (count_deployment st c)) = sint (sc_Total c) + sint (ps_Total (pbs_Summary st))"
    using ok by (cases "pbs_State st") (simp_all add: count_deployment_def Let_def add)
  show "counts_ok (count_deployment st c)"
    using ok by (cases "pbs_State st") (simp_all add: counts_ok_def other_counts_def count_deployment_def Let_def add)
qed

text \<open>
  Claim C19.  Where every deployment has a status whose counts add up, and there are less than
  two to the 31 clusters in total, a status request answers with the exact number of clusters; no count is
  negative, and the clusters by state are at most as many as there are clusters.
\<close>

theorem status_counts_exact:
  assumes "list_all (\<lambda>d. case pd_Status d of None \<Rightarrow> False | Some st \<Rightarrow> summary_ok (pbs_Summary st)) ds"
    and "sum_list (map (\<lambda>d. sint (ps_Total (pbs_Summary (the (pd_Status d))))) ds) < 2 ^ 31"
  shows "\<exists>c. count_deployments ds zero_status_counts = Ret c \<and> counts_ok c \<and>
     sint (sc_Total c) = sum_list (map (\<lambda>d. sint (ps_Total (pbs_Summary (the (pd_Status d))))) ds)"
proof -
  let ?t = "\<lambda>d. sint (ps_Total (pbs_Summary (the (pd_Status d))))"
  have "\<exists>c'. count_deployments ds c = Ret c' \<and> counts_ok c' \<and> sint (sc_Total c') = sint (sc_Total c) + sum_list (map ?t ds)"
    if "counts_ok c" "sint (sc_Total c) + sum_list (map ?t ds) < 2 ^ 31" for c
    using assms(1) that
  proof (induction ds arbitrary: c)
    case (Cons d ds)
    then obtain st where st: "pd_Status d = Some st" "summary_ok (pbs_Summary st)" by (auto split: option.splits)
    have "0 \<le> ?t d'" if "d' \<in> set ds" for d'
      using Cons.prems(1) that by (auto simp: list_all_iff summary_ok_def split: option.splits)
    then have "0 \<le> sum_list (map ?t ds)" by (intro sum_list_nonneg) auto
    with Cons.prems(3) st(1) have small: "sint (sc_Total c) + sint (ps_Total (pbs_Summary st)) < 2 ^ 31" by simp
    note ok = count_deployment_ok [OF Cons.prems(2) st(2) small]
    from Cons.IH [OF _ ok(1)] Cons.prems(1,3) show ?case by (simp add: st(1) ok(2) add.assoc)
  qed simp
  from this [of zero_status_counts] assms(2) show ?thesis
    by (simp add: zero_status_counts_def counts_ok_def other_counts_def)
qed

definition counted :: "string \<Rightarrow> PbState \<Rightarrow> 32 word \<Rightarrow> 32 word \<Rightarrow> int PbDeployment" where
  "counted n st running down = sample_pb_deployment\<lparr>pd_Name := n, pd_Status := Some \<lparr>pbs_State = st, pbs_Message = [],
     pbs_Summary = \<lparr>ps_Total = running + down, ps_Running = running, ps_Down = down, ps_Unknown = 0, ps_Type = []\<rparr>\<rparr>\<rparr>"

theorem status_counts_exact_witness:
  "\<exists>c. count_deployments [counted ''a'' State_DEPLOYING 2 1, counted ''b'' State_ERROR 0 4] zero_status_counts = Ret c \<and>
     counts_ok c \<and> sint (sc_Total c) = 7"
  using status_counts_exact [of "[counted ''a'' State_DEPLOYING 2 1, counted ''b'' State_ERROR 0 4]"]
  by (simp add: counted_def summary_ok_def)

text \<open>
  An application with template secrets and no override values of its own gets the masked override values of the application
  before it.
\<close>

lemma masked_overrides_of_another_app:
  assumes "label_get (nd_ParameterTemplateSecrets d) (ch_Name app) = secret" "secret \<noteq> []"
    "map_of overrideValuesMasked (ch_Name app) = None" "other \<noteq> []"
  shows "template_step s overrideValuesMasked app d other =
    gtry (make_secret s (nd_Namespace d) (profile_secret (nd_Name d) (ch_Name app) (nd_ProfileName d)) [(''values'', secret)] False) (\<lambda>_.
    gtry (make_secret s (nd_Namespace d) (app_secret (nd_Name d) app ''overrides-masked'') [(''values'', other)] False) (\<lambda>_. gret other))"
  using assms by (simp add: template_step_def gwhen_def Let_def)

end
