(* ===== verification/NbTerm.thy ===== *)
theory NbTerm
  imports NbSample
begin

text \<open>
  The recursion over required packages ends: with the packages of the Catalog ordered by what
  they require, the depth of the stack is bounded by the rank of the package.
\<close>

lemma gtry_cong_returns:
  assumes "returns m Q" "\<And>x. Q x \<Longrightarrow> f x = g x"
  shows "gtry m f = gtry m g"
proof -
  have "run_state (gtry m f) s = run_state (gtry m g) s" for s
    using assms(1) [unfolded returns_def post_def, rule_format, of s] assms(2)
    by (auto simp: run_gtry split: prod.splits go.splits sum.splits)
  then show ?thesis by (intro state.expand) auto
qed

lemma gfold_cong: "(\<And>x b. x \<in> set xs \<Longrightarrow> f x b = g x b) \<Longrightarrow> gfold f xs b = gfold g xs b"
proof (induction xs arbitrary: b)
  case (Cons x xs)
  then have "gfold f xs = gfold g xs" by (intro ext) simp
  with Cons show ?case by simp
qed simp

section \<open>What the steps keep\<close>

lemma checked_request_keeps:
  "checked_request r project = Ret (Inr (d, keys)) \<Longrightarrow>
     nd_AppName d = pd_AppName r \<and> nd_AppVersion d = pd_AppVersion r \<and> nd_ProfileName d = pd_ProfileName r"
  by (auto simp: checked_request_def Let_def rgo_bind_def split: if_splits go.splits sum.splits prod.splits)

lemma returns_gcatch: "(\<And>r. returns (f r) Q) \<Longrightarrow> returns (gcatch m f) Q"
  unfolding returns_def gcatch_def by (rule post_bind_any) (auto split: go.splits simp: post_def)

lemma returns_gpure: "returns (gpure r) Q = (case r of Ret (Inr x) \<Rightarrow> Q x | _ \<Rightarrow> True)"
  by (auto simp: returns_def post_def)

lemma returns_ggo: "returns (ggo r) Q = (case r of Ret x \<Rightarrow> Q x | _ \<Rightarrow> True)"
  by (cases r) (auto simp: returns_def post_def)

lemma returns_gmap_err: "returns (gmap_err h m) Q = returns m Q"
proof -
  have "(case (case r of Ret (Inl e) \<Rightarrow> Ret (Inl (h e)) | _ \<Rightarrow> r) of Ret (Inr x) \<Rightarrow> Q x | _ \<Rightarrow> True)
      = (case r of Ret (Inr x) \<Rightarrow> Q x | _ \<Rightarrow> True)" for r
    by (simp split: go.split sum.split)
  then show ?thesis by (simp add: returns_def post_def run_gmap_err split_beta)
qed

lemma unmask_keeps: "returns (unmask_step s scenario r project d) (\<lambda>d'. nd_HelmApps d' = nd_HelmApps d)"
proof -
  have app: "nd_HelmApps b = nd_HelmApps d \<Longrightarrow> returns (unmask_app s app b) (\<lambda>d'. nd_HelmApps d' = nd_HelmApps d)" for app b
    unfolding unmask_app_def by (rule returns_gcatch) (auto split: sum.splits option.splits)
  have "returns (update_identity s i project d) (\<lambda>d'. nd_HelmApps d' = nd_HelmApps d)" for i
    unfolding update_identity_def Let_def by (auto intro!: returns_gcatch split: sum.splits)
  then show ?thesis
    unfolding unmask_step_def by (auto intro!: returns_gtry [where R = "\<lambda>d'. nd_HelmApps d' = nd_HelmApps d"] returns_gfold app)
qed

lemma check_apps_keeps:
  "check_apps NL keys apps d nf = Ret (Inr (d', nf')) \<Longrightarrow> nd_HelmApps d' = nd_HelmApps d"
proof (induction NL keys apps d nf rule: check_apps.induct)
  case (2 NL keys app apps d nf)
  then show ?case
    by (auto simp: Let_def split: go.splits if_splits sum.splits)
qed simp

lemma check_keeps: "checkParameterTemplate NL d keys = Ret (Inr d') \<Longrightarrow> nd_HelmApps d' = nd_HelmApps d"
  by (auto simp: checkParameterTemplate_def rgo_bind_def dest: check_apps_keeps split: go.splits sum.splits if_splits prod.splits)

lemma name_keeps: "returns (name_step s scenario r d) (\<lambda>d'. nd_HelmApps d' = nd_HelmApps d)"
proof -
  have 1: "returns (if a then gret x else if b then gfail e else gret y) Q = (if a then Q x else b \<or> Q y)"
    for a b x e and y :: "'c NbDeployment" and Q by simp
  show ?thesis unfolding name_step_def Let_def
    by (cases "scenario = ''create''"; cases "scenario = ''update''") (auto intro!: returns_gtry_any simp: 1)
qed

lemma merge_keeps: "mergeAllAppTargetClusters d t = Ret d' \<Longrightarrow> nd_HelmApps d' = nd_HelmApps d"
  by (auto simp: mergeAllAppTargetClusters_def go_bind_Ret split: if_splits)

section \<open>The depth of the recursion\<close>

text \<open>All requirements of the applications have a smaller rank than the package.\<close>

definition below :: "(string \<Rightarrow> nat) \<Rightarrow> nat \<Rightarrow> CatHelmApp list \<Rightarrow> bool" where
  "below rank n apps = list_all (\<lambda>app. list_all (\<lambda>q. rank (GetID q) < n) (ch_RequiredDeploymentPackages app)) apps"

definition package_id :: "'n PbDeployment \<Rightarrow> string" where
  "package_id r = GetDeploymentPackageID (pd_AppName r) (pd_AppVersion r) (pd_ProfileName r)"

lemma add_dependency_cong:
  assumes "\<And>apps t ty ds. I ''create'' (child_request q apps t ty) ds = J ''create'' (child_request q apps t ty) ds"
  shows "add_dependency s c I r targets project q x = add_dependency s c J r targets project q x"
  unfolding add_dependency_def Let_def assms ..

lemma addDep_cong:
  assumes "below rank n (nd_HelmApps d)"
    and "\<And>q apps t ty ds. rank (GetID q) < n \<Longrightarrow>
      I ''create'' (child_request q apps t ty) ds = J ''create'' (child_request q apps t ty) ds"
  shows "addDepAndRelationships s c I d r depls project = addDepAndRelationships s c J d r depls project"
  unfolding addDepAndRelationships_def Let_def
  using assms(1) by (intro gfold_cong add_dependency_cong assms(2)) (auto simp: below_def list_all_iff)

lemma keeps_below:
  assumes "returns m (\<lambda>d'. nd_HelmApps d' = nd_HelmApps d)" "below rank n apps" "nd_HelmApps d = apps"
  shows "returns m (\<lambda>d'. below rank n (nd_HelmApps d'))"
  using assms(1) unfolding returns_def
  by (rule post_weaken) (use assms(2,3) in \<open>auto split: go.splits sum.splits\<close>)

lemma init_deployment_cong:
  assumes "\<And>name version profile. returns (lookup_package s c name version profile)
      (\<lambda>(dp, apps, _). below rank (rank (GetDeploymentPackageID name version profile)) apps)"
    and "\<And>q apps t ty ds. rank (GetID q) < rank (package_id r) \<Longrightarrow>
      I ''create'' (child_request q apps t ty) ds = J ''create'' (child_request q apps t ty) ds"
  shows "init_deployment s c project I scenario r depls = init_deployment s c project J scenario r depls"
proof -
  let ?n = "rank (package_id r)"
  have merge: "addDepAndRelationships s c I d' r depls project = addDepAndRelationships s c J d' r depls project"
    if "below rank ?n (nd_HelmApps d')" for d'
    using that assms(2) by (rule addDep_cong)
  let ?Q = "\<lambda>d'. below rank ?n (nd_HelmApps d')"
  show ?thesis
    unfolding init_deployment_def
  proof (rule gtry_cong_returns [where Q = "\<lambda>(d, keys). nd_AppName d = pd_AppName r \<and>
        nd_AppVersion d = pd_AppVersion r \<and> nd_ProfileName d = pd_ProfileName r"], goal_cases)
    case 1
    show ?case using checked_request_keeps by (fastforce simp: returns_gpure split: go.split sum.split)
  next
    case (2 x)
    obtain d keys where x: "x = (d, keys)" by (cases x)
    have rank: "rank (GetDeploymentPackageID (nd_AppName d) (nd_AppVersion d) (nd_ProfileName d)) = ?n"
      using 2 by (simp add: x package_id_def)
    show ?case unfolding x prod.case
    proof (rule gtry_cong_returns [where Q = "\<lambda>(dp, apps, _). below rank ?n apps"], goal_cases)
      case 1
      show ?case using assms(1) [of "nd_AppName d" "nd_AppVersion d" "nd_ProfileName d"] by (simp add: returns_gmap_err rank)
    next
      case (2 y)
      obtain dp apps def where y: "y = (dp, apps, def)" by (cases y)
      have apps: "below rank ?n apps" using 2 by (simp add: y)
      show ?case unfolding y prod.case
      proof (rule gtry_cong_returns [OF returns_any], goal_cases)
        case (1 namespaces)
        show ?case
        proof (rule gtry_cong_returns [where Q = ?Q], goal_cases)
          case 1
          show ?case
            using unmask_keeps [of s scenario r project "d\<lparr>nd_HelmApps := apps, nd_Namespaces := namespaces\<rparr>"] apps
            by (rule keeps_below) simp
        next
          case (2 d1)
          show ?case
          proof (rule gtry_cong_returns [where Q = ?Q], goal_cases)
            case 1
            show ?case using 2 check_keeps [of "sv_lib s" d1 keys]
              by (auto simp: returns_gpure split: go.split sum.split)
          next
            case (2 d2)
            show ?case
            proof (rule gtry_cong_returns [where Q = ?Q], goal_cases)
              case 1
              show ?case using name_keeps 2 by (rule keeps_below) simp
            next
              case (2 d3)
              show ?case
              proof (rule gtry_cong_returns [where Q = ?Q], goal_cases)
                case 1
                show ?case using 2 merge_keeps [of d3]
                  by (auto simp: returns_ggo split: go.split option.split)
              next
                case (2 d4)
                then show ?case by (simp add: merge)
              qed
            qed
          qed
        qed
      qed
    qed
  qed
qed

text \<open>
  Claim C16.  Where the packages of the Catalog can be ranked such that a package only requires
  packages of a smaller rank, so that none requires itself over any number of steps, the
  recursion of a create or update request ends: a stack deeper than the rank of the package is
  never used up, and a deeper one gives the same run.
\<close>

theorem init_deployment_terminates:
  assumes "\<And>name version profile. returns (lookup_package s c name version profile)
      (\<lambda>(dp, apps, _). below rank (rank (GetDeploymentPackageID name version profile)) apps)"
    and "rank (package_id r) < n" "n \<le> m"
  shows "initDeployment m s c project scenario r depls = initDeployment n s c project scenario r depls"
  using assms(2,3)
proof (induction n arbitrary: m scenario r depls)
  case (Suc n)
  then obtain m' where m: "m = Suc m'" "n \<le> m'" by (cases m) auto
  have "initDeployment m' s c project ''create'' (child_request q apps t ty) ds =
      initDeployment n s c project ''create'' (child_request q apps t ty) ds"
    if "rank (GetID q) < rank (package_id r)" for q apps t ty ds
    using that Suc.prems(1) m(2) by (intro Suc.IH) (simp_all add: package_id_def child_request_def GetID_def)
  then have "init_deployment s c project (initDeployment m' s c project) scenario r depls =
      init_deployment s c project (initDeployment n s c project) scenario r depls"
    by (intro init_deployment_cong [where rank = rank, OF assms(1)])
  then show ?case by (simp add: m(1))
qed simp

definition sample_rank :: "string \<Rightarrow> nat" where
  "sample_rank i = (if HasPrefix i ''web/'' then 1 else 0)"

lemma run_try_io: "run_state (try_io m f) s = (case run_state m s of (Inl e, s') \<Rightarrow> (Inl e, s') | (Inr x, s') \<Rightarrow> run_state (f x) s')"
  by (simp add: try_io_def split: prod.split sum.split)

lemma run_ret_io: "run_state (ret_io x) s = (Inr x, s)"
  by (simp add: ret_io_def)

lemmas sample_defs = svCatalog_def sample_svc_def sample_services_def sample_package_def sample_app_def run_try_io run_ret_io

lemma sample_lookup_app:
  "\<exists>ha w'. run_state (lookup_app [] (svCatalog (sample_svc False) c) (sample_package n) cp (n, ''1'')) w = (Inr ha, w') \<and>
     (\<forall>q \<in> set (ch_RequiredDeploymentPackages ha). n = ''web'' \<and> rq_Name q = ''db'')"
  by (cases "n = ''web''"; cases "label_get cp n = ''small''")
    (simp_all add: lookup_app_def sample_defs getAppValues_def newHelmApp_def add_profile_def add_requirement_def Let_def)

lemma sample_lookup:
  "returns (lookup_package (sample_svc False) c name version profile)
     (\<lambda>(dp, apps, _). below sample_rank (sample_rank (GetDeploymentPackageID name version profile)) apps)"
proof -
  let ?Q = "\<lambda>(dp, apps, x). below sample_rank (sample_rank (GetDeploymentPackageID name version profile)) apps"
  have "case fst (run_state (lookup_package (sample_svc False) c name version profile) w) of
      Ret (Inr r) \<Rightarrow> ?Q r | _ \<Rightarrow> True" for w
  proof -
    define p where "p = (if profile = [] then ''small'' else profile)"
    define cp where "cp = getProfileMap (cdp_Profiles (sample_package name)) p"
    define w1 where "w1 = w\<lparr>trace := trace w @ [NbRead (CatalogPackage name version)]\<rparr>"
    obtain ha w' where ha: "run_state (lookup_app [] (svCatalog (sample_svc False) c) (sample_package name) cp (name, ''1'')) w1 = (Inr ha, w')"
      "\<forall>q \<in> set (ch_RequiredDeploymentPackages ha). name = ''web'' \<and> rq_Name q = ''db''"
      using sample_lookup_app [of c name cp w1] by blast
    have "below sample_rank (sample_rank (GetDeploymentPackageID name version profile)) [ha]"
      using ha(2) by (auto simp: below_def list_all_iff sample_rank_def GetID_def GetDeploymentPackageID_def HasPrefix_def)
    moreover have "cat_GetDeploymentPackage (svCatalog (sample_svc False) c) name version =
        call (NbRead (CatalogPackage name version)) (\<lambda>w. (Inr (sample_package name), w))"
      by (simp add: svCatalog_def sample_svc_def sample_services_def)
    moreover have "sv_redeployEnv (sample_svc False) = []" by (simp add: sample_svc_def)
    moreover have "cdp_DefaultProfileName (sample_package name) = ''small''"
      "cdp_ApplicationReferences (sample_package name) = [(name, ''1'')]" by (simp_all add: sample_package_def)
    moreover have "run_state (lookup_app [] (svCatalog (sample_svc False) c) (sample_package name)
        (getProfileMap (cdp_Profiles (sample_package name)) p) (name, ''1'')) (w\<lparr>trace := trace w @ [NbRead (CatalogPackage name version)]\<rparr>) = (Inr ha, w')"
      using ha(1) by (simp add: cp_def w1_def)
    ultimately show ?thesis
      by (cases "profile = []")
        (simp_all add: p_def lookup_package_def CatalogLookupDPAndHelmApps_def run_try_io run_ret_io Let_def fail_io_def)
  qed
  then show ?thesis unfolding returns_def post_def by blast
qed

theorem init_deployment_terminates_witness:
  "initDeployment 100 (sample_svc False) [] ''p'' ''create'' sample_pb_deployment [] =
   initDeployment 2 (sample_svc False) [] ''p'' ''create'' sample_pb_deployment []"
  by (rule init_deployment_terminates [OF sample_lookup])
    (simp_all add: sample_rank_def package_id_def sample_pb_deployment_def GetDeploymentPackageID_def HasPrefix_def)

end
