(* ===== verification/DcController.thy ===== *)
theory DcController
  imports Fleet GoIO
begin

text \<open>
  The DeploymentCluster controller (controllers/deploymentcluster/deploymentcluster_controller.go).
  A DeploymentCluster sums up the bundles of one deployment on one cluster.  The controller creates
  it for the first bundle, keeps its status and its metrics, and deletes it with the last bundle.

  Every call to the API server, the clock and the metrics registry is a \<open>dc_ev\<close> of the trace.  The
  UUID package is a parameter; parsing a text that is no UUID panics.
\<close>

section \<open>Calls\<close>

datatype dc_ev =
    DcGet string string | DcGetCluster string string
  | DcListBDs string labels | DcListDeployments labels | DcListByCluster string
  | DcCreate DeploymentCluster | DcDelete DeploymentCluster
  | DcPatchStatus DeploymentCluster DeploymentCluster
  | DcReadClock
  | DcDelMetric string string string string string string
  | DcSetMetric string string string string string string int
  | DcDelTimestamps string string
  | DcTimestamp string string string string string
  | DcTimeDifference string string string string string string string

record 'w DcEnv =
  dce_MustParse :: "string \<Rightarrow> string go"
  dce_NewSHA1 :: "string \<Rightarrow> string \<Rightarrow> string"
  dce_Get :: "string \<Rightarrow> string \<Rightarrow> 'w \<Rightarrow> DeploymentCluster res \<times> 'w"
  dce_GetCluster :: "string \<Rightarrow> string \<Rightarrow> 'w \<Rightarrow> Cluster res \<times> 'w"
  dce_ListBDs :: "string \<Rightarrow> labels \<Rightarrow> 'w \<Rightarrow> BundleDeployment list res \<times> 'w"
  dce_ListDeployments :: "labels \<Rightarrow> 'w \<Rightarrow> Deployment list res \<times> 'w"
  dce_ListByCluster :: "string \<Rightarrow> 'w \<Rightarrow> DeploymentCluster list res \<times> 'w"
  dce_Create :: "DeploymentCluster \<Rightarrow> 'w \<Rightarrow> goerror option \<times> 'w"
  dce_Delete :: "DeploymentCluster \<Rightarrow> 'w \<Rightarrow> goerror option \<times> 'w"
  dce_PatchStatus :: "DeploymentCluster \<Rightarrow> DeploymentCluster \<Rightarrow> 'w \<Rightarrow> goerror option \<times> 'w"
  dce_Now :: "'w \<Rightarrow> int \<times> 'w"
  dce_metric :: "'w \<Rightarrow> unit \<times> 'w"

type_synonym ('w, 'a) dch = "((dc_ev, 'w) world, 'a) handler"

definition dc_metric :: "'w DcEnv \<Rightarrow> dc_ev \<Rightarrow> ('w, unit) dch" where
  "dc_metric R ev = do { _ \<leftarrow> call ev (dce_metric R); gret () }"

definition dc_listDeployments :: "'w DcEnv \<Rightarrow> string \<Rightarrow> ('w, Deployment list) dch" where
  "dc_listDeployments R projectID = (let sel = [(AppOrchActiveProjectID, projectID)]
     in glift (call (DcListDeployments sel) (dce_ListDeployments R sel)))"

definition dc_listBDs :: "'w DcEnv \<Rightarrow> string \<Rightarrow> labels \<Rightarrow> ('w, BundleDeployment list) dch" where
  "dc_listBDs R namespace sel = glift (call (DcListBDs namespace sel) (dce_ListBDs R namespace sel))"

section \<open>Predicates and names\<close>

datatype watch_event = EvCreate | EvDelete | EvUpdate | EvGeneric

fun deploymentClusterPredicate :: "watch_event \<Rightarrow> bool" where
  "deploymentClusterPredicate EvCreate = True"
| "deploymentClusterPredicate EvDelete = False"
| "deploymentClusterPredicate EvUpdate = False"
| "deploymentClusterPredicate EvGeneric = False"

text \<open>An update event carries the states of the old and of the new Cluster.\<close>

fun clusterStatePredicate :: "watch_event \<Rightarrow> StateType \<Rightarrow> StateType \<Rightarrow> bool" where
  "clusterStatePredicate EvCreate _ _ = True"
| "clusterStatePredicate EvDelete _ _ = True"
| "clusterStatePredicate EvUpdate old next_state =
     (old \<noteq> next_state \<and> (old = Unknown \<or> next_state = Unknown))"
| "clusterStatePredicate EvGeneric _ _ = False"

record ClusterInfo =
  ci_Name :: string
  ci_DeploymentID :: string
  ci_ClusterID :: string
  ci_ClusterNamespace :: string

definition deploymentClusterInfo :: "'w DcEnv \<Rightarrow> BundleDeployment \<Rightarrow> ClusterInfo res go" where
  "deploymentClusterInfo R bd = (let ls = labels_of (bd_Meta bd) in
     case map_of ls LabelDeploymentID of
       None \<Rightarrow> Ret (Inl (PlainErr ''deployment ID label not found in BundleDeployment''))
     | Some deplid \<Rightarrow>
     (case map_of ls FleetClusterID of
       None \<Rightarrow> Ret (Inl (PlainErr ''cluster ID label not found in BundleDeployment''))
     | Some clusterid \<Rightarrow>
     (case map_of ls FleetClusterNamespace of
       None \<Rightarrow> Ret (Inl (PlainErr ''cluster namespace label not found in BundleDeployment''))
     | Some clusternamespace \<Rightarrow>
         go_bind (dce_MustParse R deplid) (\<lambda>u. Ret (Inr \<lparr>
           ci_Name = ''dc-'' @ dce_NewSHA1 R u clusterid,
           ci_DeploymentID = deplid, ci_ClusterID = clusterid,
           ci_ClusterNamespace = clusternamespace\<rparr>)))))"

definition getNamespacedName :: "string \<Rightarrow> string \<Rightarrow> string" where
  "getNamespacedName namespace name = namespace @ ''/'' @ name"

definition dcIndexFunc :: "DeploymentCluster \<Rightarrow> string list" where
  "dcIndexFunc dc = [getNamespacedName (dcs_Namespace (dc_Spec dc)) (dcs_ClusterID (dc_Spec dc))]"

section \<open>The status of a DeploymentCluster\<close>

definition newDeploymentCluster :: "string \<Rightarrow> string \<Rightarrow> ClusterInfo \<Rightarrow> DeploymentCluster" where
  "newDeploymentCluster namespace name dci = empty_dc\<lparr>
     dc_Meta := empty_meta\<lparr>om_Name := name, om_Namespace := namespace,
       om_Labels := Some [(LabelDeploymentID, ci_DeploymentID dci), (LabelClusterName, ci_ClusterID dci)]\<rparr>,
     dc_Spec := \<lparr>dcs_DeploymentID = ci_DeploymentID dci, dcs_ClusterID = ci_ClusterID dci,
       dcs_Namespace = ci_ClusterNamespace dci\<rparr>\<rparr>"

definition initializeStatus :: "DeploymentCluster \<Rightarrow> DeploymentCluster" where
  "initializeStatus dc = dc\<lparr>dc_Status := \<lparr>
     dct_Conditions = dct_Conditions (dc_Status dc), dct_Name = [],
     dct_Status = \<lparr>ss_State = Running, ss_Message = [], ss_Summary = empty_summary\<lparr>su_Type := AppCounts\<rparr>\<rparr>,
     dct_Display = [], dct_LastStatusUpdate = 0, dct_Apps = []\<rparr>\<rparr>"

definition app_of :: "BundleDeployment \<Rightarrow> App" where
  "app_of bd = \<lparr>pp_Name = GetAppName bd, pp_Id = GetAppID bd,
     pp_DeploymentGeneration = GetDeploymentGeneration bd,
     pp_Status = \<lparr>ss_State = (if GetState bd = Running then Running else Down),
       ss_Message = GetMessage bd, ss_Summary = empty_summary\<lparr>su_Type := NotUsed\<rparr>\<rparr>\<rparr>"

definition addDeploymentClusterApp :: "BundleDeployment \<Rightarrow> DeploymentCluster \<Rightarrow> DeploymentCluster" where
  "addDeploymentClusterApp bd dc = (let
     app = app_of bd; t = dc_Status dc; s = dct_Status t; su = ss_Summary s;
     su1 = su\<lparr>su_Total := su_Total su + 1\<rparr>;
     s1 = (if ss_State (pp_Status app) = Running
           then s\<lparr>ss_Summary := su1\<lparr>su_Running := su_Running su1 + 1\<rparr>\<rparr>
           else s\<lparr>ss_Summary := su1\<lparr>su_Down := su_Down su1 + 1\<rparr>, ss_State := Down,
                  ss_Message := AppendMessage (ss_Message s) (ss_Message (pp_Status app))\<rparr>)
   in dc\<lparr>dc_Status := t\<lparr>dct_Status := s1, dct_Apps := dct_Apps t @ [app]\<rparr>\<rparr>)"

text \<open>The bundles of the list that belong to the request; a bundle without its labels is skipped.\<close>

fun addApps :: "'w DcEnv \<Rightarrow> string \<Rightarrow> BundleDeployment list \<Rightarrow> DeploymentCluster \<Rightarrow> DeploymentCluster go" where
  "addApps R name [] dc = Ret dc"
| "addApps R name (bd # bds) dc =
     go_bind (deploymentClusterInfo R bd) (\<lambda>r.
       case r of
         Inl _ \<Rightarrow> addApps R name bds dc
       | Inr dci \<Rightarrow> addApps R name bds
           (if ci_Name dci = name then addDeploymentClusterApp bd dc else dc))"

section \<open>Metrics\<close>

text \<open>The keys of the metric map, in the order the code sets them; Go visits them in any order.\<close>

definition dc_metric_states :: "StateType list" where
  "dc_metric_states = [Running, Down, Unknown]"

definition dc_project :: "DeploymentCluster \<Rightarrow> string" where
  "dc_project dc = label_get (labels_of (dc_Meta dc)) AppOrchActiveProjectID"

definition possibleDisplayNames :: "DeploymentCluster \<Rightarrow> string \<Rightarrow> string list" where
  "possibleDisplayNames dc fallbackDisplayName =
     [[], fallbackDisplayName, dcs_DeploymentID (dc_Spec dc), dct_Name (dc_Status dc), ''unknown'', ''deleted'']
     @ (if dct_Name (dc_Status dc) \<noteq> [] then [dct_Name (dc_Status dc)] else [])
     @ (if dcs_ClusterID (dc_Spec dc) \<noteq> [] then [dcs_ClusterID (dc_Spec dc)] else [])"

text \<open>The slice of the first eight bytes of the deployment's ID panics where there are fewer.\<close>

definition dcDelMetrics :: "'w DcEnv \<Rightarrow> DeploymentCluster \<Rightarrow> string \<Rightarrow> ('w, unit) dch" where
  "dcDelMetrics R dc displayName = geach (\<lambda>i. dc_metric R (DcDelMetric (dc_project dc)
     (dcs_DeploymentID (dc_Spec dc)) displayName (dcs_ClusterID (dc_Spec dc)) (dct_Name (dc_Status dc)) i))
     dc_metric_states"

definition updateStatusMetricsOrphaned :: "'w DcEnv \<Rightarrow> DeploymentCluster \<Rightarrow> bool \<Rightarrow> ('w, unit) dch" where
  "updateStatusMetricsOrphaned R dc deleteMetrics = (let id = dcs_DeploymentID (dc_Spec dc) in
     if length id < 8 then gpanic
     else gwhen deleteMetrics
       (gtry (geach (dcDelMetrics R dc) (possibleDisplayNames dc (''deleted-deployment-'' @ take 8 id))) (\<lambda>_.
        dc_metric R (DcDelTimestamps (dc_project dc) id))))"

definition getDisplayName :: "'w DcEnv \<Rightarrow> string \<Rightarrow> string \<Rightarrow> ('w, string) dch" where
  "getDisplayName R projectID deploymentID =
     gtry (dc_listDeployments R projectID) (\<lambda>items.
       case find (\<lambda>d. om_UID (d_Meta d) = deploymentID) items of
         None \<Rightarrow> gfail (PlainErr ''deployment not found'')
       | Some deployment \<Rightarrow> gret (sp_DisplayName (d_Spec deployment)))"

definition dc_metric_values :: "StateType \<Rightarrow> (StateType \<times> int) list" where
  "dc_metric_values state = AList.update state 1 (map (\<lambda>s. (s, 0)) dc_metric_states)"

definition dcUpdateStatusMetrics :: "'w DcEnv \<Rightarrow> DeploymentCluster \<Rightarrow> bool \<Rightarrow> ('w, unit) dch" where
  "dcUpdateStatusMetrics R dc deleteMetrics = (let
     projectID = dc_project dc; id = dcs_DeploymentID (dc_Spec dc); clusterID = dcs_ClusterID (dc_Spec dc);
     state = ss_State (dct_Status (dc_Status dc)); dcStatusChange = ''dc-'' @ clusterID @ ''-status-change''
   in gcatch (getDisplayName R projectID id) (\<lambda>r. case r of
        Inl _ \<Rightarrow> updateStatusMetricsOrphaned R dc True
      | Inr displayName \<Rightarrow>
          if deleteMetrics then dcDelMetrics R dc displayName
          else
            gtry (geach (\<lambda>(i, val). dc_metric R (DcSetMetric projectID id displayName clusterID
                   (dct_Name (dc_Status dc)) i val)) (dc_metric_values state)) (\<lambda>_.
            gtry (dc_metric R (DcTimestamp projectID id displayName state dcStatusChange)) (\<lambda>_.
            gwhen (map_of (dc_metric_values state) Running = Some 1)
              (dc_metric R (DcTimeDifference projectID id displayName ''start'' ''CreateDeployment''
                 Running dcStatusChange))))))"

section \<open>Creation, deletion and reconciliation\<close>

text \<open>A failure to find the display name is logged only, the name is then empty.\<close>

definition createFor :: "'w DcEnv \<Rightarrow> string \<Rightarrow> string \<Rightarrow> BundleDeployment \<Rightarrow> ClusterInfo \<Rightarrow> ('w, unit) dch" where
  "createFor R namespace name bd dci = (let dc = newDeploymentCluster namespace name dci in
     case map_of (labels_of (bd_Meta bd)) AppOrchActiveProjectID of
       None \<Rightarrow> gfail (PlainErr (''cannot create DeploymentCluster '' @ name @
         '': active project ID label not found in BundleDeployment '' @ om_Name (bd_Meta bd)))
     | Some projectID \<Rightarrow> (let
         dc' = dc\<lparr>dc_Meta := (dc_Meta dc)\<lparr>om_Labels :=
            Some (AList.update AppOrchActiveProjectID projectID (labels_of (dc_Meta dc)))\<rparr>\<rparr>;
         id = dcs_DeploymentID (dc_Spec dc'); dcForDeployment = ''dc-'' @ dcs_ClusterID (dc_Spec dc')
       in gcatch (getDisplayName R projectID id) (\<lambda>r.
          let displayName = (case r of Inl _ \<Rightarrow> [] | Inr n \<Rightarrow> n) in
          gtry (dc_metric R (DcTimestamp projectID id displayName ''start'' dcForDeployment)) (\<lambda>_.
          gtry (dc_metric R (DcTimeDifference projectID id displayName ''start'' ''CreateDeployment''
                  ''start'' dcForDeployment)) (\<lambda>_.
          gcheck (call (DcCreate dc') (dce_Create R dc')))))))"

fun createFirst :: "'w DcEnv \<Rightarrow> string \<Rightarrow> string \<Rightarrow> BundleDeployment list \<Rightarrow> ('w, unit) dch" where
  "createFirst R namespace name [] = gret ()"
| "createFirst R namespace name (bd # bds) =
     gcatch (gpure (deploymentClusterInfo R bd)) (\<lambda>r. case r of
         Inl _ \<Rightarrow> createFirst R namespace name bds
       | Inr dci \<Rightarrow> if ci_Name dci = name then createFor R namespace name bd dci
                    else createFirst R namespace name bds)"

definition createDeploymentCluster :: "'w DcEnv \<Rightarrow> string \<Rightarrow> string \<Rightarrow> ('w, unit) dch" where
  "createDeploymentCluster R namespace name =
     gtry (dc_listBDs R namespace []) (createFirst R namespace name)"

definition deleteDeploymentCluster :: "'w DcEnv \<Rightarrow> DeploymentCluster \<Rightarrow> ('w, unit) dch" where
  "deleteDeploymentCluster R dc =
     gtry (gcheck (call (DcDelete dc) (dce_Delete R dc))) (\<lambda>_. dcUpdateStatusMetrics R dc True)"

text \<open>The status that is sent: an offline cluster hides the bundles.\<close>

definition dcFinalStatus :: "int \<Rightarrow> int \<Rightarrow> Cluster \<Rightarrow> DeploymentCluster \<Rightarrow> DeploymentCluster" where
  "dcFinalStatus now update_time cluster dc0 = (let
     offline = (cls_State (c_Status cluster) = Unknown);
     reason0 = (if offline then ''ClusterStatusUnknown'' else ''BundleDeploymentsNotReady'');
     dc1 = (if offline
       then (let d = initializeStatus dc0 in d\<lparr>dc_Status := (dc_Status d)\<lparr>
               dct_Name := cl_DisplayName (c_Spec cluster),
               dct_Status := (dct_Status (dc_Status d))\<lparr>ss_State := Unknown\<rparr>\<rparr>\<rparr>)
       else dc0);
     ready = (ss_State (dct_Status (dc_Status dc1)) = Running);
     condstatus = (if ready then ConditionTrue else ConditionFalse);
     reason = (if ready then ''BundleDeploymentsReady'' else reason0);
     t = dc_Status dc1; su = ss_Summary (dct_Status t)
   in dc1\<lparr>dc_Status := t\<lparr>
        dct_Conditions := UpdateStatusCondition now (dct_Conditions t) ''Ready'' condstatus reason None,
        dct_Display := int_str (su_Running su) @ ''/'' @ int_str (su_Total su),
        dct_LastStatusUpdate := update_time\<rparr>\<rparr>)"

text \<open>The metrics after the update depend on the parent deployment.\<close>

definition dcParentMetrics :: "'w DcEnv \<Rightarrow> DeploymentCluster \<Rightarrow> ('w, unit) dch" where
  "dcParentMetrics R dc = (let projectID = dc_project dc in
     if projectID = [] then updateStatusMetricsOrphaned R dc True
     else gcatch (dc_listDeployments R projectID) (\<lambda>r. case r of
         Inl _ \<Rightarrow> updateStatusMetricsOrphaned R dc True
       | Inr items \<Rightarrow>
           (case find (\<lambda>d. om_UID (d_Meta d) = dcs_DeploymentID (dc_Spec dc)) items of
              None \<Rightarrow> updateStatusMetricsOrphaned R dc True
            | Some d \<Rightarrow> dcUpdateStatusMetrics R dc (om_DeletionTimestamp (d_Meta d) \<noteq> None))))"

definition dcWithName :: "Cluster \<Rightarrow> DeploymentCluster \<Rightarrow> DeploymentCluster" where
  "dcWithName cluster dc = dc\<lparr>dc_Status := (dc_Status dc)\<lparr>dct_Name := cl_DisplayName (c_Spec cluster)\<rparr>\<rparr>"

definition dcReconcileCluster ::
  "'w DcEnv \<Rightarrow> string \<Rightarrow> string \<Rightarrow> DeploymentCluster \<Rightarrow> DeploymentCluster \<Rightarrow> Cluster \<Rightarrow> ('w, unit) dch" where
  "dcReconcileCluster R namespace name before dc0 cluster = (let
     dc = dcWithName cluster dc0;
     sel = [(LabelDeploymentID, label_get (labels_of (dc_Meta dc)) LabelDeploymentID),
            (LabelBundleType, BundleType_String BundleTypeApp)]
   in gtry (dc_listBDs R namespace sel) (\<lambda>bds.
      gtry (ggo (addApps R name bds dc)) (\<lambda>dc1.
      if su_Total (ss_Summary (dct_Status (dc_Status dc1))) = 0 then deleteDeploymentCluster R dc1
      else
        gtry (glift (do { now \<leftarrow> call DcReadClock (dce_Now R); ret_io now })) (\<lambda>now.
        gtry (glift (do { t \<leftarrow> call DcReadClock (dce_Now R); ret_io t })) (\<lambda>update_time.
        let dc2 = dcFinalStatus now update_time cluster dc1 in
        gtry (gcheck (call (DcPatchStatus before dc2) (dce_PatchStatus R before dc2))) (\<lambda>_.
        dcParentMetrics R dc2))))))"

text \<open>A DeploymentCluster under deletion has its metrics cleaned and is then reconciled as any other.\<close>

definition dcReconcile :: "'w DcEnv \<Rightarrow> string \<Rightarrow> string \<Rightarrow> ('w, unit) dch" where
  "dcReconcile R namespace name =
     gcatch (glift (call (DcGet namespace name) (dce_Get R namespace name))) (\<lambda>r. case r of
       Inl err \<Rightarrow> if k8s_not_found err then createDeploymentCluster R namespace name else gfail err
     | Inr before \<Rightarrow>
         gtry (gwhen (om_DeletionTimestamp (dc_Meta before) \<noteq> None) (dcUpdateStatusMetrics R before True)) (\<lambda>_.
         let dc = initializeStatus before; ns = dcs_Namespace (dc_Spec dc); cid = dcs_ClusterID (dc_Spec dc) in
         gcatch (glift (call (DcGetCluster ns cid) (dce_GetCluster R ns cid))) (\<lambda>r. case r of
           Inl err \<Rightarrow> if k8s_not_found err then deleteDeploymentCluster R dc else gfail err
         | Inr cluster \<Rightarrow> dcReconcileCluster R namespace name before dc cluster)))"

section \<open>Triggers\<close>

definition triggerReconcileBD :: "'w DcEnv \<Rightarrow> BundleDeployment \<Rightarrow> (string \<times> string) list go" where
  "triggerReconcileBD R bd =
     (if map_of (labels_of (bd_Meta bd)) LabelBundleType = Some (BundleType_String BundleTypeInit) then Ret []
      else go_bind (deploymentClusterInfo R bd) (\<lambda>r. Ret (case r of
             Inl _ \<Rightarrow> [] | Inr dci \<Rightarrow> [(om_Namespace (bd_Meta bd), ci_Name dci)])))"

definition triggerReconcileCluster :: "'w DcEnv \<Rightarrow> Cluster \<Rightarrow> ('w, (string \<times> string) list) dch" where
  "triggerReconcileCluster R cluster = (let
     key = getNamespacedName (om_Namespace (c_Meta cluster)) (om_Name (c_Meta cluster))
   in gcatch (glift (call (DcListByCluster key) (dce_ListByCluster R key))) (\<lambda>r. gret (case r of
        Inl _ \<Rightarrow> [] | Inr dcs \<Rightarrow> map (\<lambda>dc. (om_Namespace (dc_Meta dc), om_Name (dc_Meta dc))) dcs)))"

end
