(* ===== verification/ClusterControllers.thy ===== *)
theory ClusterControllers
  imports Patch DcController
begin

text \<open>
  The two controllers that keep Cluster resources: controllers/capi/capi_controller.go makes a Fleet
  cluster from a provisioned Cluster API (CAPI) cluster, and controllers/cluster/cluster_controller.go
  makes a Cluster from a Fleet cluster and follows the heartbeat of its agent.

  A requeue time of zero is none.  Times and durations count nanoseconds.
\<close>

section \<open>The Cluster controller\<close>

datatype cl_ev =
    ClGet string string | ClGetFleet string string | ClCreate Cluster | ClDelete Cluster
  | ClPatch Cluster Cluster | ClPatchStatus Cluster Cluster | ClReadClock

text \<open>
  \<open>Get\<close> fills the object it is given and reports its error beside it, since the controller goes on with
  the object after some errors.
\<close>

record ('j, 'w) ClEnv =
  cle_lib :: k8slib
  cle_conv :: "(Cluster, 'j) converter"
  cle_rfc3339 :: "int \<Rightarrow> string"
  cle_SetControllerReference :: "FleetCluster \<Rightarrow> Cluster \<Rightarrow> Cluster res"
  cle_Get :: "string \<Rightarrow> string \<Rightarrow> 'w \<Rightarrow> (Cluster \<times> goerror option) \<times> 'w"
  cle_GetFleet :: "string \<Rightarrow> string \<Rightarrow> 'w \<Rightarrow> FleetCluster res \<times> 'w"
  cle_Create :: "Cluster \<Rightarrow> 'w \<Rightarrow> goerror option \<times> 'w"
  cle_Delete :: "Cluster \<Rightarrow> 'w \<Rightarrow> goerror option \<times> 'w"
  cle_Patch :: "Cluster \<Rightarrow> Cluster \<Rightarrow> 'w \<Rightarrow> goerror option \<times> 'w"
  cle_PatchStatus :: "Cluster \<Rightarrow> Cluster \<Rightarrow> 'w \<Rightarrow> goerror option \<times> 'w"
  cle_Now :: "'w \<Rightarrow> int \<times> 'w"
  cle_fleetCheckinTime :: int

type_synonym ('w, 'a) clio = "((cl_ev, 'w) world, 'a res) state"

fun clusterPredicate :: "watch_event \<Rightarrow> bool" where
  "clusterPredicate EvCreate = True"
| "clusterPredicate EvDelete = False"
| "clusterPredicate EvUpdate = False"
| "clusterPredicate EvGeneric = False"

definition defaultFleetCheckinTimeMinute :: int where "defaultFleetCheckinTimeMinute = 15"

text \<open>\<open>client.IgnoreNotFound\<close>.\<close>

definition IgnoreNotFound :: "goerror option \<Rightarrow> goerror option" where
  "IgnoreNotFound e = (case e of Some err \<Rightarrow> if k8s_not_found err then None else Some err | None \<Rightarrow> None)"

definition empty_fleet_display :: FleetStatus where
  "empty_fleet_display = \<lparr>
     fs_BundleSummary = \<lparr>bs_NotReady = [], bs_WaitApplied = [], bs_ErrApplied = [], bs_OutOfSync = [],
       bs_Modified = [], bs_Ready = [], bs_Pending = [], bs_DesiredReady = []\<rparr>,
     fs_ResourceCounts = \<lparr>rc_Ready = [], rc_DesiredReady = [], rc_WaitApplied = [], rc_Modified = [],
       rc_Orphaned = [], rc_Missing = [], rc_Unknown = [], rc_NotReady = []\<rparr>,
     fs_FleetAgentStatus = \<lparr>fa_LastSeen = 0, fa_Namespace = []\<rparr>,
     fs_ClusterDisplay = \<lparr>cd_ReadyBundles = [], cd_ReadyNodes = [], cd_SampleNode = [], cd_State = []\<rparr>\<rparr>"

definition newCluster :: "string \<Rightarrow> string \<Rightarrow> Cluster" where
  "newCluster namespace name = \<lparr>c_Meta = empty_meta\<lparr>om_Name := name, om_Namespace := namespace\<rparr>,
     c_Spec = \<lparr>cl_Name = [], cl_DisplayName = [], cl_KubeConfigSecretName = []\<rparr>,
     c_Status = \<lparr>cls_Conditions = [], cls_Display = [], cls_State = [], cls_Message = [],
       cls_LastStatusUpdate = [], cls_ReconciledGeneration = 0, cls_FleetClusterLastGeneration = 0,
       cls_FleetStatus = empty_fleet_display\<rparr>\<rparr>"

definition synchronizeWithFleetCluster :: "Cluster \<Rightarrow> FleetCluster \<Rightarrow> Cluster" where
  "synchronizeWithFleetCluster c fc = (let
     ls = labels_of (fc_Meta fc);
     ls' = (case map_of ls ClusterOrchKeyProjectID of None \<Rightarrow> ls
            | Some activeProjectID \<Rightarrow> AList.update AppOrchActiveProjectID activeProjectID ls)
   in c\<lparr>c_Meta := (c_Meta c)\<lparr>om_Labels := Some ls'\<rparr>,
        c_Spec := \<lparr>cl_Name = om_Name (fc_Meta fc), cl_DisplayName = label_get ls LabelClusterName,
          cl_KubeConfigSecretName = fc_KubeConfigSecret fc\<rparr>\<rparr>)"

definition clNow :: "('j, 'w) ClEnv \<Rightarrow> ('w, int) clio" where
  "clNow R = do { t \<leftarrow> call ClReadClock (cle_Now R); ret_io t }"

definition isClusterConnected :: "('j, 'w) ClEnv \<Rightarrow> FleetCluster \<Rightarrow> ('w, bool) clio" where
  "isClusterConnected R fc = try_io (clNow R) (\<lambda>now.
     ret_io (\<not> now - fcs_AgentLastSeen (fc_Status fc) > cle_fleetCheckinTime R))"

definition clPatchClient :: "('j, 'w) ClEnv \<Rightarrow> (Cluster, (cl_ev, 'w) world) patch_client" where
  "clPatchClient R = \<lparr>pc_Patch = (\<lambda>after before. call (ClPatch after before) (cle_Patch R after before)),
     pc_PatchStatus = (\<lambda>after before. call (ClPatchStatus after before) (cle_PatchStatus R after before))\<rparr>"

text \<open>The Cluster that the controller wants, from the connection of the agent and the time.\<close>

definition desiredCluster :: "(int \<Rightarrow> string) \<Rightarrow> int \<Rightarrow> bool \<Rightarrow> Cluster \<Rightarrow> FleetCluster \<Rightarrow> Cluster" where
  "desiredCluster rfc3339 now connected c fc = (let
     c1 = synchronizeWithFleetCluster c fc;
     state = (if connected then Running else Unknown)
   in c1\<lparr>c_Status := SetStatus rfc3339 (c_Status c1) now state ''Complete'' ClusterConditionKubeconfig
        ConditionTrue (om_Generation (c_Meta c1)) (fc_Status fc) (om_Generation (fc_Meta fc))\<rparr>)"

definition clLastSeen :: "Cluster \<Rightarrow> int" where
  "clLastSeen c = fa_LastSeen (fs_FleetAgentStatus (cls_FleetStatus (c_Status c)))"

definition clFollow ::
  "('j, 'w) ClEnv \<Rightarrow> (Cluster, 'j) Helper \<Rightarrow> Cluster \<Rightarrow> FleetCluster \<Rightarrow> ('w, int) clio" where
  "clFollow R patchHelper c0 fc =
     (case cle_SetControllerReference R fc c0 of
        Inl err \<Rightarrow> fail_io err
      | Inr c \<Rightarrow>
          try_io (isClusterConnected R fc) (\<lambda>connected.
          try_io (clNow R) (\<lambda>now.
          let lastSeen = clLastSeen c; c' = desiredCluster (cle_rfc3339 R) now connected c fc in
          try_io (guard_io (Patch (cle_lib R) (cle_conv R) (clPatchClient R) False patchHelper (Some c'))) (\<lambda>_.
          ret_io (if lastSeen < clLastSeen c' then cle_fleetCheckinTime R else 0)))))"

definition clCreate :: "('j, 'w) ClEnv \<Rightarrow> string \<Rightarrow> string \<Rightarrow> ('w, int) clio" where
  "clCreate R namespace name = do {
     r \<leftarrow> call (ClGetFleet namespace name) (cle_GetFleet R namespace name);
     case r of
       Inl err \<Rightarrow> (if k8s_not_found err then ret_io 0 else fail_io err)
     | Inr _ \<Rightarrow> do {
         e \<leftarrow> call (ClCreate (newCluster namespace name)) (cle_Create R (newCluster namespace name));
         case e of
           Some err \<Rightarrow> fail_io (TypedErr KUnavailable (''Failed to create Cluster '' @ namespace @ ''/'' @ name
             @ '' not found, err: '' @ err_msg err))
         | None \<Rightarrow> ret_io 0 } }"

definition clReconcile :: "('j, 'w) ClEnv \<Rightarrow> string \<Rightarrow> string \<Rightarrow> ('w, int) clio" where
  "clReconcile R namespace name = do {
     (c, e) \<leftarrow> call (ClGet namespace name) (cle_Get R namespace name);
     if (case e of None \<Rightarrow> False | Some err \<Rightarrow> k8s_not_found err) then clCreate R namespace name
     else case NewPatchHelper (cle_conv R) (Some c) of
       Inl err \<Rightarrow> fail_io err
     | Inr patchHelper \<Rightarrow>
         if om_DeletionTimestamp (c_Meta c) \<noteq> None then ret_io 0
         else do {
           r \<leftarrow> call (ClGetFleet namespace name) (cle_GetFleet R namespace name);
           case r of
             Inl err \<Rightarrow>
               if k8s_not_found err then do {
                 e \<leftarrow> call (ClDelete c) (cle_Delete R c);
                 case IgnoreNotFound e of Some err' \<Rightarrow> fail_io err' | None \<Rightarrow> ret_io 0 }
               else fail_io err
           | Inr fc \<Rightarrow> clFollow R patchHelper c fc } }"

definition clTriggerReconcile :: "FleetCluster \<Rightarrow> (string \<times> string) list" where
  "clTriggerReconcile fc = [(om_Namespace (fc_Meta fc), om_Name (fc_Meta fc))]"

section \<open>The CAPI controller\<close>

text \<open>The part of a Cluster API cluster that is read; the phase is the typed phase.\<close>

record CapiCluster =
  ca_Meta :: ObjectMeta
  ca_Phase :: string
  ca_ControlPlaneReady :: bool
  ca_InfrastructureReady :: bool
  ca_InfrastructureRef :: "string option"

abbreviation ClusterPhaseProvisioned :: string where "ClusterPhaseProvisioned \<equiv> ''Provisioned''"

datatype capi_ev =
    CaGet string string | CaGetSecret string string | CaGetFleet string string
  | CaCreate FleetCluster | CaUpdate FleetCluster

record 'w CapiEnv =
  cae_SetControllerReference :: "CapiCluster \<Rightarrow> FleetCluster \<Rightarrow> FleetCluster res"
  cae_Get :: "string \<Rightarrow> string \<Rightarrow> 'w \<Rightarrow> CapiCluster res \<times> 'w"
  cae_GetSecret :: "string \<Rightarrow> string \<Rightarrow> 'w \<Rightarrow> string res \<times> 'w"
  cae_GetFleet :: "string \<Rightarrow> string \<Rightarrow> 'w \<Rightarrow> FleetCluster res \<times> 'w"
  cae_Create :: "FleetCluster \<Rightarrow> 'w \<Rightarrow> goerror option \<times> 'w"
  cae_Update :: "FleetCluster \<Rightarrow> 'w \<Rightarrow> goerror option \<times> 'w"

type_synonym ('w, 'a) cah = "((capi_ev, 'w) world, 'a) handler"

definition empty_fleet_status :: FleetClusterStatus where
  "empty_fleet_status = \<lparr>
     fcs_Summary = \<lparr>fb_NotReady = 0, fb_WaitApplied = 0, fb_ErrApplied = 0, fb_OutOfSync = 0, fb_Modified = 0,
       fb_Ready = 0, fb_Pending = 0, fb_DesiredReady = 0\<rparr>,
     fcs_ResourceCounts = \<lparr>fr_Ready = 0, fr_DesiredReady = 0, fr_WaitApplied = 0, fr_Modified = 0,
       fr_Orphaned = 0, fr_Missing = 0, fr_Unknown = 0, fr_NotReady = 0\<rparr>,
     fcs_AgentLastSeen = 0, fcs_AgentNamespace = [], fcs_DisplayReadyBundles = [], fcs_DisplayState = [],
     fcs_Conditions = []\<rparr>"

definition newFleetCluster :: "CapiCluster \<Rightarrow> string \<Rightarrow> FleetCluster" where
  "newFleetCluster capi secret = \<lparr>
     fc_Meta = empty_meta\<lparr>om_Name := om_Name (ca_Meta capi), om_Namespace := om_Namespace (ca_Meta capi),
       om_Labels := om_Labels (ca_Meta capi), om_Annotations := om_Annotations (ca_Meta capi)\<rparr>,
     fc_KubeConfigSecret = secret, fc_ClientID = [], fc_Status = empty_fleet_status\<rparr>"

text \<open>The label with the name of the infrastructure; a nil reference or a nil label map panics.\<close>

definition label_infra :: "CapiCluster \<Rightarrow> FleetCluster \<Rightarrow> FleetCluster go" where
  "label_infra capi fc =
     (case (ca_InfrastructureRef capi, om_Labels (fc_Meta fc)) of
        (Some infra, Some ls) \<Rightarrow>
          Ret (fc\<lparr>fc_Meta := (fc_Meta fc)\<lparr>om_Labels := Some (AList.update CapiInfraName infra ls)\<rparr>\<rparr>)
      | _ \<Rightarrow> Panicked)"

definition capiCreate :: "'w CapiEnv \<Rightarrow> CapiCluster \<Rightarrow> string \<Rightarrow> ('w, int) cah" where
  "capiCreate R capi secret =
     (case cae_SetControllerReference R capi (newFleetCluster capi secret) of
        Inl err \<Rightarrow> gfail err
      | Inr fc0 \<Rightarrow> gtry (ggo (label_infra capi fc0)) (\<lambda>fc.
          gtry (gcheck (call (CaCreate fc) (cae_Create R fc))) (\<lambda>_. gret 0)))"

text \<open>An error of the update is logged only.\<close>

definition capiUpdate :: "'w CapiEnv \<Rightarrow> CapiCluster \<Rightarrow> FleetCluster \<Rightarrow> ('w, int) cah" where
  "capiUpdate R capi fc0 = (let
     fc1 = fc0\<lparr>fc_Meta := (fc_Meta fc0)\<lparr>om_Labels := om_Labels (ca_Meta capi),
       om_Annotations := om_Annotations (ca_Meta capi)\<rparr>\<rparr>
   in gtry (ggo (label_infra capi fc1)) (\<lambda>fc.
      gcatch (gcheck (call (CaUpdate fc) (cae_Update R fc))) (\<lambda>_. gret 0)))"

definition reconcilePhaseProvisioned :: "'w CapiEnv \<Rightarrow> CapiCluster \<Rightarrow> ('w, int) cah" where
  "reconcilePhaseProvisioned R capi = (let
     namespace = om_Namespace (ca_Meta capi); name = om_Name (ca_Meta capi); secretName = name @ ''-kubeconfig''
   in if \<not> ca_ControlPlaneReady capi \<or> \<not> ca_InfrastructureReady capi then gret (30 * 10 ^ 9)
      else
        gtry (glift (call (CaGetSecret namespace secretName) (cae_GetSecret R namespace secretName))) (\<lambda>secret.
        gcatch (glift (call (CaGetFleet namespace name) (cae_GetFleet R namespace name))) (\<lambda>r. case r of
            Inl err \<Rightarrow> if k8s_not_found err then capiCreate R capi secret else gret 0
          | Inr fc \<Rightarrow> capiUpdate R capi fc)))"

definition capiReconcile :: "'w CapiEnv \<Rightarrow> string \<Rightarrow> string \<Rightarrow> ('w, int) cah" where
  "capiReconcile R namespace name =
     gcatch (glift (call (CaGet namespace name) (cae_Get R namespace name))) (\<lambda>r. case r of
         Inl err \<Rightarrow> (case IgnoreNotFound (Some err) of Some e \<Rightarrow> gfail e | None \<Rightarrow> gret 0)
       | Inr capi \<Rightarrow> if ca_Phase capi = ClusterPhaseProvisioned then reconcilePhaseProvisioned R capi
                     else gret 0)"

end
