(* ===== verification/CtrlProps.thy ===== *)
theory CtrlProps
  imports ClusterControllers
begin

text \<open>
  Properties of the DeploymentCluster, Cluster and CAPI controllers.  The status of a
  DeploymentCluster is the exact summary of its bundles, a Cluster follows the heartbeat of its
  agent, and a Fleet cluster is written only for a CAPI cluster that is ready.
\<close>

section \<open>The summary of the bundles\<close>

definition own_bundle :: "'w DcEnv \<Rightarrow> string \<Rightarrow> BundleDeployment \<Rightarrow> bool" where
  "own_bundle R name bd = (case deploymentClusterInfo R bd of
     Ret (Inr dci) \<Rightarrow> ci_Name dci = name | _ \<Rightarrow> False)"

definition app_running :: "App \<Rightarrow> bool" where
  "app_running a = (ss_State (pp_Status a) = Running)"

text \<open>The counters, the state and the message as functions of the applications.\<close>

definition summary_ok :: "App list \<Rightarrow> Status \<Rightarrow> bool" where
  "summary_ok apps s = (
     su_Total (ss_Summary s) = int (length apps) \<and>
     su_Running (ss_Summary s) = int (length (filter app_running apps)) \<and>
     su_Down (ss_Summary s) = int (length (filter (\<lambda>a. \<not> app_running a) apps)) \<and>
     su_Unknown (ss_Summary s) = 0 \<and>
     ss_State s = (if list_all app_running apps then Running else Down) \<and>
     ss_Message s = fold (\<lambda>a m. AppendMessage m (ss_Message (pp_Status a))) (filter (\<lambda>a. \<not> app_running a) apps) [])"

lemma addDeploymentClusterApp_apps:
  "dct_Apps (dc_Status (addDeploymentClusterApp bd dc)) = dct_Apps (dc_Status dc) @ [app_of bd]"
  by (simp add: addDeploymentClusterApp_def Let_def)

lemma addDeploymentClusterApp_summary:
  "summary_ok (dct_Apps (dc_Status dc)) (dct_Status (dc_Status dc)) \<Longrightarrow>
   summary_ok (dct_Apps (dc_Status dc) @ [app_of bd]) (dct_Status (dc_Status (addDeploymentClusterApp bd dc)))"
  by (auto simp: summary_ok_def addDeploymentClusterApp_def Let_def app_running_def)

lemma addDeploymentClusterApp_frame:
  "dct_Name (dc_Status (addDeploymentClusterApp bd dc)) = dct_Name (dc_Status dc)"
  "dct_Conditions (dc_Status (addDeploymentClusterApp bd dc)) = dct_Conditions (dc_Status dc)"
  "dc_Meta (addDeploymentClusterApp bd dc) = dc_Meta dc" "dc_Spec (addDeploymentClusterApp bd dc) = dc_Spec dc"
  by (simp_all add: addDeploymentClusterApp_def Let_def)

lemma addApps_exact:
  "addApps R name bds dc = Ret d \<Longrightarrow> summary_ok (dct_Apps (dc_Status dc)) (dct_Status (dc_Status dc)) \<Longrightarrow>
   dct_Apps (dc_Status d) = dct_Apps (dc_Status dc) @ map app_of (filter (own_bundle R name) bds) \<and>
   summary_ok (dct_Apps (dc_Status d)) (dct_Status (dc_Status d)) \<and>
   dct_Conditions (dc_Status d) = dct_Conditions (dc_Status dc)"
proof (induction bds arbitrary: dc)
  case (Cons bd bds)
  show ?case
  proof (cases "\<exists>dci. deploymentClusterInfo R bd = Ret (Inr dci) \<and> ci_Name dci = name")
    case True
    then have "own_bundle R name bd" "addApps R name bds (addDeploymentClusterApp bd dc) = Ret d"
      using Cons.prems(1) by (auto simp: own_bundle_def)
    with Cons.IH [of "addDeploymentClusterApp bd dc"] addDeploymentClusterApp_summary [OF Cons.prems(2), of bd]
    show ?thesis by (auto simp: addDeploymentClusterApp_apps addDeploymentClusterApp_frame)
  next
    case False
    then have "\<not> own_bundle R name bd" "addApps R name bds dc = Ret d"
      using Cons.prems(1) by (cases "deploymentClusterInfo R bd"; auto simp: own_bundle_def split: sum.splits if_splits)+
    with Cons.IH [of dc] Cons.prems(2) show ?thesis by auto
  qed
qed simp

lemma initializeStatus_summary:
  "summary_ok (dct_Apps (dc_Status (initializeStatus dc))) (dct_Status (dc_Status (initializeStatus dc)))"
  "dct_Apps (dc_Status (initializeStatus dc)) = []"
  by (simp_all add: summary_ok_def initializeStatus_def empty_summary_def)

text \<open>
  Claim C31.  The summary of a DeploymentCluster is exact: its applications are those of the bundles
  that belong to it, in their order, each counted as running or down, and it is running exactly if
  all of them are; its message joins the messages of the others.
\<close>
theorem bundle_summary_exact:
  assumes "addApps R name bds (initializeStatus dc) = Ret d"
  shows "dct_Apps (dc_Status d) = map app_of (filter (own_bundle R name) bds) \<and>
     summary_ok (dct_Apps (dc_Status d)) (dct_Status (dc_Status d))"
  using addApps_exact [OF assms initializeStatus_summary(1)] by (auto simp: initializeStatus_summary)

section \<open>Every status that is sent\<close>

text \<open>A status is consistent: hidden behind an offline cluster, or the summary of at least one application.\<close>

definition dc_status_ok :: "DeploymentCluster \<Rightarrow> bool" where
  "dc_status_ok dc = (let t = dc_Status dc; s = dct_Status t; su = ss_Summary s in
     (if ss_State s = Unknown then dct_Apps t = [] \<and> su_Total su = 0
      else dct_Apps t \<noteq> [] \<and> summary_ok (dct_Apps t) s) \<and>
     map_option co_Status (find (\<lambda>c. co_Type c = ''Ready'') (dct_Conditions t)) =
       Some (if ss_State s = Running then ConditionTrue else ConditionFalse) \<and>
     dct_Display t = int_str (su_Running su) @ ''/'' @ int_str (su_Total su))"

lemma dcFinalStatus_ok:
  assumes "summary_ok (dct_Apps (dc_Status dc)) (dct_Status (dc_Status dc))" "dct_Apps (dc_Status dc) \<noteq> []"
  shows "dc_status_ok (dcFinalStatus now t cluster dc)"
proof (cases "cls_State (c_Status cluster) = Unknown")
  case True
  then show ?thesis
    by (simp add: dc_status_ok_def dcFinalStatus_def Let_def initializeStatus_def empty_summary_def
        UpdateStatusCondition_find)
next
  case False
  with assms show ?thesis
    by (simp add: dc_status_ok_def dcFinalStatus_def Let_def UpdateStatusCondition_find summary_ok_def)
qed

definition status_ok_ev :: "dc_ev \<Rightarrow> bool" where
  "status_ok_ev e = (case e of DcPatchStatus _ dc \<Rightarrow> dc_status_ok dc | _ \<Rightarrow> True)"

text \<open>The calls of a handler besides the status update satisfy the predicate trivially.\<close>

lemma status_ok_ev_simps [simp]:
  "status_ok_ev (DcPatchStatus b dc) = dc_status_ok dc"
  "(\<And>b dc. e \<noteq> DcPatchStatus b dc) \<Longrightarrow> status_ok_ev e"
  by (auto simp: status_ok_ev_def split: dc_ev.split)

lemmas dc_metric_defs = dc_metric_def dcDelMetrics_def updateStatusMetricsOrphaned_def dcUpdateStatusMetrics_def
  getDisplayName_def dc_listDeployments_def dc_listBDs_def Let_def

lemma does_dcUpdateStatusMetrics [emits_intros]:
  "(\<And>r. Q r) \<Longrightarrow> does status_ok_ev (dcUpdateStatusMetrics R dc b) Q"
  unfolding dc_metric_defs by (intro emits_intros TrueI | simp add: split_beta)+

lemma does_dcParentMetrics [emits_intros]: "(\<And>r. Q r) \<Longrightarrow> does status_ok_ev (dcParentMetrics R dc) Q"
  unfolding dcParentMetrics_def updateStatusMetricsOrphaned_def dcDelMetrics_def dc_metric_def dc_listDeployments_def Let_def
  by (intro emits_intros TrueI | simp)+

lemma does_deleteDeploymentCluster [emits_intros]:
  "(\<And>r. Q r) \<Longrightarrow> does status_ok_ev (deleteDeploymentCluster R dc) Q"
  unfolding deleteDeploymentCluster_def by (intro emits_intros TrueI | simp)+

lemma does_createFirst [emits_intros]: "(\<And>r. Q r) \<Longrightarrow> does status_ok_ev (createFirst R ns n bds) Q"
proof (induction bds arbitrary: Q)
  case (Cons bd bds)
  have new: "does status_ok_ev (createFor R ns n bd dci) Q'" if "\<And>r. Q' r" for dci Q'
    unfolding createFor_def getDisplayName_def dc_listDeployments_def dc_metric_def Let_def
    by (intro emits_intros TrueI that | simp)+
  show ?case
    unfolding createFirst.simps by (intro emits_intros TrueI new Cons)
qed (simp add: does_gret)

lemma does_dcReconcileCluster:
  assumes "summary_ok (dct_Apps (dc_Status dc)) (dct_Status (dc_Status dc))"
  shows "does status_ok_ev (dcReconcileCluster R ns n before dc cluster) (\<lambda>_. True)"
proof -
  have "summary_ok (dct_Apps (dc_Status (dcWithName cluster dc))) (dct_Status (dc_Status (dcWithName cluster dc)))"
    using assms by (simp add: dcWithName_def)
  then have step: "summary_ok (dct_Apps (dc_Status d)) (dct_Status (dc_Status d))"
    if "addApps R n bds (dcWithName cluster dc) = Ret d" for bds d
    using addApps_exact [OF that] by blast
  have ok: "dc_status_ok (dcFinalStatus now t cluster d)"
    if "addApps R n bds (dcWithName cluster dc) = Ret d" "su_Total (ss_Summary (dct_Status (dc_Status d))) \<noteq> 0" for bds d now t
    using step [OF that(1)] that(2) by (intro dcFinalStatus_ok) (auto simp: summary_ok_def)
  have apps: "does status_ok_ev (ggo (addApps R n bds (dcWithName cluster dc)))
     (\<lambda>r. case r of Ret (Inr d) \<Rightarrow> addApps R n bds (dcWithName cluster dc) = Ret d | _ \<Rightarrow> True)" for bds
    by (cases "addApps R n bds (dcWithName cluster dc)") (simp_all add: ggo_def does_return)
  show ?thesis
    unfolding dcReconcileCluster_def dc_listBDs_def Let_def
  proof (rule does_gtry_any, goal_cases)
    case (4 bds)
    show ?case
      by (rule does_gtry [OF apps]) (intro emits_intros TrueI ok | simp)+
  qed (intro emits_intros TrueI | simp)+
qed


section \<open>The Cluster controller\<close>

text \<open>
  A Cluster is created only where the Fleet cluster can exist, deleted only where the API server can
  answer that the Fleet cluster does not.
\<close>

definition fleet_answers :: "('j, 'w) ClEnv \<Rightarrow> string \<Rightarrow> string \<Rightarrow> FleetCluster res set" where
  "fleet_answers R namespace name = (\<lambda>w. fst (cle_GetFleet R namespace name w)) ` UNIV"

definition cluster_ev_ok :: "FleetCluster res set \<Rightarrow> cl_ev \<Rightarrow> bool" where
  "cluster_ev_ok A e = (case e of
     ClDelete _ \<Rightarrow> \<exists>err. Inl err \<in> A \<and> k8s_not_found err
   | ClCreate _ \<Rightarrow> \<exists>fc. Inr fc \<in> A
   | ClPatch _ _ \<Rightarrow> \<exists>fc. Inr fc \<in> A
   | ClPatchStatus _ _ \<Rightarrow> \<exists>fc. Inr fc \<in> A
   | _ \<Rightarrow> True)"

lemma does_get_fleet:
  "does (cluster_ev_ok (fleet_answers R ns n)) (call (ClGetFleet ns n) (cle_GetFleet R ns n))
     (\<lambda>r. r \<in> fleet_answers R ns n)"
  by (rule does_call_post) (auto simp: cluster_ev_ok_def fleet_answers_def)

lemma does_clFollow:
  "Inr fc \<in> A \<Longrightarrow> does (cluster_ev_ok A) (clFollow R h c fc) (\<lambda>_. True)"
  unfolding clFollow_def isClusterConnected_def clNow_def clPatchClient_def Let_def
  by (intro emits_intros TrueI does_Patch | auto simp: cluster_ev_ok_def intro!: emits_intros)+

text \<open>
  Claim C32.  A Cluster is deleted only if the API server can answer that its Fleet cluster does not
  exist, and created or changed only if it can answer with a Fleet cluster.
\<close>
theorem cluster_follows_fleet:
  "does (cluster_ev_ok (fleet_answers R namespace name)) (clReconcile R namespace name) (\<lambda>_. True)"
proof -
  let ?P = "cluster_ev_ok (fleet_answers R namespace name)"
  have create: "does ?P (clCreate R namespace name) (\<lambda>_. True)"
    unfolding clCreate_def
    by (rule does_bind [OF does_get_fleet]) (intro emits_intros TrueI | auto simp: cluster_ev_ok_def)+
  show ?thesis
    unfolding clReconcile_def
    by (rule TrueI create does_bind [OF does_get_fleet] does_clFollow emits_intros
        | assumption | (auto simp: cluster_ev_ok_def; fail))+
qed


section \<open>The CAPI controller\<close>

definition capi_labels_kept :: "'w CapiEnv \<Rightarrow> bool" where
  "capi_labels_kept R = (\<forall>capi fc fc'. cae_SetControllerReference R capi fc = Inr fc' \<longrightarrow>
     om_Labels (fc_Meta fc') = om_Labels (fc_Meta fc) \<and> om_Annotations (fc_Meta fc') = om_Annotations (fc_Meta fc))"

definition capi_ready :: "CapiCluster \<Rightarrow> bool" where
  "capi_ready capi = (ca_ControlPlaneReady capi \<and> ca_InfrastructureReady capi)"

text \<open>The Fleet cluster mirrors the labels and annotations of the CAPI cluster and names its infrastructure.\<close>

definition mirrors :: "CapiCluster \<Rightarrow> FleetCluster \<Rightarrow> bool" where
  "mirrors capi fc = (\<exists>infra ls. ca_InfrastructureRef capi = Some infra \<and> om_Labels (ca_Meta capi) = Some ls \<and>
     om_Labels (fc_Meta fc) = Some (AList.update CapiInfraName infra ls) \<and>
     om_Annotations (fc_Meta fc) = om_Annotations (ca_Meta capi))"

definition capi_ev_ok :: "CapiCluster \<Rightarrow> capi_ev \<Rightarrow> bool" where
  "capi_ev_ok capi e = (case e of
     CaCreate fc \<Rightarrow> capi_ready capi \<and> mirrors capi fc
   | CaUpdate fc \<Rightarrow> capi_ready capi \<and> mirrors capi fc
   | _ \<Rightarrow> True)"

lemma does_label_infra:
  assumes "om_Labels (fc_Meta fc0) = om_Labels (ca_Meta capi)" "om_Annotations (fc_Meta fc0) = om_Annotations (ca_Meta capi)"
  shows "does P (ggo (label_infra capi fc0)) (\<lambda>r. case r of Ret (Inr fc) \<Rightarrow> mirrors capi fc | _ \<Rightarrow> True)"
  using assms by (auto simp: ggo_def does_return label_infra_def mirrors_def split: option.split)

text \<open>
  Claim C34.  A Fleet cluster is created or updated only for a CAPI cluster whose control plane and
  infrastructure are ready, and then mirrors its labels and annotations and names its infrastructure.
\<close>
theorem capi_writes_mirror:
  assumes "capi_labels_kept R"
  shows "does (capi_ev_ok capi) (reconcilePhaseProvisioned R capi) (\<lambda>_. True)"
proof (cases "capi_ready capi")
  case True
  have create: "does (capi_ev_ok capi) (capiCreate R capi secret) (\<lambda>_. True)" for secret
  proof (cases "cae_SetControllerReference R capi (newFleetCluster capi secret)")
    case (Inr fc0)
    with assms have "om_Labels (fc_Meta fc0) = om_Labels (ca_Meta capi)" "om_Annotations (fc_Meta fc0) = om_Annotations (ca_Meta capi)"
      by (auto simp: capi_labels_kept_def newFleetCluster_def)
    then show ?thesis
      unfolding capiCreate_def Inr sum.case
      by (intro does_gtry [OF does_label_infra]) (rule TrueI emits_intros | simp add: capi_ev_ok_def True)+
  qed (simp add: capiCreate_def does_gfail)
  have update: "does (capi_ev_ok capi) (capiUpdate R capi fc) (\<lambda>_. True)" for fc
    unfolding capiUpdate_def Let_def
    by (intro does_gtry [OF does_label_infra]) (rule TrueI emits_intros | simp add: capi_ev_ok_def True)+
  show ?thesis
    unfolding reconcilePhaseProvisioned_def Let_def
    by (rule TrueI create update emits_intros | simp add: capi_ev_ok_def)+
next
  case False
  then show ?thesis
    by (auto simp: reconcilePhaseProvisioned_def capi_ready_def Let_def does_gret)
qed

section \<open>Concrete instances\<close>

definition sample_dc_env :: "unit DcEnv" where
  "sample_dc_env = \<lparr>
     dce_MustParse = (\<lambda>s. if length s = 4 then Ret s else Panicked), dce_NewSHA1 = (\<lambda>u s. u @ s),
     dce_Get = (\<lambda>_ _ w. (Inl (K8sErr ReasonNotFound []), w)),
     dce_GetCluster = (\<lambda>_ _ w. (Inl (K8sErr ReasonNotFound []), w)),
     dce_ListBDs = (\<lambda>_ _ w. (Inr [], w)), dce_ListDeployments = (\<lambda>_ w. (Inr [], w)),
     dce_ListByCluster = (\<lambda>_ w. (Inr [], w)), dce_Create = (\<lambda>_ w. (None, w)), dce_Delete = (\<lambda>_ w. (None, w)),
     dce_PatchStatus = (\<lambda>_ _ w. (None, w)), dce_Now = (\<lambda>w. (0, w)), dce_metric = (\<lambda>w. ((), w))\<rparr>"

definition sample_bundle :: "string \<Rightarrow> bool \<Rightarrow> BundleDeployment" where
  "sample_bundle cluster ready = \<lparr>
     bd_Meta = empty_meta\<lparr>om_Labels := Some [(LabelDeploymentID, ''abcd''), (FleetClusterID, cluster),
       (FleetClusterNamespace, ''ns'')]\<rparr>,
     bd_SpecDeploymentID = ''v1'', bd_AppliedDeploymentID = ''v1'', bd_Ready = ready, bd_NonModified = ready,
     bd_DisplayState = [], bd_Conditions = [\<lparr>gc_Type = ''Ready'',
       gc_Status = (if ready then ConditionTrue else ConditionFalse), gc_Message = ''wait''\<rparr>]\<rparr>"

lemma sample_addApps:
  "\<exists>d. addApps sample_dc_env ''dc-abcdc1'' [sample_bundle ''c1'' True, sample_bundle ''c2'' True, sample_bundle ''c1'' False]
     (initializeStatus empty_dc) = Ret d"
  by (simp add: deploymentClusterInfo_def sample_dc_env_def sample_bundle_def labels_of_def Let_def)

lemma bundle_summary_exact_witness:
  "\<exists>d. addApps sample_dc_env ''dc-abcdc1'' [sample_bundle ''c1'' True, sample_bundle ''c2'' True, sample_bundle ''c1'' False]
     (initializeStatus empty_dc) = Ret d \<and> map app_running (dct_Apps (dc_Status d)) = [True, False] \<and>
     ss_State (dct_Status (dc_Status d)) = Down \<and> ss_Message (dct_Status (dc_Status d)) = ''wait''"
proof -
  let ?bds = "[sample_bundle ''c1'' True, sample_bundle ''c2'' True, sample_bundle ''c1'' False]"
  obtain d where d: "addApps sample_dc_env ''dc-abcdc1'' ?bds (initializeStatus empty_dc) = Ret d"
    using sample_addApps by blast
  have apps: "filter (own_bundle sample_dc_env ''dc-abcdc1'') ?bds = [sample_bundle ''c1'' True, sample_bundle ''c1'' False]"
    by (simp add: own_bundle_def deploymentClusterInfo_def sample_dc_env_def sample_bundle_def labels_of_def Let_def)
  have run: "app_running (app_of (sample_bundle c b)) = b"
    "ss_Message (pp_Status (app_of (sample_bundle c False))) = ''wait''" for c b
    by (simp_all add: app_running_def app_of_def GetState_def GetMessage_def AppendMessage_def GetGenericCondition_def
        sample_bundle_def)
  from bundle_summary_exact [OF d] d show ?thesis
    unfolding apps by (auto simp: summary_ok_def run AppendMessage_def)
qed

definition sample_capi_env :: "unit CapiEnv" where
  "sample_capi_env = \<lparr>
     cae_SetControllerReference = (\<lambda>capi fc. Inr (fc\<lparr>fc_Meta := (fc_Meta fc)\<lparr>om_OwnerReferences :=
       [\<lparr>ow_APIVersion = ''cluster.x-k8s.io/v1beta1'', ow_Kind = ''Cluster'', ow_Name = om_Name (ca_Meta capi),
         ow_UID = om_UID (ca_Meta capi), ow_Controller = True\<rparr>]\<rparr>\<rparr>)),
     cae_Get = (\<lambda>_ _ w. (Inl (K8sErr ReasonNotFound []), w)), cae_GetSecret = (\<lambda>_ n w. (Inr n, w)),
     cae_GetFleet = (\<lambda>_ _ w. (Inl (K8sErr ReasonNotFound []), w)),
     cae_Create = (\<lambda>_ w. (None, w)), cae_Update = (\<lambda>_ w. (None, w))\<rparr>"

definition sample_capi :: CapiCluster where
  "sample_capi = \<lparr>ca_Meta = empty_meta\<lparr>om_Name := ''c1'', om_Namespace := ''p1'', om_Labels := Some [(''site'', ''a'')]\<rparr>,
     ca_Phase = ClusterPhaseProvisioned, ca_ControlPlaneReady = True, ca_InfrastructureReady = True,
     ca_InfrastructureRef = Some ''infra''\<rparr>"

lemma capi_writes_mirror_witness:
  "does (capi_ev_ok sample_capi) (reconcilePhaseProvisioned sample_capi_env sample_capi) (\<lambda>_. True) \<and>
   (\<exists>fc. CaCreate fc \<in> set (effects (reconcilePhaseProvisioned sample_capi_env sample_capi) \<lparr>env = (), trace = []\<rparr>))"
proof
  show "does (capi_ev_ok sample_capi) (reconcilePhaseProvisioned sample_capi_env sample_capi) (\<lambda>_. True)"
    by (rule capi_writes_mirror) (auto simp: capi_labels_kept_def sample_capi_env_def)
  show "\<exists>fc. CaCreate fc \<in> set (effects (reconcilePhaseProvisioned sample_capi_env sample_capi) \<lparr>env = (), trace = []\<rparr>)"
    by (simp add: effects_def reconcilePhaseProvisioned_def capiCreate_def sample_capi_env_def sample_capi_def Let_def
        io_simps label_infra_def newFleetCluster_def)
qed

end
