(* ===== verification/EnvVars.thy ===== *)
theory EnvVars
  imports Utils
begin

text \<open>
  The readers of the environment (pkg/utils/env_vars.go, pkg/utils/ratelimiter/utils.go and the
  environment helpers of the App Resource Manager), with the errors of package strconv.  The
  environment is a map of strings; 64-bit integers wrap around where the code computes with them.
\<close>

type_synonym environ = labels

definition LookupEnv :: "environ \<Rightarrow> string \<Rightarrow> string option" where
  "LookupEnv en k = map_of en k"

definition Getenv :: "environ \<Rightarrow> string \<Rightarrow> string" where
  "Getenv en k = label_get en k"

definition env_or :: "environ \<Rightarrow> string \<Rightarrow> string \<Rightarrow> string" where
  "env_or en k d = (case LookupEnv en k of None \<Rightarrow> d | Some v \<Rightarrow> v)"

definition env_required :: "environ \<Rightarrow> string \<Rightarrow> string \<Rightarrow> string res" where
  "env_required en k msg = (case LookupEnv en k of None \<Rightarrow> Inl (TypedErr KNotFound msg) | Some v \<Rightarrow> Inr v)"

section \<open>Package strconv\<close>

text \<open>\<open>strconv.Quote\<close> of ASCII text; other bytes are kept.\<close>

definition hex_char :: "nat \<Rightarrow> char" where
  "hex_char d = (if d < 10 then char_of (48 + d) else char_of (87 + d))"

definition quote_char :: "char \<Rightarrow> string" where
  "quote_char c = (let n = (of_char c :: nat); esc = (\<lambda>d. [CHR 0x5C, d]) in
     if n = 34 \<or> n = 92 then esc c
     else if n = 7 then esc (CHR ''a'') else if n = 8 then esc (CHR ''b'') else if n = 9 then esc (CHR ''t'')
     else if n = 10 then esc (CHR ''n'') else if n = 11 then esc (CHR ''v'') else if n = 12 then esc (CHR ''f'')
     else if n = 13 then esc (CHR ''r'')
     else if n < 32 \<or> n = 127 then esc (CHR ''x'') @ [hex_char (n div 16), hex_char (n mod 16)] else [c])"

definition Quote :: "string \<Rightarrow> string" where
  "Quote s = CHR 0x22 # concat (map quote_char s) @ [CHR 0x22]"

definition unsigned_part :: "string \<Rightarrow> string" where
  "unsigned_part s = (case s of [] \<Rightarrow> [] | c # cs \<Rightarrow> if c = CHR ''-'' \<or> c = CHR ''+'' then cs else s)"

text \<open>The error of a conversion: digits that do not fit are out of range, anything else is a syntax error.\<close>

definition num_error :: "string \<Rightarrow> string \<Rightarrow> goerror" where
  "num_error fn s = PlainErr (''strconv.'' @ fn @ '': parsing '' @ Quote s @ '': '' @
     (if parse_nat (unsigned_part s) = None then ''invalid syntax'' else ''value out of range''))"

definition Atoi :: "string \<Rightarrow> int res" where
  "Atoi s = (case ParseInt 64 s of Some i \<Rightarrow> Inr i | None \<Rightarrow> Inl (num_error ''Atoi'' s))"

definition ParseIntErr :: "nat \<Rightarrow> string \<Rightarrow> int res" where
  "ParseIntErr w s = (case ParseInt w s of Some i \<Rightarrow> Inr i | None \<Rightarrow> Inl (num_error ''ParseInt'' s))"

text \<open>The value of an integer in a signed 64-bit variable.\<close>

definition wrap64 :: "int \<Rightarrow> int" where
  "wrap64 i = sint (word_of_int i :: 64 word)"

section \<open>Numbers and switches\<close>

definition defaultGitPollingInterval :: int where "defaultGitPollingInterval = 15"

text \<open>A duration in nanoseconds.\<close>

definition GetFleetGitPollingInterval :: "environ \<Rightarrow> int res" where
  "GetFleetGitPollingInterval en = (case LookupEnv en ''FLEET_GIT_POLLING_INTERVAL'' of
     None \<Rightarrow> Inl (TypedErr KNotFound ''FLEET_GIT_POLLING_INTERVAL env var not set'')
   | Some s \<Rightarrow> Inr (wrap64 ((case Atoi s of Inl _ \<Rightarrow> defaultGitPollingInterval | Inr i \<Rightarrow> i) * 10 ^ 9)))"

definition IsOPAEnabled :: "environ \<Rightarrow> bool" where
  "IsOPAEnabled en = (Getenv en ''OPA_ENABLED'' = ''true'')"

definition GetStatusRefreshInterval :: "environ \<Rightarrow> int" where
  "GetStatusRefreshInterval en = (case Atoi (Getenv en ''STATUS_REFRESH_INTERVAL'') of Inl _ \<Rightarrow> 0 | Inr i \<Rightarrow> i)"

definition GetMessageSizeLimit :: "environ \<Rightarrow> int res" where
  "GetMessageSizeLimit en = (case LookupEnv en ''MSG_SIZE_LIMIT'' of
     None \<Rightarrow> Inl (TypedErr KNotFound ''MSG_SIZE_LIMIT env var not set'')
   | Some msgSizeLimitStr \<Rightarrow>
       (case ParseIntErr 64 msgSizeLimitStr of
          Inl err \<Rightarrow> Inl err
        | Inr msgSizeLimit \<Rightarrow> (let msgSizeLimitBytes = wrap64 (wrap64 (msgSizeLimit * 1024) * 1024) in
            if msgSizeLimitBytes < 0 then Inl (TypedErr KInvalid ''MSG_SIZE_LIMIT causes overflow'')
            else Inr msgSizeLimitBytes)))"

definition IsSecretServiceEnabled :: "environ \<Rightarrow> bool res" where
  "IsSecretServiceEnabled en = (case LookupEnv en ''SECRET_SERVICE_ENABLED'' of
     None \<Rightarrow> Inl (TypedErr KNotFound ''SECRET_SERVICE_ENABLED environment var is not set'')
   | Some flag \<Rightarrow> Inr (flag \<noteq> ''false''))"

text \<open>The value, and a message for the log that is empty where the variable is read.\<close>

definition GetIntegerFromEnv :: "environ \<Rightarrow> string \<Rightarrow> int \<Rightarrow> int \<times> string" where
  "GetIntegerFromEnv en envvar defaultvalue = (case LookupEnv en envvar of
     Some intStr \<Rightarrow>
       (case Atoi intStr of
          Inl err \<Rightarrow> (defaultvalue, ''parsing '' @ envvar @ '' failed - '' @ err_msg err @
            '' - using default of '' @ int_str defaultvalue)
        | Inr intval \<Rightarrow> (intval, []))
   | None \<Rightarrow> (defaultvalue, ''failed to get '' @ envvar @ '' from env - using default of '' @ int_str defaultvalue))"

definition DeleteCRDResources :: "environ \<Rightarrow> bool" where
  "DeleteCRDResources en = (case LookupEnv en ''DELETE_CRD_RESOURCES'' of
     None \<Rightarrow> True | Some flag \<Rightarrow> if flag = [] then True else flag \<noteq> ''false'')"

section \<open>Settings with a default\<close>

definition GetServiceAccount :: "environ \<Rightarrow> string" where
  "GetServiceAccount en = env_or en ''SERVICE_ACCOUNT'' ''orch-svc''"

definition GetSecretServiceMount :: "environ \<Rightarrow> string" where
  "GetSecretServiceMount en = env_or en ''SECRET_SERVICE_MOUNT'' ''secret''"

definition GetSecretServiceGitServicePath :: "environ \<Rightarrow> string" where
  "GetSecretServiceGitServicePath en = env_or en ''SECRET_GIT_SERVICE_PATH'' ''ma_git_service''"

definition GetSecretServiceGitServiceKVKeyUsername :: "environ \<Rightarrow> string" where
  "GetSecretServiceGitServiceKVKeyUsername en = env_or en ''SECRET_GIT_SERVICE_USERNAME_KVKEY'' ''username''"

definition GetSecretServiceGitServiceKVKeyPassword :: "environ \<Rightarrow> string" where
  "GetSecretServiceGitServiceKVKeyPassword en = env_or en ''SECRET_GIT_SERVICE_PASSWORD_KVKEY'' ''password''"

definition GetSecretServiceAWSServicePath :: "environ \<Rightarrow> string" where
  "GetSecretServiceAWSServicePath en = env_or en ''SECRET_AWS_SERVICE_PATH'' ''ma_aws_service''"

definition GetSecretServiceAWSServiceKVKeyRegion :: "environ \<Rightarrow> string" where
  "GetSecretServiceAWSServiceKVKeyRegion en = env_or en ''SECRET_AWS_SERVICE_REGION_KVKEY'' ''region''"

definition GetSecretServiceAWSServiceKVKeyAccessKey :: "environ \<Rightarrow> string" where
  "GetSecretServiceAWSServiceKVKeyAccessKey en = env_or en ''SECRET_AWS_SERVICE_ACCESSKEY_KVKEY'' ''accessKeyID''"

definition GetSecretServiceAWSServiceKVKeySecretAccessKey :: "environ \<Rightarrow> string" where
  "GetSecretServiceAWSServiceKVKeySecretAccessKey en = env_or en ''SECRET_AWS_SERVICE_SECRET_ACCESSKEY_KVKEY'' ''secretAccessKey''"

definition GetSecretServiceAWSServiceKVKeySSHKey :: "environ \<Rightarrow> string" where
  "GetSecretServiceAWSServiceKVKeySSHKey en = env_or en ''SECRET_AWS_SERVICE_SECRET_SSHKEY_KVKEY'' ''sshKeyID''"

definition GetSecretServiceHarborServicePath :: "environ \<Rightarrow> string" where
  "GetSecretServiceHarborServicePath en = env_or en ''SECRET_HARBOR_SERVICE_PATH'' ''ma_harbor_service''"

definition GetSecretServiceHarborServiceKVKeyUsername :: "environ \<Rightarrow> string" where
  "GetSecretServiceHarborServiceKVKeyUsername en = env_or en ''SECRET_HARBOR_SERVICE_USERNAME_KVKEY'' ''username''"

definition GetSecretServiceHarborServiceKVKeyPassword :: "environ \<Rightarrow> string" where
  "GetSecretServiceHarborServiceKVKeyPassword en = env_or en ''SECRET_HARBOR_SERVICE_PASSWORD_KVKEY'' ''password''"

definition GetSecretServiceHarborServiceKVKeyCert :: "environ \<Rightarrow> string" where
  "GetSecretServiceHarborServiceKVKeyCert en = env_or en ''SECRET_HARBOR_SERVICE_CERT_KVKEY'' ''cacerts''"

definition GetGitProxy :: "environ \<Rightarrow> string" where
  "GetGitProxy en = env_or en ''GIT_PROXY'' []"

definition GetSecretServiceEndpoint :: "environ \<Rightarrow> string" where
  "GetSecretServiceEndpoint en = env_or en ''SECRET_SERVICE_ENDPOINT'' ''http://vault.orch-platform.svc.cluster.local:8200''"

definition GetKeycloakServiceEndpoint :: "environ \<Rightarrow> string" where
  "GetKeycloakServiceEndpoint en = env_or en ''KEYCLOAK_SERVICE_ENDPOINT'' []"

section \<open>Required settings\<close>

definition GetGitUser :: "environ \<Rightarrow> string res" where
  "GetGitUser en = env_required en ''GIT_USER'' ''secret service is disabled but GIT_USER env var not set''"

definition GetGitPassword :: "environ \<Rightarrow> string res" where
  "GetGitPassword en = env_required en ''GIT_PASSWORD'' ''secret service is disabled but GIT_PASSWORD env var not set''"

definition GetGitServer :: "environ \<Rightarrow> string res" where
  "GetGitServer en = env_required en ''GIT_SERVER'' ''GIT_SERVER env var not set''"

definition GetGitProvider :: "environ \<Rightarrow> string res" where
  "GetGitProvider en = env_required en ''GIT_PROVIDER'' ''GIT_PROVIDER env var not set''"

definition GetGitRegion :: "environ \<Rightarrow> string res" where
  "GetGitRegion en = env_required en ''GIT_REGION'' ''secret service is disabled but GIT_REGION env var not set''"

definition GetGitAccessKey :: "environ \<Rightarrow> string res" where
  "GetGitAccessKey en = env_required en ''GIT_ACCESSKEY'' ''secret service is disabled but GIT_ACCESSKEY env var not set''"

definition GetGitSecretAccessKey :: "environ \<Rightarrow> string res" where
  "GetGitSecretAccessKey en = env_required en ''GIT_SECRET_ACCESSKEY'' ''GIT_SECRET_ACCESSKEY env var not set''"

definition GetAwsSSHKey :: "environ \<Rightarrow> string res" where
  "GetAwsSSHKey en = env_required en ''GIT_AWSSSHKEY'' ''GIT_AWSSSHKEY env var not set''"

definition GetCAPIEnabled :: "environ \<Rightarrow> string res" where
  "GetCAPIEnabled en = env_required en ''CAPI_ENABLED'' ''CAPI_ENABLED env var not set''"

section \<open>Rate limiter\<close>

text \<open>Parsing of a float is a parameter; the number is represented by what it returns.\<close>

definition GetRateLimiterParams :: "(string \<Rightarrow> 'f res) \<Rightarrow> environ \<Rightarrow> ('f \<times> int) res" where
  "GetRateLimiterParams ParseFloat en = (case ParseFloat (Getenv en ''RATE_LIMITER_QPS'') of
     Inl err \<Rightarrow> Inl err
   | Inr qpsValue \<Rightarrow>
       (case ParseIntErr 32 (Getenv en ''RATE_LIMITER_BURST'') of
          Inl err \<Rightarrow> Inl err
        | Inr burstValue \<Rightarrow> Inr (qpsValue, burstValue)))"

text \<open>The App Resource Manager reads the same limit without a check for overflow.\<close>

definition armMessageSizeLimit :: "environ \<Rightarrow> int res" where
  "armMessageSizeLimit en = (case ParseIntErr 64 (Getenv en ''MSG_SIZE_LIMIT'') of
     Inl err \<Rightarrow> Inl err | Inr msgSizeLimit \<Rightarrow> Inr (wrap64 (wrap64 (msgSizeLimit * 1024) * 1024)))"

section \<open>Lemmas\<close>

lemma wrap64_small [simp]: "- (2 ^ 63) \<le> i \<Longrightarrow> i < 2 ^ 63 \<Longrightarrow> wrap64 i = i"
  unfolding wrap64_def by (simp add: sint_sbintrunc' signed_take_bit_int_eq_self)

lemma wrap64_range: "- (2 ^ 63) \<le> wrap64 i \<and> wrap64 i < 2 ^ 63"
  using sint_ge [of "word_of_int i :: 64 word"] sint_lt [of "word_of_int i :: 64 word"]
  by (simp add: wrap64_def)

lemma wrap64_mult: "wrap64 (wrap64 a * b) = wrap64 (a * b)"
proof -
  have "word_of_int (wrap64 a * b) = (word_of_int (a * b) :: 64 word)"
    by (simp add: wrap64_def flip: wi_hom_mult)
  then show ?thesis by (simp only: wrap64_def [of "wrap64 a * b"] wrap64_def [of "a * b"])
qed

lemma wrap64_cong: "\<exists>k. wrap64 i = i + k * 2 ^ 64"
proof -
  have "word_of_int (wrap64 i) = (word_of_int i :: 64 word)" by (simp add: wrap64_def)
  then have "wrap64 i mod 2 ^ 64 = i mod 2 ^ 64"
    by (simp add: word_of_int_eq_iff take_bit_eq_mod)
  then have "(2 ^ 64) dvd (wrap64 i - i)" by (rule mod_eq_dvd_iff [THEN iffD1])
  then obtain k where "wrap64 i - i = 2 ^ 64 * k" by (rule dvdE)
  then show ?thesis by (intro exI [of _ k]) simp
qed

text \<open>
  The limit on the size of a message is exact up to 2 to the 43 megabytes; whatever is accepted
  is not negative and right up to a multiple of 2 to the 64.  The check for overflow only finds results
  with the sign bit set: a limit of 2 to the 44 megabytes is accepted as a limit of zero bytes.
\<close>
theorem message_size_limit:
  assumes "LookupEnv en ''MSG_SIZE_LIMIT'' = Some s" "ParseInt 64 s = Some i"
  shows "(0 \<le> i \<and> i < 2 ^ 43 \<longrightarrow> GetMessageSizeLimit en = Inr (i * 2 ^ 20)) \<and>
     (\<forall>b. GetMessageSizeLimit en = Inr b \<longrightarrow> 0 \<le> b \<and> b < 2 ^ 63 \<and> (\<exists>k. b = i * 2 ^ 20 + k * 2 ^ 64)) \<and>
     (i = 2 ^ 44 \<longrightarrow> GetMessageSizeLimit en = Inr 0)"
proof -
  have v: "wrap64 (wrap64 (i * 1024) * 1024) = wrap64 (i * 2 ^ 20)" unfolding wrap64_mult by (simp add: algebra_simps)
  have r: "GetMessageSizeLimit en = (if wrap64 (i * 2 ^ 20) < 0
      then Inl (TypedErr KInvalid ''MSG_SIZE_LIMIT causes overflow'') else Inr (wrap64 (i * 2 ^ 20)))"
    using assms by (simp add: GetMessageSizeLimit_def ParseIntErr_def v Let_def)
  have small: "wrap64 (i * 2 ^ 20) = i * 2 ^ 20" if "0 \<le> i" "i < 2 ^ 43"
    using that by (intro wrap64_small) simp_all
  have z: "wrap64 (2 ^ 44 * 2 ^ 20) = 0" by (simp add: wrap64_def)
  show ?thesis
    using wrap64_range [of "i * 2 ^ 20"] wrap64_cong [of "i * 2 ^ 20"] z small by (auto simp: r mult_less_0_iff simp del: power_numeral)
qed

lemma message_size_limit_witness:
  "GetMessageSizeLimit [(''MSG_SIZE_LIMIT'', ''4'')] = Inr 4194304"
  using message_size_limit [of "[(''MSG_SIZE_LIMIT'', ''4'')]" "''4''" 4]
  by (simp add: LookupEnv_def ParseInt_def parse_nat_def char_digit_def)

end
