(* ===== verification/Webhook.thy ===== *)
theory Webhook
  imports EnvVars
begin

text \<open>
  The webhook of Deployment resources (webhooks/deployment/deployment_webhook.go).  \<open>Default\<close> sets
  the finalizers; the validation of a creation or an update marks the package as deployed in the
  Catalog and, when the version changes, unmarks a version that no other deployment uses.

  The texts that the API machinery builds for an invalid field and an internal error are parameters.
  A package reference without namespaces has a nil list.
\<close>

record 's Webhook =
  wh_lib :: k8slib
  wh_invalid_text :: "string \<Rightarrow> string \<Rightarrow> string"
  wh_internal_text :: "string \<Rightarrow> string"
  wh_ListByRef :: "string \<Rightarrow> ('s, Deployment list res) state"
  wh_catalogclient :: "ctx \<Rightarrow> 's CatalogClient"
  wh_vaultAuthClient :: "'s VaultAuth"
  wh_deleteGitRepo :: bool

text \<open>A runtime object is a Deployment or has another type, given by its name.\<close>

datatype RuntimeObject = ObDeployment Deployment | ObOther string

definition webhook_deleteGitRepo :: "environ \<Rightarrow> bool" where
  "webhook_deleteGitRepo en = (case LookupEnv en ''GITEA_DELETE_REPO_ON_TERMINATE'' of
     None \<Rightarrow> True | Some deleteRepo \<Rightarrow> deleteRepo = ''true'')"

definition expected_deployment :: "string \<Rightarrow> goerror" where
  "expected_deployment t = K8sErr ReasonBadRequest (''expected a Deployment but got a '' @ t)"

definition NewInternalError :: "'s Webhook \<Rightarrow> goerror \<Rightarrow> string \<Rightarrow> goerror" where
  "NewInternalError W err msg = K8sErr ReasonInternalError (wh_internal_text W (msg @ '': '' @ err_msg err))"

section \<open>Finalizers\<close>

definition set_finalizer :: "'s Webhook \<Rightarrow> bool \<Rightarrow> string \<Rightarrow> Deployment \<Rightarrow> Deployment" where
  "set_finalizer W wanted f d =
     (if om_DeletionTimestamp (d_Meta d) = None \<and> wanted \<and>
         \<not> ContainsFinalizer (wh_lib W) (om_Finalizers (d_Meta d)) f
      then d\<lparr>d_Meta := (d_Meta d)\<lparr>om_Finalizers := AddFinalizer (wh_lib W) (om_Finalizers (d_Meta d)) f\<rparr>\<rparr>
      else d)"

definition whDefault :: "'s Webhook \<Rightarrow> RuntimeObject \<Rightarrow> Deployment res" where
  "whDefault W obj = (case obj of
     ObOther t \<Rightarrow> Inl (expected_deployment t)
   | ObDeployment d \<Rightarrow> (let
       d1 = set_finalizer W (wh_deleteGitRepo W) FinalizerGitRemote d;
       d2 = set_finalizer W True FinalizerDependency d1;
       d3 = set_finalizer W (sp_DeploymentPackageRef (d_Spec d2) \<noteq> empty_pkgref) FinalizerCatalog d2
     in Inr d3))"

section \<open>Validation\<close>

definition ValidateCreate :: "'s Webhook \<Rightarrow> ctx \<Rightarrow> RuntimeObject \<Rightarrow> ('s, unit res) state" where
  "ValidateCreate W ctx0 obj = (case obj of
     ObOther t \<Rightarrow> fail_io (expected_deployment t)
   | ObDeployment d \<Rightarrow>
       if sp_DeploymentPackageRef (d_Spec d) = empty_pkgref then ret_io ()
       else do {
         e \<leftarrow> HandleIsDeployed ctx0 (wh_catalogclient W) (wh_vaultAuthClient W) d True;
         case e of
           Some err \<Rightarrow> fail_io (NewInternalError W err
             (''failed to set IsDeployed for Deployment '' @ om_Name (d_Meta d)))
         | None \<Rightarrow> ret_io () })"

definition validate_update :: "'s Webhook \<Rightarrow> Deployment \<Rightarrow> Deployment \<Rightarrow> goerror option" where
  "validate_update W old deployment = (let
     name = dp_Name (sp_DeploymentPackageRef (d_Spec deployment))
   in if dp_Name (sp_DeploymentPackageRef (d_Spec old)) \<noteq> name
      then Some (K8sErr ReasonInvalid (wh_invalid_text W (om_Name (d_Meta deployment)) name)) else None)"

text \<open>The flag of the old version goes only when no other deployment of the project uses it.\<close>

definition unset_old :: "'s Webhook \<Rightarrow> ctx \<Rightarrow> Deployment \<Rightarrow> ('s, unit res) state" where
  "unset_old W ctx0 old = do {
     r \<leftarrow> IsDeployed (wh_ListByRef W) old;
     case r of
       Inl err \<Rightarrow> fail_io (NewInternalError W err (''failed to unset IsDeployed for '' @ om_Name (d_Meta old)))
     | Inr isDeployed \<Rightarrow>
         if isDeployed then ret_io ()
         else do {
           e \<leftarrow> HandleIsDeployed ctx0 (wh_catalogclient W) (wh_vaultAuthClient W) old False;
           case e of
             Some err \<Rightarrow> fail_io (NewInternalError W err (''failed to unset IsDeployed for '' @
               om_Name (d_Meta old) @ '' while upgrade, check Catalog service connection''))
           | None \<Rightarrow> ret_io () } }"

text \<open>The type named in the error of a wrong object is the wanted one, that of the nil pointer.\<close>

definition ValidateUpdate ::
  "'s Webhook \<Rightarrow> ctx \<Rightarrow> RuntimeObject \<Rightarrow> RuntimeObject \<Rightarrow> ('s, unit res) state" where
  "ValidateUpdate W ctx0 oldObj newObj = (case (oldObj, newObj) of
     (ObDeployment old, ObDeployment newDeployment) \<Rightarrow>
       if sp_DeploymentPackageRef (d_Spec newDeployment) = empty_pkgref then ret_io ()
       else (case validate_update W old newDeployment of
         Some err \<Rightarrow> fail_io err
       | None \<Rightarrow>
           if dp_Version (sp_DeploymentPackageRef (d_Spec old)) =
              dp_Version (sp_DeploymentPackageRef (d_Spec newDeployment)) then ret_io ()
           else do {
             e \<leftarrow> HandleIsDeployed ctx0 (wh_catalogclient W) (wh_vaultAuthClient W) newDeployment True;
             case e of
               Some err \<Rightarrow> fail_io (NewInternalError W err (''failed to set IsDeployed for '' @
                 om_Name (d_Meta newDeployment) @ '' while upgrade, check Catalog service connection''))
             | None \<Rightarrow> unset_old W ctx0 old })
   | _ \<Rightarrow> fail_io (expected_deployment ''*v1beta1.Deployment''))"

definition ValidateDelete :: "'s Webhook \<Rightarrow> RuntimeObject \<Rightarrow> ('s, unit res) state" where
  "ValidateDelete W obj = ret_io ()"

section \<open>Lemmas\<close>

lemma set_finalizer_set:
  "k8slib_ok (wh_lib W) \<Longrightarrow> set (om_Finalizers (d_Meta (set_finalizer W wanted f d))) =
     set (om_Finalizers (d_Meta d)) \<union> (if om_DeletionTimestamp (d_Meta d) = None \<and> wanted then {f} else {})"
  by (auto simp: set_finalizer_def k8slib_okD)

lemma set_finalizer_frame [simp]:
  "d_Spec (set_finalizer W wanted f d) = d_Spec d" "d_Status (set_finalizer W wanted f d) = d_Status d"
  "om_DeletionTimestamp (d_Meta (set_finalizer W wanted f d)) = om_DeletionTimestamp (d_Meta d)"
  by (simp_all add: set_finalizer_def)

text \<open>A deployment under deletion keeps its finalizers; any other gets those that apply to it.\<close>

lemma whDefault_finalizers:
  assumes "k8slib_ok (wh_lib W)" "whDefault W (ObDeployment d) = Inr d'"
  shows "d_Spec d' = d_Spec d" "d_Status d' = d_Status d"
    and "set (om_Finalizers (d_Meta d')) = set (om_Finalizers (d_Meta d)) \<union>
      (if om_DeletionTimestamp (d_Meta d) = None then
         (if wh_deleteGitRepo W then {FinalizerGitRemote} else {}) \<union> {FinalizerDependency} \<union>
         (if sp_DeploymentPackageRef (d_Spec d) = empty_pkgref then {} else {FinalizerCatalog}) else {})"
  using assms(2) by (auto simp: whDefault_def Let_def set_finalizer_set [OF assms(1)])

text \<open>Setting the finalizers again changes nothing.\<close>

lemma set_finalizer_again:
  "k8slib_ok (wh_lib W) \<Longrightarrow> f \<in> set (om_Finalizers (d_Meta d)) \<Longrightarrow> set_finalizer W b f d = d"
  by (simp add: set_finalizer_def k8slib_okD)

lemma set_finalizer_deleted: "om_DeletionTimestamp (d_Meta d) \<noteq> None \<Longrightarrow> set_finalizer W b f d = d"
  by (auto simp: set_finalizer_def)

lemma whDefault_idempotent:
  assumes "k8slib_ok (wh_lib W)" "whDefault W (ObDeployment d) = Inr d'"
  shows "whDefault W (ObDeployment d') = Inr d'"
proof (cases "om_DeletionTimestamp (d_Meta d') = None")
  case True
  have s: "sp_DeploymentPackageRef (d_Spec d') = sp_DeploymentPackageRef (d_Spec d)"
    using whDefault_finalizers(1) [OF assms] by simp
  have t: "om_DeletionTimestamp (d_Meta d) = None"
    using True assms(2) by (auto simp: whDefault_def Let_def)
  have keep: "set_finalizer W b f d' = d'" if "b \<Longrightarrow> f \<in> set (om_Finalizers (d_Meta d'))" for b f
    using that set_finalizer_again [OF assms(1)] by (cases b) (blast, simp add: set_finalizer_def)
  show ?thesis
    unfolding whDefault_def Let_def
    using whDefault_finalizers(3) [OF assms] t s by (auto simp: keep)
qed (simp add: whDefault_def set_finalizer_deleted Let_def)

end
