(* ===== verification/ArmCounter.thy ===== *)
theory ArmCounter
  imports EnvVars "HOL-Library.Multiset"
begin

text \<open>
  The App Resource Manager: its configuration (internal/model), and the counters that limit the VNC
  sessions of an IP address and of an account (internal/wsproxy/counter.go).

  A counter is refined to the multiset of the keys of its sessions.  Every operation holds the lock of
  the counter, so that operations of different requests follow one another.
\<close>

section \<open>The configuration\<close>

record ConfigModel =
  cm_Endpoint :: string
  cm_Protocol :: string
  cm_HostName :: string
  cm_SessionLimitPerIP :: int
  cm_SessionLimitPerAccount :: int
  cm_ReadLimitByte :: int
  cm_DlIdleTimeoutMin :: int
  cm_UlIdleTimeoutMin :: int
  cm_AllowedOrigins :: "string list"

text \<open>
  The file, the YAML decoder and the validator are parameters; \<open>validator_ok\<close> is what the tags of the
  model ask of the validator.
\<close>

definition GetConfigModel ::
  "(string \<Rightarrow> ConfigModel res) \<Rightarrow> (ConfigModel \<Rightarrow> goerror option) \<Rightarrow> string res \<Rightarrow> ConfigModel res" where
  "GetConfigModel unmarshal validate rawYamlFile = (case rawYamlFile of
     Inl err \<Rightarrow> Inl err
   | Inr raw \<Rightarrow> (case unmarshal raw of
       Inl err \<Rightarrow> Inl err
     | Inr cfgModel \<Rightarrow> (case validate cfgModel of Some err \<Rightarrow> Inl err | None \<Rightarrow> Inr cfgModel)))"

definition validator_ok :: "(ConfigModel \<Rightarrow> goerror option) \<Rightarrow> bool" where
  "validator_ok validate = (\<forall>m. validate m = None \<longrightarrow>
     cm_Endpoint m \<noteq> [] \<and> cm_Protocol m \<noteq> [] \<and> cm_HostName m \<noteq> [] \<and>
     cm_SessionLimitPerIP m \<ge> 0 \<and> cm_SessionLimitPerAccount m \<ge> 0 \<and> cm_ReadLimitByte m \<ge> 0 \<and>
     cm_DlIdleTimeoutMin m \<ge> 0 \<and> cm_UlIdleTimeoutMin m \<ge> 0)"

text \<open>The states of a virtual machine as text.\<close>

datatype VMState = VMStateUnknown | VMStateStart | VMStateStop | VMStateRestart

fun VMState_String :: "VMState \<Rightarrow> string" where
  "VMState_String VMStateUnknown = ''Unknown''"
| "VMState_String VMStateStart = ''Start''"
| "VMState_String VMStateStop = ''Stop''"
| "VMState_String VMStateRestart = ''Restart''"

section \<open>Counters\<close>

abbreviation (input) CounterTypeUnknown :: nat where "CounterTypeUnknown \<equiv> 0"
abbreviation (input) CounterTypeIP :: nat where "CounterTypeIP \<equiv> 1"
abbreviation (input) CounterTypeAccount :: nat where "CounterTypeAccount \<equiv> 2"

definition CounterType_String :: "nat \<Rightarrow> string go" where
  "CounterType_String t = (let names = [''CounterTypeUnknown'', ''CounterTypeIP'', ''CounterTypeAccount''] in
     if t < length names then Ret (names ! t) else Panicked)"

record counter =
  ct_counterType :: nat
  ct_configPath :: string
  ct_store :: "int gomap"

definition NewCounter :: "string \<Rightarrow> nat \<Rightarrow> counter" where
  "NewCounter configPath counterType =
     \<lparr>ct_counterType = counterType, ct_configPath = configPath, ct_store = []\<rparr>"

definition Print :: "counter \<Rightarrow> string" where
  "Print c = concat (map (\<lambda>(k, v). k @ '': '' @ int_str v @ '' / '') (ct_store c))"

text \<open>The argument \<open>cfg\<close> is what \<open>GetConfigModel\<close> answers at the time of the call.\<close>

definition getMaxLimitPerIP :: "ConfigModel res \<Rightarrow> int res" where
  "getMaxLimitPerIP cfg = (case cfg of Inl err \<Rightarrow> Inl err | Inr m \<Rightarrow> Inr (cm_SessionLimitPerIP m))"

definition getMaxLimitPerAccount :: "ConfigModel res \<Rightarrow> int res" where
  "getMaxLimitPerAccount cfg = (case cfg of Inl err \<Rightarrow> Inl err | Inr m \<Rightarrow> Inr (cm_SessionLimitPerAccount m))"

definition getMaxLimit :: "ConfigModel res \<Rightarrow> counter \<Rightarrow> int res go" where
  "getMaxLimit cfg c =
     (if ct_counterType c = CounterTypeIP then Ret (getMaxLimitPerIP cfg)
      else if ct_counterType c = CounterTypeAccount then Ret (getMaxLimitPerAccount cfg)
      else go_bind (CounterType_String (ct_counterType c)) (\<lambda>s.
        Ret (Inl (TypedErr KInvalid (''received counter type is invalid - not defined: counterType '' @ s)))))"

definition Increase :: "ConfigModel res \<Rightarrow> string \<Rightarrow> counter \<Rightarrow> (goerror option \<times> counter) go" where
  "Increase cfg key c = go_bind (getMaxLimit cfg c) (\<lambda>r. Ret (case r of
     Inl err \<Rightarrow> (Some (TypedErr KNotFound (''failed to retrieve limit value in config file: err '' @ err_msg err)), c)
   | Inr limit \<Rightarrow> (let
       v = (case map_of (ct_store c) key of None \<Rightarrow> 0 | Some v \<Rightarrow> v);
       c1 = (if map_of (ct_store c) key = None then c\<lparr>ct_store := AList.update key 1 (ct_store c)\<rparr> else c)
     in if limit > 0 \<and> v + 1 > limit
        then (Some (TypedErr KForbidden (''exceeding count limit: limit '' @ int_str limit @ '', key '' @ key)), c1)
        else (None, c1\<lparr>ct_store := AList.update key (v + 1) (ct_store c1)\<rparr>))))"

definition Decrease :: "string \<Rightarrow> counter \<Rightarrow> goerror option \<times> counter" where
  "Decrease key c = (case map_of (ct_store c) key of
     None \<Rightarrow> (Some (TypedErr KNotFound (''failed to find the value from counter: key '' @ key)), c)
   | Some v \<Rightarrow>
       if v < 1 then (Some (TypedErr KInvalid (''failed to decrease value since the decreased value will be negative: key ''
         @ key @ '', value '' @ int_str v)), c)
       else (None, c\<lparr>ct_store := AList.update key (v - 1) (ct_store c)\<rparr>))"

section \<open>A counter as a multiset of sessions\<close>

definition counted :: "counter \<Rightarrow> string \<Rightarrow> int" where
  "counted c key = (case map_of (ct_store c) key of None \<Rightarrow> 0 | Some v \<Rightarrow> v)"

definition counter_ok :: "counter \<Rightarrow> bool" where
  "counter_ok c = (ct_counterType c \<in> {CounterTypeIP, CounterTypeAccount} \<and> distinct (map fst (ct_store c)) \<and>
     (\<forall>k. 0 \<le> counted c k))"

definition counter_abs :: "counter \<Rightarrow> string multiset" where
  "counter_abs c = (\<Sum>(k, v) \<leftarrow> ct_store c. replicate_mset (nat v) k)"

text \<open>The abstract operations: a session of a key starts below the limit, and ends if there is one.\<close>

definition open_session :: "int \<Rightarrow> 'k \<Rightarrow> 'k multiset \<Rightarrow> 'k multiset option" where
  "open_session limit k M = (if limit > 0 \<and> int (count M k) \<ge> limit then None else Some (add_mset k M))"

definition close_session :: "'k \<Rightarrow> 'k multiset \<Rightarrow> 'k multiset option" where
  "close_session k M = (if k \<in># M then Some (M - {#k#}) else None)"

definition limit_of :: "ConfigModel res \<Rightarrow> counter \<Rightarrow> int option" where
  "limit_of cfg c = (case getMaxLimit cfg c of Ret (Inr l) \<Rightarrow> Some l | _ \<Rightarrow> None)"

text \<open>
  The interface that the handler of VNC sessions relies on: a counter is a table of sessions, with or
  without a limit.
\<close>

locale session_counter =
  fixes inc dec :: "'k \<Rightarrow> 's \<Rightarrow> 's option"
    and sessions :: "'s \<Rightarrow> 'k multiset"
    and ok :: "'s \<Rightarrow> bool"
    and limit :: int
  assumes inc_session: "ok s \<Longrightarrow> map_option sessions (inc k s) = open_session limit k (sessions s)"
    and dec_session: "ok s \<Longrightarrow> map_option sessions (dec k s) = close_session k (sessions s)"
    and inc_ok: "ok s \<Longrightarrow> inc k s = Some s' \<Longrightarrow> ok s'"
    and dec_ok: "ok s \<Longrightarrow> dec k s = Some s' \<Longrightarrow> ok s'"
begin

definition within :: "'s \<Rightarrow> bool" where
  "within s = (limit > 0 \<longrightarrow> (\<forall>k. int (count (sessions s) k) \<le> limit))"

lemma inc_Some: "ok s \<Longrightarrow> inc k s = Some s' \<Longrightarrow> sessions s' = add_mset k (sessions s)"
  using inc_session [of s k] by (auto simp: open_session_def split: if_splits)

lemma dec_Some: "ok s \<Longrightarrow> dec k s = Some s' \<Longrightarrow> sessions s' = sessions s - {#k#}"
  using dec_session [of s k] by (auto simp: close_session_def split: if_splits)

lemma dec_possible: "ok s \<Longrightarrow> k \<in># sessions s \<Longrightarrow> \<exists>s'. dec k s = Some s'"
  using dec_session [of s k] by (auto simp: close_session_def)

lemma inc_within: "ok s \<Longrightarrow> within s \<Longrightarrow> inc k s = Some s' \<Longrightarrow> within s'"
  using inc_session [of s k] by (auto simp: within_def open_session_def split: if_splits)

lemma dec_within: "ok s \<Longrightarrow> within s \<Longrightarrow> dec k s = Some s' \<Longrightarrow> within s'"
  using dec_Some [of s k s'] diff_le_self [of "count (sessions s) k" 1]
  by (auto simp: within_def) (meson diff_le_self of_nat_mono order_trans)

lemma inc_dec: "ok s \<Longrightarrow> inc k s = Some s' \<Longrightarrow> \<exists>t. dec k s' = Some t \<and> sessions t = sessions s"
  using inc_Some [of s k s'] inc_ok [of s k s'] dec_possible [of s' k] dec_Some [of s' k] by auto

end

definition counter_inc :: "ConfigModel res \<Rightarrow> string \<Rightarrow> counter \<Rightarrow> counter option" where
  "counter_inc cfg key c = (case Increase cfg key c of Ret (None, c') \<Rightarrow> Some c' | _ \<Rightarrow> None)"

definition counter_dec :: "string \<Rightarrow> counter \<Rightarrow> counter option" where
  "counter_dec key c = (case Decrease key c of (None, c') \<Rightarrow> Some c' | _ \<Rightarrow> None)"

definition limited :: "ConfigModel res \<Rightarrow> int \<Rightarrow> counter \<Rightarrow> bool" where
  "limited cfg l c = (counter_ok c \<and> limit_of cfg c = Some l \<and> 0 \<le> l)"

lemma count_store:
  "distinct (map fst xs) \<Longrightarrow> count (\<Sum>(k, v) \<leftarrow> xs. replicate_mset (nat v) k) key =
     (case map_of xs key of None \<Rightarrow> 0 | Some v \<Rightarrow> nat v)"
  by (induction xs) (auto simp: image_iff split: option.splits dest!: map_of_SomeD)

lemma count_counter_abs: "counter_ok c \<Longrightarrow> count (counter_abs c) k = nat (counted c k)"
  by (auto simp: counter_abs_def counted_def counter_ok_def count_store split: option.splits)

lemma counted_update [simp]:
  "counted (c\<lparr>ct_store := AList.update key v (ct_store c)\<rparr>) k = (if k = key then v else counted c k)"
  by (simp add: counted_def update_conv')

lemma update_twice: "AList.update k v (AList.update k w xs) = AList.update k v xs"
  by (induction xs) auto

lemma limit_of_store [simp]: "limit_of cfg (c\<lparr>ct_store := x\<rparr>) = limit_of cfg c"
  by (simp add: limit_of_def getMaxLimit_def)

lemma Increase_cases:
  assumes "limited cfg l c"
  shows "Increase cfg k c = Ret (if l > 0 \<and> counted c k \<ge> l
     then (Some (TypedErr KForbidden (''exceeding count limit: limit '' @ int_str l @ '', key '' @ k)), c)
     else (None, c\<lparr>ct_store := AList.update k (counted c k + 1) (ct_store c)\<rparr>))"
proof -
  have l: "getMaxLimit cfg c = Ret (Inr l)"
    using assms by (auto simp: limited_def limit_of_def split: go.splits sum.splits)
  show ?thesis
    using assms by (auto simp: Increase_def l counted_def Let_def limited_def update_twice split: option.splits)
qed

lemma counter_ok_update:
  "counter_ok c \<Longrightarrow> 0 \<le> v \<Longrightarrow> counter_ok (c\<lparr>ct_store := AList.update k v (ct_store c)\<rparr>)"
  by (auto simp: counter_ok_def distinct_update)

lemma counter_abs_update:
  assumes "counter_ok c" "0 \<le> v"
  shows "count (counter_abs (c\<lparr>ct_store := AList.update k v (ct_store c)\<rparr>)) k' =
     (if k' = k then nat v else count (counter_abs c) k')"
  using assms by (simp add: count_counter_abs counter_ok_update)

lemma Decrease_cases:
  "Decrease k c = (if counted c k \<ge> 1 then (None, c\<lparr>ct_store := AList.update k (counted c k - 1) (ct_store c)\<rparr>)
     else (Some (if map_of (ct_store c) k = None
       then TypedErr KNotFound (''failed to find the value from counter: key '' @ k)
       else TypedErr KInvalid (''failed to decrease value since the decreased value will be negative: key '' @ k @
         '', value '' @ int_str (counted c k))), c))"
  by (auto simp: Decrease_def counted_def split: option.splits)

lemma limited_update:
  "limited cfg l c \<Longrightarrow> 0 \<le> v \<Longrightarrow> limited cfg l (c\<lparr>ct_store := AList.update k v (ct_store c)\<rparr>)"
  by (simp add: limited_def counter_ok_update)

lemma counted_nonneg: "limited cfg l c \<Longrightarrow> 0 \<le> counted c k"
  by (simp add: limited_def counter_ok_def)

lemma limited_count: "limited cfg l c \<Longrightarrow> int (count (counter_abs c) k) = counted c k"
  using counted_nonneg [of cfg l c k] by (simp add: limited_def count_counter_abs)

interpretation vnc: session_counter "counter_inc cfg" counter_dec counter_abs "limited cfg l" l for cfg l
proof
  fix s k assume s: "limited cfg l s"
  then have ok: "counter_ok s" by (simp add: limited_def)
  show "map_option counter_abs (counter_inc cfg k s) = open_session l k (counter_abs s)"
    using counted_nonneg [OF s, of k]
    by (auto simp: counter_inc_def Increase_cases [OF s] open_session_def limited_count [OF s]
        counter_abs_update [OF ok] count_counter_abs [OF ok] multiset_eq_iff)
  show "map_option counter_abs (counter_dec k s) = close_session k (counter_abs s)"
    using counted_nonneg [OF s, of k]
    by (auto simp: counter_dec_def Decrease_cases close_session_def counter_abs_update [OF ok]
        count_counter_abs [OF ok] multiset_eq_iff count_greater_zero_iff [symmetric] simp del: count_greater_zero_iff)
next
  fix s k s' assume s: "limited cfg l s" and "counter_inc cfg k s = Some s'"
  then show "limited cfg l s'"
    using counted_nonneg [OF s, of k] by (auto simp: counter_inc_def Increase_cases [OF s] limited_update split: if_splits)
next
  fix s k s' assume s: "limited cfg l s" and "counter_dec k s = Some s'"
  then show "limited cfg l s'"
    by (auto simp: counter_dec_def Decrease_cases limited_update split: if_splits)
qed

lemma NewCounter_limited:
  "t \<in> {CounterTypeIP, CounterTypeAccount} \<Longrightarrow> cfg = Inr m \<Longrightarrow>
   l = (if t = CounterTypeIP then cm_SessionLimitPerIP m else cm_SessionLimitPerAccount m) \<Longrightarrow> 0 \<le> l \<Longrightarrow>
   limited cfg l (NewCounter p t) \<and> counter_abs (NewCounter p t) = {#}"
  by (auto simp: limited_def counter_ok_def NewCounter_def limit_of_def getMaxLimit_def getMaxLimitPerIP_def
      getMaxLimitPerAccount_def counted_def counter_abs_def)


definition sample_config :: ConfigModel where
  "sample_config = \<lparr>cm_Endpoint = ''adm-api:8081'', cm_Protocol = ''wss'', cm_HostName = ''vnc.example.org'',
     cm_SessionLimitPerIP = 1, cm_SessionLimitPerAccount = 1, cm_ReadLimitByte = 0, cm_DlIdleTimeoutMin = 0,
     cm_UlIdleTimeoutMin = 0, cm_AllowedOrigins = [''https://vnc.example.org'']\<rparr>"

lemma sample_counter:
  "limited (Inr sample_config) 1 (NewCounter [] CounterTypeIP) \<and> counter_abs (NewCounter [] CounterTypeIP) = {#}"
  by (rule NewCounter_limited [OF _ refl]) (simp_all add: sample_config_def)


end
