(* ===== verification/ArmForward.thy ===== *)
theory ArmForward
  imports ArmCounter
begin

text \<open>
  Forwarding of a VNC stream with an idle timeout (internal/wsproxy/forwarding.go,
  CopyBufferWithIdleTimeout), and the reader and writer over a web socket (internal/kubevirt/vnc.go).

  Each round of the loop starts a goroutine that reads once, and waits for what comes first: data, an
  error of the read, or the timeout.  A read may return data together with an error; the goroutine sends
  the error first, and the loop ends without the data.  The sequence of these rounds is the schedule of
  the model.  The loop may run for ever; the model ends with the schedule, in the state \<open>Copying\<close>.
\<close>

type_synonym bytes = "8 word list"

abbreviation EOF :: goerror where "EOF \<equiv> PlainErr ''EOF''"

datatype copy_round = GotData bytes | GotError bytes goerror | IdleTimeout

datatype copy_end = Copying | Done "goerror option"

text \<open>A writer answers with a count, which may be out of range, and an error.\<close>

type_synonym 'w writer = "bytes \<Rightarrow> 'w \<Rightarrow> (int \<times> goerror option) \<times> 'w"

text \<open>One write: the bytes that count as written, and the error that ends the loop.\<close>

definition write_result :: "int \<Rightarrow> int \<Rightarrow> goerror option \<Rightarrow> int \<times> goerror option" where
  "write_result nr nw0 ew0 = (let
     bad = (nw0 < 0 \<or> nr < nw0);
     nw = (if bad then 0 else nw0);
     ew = (if bad \<and> ew0 = None then Some (TypedErr KInvalid ''invalid write result'') else ew0)
   in (nw, case ew of Some e \<Rightarrow> Some e
           | None \<Rightarrow> if nr \<noteq> nw then Some (TypedErr KUnavailable ''short buffer error'') else None))"

fun copy_loop :: "'w writer \<Rightarrow> copy_round list \<Rightarrow> int \<Rightarrow> 'w \<Rightarrow> (int \<times> copy_end) \<times> 'w" where
  "copy_loop W [] written w = ((written, Copying), w)"
| "copy_loop W (IdleTimeout # rs) written w = ((written, Done (Some (TypedErr KTimeout ''idle timeout''))), w)"
| "copy_loop W (GotError _ er # rs) written w = ((written, Done (if er \<noteq> EOF then Some er else None)), w)"
| "copy_loop W (GotData buf # rs) written w =
     (if buf = [] then copy_loop W rs written w
      else case W buf w of ((nw0, ew0), w') \<Rightarrow>
        (case write_result (int (length buf)) nw0 ew0 of
           (nw, Some e) \<Rightarrow> ((written + nw, Done (Some e)), w')
         | (nw, None) \<Rightarrow> copy_loop W rs (written + nw) w'))"

text \<open>
  The entry: a source that can write itself, or a destination that can read, does the whole copy without
  the timeout.  The size of the buffer bounds the data of a round.
\<close>

definition buffer_size :: "int option \<Rightarrow> int" where
  "buffer_size limited_N = (let size = 32 * 1024 in
     case limited_N of Some n \<Rightarrow> if size > n then (if n < 1 then 1 else n) else size | None \<Rightarrow> size)"

definition CopyBufferWithIdleTimeout ::
  "('w \<Rightarrow> (int \<times> goerror option) \<times> 'w) option \<Rightarrow> ('w \<Rightarrow> (int \<times> goerror option) \<times> 'w) option \<Rightarrow>
   'w writer \<Rightarrow> copy_round list \<Rightarrow> 'w \<Rightarrow> (int \<times> copy_end) \<times> 'w" where
  "CopyBufferWithIdleTimeout WriteTo ReadFrom W schedule w = (case WriteTo of
     Some f \<Rightarrow> (case f w of ((n, e), w') \<Rightarrow> ((n, Done e), w'))
   | None \<Rightarrow> (case ReadFrom of
       Some f \<Rightarrow> (case f w of ((n, e), w') \<Rightarrow> ((n, Done e), w'))
     | None \<Rightarrow> copy_loop W schedule 0 w))"

section \<open>The web socket\<close>

definition WebSocketWriter_Write :: "(bytes \<Rightarrow> 'w \<Rightarrow> goerror option \<times> 'w) \<Rightarrow> 'w writer" where
  "WebSocketWriter_Write WriteMessage p w = (case WriteMessage p w of
     (Some err, w') \<Rightarrow> ((0, Some err), w') | (None, w') \<Rightarrow> ((int (length p), None), w'))"

section \<open>Lemmas\<close>

fun round_data :: "copy_round \<Rightarrow> bytes" where
  "round_data (GotData b) = b"
| "round_data (GotError b _) = b"
| "round_data IdleTimeout = []"

fun good_round :: "copy_round \<Rightarrow> bool" where
  "good_round (GotData _) = True"
| "good_round _ = False"

text \<open>A writer that appends to its state, and fails only with a count of zero.\<close>

definition appends :: "('w \<Rightarrow> bytes) \<Rightarrow> 'w writer \<Rightarrow> bool" where
  "appends out W = (\<forall>b w n e w'. W b w = ((n, e), w') \<longrightarrow>
     (case e of None \<Rightarrow> n = int (length b) \<and> out w' = out w @ b | Some _ \<Rightarrow> n = 0 \<and> out w' = out w))"

lemma appendsD:
  assumes "appends out W" "W b w = ((n, e), w')"
  shows "e = None \<Longrightarrow> n = int (length b) \<and> out w' = out w @ b" "e = Some err \<Longrightarrow> n = 0 \<and> out w' = out w"
  using assms unfolding appends_def by fastforce+

lemma write_result_good [simp]:
  "write_result (int k) (int k) None = (int k, None)" "0 \<le> nr \<Longrightarrow> write_result nr 0 (Some e) = (0, Some e)"
  by (simp_all add: write_result_def Let_def)

lemma WebSocketWriter_appends:
  "(\<And>p w e w'. WriteMessage p w = (e, w') \<Longrightarrow> out w' = (if e = None then out w @ p else out w)) \<Longrightarrow>
   appends out (WebSocketWriter_Write WriteMessage)"
  by (auto simp: appends_def WebSocketWriter_Write_def split: prod.splits option.splits)

text \<open>The output is a prefix of the input, in order, and its length is what is reported.\<close>

definition readable :: "copy_round list \<Rightarrow> bytes" where
  "readable rs = concat (map round_data (takeWhile good_round rs))"

lemma copy_loop_prefix:
  assumes "appends out W" "copy_loop W rs n w = ((n', en), w')"
  shows "\<exists>sent. out w' = out w @ sent \<and> n' = n + int (length sent) \<and> prefix sent (readable rs) \<and>
     (en \<in> {Copying, Done None} \<longrightarrow> sent = readable rs)"
  using assms
proof (induction W rs n w arbitrary: n' en w' rule: copy_loop.induct [case_names Nil Idle Error Data])
  case (Data W buf rs n w)
  note app = appendsD [OF Data.prems(1)]
  obtain nw0 ew0 w1 where w1: "W buf w = ((nw0, ew0), w1)" by (metis prod.collapse)
  show ?case
  proof (cases "buf = []")
    case True
    then show ?thesis using Data by (simp add: readable_def)
  next
    case buf: False
    show ?thesis
    proof (cases ew0)
      case None
      with app(1) [OF w1] have "nw0 = int (length buf)" and out: "out w1 = out w @ buf" by auto
      then have wr: "write_result (int (length buf)) nw0 ew0 = (int (length buf), None)" using None by simp
      then have "copy_loop W rs (n + int (length buf)) w1 = ((n', en), w')"
        using Data.prems(2) buf by (auto simp: w1)
      from Data.IH(2) [OF buf w1 [symmetric] refl wr [symmetric] refl Data.prems(1) this] obtain sent where
        "out w' = out w1 @ sent" "n' = n + int (length buf) + int (length sent)" "prefix sent (readable rs)"
        "en \<in> {Copying, Done None} \<longrightarrow> sent = readable rs" by blast
      then show ?thesis using out by (intro exI [of _ "buf @ sent"]) (simp add: readable_def)
    next
      case (Some e)
      then show ?thesis
        using app(2) [OF w1 Some] Data.prems(2) buf by (auto simp: w1)
    qed
  qed
qed (auto simp: readable_def)

end
