(* ===== verification/ArmBase.thy ===== *)
theory ArmBase
  imports NbSvc ArmCounter
begin

text \<open>
  The App Resource Manager: its servers and the calls it makes, its requests, authorisation (internal/opa)
  and its client of the deployment manager (internal/adm).

  A client of a cluster is represented by the kubeconfig it is made from.  Rest configurations, rate
  limits and the constructors of clients are parameters, which can fail.
\<close>

section \<open>Requests\<close>

datatype ArmRequest =
    GetVNCRequest string string string
  | RestartVMRequest string string string
  | StartVMRequest string string string
  | StopVMRequest string string string
  | ListAppEndpointsRequest string string
  | ListAppWorkloadsRequest string string
  | DeletePodRequest string string string

text \<open>The virtual machine requests carry the application, the cluster and the machine; the deletion of a
  pod the cluster, the namespace and the pod.\<close>

fun arm_request_type :: "ArmRequest \<Rightarrow> string" where
  "arm_request_type (GetVNCRequest _ _ _) = ''*resourcev2.GetVNCRequest''"
| "arm_request_type (RestartVMRequest _ _ _) = ''*resourcev2.RestartVirtualMachineRequest''"
| "arm_request_type (StartVMRequest _ _ _) = ''*resourcev2.StartVirtualMachineRequest''"
| "arm_request_type (StopVMRequest _ _ _) = ''*resourcev2.StopVirtualMachineRequest''"
| "arm_request_type (ListAppEndpointsRequest _ _) = ''*resourcev2.ListAppEndpointsRequest''"
| "arm_request_type (ListAppWorkloadsRequest _ _) = ''*resourcev2.ListAppWorkloadsRequest''"
| "arm_request_type (DeletePodRequest _ _ _) = ''*resourcev2.DeletePodRequest''"

section \<open>Resources of a cluster\<close>

record VirtualMachine =
  vm_Meta :: ObjectMeta
  vm_PrintableStatus :: string
  vm_Ready :: bool
  vm_Running :: "bool option"

record ContainerState =
  cs_Waiting :: "(string \<times> string) option"
  cs_Running :: bool
  cs_Terminated :: "(int \<times> string \<times> string) option"

record KContainerStatus =
  kcs_RestartCount :: int
  kcs_State :: ContainerState

record KPod =
  kp_Meta :: ObjectMeta
  kp_Containers :: "(string \<times> string) list"
  kp_Phase :: string
  kp_Conditions :: "(string \<times> string) list"
  kp_ContainerStatuses :: "KContainerStatus list"

record KService =
  sv_Meta :: ObjectMeta
  sv_Ports :: "(string \<times> int \<times> string) list"
  sv_Type :: string
  sv_LoadBalancers :: nat

text \<open>A backend is a service with the name of its port, or a resource.\<close>

record KIngress =
  in_Meta :: ObjectMeta
  in_Rules :: "(string \<times> string option list option) list"
  in_TLS :: bool
  in_LoadBalancers :: nat

section \<open>Calls\<close>

datatype owner_kind = ReplicaSet | DaemonSet | StatefulSet | SriovOperatorConfig

datatype arm_read =
    ReadConfig string | GetKubeConfigOf string | GetNamespaceOf string
  | ListVMs string string | ListKPods string string string | GetOwner string owner_kind string string
  | ListKServices string string | CountEndpoints string string string | ListKIngresses string string

datatype arm_write =
    StartVMOf string string string | StopVMOf string string string | RestartVMOf string string string
  | DeletePodOf string string string

datatype vnc_ev =
    IncIP string | DecIP string | IncAccount string | DecAccount string
  | OpenVNC string string string | Upgrade | SetReadLimit int | Forward int int | ErrorStatus int string

datatype arm_ev =
    ArmRead arm_read | ArmWrite arm_write | ArmToken | ArmLogout | ArmAuthorize string string string
  | ArmVNC vnc_ev

record 'w ArmKubeApi =
  ak_ListVMs :: "string \<Rightarrow> string \<Rightarrow> 'w \<Rightarrow> VirtualMachine list res \<times> 'w"
  ak_VMStart :: "string \<Rightarrow> string \<Rightarrow> string \<Rightarrow> 'w \<Rightarrow> goerror option \<times> 'w"
  ak_VMStop :: "string \<Rightarrow> string \<Rightarrow> string \<Rightarrow> 'w \<Rightarrow> goerror option \<times> 'w"
  ak_VMRestart :: "string \<Rightarrow> string \<Rightarrow> string \<Rightarrow> 'w \<Rightarrow> goerror option \<times> 'w"
  ak_ListPods :: "string \<Rightarrow> string \<Rightarrow> string \<Rightarrow> 'w \<Rightarrow> KPod list res \<times> 'w"
  ak_DeletePod :: "string \<Rightarrow> string \<Rightarrow> string \<Rightarrow> 'w \<Rightarrow> goerror option \<times> 'w"
  ak_GetOwner :: "string \<Rightarrow> owner_kind \<Rightarrow> string \<Rightarrow> string \<Rightarrow> 'w \<Rightarrow> ObjectMeta res \<times> 'w"
  ak_ListServices :: "string \<Rightarrow> string \<Rightarrow> 'w \<Rightarrow> KService list res \<times> 'w"
  ak_Endpoints :: "string \<Rightarrow> string \<Rightarrow> string \<Rightarrow> 'w \<Rightarrow> nat res \<times> 'w"
  ak_ListIngresses :: "string \<Rightarrow> string \<Rightarrow> 'w \<Rightarrow> KIngress list res \<times> 'w"

text \<open>The deployment manager, the vault and the policy agent.  The answer with the kubeconfig has a
  pointer, which may be nil.\<close>

record 'w ArmServices =
  as_GetM2MToken :: "ctx \<Rightarrow> 'w \<Rightarrow> string res \<times> 'w"
  as_Logout :: "ctx \<Rightarrow> 'w \<Rightarrow> goerror option \<times> 'w"
  as_GetKubeConfig :: "ctx \<Rightarrow> string \<Rightarrow> 'w \<Rightarrow> string option res \<times> 'w"
  as_GetAppNamespace :: "ctx \<Rightarrow> string \<Rightarrow> 'w \<Rightarrow> string res \<times> 'w"
  as_PostRule :: "string \<Rightarrow> string \<Rightarrow> string \<Rightarrow> 'w \<Rightarrow> OpaResponse res \<times> 'w"
  as_ReadConfig :: "string \<Rightarrow> 'w \<Rightarrow> ConfigModel res \<times> 'w"

record 'w ArmServer =
  am_kube :: "'w ArmKubeApi"
  am_srv :: "'w ArmServices"
  am_configPath :: string
  am_environ :: environ
  am_oidcURL :: string
  am_opaClient :: bool
  am_Status :: "goerror \<Rightarrow> goerror"
  am_marshal :: "ArmRequest \<Rightarrow> (string list) gomap \<Rightarrow> string res"
  am_opa_text :: "OpaResult \<Rightarrow> string"
  am_RESTConfig :: "string \<Rightarrow> goerror option"
  am_NewForConfig :: "string \<Rightarrow> goerror option"
  am_ParseFloat :: "string \<Rightarrow> unit res"
  am_AuthFromMD :: "NbCtx \<Rightarrow> string \<Rightarrow> string res"

type_synonym ('w, 'a) armio = "((arm_ev, 'w) world, 'a) handler"

section \<open>Authorisation\<close>

definition opaClientConfigured :: "environ \<Rightarrow> bool" where
  "opaClientConfigured en = (\<not> (Getenv en ''OIDC_SERVER_URL'' = [] \<or> \<not> IsOPAEnabled en))"

definition armActiveProjectID :: "NbCtx \<Rightarrow> string res" where
  "armActiveProjectID x = (case x_md x of
     None \<Rightarrow> Inl (TypedErr KInvalid ''unable to extract metadata from ctx'')
   | Some md \<Rightarrow>
       (case (case map_of md ''activeprojectid'' of None \<Rightarrow> [] | Some ids \<Rightarrow> ids) of
          [] \<Rightarrow> Inr []
        | [i] \<Rightarrow> Inr i
        | _ \<Rightarrow> Inl (TypedErr KInvalid ''multiple ActiveProjectIDs are set - it should be one'')))"

text \<open>An answer of the agent other than 200 has no result, and reading it panics.\<close>

definition IsAuthorized :: "'w ArmServer \<Rightarrow> NbCtx \<Rightarrow> ArmRequest \<Rightarrow> ('w, unit) armio" where
  "IsAuthorized s x request =
     (if \<not> am_opaClient s then gret ()
      else case x_md x of
             None \<Rightarrow> gfail (TypedErr KInvalid ''unable to extract metadata from ctx'')
           | Some md \<Rightarrow>
               (case am_marshal s request md of
                  Inl err \<Rightarrow> gfail (TypedErr KInvalid (''cannot marshal object to JSON '' @ err_msg err))
                | Inr body \<Rightarrow>
                    (let requestPackage = before_last_dot (arm_request_type request);
                         requestName = after_last_dot (arm_request_type request);
                         denied = (\<lambda>r. ''access denied by OPA rule '' @ requestName @ '' '' @ am_opa_text s r)
                     in gtry (gmap_err (\<lambda>err. TypedErr KInvalid (''error on OPA Post. '' @ err_msg err))
                          (glift (call (ArmAuthorize requestPackage requestName body)
                             (as_PostRule (am_srv s) requestPackage requestName body)))) (\<lambda>resp.
                        case opa_JSON200 resp of
                          None \<Rightarrow> gpanic
                        | Some OpaOther \<Rightarrow> gfail (TypedErr KInvalid (denied OpaOther))
                        | Some OpaObject \<Rightarrow> gfail (TypedErr KForbidden (denied OpaObject))
                        | Some (OpaBool b) \<Rightarrow>
                            (if b then gret () else gfail (TypedErr KForbidden ''access denied''))))))"

section \<open>The client of the deployment manager\<close>

definition armVault :: "'w ArmServer \<Rightarrow> (arm_ev, 'w) world VaultAuth" where
  "armVault s = \<lparr>
     va_GetM2MToken = (\<lambda>c. call ArmToken (as_GetM2MToken (am_srv s) c)),
     va_Logout = (\<lambda>c. call ArmLogout (as_Logout (am_srv s) c))\<rparr>"

definition admCtxWithToken :: "'w ArmServer \<Rightarrow> ctx \<Rightarrow> ('w, ctx) armio" where
  "admCtxWithToken s c = gtry (glift (va_GetM2MToken (armVault s) c)) (\<lambda>token.
     if token = [] then gfail (PlainErr ''token is empty'')
     else (let outCtx = c @ [(''authorization'', ''Bearer '' @ token)]
           in gtry (gcheck (va_Logout (armVault s) outCtx)) (\<lambda>_. gret outCtx)))"

definition admAddToOutgoingContext :: "'w ArmServer \<Rightarrow> NbCtx \<Rightarrow> ('w, ctx) armio" where
  "admAddToOutgoingContext s x = (case armActiveProjectID x of
     Inl err \<Rightarrow> gfail err
   | Inr activeProjectID \<Rightarrow>
       gtry (admCtxWithToken s (x_out x)) (\<lambda>c. gret (c @ [(''ActiveProjectID'', activeProjectID)])))"

definition admGetAppNamespace :: "'w ArmServer \<Rightarrow> NbCtx \<Rightarrow> string \<Rightarrow> ('w, string) armio" where
  "admGetAppNamespace s x appID = gtry (admAddToOutgoingContext s x) (\<lambda>c.
     glift (call (ArmRead (GetNamespaceOf appID)) (as_GetAppNamespace (am_srv s) c appID)))"

definition admGetKubeConfig :: "'w ArmServer \<Rightarrow> NbCtx \<Rightarrow> string \<Rightarrow> ('w, string) armio" where
  "admGetKubeConfig s x clusterID = gtry (admAddToOutgoingContext s x) (\<lambda>c.
     gtry (glift (call (ArmRead (GetKubeConfigOf clusterID)) (as_GetKubeConfig (am_srv s) c clusterID))) (\<lambda>info.
     case info of None \<Rightarrow> gpanic | Some kubeConfig \<Rightarrow> gret kubeConfig))"

text \<open>A client of a cluster, with the rate limits of the environment.\<close>

definition clusterClient :: "'w ArmServer \<Rightarrow> NbCtx \<Rightarrow> string \<Rightarrow> ('w, string) armio" where
  "clusterClient s x clusterID = gtry (admGetKubeConfig s x clusterID) (\<lambda>kubeConfig.
     case am_RESTConfig s kubeConfig of
       Some err \<Rightarrow> gfail err
     | None \<Rightarrow> (case GetRateLimiterParams (am_ParseFloat s) (am_environ s) of
         Inl err \<Rightarrow> gfail err
       | Inr _ \<Rightarrow> (case am_NewForConfig s kubeConfig of Some err \<Rightarrow> gfail err | None \<Rightarrow> gret kubeConfig)))"

definition readConfig :: "'w ArmServer \<Rightarrow> ('w, ConfigModel) armio" where
  "readConfig s = glift (call (ArmRead (ReadConfig (am_configPath s))) (as_ReadConfig (am_srv s) (am_configPath s)))"

end
