(* ===== verification/ArmKube.thy ===== *)
theory ArmKube
  imports ArmBase
begin

text \<open>
  The Kubernetes manager of the App Resource Manager (internal/kubernetes): the pods and the endpoints of
  an application on a cluster, and the deletion of a pod.

  A pod belongs to an application if it, or a controller above it, carries the annotation of the
  application.  The code follows the controllers without a bound; the model bounds the depth, and panics
  beyond it, as an endless chain of controllers exhausts the stack.
\<close>

section \<open>Results\<close>

datatype EndpointState = EndpointUnspecified | EndpointReady | EndpointNotReady

record ArmPort =
  pt_Name :: string
  pt_Value :: int
  pt_Protocol :: string
  pt_ServiceProxyUrl :: string

record AppEndpoint =
  ae_Id :: string
  ae_Name :: string
  ae_Ports :: "ArmPort list"
  ae_Fqdns :: "string list"
  ae_Status :: EndpointState

datatype PodState = PodUnspecified | PodPendingState | PodRunningState | PodSucceededState | PodFailedState

datatype ContainerStateMsg =
    StateUnset | StateWaiting string string | StateRunning | StateTerminated int string string

record ContainerMsg =
  cn_Name :: string
  cn_ImageName :: string
  cn_RestartCount :: int
  cn_Status :: ContainerStateMsg

datatype VMStatusState =
    VMUnspecified | VMStopped | VMProvisioning | VMStarting | VMRunningState | VMPaused | VMStopping
  | VMTerminating | VMCrashLoop | VMMigrating | VMUnschedulable | VMErrImagePull | VMImagePullBackOff
  | VMPvcNotFound | VMDataVolumeError | VMWaitingForVolume

datatype AdminState = AdminUnspecified | AdminUp | AdminDown

datatype Workload = PodWorkload PodState "ContainerMsg list" | VMWorkload VMStatusState AdminState

record AppWorkload =
  aw_Id :: string
  aw_Name :: string
  aw_Namespace :: string
  aw_CreateTime :: int
  aw_Ready :: bool
  aw_Workload :: Workload

section \<open>Conversions\<close>

definition convertPodPhase :: "string \<Rightarrow> PodState" where
  "convertPodPhase phase =
     (if phase = ''Running'' then PodRunningState else if phase = ''Failed'' then PodFailedState
      else if phase = ''Pending'' then PodPendingState else if phase = ''Succeeded'' then PodSucceededState
      else PodUnspecified)"

definition convertContainerStatus :: "ContainerState \<Rightarrow> ContainerStateMsg" where
  "convertContainerStatus st = (case cs_Waiting st of
     Some (reason, message) \<Rightarrow> StateWaiting reason message
   | None \<Rightarrow> if cs_Running st then StateRunning
       else (case cs_Terminated st of
               Some (exitCode, reason, message) \<Rightarrow> StateTerminated exitCode reason message
             | None \<Rightarrow> StateUnset))"

record serviceProxyURL =
  sp_domainName :: string
  sp_projectID :: string
  sp_clusterID :: string
  sp_serviceNamespace :: string
  sp_serviceName :: string
  sp_servicePort :: string
  sp_serviceProtocol :: string

definition createServiceProxyURL :: "serviceProxyURL \<Rightarrow> string" where
  "createServiceProxyURL u = sp_domainName u @ ''/app-service-proxy-index.html?project='' @ sp_projectID u
     @ ''&cluster='' @ sp_clusterID u @ ''&namespace='' @ sp_serviceNamespace u @ ''&service=''
     @ (if sp_serviceProtocol u = [] then [] else sp_serviceProtocol u @ '':'')
     @ sp_serviceName u @ '':'' @ sp_servicePort u"

section \<open>Pods\<close>

abbreviation AnnotationKeyForAppID :: string where "AnnotationKeyForAppID \<equiv> ''meta.helm.sh/release-name''"

definition annotations_of :: "ObjectMeta \<Rightarrow> labels" where
  "annotations_of m = (case om_Annotations m of None \<Rightarrow> [] | Some a \<Rightarrow> a)"

definition owner_kind_of :: "string \<Rightarrow> owner_kind option" where
  "owner_kind_of k =
     (if k = ''ReplicaSet'' then Some ReplicaSet else if k = ''DaemonSet'' then Some DaemonSet
      else if k = ''StatefulSet'' then Some StatefulSet
      else if k = ''SriovOperatorConfig'' then Some SriovOperatorConfig else None)"

text \<open>The four functions that read an owner differ in the kind they read only.\<close>

fun checkOwnerAnnotations ::
  "nat \<Rightarrow> 'w ArmServer \<Rightarrow> string \<Rightarrow> ObjectMeta \<Rightarrow> string \<Rightarrow> string \<Rightarrow> ('w, bool) armio" where
  "checkOwnerAnnotations 0 s kc meta namespace appID = gpanic"
| "checkOwnerAnnotations (Suc depth) s kc meta namespace appID =
     (if map_of (annotations_of meta) AnnotationKeyForAppID = Some appID then gret True
      else case GetControllerOf meta of
        None \<Rightarrow> gret False
      | Some ownerRef \<Rightarrow> (case owner_kind_of (ow_Kind ownerRef) of
          None \<Rightarrow> gret False
        | Some kind \<Rightarrow>
            gtry (gmap_err K8sToTypedError (glift (call (ArmRead (GetOwner kc kind namespace (ow_Name ownerRef)))
              (ak_GetOwner (am_kube s) kc kind namespace (ow_Name ownerRef))))) (\<lambda>owner.
            checkOwnerAnnotations depth s kc owner namespace appID)))"

definition container_msg :: "KPod \<Rightarrow> nat \<Rightarrow> string \<times> string \<Rightarrow> ContainerMsg" where
  "container_msg pod index c = (let
     base = \<lparr>cn_Name = fst c, cn_ImageName = snd c, cn_RestartCount = 0, cn_Status = StateUnset\<rparr>
   in if index < length (kp_ContainerStatuses pod)
      then (let st = kp_ContainerStatuses pod ! index in
            base\<lparr>cn_RestartCount := kcs_RestartCount st, cn_Status := convertContainerStatus (kcs_State st)\<rparr>)
      else base)"

definition pod_ready :: "(string \<times> string) list \<Rightarrow> bool" where
  "pod_ready conds = fold (\<lambda>(t, st) r.
     if t = ''Ready'' \<and> st = ConditionTrue then True
     else if t = ''Ready'' \<and> st = ConditionFalse then False else r) conds False"

definition pod_workload :: "KPod \<Rightarrow> AppWorkload" where
  "pod_workload pod = \<lparr>aw_Id = om_UID (kp_Meta pod), aw_Name = om_Name (kp_Meta pod),
     aw_Namespace = om_Namespace (kp_Meta pod), aw_CreateTime = om_CreationTimestamp (kp_Meta pod),
     aw_Ready = pod_ready (kp_Conditions pod),
     aw_Workload = PodWorkload (convertPodPhase (kp_Phase pod))
       (map (\<lambda>(i, c). container_msg pod i c) (zip [0..<length (kp_Containers pod)] (kp_Containers pod)))\<rparr>"

text \<open>The pods of virtual machines are left out by the selector.\<close>

definition owned_pods :: "nat \<Rightarrow> 'w ArmServer \<Rightarrow> string \<Rightarrow> string \<Rightarrow> KPod list \<Rightarrow> ('w, KPod list) armio" where
  "owned_pods depth s kc appID pods = gfold (\<lambda>pod acc.
     gtry (checkOwnerAnnotations depth s kc (kp_Meta pod) (om_Namespace (kp_Meta pod)) appID) (\<lambda>isOwned.
     gret (if isOwned then acc @ [pod] else acc))) pods []"

definition GetPodWorkloads ::
  "nat \<Rightarrow> 'w ArmServer \<Rightarrow> NbCtx \<Rightarrow> string \<Rightarrow> string \<Rightarrow> ('w, AppWorkload list) armio" where
  "GetPodWorkloads depth s x appID clusterID =
     gtry (clusterClient s x clusterID) (\<lambda>kc.
     gtry (clusterClient s x clusterID) (\<lambda>dyn.
     gtry (admGetAppNamespace s x appID) (\<lambda>appNamespace.
     let sel = ''kubevirt.io!=virt-launcher'' in
     gtry (gmap_err K8sToTypedError (glift (call (ArmRead (ListKPods kc appNamespace sel))
       (ak_ListPods (am_kube s) kc appNamespace sel)))) (\<lambda>pods.
     gtry (owned_pods depth s kc appID pods) (\<lambda>appPodList.
     gret (map pod_workload appPodList))))))"

definition DeletePod :: "'w ArmServer \<Rightarrow> NbCtx \<Rightarrow> string \<Rightarrow> string \<Rightarrow> string \<Rightarrow> ('w, unit) armio" where
  "DeletePod s x clusterID namespace podName = gtry (clusterClient s x clusterID) (\<lambda>kc.
     gmap_err K8sToTypedError (gcheck (call (ArmWrite (DeletePodOf kc namespace podName))
       (ak_DeletePod (am_kube s) kc namespace podName))))"

section \<open>Endpoints\<close>

text \<open>One entry of the annotation with the proxied ports: a port, or a protocol and a port.\<close>

definition proxy_entry ::
  "serviceProxyURL \<Rightarrow> int \<Rightarrow> string \<Rightarrow> string \<Rightarrow> string res" where
  "proxy_entry base port entry url = (case Split (TrimSpace entry) '':'' of
     [protocol, servicePort] \<Rightarrow> (case ParseIntErr 32 servicePort of
        Inl err \<Rightarrow> Inl err
      | Inr p \<Rightarrow> Inr (if p = port
          then createServiceProxyURL (base\<lparr>sp_servicePort := servicePort, sp_serviceProtocol := protocol\<rparr>) else url))
   | [servicePort] \<Rightarrow> (case ParseIntErr 32 servicePort of
        Inl err \<Rightarrow> Inl err
      | Inr p \<Rightarrow> Inr (if p = port
          then createServiceProxyURL (base\<lparr>sp_servicePort := servicePort, sp_serviceProtocol := []\<rparr>) else url))
   | _ \<Rightarrow> Inr url)"

fun proxy_entries :: "serviceProxyURL \<Rightarrow> int \<Rightarrow> string list \<Rightarrow> string \<Rightarrow> string res" where
  "proxy_entries base port [] url = Inr url"
| "proxy_entries base port (e # es) url = (case proxy_entry base port e url of
     Inl err \<Rightarrow> Inl err | Inr url' \<Rightarrow> proxy_entries base port es url')"

fun service_ports :: "serviceProxyURL \<Rightarrow> string option \<Rightarrow> (string \<times> int \<times> string) list \<Rightarrow> ArmPort list res" where
  "service_ports base annotation [] = Inr []"
| "service_ports base annotation ((name, port, protocol) # ps) =
     (case (case annotation of None \<Rightarrow> Inr [] | Some a \<Rightarrow> proxy_entries base port (Split a '','') []) of
        Inl err \<Rightarrow> Inl err
      | Inr url \<Rightarrow> (case service_ports base annotation ps of
          Inl err \<Rightarrow> Inl err
        | Inr rest \<Rightarrow> Inr (\<lparr>pt_Name = name, pt_Value = port, pt_Protocol = protocol, pt_ServiceProxyUrl = url\<rparr> # rest)))"

definition getServicePorts :: "environ \<Rightarrow> KService \<Rightarrow> string \<Rightarrow> string \<Rightarrow> ArmPort list res" where
  "getServicePorts en service projectID clusterID = service_ports
     \<lparr>sp_domainName = Getenv en ''SERVICE_PROXY_DOMAIN_NAME'', sp_projectID = projectID, sp_clusterID = clusterID,
      sp_serviceNamespace = om_Namespace (sv_Meta service), sp_serviceName = om_Name (sv_Meta service),
      sp_servicePort = [], sp_serviceProtocol = []\<rparr>
     (map_of (annotations_of (sv_Meta service)) ''service-proxy.app.orchestrator.io/ports'') (sv_Ports service)"

abbreviation ExternalDNSAnnotation :: string where
  "ExternalDNSAnnotation \<equiv> ''external-dns.alpha.kubernetes.io/hostname''"

definition service_state :: "nat \<Rightarrow> KService \<Rightarrow> EndpointState" where
  "service_state subsets service =
     (if subsets = 0 then EndpointNotReady
      else if sv_Type service = ''LoadBalancer'' then
        (if sv_LoadBalancers service = 0 then EndpointNotReady else EndpointReady)
      else EndpointReady)"

definition service_endpoint ::
  "'w ArmServer \<Rightarrow> string \<Rightarrow> string \<Rightarrow> string \<Rightarrow> KService \<Rightarrow> ('w, AppEndpoint) armio" where
  "service_endpoint s kc projectID clusterID service = (let m = sv_Meta service in
     gtry (gpure (Ret (getServicePorts (am_environ s) service projectID clusterID))) (\<lambda>ports.
     gtry (gmap_err K8sToTypedError (glift (call (ArmRead (CountEndpoints kc (om_Namespace m) (om_Name m)))
       (ak_Endpoints (am_kube s) kc (om_Namespace m) (om_Name m))))) (\<lambda>subsets.
     gret \<lparr>ae_Id = om_UID m, ae_Name = om_Name m, ae_Ports = ports,
       ae_Fqdns = (case map_of (annotations_of m) ExternalDNSAnnotation of None \<Rightarrow> [] | Some h \<Rightarrow> Split h '',''),
       ae_Status = service_state subsets service\<rparr>)))"

definition getServiceAppEndpointsV2 ::
  "'w ArmServer \<Rightarrow> string \<Rightarrow> string \<Rightarrow> string \<Rightarrow> string \<Rightarrow> string \<Rightarrow> ('w, AppEndpoint list) armio" where
  "getServiceAppEndpointsV2 s kc projectID appID appNamespace clusterID =
     gtry (gmap_err K8sToTypedError (glift (call (ArmRead (ListKServices kc appNamespace))
       (ak_ListServices (am_kube s) kc appNamespace)))) (\<lambda>services.
     gfold (\<lambda>service acc.
       if label_get (annotations_of (sv_Meta service)) AnnotationKeyForAppID = appID
       then gtry (service_endpoint s kc projectID clusterID service) (\<lambda>e. gret (acc @ [e]))
       else gret acc) services [])"

definition ingress_fqdns :: "KIngress \<Rightarrow> string list" where
  "ingress_fqdns ingress = (let an = annotations_of (in_Meta ingress) in
     case map_of an ''dns.alpha.kubernetes.io/ingress-hostname-source'' of
       None \<Rightarrow> []
     | Some hostnameSource \<Rightarrow>
         if hostnameSource = ''annotation-only'' then Split (label_get an ExternalDNSAnnotation) '',''
         else if hostnameSource = ''defined-hosts-only'' then
           (case in_Rules ingress of [] \<Rightarrow> [] | (host, _) # _ \<Rightarrow> [host])
         else [])"

text \<open>A path whose backend is not a service panics.\<close>

definition ingress_port :: "KIngress \<Rightarrow> string option \<Rightarrow> ArmPort go" where
  "ingress_port ingress backend = (case backend of
     None \<Rightarrow> Panicked
   | Some name \<Rightarrow> Ret (if in_TLS ingress
       then \<lparr>pt_Name = name, pt_Value = 443, pt_Protocol = ''HTTPS'', pt_ServiceProxyUrl = []\<rparr>
       else \<lparr>pt_Name = name, pt_Value = 80, pt_Protocol = ''HTTP'', pt_ServiceProxyUrl = []\<rparr>))"

definition ingress_endpoint :: "KIngress \<Rightarrow> AppEndpoint go" where
  "ingress_endpoint ingress = go_bind
     (map_go (ingress_port ingress) (concat (map (\<lambda>(_, http). case http of None \<Rightarrow> [] | Some paths \<Rightarrow> paths)
        (in_Rules ingress)))) (\<lambda>ports.
     Ret \<lparr>ae_Id = om_UID (in_Meta ingress), ae_Name = om_Name (in_Meta ingress), ae_Ports = ports,
       ae_Fqdns = ingress_fqdns ingress,
       ae_Status = (if in_LoadBalancers ingress = 0 then EndpointNotReady else EndpointReady)\<rparr>)"

definition getIngressAppEndpointsV2 ::
  "'w ArmServer \<Rightarrow> string \<Rightarrow> string \<Rightarrow> string \<Rightarrow> ('w, AppEndpoint list) armio" where
  "getIngressAppEndpointsV2 s kc appID appNamespace =
     gtry (gmap_err K8sToTypedError (glift (call (ArmRead (ListKIngresses kc appNamespace))
       (ak_ListIngresses (am_kube s) kc appNamespace)))) (\<lambda>ingresses.
     ggo (map_go ingress_endpoint
       (filter (\<lambda>i. label_get (annotations_of (in_Meta i)) AnnotationKeyForAppID = appID) ingresses)))"

text \<open>A request without metadata has the project \<open>nil\<close>.\<close>

definition project_or_nil :: "NbCtx \<Rightarrow> string" where
  "project_or_nil x = (case armActiveProjectID x of Inl _ \<Rightarrow> ''nil'' | Inr i \<Rightarrow> i)"

definition GetAppEndpointsV2 ::
  "'w ArmServer \<Rightarrow> NbCtx \<Rightarrow> string \<Rightarrow> string \<Rightarrow> ('w, AppEndpoint list) armio" where
  "GetAppEndpointsV2 s x appID clusterID =
     gtry (clusterClient s x clusterID) (\<lambda>kc.
     gtry (admGetAppNamespace s x appID) (\<lambda>appNamespace.
     gtry (getServiceAppEndpointsV2 s kc (project_or_nil x) appID appNamespace clusterID) (\<lambda>serviceEndpoints.
     gtry (getIngressAppEndpointsV2 s kc appID appNamespace) (\<lambda>ingressEndpoints.
     gret (serviceEndpoints @ ingressEndpoints)))))"

end
