(* ===== verification/ArmVirt.thy ===== *)
theory ArmVirt
  imports ArmKube "HOL-Library.List_Lexorder" "HOL-Library.Char_ord"
begin

text \<open>
  The KubeVirt manager of the App Resource Manager (internal/kubevirt): the virtual machines of an
  application, starting, stopping and restarting them, and the address of their consoles.
\<close>

section \<open>States of virtual machines\<close>

definition convertVMStatusV2 :: "string \<Rightarrow> VMStatusState" where
  "convertVMStatusV2 printableStatus =
     (if printableStatus = ''Stopped'' then VMStopped
      else if printableStatus = ''Provisioning'' then VMProvisioning
      else if printableStatus = ''Starting'' then VMStarting
      else if printableStatus = ''Running'' then VMRunningState
      else if printableStatus = ''Paused'' then VMPaused
      else if printableStatus = ''Stopping'' then VMStopping
      else if printableStatus = ''Terminating'' then VMTerminating
      else if printableStatus = ''CrashLoopBackOff'' then VMCrashLoop
      else if printableStatus = ''Migrating'' then VMMigrating
      else if printableStatus = ''Unknown'' then VMUnspecified
      else if printableStatus = ''ErrorUnschedulable'' then VMUnschedulable
      else if printableStatus = ''ErrImagePull'' then VMErrImagePull
      else if printableStatus = ''ImagePullBackOff'' then VMImagePullBackOff
      else if printableStatus = ''ErrorPvcNotFound'' then VMPvcNotFound
      else if printableStatus = ''DataVolumeError'' then VMDataVolumeError
      else if printableStatus = ''WaitingForVolumeBinding'' then VMWaitingForVolume
      else VMUnspecified)"

definition convertAdminStatusV2 :: "bool option \<Rightarrow> AdminState" where
  "convertAdminStatusV2 runningStatus = (case runningStatus of
     None \<Rightarrow> AdminUnspecified | Some True \<Rightarrow> AdminUp | Some False \<Rightarrow> AdminDown)"

section \<open>The virtual machines of an application\<close>

definition getKubevirtVirtualMachineList ::
  "'w ArmServer \<Rightarrow> NbCtx \<Rightarrow> string \<Rightarrow> string \<Rightarrow> ('w, VirtualMachine list) armio" where
  "getKubevirtVirtualMachineList s x client appID =
     gtry (admGetAppNamespace s x appID) (\<lambda>appNamespace.
     gtry (gmap_err K8sToTypedError (glift (call (ArmRead (ListVMs client appNamespace))
       (ak_ListVMs (am_kube s) client appNamespace)))) (\<lambda>vmList.
     gret (filter (\<lambda>vm. label_get (annotations_of (vm_Meta vm)) AnnotationKeyForAppID = appID) vmList)))"

definition getKubevirtVirtualMachine ::
  "'w ArmServer \<Rightarrow> NbCtx \<Rightarrow> string \<Rightarrow> string \<Rightarrow> string \<Rightarrow> ('w, VirtualMachine) armio" where
  "getKubevirtVirtualMachine s x client appID vmID =
     gtry (getKubevirtVirtualMachineList s x client appID) (\<lambda>vmList.
     case find (\<lambda>vm. om_UID (vm_Meta vm) = vmID) vmList of
       Some vm \<Rightarrow> gret vm
     | None \<Rightarrow> gfail (TypedErr KNotFound (''failed to get VM (appID '' @ appID @ '', vmID '' @ vmID @ '')'')))"

definition vm_workload :: "VirtualMachine \<Rightarrow> AppWorkload" where
  "vm_workload vm = \<lparr>aw_Id = om_UID (vm_Meta vm), aw_Name = om_Name (vm_Meta vm),
     aw_Namespace = om_Namespace (vm_Meta vm), aw_CreateTime = om_CreationTimestamp (vm_Meta vm),
     aw_Ready = vm_Ready vm,
     aw_Workload = VMWorkload (convertVMStatusV2 (vm_PrintableStatus vm)) (convertAdminStatusV2 (vm_Running vm))\<rparr>"

text \<open>The workloads are sorted by their identifiers, byte by byte; identifiers are unique, so that the order of equal
  ones, which the code leaves open, does not matter.\<close>

definition by_id :: "AppWorkload list \<Rightarrow> AppWorkload list" where
  "by_id ws = sort_key aw_Id ws"

definition GetVMWorkloads ::
  "'w ArmServer \<Rightarrow> NbCtx \<Rightarrow> string \<Rightarrow> string \<Rightarrow> ('w, AppWorkload list) armio" where
  "GetVMWorkloads s x appID clusterID =
     gtry (clusterClient s x clusterID) (\<lambda>client.
     gtry (getKubevirtVirtualMachineList s x client appID) (\<lambda>vmList.
     gret (by_id (map vm_workload vmList))))"

text \<open>The three operations on a machine differ in the call they make only.\<close>

definition on_vm ::
  "'w ArmServer \<Rightarrow> NbCtx \<Rightarrow> string \<Rightarrow> string \<Rightarrow> string \<Rightarrow>
   (string \<Rightarrow> string \<Rightarrow> string \<Rightarrow> ((arm_ev, 'w) world, goerror option) state) \<Rightarrow> ('w, unit) armio" where
  "on_vm s x appID clusterID vmID op =
     gtry (clusterClient s x clusterID) (\<lambda>client.
     gtry (getKubevirtVirtualMachine s x client appID vmID) (\<lambda>vm.
     gmap_err K8sToTypedError (gcheck (op client (om_Namespace (vm_Meta vm)) (om_Name (vm_Meta vm))))))"

definition StartVM :: "'w ArmServer \<Rightarrow> NbCtx \<Rightarrow> string \<Rightarrow> string \<Rightarrow> string \<Rightarrow> ('w, unit) armio" where
  "StartVM s x appID clusterID vmID = on_vm s x appID clusterID vmID (\<lambda>client namespace name.
     call (ArmWrite (StartVMOf client namespace name)) (ak_VMStart (am_kube s) client namespace name))"

definition StopVM :: "'w ArmServer \<Rightarrow> NbCtx \<Rightarrow> string \<Rightarrow> string \<Rightarrow> string \<Rightarrow> ('w, unit) armio" where
  "StopVM s x appID clusterID vmID = on_vm s x appID clusterID vmID (\<lambda>client namespace name.
     call (ArmWrite (StopVMOf client namespace name)) (ak_VMStop (am_kube s) client namespace name))"

definition RestartVM :: "'w ArmServer \<Rightarrow> NbCtx \<Rightarrow> string \<Rightarrow> string \<Rightarrow> string \<Rightarrow> ('w, unit) armio" where
  "RestartVM s x appID clusterID vmID = on_vm s x appID clusterID vmID (\<lambda>client namespace name.
     call (ArmWrite (RestartVMOf client namespace name)) (ak_VMRestart (am_kube s) client namespace name))"

section \<open>Console addresses\<close>

abbreviation VNCWebSocketPrefix :: string where "VNCWebSocketPrefix \<equiv> ''vnc''"

text \<open>The address is the same with and without a token; the token is only looked for.\<close>

definition vnc_address :: "ConfigModel \<Rightarrow> string \<Rightarrow> string \<Rightarrow> string \<Rightarrow> string \<Rightarrow> string" where
  "vnc_address cfg projectID appID clusterID vmID =
     cm_Protocol cfg @ ''://'' @ cm_HostName cfg @ ''/'' @ VNCWebSocketPrefix @ ''/'' @ projectID @ ''/'' @ appID
       @ ''/'' @ clusterID @ ''/'' @ vmID"

definition GetVNCAddress ::
  "'w ArmServer \<Rightarrow> NbCtx \<Rightarrow> string \<Rightarrow> string \<Rightarrow> string \<Rightarrow> ('w, string) armio" where
  "GetVNCAddress s x appID clusterID vmID =
     gtry (readConfig s) (\<lambda>cfgModel.
     gtry (clusterClient s x clusterID) (\<lambda>client.
     gtry (getKubevirtVirtualMachine s x client appID vmID) (\<lambda>_.
     gtry (if am_oidcURL s = [] then gret [] else gpure (Ret (am_AuthFromMD s x ''Bearer''))) (\<lambda>_.
     gret (vnc_address cfgModel (project_or_nil x) appID clusterID vmID)))))"

record vncPath =
  vp_path :: string
  vp_appID :: string
  vp_clusterID :: string
  vp_vmID :: string
  vp_projectID :: string

definition newVNCPath :: "string \<Rightarrow> vncPath res" where
  "newVNCPath path = (case Split path ''/'' of
     [root, vnc, projectID, appID, clusterID, vmID] \<Rightarrow>
       if root \<noteq> [] \<or> vnc \<noteq> VNCWebSocketPrefix then Inl (TypedErr KInvalid (''wrong VNC path format: path-'' @ path))
       else Inr \<lparr>vp_path = path, vp_appID = appID, vp_clusterID = clusterID, vp_vmID = vmID, vp_projectID = projectID\<rparr>
   | _ \<Rightarrow> Inl (TypedErr KInvalid (''wrong VNC path format: path-'' @ path)))"

text \<open>The path of an address that was given out is read back, if no part of it has a slash.\<close>

definition vnc_path_of :: "string \<Rightarrow> string \<Rightarrow> string \<Rightarrow> string \<Rightarrow> string" where
  "vnc_path_of projectID appID clusterID vmID =
     ''/'' @ VNCWebSocketPrefix @ ''/'' @ projectID @ ''/'' @ appID @ ''/'' @ clusterID @ ''/'' @ vmID"

lemma vnc_address_path:
  "vnc_address cfg projectID appID clusterID vmID =
     cm_Protocol cfg @ ''://'' @ cm_HostName cfg @ vnc_path_of projectID appID clusterID vmID"
  by (simp add: vnc_address_def vnc_path_of_def)

lemma newVNCPath_of:
  assumes "CHR ''/'' \<notin> set projectID" "CHR ''/'' \<notin> set appID" "CHR ''/'' \<notin> set clusterID" "CHR ''/'' \<notin> set vmID"
  shows "newVNCPath (vnc_path_of projectID appID clusterID vmID) =
    Inr \<lparr>vp_path = vnc_path_of projectID appID clusterID vmID, vp_appID = appID, vp_clusterID = clusterID,
      vp_vmID = vmID, vp_projectID = projectID\<rparr>"
proof -
  have "vnc_path_of projectID appID clusterID vmID =
      Join [[], VNCWebSocketPrefix, projectID, appID, clusterID, vmID] ''/''"
    by (simp add: vnc_path_of_def)
  then have "Split (vnc_path_of projectID appID clusterID vmID) ''/'' =
      [[], VNCWebSocketPrefix, projectID, appID, clusterID, vmID]"
    using assms Split_Join_char [of "[[], VNCWebSocketPrefix, projectID, appID, clusterID, vmID]" "CHR ''/''"]
    by (simp del: Join.simps)
  then show ?thesis by (simp add: newVNCPath_def)
qed

end
