(* ===== verification/ArmValidate.thy ===== *)
theory ArmValidate
  imports ArmBase
begin

text \<open>
  The validation of the requests of the App Resource Manager: the functions Validate and ValidateAll that
  protoc-gen-validate makes from the rules of the messages (api/nbi/v2/resource/v2, the files named
  pb.validate.go), with the regular expressions of the identifiers and the texts of the errors.

  A message that is nil is valid.  The expressions are anchored at both ends and have only classes of ASCII
  characters, so that a byte of another character never matches.
\<close>

section \<open>Runes\<close>

text \<open>
  The width of the first rune of a string in UTF-8; an invalid or short sequence is a rune of one byte.
\<close>

definition byte_in :: "nat \<Rightarrow> nat \<Rightarrow> char \<Rightarrow> bool" where
  "byte_in lo hi c = (let n = of_char c in lo \<le> n \<and> n \<le> hi)"

definition continuation :: "nat \<Rightarrow> string \<Rightarrow> bool" where
  "continuation n s = (n \<le> size s \<and> list_all (byte_in 128 191) (take n s))"

definition second_byte :: "char \<Rightarrow> char \<Rightarrow> bool" where
  "second_byte c d =
     (if of_char c = (0xE0 :: nat) then byte_in 0xA0 0xBF d
      else if of_char c = (0xED :: nat) then byte_in 0x80 0x9F d
      else if of_char c = (0xF0 :: nat) then byte_in 0x90 0xBF d
      else if of_char c = (0xF4 :: nat) then byte_in 0x80 0x8F d
      else byte_in 0x80 0xBF d)"

fun rune_width :: "string \<Rightarrow> nat" where
  "rune_width (c # d # s) =
     (if byte_in 0xC2 0xDF c \<and> second_byte c d then 2
      else if byte_in 0xE0 0xEF c \<and> second_byte c d \<and> continuation 1 s then 3
      else if byte_in 0xF0 0xF4 c \<and> second_byte c d \<and> continuation 2 s then 4
      else 1)"
| "rune_width _ = 1"

lemma rune_width_pos: "0 < rune_width s"
  by (induction s rule: rune_width.induct) simp_all

function RuneCountInString :: "string \<Rightarrow> nat" where
  "RuneCountInString s = (if s = [] then 0 else Suc (RuneCountInString (drop (rune_width s) s)))"
  by auto
termination by (relation "measure size") (auto simp: rune_width_pos)

declare RuneCountInString.simps [simp del]

definition ascii :: "string \<Rightarrow> bool" where
  "ascii s = list_all (\<lambda>c. (of_char c :: nat) < 128) s"

lemma RuneCountInString_ascii: "ascii s \<Longrightarrow> RuneCountInString s = size s"
proof (induction s)
  case (Cons c s)
  then have "rune_width (c # s) = 1" by (cases s) (auto simp: ascii_def byte_in_def Let_def)
  with Cons show ?case by (subst RuneCountInString.simps) (simp add: ascii_def)
qed (simp add: RuneCountInString.simps)

section \<open>Regular expressions\<close>

datatype regex = Chars "char \<Rightarrow> bool" | Times regex "nat" "nat" | Many "char \<Rightarrow> bool" | Then regex regex

text \<open>What is left of a string after each match of an expression at its start.\<close>

fun many_rests :: "(char \<Rightarrow> bool) \<Rightarrow> string \<Rightarrow> string list" where
  "many_rests p (c # s) = (if p c then (c # s) # many_rests p s else [c # s])"
| "many_rests p [] = [[]]"

fun times_rests :: "(string \<Rightarrow> string list) \<Rightarrow> nat \<Rightarrow> nat \<Rightarrow> string \<Rightarrow> string list" where
  "times_rests f 0 0 s = [s]"
| "times_rests f 0 (Suc n) s = s # concat (map (times_rests f 0 n) (f s))"
| "times_rests f (Suc m) 0 s = []"
| "times_rests f (Suc m) (Suc n) s = concat (map (times_rests f m n) (f s))"

fun rests :: "regex \<Rightarrow> string \<Rightarrow> string list" where
  "rests (Chars p) s = (case s of [] \<Rightarrow> [] | c # s' \<Rightarrow> if p c then [s'] else [])"
| "rests (Times r m n) s = times_rests (rests r) m n s"
| "rests (Many p) s = many_rests p s"
| "rests (Then r q) s = concat (map (rests q) (rests r s))"

definition MatchString :: "regex \<Rightarrow> string \<Rightarrow> bool" where
  "MatchString r s = ([] \<in> set (rests r s))"

definition id_char :: "char \<Rightarrow> bool" where
  "id_char c = (byte_in 97 122 c \<or> byte_in 48 57 c)"

definition id_dash :: "char \<Rightarrow> bool" where
  "id_dash c = (id_char c \<or> c = CHR ''-'')"

definition uuid_char :: "char \<Rightarrow> bool" where
  "uuid_char c = (byte_in 48 57 c \<or> byte_in 97 102 c \<or> byte_in 65 70 c)"

definition AppId_Pattern :: regex where
  "AppId_Pattern = Then (Chars id_char) (Then (Times (Chars id_dash) 0 78) (Times (Chars id_char) 0 1))"

definition ClusterId_Pattern :: regex where
  "ClusterId_Pattern = Then (Chars id_char) (Then (Times (Chars id_dash) 0 38) (Times (Chars id_char) 0 1))"

definition Name_Pattern :: regex where
  "Name_Pattern = Then (Chars id_char) (Times (Then (Many id_dash) (Chars id_char)) 0 1)"

definition dash :: regex where "dash = Chars ((=) CHR ''-'')"

definition uuidPattern :: regex where
  "uuidPattern = Then (Times (Chars uuid_char) 8 8) (Then dash (Then (Times (Chars uuid_char) 4 4) (Then dash
     (Then (Times (Chars uuid_char) 4 4) (Then dash (Then (Times (Chars uuid_char) 4 4) (Then dash
     (Times (Chars uuid_char) 12 12))))))))"

definition quoted :: "string \<Rightarrow> string" where
  "quoted s = [CHR 0x22] @ s @ [CHR 0x22]"

definition AppId_text :: string where
  "AppId_text = ''value does not match regex pattern '' @ quoted ''^[a-z0-9][a-z0-9-]{0,78}[a-z0-9]{0,1}$''"

definition ClusterId_text :: string where
  "ClusterId_text = ''value does not match regex pattern '' @ quoted ''^[a-z0-9][a-z0-9-]{0,38}[a-z0-9]{0,1}$''"

definition Name_text :: string where
  "Name_text = ''value does not match regex pattern '' @ quoted ''^[a-z0-9]([-a-z0-9-]*[a-z0-9])?$''"

section \<open>Violations\<close>

record ValidationError =
  vr_message :: string
  vr_field :: string
  vr_reason :: string
  vr_cause :: "string option"
  vr_key :: bool

datatype ValidationResult = OneError ValidationError | MultiError "ValidationError list"

definition ValidationError_text :: "ValidationError \<Rightarrow> string" where
  "ValidationError_text e =
     (let cause = (case vr_cause e of None \<Rightarrow> [] | Some c \<Rightarrow> '' | caused by: '' @ c);
          key = (if vr_key e then ''key for '' else [])
      in ''invalid '' @ key @ vr_message e @ ''.'' @ vr_field e @ '': '' @ vr_reason e @ cause)"

definition MultiError_text :: "ValidationError list \<Rightarrow> string" where
  "MultiError_text es = Join (map ValidationError_text es) ''; ''"

fun ValidationResult_error :: "ValidationResult \<Rightarrow> goerror" where
  "ValidationResult_error (OneError e) = PlainErr (ValidationError_text e)"
| "ValidationResult_error (MultiError es) = PlainErr (MultiError_text es)"

text \<open>A rule whose condition holds is violated; the first violation ends the validation that is not of all.\<close>

type_synonym rule = "bool \<times> ValidationError"

fun check_rules :: "bool \<Rightarrow> rule list \<Rightarrow> ValidationError list \<Rightarrow> ValidationResult option" where
  "check_rules all [] errors = (if errors = [] then None else Some (MultiError errors))"
| "check_rules all ((bad, e) # rules) errors =
     (if bad then if \<not> all then Some (OneError e) else check_rules all rules (errors @ [e])
      else check_rules all rules errors)"

definition violation :: "string \<Rightarrow> string \<Rightarrow> string \<Rightarrow> ValidationError" where
  "violation m f reason = \<lparr>vr_message = m, vr_field = f, vr_reason = reason, vr_cause = None, vr_key = False\<rparr>"

definition length_rule :: "string \<Rightarrow> string \<Rightarrow> nat \<Rightarrow> string \<Rightarrow> rule" where
  "length_rule m f hi s = (let l = RuneCountInString s in
     (l < 1 \<or> hi < l, violation m f (''value length must be between 1 and '' @ nat_str hi @ '' runes, inclusive'')))"

definition pattern_rule :: "string \<Rightarrow> string \<Rightarrow> regex \<Rightarrow> string \<Rightarrow> string \<Rightarrow> rule" where
  "pattern_rule m f r text s = (\<not> MatchString r s, violation m f text)"

definition validateUuid :: "string \<Rightarrow> string option" where
  "validateUuid uuid = (if \<not> MatchString uuidPattern uuid then Some ''invalid uuid format'' else None)"

definition uuid_rule :: "string \<Rightarrow> string \<Rightarrow> string \<Rightarrow> rule" where
  "uuid_rule m f s = (validateUuid s \<noteq> None,
     \<lparr>vr_message = m, vr_field = f, vr_reason = ''value must be a valid UUID'', vr_cause = validateUuid s, vr_key = False\<rparr>)"

section \<open>The messages\<close>

definition StartVirtualMachineRequest_validate ::
  "bool \<Rightarrow> (string \<times> string \<times> string) option \<Rightarrow> ValidationResult option" where
  "StartVirtualMachineRequest_validate all m = (case m of None \<Rightarrow> None | Some (AppId, ClusterId, VirtualMachineId) \<Rightarrow>
     (let M = ''StartVirtualMachineRequest'' in check_rules all
       [length_rule M ''AppId'' 80 AppId, pattern_rule M ''AppId'' AppId_Pattern AppId_text AppId,
        length_rule M ''ClusterId'' 40 ClusterId, pattern_rule M ''ClusterId'' ClusterId_Pattern ClusterId_text ClusterId,
        uuid_rule M ''VirtualMachineId'' VirtualMachineId] []))"

definition StopVirtualMachineRequest_validate ::
  "bool \<Rightarrow> (string \<times> string \<times> string) option \<Rightarrow> ValidationResult option" where
  "StopVirtualMachineRequest_validate all m = (case m of None \<Rightarrow> None | Some (AppId, ClusterId, VirtualMachineId) \<Rightarrow>
     (let M = ''StopVirtualMachineRequest'' in check_rules all
       [length_rule M ''AppId'' 80 AppId, pattern_rule M ''AppId'' AppId_Pattern AppId_text AppId,
        length_rule M ''ClusterId'' 40 ClusterId, pattern_rule M ''ClusterId'' ClusterId_Pattern ClusterId_text ClusterId,
        uuid_rule M ''VirtualMachineId'' VirtualMachineId] []))"

definition RestartVirtualMachineRequest_validate ::
  "bool \<Rightarrow> (string \<times> string \<times> string) option \<Rightarrow> ValidationResult option" where
  "RestartVirtualMachineRequest_validate all m = (case m of None \<Rightarrow> None | Some (AppId, ClusterId, VirtualMachineId) \<Rightarrow>
     (let M = ''RestartVirtualMachineRequest'' in check_rules all
       [length_rule M ''AppId'' 80 AppId, pattern_rule M ''AppId'' AppId_Pattern AppId_text AppId,
        length_rule M ''ClusterId'' 40 ClusterId, pattern_rule M ''ClusterId'' ClusterId_Pattern ClusterId_text ClusterId,
        uuid_rule M ''VirtualMachineId'' VirtualMachineId] []))"

definition GetVNCRequest_validate ::
  "bool \<Rightarrow> (string \<times> string \<times> string) option \<Rightarrow> ValidationResult option" where
  "GetVNCRequest_validate all m = (case m of None \<Rightarrow> None | Some (AppId, ClusterId, VirtualMachineId) \<Rightarrow>
     (let M = ''GetVNCRequest'' in check_rules all
       [length_rule M ''AppId'' 80 AppId, pattern_rule M ''AppId'' AppId_Pattern AppId_text AppId,
        length_rule M ''ClusterId'' 40 ClusterId, pattern_rule M ''ClusterId'' ClusterId_Pattern ClusterId_text ClusterId,
        uuid_rule M ''VirtualMachineId'' VirtualMachineId] []))"

definition ListAppWorkloadsRequest_validate ::
  "bool \<Rightarrow> (string \<times> string) option \<Rightarrow> ValidationResult option" where
  "ListAppWorkloadsRequest_validate all m = (case m of None \<Rightarrow> None | Some (AppId, ClusterId) \<Rightarrow>
     (let M = ''ListAppWorkloadsRequest'' in check_rules all
       [length_rule M ''AppId'' 80 AppId, pattern_rule M ''AppId'' AppId_Pattern AppId_text AppId,
        length_rule M ''ClusterId'' 40 ClusterId, pattern_rule M ''ClusterId'' ClusterId_Pattern ClusterId_text ClusterId] []))"

definition ListAppEndpointsRequest_validate ::
  "bool \<Rightarrow> (string \<times> string) option \<Rightarrow> ValidationResult option" where
  "ListAppEndpointsRequest_validate all m = (case m of None \<Rightarrow> None | Some (AppId, ClusterId) \<Rightarrow>
     (let M = ''ListAppEndpointsRequest'' in check_rules all
       [length_rule M ''AppId'' 80 AppId, pattern_rule M ''AppId'' AppId_Pattern AppId_text AppId,
        length_rule M ''ClusterId'' 40 ClusterId, pattern_rule M ''ClusterId'' ClusterId_Pattern ClusterId_text ClusterId] []))"

definition DeletePodRequest_validate ::
  "bool \<Rightarrow> (string \<times> string \<times> string) option \<Rightarrow> ValidationResult option" where
  "DeletePodRequest_validate all m = (case m of None \<Rightarrow> None | Some (ClusterId, Namespace, PodName) \<Rightarrow>
     (let M = ''DeletePodRequest'' in check_rules all
       [length_rule M ''ClusterId'' 40 ClusterId, pattern_rule M ''ClusterId'' ClusterId_Pattern ClusterId_text ClusterId,
        length_rule M ''Namespace'' 253 Namespace, pattern_rule M ''Namespace'' Name_Pattern Name_text Namespace,
        length_rule M ''PodName'' 253 PodName, pattern_rule M ''PodName'' Name_Pattern Name_text PodName] []))"

fun validate_request :: "bool \<Rightarrow> ArmRequest \<Rightarrow> ValidationResult option" where
  "validate_request all (GetVNCRequest a c v) = GetVNCRequest_validate all (Some (a, c, v))"
| "validate_request all (RestartVMRequest a c v) = RestartVirtualMachineRequest_validate all (Some (a, c, v))"
| "validate_request all (StartVMRequest a c v) = StartVirtualMachineRequest_validate all (Some (a, c, v))"
| "validate_request all (StopVMRequest a c v) = StopVirtualMachineRequest_validate all (Some (a, c, v))"
| "validate_request all (ListAppEndpointsRequest a c) = ListAppEndpointsRequest_validate all (Some (a, c))"
| "validate_request all (ListAppWorkloadsRequest a c) = ListAppWorkloadsRequest_validate all (Some (a, c))"
| "validate_request all (DeletePodRequest c n p) = DeletePodRequest_validate all (Some (c, n, p))"

definition Validate :: "ArmRequest \<Rightarrow> goerror option" where
  "Validate r = map_option ValidationResult_error (validate_request False r)"

definition ValidateAll :: "ArmRequest \<Rightarrow> goerror option" where
  "ValidateAll r = map_option ValidationResult_error (validate_request True r)"

section \<open>What the rules accept\<close>

lemma check_rules_None: "check_rules all rules errors = None \<longleftrightarrow> errors = [] \<and> list_all (\<lambda>(bad, e). \<not> bad) rules"
  by (induction all rules errors rule: check_rules.induct) auto

lemma times_class_rests:
  "t \<in> set (times_rests (rests (Chars p)) 0 n s) \<longleftrightarrow> (\<exists>u. s = u @ t \<and> size u \<le> n \<and> list_all p u)"
proof (induction n arbitrary: s t)
  case (Suc n)
  show ?case
  proof (cases s)
    case (Cons c s')
    show ?thesis
      using Suc [of t s'] Cons by (auto simp: append_eq_Cons_conv Cons_eq_append_conv)
  qed simp
qed auto

lemma exact_class_rests:
  "t \<in> set (times_rests (rests (Chars p)) n n s) \<longleftrightarrow> (\<exists>u. s = u @ t \<and> size u = n \<and> list_all p u)"
proof (induction n arbitrary: s t)
  case (Suc n)
  show ?case
  proof (cases s)
    case (Cons c s')
    show ?thesis
      using Suc [of t s'] Cons by (auto simp: append_eq_Cons_conv Cons_eq_append_conv length_Suc_conv)
  qed simp
qed auto

lemma many_rests_iff: "t \<in> set (many_rests p s) \<longleftrightarrow> (\<exists>u. s = u @ t \<and> list_all p u)"
proof (induction p s rule: many_rests.induct)
  case (1 p c s)
  then show ?case by (auto simp: append_eq_Cons_conv Cons_eq_append_conv)
qed simp

text \<open>An identifier starts with a letter or digit, and only one of the full length must end with one.\<close>

definition id_of :: "nat \<Rightarrow> string \<Rightarrow> bool" where
  "id_of n s = (s \<noteq> [] \<and> size s \<le> n \<and> list_all id_dash s \<and> id_char (hd s) \<and> (size s = n \<longrightarrow> id_char (last s)))"

lemma id_char_dash: "id_char c \<Longrightarrow> id_dash c"
  by (simp add: id_dash_def)

lemma MatchString_Chars: "MatchString (Then (Chars p) r) s \<longleftrightarrow> (\<exists>c s'. s = c # s' \<and> p c \<and> MatchString r s')"
  by (cases s) (auto simp: MatchString_def)

lemma MatchString_Then: "MatchString (Then r q) s \<longleftrightarrow> (\<exists>v. v \<in> set (rests r s) \<and> MatchString q v)"
  by (auto simp: MatchString_def)

lemma MatchString_times:
  "MatchString (Then (Times (Chars p) 0 n) r) s \<longleftrightarrow> (\<exists>u v. s = u @ v \<and> size u \<le> n \<and> list_all p u \<and> MatchString r v)"
  unfolding MatchString_Then rests.simps times_class_rests by blast

lemma MatchString_end: "MatchString (Times (Chars p) 0 n) s \<longleftrightarrow> size s \<le> n \<and> list_all p s"
  by (auto simp: MatchString_def times_class_rests simp del: times_rests.simps)

lemma MatchString_exact:
  "MatchString (Then (Times (Chars p) n n) r) s \<longleftrightarrow> (\<exists>u v. s = u @ v \<and> size u = n \<and> list_all p u \<and> MatchString r v)"
  unfolding MatchString_Then rests.simps exact_class_rests by blast

lemma MatchString_exact_end: "MatchString (Times (Chars p) n n) s \<longleftrightarrow> size s = n \<and> list_all p s"
  by (auto simp: MatchString_def exact_class_rests simp del: times_rests.simps)

lemma MatchString_many:
  "MatchString (Then (Many p) (Chars q)) s \<longleftrightarrow> s \<noteq> [] \<and> list_all p (butlast s) \<and> q (last s)"
  by (cases s rule: rev_cases) (auto simp: MatchString_def many_rests_iff split: list.splits if_splits)

lemma identifier_match:
  "MatchString (Then (Chars id_char) (Then (Times (Chars id_dash) 0 n) (Times (Chars id_char) 0 1))) s \<longleftrightarrow> id_of (n + 2) s"
proof (cases s)
  case (Cons c s')
  have "(\<exists>u v. s' = u @ v \<and> size u \<le> n \<and> list_all id_dash u \<and> size v \<le> 1 \<and> list_all id_char v) \<longleftrightarrow>
      size s' \<le> n + 1 \<and> list_all id_dash s' \<and> (size s' = n + 1 \<longrightarrow> id_char (last s'))" (is "?l \<longleftrightarrow> ?r")
  proof
    assume ?l
    then obtain u v where uv: "s' = u @ v" "size u \<le> n" "list_all id_dash u" "size v \<le> 1" "list_all id_char v" by blast
    then show ?r by (cases v) (auto intro: id_char_dash)
  next
    assume r: ?r
    show ?l
    proof (cases "size s' \<le> n")
      case True
      then show ?thesis using r by (intro exI [of _ s'] exI [of _ "[]"]) simp
    next
      case False
      with r have "s' \<noteq> []" "size s' = n + 1" by auto
      with r show ?thesis
        by (intro exI [of _ "butlast s'"] exI [of _ "[last s']"]) (auto simp: list_all_iff dest: in_set_butlastD)
    qed
  qed
  then show ?thesis
    using Cons by (auto simp: MatchString_Chars MatchString_times MatchString_end id_of_def intro: id_char_dash)
qed (simp add: MatchString_Chars id_of_def)

text \<open>The name of a pod or of a namespace also ends with a letter or digit.\<close>

definition name_of :: "string \<Rightarrow> bool" where
  "name_of s = (s \<noteq> [] \<and> size s \<le> 253 \<and> list_all id_dash s \<and> id_char (hd s) \<and> id_char (last s))"

lemma MatchString_optional: "MatchString (Times r 0 1) s \<longleftrightarrow> s = [] \<or> MatchString r s"
  by (auto simp: MatchString_def)

lemma name_match:
  "MatchString Name_Pattern s \<longleftrightarrow> s \<noteq> [] \<and> list_all id_dash s \<and> id_char (hd s) \<and> id_char (last s)"
proof (cases s)
  case (Cons c s')
  have "MatchString Name_Pattern s \<longleftrightarrow>
      id_char c \<and> (s' = [] \<or> list_all id_dash (butlast s') \<and> id_char (last s'))"
    unfolding Name_Pattern_def MatchString_Chars MatchString_optional MatchString_many using Cons by auto
  also have "\<dots> \<longleftrightarrow> id_char c \<and> list_all id_dash s' \<and> (s' \<noteq> [] \<longrightarrow> id_char (last s'))"
    by (cases s' rule: rev_cases) (auto intro: id_char_dash)
  finally show ?thesis using Cons by (auto intro: id_char_dash)
qed (simp add: Name_Pattern_def MatchString_Chars)

text \<open>A UUID has five groups of hexadecimal digits between dashes.\<close>

definition uuid_of :: "string \<Rightarrow> bool" where
  "uuid_of s = (let gs = Split s ''-'' in map size gs = [8, 4, 4, 4, 12] \<and> list_all (list_all uuid_char) gs)"

lemma Join_split_go: "Join (split_go [c] acc s) [c] = rev acc @ s"
proof (induction s arbitrary: acc)
  case (Cons d s)
  obtain x xs where "split_go [c] [] s = x # xs" by (cases "split_go [c] [] s") auto
  then show ?case using Cons [of "[]"] Cons [of "d # acc"] by (auto simp: HasPrefix_def)
qed simp

lemma Join_Split: "Join (Split s [c]) [c] = s"
  by (simp add: Split_def Join_split_go)

lemma hex_no_dash: "list_all uuid_char u \<Longrightarrow> CHR ''-'' \<notin> set u"
  by (auto simp: list_all_iff uuid_char_def byte_in_def)

lemma group_match:
  "size u = n \<Longrightarrow> list_all p u \<Longrightarrow> MatchString r v \<Longrightarrow> MatchString (Then (Times (Chars p) n n) r) (u @ v)"
  by (auto simp: MatchString_exact)

lemma dash_match: "MatchString (Then dash r) s \<longleftrightarrow> (\<exists>t. s = CHR ''-'' # t \<and> MatchString r t)"
  by (auto simp: dash_def MatchString_Chars)

lemma dash_intro: "MatchString r t \<Longrightarrow> MatchString (Then dash r) (CHR ''-'' # t)"
  by (simp add: dash_match)

lemma uuid_no_slash: "list_all uuid_char u \<Longrightarrow> CHR ''/'' \<notin> set u"
  by (auto simp: list_all_iff uuid_char_def byte_in_def)

lemma uuid_groups: "MatchString uuidPattern s \<longleftrightarrow>
   (\<exists>a b c d e. s = Join [a, b, c, d, e] ''-'' \<and> map size [a, b, c, d, e] = [8, 4, 4, 4, 12] \<and>
     list_all (list_all uuid_char) [a, b, c, d, e])" (is "?l \<longleftrightarrow> ?r")
proof
  assume ?l
  then show ?r
    unfolding uuidPattern_def MatchString_exact MatchString_exact_end dash_match
    by (elim exE conjE, intro exI conjI) (assumption | simp)+
next
  assume ?r
  then obtain a b c d e where s: "s = a @ CHR ''-'' # b @ CHR ''-'' # c @ CHR ''-'' # d @ CHR ''-'' # e"
    and sizes: "size a = 8" "size b = 4" "size c = 4" "size d = 4" "size e = 12"
    and hex: "list_all uuid_char a" "list_all uuid_char b" "list_all uuid_char c" "list_all uuid_char d" "list_all uuid_char e"
    by auto
  show ?l unfolding uuidPattern_def s
    by (intro group_match sizes hex dash_intro) (simp add: MatchString_exact_end sizes hex)
qed

lemma uuid_match: "MatchString uuidPattern s \<longleftrightarrow> uuid_of s"
proof
  assume "MatchString uuidPattern s"
  then obtain a b c d e where "s = Join [a, b, c, d, e] ''-''" "map size [a, b, c, d, e] = [8, 4, 4, 4, 12]"
    "list_all (list_all uuid_char) [a, b, c, d, e]"
    unfolding uuid_groups by (elim exE conjE)
  then obtain gs where gs: "s = Join gs ''-''" "gs \<noteq> []" "map size gs = [8, 4, 4, 4, 12]" "list_all (list_all uuid_char) gs"
    by (metis list.distinct(1))
  then have "list_all (\<lambda>k. CHR ''-'' \<notin> set k) gs" by (auto simp: list_all_iff dest!: hex_no_dash [unfolded list_all_iff])
  with gs show "uuid_of s" by (simp add: uuid_of_def Split_Join_char)
next
  assume u: "uuid_of s"
  then obtain a b c d e where gs: "Split s ''-'' = [a, b, c, d, e]"
    unfolding uuid_of_def Let_def by (elim conjE) (simp only: map_eq_Cons_conv, elim exE conjE, simp)
  then show "MatchString uuidPattern s"
    using u Join_Split [of s "CHR ''-''"] unfolding uuid_groups uuid_of_def Let_def by metis
qed

lemma id_of_ascii: "id_of n s \<Longrightarrow> ascii s"
  by (auto simp: id_of_def ascii_def id_dash_def id_char_def byte_in_def Let_def list_all_iff)

lemma name_of_ascii: "list_all id_dash s \<Longrightarrow> ascii s"
  by (auto simp: ascii_def id_dash_def id_char_def byte_in_def Let_def list_all_iff)

text \<open>No identifier has a slash.\<close>

lemma id_of_no_slash: "id_of n s \<Longrightarrow> CHR ''/'' \<notin> set s"
  by (auto simp: id_of_def list_all_iff id_dash_def id_char_def byte_in_def)

lemma uuid_of_no_slash: "uuid_of s \<Longrightarrow> CHR ''/'' \<notin> set s"
  unfolding uuid_match [symmetric] uuid_groups by (auto dest: uuid_no_slash)

section \<open>The claim\<close>

fun well_formed_request :: "ArmRequest \<Rightarrow> bool" where
  "well_formed_request (GetVNCRequest a c v) = (id_of 80 a \<and> id_of 40 c \<and> uuid_of v)"
| "well_formed_request (RestartVMRequest a c v) = (id_of 80 a \<and> id_of 40 c \<and> uuid_of v)"
| "well_formed_request (StartVMRequest a c v) = (id_of 80 a \<and> id_of 40 c \<and> uuid_of v)"
| "well_formed_request (StopVMRequest a c v) = (id_of 80 a \<and> id_of 40 c \<and> uuid_of v)"
| "well_formed_request (ListAppEndpointsRequest a c) = (id_of 80 a \<and> id_of 40 c)"
| "well_formed_request (ListAppWorkloadsRequest a c) = (id_of 80 a \<and> id_of 40 c)"
| "well_formed_request (DeletePodRequest c n p) = (id_of 40 c \<and> name_of n \<and> name_of p)"

lemma app_match: "MatchString AppId_Pattern s \<longleftrightarrow> id_of 80 s"
  using identifier_match [of 78] by (simp add: AppId_Pattern_def)

lemma cluster_match: "MatchString ClusterId_Pattern s \<longleftrightarrow> id_of 40 s"
  using identifier_match [of 38] by (simp add: ClusterId_Pattern_def)

text \<open>What matches is ASCII, so that its runes are its bytes.\<close>

lemma id_rules:
  "1 \<le> RuneCountInString s \<and> RuneCountInString s \<le> n \<and> id_of n s \<longleftrightarrow> id_of n s"
  using RuneCountInString_ascii [OF id_of_ascii [of n s]] by (auto simp: id_of_def Suc_le_eq)

lemma name_rules:
  "1 \<le> RuneCountInString s \<and> RuneCountInString s \<le> 253 \<and> MatchString Name_Pattern s \<longleftrightarrow> name_of s"
proof (cases "ascii s")
  case True
  then show ?thesis using name_match [of s] by (auto simp: RuneCountInString_ascii name_of_def Suc_le_eq)
next
  case False
  then have "\<not> list_all id_dash s" using name_of_ascii by blast
  then have "\<not> MatchString Name_Pattern s" "\<not> name_of s"
    by (simp_all add: name_match name_of_def)
  then show ?thesis by blast
qed

lemma validate_request_None: "validate_request all r = None \<longleftrightarrow> well_formed_request r"
proof -
  have id: "\<not> fst (length_rule m f n s) \<and> \<not> fst (pattern_rule m f p t s) \<longleftrightarrow> id_of n s"
    if "MatchString p s \<longleftrightarrow> id_of n s" for m f n p t s
    using id_rules [of s n] that by (auto simp: length_rule_def pattern_rule_def Let_def)
  have name: "\<not> fst (length_rule m f 253 s) \<and> \<not> fst (pattern_rule m f Name_Pattern t s) \<longleftrightarrow> name_of s" for m f t s
    using name_rules [of s] by (auto simp: length_rule_def pattern_rule_def Let_def)
  have uuid: "\<not> fst (uuid_rule m f s) \<longleftrightarrow> uuid_of s" for m f s
    using uuid_match [of s] by (simp add: uuid_rule_def validateUuid_def)
  have chain: "(\<not> a \<and> \<not> b \<and> q) = (c \<and> q)" if "\<not> a \<and> \<not> b \<longleftrightarrow> c" for a b c q using that by blast
  note rules = StartVirtualMachineRequest_validate_def StopVirtualMachineRequest_validate_def
    RestartVirtualMachineRequest_validate_def GetVNCRequest_validate_def ListAppWorkloadsRequest_validate_def
    ListAppEndpointsRequest_validate_def DeletePodRequest_validate_def
  show ?thesis
    by (cases r) (simp_all add: rules check_rules_None Let_def case_prod_unfold uuid
        id [OF app_match] id [OF cluster_match] name chain [OF id, OF app_match] chain [OF id, OF cluster_match] chain [OF name])
qed

lemma valid_well_formed: "ValidateAll r = None \<longleftrightarrow> well_formed_request r"
  by (simp add: ValidateAll_def validate_request_None)

text \<open>
  Claim C22. The generated validation of a request of the resource manager accepts exactly the requests with
  well-formed identifiers: applications and clusters of at most 80 and 40 lower-case letters, digits and dashes that start with
  a letter or digit (and end with one at the full length), names of pods and namespaces that also end with one, and virtual
  machines with a UUID.  Both forms of the validation accept the same requests.
\<close>

theorem validation_exact:
  "(ValidateAll r = None) = well_formed_request r \<and> (Validate r = None) = well_formed_request r"
  by (simp add: ValidateAll_def Validate_def validate_request_None)

end
