(* ===== verification/ArmNorth.thy ===== *)
theory ArmNorth
  imports ArmVirt ArmValidate
begin

text \<open>
  The northbound services of the App Resource Manager (internal/northbound/services/v2/resource) and the
  handler between them and the managers of KubeVirt and Kubernetes (internal/southbound).
\<close>

section \<open>The southbound handler\<close>

text \<open>An application without virtual machines, or without pods, is not an error.\<close>

definition not_found_is_none :: "('w, 'a list) armio \<Rightarrow> ('w, 'a list) armio" where
  "not_found_is_none m = gcatch m (\<lambda>r. case r of
     Inr xs \<Rightarrow> gret xs
   | Inl err \<Rightarrow> if typed_not_found err then gret [] else gfail err)"

definition GetAppWorkLoads ::
  "nat \<Rightarrow> 'w ArmServer \<Rightarrow> NbCtx \<Rightarrow> string \<Rightarrow> string \<Rightarrow> ('w, AppWorkload list) armio" where
  "GetAppWorkLoads depth s x appID clusterID =
     gtry (not_found_is_none (GetVMWorkloads s x appID clusterID)) (\<lambda>vmWorkLoads.
     gtry (not_found_is_none (GetPodWorkloads depth s x appID clusterID)) (\<lambda>podWorkLoads.
     gret (vmWorkLoads @ podWorkLoads)))"

definition AccessVMWithVNC ::
  "'w ArmServer \<Rightarrow> NbCtx \<Rightarrow> string \<Rightarrow> string \<Rightarrow> string \<Rightarrow> ('w, string) armio" where
  "AccessVMWithVNC s x appID clusterID vmID = GetVNCAddress s x appID clusterID vmID"

section \<open>The services\<close>

fun request_fields :: "ArmRequest \<Rightarrow> string list" where
  "request_fields (GetVNCRequest a c v) = [a, c, v]"
| "request_fields (RestartVMRequest a c v) = [a, c, v]"
| "request_fields (StartVMRequest a c v) = [a, c, v]"
| "request_fields (StopVMRequest a c v) = [a, c, v]"
| "request_fields (ListAppEndpointsRequest a c) = [a, c]"
| "request_fields (ListAppWorkloadsRequest a c) = [a, c]"
| "request_fields (DeletePodRequest c n p) = [c, n, p]"

text \<open>What every service checks before it does anything: no empty field, the rules of the message, and the
  policy agent.\<close>

definition arm_checked :: "'w ArmServer \<Rightarrow> NbCtx \<Rightarrow> string \<Rightarrow> ArmRequest option \<Rightarrow> ('w, unit) armio" where
  "arm_checked s x what req = (case req of
     None \<Rightarrow> gfail (TypedErr KInvalid (''Request is not valid; '' @ what @ '' is empty''))
   | Some r \<Rightarrow>
       if [] \<in> set (request_fields r) then gfail (TypedErr KInvalid (''Request is not valid; '' @ what @ '' is empty''))
       else (case ValidateAll r of
               Some err \<Rightarrow> gfail (TypedErr KInvalid (err_msg err))
             | None \<Rightarrow> gmap_err (\<lambda>err. TypedErr KForbidden (err_msg err)) (IsAuthorized s x r)))"

definition arm_service ::
  "'w ArmServer \<Rightarrow> NbCtx \<Rightarrow> string \<Rightarrow> ArmRequest option \<Rightarrow> ('w, 'a) armio \<Rightarrow> ('w, 'a) armio" where
  "arm_service s x what req serve =
     gmap_err (am_Status s) (gtry (arm_checked s x what req) (\<lambda>_. serve))"

definition ListAppWorkloads ::
  "nat \<Rightarrow> 'w ArmServer \<Rightarrow> NbCtx \<Rightarrow> (string \<times> string) option \<Rightarrow> ('w, AppWorkload list) armio" where
  "ListAppWorkloads depth s x req = arm_service s x ''app ID or cluster ID''
     (map_option (\<lambda>(a, c). ListAppWorkloadsRequest a c) req)
     (case req of None \<Rightarrow> gpanic | Some (a, c) \<Rightarrow> GetAppWorkLoads depth s x a c)"

definition ListAppEndpoints ::
  "'w ArmServer \<Rightarrow> NbCtx \<Rightarrow> (string \<times> string) option \<Rightarrow> ('w, AppEndpoint list) armio" where
  "ListAppEndpoints s x req = arm_service s x ''app ID or cluster ID''
     (map_option (\<lambda>(a, c). ListAppEndpointsRequest a c) req)
     (case req of None \<Rightarrow> gpanic | Some (a, c) \<Rightarrow> GetAppEndpointsV2 s x a c)"

definition armDeletePod ::
  "'w ArmServer \<Rightarrow> NbCtx \<Rightarrow> (string \<times> string \<times> string) option \<Rightarrow> ('w, unit) armio" where
  "armDeletePod s x req = arm_service s x ''pod name or namespace or cluster ID''
     (map_option (\<lambda>(c, n, p). DeletePodRequest c n p) req)
     (case req of None \<Rightarrow> gpanic | Some (c, n, p) \<Rightarrow> DeletePod s x c n p)"

definition GetVNC ::
  "'w ArmServer \<Rightarrow> NbCtx \<Rightarrow> (string \<times> string \<times> string) option \<Rightarrow> ('w, string) armio" where
  "GetVNC s x req = arm_service s x ''app ID or cluster ID or VM ID''
     (map_option (\<lambda>(a, c, v). GetVNCRequest a c v) req)
     (case req of None \<Rightarrow> gpanic | Some (a, c, v) \<Rightarrow> AccessVMWithVNC s x a c v)"

definition RestartVirtualMachine ::
  "'w ArmServer \<Rightarrow> NbCtx \<Rightarrow> (string \<times> string \<times> string) option \<Rightarrow> ('w, unit) armio" where
  "RestartVirtualMachine s x req = arm_service s x ''app ID or cluster ID or VM ID''
     (map_option (\<lambda>(a, c, v). RestartVMRequest a c v) req)
     (case req of None \<Rightarrow> gpanic | Some (a, c, v) \<Rightarrow> RestartVM s x a c v)"

definition StartVirtualMachine ::
  "'w ArmServer \<Rightarrow> NbCtx \<Rightarrow> (string \<times> string \<times> string) option \<Rightarrow> ('w, unit) armio" where
  "StartVirtualMachine s x req = arm_service s x ''app ID or cluster ID or VM ID''
     (map_option (\<lambda>(a, c, v). StartVMRequest a c v) req)
     (case req of None \<Rightarrow> gpanic | Some (a, c, v) \<Rightarrow> StartVM s x a c v)"

definition StopVirtualMachine ::
  "'w ArmServer \<Rightarrow> NbCtx \<Rightarrow> (string \<times> string \<times> string) option \<Rightarrow> ('w, unit) armio" where
  "StopVirtualMachine s x req = arm_service s x ''app ID or cluster ID or VM ID''
     (map_option (\<lambda>(a, c, v). StopVMRequest a c v) req)
     (case req of None \<Rightarrow> gpanic | Some (a, c, v) \<Rightarrow> StopVM s x a c v)"

end
