(* ===== verification/ArmSessions.thy ===== *)
theory ArmSessions
  imports ArmCounter "HOL-Library.Multiset"
begin

text \<open>
  The VNC sessions of the App Resource Manager as a state machine.  The handler of a request
  (internal/kubevirt/manager.go, GetVNCWebSocketHandler) counts the session for its IP address, then for
  each of its accounts, serves it, and when it returns uncounts the accounts and the address.  A session
  is refused when a counter is at its limit; the accounts that were counted before are then kept.

  Requests run concurrently: a step is one operation of one request on one counter.  The state machine
  takes over the order of these operations from the handler, whose own model is in the theory of the
  KubeVirt manager.
\<close>

section \<open>Sessions and steps\<close>

datatype session_phase = Opening "string list" | Streaming | Closing "string list"

record session =
  se_ip :: string
  se_accounts :: "string list"
  se_phase :: session_phase

record vnc_state =
  vn_ip :: counter
  vn_acc :: counter
  vn_sessions :: "session multiset"

definition vnc_init :: "string \<Rightarrow> vnc_state" where
  "vnc_init configPath = \<lparr>vn_ip = NewCounter configPath CounterTypeIP,
     vn_acc = NewCounter configPath CounterTypeAccount, vn_sessions = {#}\<rparr>"

text \<open>A decrease that fails is only logged.\<close>

definition uncount :: "string \<Rightarrow> counter \<Rightarrow> counter" where
  "uncount k c = snd (Decrease k c)"

inductive vnc_step :: "ConfigModel res \<Rightarrow> nat \<Rightarrow> vnc_state \<Rightarrow> vnc_state \<Rightarrow> bool" for cfg n where
  Arrive: "counter_inc cfg ip (vn_ip st) = Some c \<Longrightarrow> length accounts \<le> n \<Longrightarrow>
    vnc_step cfg n st (st\<lparr>vn_ip := c,
      vn_sessions := add_mset \<lparr>se_ip = ip, se_accounts = accounts, se_phase = Opening accounts\<rparr> (vn_sessions st)\<rparr>)"
| Count: "vn_sessions st = add_mset s N \<Longrightarrow> se_phase s = Opening (a # as) \<Longrightarrow>
    counter_inc cfg a (vn_acc st) = Some c \<Longrightarrow>
    vnc_step cfg n st (st\<lparr>vn_acc := c, vn_sessions := add_mset (s\<lparr>se_phase := Opening as\<rparr>) N\<rparr>)"
| Refuse: "vn_sessions st = add_mset s N \<Longrightarrow> se_phase s = Opening (a # as) \<Longrightarrow>
    counter_inc cfg a (vn_acc st) = None \<Longrightarrow>
    vnc_step cfg n st (st\<lparr>vn_sessions := add_mset (s\<lparr>se_phase := Closing []\<rparr>) N\<rparr>)"
| Serve: "vn_sessions st = add_mset s N \<Longrightarrow> se_phase s = Opening [] \<Longrightarrow>
    vnc_step cfg n st (st\<lparr>vn_sessions := add_mset (s\<lparr>se_phase := Streaming\<rparr>) N\<rparr>)"
| Stop: "vn_sessions st = add_mset s N \<Longrightarrow> se_phase s = Streaming \<Longrightarrow>
    vnc_step cfg n st (st\<lparr>vn_sessions := add_mset (s\<lparr>se_phase := Closing (se_accounts s)\<rparr>) N\<rparr>)"
| Uncount: "vn_sessions st = add_mset s N \<Longrightarrow> se_phase s = Closing (a # as) \<Longrightarrow>
    vnc_step cfg n st (st\<lparr>vn_acc := uncount a (vn_acc st), vn_sessions := add_mset (s\<lparr>se_phase := Closing as\<rparr>) N\<rparr>)"
| Leave: "vn_sessions st = add_mset s N \<Longrightarrow> se_phase s = Closing [] \<Longrightarrow>
    vnc_step cfg n st (st\<lparr>vn_ip := uncount (se_ip s) (vn_ip st), vn_sessions := N\<rparr>)"

definition vnc_reachable :: "ConfigModel res \<Rightarrow> nat \<Rightarrow> string \<Rightarrow> vnc_state \<Rightarrow> bool" where
  "vnc_reachable cfg n path st = (vnc_step cfg n)\<^sup>*\<^sup>* (vnc_init path) st"

section \<open>The invariant\<close>

text \<open>The accounts that a session has counted and will uncount.\<close>

definition holds :: "session \<Rightarrow> string multiset" where
  "holds s = (case se_phase s of
     Opening as \<Rightarrow> mset (se_accounts s) - mset as | Streaming \<Rightarrow> mset (se_accounts s) | Closing as \<Rightarrow> mset as)"

definition session_ok :: "nat \<Rightarrow> session \<Rightarrow> bool" where
  "session_ok n s = (length (se_accounts s) \<le> n \<and>
     (case se_phase s of Opening as \<Rightarrow> \<exists>counted. se_accounts s = counted @ as | _ \<Rightarrow> True))"

definition below :: "int \<Rightarrow> string multiset \<Rightarrow> bool" where
  "below l M = (l > 0 \<longrightarrow> (\<forall>k. int (count M k) \<le> l))"

definition vnc_inv :: "ConfigModel res \<Rightarrow> nat \<Rightarrow> int \<Rightarrow> int \<Rightarrow> vnc_state \<Rightarrow> bool" where
  "vnc_inv cfg n li la st = (
     limited cfg li (vn_ip st) \<and> limited cfg la (vn_acc st) \<and>
     below li (counter_abs (vn_ip st)) \<and> below la (counter_abs (vn_acc st)) \<and>
     counter_abs (vn_ip st) = image_mset se_ip (vn_sessions st) \<and>
     \<Sum>\<^sub># (image_mset holds (vn_sessions st)) \<subseteq># counter_abs (vn_acc st) \<and>
     (n \<le> 1 \<longrightarrow> \<Sum>\<^sub># (image_mset holds (vn_sessions st)) = counter_abs (vn_acc st)) \<and>
     (\<forall>s \<in># vn_sessions st. session_ok n s))"

lemma inc_facts:
  assumes "limited cfg l c" "counter_inc cfg k c = Some c'" "below l (counter_abs c)"
  shows "limited cfg l c' \<and> counter_abs c' = add_mset k (counter_abs c) \<and> below l (counter_abs c')"
  using vnc.inc_ok [OF assms(1,2)] vnc.inc_Some [OF assms(1,2)] vnc.inc_session [OF assms(1), of k] assms(2,3)
  by (auto simp: below_def open_session_def split: if_splits)

lemma uncount_dec: "uncount k c = (case counter_dec k c of Some c' \<Rightarrow> c' | None \<Rightarrow> c)"
  by (auto simp: uncount_def counter_dec_def Decrease_def split: option.splits)

lemma uncount_facts:
  assumes "limited cfg l c" "k \<in># counter_abs c" "below l (counter_abs c)"
  shows "limited cfg l (uncount k c) \<and> counter_abs (uncount k c) = counter_abs c - {#k#} \<and>
     below l (counter_abs (uncount k c))"
proof -
  obtain c' where c': "counter_dec k c = Some c'" using vnc.dec_possible [OF assms(1,2)] ..
  from vnc.dec_ok [OF assms(1) c'] vnc.dec_Some [OF assms(1) c'] vnc.dec_within [OF assms(1) _ c'] assms(3)
  show ?thesis by (simp add: uncount_dec c' below_def vnc.within_def)
qed

lemma holds_simps [simp]:
  "holds (s\<lparr>se_phase := Opening as\<rparr>) = mset (se_accounts s) - mset as"
  "holds (s\<lparr>se_phase := Streaming\<rparr>) = mset (se_accounts s)"
  "holds (s\<lparr>se_phase := Closing as\<rparr>) = mset as"
  by (simp_all add: holds_def)

lemma holds_phase:
  "se_phase s = Opening as \<Longrightarrow> holds s = mset (se_accounts s) - mset as"
  "se_phase s = Streaming \<Longrightarrow> holds s = mset (se_accounts s)"
  "se_phase s = Closing as \<Longrightarrow> holds s = mset as"
  by (simp_all add: holds_def)

lemma session_ok_phase [simp]:
  "session_ok n (s\<lparr>se_phase := Streaming\<rparr>) = (length (se_accounts s) \<le> n)"
  "session_ok n (s\<lparr>se_phase := Closing as\<rparr>) = (length (se_accounts s) \<le> n)"
  by (simp_all add: session_ok_def)

lemma session_ok_next:
  assumes "session_ok n s" "se_phase s = Opening (a # as)"
  shows "session_ok n (s\<lparr>se_phase := Opening as\<rparr>)"
    and "holds (s\<lparr>se_phase := Opening as\<rparr>) = add_mset a (holds s)"
    and "n \<le> 1 \<Longrightarrow> holds s = {#}"
proof -
  obtain counted where c: "se_accounts s = counted @ a # as"
    using assms by (auto simp: session_ok_def)
  then show "session_ok n (s\<lparr>se_phase := Opening as\<rparr>)" using assms(1)
    by (auto simp: session_ok_def intro: exI [of _ "counted @ [a]"])
  show "holds (s\<lparr>se_phase := Opening as\<rparr>) = add_mset a (holds s)"
    using c assms by (simp add: holds_phase)
  have "length counted + length (a # as) \<le> n" using c assms(1) by (simp add: session_ok_def)
  then show "holds s = {#}" if "n \<le> 1" using that c assms(2) by (cases counted) (simp_all add: holds_phase)
qed

lemma vnc_init_inv:
  assumes "cfg = Inr m" "0 \<le> cm_SessionLimitPerIP m" "0 \<le> cm_SessionLimitPerAccount m"
  shows "vnc_inv cfg n (cm_SessionLimitPerIP m) (cm_SessionLimitPerAccount m) (vnc_init path)"
  using NewCounter_limited [of CounterTypeIP cfg m "cm_SessionLimitPerIP m" path]
    NewCounter_limited [of CounterTypeAccount cfg m "cm_SessionLimitPerAccount m" path] assms
  by (simp add: vnc_inv_def vnc_init_def below_def)

lemma vnc_step_inv:
  assumes "vnc_step cfg n st st'" "vnc_inv cfg n li la st"
  shows "vnc_inv cfg n li la st'"
  using assms
proof (induction rule: vnc_step.induct)
  case (Arrive ip st c accounts)
  then show ?case
    using inc_facts [of cfg li "vn_ip st" ip c] by (auto simp: vnc_inv_def session_ok_def holds_def)
next
  case (Count st s N a as c)
  then have "session_ok n s" by (simp add: vnc_inv_def)
  note next_s = session_ok_next [OF this Count(2)]
  show ?case
    using Count inc_facts [of cfg la "vn_acc st" a c] next_s by (auto simp: vnc_inv_def)
next
  case (Refuse st s N a as)
  then have "session_ok n s" by (simp add: vnc_inv_def)
  note next_s = session_ok_next [OF this Refuse(2)]
  show ?case
    using Refuse next_s by (auto simp: vnc_inv_def session_ok_def intro: subset_mset.order_trans [rotated])
next
  case (Serve st s N)
  then show ?case by (auto simp: vnc_inv_def holds_phase session_ok_def)
next
  case (Stop st s N)
  then show ?case by (auto simp: vnc_inv_def holds_phase session_ok_def)
next
  case (Uncount st s N a as)
  then have sub: "add_mset a (mset as + \<Sum>\<^sub># (image_mset holds N)) \<subseteq># counter_abs (vn_acc st)"
    by (simp add: vnc_inv_def holds_phase)
  then have "a \<in># counter_abs (vn_acc st)" by (meson mset_subset_eq_insertD)
  with Uncount sub show ?case
    using uncount_facts [of cfg la "vn_acc st" a]
    by (auto simp: vnc_inv_def holds_phase session_ok_def insert_subset_eq_iff) (metis add_mset_remove_trivial)
next
  case (Leave st s N)
  then show ?case
    using uncount_facts [of cfg li "vn_ip st" "se_ip s"] by (auto simp: vnc_inv_def holds_phase)
qed

lemma vnc_reachable_inv:
  assumes "vnc_reachable cfg n path st" "cfg = Inr m" "0 \<le> cm_SessionLimitPerIP m" "0 \<le> cm_SessionLimitPerAccount m"
  shows "vnc_inv cfg n (cm_SessionLimitPerIP m) (cm_SessionLimitPerAccount m) st"
  using assms(1) unfolding vnc_reachable_def
proof (induction rule: rtranclp_induct)
  case base
  show ?case using vnc_init_inv [OF assms(2-4)] .
next
  case (step st st')
  then show ?case using vnc_step_inv by blast
qed

section \<open>Safety and a leak\<close>

definition sessions_of_ip :: "string \<Rightarrow> vnc_state \<Rightarrow> nat" where
  "sessions_of_ip ip st = size {#s \<in># vn_sessions st. se_ip s = ip#}"

definition sessions_of_account :: "string \<Rightarrow> vnc_state \<Rightarrow> nat" where
  "sessions_of_account a st = count (\<Sum>\<^sub># (image_mset holds (vn_sessions st))) a"

lemma count_image_ip: "count (image_mset se_ip M) ip = size {#s \<in># M. se_ip s = ip#}"
  by (induction M) auto


definition ex_config :: "ConfigModel res" where "ex_config = Inr sample_config"

text \<open>
  Two requests of different addresses: the first has the account \<open>b\<close>, the second the accounts \<open>a\<close> and
  \<open>b\<close>.  The second is refused at \<open>b\<close> after \<open>a\<close> was counted.
\<close>

definition ex_ip :: "string \<Rightarrow> int gomap \<Rightarrow> counter" where
  "ex_ip path xs = \<lparr>ct_counterType = CounterTypeIP, ct_configPath = path, ct_store = xs\<rparr>"

definition ex_acc :: "string \<Rightarrow> int gomap \<Rightarrow> counter" where
  "ex_acc path xs = \<lparr>ct_counterType = CounterTypeAccount, ct_configPath = path, ct_store = xs\<rparr>"

definition ex_state :: "string \<Rightarrow> int gomap \<Rightarrow> int gomap \<Rightarrow> session multiset \<Rightarrow> vnc_state" where
  "ex_state path xs ys M = \<lparr>vn_ip = ex_ip path xs, vn_acc = ex_acc path ys, vn_sessions = M\<rparr>"

definition ex_first :: "session_phase \<Rightarrow> session" where
  "ex_first ph = \<lparr>se_ip = ''1'', se_accounts = [''b''], se_phase = ph\<rparr>"

definition ex_second :: "session_phase \<Rightarrow> session" where
  "ex_second ph = \<lparr>se_ip = ''2'', se_accounts = [''a'', ''b''], se_phase = ph\<rparr>"

lemma ex_inc:
  "counter_inc ex_config k (ex_ip p xs) = (let v = (case map_of xs k of None \<Rightarrow> 0 | Some v \<Rightarrow> v) in
      if v + 1 > 1 then None else Some (ex_ip p (AList.update k (v + 1) xs)))"
  "counter_inc ex_config k (ex_acc p xs) = (let v = (case map_of xs k of None \<Rightarrow> 0 | Some v \<Rightarrow> v) in
      if v + 1 > 1 then None else Some (ex_acc p (AList.update k (v + 1) xs)))"
  by (auto simp: counter_inc_def Increase_def getMaxLimit_def getMaxLimitPerIP_def getMaxLimitPerAccount_def
      ex_config_def sample_config_def ex_ip_def ex_acc_def Let_def update_twice split: option.split)

lemma ex_uncount:
  "map_of xs k = Some v \<Longrightarrow> 1 \<le> v \<Longrightarrow> uncount k (ex_ip p xs) = ex_ip p (AList.update k (v - 1) xs)"
  "map_of xs k = Some v \<Longrightarrow> 1 \<le> v \<Longrightarrow> uncount k (ex_acc p xs) = ex_acc p (AList.update k (v - 1) xs)"
  by (auto simp: uncount_def Decrease_def ex_ip_def ex_acc_def)

lemmas ex_defs = ex_state_def ex_first_def ex_second_def Let_def

lemma vnc_next: "vnc_step cfg n st st' \<Longrightarrow> (vnc_step cfg n)\<^sup>*\<^sup>* st' st'' \<Longrightarrow> (vnc_step cfg n)\<^sup>*\<^sup>* st st''"
  by (rule converse_rtranclp_into_rtranclp)

text \<open>The second request arrives and is refused.\<close>

lemma ex_refused:
  "(vnc_step ex_config 2)\<^sup>*\<^sup>* (vnc_init path)
     (ex_state path [(''1'', 1), (''2'', 1)] [(''b'', 1), (''a'', 1)] {#ex_second (Closing []), ex_first (Opening [])#})"
proof -
  let ?S = "ex_state path" and ?step = "vnc_step ex_config 2"
  let ?one = "[(''1'', 1)]" and ?two = "[(''1'', 1), (''2'', 1)]" and ?b = "[(''b'', 1)]" and ?ba = "[(''b'', 1), (''a'', 1)]"
  have 0: "vnc_init path = ?S [] [] {#}"
    by (simp add: vnc_init_def NewCounter_def ex_state_def ex_ip_def ex_acc_def)
  have 1: "?step (?S [] [] {#}) (?S ?one [] {#ex_first (Opening [''b''])#})"
    using vnc_step.Arrive [of ex_config "''1''" "?S [] [] {#}" "ex_ip path ?one" "[''b'']" 2] by (simp add: ex_defs ex_inc)
  have 2: "?step (?S ?one [] {#ex_first (Opening [''b''])#}) (?S ?one ?b {#ex_first (Opening [])#})"
    using vnc_step.Count [of "?S ?one [] {#ex_first (Opening [''b''])#}" "ex_first (Opening [''b''])" "{#}" "''b''" "[]"
        ex_config "ex_acc path ?b" 2] by (simp add: ex_defs ex_inc)
  have 3: "?step (?S ?one ?b {#ex_first (Opening [])#})
      (?S ?two ?b {#ex_second (Opening [''a'', ''b'']), ex_first (Opening [])#})"
    using vnc_step.Arrive [of ex_config "''2''" "?S ?one ?b {#ex_first (Opening [])#}" "ex_ip path ?two" "[''a'', ''b'']" 2]
    by (simp add: ex_defs ex_inc)
  have 4: "?step (?S ?two ?b {#ex_second (Opening [''a'', ''b'']), ex_first (Opening [])#})
      (?S ?two ?ba {#ex_second (Opening [''b'']), ex_first (Opening [])#})"
    using vnc_step.Count [of "?S ?two ?b {#ex_second (Opening [''a'', ''b'']), ex_first (Opening [])#}"
        "ex_second (Opening [''a'', ''b''])" "{#ex_first (Opening [])#}" "''a''" "[''b'']" ex_config "ex_acc path ?ba" 2]
    by (simp add: ex_defs ex_inc)
  have 5: "?step (?S ?two ?ba {#ex_second (Opening [''b'']), ex_first (Opening [])#})
      (?S ?two ?ba {#ex_second (Closing []), ex_first (Opening [])#})"
    using vnc_step.Refuse [of "?S ?two ?ba {#ex_second (Opening [''b'']), ex_first (Opening [])#}"
        "ex_second (Opening [''b''])" "{#ex_first (Opening [])#}" "''b''" "[]" ex_config 2]
    by (simp add: ex_defs ex_inc)
  show ?thesis
    unfolding 0 by (rule vnc_next, rule 1, rule vnc_next, rule 2, rule vnc_next, rule 3, rule vnc_next, rule 4,
        rule vnc_next, rule 5, rule rtranclp.rtrancl_refl)
qed

text \<open>Both requests leave.\<close>

lemma ex_left:
  "(vnc_step ex_config 2)\<^sup>*\<^sup>*
     (ex_state path [(''1'', 1), (''2'', 1)] [(''b'', 1), (''a'', 1)] {#ex_second (Closing []), ex_first (Opening [])#})
     (ex_state path [(''1'', 0), (''2'', 0)] [(''b'', 0), (''a'', 1)] {#})"
proof -
  let ?S = "ex_state path" and ?step = "vnc_step ex_config 2"
  let ?one = "[(''1'', 1)]" and ?two = "[(''1'', 1), (''2'', 1)]" and ?b = "[(''b'', 1)]" and ?ba = "[(''b'', 1), (''a'', 1)]"
  have 6: "?step (?S ?two ?ba {#ex_second (Closing []), ex_first (Opening [])#})
      (?S [(''1'', 1), (''2'', 0)] ?ba {#ex_first (Opening [])#})"
    using vnc_step.Leave [of "?S ?two ?ba {#ex_second (Closing []), ex_first (Opening [])#}"
        "ex_second (Closing [])" "{#ex_first (Opening [])#}" ex_config 2]
    by (simp add: ex_defs ex_uncount)
  have 7: "?step (?S [(''1'', 1), (''2'', 0)] ?ba {#ex_first (Opening [])#})
      (?S [(''1'', 1), (''2'', 0)] ?ba {#ex_first Streaming#})"
    using vnc_step.Serve [of "?S [(''1'', 1), (''2'', 0)] ?ba {#ex_first (Opening [])#}" "ex_first (Opening [])" "{#}" ex_config 2]
    by (simp add: ex_defs)
  have 8: "?step (?S [(''1'', 1), (''2'', 0)] ?ba {#ex_first Streaming#})
      (?S [(''1'', 1), (''2'', 0)] ?ba {#ex_first (Closing [''b''])#})"
    using vnc_step.Stop [of "?S [(''1'', 1), (''2'', 0)] ?ba {#ex_first Streaming#}" "ex_first Streaming" "{#}" ex_config 2]
    by (simp add: ex_defs)
  have 9: "?step (?S [(''1'', 1), (''2'', 0)] ?ba {#ex_first (Closing [''b''])#})
      (?S [(''1'', 1), (''2'', 0)] [(''b'', 0), (''a'', 1)] {#ex_first (Closing [])#})"
    using vnc_step.Uncount [of "?S [(''1'', 1), (''2'', 0)] ?ba {#ex_first (Closing [''b''])#}" "ex_first (Closing [''b''])"
        "{#}" "''b''" "[]" ex_config 2] by (simp add: ex_defs ex_uncount)
  have 10: "?step (?S [(''1'', 1), (''2'', 0)] [(''b'', 0), (''a'', 1)] {#ex_first (Closing [])#})
      (?S [(''1'', 0), (''2'', 0)] [(''b'', 0), (''a'', 1)] {#})"
    using vnc_step.Leave [of "?S [(''1'', 1), (''2'', 0)] [(''b'', 0), (''a'', 1)] {#ex_first (Closing [])#}"
        "ex_first (Closing [])" "{#}" ex_config 2] by (simp add: ex_defs ex_uncount)
  show ?thesis
    by (rule vnc_next, rule 6, rule vnc_next, rule 7, rule vnc_next, rule 8, rule vnc_next, rule 9,
        rule vnc_next, rule 10, rule rtranclp.rtrancl_refl)
qed

text \<open>
  Claim C35.  A refusal leaks: with limits of one session, a state is reachable in which no session is
  left and an account is still counted, so that every further request of that account is refused.
\<close>
theorem refused_account_locked_out:
  "\<exists>st. vnc_reachable ex_config 2 path st \<and> vn_sessions st = {#} \<and>
     counted (vn_acc st) ''a'' = 1 \<and> counter_inc ex_config ''a'' (vn_acc st) = None"
proof -
  have "vnc_reachable ex_config 2 path (ex_state path [(''1'', 0), (''2'', 0)] [(''b'', 0), (''a'', 1)] {#})"
    unfolding vnc_reachable_def by (rule rtranclp_trans [OF ex_refused ex_left])
  then show ?thesis
    by (intro exI [of _ "ex_state path [(''1'', 0), (''2'', 0)] [(''b'', 0), (''a'', 1)] {#}"])
      (simp add: ex_state_def ex_inc, simp add: ex_acc_def counted_def)
qed


end
