(* ===== verification/GoHttp.thy ===== *)
theory GoHttp
  imports GoIO "HOL-Library.AList"
begin

text \<open>
  What the services use of \<open>net/http\<close>: headers with canonical keys, requests, and cookies, which the
  standard library reads from the Cookie headers of a request.
\<close>

section \<open>Headers and requests\<close>

type_synonym header = "string list gomap"

definition hget :: "header \<Rightarrow> string \<Rightarrow> string" where
  "hget h k = (case map_of h k of Some (v # _) \<Rightarrow> v | _ \<Rightarrow> [])"

definition hvalues :: "header \<Rightarrow> string \<Rightarrow> string list" where
  "hvalues h k = (case map_of h k of Some vs \<Rightarrow> vs | None \<Rightarrow> [])"

definition hset :: "string \<Rightarrow> string \<Rightarrow> header \<Rightarrow> header" where
  "hset k v h = AList.update k [v] h"

definition hadd :: "string \<Rightarrow> string \<Rightarrow> header \<Rightarrow> header" where
  "hadd k v h = AList.update k (hvalues h k @ [v]) h"

definition hdel :: "string \<Rightarrow> header \<Rightarrow> header" where
  "hdel k h = AList.delete k h"

text \<open>The query is the list of its parameters.\<close>

record HttpRequest =
  hr_Method :: string
  hr_Path :: string
  hr_Query :: "string list gomap"
  hr_Host :: string
  hr_Header :: header

section \<open>Cookies\<close>

record Cookie =
  ck_Name :: string
  ck_Value :: string

text \<open>The blanks of the header syntax, fewer than those of \<open>strings.TrimSpace\<close>.\<close>

definition ascii_space :: "char \<Rightarrow> bool" where
  "ascii_space c = ((of_char c :: nat) \<in> {9, 10, 13, 32})"

definition TrimString :: "string \<Rightarrow> string" where
  "TrimString s = rev (dropWhile ascii_space (rev (dropWhile ascii_space s)))"

definition token_char :: "char \<Rightarrow> bool" where
  "token_char c = (let n = (of_char c :: nat) in
     (48 \<le> n \<and> n \<le> 57) \<or> (65 \<le> n \<and> n \<le> 90) \<or> (97 \<le> n \<and> n \<le> 122) \<or>
     n \<in> {33, 35, 36, 37, 38, 39, 42, 43, 45, 46, 94, 95, 96, 124, 126})"

definition cookie_value_char :: "char \<Rightarrow> bool" where
  "cookie_value_char c = (let n = (of_char c :: nat) in 32 \<le> n \<and> n < 127 \<and> n \<notin> {34, 59, 92})"

definition unquote_value :: "string \<Rightarrow> string" where
  "unquote_value raw = (if length raw > 1 \<and> hd raw = CHR 0x22 \<and> last raw = CHR 0x22
     then butlast (List.tl raw) else raw)"

definition before_eq :: "string \<Rightarrow> string" where
  "before_eq part = takeWhile (\<lambda>c. c \<noteq> CHR ''='') part"

definition after_eq :: "string \<Rightarrow> string" where
  "after_eq part = drop 1 (dropWhile (\<lambda>c. c \<noteq> CHR ''='') part)"

text \<open>A part of a Cookie header: a part that is no cookie is skipped.\<close>

definition read_cookie :: "string \<Rightarrow> Cookie option" where
  "read_cookie part0 = (let part = TrimString part0; name = TrimString (before_eq part);
       val = unquote_value (after_eq part)
     in if part = [] \<or> name = [] \<or> \<not> list_all token_char name \<or> \<not> list_all cookie_value_char val then None
        else Some \<lparr>ck_Name = name, ck_Value = val\<rparr>)"

text \<open>The library trims a header before it cuts it, which makes no difference, since the parts are trimmed.\<close>

definition read_cookies :: "string list \<Rightarrow> Cookie list" where
  "read_cookies lines = concat (map (\<lambda>l. List.map_filter read_cookie (Split l '';'')) lines)"

definition Cookies :: "HttpRequest \<Rightarrow> Cookie list" where
  "Cookies r = read_cookies (hvalues (hr_Header r) ''Cookie'')"

abbreviation ErrNoCookie :: goerror where "ErrNoCookie \<equiv> PlainErr ''http: named cookie not present''"

definition get_cookie :: "HttpRequest \<Rightarrow> string \<Rightarrow> string res" where
  "get_cookie r name = (case find (\<lambda>c. ck_Name c = name) (Cookies r) of
     None \<Rightarrow> Inl ErrNoCookie | Some c \<Rightarrow> Inr (ck_Value c))"

text \<open>\<open>AddCookie\<close> of a cookie without a value; its name is that of a cookie that was read.\<close>

definition add_empty_cookie :: "string \<Rightarrow> HttpRequest \<Rightarrow> HttpRequest" where
  "add_empty_cookie name r = (let c = hget (hr_Header r) ''Cookie''; s = name @ ''='' in
     r\<lparr>hr_Header := hset ''Cookie'' (if c = [] then s else c @ ''; '' @ s) (hr_Header r)\<rparr>)"

section \<open>Tokens in cookies\<close>

text \<open>A token that is spread over the cookies \<open>pfx0\<close>, \<open>pfx1\<close> and so on, their number being in the cookie
  \<open>count\<close>.\<close>

fun join_parts :: "HttpRequest \<Rightarrow> string \<Rightarrow> nat \<Rightarrow> nat \<Rightarrow> string res" where
  "join_parts r pfx num 0 = Inr []"
| "join_parts r pfx num (Suc left) = (case get_cookie r (pfx @ nat_str num) of
     Inl err \<Rightarrow> Inl err
   | Inr v \<Rightarrow> (case join_parts r pfx (Suc num) left of Inl err \<Rightarrow> Inl err | Inr rest \<Rightarrow> Inr (v @ rest)))"

section \<open>Facts\<close>

lemma hvalues_hset [simp]: "hvalues (hset k v h) k' = (if k' = k then [v] else hvalues h k')"
  by (auto simp: hvalues_def hset_def update_conv')

lemma hget_hset [simp]: "hget (hset k v h) k' = (if k' = k then v else hget h k')"
  by (auto simp: hget_def hset_def update_conv')

lemma hget_hdel [simp]: "hget (hdel k h) k' = (if k' = k then [] else hget h k')"
  by (auto simp: hget_def hdel_def delete_conv')

lemma hvalues_hdel [simp]: "hvalues (hdel k h) k' = (if k' = k then [] else hvalues h k')"
  by (auto simp: hvalues_def hdel_def delete_conv')

lemma hvalues_hadd [simp]: "hvalues (hadd k v h) k' = (if k' = k then hvalues h k @ [v] else hvalues h k')"
  by (auto simp: hvalues_def hadd_def update_conv')

lemma hget_hadd_other [simp]: "k' \<noteq> k \<Longrightarrow> hget (hadd k v h) k' = hget h k'"
  by (auto simp: hget_def hadd_def update_conv')

text \<open>A token that was split over cookies is joined again.\<close>

lemma join_parts_all:
  assumes "\<And>i. i < n \<Longrightarrow> get_cookie r (pfx @ nat_str (k + i)) = Inr (parts ! i)" "length parts = n"
  shows "join_parts r pfx k n = Inr (concat parts)"
  using assms
proof (induction n arbitrary: k parts)
  case (Suc n)
  then obtain p ps where parts: "parts = p # ps" by (cases parts) auto
  have "get_cookie r (pfx @ nat_str k) = Inr p" using Suc.prems(1) [of 0] parts by simp
  moreover have "get_cookie r (pfx @ nat_str (Suc k + i)) = Inr (ps ! i)" if "i < n" for i
    using Suc.prems(1) [of "Suc i"] that parts by simp
  then have "join_parts r pfx (Suc k) n = Inr (concat ps)" using Suc.prems(2) parts by (intro Suc.IH) auto
  ultimately show ?case by (simp add: parts)
qed simp

lemma join_parts_missing:
  assumes "join_parts r pfx k n = Inr t" "i < n"
  shows "\<exists>v. get_cookie r (pfx @ nat_str (k + i)) = Inr v"
  using assms
proof (induction n arbitrary: k t i)
  case (Suc n)
  then show ?case by (cases i) (fastforce split: sum.splits)+
qed simp

end
