(* ===== verification/ArmVnc.thy ===== *)
theory ArmVnc
  imports ArmVirt ArmSessions ArmForward GoHttp
begin

text \<open>
  The handler of VNC requests (internal/kubevirt/manager.go, GetVNCWebSocketHandler): who may open a
  console, and what it counts.

  The two counters are shared by all requests; while a request waits for an answer, others may change
  them, so that every external call may.  The deferred calls run however the handler leaves, also when it
  panics.
\<close>

section \<open>The server\<close>

record 'w vnc_env =
  ve_ip :: counter
  ve_acc :: counter
  ve_rest :: 'w

text \<open>The interceptor that checks a token, the console, the upgrade of the connection, and the forwarding
  in both directions are parameters.\<close>

record 'w VncServer =
  vs_arm :: "'w vnc_env ArmServer"
  vs_tokenCheck :: bool
  vs_Authenticate :: "NbCtx \<Rightarrow> NbCtx res"
  vs_OpenVNC :: "string \<Rightarrow> string \<Rightarrow> string \<Rightarrow> 'w vnc_env \<Rightarrow> goerror option \<times> 'w vnc_env"
  vs_Upgrade :: "HttpRequest \<Rightarrow> 'w vnc_env \<Rightarrow> goerror option \<times> 'w vnc_env"
  vs_Forward :: "int \<Rightarrow> int \<Rightarrow> 'w vnc_env \<Rightarrow> unit \<times> 'w vnc_env"

type_synonym ('w, 'a) vncio = "('w vnc_env, 'a) armio"

definition gdefer :: "('s, 'a) handler \<Rightarrow> ('s, unit) state \<Rightarrow> ('s, 'a) handler" where
  "gdefer m d = do { r \<leftarrow> m; _ \<leftarrow> d; State_Monad.return r }"

text \<open>A failure to write the answer is only logged.\<close>

definition setErrorStatus :: "int \<Rightarrow> string \<Rightarrow> ('w, unit) vncio" where
  "setErrorStatus statusCode errMsg = do {
     _ \<leftarrow> call (ArmVNC (ErrorStatus statusCode errMsg)) (\<lambda>e. ((), e)); gret () }"

definition or_status :: "('w, 'a) vncio \<Rightarrow> int \<Rightarrow> string \<Rightarrow> ('a \<Rightarrow> ('w, unit) vncio) \<Rightarrow> ('w, unit) vncio" where
  "or_status m statusCode msg k = gcatch m (\<lambda>r. case r of
     Inl err \<Rightarrow> setErrorStatus statusCode (msg @ err_msg err)
   | Inr x \<Rightarrow> k x)"

section \<open>The token\<close>

text \<open>The token is split over cookies; their number is in a cookie of its own, and a negative one is
  none.\<close>

definition getCombinedJWTToken :: "HttpRequest \<Rightarrow> string res" where
  "getCombinedJWTToken r = (case get_cookie r ''keycloak-tokens'' of
     Inl err \<Rightarrow> Inl err
   | Inr numStr \<Rightarrow> (case Atoi numStr of
       Inl err \<Rightarrow> Inl err
     | Inr num \<Rightarrow> join_parts r ''keycloak-token-'' 0 (nat num)))"

section \<open>Counting\<close>

text \<open>The limit is read from the configuration file at every increase.\<close>

definition increase_ip :: "'w VncServer \<Rightarrow> string \<Rightarrow> ('w, unit) vncio" where
  "increase_ip vs key = do {
     r \<leftarrow> call (ArmVNC (IncIP key)) (\<lambda>e.
       let (cfg, e') = as_ReadConfig (am_srv (vs_arm vs)) (ct_configPath (ve_ip e)) e
       in case Increase cfg key (ve_ip e') of
            Panicked \<Rightarrow> (Panicked, e')
          | Ret (None, c) \<Rightarrow> (Ret (Inr ()), e'\<lparr>ve_ip := c\<rparr>)
          | Ret (Some err, c) \<Rightarrow> (Ret (Inl err), e'\<lparr>ve_ip := c\<rparr>));
     gpure r }"

definition increase_account :: "'w VncServer \<Rightarrow> string \<Rightarrow> ('w, unit) vncio" where
  "increase_account vs key = do {
     r \<leftarrow> call (ArmVNC (IncAccount key)) (\<lambda>e.
       let (cfg, e') = as_ReadConfig (am_srv (vs_arm vs)) (ct_configPath (ve_acc e)) e
       in case Increase cfg key (ve_acc e') of
            Panicked \<Rightarrow> (Panicked, e')
          | Ret (None, c) \<Rightarrow> (Ret (Inr ()), e'\<lparr>ve_acc := c\<rparr>)
          | Ret (Some err, c) \<Rightarrow> (Ret (Inl err), e'\<lparr>ve_acc := c\<rparr>));
     gpure r }"

definition decrease_ip :: "string \<Rightarrow> ((arm_ev, 'w vnc_env) world, unit) state" where
  "decrease_ip key = call (ArmVNC (DecIP key)) (\<lambda>e. ((), e\<lparr>ve_ip := uncount key (ve_ip e)\<rparr>))"

definition decrease_account :: "string \<Rightarrow> ((arm_ev, 'w vnc_env) world, unit) state" where
  "decrease_account key = call (ArmVNC (DecAccount key)) (\<lambda>e. ((), e\<lparr>ve_acc := uncount key (ve_acc e)\<rparr>))"

section \<open>The handler\<close>

text \<open>The console and the connection; the read limit is set on the connection, then data is forwarded
  until one side stops.\<close>

definition getVNCStream ::
  "'w VncServer \<Rightarrow> NbCtx \<Rightarrow> string \<Rightarrow> string \<Rightarrow> string \<Rightarrow> ('w, unit) vncio" where
  "getVNCStream vs x client appID vmID = gtry (getKubevirtVirtualMachine (vs_arm vs) x client appID vmID) (\<lambda>vm.
     gcheck (call (ArmVNC (OpenVNC client (om_Namespace (vm_Meta vm)) (om_Name (vm_Meta vm))))
       (vs_OpenVNC vs client (om_Namespace (vm_Meta vm)) (om_Name (vm_Meta vm)))))"

definition serve_vnc :: "'w VncServer \<Rightarrow> ConfigModel \<Rightarrow> HttpRequest \<Rightarrow> NbCtx \<Rightarrow> vncPath \<Rightarrow> ('w, unit) vncio" where
  "serve_vnc vs cfg r x path =
     or_status (clusterClient (vs_arm vs) x (vp_clusterID path)) 404 ''failed to get kubevirt client, error: '' (\<lambda>client.
     or_status (getVNCStream vs x client (vp_appID path) (vp_vmID path)) 404 ''failed to get VNC stream, error: '' (\<lambda>_.
     or_status (gcheck (call (ArmVNC Upgrade) (vs_Upgrade vs r))) 400 ''failed to call websocket upgrade, error: '' (\<lambda>_.
     do { _ \<leftarrow> call (ArmVNC (SetReadLimit (cm_ReadLimitByte cfg))) (\<lambda>e. ((), e));
          _ \<leftarrow> call (ArmVNC (Forward (cm_DlIdleTimeoutMin cfg) (cm_UlIdleTimeoutMin cfg)))
                (vs_Forward vs (cm_DlIdleTimeoutMin cfg) (cm_UlIdleTimeoutMin cfg));
          gret () })))"

text \<open>An account at its limit ends the request before the decrease of the accounts is deferred.\<close>

fun count_accounts :: "'w VncServer \<Rightarrow> string list \<Rightarrow> ('w, unit) vncio \<Rightarrow> ('w, unit) vncio" where
  "count_accounts vs [] k = k"
| "count_accounts vs (a # as) k =
     or_status (increase_account vs a) 429
       (''session request per account exceeds the limit, account: '' @ a @ '', err: '') (\<lambda>_. count_accounts vs as k)"

definition counted_session ::
  "'w VncServer \<Rightarrow> string \<Rightarrow> string list \<Rightarrow> ('w, unit) vncio \<Rightarrow> ('w, unit) vncio" where
  "counted_session vs remoteIP accounts serve =
     or_status (increase_ip vs remoteIP) 429
       (''session request per IP exceeds the limit, ip: '' @ remoteIP @ '', error: '') (\<lambda>_.
     gdefer (count_accounts vs accounts (gdefer serve (for_each decrease_account accounts))) (decrease_ip remoteIP))"

text \<open>The context with the token and the project of the path.\<close>

definition token_ctx :: "NbCtx \<Rightarrow> vncPath \<Rightarrow> string \<Rightarrow> NbCtx" where
  "token_ctx x path token = x\<lparr>x_md := Some [(''authorization'', [''Bearer '' @ token]), (''activeprojectid'', [vp_projectID path])]\<rparr>"

text \<open>Authentication and authorisation: the context of the request and its accounts.  Without the policy
  agent the context is empty and there are no accounts.\<close>

definition authorize_vnc :: "'w VncServer \<Rightarrow> NbCtx \<Rightarrow> vncPath \<Rightarrow> string \<Rightarrow>
   (NbCtx \<Rightarrow> string list \<Rightarrow> ('w, unit) vncio) \<Rightarrow> ('w, unit) vncio" where
  "authorize_vnc vs x path tokenString k =
     (if IsOPAEnabled (am_environ (vs_arm vs)) then
        or_status (gpure (Ret (vs_Authenticate vs (token_ctx x path tokenString)))) 401 ''failed to parse token string, error: '' (\<lambda>outCtx.
         or_status (IsAuthorized (vs_arm vs) outCtx (GetVNCRequest (vp_appID path) (vp_clusterID path) (vp_vmID path)))
           401 ''access denied by OPA rules, error: '' (\<lambda>_.
         case x_md outCtx of
           None \<Rightarrow> setErrorStatus 401 ''failed to get username from token, error: <nil>''
         | Some md \<Rightarrow> k outCtx (case map_of md ''preferred_username'' of None \<Rightarrow> [] | Some as \<Rightarrow> as)))
      else k \<lparr>x_md = None, x_out = []\<rparr> [])"

definition remote_ip :: "HttpRequest \<Rightarrow> string" where
  "remote_ip r = hd (Split (hget (hr_Header r) ''X-Forwarded-For'') '','')"

definition origin_allowed :: "ConfigModel \<Rightarrow> HttpRequest \<Rightarrow> bool" where
  "origin_allowed cfg r = (hget (hr_Header r) ''Origin'' \<in> set (cm_AllowedOrigins cfg))"

definition forwarded_ok :: "ConfigModel \<Rightarrow> HttpRequest \<Rightarrow> bool" where
  "forwarded_ok cfg r = (hget (hr_Header r) ''X-Forwarded-Host'' = cm_HostName cfg)"

text \<open>The checks of the request, in the order of the code.\<close>

definition handle_vnc :: "'w VncServer \<Rightarrow> NbCtx \<Rightarrow> HttpRequest \<Rightarrow> ConfigModel \<Rightarrow> ('w, unit) vncio" where
  "handle_vnc vs x r cfgModel =
     (if \<not> origin_allowed cfgModel r then
       setErrorStatus 403 (''failed to validate http origin due to no or wrong origins in http header, received origins: ''
         @ hget (hr_Header r) ''Origin'' @ '', allowed origins: ['' @ Join (cm_AllowedOrigins cfgModel) '' '' @ '']'')
     else if \<not> forwarded_ok cfgModel r then
       setErrorStatus 403 (''failed to validate http origin due to no or wrong forwarded host info, received forwarded host: ''
         @ hget (hr_Header r) ''X-Forwarded-Host'' @ '', expected forwarded host: '' @ cm_HostName cfgModel)
     else
       or_status (gpure (Ret (if vs_tokenCheck vs then getCombinedJWTToken r else Inr []))) 400
         ''cannot get JWT token to Authenticate: '' (\<lambda>tokenString.
       or_status (gpure (Ret (newVNCPath (hr_Path r)))) 404 ''failed to parse VNC path, error: '' (\<lambda>path.
       authorize_vnc vs x path tokenString (\<lambda>outCtx accounts.
       counted_session vs (remote_ip r) accounts (serve_vnc vs cfgModel r outCtx path)))))"

definition GetVNCWebSocketHandler :: "'w VncServer \<Rightarrow> NbCtx \<Rightarrow> HttpRequest \<Rightarrow> ('w, unit) vncio" where
  "GetVNCWebSocketHandler vs x r =
     or_status (readConfig (vs_arm vs)) 500 ''failed to get config model, err: '' (handle_vnc vs x r)"

end
