(* ===== verification/ArmSample.thy ===== *)
theory ArmSample
  imports ArmNorth ArmVnc
begin

text \<open>
  A small App Resource Manager for the concrete instances of the properties: one cluster with one virtual
  machine, whose calls leave the world alone, and a policy agent that allows everything.
\<close>

definition sample_annotations :: labels where
  "sample_annotations = [(''meta.helm.sh/release-name'', ''app-1'')]"

definition sample_vm :: VirtualMachine where
  "sample_vm = \<lparr>vm_Meta = empty_meta\<lparr>om_Name := ''vm'', om_Namespace := ''ns'', om_UID := ''0f8fad5b-d9cb-469f-a165-70867728950e'',
       om_Annotations := Some sample_annotations\<rparr>,
     vm_PrintableStatus = ''Running'', vm_Ready = True, vm_Running = Some True\<rparr>"

definition sample_owner :: ObjectMeta where
  "sample_owner = empty_meta\<lparr>om_Name := ''web'', om_Annotations := Some sample_annotations\<rparr>"

definition sample_arm_kube :: "'w ArmKubeApi" where
  "sample_arm_kube = \<lparr>
     ak_ListVMs = (\<lambda>_ _ w. (Inr [sample_vm], w)),
     ak_VMStart = (\<lambda>_ _ _ w. (None, w)), ak_VMStop = (\<lambda>_ _ _ w. (None, w)), ak_VMRestart = (\<lambda>_ _ _ w. (None, w)),
     ak_ListPods = (\<lambda>_ _ _ w. (Inr [], w)), ak_DeletePod = (\<lambda>_ _ _ w. (None, w)),
     ak_GetOwner = (\<lambda>_ _ _ _ w. (Inr sample_owner, w)),
     ak_ListServices = (\<lambda>_ _ w. (Inr [], w)), ak_Endpoints = (\<lambda>_ _ _ w. (Inr 0, w)),
     ak_ListIngresses = (\<lambda>_ _ w. (Inr [], w))\<rparr>"

definition sample_arm_services :: "'w ArmServices" where
  "sample_arm_services = \<lparr>
     as_GetM2MToken = (\<lambda>_ w. (Inr ''token'', w)), as_Logout = (\<lambda>_ w. (None, w)),
     as_GetKubeConfig = (\<lambda>_ _ w. (Inr (Some ''kubeconfig''), w)), as_GetAppNamespace = (\<lambda>_ _ w. (Inr ''ns'', w)),
     as_PostRule = (\<lambda>_ _ _ w. (Inr \<lparr>opa_JSON200 = Some (OpaBool True)\<rparr>, w)),
     as_ReadConfig = (\<lambda>_ w. (Inr sample_config, w))\<rparr>"

definition sample_arm :: "'w ArmServer" where
  "sample_arm = \<lparr>am_kube = sample_arm_kube, am_srv = sample_arm_services, am_configPath = ''config.yaml'',
     am_environ = [(''OIDC_SERVER_URL'', ''https://keycloak''), (''OPA_ENABLED'', ''true''), (''OPA_PORT'', ''9191''),
       (''RATE_LIMITER_QPS'', ''30''), (''RATE_LIMITER_BURST'', ''2000'')],
     am_oidcURL = ''https://keycloak'', am_opaClient = True, am_Status = (\<lambda>e. e),
     am_marshal = (\<lambda>_ _. Inr ''{}''), am_opa_text = (\<lambda>_. []), am_RESTConfig = (\<lambda>_. None),
     am_NewForConfig = (\<lambda>_. None), am_ParseFloat = (\<lambda>_. Inr ()), am_AuthFromMD = (\<lambda>_ _. Inr ''token'')\<rparr>"

text \<open>The token of a request names one account.\<close>

definition sample_vnc :: "'w VncServer" where
  "sample_vnc = \<lparr>vs_arm = sample_arm, vs_tokenCheck = False,
     vs_Authenticate = (\<lambda>x. Inr (x\<lparr>x_md := map_option ((#) (''preferred_username'', [''alice''])) (x_md x)\<rparr>)),
     vs_OpenVNC = (\<lambda>_ _ _ e. (None, e)), vs_Upgrade = (\<lambda>_ e. (None, e)), vs_Forward = (\<lambda>_ _ e. ((), e))\<rparr>"

definition sample_vnc_request :: HttpRequest where
  "sample_vnc_request = \<lparr>hr_Method = ''GET'', hr_Path = ''/vnc/p/app-1/c/0f8fad5b-d9cb-469f-a165-70867728950e'', hr_Query = [], hr_Host = ''arm'',
     hr_Header = [(''Origin'', [''https://vnc.example.org'']), (''X-Forwarded-Host'', [''vnc.example.org'']),
       (''X-Forwarded-For'', [''10.0.0.1''])]\<rparr>"

definition sample_vnc_world :: "(arm_ev, unit vnc_env) world" where
  "sample_vnc_world = \<lparr>env = \<lparr>ve_ip = NewCounter ''config.yaml'' CounterTypeIP,
     ve_acc = NewCounter ''config.yaml'' CounterTypeAccount, ve_rest = ()\<rparr>, trace = []\<rparr>"

end
