(* ===== verification/ArmProps.thy ===== *)
theory ArmProps
  imports ArmSample
begin

text \<open>
  Properties of the App Resource Manager: requests that are refused do nothing, operations act on the
  machine they name, and following the owners of a pod ends.
\<close>

section \<open>Authorisation\<close>

definition arm_rule_of :: "ArmRequest \<Rightarrow> string \<times> string" where
  "arm_rule_of r = (before_last_dot (arm_request_type r), after_last_dot (arm_request_type r))"

text \<open>The policy agent is not configured, or its answer is true.\<close>

definition arm_allowed :: "'w ArmServer \<Rightarrow> NbCtx \<Rightarrow> ArmRequest \<Rightarrow> 'w \<Rightarrow> bool" where
  "arm_allowed s x r w = (am_opaClient s \<longrightarrow> (case x_md x of
     None \<Rightarrow> False
   | Some md \<Rightarrow> (case am_marshal s r md of
       Inl _ \<Rightarrow> False
     | Inr body \<Rightarrow> (case fst (as_PostRule (am_srv s) (fst (arm_rule_of r)) (snd (arm_rule_of r)) body w) of
         Inl _ \<Rightarrow> False
       | Inr resp \<Rightarrow> opa_JSON200 resp = Some (OpaBool True)))))"

lemma IsAuthorized_result: "result (IsAuthorized s x r) w = Ret (Inr ()) \<longleftrightarrow> arm_allowed s x r (env w)"
  unfolding IsAuthorized_def arm_allowed_def arm_rule_of_def result_def Let_def
  by (simp add: run_gtry run_gmap_err run_glift split: option.split sum.split prod.split OpaResult.split bool.split)

definition only_asks_rule :: "arm_ev \<Rightarrow> bool" where
  "only_asks_rule e = (case e of ArmAuthorize _ _ _ \<Rightarrow> True | _ \<Rightarrow> False)"

lemma does_IsAuthorized: "does only_asks_rule (IsAuthorized s x r) (\<lambda>_. True)"
  unfolding IsAuthorized_def Let_def
  by (rule TrueI emits_intros | simp add: only_asks_rule_def split: option.split OpaResult.split, fail
    | auto simp: only_asks_rule_def intro!: emits_intros split: OpaResult.split)+

section \<open>Refused requests\<close>

definition arm_ok :: "'w ArmServer \<Rightarrow> NbCtx \<Rightarrow> ArmRequest option \<Rightarrow> 'w \<Rightarrow> bool" where
  "arm_ok s x req w = (case req of
     None \<Rightarrow> False
   | Some r \<Rightarrow> [] \<notin> set (request_fields r) \<and> ValidateAll r = None \<and> arm_allowed s x r w)"

text \<open>Refused: no call but the one to the rule, and no answer but an error.\<close>

definition refused :: "('w, 'a) armio \<Rightarrow> (arm_ev, 'w) world \<Rightarrow> bool" where
  "refused m w = (list_all only_asks_rule (effects m w) \<and>
     (case result m w of Ret (Inr _) \<Rightarrow> False | _ \<Rightarrow> True))"

lemma does_arm_checked: "does only_asks_rule (arm_checked s x what req) (\<lambda>_. True)"
  unfolding arm_checked_def by (intro emits_intros TrueI does_IsAuthorized)

lemma arm_checked_result: "result (arm_checked s x what req) w = Ret (Inr ()) \<longleftrightarrow> arm_ok s x req (env w)"
  by (auto simp: arm_checked_def arm_ok_def gmap_err_Inr IsAuthorized_result split: option.split)
    (simp_all add: result_def)

lemma arm_service_refused:
  assumes "\<not> arm_ok s x req (env w)"
  shows "refused (arm_service s x what req serve) w"
proof -
  obtain r t where c: "run_state (arm_checked s x what req) w = (r, t)" by fastforce
  have "r \<noteq> Ret (Inr ())" using assms c by (simp add: result_def flip: arm_checked_result [where what = what])
  then have "effects (arm_service s x what req serve) w = effects (arm_checked s x what req) w"
    and "case result (arm_service s x what req serve) w of Ret (Inr _) \<Rightarrow> False | _ \<Rightarrow> True"
    by (auto simp: arm_service_def effects_def result_def run_gmap_err run_gtry c split: go.split sum.split)
  with does_effects [OF does_arm_checked] show ?thesis by (simp add: refused_def)
qed

text \<open>
  Claim C21.  A request to the App Resource Manager that has an empty field, breaks the rules of its message
  or is not allowed by the policy agent makes no call but the one to the agent, in particular none to a
  cluster, and is answered with an error.
\<close>
theorem arm_refused_requests:
  "(arm_ok s x (map_option (\<lambda>(a, c). ListAppWorkloadsRequest a c) lw) (env w) \<or> refused (ListAppWorkloads depth s x lw) w) \<and>
   (arm_ok s x (map_option (\<lambda>(a, c). ListAppEndpointsRequest a c) le) (env w) \<or> refused (ListAppEndpoints s x le) w) \<and>
   (arm_ok s x (map_option (\<lambda>(c, n, p). DeletePodRequest c n p) dp) (env w) \<or> refused (armDeletePod s x dp) w) \<and>
   (arm_ok s x (map_option (\<lambda>(a, c, v). GetVNCRequest a c v) vm) (env w) \<or> refused (GetVNC s x vm) w) \<and>
   (arm_ok s x (map_option (\<lambda>(a, c, v). RestartVMRequest a c v) vm) (env w) \<or> refused (RestartVirtualMachine s x vm) w) \<and>
   (arm_ok s x (map_option (\<lambda>(a, c, v). StartVMRequest a c v) vm) (env w) \<or> refused (StartVirtualMachine s x vm) w) \<and>
   (arm_ok s x (map_option (\<lambda>(a, c, v). StopVMRequest a c v) vm) (env w) \<or> refused (StopVirtualMachine s x vm) w)"
  unfolding ListAppWorkloads_def ListAppEndpoints_def armDeletePod_def GetVNC_def RestartVirtualMachine_def
    StartVirtualMachine_def StopVirtualMachine_def
  by (intro conjI) (metis arm_service_refused)+

section \<open>What requests write\<close>

text \<open>A machine of the application with the identifier, as the cluster lists it.\<close>

definition app_vm :: "'w ArmServer \<Rightarrow> string \<Rightarrow> string \<Rightarrow> VirtualMachine \<Rightarrow> bool" where
  "app_vm s appID vmID vm = (label_get (annotations_of (vm_Meta vm)) AnnotationKeyForAppID = appID \<and>
     om_UID (vm_Meta vm) = vmID \<and>
     (\<exists>client namespace w vms. fst (ak_ListVMs (am_kube s) client namespace w) = Inr vms \<and> vm \<in> set vms))"

definition writes_only :: "(arm_write \<Rightarrow> bool) \<Rightarrow> arm_ev \<Rightarrow> bool" where
  "writes_only P e = (case e of ArmWrite w \<Rightarrow> P w | ArmVNC _ \<Rightarrow> False | _ \<Rightarrow> True)"

lemma writes_only_simps [simp]:
  "writes_only P (ArmWrite w) = P w" "writes_only P (ArmRead r)" "writes_only P ArmToken" "writes_only P ArmLogout"
  "writes_only P (ArmAuthorize a b c)"
  by (simp_all add: writes_only_def)

lemmas adm_calls = armVault_def VaultAuth.simps admCtxWithToken_def admAddToOutgoingContext_def admGetAppNamespace_def
  admGetKubeConfig_def clusterClient_def Let_def

lemma does_clusterClient [emits_intros]: "(\<And>r. Q r) \<Longrightarrow> does (writes_only P) (clusterClient s x c) Q"
  unfolding adm_calls by (intro emits_intros TrueI writes_only_simps | assumption)+

lemma does_GetAppNamespace [emits_intros]: "(\<And>r. Q r) \<Longrightarrow> does (writes_only P) (admGetAppNamespace s x a) Q"
  unfolding adm_calls by (intro emits_intros TrueI writes_only_simps | assumption)+

lemma does_getVMs [emits_intros]:
  "(\<And>r. Q r) \<Longrightarrow> does (writes_only P) (getKubevirtVirtualMachineList s x client appID) Q"
  unfolding getKubevirtVirtualMachineList_def by (intro emits_intros TrueI writes_only_simps | assumption)+

lemma does_getVM [emits_intros]:
  "(\<And>r. Q r) \<Longrightarrow> does (writes_only P) (getKubevirtVirtualMachine s x client appID vmID) Q"
  unfolding getKubevirtVirtualMachine_def by (intro emits_intros TrueI writes_only_simps | assumption)+

lemma listed_vms:
  "returns (getKubevirtVirtualMachineList s x client appID) (\<lambda>vms. \<forall>vm \<in> set vms. app_vm s appID (om_UID (vm_Meta vm)) vm)"
proof -
  have list: "returns (gmap_err K8sToTypedError (glift (call ev (ak_ListVMs (am_kube s) client ns))))
      (\<lambda>vms. \<exists>w. fst (ak_ListVMs (am_kube s) client ns w) = Inr vms)" for ev ns
    by (auto simp: returns_def post_def run_gmap_err split: prod.split sum.split) (metis fst_conv)
  show ?thesis
    unfolding getKubevirtVirtualMachineList_def
    by (rule returns_gtry_any, rule returns_gtry [OF list]) (auto simp: app_vm_def)
qed

lemma found_vm: "returns (getKubevirtVirtualMachine s x client appID vmID) (app_vm s appID vmID)"
  unfolding getKubevirtVirtualMachine_def
  by (rule returns_gtry [OF listed_vms]) (auto split: option.split simp: find_Some_iff)

lemma does_on_vm:
  assumes "\<And>client vm. app_vm s appID vmID vm \<Longrightarrow>
    does (writes_only P) (op client (om_Namespace (vm_Meta vm)) (om_Name (vm_Meta vm))) (\<lambda>_. True)"
  shows "does (writes_only P) (on_vm s x appID clusterID vmID op) (\<lambda>_. True)"
  unfolding on_vm_def
  by (rule does_gtry_any, rule does_clusterClient TrueI)
    (auto intro!: does_gtry_returns [OF does_getVM found_vm] does_gmap_err does_gcheck assms does_clusterClient)

lemma does_arm_checked_writes: "does (writes_only P) (arm_checked s x what req) (\<lambda>_. True)"
  by (rule does_weaken [OF does_arm_checked]) (auto simp: only_asks_rule_def writes_only_def split: arm_ev.split)

lemma does_service:
  "(\<And>r. req = Some r \<Longrightarrow> does (writes_only P) serve (\<lambda>_. True)) \<Longrightarrow>
   does (writes_only P) (arm_service s x what req serve) (\<lambda>_. True)"
proof (cases req)
  case None
  then show ?thesis by (simp add: arm_service_def arm_checked_def gtry_gfail does_gmap_err does_gfail)
next
  case (Some r)
  assume "\<And>r. req = Some r \<Longrightarrow> does (writes_only P) serve (\<lambda>_. True)"
  with Some show ?thesis unfolding arm_service_def by (auto intro!: emits_intros does_arm_checked_writes)
qed

lemma does_owners:
  "(\<And>r. Q r) \<Longrightarrow> does (writes_only P) (checkOwnerAnnotations depth s kc meta namespace appID) Q"
  by (induction depth s kc meta namespace appID arbitrary: Q rule: checkOwnerAnnotations.induct)
    (auto intro!: emits_intros split: option.split)

lemma does_workloads:
  "does (writes_only P) (GetVMWorkloads s x a c) (\<lambda>_. True)" "does (writes_only P) (GetPodWorkloads depth s x a c) (\<lambda>_. True)"
  unfolding GetVMWorkloads_def GetPodWorkloads_def owned_pods_def Let_def
  by (intro emits_intros TrueI writes_only_simps does_owners)+

lemma does_endpoints: "does (writes_only P) (GetAppEndpointsV2 s x a c) (\<lambda>_. True)"
  unfolding GetAppEndpointsV2_def getServiceAppEndpointsV2_def getIngressAppEndpointsV2_def service_endpoint_def Let_def
  by (intro emits_intros TrueI writes_only_simps)+

lemma does_vnc_address: "does (writes_only P) (GetVNCAddress s x a c v) (\<lambda>_. True)"
  unfolding GetVNCAddress_def readConfig_def
  by (intro emits_intros TrueI writes_only_simps)+

text \<open>
  Claim C36.  The requests that start, stop or restart a virtual machine write nothing but that operation
  on a machine that the cluster lists, that carries the annotation of the application and has the
  requested identifier; the deletion of a pod deletes the named pod of the namespace only; the three read
  requests write nothing, whatever the clusters answer.
\<close>
theorem arm_writes_target:
  "does (writes_only (\<lambda>w. \<exists>k vm. app_vm s a v vm \<and> w = StartVMOf k (om_Namespace (vm_Meta vm)) (om_Name (vm_Meta vm))))
     (StartVirtualMachine s x (Some (a, c, v))) (\<lambda>_. True) \<and>
   does (writes_only (\<lambda>w. \<exists>k vm. app_vm s a v vm \<and> w = StopVMOf k (om_Namespace (vm_Meta vm)) (om_Name (vm_Meta vm))))
     (StopVirtualMachine s x (Some (a, c, v))) (\<lambda>_. True) \<and>
   does (writes_only (\<lambda>w. \<exists>k vm. app_vm s a v vm \<and> w = RestartVMOf k (om_Namespace (vm_Meta vm)) (om_Name (vm_Meta vm))))
     (RestartVirtualMachine s x (Some (a, c, v))) (\<lambda>_. True) \<and>
   does (writes_only (\<lambda>w. \<exists>k. w = DeletePodOf k n p)) (armDeletePod s x (Some (c, n, p))) (\<lambda>_. True) \<and>
   does (writes_only (\<lambda>_. False)) (ListAppWorkloads depth s x lw) (\<lambda>_. True) \<and>
   does (writes_only (\<lambda>_. False)) (ListAppEndpoints s x lw) (\<lambda>_. True) \<and>
   does (writes_only (\<lambda>_. False)) (GetVNC s x vm) (\<lambda>_. True)"
  unfolding StartVirtualMachine_def StopVirtualMachine_def RestartVirtualMachine_def armDeletePod_def ListAppWorkloads_def
    ListAppEndpoints_def GetVNC_def StartVM_def StopVM_def RestartVM_def DeletePod_def AccessVMWithVNC_def
    GetAppWorkLoads_def not_found_is_none_def
  by (intro conjI; rule does_service)
    (auto intro!: does_on_vm emits_intros does_workloads does_endpoints does_vnc_address)

section \<open>Owners of a pod\<close>

text \<open>Following the controllers ends where every controller that the cluster answers has a smaller rank.\<close>

definition owners_ranked :: "'w ArmServer \<Rightarrow> string \<Rightarrow> (ObjectMeta \<Rightarrow> nat) \<Rightarrow> bool" where
  "owners_ranked s kc rank = (\<forall>m ref kind namespace w owner.
     GetControllerOf m = Some ref \<longrightarrow> owner_kind_of (ow_Kind ref) = Some kind \<longrightarrow>
     fst (ak_GetOwner (am_kube s) kc kind namespace (ow_Name ref) w) = Inr owner \<longrightarrow> rank owner < rank m)"

definition no_panic :: "('s, 'a) handler \<Rightarrow> bool" where
  "no_panic m = post m (\<lambda>r. r \<noteq> Panicked)"

lemma no_panic_simps [simp]: "no_panic (gret x)" "no_panic (gfail e)"
  by (simp_all add: no_panic_def gret_def gfail_def)

lemma no_panic_gtry:
  "no_panic m \<Longrightarrow> returns m R \<Longrightarrow> (\<And>x. R x \<Longrightarrow> no_panic (f x)) \<Longrightarrow> no_panic (gtry m f)"
  unfolding no_panic_def returns_def gtry_def
  by (rule post_bind [OF post_conj], assumption, assumption) (auto split: go.splits sum.splits)

lemma owner_answer:
  "no_panic (gmap_err h (glift (call ev f)))"
  "returns (gmap_err h (glift (call ev f))) (\<lambda>x. \<exists>w. fst (f w) = Inr x)"
  by (auto simp: no_panic_def returns_def post_def run_gmap_err split: prod.split sum.split) (metis fst_conv)

lemma checkOwner_no_panic:
  assumes "owners_ranked s kc rank"
  shows "rank meta < depth \<Longrightarrow> no_panic (checkOwnerAnnotations depth s kc meta namespace appID)"
proof (induction depth arbitrary: meta)
  case (Suc depth)
  show ?case
  proof (cases "GetControllerOf meta")
    case (Some ref)
    show ?thesis
    proof (cases "owner_kind_of (ow_Kind ref)")
      case kind: (Some kind)
      have "no_panic (checkOwnerAnnotations depth s kc owner namespace appID)"
        if "\<exists>w. fst (ak_GetOwner (am_kube s) kc kind namespace (ow_Name ref) w) = Inr owner" for owner
        using that assms Some kind Suc.prems by (intro Suc.IH) (fastforce simp: owners_ranked_def)
      with Some kind show ?thesis by (auto intro: no_panic_gtry [OF owner_answer])
    qed (simp add: Some)
  qed simp
qed simp

text \<open>
  Claim C37.  Where the controllers of a cluster are ranked, looking for the application of a pod ends: it
  needs a stack no deeper than the rank of the pod and one more, and never panics.
\<close>
theorem owner_search_terminates:
  assumes "owners_ranked s kc rank" "rank meta < depth"
  shows "result (checkOwnerAnnotations depth s kc meta namespace appID) w \<noteq> Panicked"
  by (rule post_result [OF checkOwner_no_panic [OF assms, unfolded no_panic_def]])

lemma sample_owners_ranked:
  "owners_ranked (sample_arm :: unit ArmServer) kc (\<lambda>m. if GetControllerOf m = None then 0 else 1)"
  by (auto simp: owners_ranked_def sample_arm_def sample_arm_kube_def sample_owner_def empty_meta_def GetControllerOf_def)

lemma owner_search_terminates_witness:
  "result (checkOwnerAnnotations 2 sample_arm ''kubeconfig'' (empty_meta\<lparr>om_OwnerReferences := [\<lparr>ow_APIVersion = ''apps/v1'',
     ow_Kind = ''ReplicaSet'', ow_Name = ''web'', ow_UID = [], ow_Controller = True\<rparr>]\<rparr>) ''ns'' ''app-1'')
     \<lparr>env = (), trace = []\<rparr> \<noteq> Panicked"
  by (rule owner_search_terminates [OF sample_owners_ranked]) (simp add: GetControllerOf_def)

text \<open>A controller that is its own controller is followed for ever.\<close>

lemma owner_cycle_overflows:
  assumes "GetControllerOf m = Some ref" "owner_kind_of (ow_Kind ref) = Some kind"
    and "map_of (annotations_of m) AnnotationKeyForAppID \<noteq> Some appID"
    and "\<And>w. fst (ak_GetOwner (am_kube s) kc kind namespace (ow_Name ref) w) = Inr m"
  shows "result (checkOwnerAnnotations depth s kc m namespace appID) w = Panicked"
proof (induction depth arbitrary: w)
  case (Suc depth)
  obtain r e where call: "ak_GetOwner (am_kube s) kc kind namespace (ow_Name ref) (env w) = (r, e)" by fastforce
  with assms(4) [of "env w"] have "r = Inr m" by simp
  with call assms(1-3) Suc.IH show ?case
    by (simp add: result_def run_gtry run_gmap_err)
qed (simp add: result_def)

end
