(* ===== verification/ArmVncProps.thy ===== *)
theory ArmVncProps
  imports ArmProps
begin

text \<open>
  The VNC handler follows the state machine of the sessions, and opens a console for permitted requests
  only.
\<close>

section \<open>Computations that leave the counters alone\<close>

named_theorems still_intros

definition quiet :: "('w vnc_env \<Rightarrow> 'a \<times> 'w vnc_env) \<Rightarrow> bool" where
  "quiet f = (\<forall>e. ve_ip (snd (f e)) = ve_ip e \<and> ve_acc (snd (f e)) = ve_acc e)"

definition same_counters :: "('e, 'w vnc_env) world \<Rightarrow> ('e, 'w vnc_env) world \<Rightarrow> bool" where
  "same_counters s s' = (ve_ip (env s') = ve_ip (env s) \<and> ve_acc (env s') = ve_acc (env s))"

definition still :: "('e, 'w vnc_env, 'a) io \<Rightarrow> bool" where
  "still m = (\<forall>s. same_counters s (snd (run_state m s)))"

lemma same_trans: "same_counters s t \<Longrightarrow> same_counters t u \<Longrightarrow> same_counters s u"
  by (simp add: same_counters_def)

lemma still_return [still_intros]: "still (State_Monad.return x)"
  by (simp add: still_def same_counters_def)

lemma still_call [still_intros]: "quiet f \<Longrightarrow> still (call ev f)"
  by (simp add: still_def same_counters_def quiet_def case_prod_beta)

lemma still_bind [still_intros]: "still m \<Longrightarrow> (\<And>x. still (f x)) \<Longrightarrow> still (State_Monad.bind m f)"
  unfolding still_def by (auto split: prod.split) (metis same_trans snd_conv)

lemma still_cases [still_intros]:
  "(b \<Longrightarrow> still m) \<Longrightarrow> (\<not> b \<Longrightarrow> still m') \<Longrightarrow> still (if b then m else m')"
  "still n \<Longrightarrow> (\<And>x. still (fo x)) \<Longrightarrow> still (case opt of None \<Rightarrow> n | Some x \<Rightarrow> fo x)"
  "(\<And>x. still (fl x)) \<Longrightarrow> (\<And>x. still (fr x)) \<Longrightarrow> still (case_sum fl fr r)"
  "still p \<Longrightarrow> (\<And>x. still (fg x)) \<Longrightarrow> still (case_go fg p g)"
  by (simp_all split: option.split sum.split go.split)

lemma still_handlers [still_intros]:
  "still (gret x)" "still (gfail e)" "still gpanic" "still (gpure r)"
  "still m \<Longrightarrow> (\<And>x. still (f x)) \<Longrightarrow> still (gtry m f)"
  "still m \<Longrightarrow> (\<And>x. still (h x)) \<Longrightarrow> still (gcatch m h)"
  "still m \<Longrightarrow> still (gmap_err g m)"
  "still l \<Longrightarrow> still (glift l)"
  "still c \<Longrightarrow> still (gcheck c)"
  unfolding gret_def gfail_def gpanic_def gpure_def gtry_def gcatch_def gmap_err_def glift_def gcheck_def
  by (intro still_intros | assumption)+

lemma quiet_same [simp]: "quiet (\<lambda>e. (x, e))"
  by (simp add: quiet_def)

lemma still_status [still_intros]: "still (setErrorStatus c msg)"
  unfolding setErrorStatus_def by (intro still_intros quiet_same)

lemma still_or_status [still_intros]: "still m \<Longrightarrow> (\<And>x. still (k x)) \<Longrightarrow> still (or_status m c msg k)"
  unfolding or_status_def by (intro still_intros)

text \<open>Nobody else works on the counters: the calls of the handler leave them alone, and the configuration
  is \<open>cfg\<close>.\<close>

definition vs_quiet :: "ConfigModel res \<Rightarrow> 'w VncServer \<Rightarrow> bool" where
  "vs_quiet cfg vs = (let s = vs_arm vs in
     (\<forall>p. quiet (as_ReadConfig (am_srv s) p)) \<and> (\<forall>p e. fst (as_ReadConfig (am_srv s) p e) = cfg) \<and>
     (\<forall>c. quiet (as_GetM2MToken (am_srv s) c)) \<and> (\<forall>c. quiet (as_Logout (am_srv s) c)) \<and>
     (\<forall>c i. quiet (as_GetKubeConfig (am_srv s) c i)) \<and> (\<forall>c i. quiet (as_GetAppNamespace (am_srv s) c i)) \<and>
     (\<forall>p n b. quiet (as_PostRule (am_srv s) p n b)) \<and> (\<forall>k n. quiet (ak_ListVMs (am_kube s) k n)) \<and>
     (\<forall>k ns n. quiet (vs_OpenVNC vs k ns n)) \<and> (\<forall>r. quiet (vs_Upgrade vs r)) \<and> (\<forall>d u. quiet (vs_Forward vs d u)))"

lemma vs_quietD:
  assumes "vs_quiet cfg vs"
  shows "quiet (as_ReadConfig (am_srv (vs_arm vs)) p)" "fst (as_ReadConfig (am_srv (vs_arm vs)) p e) = cfg"
    "quiet (as_GetM2MToken (am_srv (vs_arm vs)) c)" "quiet (as_Logout (am_srv (vs_arm vs)) c)"
    "quiet (as_GetKubeConfig (am_srv (vs_arm vs)) c i)" "quiet (as_GetAppNamespace (am_srv (vs_arm vs)) c i)"
    "quiet (as_PostRule (am_srv (vs_arm vs)) p n b)" "quiet (ak_ListVMs (am_kube (vs_arm vs)) k n)"
    "quiet (vs_OpenVNC vs k ns n)" "quiet (vs_Upgrade vs r)" "quiet (vs_Forward vs d u)"
  using assms by (simp_all add: vs_quiet_def Let_def)

lemmas arm_calls = armVault_def VaultAuth.simps admCtxWithToken_def admAddToOutgoingContext_def admGetAppNamespace_def
  admGetKubeConfig_def clusterClient_def readConfig_def getKubevirtVirtualMachineList_def getKubevirtVirtualMachine_def
  getVNCStream_def Let_def

lemma still_serve: "vs_quiet cfg vs \<Longrightarrow> still (serve_vnc vs m r x path)"
  unfolding serve_vnc_def arm_calls by (intro still_intros vs_quietD quiet_same)

lemma still_authorized: "vs_quiet cfg vs \<Longrightarrow> still (IsAuthorized (vs_arm vs) x req)"
  unfolding IsAuthorized_def Let_def
  by (intro still_intros vs_quietD quiet_same | simp add: still_intros split: option.split OpaResult.split)+

lemma still_config: "vs_quiet cfg vs \<Longrightarrow> still (readConfig (vs_arm vs))"
  unfolding readConfig_def by (intro still_intros vs_quietD)

section \<open>The handler follows the state machine\<close>

definition vnc_of :: "session multiset \<Rightarrow> 'w vnc_env \<Rightarrow> vnc_state" where
  "vnc_of M e = \<lparr>vn_ip = ve_ip e, vn_acc = ve_acc e, vn_sessions = M\<rparr>"

text \<open>From the sessions \<open>M\<close> to the sessions \<open>N\<close>.\<close>

definition follows ::
  "ConfigModel res \<Rightarrow> nat \<Rightarrow> session multiset \<Rightarrow> session multiset \<Rightarrow> ('e, 'w vnc_env, 'a) io \<Rightarrow> bool" where
  "follows cfg n M N m = (\<forall>s. (vnc_step cfg n)\<^sup>*\<^sup>* (vnc_of M (env s)) (vnc_of N (env (snd (run_state m s)))))"

lemma followsD: "follows cfg n M N m \<Longrightarrow> run_state m s = (r, s') \<Longrightarrow>
    (vnc_step cfg n)\<^sup>*\<^sup>* (vnc_of M (env s)) (vnc_of N (env s'))"
  unfolding follows_def by (metis snd_conv)

lemma vnc_of_same: "same_counters s s' \<Longrightarrow> vnc_of M (env s') = vnc_of M (env s)"
  by (simp add: vnc_of_def same_counters_def)

lemma follows_still: "still m \<Longrightarrow> follows cfg n M M m"
  unfolding follows_def still_def by (metis rtranclp.rtrancl_refl vnc_of_same)

lemma follows_bind:
  assumes "follows cfg n M L m" "\<And>x. follows cfg n L N (f x)"
  shows "follows cfg n M N (State_Monad.bind m f)"
  unfolding follows_def
proof
  fix s
  obtain x t where m: "run_state m s = (x, t)" by fastforce
  obtain y u where f: "run_state (f x) t = (y, u)" by fastforce
  show "(vnc_step cfg n)\<^sup>*\<^sup>* (vnc_of M (env s)) (vnc_of N (env (snd (run_state (State_Monad.bind m f) s))))"
    using rtranclp_trans [OF followsD [OF assms(1) m] followsD [OF assms(2) f]] by (simp add: m f)
qed

lemma follows_step_after:
  fixes m :: "('e, 'w vnc_env, 'a) io"
  assumes "\<And>e :: 'w vnc_env. vnc_step cfg n (vnc_of M e) (vnc_of L e)" "follows cfg n L N m"
  shows "follows cfg n M N m"
  unfolding follows_def
proof
  fix s
  show "(vnc_step cfg n)\<^sup>*\<^sup>* (vnc_of M (env s)) (vnc_of N (env (snd (run_state m s))))"
    by (rule vnc_next, rule assms(1), rule assms(2) [unfolded follows_def, rule_format])
qed

lemma vnc_once: "vnc_step cfg n st st' \<Longrightarrow> (vnc_step cfg n)\<^sup>*\<^sup>* st st'"
  by (rule r_into_rtranclp)

lemma follows_call:
  assumes "\<And>e. vnc_step cfg n (vnc_of M e) (vnc_of N (snd (f e)))"
  shows "follows cfg n M N (call ev f)"
  unfolding follows_def
proof
  fix s
  show "(vnc_step cfg n)\<^sup>*\<^sup>* (vnc_of M (env s)) (vnc_of N (env (snd (run_state (call ev f) s))))"
    by (simp add: case_prod_beta vnc_once assms)
qed

lemma follows_uncounts:
  fixes m :: "(arm_ev, 'w vnc_env, unit) io"
  assumes "se_phase x = Closing as" "m = for_each decrease_account as"
  shows "follows cfg n (add_mset x M) (add_mset (x\<lparr>se_phase := Closing []\<rparr>) M) m"
  using assms
proof (induction as arbitrary: x m)
  case Nil
  then have x: "x\<lparr>se_phase := Closing []\<rparr> = x" by simp
  show ?case unfolding x using Nil(2) by (simp add: follows_still still_return)
next
  case (Cons a as)
  let ?y = "x\<lparr>se_phase := Closing as\<rparr>"
  have "follows cfg n (add_mset x M) (add_mset ?y M) (decrease_account a)"
    unfolding decrease_account_def
  proof (rule follows_call)
    fix e
    show "vnc_step cfg n (vnc_of (add_mset x M) e) (vnc_of (add_mset ?y M) (snd ((), e\<lparr>ve_acc := uncount a (ve_acc e)\<rparr>)))"
      using vnc_step.Uncount [of "vnc_of (add_mset x M) e" x M a as cfg n] Cons.prems
      by (simp add: vnc_of_def)
  qed
  moreover have "follows cfg n (add_mset ?y M) (add_mset (?y\<lparr>se_phase := Closing []\<rparr>) M) m"
    if "m = for_each decrease_account as" for m :: "(arm_ev, 'w vnc_env, unit) io"
    using that by (intro Cons.IH) simp_all
  ultimately show ?case using Cons.prems(2) by (auto intro: follows_bind)
qed

lemma Increase_counts:
  "(case Increase cfg k c of Panicked \<Rightarrow> counter_inc cfg k c = None
    | Ret (None, c') \<Rightarrow> counter_inc cfg k c = Some c'
    | Ret (Some err, c') \<Rightarrow> counter_inc cfg k c = None \<and> c' = c)"
proof (cases "getMaxLimit cfg c")
  case Panicked
  then show ?thesis by (simp add: counter_inc_def Increase_def)
next
  case (Ret r)
  show ?thesis
  proof (cases r)
    case (Inl e)
    with Ret show ?thesis by (simp add: counter_inc_def Increase_def)
  next
    case (Inr l)
    with Ret show ?thesis
      by (cases "map_of (ct_store c) k") (auto simp: counter_inc_def Increase_def Let_def)
  qed
qed

text \<open>Increasing a counter: a step if it succeeds, and otherwise nothing.\<close>

lemma increase_ip_run:
  assumes "vs_quiet cfg vs" "run_state (increase_ip vs k) s = (r, s')"
  shows "(if r = Ret (Inr ()) then \<exists>c. counter_inc cfg k (ve_ip (env s)) = Some c \<and> ve_ip (env s') = c
      else ve_ip (env s') = ve_ip (env s)) \<and> ve_acc (env s') = ve_acc (env s)"
proof -
  obtain a e where c: "as_ReadConfig (am_srv (vs_arm vs)) (ct_configPath (ve_ip (env s))) (env s) = (a, e)" by fastforce
  with vs_quietD(1,2) [OF assms(1)] have e: "a = cfg" "ve_ip e = ve_ip (env s)" "ve_acc e = ve_acc (env s)"
    unfolding quiet_def by (metis fst_conv snd_conv)+
  show ?thesis
    using assms(2) c e Increase_counts [of cfg k "ve_ip (env s)"]
    by (auto simp: increase_ip_def split: go.splits option.splits prod.splits)
qed

lemma increase_account_run:
  assumes "vs_quiet cfg vs" "run_state (increase_account vs k) s = (r, s')"
  shows "(if r = Ret (Inr ()) then \<exists>c. counter_inc cfg k (ve_acc (env s)) = Some c \<and> ve_acc (env s') = c
      else counter_inc cfg k (ve_acc (env s)) = None \<and> ve_acc (env s') = ve_acc (env s)) \<and> ve_ip (env s') = ve_ip (env s)"
proof -
  obtain a e where c: "as_ReadConfig (am_srv (vs_arm vs)) (ct_configPath (ve_acc (env s))) (env s) = (a, e)" by fastforce
  with vs_quietD(1,2) [OF assms(1)] have e: "a = cfg" "ve_ip e = ve_ip (env s)" "ve_acc e = ve_acc (env s)"
    unfolding quiet_def by (metis fst_conv snd_conv)+
  show ?thesis
    using assms(2) c e Increase_counts [of cfg k "ve_acc (env s)"]
    by (auto simp: increase_account_def split: go.splits option.splits prod.splits)
qed

lemma run_or_status:
  "run_state (or_status m c msg k) s = (case run_state m s of
     (Panicked, t) \<Rightarrow> (Panicked, t)
   | (Ret (Inl e), t) \<Rightarrow> run_state (setErrorStatus c (msg @ err_msg e)) t
   | (Ret (Inr x), t) \<Rightarrow> run_state (k x) t)"
  by (simp add: or_status_def run_gcatch split: prod.split go.split sum.split)

lemma env_setErrorStatus [simp]: "env (snd (run_state (setErrorStatus c msg) s)) = env s"
  by (simp add: setErrorStatus_def)

lemma follows_served:
  fixes m :: "(arm_ev, 'w vnc_env, unit res go) io"
  assumes "se_phase x = Opening []" "still serve" "m = gdefer serve (for_each decrease_account (se_accounts x))"
  shows "follows cfg n (add_mset x M) (add_mset (x\<lparr>se_phase := Closing []\<rparr>) M) m"
proof -
  let ?s = "x\<lparr>se_phase := Streaming\<rparr>" and ?c = "x\<lparr>se_phase := Closing (se_accounts x)\<rparr>"
  have "follows cfg n (add_mset x M) (add_mset ?s M) serve"
    using vnc_step.Serve [of "vnc_of (add_mset x M) e" x M cfg n for e :: "'w vnc_env"] assms(1,2)
    by (intro follows_step_after [of cfg n "add_mset x M" "add_mset ?s M"] follows_still) (simp_all add: vnc_of_def)
  moreover have "follows cfg n (add_mset ?s M) (add_mset (x\<lparr>se_phase := Closing []\<rparr>) M)
      (State_Monad.bind d (\<lambda>_. State_Monad.return r))"
    if d: "d = for_each decrease_account (se_accounts x)" for r :: "unit res go" and d :: "(arm_ev, 'w vnc_env, unit) io"
  proof (rule follows_step_after)
    show "vnc_step cfg n (vnc_of (add_mset ?s M) e) (vnc_of (add_mset ?c M) e)" for e :: "'w vnc_env"
      using vnc_step.Stop [of "vnc_of (add_mset ?s M) e" ?s M cfg n] by (simp add: vnc_of_def)
    show "follows cfg n (add_mset ?c M) (add_mset (x\<lparr>se_phase := Closing []\<rparr>) M)
        (State_Monad.bind d (\<lambda>_. State_Monad.return r))"
      using follows_uncounts [of ?c "se_accounts x" d cfg n M] d
      by (intro follows_bind [OF _ follows_still [OF still_return]]) simp
  qed
  ultimately show ?thesis unfolding assms(3) gdefer_def by (auto intro: follows_bind)
qed

lemma follows_accounts:
  fixes m :: "(arm_ev, 'w vnc_env, unit res go) io"
  assumes "vs_quiet cfg vs" "se_phase x = Opening as" "still serve"
    "m = count_accounts vs as (gdefer serve (for_each decrease_account (se_accounts x)))"
  shows "follows cfg n (add_mset x M) (add_mset (x\<lparr>se_phase := Closing []\<rparr>) M) m"
  using assms
proof (induction as arbitrary: x m)
  case Nil
  then show ?case by (simp add: follows_served)
next
  case (Cons a as)
  let ?y = "x\<lparr>se_phase := Opening as\<rparr>" and ?fin = "add_mset (x\<lparr>se_phase := Closing []\<rparr>) M"
  define k where "k = count_accounts vs as (gdefer serve (for_each decrease_account (se_accounts x)))"
  have "follows cfg n (add_mset ?y M) (add_mset (?y\<lparr>se_phase := Closing []\<rparr>) M) k"
    unfolding k_def using Cons.prems by (intro Cons.IH) simp_all
  then have rest: "(vnc_step cfg n)\<^sup>*\<^sup>* (vnc_of (add_mset ?y M) (env t)) (vnc_of ?fin (env (snd (run_state k t))))" for t
    by (simp add: follows_def)
  show ?case unfolding follows_def
  proof
    fix s
    obtain r t where r: "run_state (increase_account vs a) s = (r, t)" by fastforce
    note inc = increase_account_run [OF Cons.prems(1) r]
    have run: "env (snd (run_state m s)) = (if r = Ret (Inr ()) then env (snd (run_state k t)) else env t)"
      by (simp add: Cons.prems(4) run_or_status r k_def [symmetric] split: go.split sum.split)
    show "(vnc_step cfg n)\<^sup>*\<^sup>* (vnc_of (add_mset x M) (env s)) (vnc_of ?fin (env (snd (run_state m s))))"
    proof (cases "r = Ret (Inr ())")
      case True
      with inc have "vnc_step cfg n (vnc_of (add_mset x M) (env s)) (vnc_of (add_mset ?y M) (env t))"
        using vnc_step.Count [of "vnc_of (add_mset x M) (env s)" x M a as cfg "ve_acc (env t)" n] Cons.prems(2)
        by (simp add: vnc_of_def)
      with True show ?thesis unfolding run by simp (rule vnc_next, assumption, rule rest)
    next
      case False
      with inc have "vnc_step cfg n (vnc_of (add_mset x M) (env s)) (vnc_of ?fin (env t))"
        using vnc_step.Refuse [of "vnc_of (add_mset x M) (env s)" x M a as cfg n] Cons.prems(2)
        by (simp add: vnc_of_def)
      with False show ?thesis unfolding run by (simp add: vnc_once)
    qed
  qed
qed

lemma follows_session:
  assumes "vs_quiet cfg vs" "still serve" "length accounts \<le> n"
  shows "follows cfg n M M (counted_session vs ip accounts serve)"
  unfolding follows_def
proof
  fix s
  let ?x = "\<lparr>se_ip = ip, se_accounts = accounts, se_phase = Opening accounts\<rparr>"
  let ?c = "?x\<lparr>se_phase := Closing []\<rparr>"
  define k where "k = count_accounts vs accounts (gdefer serve (for_each decrease_account accounts))"
  obtain r t where r: "run_state (increase_ip vs ip) s = (r, t)" by fastforce
  note inc = increase_ip_run [OF assms(1) r]
  have run: "env (snd (run_state (counted_session vs ip accounts serve) s)) =
      (if r = Ret (Inr ()) then env (snd (run_state (gdefer k (decrease_ip ip)) t)) else env t)"
    by (simp add: counted_session_def run_or_status r k_def [symmetric] split: go.split sum.split)
  have "follows cfg n (add_mset ?x M) (add_mset ?c M) k"
    by (rule follows_accounts [OF assms(1) _ assms(2)]) (simp_all add: k_def)
  moreover have "follows cfg n (add_mset ?c M) M (decrease_ip ip)"
    unfolding decrease_ip_def
  proof (rule follows_call)
    fix e show "vnc_step cfg n (vnc_of (add_mset ?c M) e) (vnc_of M (snd ((), e\<lparr>ve_ip := uncount ip (ve_ip e)\<rparr>)))"
      using vnc_step.Leave [of "vnc_of (add_mset ?c M) e" ?c M cfg n] by (simp add: vnc_of_def)
  qed
  ultimately have "follows cfg n (add_mset ?x M) M (gdefer k (decrease_ip ip))"
    unfolding gdefer_def by (intro follows_bind [OF _ follows_bind [OF _ follows_still [OF still_return]]])
  then have rest: "(vnc_step cfg n)\<^sup>*\<^sup>* (vnc_of (add_mset ?x M) (env t))
      (vnc_of M (env (snd (run_state (gdefer k (decrease_ip ip)) t))))" for t
    by (simp add: follows_def)
  show "(vnc_step cfg n)\<^sup>*\<^sup>* (vnc_of M (env s)) (vnc_of M (env (snd (run_state (counted_session vs ip accounts serve) s))))"
  proof (cases "r = Ret (Inr ())")
    case True
    with inc have "vnc_step cfg n (vnc_of M (env s)) (vnc_of (add_mset ?x M) (env t))"
      using vnc_step.Arrive [of cfg ip "vnc_of M (env s)" "ve_ip (env t)" accounts n] assms(3)
      by (simp add: vnc_of_def)
    with True show ?thesis unfolding run by simp (rule vnc_next, assumption, rule rest)
  next
    case False
    with inc have "vnc_of M (env t) = vnc_of M (env s)" by (simp add: vnc_of_def)
    with False show ?thesis unfolding run by simp
  qed
qed

text \<open>No token names more than \<open>n\<close> accounts.\<close>

definition accounts_of :: "NbCtx \<Rightarrow> string list" where
  "accounts_of x = (case x_md x of None \<Rightarrow> []
     | Some md \<Rightarrow> (case map_of md ''preferred_username'' of None \<Rightarrow> [] | Some as \<Rightarrow> as))"

definition few_accounts :: "nat \<Rightarrow> 'w VncServer \<Rightarrow> bool" where
  "few_accounts n vs = (\<forall>x c. vs_Authenticate vs x = Inr c \<longrightarrow> length (accounts_of c) \<le> n)"

lemma follows_or_status:
  assumes "still m" "\<And>x. follows cfg n M M (k x)"
  shows "follows cfg n M M (or_status m c msg k)"
  unfolding or_status_def gcatch_def
  by (rule follows_bind [OF follows_still [OF assms(1)]])
    (auto intro: follows_still still_status still_return assms(2) split: go.split sum.split)

lemma follows_if: "(b \<Longrightarrow> follows cfg n M N m) \<Longrightarrow> (\<not> b \<Longrightarrow> follows cfg n M N m') \<Longrightarrow> follows cfg n M N (if b then m else m')"
  by simp

lemma or_status_gpure:
  "or_status (gpure (Ret r)) c msg k = (case r of Inl e \<Rightarrow> setErrorStatus c (msg @ err_msg e) | Inr x \<Rightarrow> k x)"
  by (rule state.expand, rule ext) (simp add: run_or_status split: sum.split)

lemma follows_gpure:
  assumes "\<And>x. r = Inr x \<Longrightarrow> follows cfg n M M (k x)"
  shows "follows cfg n M M (or_status (gpure (Ret r)) c msg k)"
  using assms by (auto simp: or_status_gpure intro: follows_still still_status split: sum.split)

lemma follows_handler:
  assumes "vs_quiet cfg vs" "few_accounts n vs"
  shows "follows cfg n M M (GetVNCWebSocketHandler vs x r)"
proof -
  have session: "follows cfg n M M (counted_session vs (remote_ip r) accounts (serve_vnc vs m r c path))"
    if "length accounts \<le> n" for accounts m c path
    by (rule follows_session [OF assms(1) still_serve [OF assms(1)] that])
  have auth: "follows cfg n M M (authorize_vnc vs x path t (\<lambda>c accounts.
      counted_session vs (remote_ip r) accounts (serve_vnc vs m r c path)))" for path t m
    unfolding authorize_vnc_def Let_def
  proof (rule follows_if)
    show "follows cfg n M M (counted_session vs (remote_ip r) [] (serve_vnc vs m r \<lparr>x_md = None, x_out = []\<rparr> path))"
      by (rule session) simp
  next
    show "follows cfg n M M (or_status (gpure (Ret (vs_Authenticate vs (token_ctx x path t)))) 401
         ''failed to parse token string, error: '' (\<lambda>outCtx.
      or_status (IsAuthorized (vs_arm vs) outCtx (GetVNCRequest (vp_appID path) (vp_clusterID path) (vp_vmID path))) 401
        ''access denied by OPA rules, error: '' (\<lambda>_. case x_md outCtx of
          None \<Rightarrow> setErrorStatus 401 ''failed to get username from token, error: <nil>''
        | Some md \<Rightarrow> counted_session vs (remote_ip r) (case map_of md ''preferred_username'' of None \<Rightarrow> [] | Some as \<Rightarrow> as)
            (serve_vnc vs m r outCtx path))))"
    proof (rule follows_gpure, rule follows_or_status [OF still_authorized [OF assms(1)]])
      fix c u assume "vs_Authenticate vs (token_ctx x path t) = Inr c"
      with assms(2) have "length (accounts_of c) \<le> n" by (simp add: few_accounts_def)
      then show "follows cfg n M M (case x_md c of
          None \<Rightarrow> setErrorStatus 401 ''failed to get username from token, error: <nil>''
        | Some md \<Rightarrow> counted_session vs (remote_ip r) (case map_of md ''preferred_username'' of None \<Rightarrow> [] | Some as \<Rightarrow> as)
            (serve_vnc vs m r c path))"
        by (cases "x_md c") (simp_all add: accounts_of_def session follows_still still_status)
    qed
  qed
  show ?thesis unfolding GetVNCWebSocketHandler_def handle_vnc_def
    by (intro follows_or_status still_config [OF assms(1)] follows_if follows_gpure auth follows_still still_status)
qed


lemma sample_vnc_quiet: "vs_quiet (Inr sample_config) sample_vnc"
  by (simp add: vs_quiet_def sample_vnc_def sample_arm_def sample_arm_services_def sample_arm_kube_def)

lemma sample_vnc_accounts: "few_accounts 1 sample_vnc"
  by (auto simp: few_accounts_def sample_vnc_def accounts_of_def split: option.split)


section \<open>Who may open a console\<close>

text \<open>What a request does before it is permitted: reading the configuration, asking the rule and answering.\<close>

definition unpermitted_ev :: "arm_ev \<Rightarrow> bool" where
  "unpermitted_ev e = (case e of
     ArmRead (ReadConfig _) \<Rightarrow> True | ArmAuthorize _ _ _ \<Rightarrow> True | ArmVNC (ErrorStatus c _) \<Rightarrow> c \<ge> 400 | _ \<Rightarrow> False)"

definition vnc_token :: "'w VncServer \<Rightarrow> HttpRequest \<Rightarrow> string res" where
  "vnc_token vs r = (if vs_tokenCheck vs then getCombinedJWTToken r else Inr [])"

text \<open>The origin and the forwarding host are those of the configuration, the path names a console, the
  token is complete, and if the policy agent is enabled, the token is authentic and the agent allows the
  console.\<close>

definition vnc_permitted :: "'w VncServer \<Rightarrow> NbCtx \<Rightarrow> HttpRequest \<Rightarrow> 'w vnc_env \<Rightarrow> bool" where
  "vnc_permitted vs x r e0 = (let (c, e) = as_ReadConfig (am_srv (vs_arm vs)) (am_configPath (vs_arm vs)) e0 in
     case (c, vnc_token vs r, newVNCPath (hr_Path r)) of
       (Inr cfg, Inr token, Inr path) \<Rightarrow> origin_allowed cfg r \<and> forwarded_ok cfg r \<and>
         (IsOPAEnabled (am_environ (vs_arm vs)) \<longrightarrow>
           (case vs_Authenticate vs (token_ctx x path token) of
              Inl _ \<Rightarrow> False
            | Inr ctx \<Rightarrow> x_md ctx \<noteq> None \<and>
                arm_allowed (vs_arm vs) ctx (GetVNCRequest (vp_appID path) (vp_clusterID path) (vp_vmID path)) e))
     | _ \<Rightarrow> False)"

abbreviation anything :: "('e, 'w, 'a) io \<Rightarrow> bool" where
  "anything m \<equiv> does (\<lambda>_. True) m (\<lambda>_. True)"

lemma does_status: "does unpermitted_ev (setErrorStatus c msg) (\<lambda>_. True)" if "c \<ge> 400"
  unfolding setErrorStatus_def using that by (intro emits_intros TrueI) (simp add: unpermitted_ev_def)

lemma effects_or_status:
  assumes "anything m" "\<And>x. anything (k x)"
  shows "effects (or_status m c msg k) s = effects m s @ (case result m s of
      Panicked \<Rightarrow> [] | Ret (Inl e) \<Rightarrow> [ArmVNC (ErrorStatus c (msg @ err_msg e))]
    | Ret (Inr x) \<Rightarrow> effects (k x) (snd (run_state m s)))"
proof -
  have status: "anything (setErrorStatus c msg)" for c msg
    unfolding setErrorStatus_def by (intro emits_intros TrueI)
  have eff: "effects (setErrorStatus c msg) t = [ArmVNC (ErrorStatus c msg)]" for c msg and t :: "(arm_ev, 'a vnc_env) world"
    by (simp add: effects_def setErrorStatus_def)
  show ?thesis unfolding or_status_def gcatch_def
    by (subst effects_bind) (auto intro!: emits_intros assms status simp: eff split: go.split sum.split)
qed

lemma anything_gdefer: "anything m \<Longrightarrow> anything d \<Longrightarrow> anything (gdefer m d)"
  unfolding gdefer_def by (intro emits_intros TrueI)

lemma anything_or_status: "anything m \<Longrightarrow> (\<And>x. anything (k x)) \<Longrightarrow> anything (or_status m c msg k)"
  unfolding or_status_def setErrorStatus_def by (intro emits_intros TrueI)

lemma anything_accounts: "anything k \<Longrightarrow> anything (count_accounts vs as k)"
  by (induction as) (auto intro!: anything_or_status simp: increase_account_def intro: emits_intros)

lemma anything_session: "anything (counted_session vs ip accounts (serve_vnc vs m r x path))"
  unfolding counted_session_def serve_vnc_def increase_ip_def decrease_ip_def decrease_account_def arm_calls
  by (intro anything_or_status anything_gdefer anything_accounts emits_intros TrueI)

lemma anything_authorize: "(\<And>c as. anything (k c as)) \<Longrightarrow> anything (authorize_vnc vs x path t k)"
  unfolding authorize_vnc_def Let_def
  by (intro anything_or_status emits_intros TrueI does_weaken [OF does_IsAuthorized]) (auto simp: setErrorStatus_def intro: emits_intros)

lemma list_all_effects_status: "c \<ge> 400 \<Longrightarrow> list_all unpermitted_ev (effects (setErrorStatus c msg) s)"
  by (rule does_effects [OF does_status])

lemma unpermitted_authorize:
  assumes "\<And>c as. anything (k c as)"
    and "IsOPAEnabled (am_environ (vs_arm vs))"
    and "\<not> (case vs_Authenticate vs (token_ctx x path t) of Inl _ \<Rightarrow> False
      | Inr c \<Rightarrow> x_md c \<noteq> None \<and>
          arm_allowed (vs_arm vs) c (GetVNCRequest (vp_appID path) (vp_clusterID path) (vp_vmID path)) (env s))"
  shows "list_all unpermitted_ev (effects (authorize_vnc vs x path t k) s)"
proof -
  let ?req = "GetVNCRequest (vp_appID path) (vp_clusterID path) (vp_vmID path)"
  have ask: "list_all unpermitted_ev (effects (IsAuthorized (vs_arm vs) c ?req) s)" for c
    by (rule does_effects [OF does_weaken [OF does_IsAuthorized]]) (auto simp: only_asks_rule_def unpermitted_ev_def split: arm_ev.splits)
  have any: "anything (IsAuthorized (vs_arm vs) c ?req)" for c
    by (rule does_weaken [OF does_IsAuthorized]) auto
  show ?thesis
  proof (cases "vs_Authenticate vs (token_ctx x path t)")
    case (Inl e)
    with assms(2) show ?thesis
      by (simp add: authorize_vnc_def or_status_gpure list_all_effects_status)
  next
    case (Inr c)
    have rest: "anything (case x_md c of None \<Rightarrow> setErrorStatus 401 msg
        | Some md \<Rightarrow> k c (case map_of md ''preferred_username'' of None \<Rightarrow> [] | Some as \<Rightarrow> as))" for msg
      by (auto intro!: emits_intros assms(1) simp: setErrorStatus_def split: option.split)
    show ?thesis
    proof (cases "arm_allowed (vs_arm vs) c ?req (env s)")
      case True
      with assms(3) Inr have "x_md c = None" by simp
      then show ?thesis
        using assms(2) ask [of c] rest
        by (simp add: authorize_vnc_def or_status_gpure Inr effects_or_status [OF any] list_all_effects_status unpermitted_ev_def
            split: go.split sum.split)
    next
      case False
      then have "result (IsAuthorized (vs_arm vs) c ?req) s \<noteq> Ret (Inr ())" by (simp add: IsAuthorized_result)
      then show ?thesis
        using assms(2) ask [of c] rest
        by (simp add: authorize_vnc_def or_status_gpure Inr effects_or_status [OF any] unpermitted_ev_def
            split: go.split sum.split)
    qed
  qed
qed

lemma run_readConfig:
  "run_state (readConfig s) w = (Ret (fst (as_ReadConfig (am_srv s) (am_configPath s) (env w))),
     w\<lparr>trace := trace w @ [ArmRead (ReadConfig (am_configPath s))],
       env := snd (as_ReadConfig (am_srv s) (am_configPath s) (env w))\<rparr>)"
  by (simp add: readConfig_def run_glift case_prod_beta)

text \<open>The checks that do not make calls.\<close>

lemma handle_vnc_checks:
  assumes "\<not> list_all unpermitted_ev (effects (handle_vnc vs x r cfg) t)"
  shows "origin_allowed cfg r" "forwarded_ok cfg r"
    "\<exists>token path. vnc_token vs r = Inr token \<and> newVNCPath (hr_Path r) = Inr path \<and>
       handle_vnc vs x r cfg = authorize_vnc vs x path token
         (\<lambda>c accounts. counted_session vs (remote_ip r) accounts (serve_vnc vs cfg r c path))"
proof -
  show 1: "origin_allowed cfg r"
    by (rule ccontr) (use assms in \<open>simp add: handle_vnc_def list_all_effects_status\<close>)
  show 2: "forwarded_ok cfg r"
    by (rule ccontr) (use assms 1 in \<open>simp add: handle_vnc_def list_all_effects_status\<close>)
  obtain token where token: "vnc_token vs r = Inr token"
    using assms 1 2 by (cases "vnc_token vs r")
      (auto simp: handle_vnc_def or_status_gpure list_all_effects_status simp flip: vnc_token_def)
  obtain path where path: "newVNCPath (hr_Path r) = Inr path"
    using assms 1 2 token by (cases "newVNCPath (hr_Path r)")
      (auto simp: handle_vnc_def or_status_gpure list_all_effects_status simp flip: vnc_token_def)
  show "\<exists>token path. vnc_token vs r = Inr token \<and> newVNCPath (hr_Path r) = Inr path \<and>
       handle_vnc vs x r cfg = authorize_vnc vs x path token
         (\<lambda>c accounts. counted_session vs (remote_ip r) accounts (serve_vnc vs cfg r c path))"
    using 1 2 token path by (simp add: handle_vnc_def or_status_gpure flip: vnc_token_def)
qed

lemma handle_vnc_permitted:
  assumes "as_ReadConfig (am_srv (vs_arm vs)) (am_configPath (vs_arm vs)) (env s) = (Inr cfg, env t)"
    and "\<not> list_all unpermitted_ev (effects (handle_vnc vs x r cfg) t)"
  shows "vnc_permitted vs x r (env s)"
proof -
  note checks = handle_vnc_checks [OF assms(2)]
  from checks(3) obtain token path where token: "vnc_token vs r = Inr token" and path: "newVNCPath (hr_Path r) = Inr path"
    and handle: "handle_vnc vs x r cfg = authorize_vnc vs x path token
      (\<lambda>c accounts. counted_session vs (remote_ip r) accounts (serve_vnc vs cfg r c path))" by blast
  from unpermitted_authorize [where vs = vs and x = x and path = path and t = token and s = t,
      OF anything_session [where vs = vs and ip = "remote_ip r" and m = cfg and r = r and path = path]]
    assms(2) [unfolded handle] checks(1,2) token path assms(1)
  show ?thesis
    unfolding vnc_permitted_def Let_def by (cases "vs_Authenticate vs (token_ctx x path token)") (auto intro: ccontr)
qed

lemma anything_handle: "anything (handle_vnc vs x r cfg)"
  unfolding handle_vnc_def setErrorStatus_def
  by (intro emits_intros TrueI anything_or_status anything_authorize anything_session)

text \<open>
  Claim C3.  Unless the origin is in the configuration, the request came through the host of the
  configuration, the path names a console, the token is complete, and, with the policy agent, the token is
  authentic and the agent allows this console, the VNC handler only reads the configuration, asks the agent
  and answers with an error: no session is counted, no cluster is called and no console opened.
\<close>
theorem vnc_needs_permission:
  "vnc_permitted vs x r (env s) \<or> list_all unpermitted_ev (effects (GetVNCWebSocketHandler vs x r) s)"
proof (rule disjCI)
  assume bad: "\<not> list_all unpermitted_ev (effects (GetVNCWebSocketHandler vs x r) s)"
  let ?arm = "vs_arm vs"
  obtain c e where read: "as_ReadConfig (am_srv ?arm) (am_configPath ?arm) (env s) = (c, e)" by fastforce
  define t where "t = snd (run_state (readConfig ?arm) s)"
  have any: "anything (readConfig ?arm)" unfolding readConfig_def by (intro emits_intros TrueI)
  have effs: "effects (GetVNCWebSocketHandler vs x r) s = ArmRead (ReadConfig (am_configPath ?arm)) #
      (case c of Inl e \<Rightarrow> [ArmVNC (ErrorStatus 500 (''failed to get config model, err: '' @ err_msg e))]
        | Inr cfg \<Rightarrow> effects (handle_vnc vs x r cfg) t)"
    unfolding GetVNCWebSocketHandler_def effects_or_status [OF any anything_handle] t_def
    by (simp add: run_readConfig read result_def effects_def split: sum.split)
  show "vnc_permitted vs x r (env s)"
  proof (cases c)
    case (Inr cfg)
    with bad have "\<not> list_all unpermitted_ev (effects (handle_vnc vs x r cfg) t)" by (simp add: effs unpermitted_ev_def)
    with read Inr show ?thesis by (intro handle_vnc_permitted [of vs s cfg t]) (simp_all add: t_def run_readConfig)
  qed (use bad in \<open>simp add: effs unpermitted_ev_def\<close>)
qed

text \<open>Without the policy agent a request has no metadata, so that no console can be opened.\<close>

definition opens_console :: "arm_ev \<Rightarrow> bool" where
  "opens_console e = (case e of ArmVNC (OpenVNC _ _ _) \<Rightarrow> True | ArmVNC Upgrade \<Rightarrow> True | ArmVNC (Forward _ _) \<Rightarrow> True | _ \<Rightarrow> False)"

lemma no_client_without_metadata:
  "clusterClient s \<lparr>x_md = None, x_out = out\<rparr> c = gfail (TypedErr KInvalid ''unable to extract metadata from ctx'')"
  by (simp add: clusterClient_def admGetKubeConfig_def admAddToOutgoingContext_def armActiveProjectID_def gtry_gfail)

lemma gfail_gpure: "gfail e = gpure (Ret (Inl e))"
  by (simp add: gfail_def gpure_def)

lemma no_console_without_agent:
  assumes "\<not> IsOPAEnabled (am_environ (vs_arm vs))"
  shows "does (\<lambda>e. \<not> opens_console e) (GetVNCWebSocketHandler vs x r) (\<lambda>_. True)"
proof -
  have or_status: "does P m (\<lambda>_. True) \<Longrightarrow> (\<And>e. P (ArmVNC (ErrorStatus c e))) \<Longrightarrow> (\<And>x. does P (k x) (\<lambda>_. True)) \<Longrightarrow>
      does P (or_status m c msg k) (\<lambda>_. True)" for P and m :: "('a, 'b) vncio" and k c msg
    unfolding or_status_def setErrorStatus_def by (intro emits_intros TrueI)
  have serve: "serve_vnc vs m r \<lparr>x_md = None, x_out = []\<rparr> path = setErrorStatus 404
      (''failed to get kubevirt client, error: '' @ ''unable to extract metadata from ctx'')" for m path
    by (simp add: serve_vnc_def no_client_without_metadata gfail_gpure or_status_gpure)
  show ?thesis
    unfolding GetVNCWebSocketHandler_def handle_vnc_def authorize_vnc_def counted_session_def gdefer_def
      increase_ip_def decrease_ip_def readConfig_def count_accounts.simps for_each.simps
    by (intro or_status emits_intros TrueI) (simp_all add: opens_console_def assms setErrorStatus_def serve emits_intros)
qed

end
