(* ===== verification/ArmConsole.thy ===== *)
theory ArmConsole
  imports ArmProps
begin

text \<open>
  The address of a console: what the service answers, and what the handler of VNC requests reads back from it.
\<close>

section \<open>Console addresses\<close>

lemma address_returned:
  "returns (AccessVMWithVNC s x a c v) (\<lambda>addr. \<exists>cfg. addr = vnc_address cfg (project_or_nil x) a c v)"
  unfolding AccessVMWithVNC_def GetVNCAddress_def by (intro returns_gtry_any) auto

lemma console_gmap_err: "returns m Q \<Longrightarrow> returns (gmap_err h m) Q"
  by (auto simp: returns_def post_def run_gmap_err split: prod.split go.splits sum.splits) (metis fst_conv)

lemma returns_service:
  assumes "returns serve Q" "result (arm_service s x what req serve) w = Ret (Inr y)"
  shows "Q y \<and> arm_ok s x req (env w)"
proof
  have "returns (arm_service s x what req serve) Q"
    unfolding arm_service_def using assms(1) by (intro console_gmap_err returns_gtry_any)
  with assms(2) show "Q y" by (auto simp: returns_def post_def result_def split: go.splits sum.splits dest: spec [of _ w])
  show "arm_ok s x req (env w)"
    using arm_service_refused [of s x req w what serve] assms(2) by (auto simp: refused_def)
qed

text \<open>
  Claim C14.  The address of a console that the service answers belongs to the virtual machine of the request,
  and the handler of VNC requests reads it back: the path of the address is parsed to the same project,
  application, cluster and virtual machine.  The rules of the request see to it that its parts have no slash.
\<close>
theorem console_address_read_back:
  assumes "result (GetVNC s x req) w = Ret (Inr addr)" "CHR ''/'' \<notin> set (project_or_nil x)"
  shows "\<exists>(cfg :: ConfigModel) a c v. let path = vnc_path_of (project_or_nil x) a c v in
    req = Some (a, c, v) \<and> addr = cm_Protocol cfg @ ''://'' @ cm_HostName cfg @ path \<and>
    newVNCPath path =
      Inr \<lparr>vp_path = path, vp_appID = a, vp_clusterID = c, vp_vmID = v, vp_projectID = project_or_nil x\<rparr>"
proof (cases req)
  case None
  then show ?thesis
    using assms(1) returns_service [of gpanic "\<lambda>_. False" s x "''app ID or cluster ID or VM ID''" None w addr]
    by (auto simp: GetVNC_def)
next
  case (Some r)
  obtain a c v where r: "r = (a, c, v)" by (cases r)
  obtain cfg where addr: "addr = vnc_address cfg (project_or_nil x) a c v" and ok: "arm_ok s x (Some (GetVNCRequest a c v)) (env w)"
    using returns_service [OF address_returned, of s x "''app ID or cluster ID or VM ID''" "Some (GetVNCRequest a c v)" s x a c v w addr]
      assms(1) Some r by (auto simp: GetVNC_def)
  from ok have "id_of 80 a" "id_of 40 c" "uuid_of v"
    by (auto simp: arm_ok_def valid_well_formed)
  then have path: "newVNCPath (vnc_path_of (project_or_nil x) a c v) = Inr \<lparr>vp_path = vnc_path_of (project_or_nil x) a c v,
      vp_appID = a, vp_clusterID = c, vp_vmID = v, vp_projectID = project_or_nil x\<rparr>"
    by (intro newVNCPath_of assms(2)) (auto dest: id_of_no_slash uuid_of_no_slash)
  show ?thesis
    by (rule exI [of _ cfg]) (simp add: Let_def Some r addr vnc_address_path path)
qed

definition console_request :: "(string \<times> string \<times> string) option" where
  "console_request = Some (''app-1'', ''c'', ''0f8fad5b-d9cb-469f-a165-70867728950e'')"

definition console_ctx :: NbCtx where
  "console_ctx = \<lparr>x_md = Some [(''activeprojectid'', [''p''])], x_out = []\<rparr>"

definition console_world :: "(arm_ev, unit) world" where
  "console_world = \<lparr>env = (), trace = []\<rparr>"


lemma sample_limits: "GetRateLimiterParams (am_ParseFloat sample_arm) (am_environ sample_arm) = Inr ((), 2000)"
  by (simp add: GetRateLimiterParams_def sample_arm_def Getenv_def LookupEnv_def ParseIntErr_def ParseInt_def parse_nat_def char_digit_def)


lemma sample_valid: "ValidateAll (GetVNCRequest ''app-1'' ''c'' ''0f8fad5b-d9cb-469f-a165-70867728950e'') = None"
  unfolding valid_well_formed by code_simp


lemma gtry_answers:
  assumes "\<And>w. result m w = Ret (Inr y)" "\<And>w. result (f y) w = r"
  shows "result (gtry m f) w = r"
proof -
  obtain t where "run_state m w = (Ret (Inr y), t)"
    using assms(1) [of w] by (cases "run_state m w") (simp add: result_def)
  then show ?thesis using assms(2) [of t] by (simp add: result_def run_gtry)
qed

lemmas arm_sample_defs = sample_arm_def sample_arm_services_def sample_arm_kube_def console_ctx_def

lemma sample_project: "result (admAddToOutgoingContext sample_arm console_ctx) w = Ret (Inr [(''authorization'', ''Bearer token''), (''ActiveProjectID'', ''p'')])"
  by (simp add: admAddToOutgoingContext_def admCtxWithToken_def armVault_def armActiveProjectID_def arm_sample_defs io_simps call_def result_def)

lemma sample_kubeconfig: "result (admGetKubeConfig sample_arm console_ctx c) w = Ret (Inr ''kubeconfig'')"
  unfolding admGetKubeConfig_def
  by (rule gtry_answers [OF sample_project]) (simp add: arm_sample_defs io_simps call_def result_def)

lemma sample_client: "result (clusterClient sample_arm console_ctx c) w = Ret (Inr ''kubeconfig'')"
  unfolding clusterClient_def sample_limits
  by (rule gtry_answers [OF sample_kubeconfig]) (simp add: arm_sample_defs io_simps call_def result_def)

lemma sample_listed:
  "result (getKubevirtVirtualMachineList sample_arm console_ctx k ''app-1'') w = Ret (Inr [sample_vm])"
  unfolding getKubevirtVirtualMachineList_def admGetAppNamespace_def
  by (rule gtry_answers, rule gtry_answers [OF sample_project])
    (simp_all add: arm_sample_defs io_simps call_def result_def sample_vm_def sample_annotations_def label_get_def annotations_of_def)

lemma sample_found: "result (getKubevirtVirtualMachine sample_arm console_ctx k ''app-1'' ''0f8fad5b-d9cb-469f-a165-70867728950e'') w = Ret (Inr sample_vm)"
  unfolding getKubevirtVirtualMachine_def
  by (rule gtry_answers [OF sample_listed]) (simp add: sample_vm_def result_def gret_def)

lemma sample_checked: "result (arm_checked sample_arm console_ctx what (Some (GetVNCRequest ''app-1'' ''c'' ''0f8fad5b-d9cb-469f-a165-70867728950e''))) w = Ret (Inr ())"
  unfolding arm_checked_result by (simp add: arm_ok_def sample_valid arm_allowed_def arm_sample_defs)

lemma gmap_err_answers: "result m w = Ret (Inr y) \<Longrightarrow> result (gmap_err h m) w = Ret (Inr y)"
  by (cases "run_state m w") (simp add: result_def run_gmap_err)

lemma sample_console: "result (GetVNC sample_arm console_ctx console_request) w =
  Ret (Inr (vnc_address sample_config ''p'' ''app-1'' ''c'' ''0f8fad5b-d9cb-469f-a165-70867728950e''))"
proof -
  have address: "result (GetVNCAddress sample_arm console_ctx ''app-1'' ''c'' ''0f8fad5b-d9cb-469f-a165-70867728950e'') w =
    Ret (Inr (vnc_address sample_config ''p'' ''app-1'' ''c'' ''0f8fad5b-d9cb-469f-a165-70867728950e''))" for w
    unfolding GetVNCAddress_def
    by (rule gtry_answers [where y = sample_config], simp add: readConfig_def arm_sample_defs io_simps call_def result_def,
        rule gtry_answers [OF sample_client], rule gtry_answers [OF sample_found])
      (simp add: arm_sample_defs io_simps result_def project_or_nil_def armActiveProjectID_def)
  show ?thesis
    unfolding GetVNC_def console_request_def arm_service_def option.map prod.case option.case AccessVMWithVNC_def
    by (rule gmap_err_answers, rule gtry_answers [OF sample_checked], rule address)
qed

theorem console_address_read_back_witness:
  "newVNCPath ''/vnc/p/app-1/c/0f8fad5b-d9cb-469f-a165-70867728950e'' =
     Inr \<lparr>vp_path = ''/vnc/p/app-1/c/0f8fad5b-d9cb-469f-a165-70867728950e'', vp_appID = ''app-1'', vp_clusterID = ''c'',
       vp_vmID = ''0f8fad5b-d9cb-469f-a165-70867728950e'', vp_projectID = ''p''\<rparr>"
proof -
  have "project_or_nil console_ctx = ''p''"
    by (simp add: project_or_nil_def armActiveProjectID_def console_ctx_def)
  then show ?thesis
    using console_address_read_back [OF sample_console] by (simp add: console_request_def vnc_path_of_def Let_def)
qed

end
