(* ===== verification/AspAuth.thy ===== *)
theory AspAuth
  imports NbSvc EnvVars GoHttp
begin

text \<open>
  The App Service Proxy: authentication and authorisation of a request (internal/rbac) and its client of
  the deployment manager (internal/admclient).

  Reading the token changes the request: \<open>AddCookie\<close> writes the cookies into one header.  The validator
  of tokens, the interceptor and the policy agent are parameters; a fatal log stops the process and is a
  panic here.
\<close>

section \<open>Calls\<close>

datatype asp_ev =
    AspValidate string
  | AspRule string
  | AspListClusters int string labels
  | AspToken | AspLogout ctx | AspKubeConfig string | AspCreateToken string string string
  | AspRoundTrip HttpRequest

record 'w AspServices =
  av_ParseAndValidate :: "string \<Rightarrow> 'w \<Rightarrow> goerror option \<times> 'w"
  av_PostRule :: "string \<Rightarrow> 'w \<Rightarrow> OpaResponse res \<times> 'w"
  av_ListClusters :: "int \<Rightarrow> string \<Rightarrow> labels \<Rightarrow> 'w \<Rightarrow> ObjectMeta list res \<times> 'w"
  av_GetM2MToken :: "ctx \<Rightarrow> 'w \<Rightarrow> string res \<times> 'w"
  av_Logout :: "ctx \<Rightarrow> 'w \<Rightarrow> goerror option \<times> 'w"
  av_GetKubeConfig :: "ctx \<Rightarrow> string \<Rightarrow> 'w \<Rightarrow> string option res \<times> 'w"
  av_CreateToken :: "ctx \<Rightarrow> string \<Rightarrow> string \<Rightarrow> string \<Rightarrow> int option \<Rightarrow> 'w \<Rightarrow> string res \<times> 'w"
  av_RoundTrip :: "HttpRequest \<Rightarrow> 'w \<Rightarrow> unit \<times> 'w"

text \<open>The libraries: the OPA client, the interceptor, JSON, REST configurations, and the address of the
  gateway as a URL.\<close>

record 'w AspServer =
  ap_srv :: "'w AspServices"
  ap_ccgAddress :: string
  ap_environ :: environ
  ap_authNenabled :: bool
  ap_authZenabled :: bool
  ap_NewOpaClient :: "string \<Rightarrow> bool"
  ap_Authenticate :: "NbCtx \<Rightarrow> NbCtx res"
  ap_marshal :: "string \<Rightarrow> (string list) gomap \<Rightarrow> string res"
  ap_input_text :: "string \<Rightarrow> (string list) gomap \<Rightarrow> string"
  ap_RESTConfig :: "string \<Rightarrow> goerror option"
  ap_NewForConfig :: "string \<Rightarrow> goerror option"
  ap_ParseURL :: "string \<Rightarrow> string res"

type_synonym ('w, 'a) aspio = "((asp_ev, 'w) world, 'a) handler"

text \<open>An error of \<open>status.Errorf\<close>.\<close>

definition grpc_err :: "string \<Rightarrow> string \<Rightarrow> goerror" where
  "grpc_err code msg = PlainErr (''rpc error: code = '' @ code @ '' desc = '' @ msg)"

section \<open>The token\<close>

abbreviation tokenCookiePrefix :: string where "tokenCookiePrefix \<equiv> ''app-service-proxy-token''"
abbreviation tokenCookieCount :: string where "tokenCookieCount \<equiv> ''app-service-proxy-tokens''"

definition aspCombinedJWTToken :: "HttpRequest \<Rightarrow> string res \<times> HttpRequest" where
  "aspCombinedJWTToken req = (case get_cookie req tokenCookieCount of
     Inl err \<Rightarrow> (Inl err, req)
   | Inr numTokenCookiesStr \<Rightarrow> (let req' = add_empty_cookie tokenCookieCount req in
       (case Atoi numTokenCookiesStr of
          Inl err \<Rightarrow> Inl err
        | Inr num \<Rightarrow> join_parts req' (tokenCookiePrefix @ ''-'') 0 (nat num), req')))"

section \<open>Authentication and authorisation\<close>

definition Authenticate :: "'w AspServer \<Rightarrow> HttpRequest \<Rightarrow> ('w, goerror option \<times> HttpRequest) aspio" where
  "Authenticate s req = (case aspCombinedJWTToken req of
     (Inl err, req') \<Rightarrow>
       gret (Some (grpc_err ''InvalidArgument'' (''cannot get JWT token to Authenticate '' @ err_msg err)), req')
   | (Inr authToken, req') \<Rightarrow> do {
       e \<leftarrow> call (AspValidate authToken) (av_ParseAndValidate (ap_srv s) authToken);
       gret (e, req') })"

text \<open>The client of the policy agent on the local host; a port that is no number stops the process.\<close>

definition getOpaClient :: "'w AspServer \<Rightarrow> unit go" where
  "getOpaClient s = (case Atoi (Getenv (ap_environ s) ''OPA_PORT'') of
     Inl _ \<Rightarrow> Panicked
   | Inr opaPort \<Rightarrow> if ap_NewOpaClient s (''http://localhost:'' @ int_str opaPort) then Ret () else Panicked)"

definition IsAuthZenabled :: "environ \<Rightarrow> bool go" where
  "IsAuthZenabled en = (if Getenv en ''OPA_ENABLED'' \<noteq> ''true'' then Ret False
     else case Atoi (Getenv en ''OPA_PORT'') of Inl _ \<Rightarrow> Panicked | Inr _ \<Rightarrow> Ret True)"

text \<open>The generated client returns no response together with an error; the code reads the response to
  print the error, which panics.  An answer other than 200 has no result.\<close>

definition ask_rule :: "'w AspServer \<Rightarrow> string \<Rightarrow> ('w, goerror option) aspio" where
  "ask_rule s body = gcatch (glift (call (AspRule body) (av_PostRule (ap_srv s) body))) (\<lambda>r. case r of
     Inl _ \<Rightarrow> gpanic
   | Inr resp \<Rightarrow> (case opa_JSON200 resp of
       None \<Rightarrow> gpanic
     | Some (OpaBool True) \<Rightarrow> gret None
     | Some _ \<Rightarrow> gret (Some (grpc_err ''PermissionDenied'' ''access denied''))))"

definition Authorize ::
  "'w AspServer \<Rightarrow> HttpRequest \<Rightarrow> string \<Rightarrow> ('w, goerror option \<times> HttpRequest) aspio" where
  "Authorize s req projectID = (case getOpaClient s of
     Panicked \<Rightarrow> gpanic
   | Ret _ \<Rightarrow> (let invalid = (\<lambda>msg. Some (grpc_err ''InvalidArgument'' msg)) in
       case aspCombinedJWTToken req of
         (Inl err, req') \<Rightarrow> gret (invalid (''cannot get JWT token to Authorize '' @ err_msg err), req')
       | (Inr jwt, req') \<Rightarrow>
           (let md = [(''authorization'', [''Bearer '' @ jwt]), (''activeprojectid'', [projectID])] in
            case ap_Authenticate s \<lparr>x_md = Some md, x_out = []\<rparr> of
              Inl err \<Rightarrow> gret (invalid (''failed to parse token string, error: '' @ err_msg err), req')
            | Inr x \<Rightarrow> (case x_md x of
                None \<Rightarrow> gret (invalid ''unable to extract metadata from ctx'', req')
              | Some md' \<Rightarrow> (case ap_marshal s (hr_Method req') md' of
                  Inl err \<Rightarrow> gret (invalid (''cannot marshal object to JSON '' @ err_msg err @ '' '' @
                      ap_input_text s (hr_Method req') md'), req')
                | Inr body \<Rightarrow> gtry (ask_rule s body) (\<lambda>e. gret (e, req')))))))"

section \<open>The client of the deployment manager\<close>

text \<open>An empty token is only logged.\<close>

definition aspCtxWithToken :: "'w AspServer \<Rightarrow> ctx \<Rightarrow> ('w, ctx) aspio" where
  "aspCtxWithToken s c = gtry (glift (call AspToken (av_GetM2MToken (ap_srv s) c))) (\<lambda>token.
     let c' = c @ [(''authorization'', ''Bearer '' @ token)]
     in gtry (gcheck (call (AspLogout c') (av_Logout (ap_srv s) c'))) (\<lambda>_. gret c'))"

definition GetClusterToken ::
  "'w AspServer \<Rightarrow> ctx \<Rightarrow> string \<Rightarrow> string \<Rightarrow> string \<Rightarrow> int option \<Rightarrow> ('w, string) aspio" where
  "GetClusterToken s c clusterID namespace serviceAccount expiration =
     gtry (aspCtxWithToken s c) (\<lambda>c'.
     gtry (glift (call (AspKubeConfig clusterID) (av_GetKubeConfig (ap_srv s) c' clusterID))) (\<lambda>info.
     case info of
       None \<Rightarrow> gpanic
     | Some kubeConfig \<Rightarrow> (case ap_RESTConfig s kubeConfig of
         Some err \<Rightarrow> gfail err
       | None \<Rightarrow> (case ap_NewForConfig s kubeConfig of
           Some err \<Rightarrow> gfail err
         | None \<Rightarrow> gcatch (glift (call (AspCreateToken kubeConfig namespace serviceAccount)
             (av_CreateToken (ap_srv s) c' kubeConfig namespace serviceAccount expiration))) (\<lambda>r. case r of
               Inl err \<Rightarrow> gfail (PlainErr (''failed to create token '' @ err_msg err))
             | Inr token \<Rightarrow> if token = [] then gfail (PlainErr ''failed to create token <nil>'') else gret token)))))"

text \<open>The infrastructure name is that of the first cluster that has one, and empty if there is none.\<close>

definition infra_name :: "ObjectMeta list \<Rightarrow> string" where
  "infra_name clusters = (case find (\<lambda>m. map_of (labels_of m) CapiInfraName \<noteq> None) clusters of
     None \<Rightarrow> [] | Some m \<Rightarrow> label_get (labels_of m) CapiInfraName)"

definition GetClusterInfraName :: "'w AspServer \<Rightarrow> int \<Rightarrow> string \<Rightarrow> string \<Rightarrow> ('w, string) aspio" where
  "GetClusterInfraName s timeout clusterID activeProjectID =
     (let selector = (LabelClusterName, clusterID) #
        (if activeProjectID = [] then [] else [(AppOrchActiveProjectID, activeProjectID)])
      in gtry (glift (call (AspListClusters timeout activeProjectID selector)
           (av_ListClusters (ap_srv s) timeout activeProjectID selector))) (\<lambda>clusters.
         gret (infra_name clusters)))"

end
