(* ===== verification/AspProxy.thy ===== *)
theory AspProxy
  imports AspAuth
begin

text \<open>
  The server of the App Service Proxy (internal/server/server.go): what it reads from the cookies of a
  request, when it proxies a request to the gateway of the clusters, and what it sends there.
\<close>

section \<open>Cookies\<close>

record CookieInfo =
  ci_projectID :: string
  ci_cluster :: string
  ci_namespace :: string
  ci_service :: string

definition extractCookieInfo :: "HttpRequest \<Rightarrow> CookieInfo res" where
  "extractCookieInfo req =
     (case get_cookie req ''app-service-proxy-project'' of Inl err \<Rightarrow> Inl err | Inr projectID \<Rightarrow>
      case get_cookie req ''app-service-proxy-cluster'' of Inl err \<Rightarrow> Inl err | Inr cluster \<Rightarrow>
      case get_cookie req ''app-service-proxy-namespace'' of Inl err \<Rightarrow> Inl err | Inr namespace \<Rightarrow>
      case get_cookie req ''app-service-proxy-service'' of Inl err \<Rightarrow> Inl err | Inr service \<Rightarrow>
        Inr \<lparr>ci_projectID = projectID, ci_cluster = cluster, ci_namespace = namespace, ci_service = service\<rparr>)"

text \<open>The parts of the header that are no token; the brackets are those of a header that was printed as a
  list.\<close>

definition token_part :: "string \<Rightarrow> bool" where
  "token_part part = HasPrefix part tokenCookiePrefix"

definition sanitizeCookieHeader :: "string \<Rightarrow> string" where
  "sanitizeCookieHeader cookieHeader = Join (filter (\<lambda>part. \<not> token_part part)
     (map TrimSpace (Split (TrimSuffix (TrimPrefix cookieHeader [CHR ''['', CHR 0x22]) [CHR 0x22, CHR '']'']) '';''))) ''; ''"

section \<open>The server\<close>

definition maxBodySizeBytesLimit :: "environ \<Rightarrow> int" where
  "maxBodySizeBytesLimit en =
     wrap64 ((case Atoi (Getenv en ''MAX_BODY_SIZE_BYTES_LIMIT'') of Inl _ \<Rightarrow> 100 | Inr m \<Rightarrow> m) * 2 ^ 20)"

definition initAuth :: "'w AspServer \<Rightarrow> 'w AspServer" where
  "initAuth s = s\<lparr>ap_authNenabled := Getenv (ap_environ s) ''OIDC_SERVER_URL'' \<noteq> [],
     ap_authZenabled := (Getenv (ap_environ s) ''OPA_ENABLED'' = ''true'')\<rparr>"

text \<open>The names of the log levels are those of the logger, a parameter.\<close>

definition aspNewServer :: "(string \<Rightarrow> bool) \<Rightarrow> 'w AspServer \<Rightarrow> 'w AspServer res" where
  "aspNewServer level_ok s = (let ccgAddress = Getenv (ap_environ s) ''CCG_ADDRESS'' in
     if ccgAddress = [] then Inl (PlainErr ''CCG_ADDRESS is not set'')
     else case LookupEnv (ap_environ s) ''ASP_LOG_LEVEL'' of
       Some l \<Rightarrow> if level_ok l then Inr (initAuth (s\<lparr>ap_ccgAddress := ccgAddress\<rparr>))
         else Inl (PlainErr ''ASP_LOG_LEVEL is not set to a valid logrus level'')
     | None \<Rightarrow> Inr (initAuth (s\<lparr>ap_ccgAddress := ccgAddress\<rparr>)))"

text \<open>The request is changed by reading the token, also for the proxy.\<close>

definition isAllowed ::
  "'w AspServer \<Rightarrow> HttpRequest \<Rightarrow> string \<Rightarrow> ('w, goerror option \<times> HttpRequest) aspio" where
  "isAllowed s req projectID =
     gtry (if ap_authNenabled s then Authenticate s req else gret (None, req)) (\<lambda>(e, req1).
     if e \<noteq> None then gret (e, req1)
     else if ap_authZenabled s then Authorize s req1 projectID else gret (None, req1))"

section \<open>What is sent to the gateway\<close>

definition proxy_path :: "CookieInfo \<Rightarrow> string \<Rightarrow> string \<Rightarrow> string" where
  "proxy_path ci infraName path = ''/kubernetes/'' @ ci_projectID ci @ ''-'' @ infraName @ ''/api/v1/namespaces/''
     @ ci_namespace ci @ ''/services/'' @ ci_service ci @ ''/proxy'' @ path"

definition reset_cookies :: "HttpRequest \<Rightarrow> HttpRequest" where
  "reset_cookies req = fold (\<lambda>c r. if HasPrefix (ck_Name c) tokenCookiePrefix then add_empty_cookie (ck_Name c) r else r)
     (Cookies req) req"

text \<open>The director of the reverse proxy, after the one that sets scheme and host of the URL.\<close>

definition director :: "string \<Rightarrow> CookieInfo \<Rightarrow> string \<Rightarrow> HttpRequest \<Rightarrow> HttpRequest" where
  "director ccgAddress ci newPath req = (let
     r1 = reset_cookies req;
     r2 = r1\<lparr>hr_Header := hset ''Cookie'' (sanitizeCookieHeader (hget (hr_Header r1) ''Cookie'')) (hr_Header r1),
        hr_Path := newPath, hr_Host := ccgAddress\<rparr>;
     existingHeader = hget (hr_Header r2) ''Authorization'';
     r3 = (if existingHeader \<noteq> []
       then r2\<lparr>hr_Header := hdel ''Authorization'' (hadd ''X-App-Authorization'' existingHeader (hr_Header r2))\<rparr> else r2)
   in r3\<lparr>hr_Header := hadd ''Activeprojectid'' (ci_projectID ci) (hr_Header r3)\<rparr>)"

section \<open>The handler\<close>

text \<open>The answer of the handler: a redirection with its reason, an error, nothing at all, which is an empty
  answer with status 200, or what the gateway answers.\<close>

datatype asp_answer = RedirectToLogin string | HttpError string int | EmptyAnswer | Proxied

definition query_timeout :: "HttpRequest \<Rightarrow> int" where
  "query_timeout req = (let timeout = (case map_of (hr_Query req) ''timeout'' of Some (v # _) \<Rightarrow> v | _ \<Rightarrow> []) in
     if timeout = [] then 15 * 10 ^ 9
     else case Atoi timeout of Inl _ \<Rightarrow> 15 * 10 ^ 9 | Inr val \<Rightarrow> wrap64 (val * 10 ^ 9))"

definition ServicesProxy :: "'w AspServer \<Rightarrow> HttpRequest \<Rightarrow> ('w, asp_answer) aspio" where
  "ServicesProxy s req = (case extractCookieInfo req of
     Inl err \<Rightarrow> gret (if err = ErrNoCookie then RedirectToLogin (err_msg err) else HttpError (err_msg err) 400)
   | Inr ci \<Rightarrow>
       gtry (isAllowed s req (ci_projectID ci)) (\<lambda>(e, req').
       case e of
         Some err \<Rightarrow> gret (HttpError (err_msg err) 401)
       | None \<Rightarrow> (case ap_ParseURL s (''http://'' @ ap_ccgAddress s) of
           Inl err \<Rightarrow> gret (HttpError (err_msg err) 400)
         | Inr _ \<Rightarrow>
             gcatch (GetClusterInfraName s (query_timeout req') (ci_cluster ci) (ci_projectID ci)) (\<lambda>r. case r of
               Inl _ \<Rightarrow> gret EmptyAnswer
             | Inr infraName \<Rightarrow> (let out = director (ap_ccgAddress s) ci (proxy_path ci infraName (hr_Path req')) req' in
                 do { _ \<leftarrow> call (AspRoundTrip out) (av_RoundTrip (ap_srv s) out); gret Proxied })))))"

end
