(* ===== verification/AspProps.thy ===== *)
theory AspProps
  imports AspProxy
begin

text \<open>
  Properties of the App Service Proxy: what a request needs to be proxied, and what the gateway gets to
  see of it.
\<close>

section \<open>Cookies of the forwarded request\<close>

lemma rev_dropWhile_prefix: "\<exists>w. s = rev (dropWhile P (rev s)) @ w"
proof -
  have "rev (takeWhile P (rev s) @ dropWhile P (rev s)) = s" by simp
  then show ?thesis unfolding rev_append by metis
qed

lemma dropWhile_hd: "s = [] \<or> \<not> P (hd s) \<Longrightarrow> dropWhile P s = s"
  by (cases s) auto

lemma trimmed_start: "TrimSpace s = [] \<or> \<not> is_space (hd (TrimSpace s))"
proof -
  obtain w where w: "dropWhile is_space s = TrimSpace s @ w"
    using rev_dropWhile_prefix [of "dropWhile is_space s" is_space] by (auto simp: TrimSpace_def)
  show ?thesis
  proof (cases "TrimSpace s")
    case (Cons c cs)
    then have "dropWhile is_space s \<noteq> [] \<and> hd (dropWhile is_space s) = c" by (simp add: w)
    then show ?thesis using hd_dropWhile [of is_space s] Cons by simp
  qed simp
qed

lemma TrimString_start: "s = [] \<or> \<not> is_space (hd s) \<Longrightarrow> \<exists>w. s = TrimString s @ w"
  using rev_dropWhile_prefix [of s ascii_space]
  by (subst TrimString_def, subst dropWhile_hd) (auto simp: ascii_space_def is_space_def)

lemma read_cookie_name:
  assumes "read_cookie p = Some c" "p = [] \<or> \<not> is_space (hd p)"
  shows "HasPrefix p (ck_Name c)"
proof -
  obtain w where w: "p = TrimString p @ w" using TrimString_start [OF assms(2)] by blast
  let ?t = "TrimString p" and ?b = "before_eq (TrimString p)"
  have c: "ck_Name c = TrimString ?b" "?t \<noteq> []" using assms(1) by (auto simp: read_cookie_def Let_def split: if_splits)
  obtain v where v: "?t = ?b @ v" unfolding before_eq_def by (metis takeWhile_dropWhile_id)
  have "?b = [] \<or> \<not> is_space (hd ?b)"
  proof (cases "?b")
    case (Cons x xs)
    then have "hd p = x" using v w by (metis append_Cons list.sel(1))
    moreover have "p \<noteq> []" using c(2) w by auto
    ultimately show ?thesis using assms(2) Cons by simp
  qed simp
  then obtain u where "?b = TrimString ?b @ u" using TrimString_start by blast
  then have "p = TrimString ?b @ u @ v @ w" using v w by (metis append.assoc)
  then show ?thesis using c(1) by (metis HasPrefix_iff)
qed

lemma HasPrefix_trans: "HasPrefix s p \<Longrightarrow> HasPrefix p q \<Longrightarrow> HasPrefix s q"
  by (auto simp: HasPrefix_iff)

lemma Join_space: "ps \<noteq> [] \<Longrightarrow> Join ps ''; '' = Join (hd ps # map ((#) CHR '' '') (List.tl ps)) '';''"
proof (induction ps rule: induct_list012)
  case (3 x y zs)
  then show ?case by (cases zs) simp_all
qed simp_all

lemma read_cookie_blank: "read_cookie (CHR '' '' # p) = read_cookie p"
  by (simp add: read_cookie_def TrimString_def ascii_space_def)

lemma set_TrimSpace: "set (TrimSpace s) \<subseteq> set s"
  by (auto simp: TrimSpace_def dest!: set_dropWhileD)

lemma sanitized_cookies:
  "\<exists>ps. read_cookies [sanitizeCookieHeader h] = List.map_filter read_cookie ps \<and>
     (\<forall>p \<in> set ps. \<not> token_part p \<and> (p = [] \<or> \<not> is_space (hd p)))"
proof -
  define ps where "ps = filter (\<lambda>part. \<not> token_part part)
     (map TrimSpace (Split (TrimSuffix (TrimPrefix h [CHR ''['', CHR 0x22]) [CHR 0x22, CHR '']'']) '';''))"
  have ps: "\<not> token_part p \<and> (p = [] \<or> \<not> is_space (hd p))" if "p \<in> set ps" for p
    using that trimmed_start by (auto simp: ps_def)
  have semi: "CHR '';'' \<notin> set p" if "p \<in> set ps" for p
    using that set_TrimSpace Split_parts [of "CHR '';''"] by (fastforce simp: ps_def list_all_iff)
  have h: "sanitizeCookieHeader h = Join ps ''; ''" by (simp add: sanitizeCookieHeader_def ps_def)
  show ?thesis
  proof (cases ps)
    case Nil
    then have "read_cookies [sanitizeCookieHeader h] = List.map_filter read_cookie [[]]"
      by (simp add: h read_cookies_def Split_def)
    also have "\<dots> = List.map_filter read_cookie []"
      by (simp add: List.map_filter_def read_cookie_def TrimString_def)
    finally show ?thesis by (intro exI [of _ "[]"]) simp
  next
    case (Cons q qs)
    have "Split (Join ps ''; '') '';'' = q # map ((#) CHR '' '') qs"
      using semi Cons Join_space [of ps] Split_Join_char [of "q # map ((#) CHR '' '') qs" "CHR '';''"]
      by (simp add: list_all_iff)
    then have "read_cookies [sanitizeCookieHeader h] = List.map_filter read_cookie ps"
      by (simp add: h read_cookies_def List.map_filter_def Cons read_cookie_blank comp_def filter_map)
    with ps show ?thesis by blast
  qed
qed

lemma sanitized_no_token:
  "list_all (\<lambda>c. \<not> HasPrefix (ck_Name c) tokenCookiePrefix) (read_cookies [sanitizeCookieHeader h])"
proof -
  from sanitized_cookies [of h] obtain ps where ps: "read_cookies [sanitizeCookieHeader h] = List.map_filter read_cookie ps"
    "\<And>p. p \<in> set ps \<Longrightarrow> \<not> token_part p \<and> (p = [] \<or> \<not> is_space (hd p))" by blast
  show ?thesis unfolding list_all_iff
  proof
    fix c assume "c \<in> set (read_cookies [sanitizeCookieHeader h])"
    then obtain p where p: "p \<in> set ps" "read_cookie p = Some c" by (auto simp: ps(1) List.map_filter_def)
    show "\<not> HasPrefix (ck_Name c) tokenCookiePrefix"
      using HasPrefix_trans [OF read_cookie_name [OF p(2)]] ps(2) [OF p(1)] by (auto simp: token_part_def)
  qed
qed

section \<open>The forwarded request\<close>

lemma director_fields [simp]:
  "hr_Path (director g ci path req) = path" "hr_Host (director g ci path req) = g"
  "hget (hr_Header (director g ci path req)) ''Authorization'' = []"
  by (simp_all add: director_def Let_def)

lemma director_cookies:
  "Cookies (director g ci path req) = read_cookies [sanitizeCookieHeader (hget (hr_Header (reset_cookies req)) ''Cookie'')]"
  by (simp add: director_def Let_def Cookies_def)

lemma reset_cookies_other: "k \<noteq> ''Cookie'' \<Longrightarrow> hvalues (hr_Header (reset_cookies req)) k = hvalues (hr_Header req) k"
proof -
  assume k: "k \<noteq> ''Cookie''"
  have "hvalues (hr_Header (fold (\<lambda>c r. if HasPrefix (ck_Name c) tokenCookiePrefix then add_empty_cookie (ck_Name c) r else r) cs r)) k
      = hvalues (hr_Header r) k" for cs r
    by (induction cs arbitrary: r) (simp_all add: add_empty_cookie_def Let_def k)
  then show ?thesis by (simp add: reset_cookies_def)
qed

lemma director_project:
  "hvalues (hr_Header (director g ci path req)) ''Activeprojectid'' = hvalues (hr_Header req) ''Activeprojectid'' @ [ci_projectID ci]"
  by (simp add: director_def Let_def reset_cookies_other)

text \<open>What the gateway may get: its own host, the path of the cookies, no token and no credentials.\<close>

definition forward_safe :: "'w AspServer \<Rightarrow> CookieInfo \<Rightarrow> string \<Rightarrow> asp_ev \<Rightarrow> bool" where
  "forward_safe s ci path e = (case e of
     AspRoundTrip out \<Rightarrow> hr_Host out = ap_ccgAddress s \<and> (\<exists>infraName. hr_Path out = proxy_path ci infraName path) \<and>
       hget (hr_Header out) ''Authorization'' = [] \<and> last (hvalues (hr_Header out) ''Activeprojectid'') = ci_projectID ci \<and>
       list_all (\<lambda>c. \<not> HasPrefix (ck_Name c) tokenCookiePrefix) (Cookies out)
   | _ \<Rightarrow> True)"

lemma forwarded_director: "forward_safe s ci path (AspRoundTrip (director (ap_ccgAddress s) ci (proxy_path ci infraName path) req))"
  by (auto simp: forward_safe_def director_cookies sanitized_no_token director_project)

lemma add_empty_cookie_path [simp]: "hr_Path (add_empty_cookie n req) = hr_Path req"
  by (simp add: add_empty_cookie_def Let_def)

lemma aspCombined_path: "hr_Path (snd (aspCombinedJWTToken req)) = hr_Path req"
  by (simp add: aspCombinedJWTToken_def Let_def split: sum.split)

section \<open>Who may be proxied\<close>

definition only_checks :: "asp_ev \<Rightarrow> bool" where
  "only_checks e = (case e of AspValidate _ \<Rightarrow> True | AspRule _ \<Rightarrow> True | _ \<Rightarrow> False)"

lemma does_Authenticate: "does only_checks (Authenticate s req) (\<lambda>_. True)"
  unfolding Authenticate_def by (intro emits_intros TrueI) (simp add: only_checks_def)

lemma does_Authorize: "does only_checks (Authorize s req p) (\<lambda>_. True)"
  unfolding Authorize_def ask_rule_def Let_def
  by (auto intro!: emits_intros simp: only_checks_def split: go.split sum.split option.split OpaResult.split bool.split)

lemma does_isAllowed: "does only_checks (isAllowed s req p) (\<lambda>_. True)"
  unfolding isAllowed_def by (intro emits_intros TrueI does_Authenticate does_Authorize)

text \<open>The token is complete and valid; the rule answers true for the token and the project.\<close>

definition authentic :: "'w AspServer \<Rightarrow> HttpRequest \<Rightarrow> 'w \<Rightarrow> bool" where
  "authentic s req w = (case fst (aspCombinedJWTToken req) of
     Inl _ \<Rightarrow> False | Inr token \<Rightarrow> fst (av_ParseAndValidate (ap_srv s) token w) = None)"

definition rule_allows :: "'w AspServer \<Rightarrow> HttpRequest \<Rightarrow> string \<Rightarrow> 'w \<Rightarrow> bool" where
  "rule_allows s req projectID w = (case fst (aspCombinedJWTToken req) of
     Inl _ \<Rightarrow> False
   | Inr jwt \<Rightarrow> (case ap_Authenticate s \<lparr>x_md = Some [(''authorization'', [''Bearer '' @ jwt]), (''activeprojectid'', [projectID])], x_out = []\<rparr> of
       Inl _ \<Rightarrow> False
     | Inr x \<Rightarrow> (case x_md x of
         None \<Rightarrow> False
       | Some md \<Rightarrow> (case ap_marshal s (hr_Method req) md of
           Inl _ \<Rightarrow> False
         | Inr body \<Rightarrow> (case fst (av_PostRule (ap_srv s) body w) of
             Inl _ \<Rightarrow> False
           | Inr resp \<Rightarrow> opa_JSON200 resp = Some (OpaBool True))))))"

text \<open>Authentication reads the cookies once, so that authorisation sees them rewritten.\<close>

definition asp_permitted :: "'w AspServer \<Rightarrow> HttpRequest \<Rightarrow> CookieInfo \<Rightarrow> 'w \<Rightarrow> bool" where
  "asp_permitted s req ci w =
     (let (req1, w1) = (if ap_authNenabled s then (snd (aspCombinedJWTToken req),
            case fst (aspCombinedJWTToken req) of Inl _ \<Rightarrow> w | Inr token \<Rightarrow> snd (av_ParseAndValidate (ap_srv s) token w))
          else (req, w))
      in (ap_authNenabled s \<longrightarrow> authentic s req w) \<and> (ap_authZenabled s \<longrightarrow> rule_allows s req1 (ci_projectID ci) w1))"

lemma aspCombined_method: "hr_Method (snd (aspCombinedJWTToken req)) = hr_Method req"
  by (simp add: aspCombinedJWTToken_def Let_def add_empty_cookie_def split: sum.split)

lemma Authenticate_run:
  assumes "run_state (Authenticate s req) w = (Ret (Inr (None, req')), w')"
  shows "authentic s req (env w)" "req' = snd (aspCombinedJWTToken req)"
    "\<exists>token. fst (aspCombinedJWTToken req) = Inr token \<and> env w' = snd (av_ParseAndValidate (ap_srv s) token (env w))"
  using assms
  by (auto simp: Authenticate_def authentic_def split: prod.splits sum.splits)

lemma Authorize_run:
  assumes "run_state (Authorize s req p) w = (Ret (Inr (None, req')), w')"
  shows "rule_allows s req p (env w)" "hr_Path req' = hr_Path req"
  using assms aspCombined_method [of req] aspCombined_path [of req]
  by (auto simp: Authorize_def rule_allows_def ask_rule_def Let_def run_gtry run_gcatch
      split: go.splits prod.splits sum.splits option.splits OpaResult.splits bool.splits)

lemma isAllowed_run:
  assumes "run_state (isAllowed s req (ci_projectID ci)) w = (Ret (Inr (None, req')), w')"
  shows "asp_permitted s req ci (env w)" "hr_Path req' = hr_Path req"
proof -
  have "asp_permitted s req ci (env w) \<and> hr_Path req' = hr_Path req"
  proof (cases "ap_authNenabled s")
    case True
    obtain r w1 where r: "run_state (Authenticate s req) w = (r, w1)" by fastforce
    with assms True obtain req1 where r1: "r = Ret (Inr (None, req1))"
      by (auto simp: isAllowed_def run_gtry split: go.splits sum.splits prod.splits if_splits)
    note auth = Authenticate_run [OF r [unfolded r1]]
    have "run_state (if ap_authZenabled s then Authorize s req1 (ci_projectID ci) else gret (None, req1)) w1 =
        (Ret (Inr (None, req')), w')"
      using assms True r r1 by (simp add: isAllowed_def run_gtry)
    with True auth show ?thesis
      by (cases "ap_authZenabled s") (auto simp: asp_permitted_def aspCombined_path dest: Authorize_run)
  next
    case False
    then have "run_state (if ap_authZenabled s then Authorize s req (ci_projectID ci) else gret (None, req)) w =
        (Ret (Inr (None, req')), w')"
      using assms by (simp add: isAllowed_def run_gtry)
    with False show ?thesis
      by (cases "ap_authZenabled s") (auto simp: asp_permitted_def dest: Authorize_run)
  qed
  then show "asp_permitted s req ci (env w)" "hr_Path req' = hr_Path req" by auto
qed

lemma serve_allowed:
  assumes "extractCookieInfo req = Inr ci"
    "run_state (isAllowed s req (ci_projectID ci)) w = (r, w1)" "\<forall>req'. r \<noteq> Ret (Inr (None, req'))"
  shows "effects (ServicesProxy s req) w = effects (isAllowed s req (ci_projectID ci)) w"
  using assms
  by (auto simp: ServicesProxy_def effects_def run_gtry split: go.split sum.split prod.split option.split)

lemma does_infra_name: "(\<And>r. Q r) \<Longrightarrow> P (AspListClusters t p ([(LabelClusterName, c)] @ (if p = [] then [] else [(AppOrchActiveProjectID, p)])))
    \<Longrightarrow> does P (GetClusterInfraName s t c p) Q"
  unfolding GetClusterInfraName_def Let_def by (intro emits_intros TrueI) simp_all

lemma isAllowed_path: "returns (isAllowed s req p) (\<lambda>(_, req'). hr_Path req' = hr_Path req)"
proof -
  have "returns (Authenticate s req) (\<lambda>(_, req'). hr_Path req' = hr_Path req)"
    using aspCombined_path [of req]
    by (auto simp: Authenticate_def returns_def post_def split: prod.splits sum.splits)
  moreover have "returns (Authorize s r p) (\<lambda>(_, req'). hr_Path req' = hr_Path req)" if "hr_Path r = hr_Path req" for r
    using aspCombined_path [of r] that
    by (auto simp: Authorize_def Let_def split: go.split prod.splits sum.split option.split intro!: returns_gtry_any)
  ultimately show ?thesis
    unfolding isAllowed_def by (intro returns_gtry [where R = "\<lambda>(_, r). hr_Path r = hr_Path req"]) (auto split: prod.splits)
qed



definition sample_asp_services :: "'w AspServices" where
  "sample_asp_services = \<lparr>av_ParseAndValidate = (\<lambda>_ w. (None, w)),
     av_PostRule = (\<lambda>_ w. (Inr \<lparr>opa_JSON200 = Some (OpaBool True)\<rparr>, w)), av_ListClusters = (\<lambda>_ _ _ w. (Inr [], w)),
     av_GetM2MToken = (\<lambda>_ w. (Inr ''token'', w)), av_Logout = (\<lambda>_ w. (None, w)),
     av_GetKubeConfig = (\<lambda>_ _ w. (Inr None, w)), av_CreateToken = (\<lambda>_ _ _ _ _ w. (Inr ''token'', w)),
     av_RoundTrip = (\<lambda>_ w. ((), w))\<rparr>"

definition sample_asp :: "'w AspServer" where
  "sample_asp = \<lparr>ap_srv = sample_asp_services, ap_ccgAddress = ''gateway'', ap_environ = [(''OPA_PORT'', ''9191'')],
     ap_authNenabled = True, ap_authZenabled = True, ap_NewOpaClient = (\<lambda>_. True), ap_Authenticate = Inr,
     ap_marshal = (\<lambda>_ _. Inr ''{}''), ap_input_text = (\<lambda>_ _. []), ap_RESTConfig = (\<lambda>_. None),
     ap_NewForConfig = (\<lambda>_. None), ap_ParseURL = Inr\<rparr>"

definition sample_asp_request :: HttpRequest where
  "sample_asp_request = \<lparr>hr_Method = ''GET'', hr_Path = ''/page'', hr_Query = [], hr_Host = ''proxy'',
     hr_Header = [(''Cookie'', [''app-service-proxy-project=p; app-service-proxy-cluster=c; app-service-proxy-namespace=n; '' @
       ''app-service-proxy-service=web; app-service-proxy-tokens=1; app-service-proxy-token-0=jwt''])]\<rparr>"

lemma sample_cookie_info: "extractCookieInfo sample_asp_request =
    Inr \<lparr>ci_projectID = ''p'', ci_cluster = ''c'', ci_namespace = ''n'', ci_service = ''web''\<rparr>"
  by code_simp


section \<open>What the gateway may mistake\<close>

text \<open>The project is added to the header, not set: a project that the client sends stays in front of it.\<close>

lemma client_project_first:
  "hvalues (hr_Header req) ''Activeprojectid'' = v # vs \<Longrightarrow>
   hget (hr_Header (director g ci path req)) ''Activeprojectid'' = v"
  using director_project [of g ci path req] by (auto simp: hget_def hvalues_def split: option.splits list.splits)

text \<open>The namespace of the cookie is put into the path as it is: its dots lead out of the cluster whose
  project was authorised.\<close>

lemma cookie_namespace_escapes:
  "path_clean (proxy_path \<lparr>ci_projectID = ''mine'', ci_cluster = ''c'',
       ci_namespace = ''../../../../other-c/api/v1/namespaces/n'', ci_service = ''web''\<rparr> ''c'' ''/'') =
     ''/kubernetes/other-c/api/v1/namespaces/n/services/web/proxy''"
  by code_simp

end
