(* ===== verification/AspRewrite.thy ===== *)
theory AspRewrite
  imports AspProxy
begin

text \<open>
  The transport of the App Service Proxy (internal/server/transport.go): what it changes in an answer, so
  that a page of an application works behind the proxy: the content security policy, the links of the
  HTML, the URLs in scripts and styles, and the target of a redirection.

  URLs, the HTML tokenizer, the expression for styles, which is built from an address, and compression are
  parameters.
\<close>

section \<open>The content security policy\<close>

definition re_space :: "char \<Rightarrow> bool" where
  "re_space c = ((of_char c :: nat) \<in> {9, 10, 12, 13, 32})"

abbreviation frameAncestors :: string where "frameAncestors \<equiv> ''frame-ancestors''"

definition not_semi :: "char \<Rightarrow> bool" where
  "not_semi c = (c \<noteq> CHR '';'')"

text \<open>The expression \<open>frame-ancestors\s+([^;]+)\<close> at the start of a text: the match and the rest.  The last
  blank can be the first character of the group, so that one blank and one more character are needed.\<close>

definition csp_match :: "string \<Rightarrow> (string \<times> string) option" where
  "csp_match s = (if HasPrefix s frameAncestors then
     (case drop (length frameAncestors) s of
        w # c # rest \<Rightarrow> if re_space w \<and> not_semi c
          then Some (frameAncestors @ w # takeWhile not_semi (c # rest), dropWhile not_semi (c # rest)) else None
      | _ \<Rightarrow> None) else None)"

abbreviation self_source :: string where "self_source \<equiv> [CHR 0x27] @ ''self'' @ [CHR 0x27]"
abbreviation none_source :: string where "none_source \<equiv> [CHR 0x27] @ ''none'' @ [CHR 0x27]"

definition allow_self :: "string \<Rightarrow> string" where
  "allow_self m = (case Fields m of
     _ # src # srcs \<Rightarrow>
       if src = none_source then frameAncestors @ '' '' @ self_source
       else if self_source \<in> set (src # srcs) then m else m @ '' '' @ self_source
   | _ \<Rightarrow> frameAncestors @ '' '' @ self_source)"

lemma csp_match_shorter: "csp_match s = Some (m, rest) \<Longrightarrow> length rest < length s"
proof -
  assume a: "csp_match s = Some (m, rest)"
  then obtain w c r where d: "drop (length frameAncestors) s = w # c # r" "rest = dropWhile not_semi (c # r)"
    by (auto simp: csp_match_def split: if_splits list.splits)
  have "length rest \<le> length (c # r)" unfolding d(2) by (rule length_dropWhile_le)
  also have "\<dots> < length (drop (length frameAncestors) s)" using d(1) by simp
  also have "\<dots> \<le> length s" by simp
  finally show ?thesis .
qed

function patch_csp :: "string \<Rightarrow> string" where
  "patch_csp [] = []"
| "patch_csp (c # s) = (case csp_match (c # s) of
     Some (m, rest) \<Rightarrow> allow_self m @ patch_csp rest
   | None \<Rightarrow> c # patch_csp s)"
  by pat_completeness auto
termination by (relation "measure length") (auto dest: csp_match_shorter)

text \<open>Several headers become one.\<close>

definition patch_csp_headers :: "header \<Rightarrow> header" where
  "patch_csp_headers h = (let csps = hvalues h ''Content-Security-Policy'' in
     if csps = [] then h
     else hset ''Content-Security-Policy'' (Join (map patch_csp csps) ''; '') (hdel ''Content-Security-Policy'' h))"

section \<open>URLs\<close>

record Url =
  u_Host :: string
  u_Path :: string
  u_Rest :: string

text \<open>The attributes of a token can be changed before it is printed.  A reader gives what can be read and the
  error it ends with, none at the end of the text: \<open>rl_Gunzip\<close> reads the head of a compressed body, which can
  fail, and \<open>rl_Tokens\<close> is what the tokenizer makes of a reader, and the error it ends with.\<close>

type_synonym reader = "string \<times> goerror option"

record HtmlTag =
  tg_Name :: string
  tg_SelfClosing :: bool
  tg_Attrs :: "(string \<times> string) list"

datatype HtmlToken = StartTag HtmlTag | EndTag HtmlTag | TextToken string string | OtherToken string

record rewritelib =
  rl_Parse :: "string \<Rightarrow> Url res"
  rl_String :: "Url \<Rightarrow> string"
  rl_TagString :: "HtmlTag \<Rightarrow> string"
  rl_EndString :: "HtmlTag \<Rightarrow> string"
  rl_ReplaceCSS :: "string \<Rightarrow> (string \<Rightarrow> string) \<Rightarrow> string \<Rightarrow> string option"
  rl_Gunzip :: "reader \<Rightarrow> reader res"
  rl_Inflate :: "reader \<Rightarrow> reader"
  rl_Tokens :: "reader \<Rightarrow> HtmlToken list \<times> goerror option"
  rl_Encode :: "string \<Rightarrow> string \<Rightarrow> string"
  rl_Flushed :: "string \<Rightarrow> string \<Rightarrow> nat"

definition service_prefix :: "CookieInfo \<Rightarrow> string" where
  "service_prefix ci = ''/api/v1/namespaces/'' @ ci_namespace ci @ ''/services/'' @ ci_service ci @ ''/proxy''"

text \<open>The URLs that are left alone: of another host, relative ones, and those that a browser would take for
  another host.\<close>

definition foreign_url :: "Url \<Rightarrow> Url \<Rightarrow> bool" where
  "foreign_url url kubeapiAddr = (
     (u_Host url \<noteq> [] \<and> u_Host url \<noteq> u_Host kubeapiAddr) \<or>
     (u_Path url \<noteq> [] \<and> \<not> HasPrefix (u_Path url) ''/'') \<or>
     (case u_Path url of a # b # _ \<Rightarrow> a = CHR ''/'' \<and> (b = CHR ''/'' \<or> b = CHR 0x5C) | _ \<Rightarrow> False))"

definition rewriteURL :: "rewritelib \<Rightarrow> Url \<Rightarrow> Url \<Rightarrow> CookieInfo \<Rightarrow> Url \<Rightarrow> string" where
  "rewriteURL L url sourceURL ci kubeapiAddr =
     (if foreign_url url kubeapiAddr then rl_String L url
      else rl_String L (url\<lparr>u_Path := TrimPrefix (u_Path url) (service_prefix ci), u_Host := u_Host sourceURL\<rparr>))"

definition ModifyURL :: "rewritelib \<Rightarrow> string \<Rightarrow> CookieInfo \<Rightarrow> string \<Rightarrow> string \<Rightarrow> string" where
  "ModifyURL L u ci srcURL kubeapiAddr =
     (if HasPrefix u kubeapiAddr then
        (case rl_Parse L u of
           Inl _ \<Rightarrow> u
         | Inr ur \<Rightarrow> rl_String L (ur\<lparr>u_Path := TrimPrefix (u_Path ur) (service_prefix ci), u_Host := srcURL\<rparr>))
      else u)"

section \<open>Scripts and styles\<close>

abbreviation dquote :: char where "dquote \<equiv> CHR 0x22"

text \<open>The expression for the setting \<open>appSubUrl\<close> at the start of a text: the value, which has no line break,
  and the rest.\<close>

definition app_sub_match :: "string \<Rightarrow> (string \<times> string) option" where
  "app_sub_match s = (let key = dquote # ''appSubUrl'' @ [dquote] in
     if HasPrefix s key then
       (case dropWhile re_space (drop (length key) s) of
          [] \<Rightarrow> None
        | c # s1 \<Rightarrow> if c \<noteq> CHR '':'' then None
            else (case dropWhile re_space s1 of
              [] \<Rightarrow> None
            | q # s2 \<Rightarrow> (let v = takeWhile (\<lambda>x. x \<noteq> dquote) s2 in
                if q \<noteq> dquote \<or> length v = length s2 \<or> CHR 0x0A \<in> set v then None
                else Some (v, drop (length v + 1) s2))))
     else None)"

text \<open>The whole match is replaced by the URL; \<open>skip\<close> counts the characters of a match that are left.\<close>

fun replace_app_sub :: "(string \<Rightarrow> string) \<Rightarrow> nat \<Rightarrow> string \<Rightarrow> string" where
  "replace_app_sub f skip [] = []"
| "replace_app_sub f (Suc skip) (c # s) = replace_app_sub f skip s"
| "replace_app_sub f 0 (c # s) = (case app_sub_match (c # s) of
     Some (v, rest) \<Rightarrow> f v @ replace_app_sub f (length s - length rest) s
   | None \<Rightarrow> c # replace_app_sub f 0 s)"

text \<open>An empty host stands before every character and at the end.\<close>

definition replace_host :: "string \<Rightarrow> string \<Rightarrow> string \<Rightarrow> string" where
  "replace_host s host new = (if host = [] then new @ concat (map (\<lambda>c. c # new) s) else ReplaceAll s host new)"

definition processJavaScript :: "rewritelib \<Rightarrow> string \<Rightarrow> CookieInfo \<Rightarrow> string \<Rightarrow> string \<Rightarrow> string" where
  "processJavaScript L jsContent ci srcURL kubeapiAddr =
     (let modifiedJS = replace_app_sub (\<lambda>url. ModifyURL L url ci srcURL kubeapiAddr) 0 jsContent
      in case rl_Parse L kubeapiAddr of
           Inl _ \<Rightarrow> modifiedJS
         | Inr ur \<Rightarrow> replace_host modifiedJS (u_Host ur) srcURL)"

definition processCSS :: "rewritelib \<Rightarrow> string \<Rightarrow> CookieInfo \<Rightarrow> string \<Rightarrow> string \<Rightarrow> string" where
  "processCSS L cssContent ci srcURL kubeapiAddr =
     (case rl_ReplaceCSS L kubeapiAddr
        (\<lambda>u. ''url('' @ [CHR 0x27] @ ModifyURL L u ci srcURL kubeapiAddr @ [CHR 0x27] @ '')'') cssContent of
        None \<Rightarrow> cssContent
      | Some modifiedCSS \<Rightarrow> modifiedCSS)"

section \<open>HTML\<close>

definition atomsToAttrs :: "string \<Rightarrow> string list" where
  "atomsToAttrs t = (case map_of
     [(''a'', [''href'']), (''applet'', [''codebase'']), (''area'', [''href'']), (''audio'', [''src'']), (''base'', [''href'']),
      (''blockquote'', [''cite'']), (''body'', [''background'']), (''button'', [''formaction'']), (''command'', [''icon'']),
      (''del'', [''cite'']), (''embed'', [''src'']), (''form'', [''action'']), (''frame'', [''longdesc'', ''src'']),
      (''head'', [''profile'']), (''html'', [''manifest'']), (''iframe'', [''longdesc'', ''src'']),
      (''img'', [''longdesc'', ''src'', ''usemap'']), (''input'', [''src'', ''usemap'', ''formaction'']), (''ins'', [''cite'']),
      (''link'', [''href'']), (''object'', [''classid'', ''codebase'', ''data'', ''usemap'']), (''q'', [''cite'']),
      (''script'', [''src'']), (''source'', [''src'']), (''video'', [''poster'', ''src''])] t of
     None \<Rightarrow> [] | Some ks \<Rightarrow> ks)"

definition rewrite_attr :: "rewritelib \<Rightarrow> string list \<Rightarrow> CookieInfo \<Rightarrow> Url \<Rightarrow> Url \<Rightarrow> string \<times> string \<Rightarrow> string \<times> string" where
  "rewrite_attr L keys ci kubeapiAddr sourceURL kv = (case kv of (k, v) \<Rightarrow>
     if k \<in> set keys then (k, case rl_Parse L v of Inl _ \<Rightarrow> v | Inr url \<Rightarrow> rewriteURL L url sourceURL ci kubeapiAddr)
     else (k, v))"

record html_state =
  hs_inStyle :: bool
  hs_inScript :: bool
  hs_style :: string
  hs_script :: string
  hs_out :: string

text \<open>A text token is written as the tokenizer unescapes it.  The contents of styles and scripts are kept
  until their end tag.\<close>

definition html_step :: "rewritelib \<Rightarrow> CookieInfo \<Rightarrow> Url \<Rightarrow> Url \<Rightarrow> HtmlToken \<Rightarrow> html_state \<Rightarrow> html_state" where
  "html_step L ci kubeapiAddr sourceURL t st = (case t of
     StartTag g \<Rightarrow> (let
         g' = g\<lparr>tg_Attrs := map (rewrite_attr L (atomsToAttrs (tg_Name g)) ci kubeapiAddr sourceURL) (tg_Attrs g)\<rparr>;
         st1 = (if tg_Name g = ''style'' then st\<lparr>hs_inStyle := True, hs_style := []\<rparr> else st);
         st2 = (if tg_Name g = ''script'' then st1\<lparr>hs_inScript := True, hs_script := []\<rparr> else st1)
       in st2\<lparr>hs_out := hs_out st2 @ rl_TagString L g'\<rparr>)
   | TextToken raw text \<Rightarrow>
       if hs_inStyle st then st\<lparr>hs_style := hs_style st @ text\<rparr>
       else if hs_inScript st then st\<lparr>hs_script := hs_script st @ text\<rparr>
       else st\<lparr>hs_out := hs_out st @ text\<rparr>
   | EndTag g \<Rightarrow> (let
         st1 = (if tg_Name g = ''style'' then st\<lparr>hs_inStyle := False,
             hs_out := hs_out st @ processCSS L (hs_style st) ci (u_Host sourceURL) (rl_String L kubeapiAddr)\<rparr> else st);
         st2 = (if tg_Name g = ''script'' then st1\<lparr>hs_inScript := False,
             hs_out := hs_out st1 @ processJavaScript L (hs_script st1) ci (u_Host sourceURL) (rl_String L kubeapiAddr)\<rparr> else st1)
       in st2\<lparr>hs_out := hs_out st2 @ rl_EndString L g\<rparr>)
   | OtherToken raw \<Rightarrow> st\<lparr>hs_out := hs_out st @ raw\<rparr>)"

definition html_start :: html_state where
  "html_start = \<lparr>hs_inStyle = False, hs_inScript = False, hs_style = [], hs_script = [], hs_out = []\<rparr>"

definition rewriteHTML :: "rewritelib \<Rightarrow> reader \<Rightarrow> CookieInfo \<Rightarrow> Url \<Rightarrow> Url \<Rightarrow> string res" where
  "rewriteHTML L body ci kubeapiAddr sourceURL = (case rl_Tokens L body of
     (_, Some err) \<Rightarrow> Inl err
   | (tokens, None) \<Rightarrow> Inr (hs_out (fold (html_step L ci kubeapiAddr sourceURL) tokens html_start)))"

section \<open>Answers\<close>

record HttpResponse =
  rs_Status :: int
  rs_Header :: header
  rs_ContentLength :: int
  rs_Body :: reader

text \<open>The body that was read is discarded and closed when the function returns, also where the answer still
  has it.\<close>

definition ErrReadOnClosed :: goerror where
  "ErrReadOnClosed = PlainErr ''http: read on closed response body''"

definition drained :: "HttpResponse \<Rightarrow> HttpResponse" where
  "drained resp = resp\<lparr>rs_Body := ([], Some ErrReadOnClosed)\<rparr>"

definition body_reader :: "rewritelib \<Rightarrow> string \<Rightarrow> reader \<Rightarrow> reader res" where
  "body_reader L encoding body = (if encoding = ''gzip'' then
       (case rl_Gunzip L body of Inl err \<Rightarrow> Inl (PlainErr (''errorf making gzip reader: '' @ err_msg err)) | Inr r \<Rightarrow> Inr r)
     else if encoding = ''deflate'' then Inr (rl_Inflate L body) else Inr body)"

text \<open>The length is taken before the writer of a compressed body is closed.\<close>

definition rewrite_body :: "rewritelib \<Rightarrow> HttpRequest \<Rightarrow> CookieInfo \<Rightarrow> Url \<Rightarrow> Url \<Rightarrow> reader \<Rightarrow> HttpResponse \<Rightarrow> HttpResponse res" where
  "rewrite_body L req ci kubeapiAddr sourceURL decoded resp =
     (let encoding = hget (rs_Header resp) ''Content-Encoding'' in
      case rewriteHTML L decoded ci kubeapiAddr sourceURL of
        Inl err \<Rightarrow> Inl err
      | Inr out \<Rightarrow> (let
          resp1 = resp\<lparr>rs_Header := hdel ''Content-Length'' (rs_Header resp),
            rs_ContentLength := int (if encoding = [] then length out else rl_Flushed L encoding out),
            rs_Body := (if encoding = [] then out else rl_Encode L encoding out, None)\<rparr>;
          origRedirPath = hget (rs_Header resp1) ''Location''
        in if origRedirPath = [] then Inr resp1
           else case rl_Parse L origRedirPath of
             Inl err \<Rightarrow> Inl err
           | Inr redirectURL \<Rightarrow> Inr (resp1\<lparr>rs_Header :=
               hset ''Location'' (rewriteURL L redirectURL sourceURL ci kubeapiAddr) (rs_Header resp1)\<rparr>)))"

definition rewriteResponse :: "rewritelib \<Rightarrow> HttpRequest \<Rightarrow> HttpResponse \<Rightarrow> HttpResponse res" where
  "rewriteResponse L req resp = (let
     encoding = hget (rs_Header resp) ''Content-Encoding'';
     origHost = hget (hr_Header req) ''X-Forwarded-Host'';
     origProto = hget (hr_Header req) ''X-Forwarded-Proto''
   in if encoding \<notin> {''gzip'', ''deflate'', []} then Inr (drained resp)
      else case body_reader L encoding (rs_Body resp) of
        Inl err \<Rightarrow> Inl err
      | Inr decoded \<Rightarrow> (case rl_Parse L (origProto @ ''://'' @ origHost) of
          Inl err \<Rightarrow> Inl err
        | Inr sourceURL \<Rightarrow> (case extractCookieInfo req of
            Inl err \<Rightarrow> Inl err
          | Inr ci \<Rightarrow> (case rl_Parse L (origProto @ ''://kubernetes.default.svc'') of
              Inl err \<Rightarrow> Inl err
            | Inr kubeapiAddr \<Rightarrow> rewrite_body L req ci kubeapiAddr sourceURL decoded resp))))"

definition media_type :: "header \<Rightarrow> string" where
  "media_type h = TrimSpace (takeWhile not_semi (hget h ''Content-Type''))"

definition RoundTrip :: "rewritelib \<Rightarrow> HttpRequest \<Rightarrow> HttpResponse res \<Rightarrow> HttpResponse res" where
  "RoundTrip L req answer = (case answer of
     Inl err \<Rightarrow> Inl err
   | Inr resp \<Rightarrow> (let resp1 = resp\<lparr>rs_Header := hset ''Cross-Origin-Embedder-Policy'' ''require-corp'' (patch_csp_headers (rs_Header resp))\<rparr> in
       if media_type (rs_Header resp1) \<noteq> ''text/html'' then Inr resp1
       else case rewriteResponse L req resp1 of
         Inr resp2 \<Rightarrow> Inr resp2
       | Inl err \<Rightarrow> Inr \<lparr>rs_Status = 400, rs_Header = [], rs_ContentLength = 0, rs_Body = (''Error: '' @ err_msg err, None)\<rparr>))"

end
