(* ===== verification/AspRewriteProps.thy ===== *)
theory AspRewriteProps
  imports AspRewrite AspProps
begin

text \<open>
  Properties of the transport of the App Service Proxy: what the patched content security policy allows,
  and what becomes of links, texts and bodies.
\<close>

section \<open>Fields\<close>

lemma fields_go_space: "is_space c \<Longrightarrow> fields_go acc (s @ c # t) = fields_go acc s @ Fields t"
  by (induction s arbitrary: acc) (simp_all add: Fields_def)

lemma Fields_space: "is_space c \<Longrightarrow> Fields (s @ c # t) = Fields s @ Fields t"
  by (simp add: Fields_def fields_go_space)

lemma fields_go_word: "list_all (\<lambda>c. \<not> is_space c) s \<Longrightarrow> fields_go acc s = fields_go (rev s @ acc) []"
  by (induction s arbitrary: acc) simp_all

lemma Fields_word: "s \<noteq> [] \<Longrightarrow> list_all (\<lambda>c. \<not> is_space c) s \<Longrightarrow> Fields s = [s]"
  by (simp add: Fields_def fields_go_word)

lemma space_is_space: "is_space CHR '' ''" "re_space c \<Longrightarrow> is_space c"
  by (auto simp: is_space_def re_space_def)

section \<open>One directive\<close>

text \<open>A policy is a list of directives between semicolons; a match stays within one of them.\<close>

definition directive :: "string \<Rightarrow> bool" where
  "directive d = list_all not_semi d"

lemma directive_simps [simp]:
  "directive []" "directive (c # d) \<longleftrightarrow> not_semi c \<and> directive d" "directive (d @ e) \<longleftrightarrow> directive d \<and> directive e"
  by (simp_all add: directive_def)

lemma HasPrefix_directive: "directive p \<Longrightarrow> HasPrefix (d @ CHR '';'' # rest) p \<longleftrightarrow> HasPrefix d p"
proof (induction p arbitrary: d)
  case (Cons x p)
  then show ?case by (cases d) (auto simp: HasPrefix_iff not_semi_def)
qed (simp add: HasPrefix_iff)

lemma takeWhile_directive [simp]:
  "directive d \<Longrightarrow> takeWhile not_semi (d @ CHR '';'' # rest) = d" "directive d \<Longrightarrow> takeWhile not_semi d = d"
  "directive d \<Longrightarrow> dropWhile not_semi (d @ CHR '';'' # rest) = CHR '';'' # rest" "directive d \<Longrightarrow> dropWhile not_semi d = []"
  by (induction d) (simp_all add: not_semi_def)

lemma frameAncestors_directive [simp]: "directive frameAncestors"
  by (simp add: not_semi_def)

lemma csp_match_alone:
  assumes "directive d"
  shows "csp_match d = (if \<exists>w c srcs. d = frameAncestors @ w # c # srcs \<and> re_space w then Some (d, []) else None)"
proof (cases "HasPrefix d frameAncestors")
  case True
  then obtain e where e: "d = frameAncestors @ e" by (auto simp: HasPrefix_iff)
  with assms have "directive e" by (metis directive_simps(3))
  then show ?thesis using e by (cases e; cases "List.tl e") (auto simp: csp_match_def HasPrefix_iff)
next
  case False
  then show ?thesis by (auto simp: csp_match_def HasPrefix_iff)
qed

lemma csp_match_within:
  assumes "directive d"
  shows "csp_match (d @ CHR '';'' # rest) = map_option (\<lambda>(m, r). (m, r @ CHR '';'' # rest)) (csp_match d)"
proof (cases "HasPrefix d frameAncestors")
  case True
  then obtain e where e: "d = frameAncestors @ e" by (auto simp: HasPrefix_iff)
  with assms have "directive e" by (metis directive_simps(3))
  then show ?thesis using e by (cases e; cases "List.tl e"; cases rest) (auto simp: csp_match_def HasPrefix_iff re_space_def not_semi_def)
next
  case False
  then have "\<not> HasPrefix (d @ CHR '';'' # rest) frameAncestors" by (subst HasPrefix_directive) (simp_all add: not_semi_def)
  with False show ?thesis by (simp add: csp_match_def)
qed

lemma csp_match_semi: "csp_match (CHR '';'' # rest) = None"
  by (simp add: csp_match_def HasPrefix_iff)

lemma csp_match_rest: "directive d \<Longrightarrow> csp_match d = Some (m, r) \<Longrightarrow> m = d \<and> r = []"
  by (auto simp: csp_match_alone split: if_splits)

lemma patch_csp_within: "directive d \<Longrightarrow> patch_csp (d @ CHR '';'' # rest) = patch_csp d @ CHR '';'' # patch_csp rest"
proof (induction d)
  case Nil
  then show ?case by (simp add: csp_match_semi)
next
  case (Cons c d)
  show ?case
  proof (cases "csp_match (c # d)")
    case None
    then show ?thesis using Cons csp_match_within [OF Cons.prems, of rest] by simp
  next
    case (Some mr)
    then obtain m r where mr: "csp_match (c # d) = Some (m, r)" by (cases mr) auto
    with csp_match_rest [OF Cons.prems mr] csp_match_within [OF Cons.prems, of rest] show ?thesis
      by (simp add: csp_match_semi)
  qed
qed

text \<open>The reference: each directive alone, from the name of the directive to its end.\<close>

definition names_ancestors :: "string \<Rightarrow> bool" where
  "names_ancestors d = (HasPrefix d frameAncestors \<and>
     (case drop (length frameAncestors) d of w # _ # _ \<Rightarrow> re_space w | _ \<Rightarrow> False))"

fun ref_directive :: "string \<Rightarrow> string" where
  "ref_directive [] = []"
| "ref_directive (c # d) = (if names_ancestors (c # d) then allow_self (c # d) else c # ref_directive d)"

lemma names_ancestors_iff: "names_ancestors d \<longleftrightarrow> (\<exists>w c srcs. d = frameAncestors @ w # c # srcs \<and> re_space w)"
proof (cases "HasPrefix d frameAncestors")
  case True
  then obtain e where "d = frameAncestors @ e" by (auto simp: HasPrefix_iff)
  then show ?thesis by (cases e; cases "List.tl e") (auto simp: names_ancestors_def HasPrefix_iff)
qed (auto simp: names_ancestors_def HasPrefix_iff)

lemma patch_directive: "directive d \<Longrightarrow> patch_csp d = ref_directive d"
  by (induction d) (auto simp: csp_match_alone names_ancestors_iff split: if_splits)

lemma patch_csp_Join: "list_all directive ds \<Longrightarrow> patch_csp (Join ds '';'') = Join (map ref_directive ds) '';''"
  by (induction ds rule: induct_list012) (simp_all add: patch_directive patch_csp_within)

lemma allow_self_allows:
  assumes "names_ancestors m"
  shows "self_source \<in> set (Fields (pre @ allow_self m))"
proof -
  obtain w c srcs where m: "m = frameAncestors @ w # c # srcs" "re_space w" using assms names_ancestors_iff by blast
  have name: "Fields frameAncestors = [frameAncestors]" by (intro Fields_word) (simp_all add: is_space_def)
  have self: "Fields (x @ '' '' @ self_source) = Fields x @ [self_source]" for x
    using Fields_space [OF space_is_space(1)] Fields_word [of self_source] by (simp add: is_space_def)
  have fm: "Fields m = frameAncestors # Fields (c # srcs)" "Fields (pre @ m) = Fields (pre @ frameAncestors) @ Fields (c # srcs)"
    using Fields_space [OF space_is_space(2) [OF m(2)]] name by (simp_all add: m(1) del: append.simps) (metis append_assoc)
  show ?thesis
  proof (cases "Fields (c # srcs)")
    case Nil
    with fm self [of "pre @ frameAncestors"] show ?thesis by (simp add: allow_self_def)
  next
    case (Cons src rest)
    with fm self [of "pre @ frameAncestors"] self [of "pre @ m"] show ?thesis by (auto simp: allow_self_def)
  qed
qed

lemma patched_allows:
  assumes "names_ancestors m" "directive (pre @ m)"
  shows "self_source \<in> set (Fields (patch_csp (pre @ m)))"
proof -
  have "self_source \<in> set (Fields (u @ ref_directive (pre @ m)))" for u
    using assms(1)
  proof (induction pre arbitrary: u)
    case Nil
    then show ?case using allow_self_allows [OF assms(1)] by (cases m) (auto simp: names_ancestors_iff)
  next
    case (Cons c pre)
    then show ?case using allow_self_allows [of "c # pre @ m" u] Cons.IH [of "u @ [c]"] by simp
  qed
  from this [of "[]"] show ?thesis unfolding patch_directive [OF assms(2)] by simp
qed

text \<open>
  Claim C38.  The content security policy of an answer is patched directive by directive: a directive without
  sources for frame ancestors stays as it is, and whichever has some allows the page of the proxy itself.
\<close>
theorem csp_by_directive:
  assumes "list_all directive ds"
  shows "patch_csp (Join ds '';'') = Join (map ref_directive ds) '';'' \<and>
    (\<forall>pre m. pre @ m \<in> set ds \<longrightarrow> names_ancestors m \<longrightarrow> self_source \<in> set (Fields (patch_csp (pre @ m))))"
  using patch_csp_Join [OF assms] assms patched_allows by (auto simp: list_all_iff)

lemma csp_by_directive_witness:
  "patch_csp (Join [''default-src *'', '' frame-ancestors https://a''] '';'') =
     Join (map ref_directive [''default-src *'', '' frame-ancestors https://a'']) '';'' \<and>
   ref_directive '' frame-ancestors https://a'' = '' frame-ancestors https://a '' @ self_source"
proof -
  have "list_all directive [''default-src *'', '' frame-ancestors https://a'']" by (simp add: not_semi_def)
  from csp_by_directive [OF this] have "patch_csp (Join [''default-src *'', '' frame-ancestors https://a''] '';'') =
     Join (map ref_directive [''default-src *'', '' frame-ancestors https://a'']) '';''" by (rule conjunct1)
  then show ?thesis by (rule conjI) code_simp
qed

section \<open>Pages\<close>

text \<open>A page in an encoding that is not known is meant to pass as it is, but its body is drained and closed.\<close>

lemma unknown_encoding_loses_body:
  "hget (rs_Header resp) ''Content-Encoding'' = ''br'' \<Longrightarrow>
   rewriteResponse L req resp = Inr (resp\<lparr>rs_Body := ([], Some ErrReadOnClosed)\<rparr>)"
  by (simp add: rewriteResponse_def drained_def Let_def)

text \<open>A text is written as the tokenizer unescapes it, so that escaped markup becomes markup.\<close>

lemma text_is_unescaped:
  "rl_Tokens L body = ([TextToken raw text], None) \<Longrightarrow> rewriteHTML L body ci kubeapiAddr sourceURL = Inr text"
  by (simp add: rewriteHTML_def html_step_def html_start_def)

text \<open>The setting of a Grafana page loses its key and its quotes.\<close>

lemma app_sub_url_loses_key:
  "replace_app_sub (\<lambda>url. url) 0 ([dquote] @ ''appSubUrl'' @ [dquote] @ '':'' @ [dquote] @ ''/g'' @ [dquote] @ '',1'') = ''/g,1''"
  by code_simp

text \<open>The content of a style or script without an end tag is lost.\<close>

lemma unclosed_style_lost:
  "rl_Tokens L body = ([StartTag \<lparr>tg_Name = ''style'', tg_SelfClosing = False, tg_Attrs = []\<rparr>, TextToken raw text], None) \<Longrightarrow>
   rewriteHTML L body ci kubeapiAddr sourceURL = Inr (rl_TagString L \<lparr>tg_Name = ''style'', tg_SelfClosing = False, tg_Attrs = []\<rparr>)"
  by (simp add: rewriteHTML_def html_step_def html_start_def Let_def)

end
