(* ===== verification/GitClient.thy ===== *)
theory GitClient
  imports GoIO EnvVars
begin

text \<open>
  The client of the git server (pkg/gitclient/gitclient.go) with the manager of the secret service
  (pkg/vault/manager.go), and the certificate of the git server (GetGitCaCert, SetGitCaCert and
  WatchGitCaCertFile of pkg/utils/utils.go).

  The vault API, go-git and the Gitea SDK are parameters.  A client of the vault is its address and the token
  it got at its login; a repository of go-git is known by its directory.
\<close>

section \<open>Calls\<close>

datatype git_call =
    VaultNew string | VaultAuth string | VaultLogin string string | VaultRevoke string | VaultGet string string string
  | GcList string | GcMkdir string | GcInit string | GcRemote string string | GcClone string string
  | GcStatus string | GcAddAll string | GcCommit string | GcPush string
  | GiteaNew string | GiteaDelete string string

datatype kv_value = KvString string | KvOther

text \<open>A login without an answer is \<open>None\<close>, and so is the client of a mount that the API does not give.\<close>

record 'w VaultApi =
  va_NewClient :: "string \<Rightarrow> 'w \<Rightarrow> goerror option \<times> 'w"
  va_NewKubernetesAuth :: "string \<Rightarrow> 'w \<Rightarrow> goerror option \<times> 'w"
  va_Login :: "string \<Rightarrow> string \<Rightarrow> 'w \<Rightarrow> string option res \<times> 'w"
  va_RevokeSelf :: "string \<Rightarrow> 'w \<Rightarrow> goerror option \<times> 'w"
  va_KVv2 :: "string \<Rightarrow> bool"
  va_Get :: "string \<Rightarrow> string \<Rightarrow> string \<Rightarrow> 'w \<Rightarrow> kv_value gomap res \<times> 'w"

text \<open>Options of a remote operation: user, password, certificate and proxy.\<close>

record remote_auth =
  ra_Username :: string
  ra_Password :: string
  ra_CABundle :: string
  ra_Proxy :: string

record 'w GoGit =
  gg_List :: "string \<Rightarrow> remote_auth \<Rightarrow> 'w \<Rightarrow> goerror option \<times> 'w"
  gg_MkdirAll :: "string \<Rightarrow> 'w \<Rightarrow> goerror option \<times> 'w"
  gg_PlainInit :: "string \<Rightarrow> 'w \<Rightarrow> goerror option \<times> 'w"
  gg_CreateRemote :: "string \<Rightarrow> string \<Rightarrow> 'w \<Rightarrow> goerror option \<times> 'w"
  gg_PlainClone :: "string \<Rightarrow> string \<Rightarrow> remote_auth \<Rightarrow> 'w \<Rightarrow> goerror option \<times> 'w"
  gg_Worktree :: "string \<Rightarrow> goerror option"
  gg_Status :: "string \<Rightarrow> 'w \<Rightarrow> string list res \<times> 'w"
  gg_AddAll :: "string \<Rightarrow> 'w \<Rightarrow> goerror option \<times> 'w"
  gg_Commit :: "string \<Rightarrow> string \<Rightarrow> 'w \<Rightarrow> goerror option \<times> 'w"
  gg_Push :: "string \<Rightarrow> remote_auth \<Rightarrow> 'w \<Rightarrow> goerror option \<times> 'w"
  gg_AppendCerts :: "string \<Rightarrow> bool"
  gg_GiteaNew :: "string \<Rightarrow> string option \<Rightarrow> 'w \<Rightarrow> goerror option \<times> 'w"
  gg_GiteaDelete :: "string \<Rightarrow> string \<Rightarrow> 'w \<Rightarrow> goerror option \<times> 'w"

record 'w GitService =
  gs_environ :: environ
  gs_vault :: "'w VaultApi"
  gs_git :: "'w GoGit"
  gs_Hostname :: "string \<Rightarrow> string res"

type_synonym ('w, 'a) gitio = "((git_call, 'w) world, 'a) handler"

section \<open>The manager of the secret service\<close>

record vault_manager =
  vm_endpoint :: string
  vm_serviceAccount :: string
  vm_mount :: string

definition newManager :: "string \<Rightarrow> string \<Rightarrow> string \<Rightarrow> vault_manager" where
  "newManager endpoint serviceAccount mount =
     \<lparr>vm_endpoint = endpoint, vm_serviceAccount = serviceAccount, vm_mount = mount\<rparr>"

text \<open>A client is its token.\<close>

definition vaultLogout :: "'w VaultApi \<Rightarrow> string \<Rightarrow> ('w, unit) gitio" where
  "vaultLogout v client = gmap_err (\<lambda>err. TypedErr KInternal (''failed to revoke token: '' @ err_msg err))
     (gcheck (call (VaultRevoke client) (va_RevokeSelf v client)))"

definition GetVaultClient :: "'w VaultApi \<Rightarrow> vault_manager \<Rightarrow> ('w, string) gitio" where
  "GetVaultClient v m =
     gtry (gcheck (call (VaultNew (vm_endpoint m)) (va_NewClient v (vm_endpoint m)))) (\<lambda>_.
     gtry (gcheck (call (VaultAuth (vm_serviceAccount m)) (va_NewKubernetesAuth v (vm_serviceAccount m)))) (\<lambda>_.
     gtry (glift (call (VaultLogin (vm_endpoint m) (vm_serviceAccount m)) (va_Login v (vm_endpoint m) (vm_serviceAccount m)))) (\<lambda>authInfo.
     case authInfo of
       None \<Rightarrow> gfail (TypedErr KInvalid ''kubernetes authorization failed for Vault service'')
     | Some client \<Rightarrow> gret client)))"

definition GetKVSecret :: "'w VaultApi \<Rightarrow> vault_manager \<Rightarrow> string \<Rightarrow> string \<Rightarrow> ('w, kv_value gomap) gitio" where
  "GetKVSecret v m client path = (if \<not> va_KVv2 v (vm_mount m)
     then gfail (TypedErr KInvalid ''Vault secret KV data structure client is nil'')
     else glift (call (VaultGet client (vm_mount m) path) (va_Get v client (vm_mount m) path)))"

definition GetSecretValueString :: "'w VaultApi \<Rightarrow> vault_manager \<Rightarrow> string \<Rightarrow> string \<Rightarrow> string \<Rightarrow> ('w, string) gitio" where
  "GetSecretValueString v m client path key = gtry (GetKVSecret v m client path) (\<lambda>kvSecret.
     case map_of kvSecret key of
       None \<Rightarrow> gfail (TypedErr KNotFound (''could not found value for key '' @ key @ '' in path '' @ path))
     | Some (KvString s) \<Rightarrow> gret s
     | Some KvOther \<Rightarrow> gfail (TypedErr KInvalid (''value for key '' @ key @ '' in path '' @ path @ '' is not string'')))"

text \<open>The deferred logout: it runs whatever the rest of the function returns, and its error is only logged.\<close>

definition gdefer :: "('s, unit) handler \<Rightarrow> ('s, 'a) handler \<Rightarrow> ('s, 'a) handler" where
  "gdefer d m = do { r \<leftarrow> m; _ \<leftarrow> d; State_Monad.return r }"

definition with_vault :: "'w GitService \<Rightarrow> (vault_manager \<Rightarrow> string \<Rightarrow> ('w, 'a) gitio) \<Rightarrow> ('w, 'a) gitio" where
  "with_vault s f = (let en = gs_environ s;
       m = newManager (GetSecretServiceEndpoint en) (GetServiceAccount en) (GetSecretServiceMount en)
     in gtry (GetVaultClient (gs_vault s) m) (\<lambda>client.
          gdefer (vaultLogout (gs_vault s) client) (f m client)))"

section \<open>Creating a client\<close>

record GitClient =
  gc_Server :: string
  gc_User :: string
  gc_Password :: string
  gc_RepoName :: string
  gc_RemoteURL :: string
  gc_CABundle :: string
  gc_Proxy :: string
  gc_GitProvider :: string
  gc_Repo :: "string option"

definition getRemoteURL :: "string \<Rightarrow> string \<Rightarrow> string \<Rightarrow> string \<Rightarrow> string" where
  "getRemoteURL server user repoName gitProvider = server @ ''/'' @ user @ ''/'' @ repoName @ ''.git''"

text \<open>The configuration of the remote \<open>origin\<close> has the URL of the client.\<close>

definition new_git_client :: "string \<Rightarrow> string \<Rightarrow> string \<Rightarrow> string \<Rightarrow> string \<Rightarrow> string \<Rightarrow> string \<Rightarrow> GitClient" where
  "new_git_client repoName server gitProvider gitProxy gitCaCert user password =
     \<lparr>gc_Server = server, gc_User = user, gc_Password = password, gc_RepoName = repoName,
      gc_RemoteURL = getRemoteURL server user repoName gitProvider, gc_CABundle = gitCaCert, gc_Proxy = gitProxy,
      gc_GitProvider = gitProvider, gc_Repo = None\<rparr>"

definition git_user :: "'w GitService \<Rightarrow> vault_manager \<Rightarrow> string \<Rightarrow> ('w, string) gitio" where
  "git_user s m client = GetSecretValueString (gs_vault s) m client (GetSecretServiceGitServicePath (gs_environ s))
     (GetSecretServiceGitServiceKVKeyUsername (gs_environ s))"

definition getGitClientWithSecretService ::
  "'w GitService \<Rightarrow> string \<Rightarrow> string \<Rightarrow> string \<Rightarrow> string \<Rightarrow> string \<Rightarrow> ('w, GitClient) gitio" where
  "getGitClientWithSecretService s repoName server gitProvider gitProxy gitCaCert = with_vault s (\<lambda>m client.
     gtry (git_user s m client) (\<lambda>user.
     gtry (GetSecretValueString (gs_vault s) m client (GetSecretServiceGitServicePath (gs_environ s))
       (GetSecretServiceGitServiceKVKeyPassword (gs_environ s))) (\<lambda>password.
     gret (new_git_client repoName server gitProvider gitProxy gitCaCert user password))))"

definition getGitClientWithoutSecretService ::
  "environ \<Rightarrow> string \<Rightarrow> string \<Rightarrow> string \<Rightarrow> string \<Rightarrow> string \<Rightarrow> GitClient res" where
  "getGitClientWithoutSecretService en repoName server gitProvider gitProxy gitCaCert =
     (case GetGitUser en of Inl err \<Rightarrow> Inl err | Inr user \<Rightarrow>
      case GetGitPassword en of Inl err \<Rightarrow> Inl err | Inr password \<Rightarrow>
        Inr (new_git_client repoName server gitProvider gitProxy gitCaCert user password))"

definition git_settings :: "environ \<Rightarrow> (string \<times> string \<times> bool) res" where
  "git_settings en =
     (case GetGitServer en of Inl err \<Rightarrow> Inl err | Inr server \<Rightarrow>
      case GetGitProvider en of Inl _ \<Rightarrow> Inl (TypedErr KUnavailable ''GIT_PROVIDER env var not set'') | Inr gitProvider \<Rightarrow>
      case IsSecretServiceEnabled en of Inl err \<Rightarrow> Inl err | Inr flag \<Rightarrow> Inr (server, gitProvider, flag))"

definition NewGitClient :: "'w GitService \<Rightarrow> string \<Rightarrow> string \<Rightarrow> ('w, GitClient) gitio" where
  "NewGitClient s gitCaCert repoName = gtry (gpure (Ret (git_settings (gs_environ s)))) (\<lambda>(server, gitProvider, flag).
     let gitProxy = GetGitProxy (gs_environ s) in
     if flag then getGitClientWithSecretService s repoName server gitProvider gitProxy gitCaCert
     else gpure (Ret (getGitClientWithoutSecretService (gs_environ s) repoName server gitProvider gitProxy gitCaCert)))"

section \<open>The URL of a repository\<close>

definition getRemoteURLWithSecretService :: "'w GitService \<Rightarrow> string \<Rightarrow> string \<Rightarrow> string \<Rightarrow> ('w, string) gitio" where
  "getRemoteURLWithSecretService s repoName server gitProvider = with_vault s (\<lambda>m client.
     gtry (git_user s m client) (\<lambda>user. gret (getRemoteURL server user repoName gitProvider)))"

definition getRemoteURLWithoutSecretService :: "environ \<Rightarrow> string \<Rightarrow> string \<Rightarrow> string \<Rightarrow> string res" where
  "getRemoteURLWithoutSecretService en repoName server gitProvider =
     (case GetGitUser en of Inl err \<Rightarrow> Inl err | Inr user \<Rightarrow> Inr (getRemoteURL server user repoName gitProvider))"

definition GetRemoteURL :: "'w GitService \<Rightarrow> string \<Rightarrow> ('w, string) gitio" where
  "GetRemoteURL s repoName = gtry (gpure (Ret (git_settings (gs_environ s)))) (\<lambda>(server, gitProvider, flag).
     if flag then getRemoteURLWithSecretService s repoName server gitProvider
     else gpure (Ret (getRemoteURLWithoutSecretService (gs_environ s) repoName server gitProvider)))"

definition url_with_creds :: "'w GitService \<Rightarrow> string \<Rightarrow> string \<Rightarrow> string \<Rightarrow> string \<Rightarrow> string \<Rightarrow> string res" where
  "url_with_creds s remoteURL gitProvider remoteType deploymentID user =
     (if remoteType = ''ssh'' then
        (case gs_Hostname s remoteURL of
           Inl err \<Rightarrow> Inl err
         | Inr host \<Rightarrow>
             if gitProvider = ''gitea'' then Inr (''git@'' @ host @ '':'' @ user @ ''/'' @ deploymentID @ ''.git'')
             else Inl (TypedErr KUnavailable ''unsupported git provider type''))
      else Inr remoteURL)"

definition GetRemoteURLWithCreds :: "'w GitService \<Rightarrow> string \<Rightarrow> ('w, string) gitio" where
  "GetRemoteURLWithCreds s deploymentID = (let en = gs_environ s in
     gtry (GetRemoteURL s deploymentID) (\<lambda>remoteURL.
     gtry (gpure (Ret (GetGitProvider en))) (\<lambda>gitProvider.
     case LookupEnv en ''FLEET_GIT_REMOTE_TYPE'' of
       None \<Rightarrow> gfail (TypedErr KUnavailable ''FLEET_GIT_REMOTE_TYPE is not set'')
     | Some remoteType \<Rightarrow>
         gtry (gpure (Ret (IsSecretServiceEnabled en))) (\<lambda>secretServiceEnabled.
         if secretServiceEnabled then with_vault s (\<lambda>m client. gtry (git_user s m client) (\<lambda>user.
           gpure (Ret (url_with_creds s remoteURL gitProvider remoteType deploymentID user))))
         else gtry (gpure (Ret (GetGitUser en))) (\<lambda>user.
           gpure (Ret (url_with_creds s remoteURL gitProvider remoteType deploymentID user)))))))"

section \<open>Operations on a repository\<close>

definition client_auth :: "GitClient \<Rightarrow> remote_auth" where
  "client_auth g = \<lparr>ra_Username = gc_User g, ra_Password = gc_Password g, ra_CABundle = gc_CABundle g, ra_Proxy = gc_Proxy g\<rparr>"

definition ExistsOnRemote :: "'w GoGit \<Rightarrow> GitClient \<Rightarrow> ('w, bool) gitio" where
  "ExistsOnRemote gg g = gcatch (gcheck (call (GcList (gc_RemoteURL g)) (gg_List gg (gc_RemoteURL g) (client_auth g)))) (\<lambda>r.
     case r of
       Inr _ \<Rightarrow> gret True
     | Inl err \<Rightarrow>
         if Contains (err_msg err) ''repository not found'' then gret False
         else if Contains (err_msg err) ''authentication required'' then gret False
         else gfail err)"

definition already_initialized :: goerror where
  "already_initialized = TypedErr KUnavailable ''GitClient already initialized''"

definition not_initialized :: goerror where
  "not_initialized = TypedErr KUnavailable ''git repo not yet initialized or cloned''"

definition Initialize :: "'w GoGit \<Rightarrow> string \<Rightarrow> GitClient \<Rightarrow> ('w, GitClient) gitio" where
  "Initialize gg basedir g = (if gc_Repo g \<noteq> None then gfail already_initialized
     else gtry (gcheck (call (GcMkdir basedir) (gg_MkdirAll gg basedir))) (\<lambda>_.
       gtry (gcheck (call (GcInit basedir) (gg_PlainInit gg basedir))) (\<lambda>_.
       gtry (gcheck (call (GcRemote basedir (gc_RemoteURL g)) (gg_CreateRemote gg basedir (gc_RemoteURL g)))) (\<lambda>_.
       gret (g\<lparr>gc_Repo := Some basedir\<rparr>)))))"

definition Clone :: "'w GoGit \<Rightarrow> string \<Rightarrow> GitClient \<Rightarrow> ('w, GitClient) gitio" where
  "Clone gg basedir g = (if gc_Repo g \<noteq> None then gfail already_initialized
     else gtry (gcheck (call (GcMkdir basedir) (gg_MkdirAll gg basedir))) (\<lambda>_.
       gtry (gcheck (call (GcClone basedir (gc_RemoteURL g)) (gg_PlainClone gg basedir (gc_RemoteURL g) (client_auth g)))) (\<lambda>_.
       gret (g\<lparr>gc_Repo := Some basedir\<rparr>))))"

definition CommitFiles :: "'w GoGit \<Rightarrow> GitClient \<Rightarrow> ('w, unit) gitio" where
  "CommitFiles gg g = (case gc_Repo g of
     None \<Rightarrow> gfail not_initialized
   | Some dir \<Rightarrow> (case gg_Worktree gg dir of
       Some err \<Rightarrow> gfail err
     | None \<Rightarrow> gtry (glift (call (GcStatus dir) (gg_Status gg dir))) (\<lambda>status.
         if status = [] then gret ()
         else gtry (gcheck (call (GcAddAll dir) (gg_AddAll gg dir))) (\<lambda>_.
           gcheck (call (GcCommit dir) (gg_Commit gg dir ''Generated Fleet configs''))))))"

definition NoErrAlreadyUpToDate :: goerror where
  "NoErrAlreadyUpToDate = PlainErr ''already up-to-date''"

definition PushToRemote :: "'w GoGit \<Rightarrow> GitClient \<Rightarrow> ('w, unit) gitio" where
  "PushToRemote gg g = (case gc_Repo g of
     None \<Rightarrow> gfail not_initialized
   | Some dir \<Rightarrow> gcatch (gcheck (call (GcPush dir) (gg_Push gg dir (client_auth g)))) (\<lambda>r. case r of
       Inr _ \<Rightarrow> gret ()
     | Inl err \<Rightarrow> if err = NoErrAlreadyUpToDate then gret () else gfail err))"

text \<open>The certificate is the one of the HTTP client, or that of the system.\<close>

definition DeleteGitea :: "'w GoGit \<Rightarrow> GitClient \<Rightarrow> ('w, unit) gitio" where
  "DeleteGitea gg g = (let
       delete = gcheck (call (GiteaDelete (gc_User g) (gc_RepoName g)) (gg_GiteaDelete gg (gc_User g) (gc_RepoName g)));
       new = (\<lambda>ca. gtry (gcheck (call (GiteaNew (gc_Server g)) (gg_GiteaNew gg (gc_Server g) ca))) (\<lambda>_. delete))
     in if gc_CABundle g \<noteq> [] then
          (if \<not> gg_AppendCerts gg (gc_CABundle g) then gfail (TypedErr KInvalid ''invalid ca bundle'')
           else new (Some (gc_CABundle g)))
        else new None)"

definition RepositoryDelete :: "'w GoGit \<Rightarrow> GitClient \<Rightarrow> ('w, unit) gitio" where
  "RepositoryDelete gg g = gtry (DeleteGitea gg g) (\<lambda>_. gret ())"

section \<open>The certificate of the git server\<close>

text \<open>
  The events of the watcher of the certificate's folder: a change, with its kind, an error, and the end of
  either channel or of the context.  A file that cannot be read stops the process.
\<close>

datatype watch_event = WatchChange bool bool | EventsClosed | WatchError | ErrorsClosed | CtxDone

fun watch_loop :: "string res list \<Rightarrow> watch_event list \<Rightarrow> string \<Rightarrow> string go" where
  "watch_loop reads [] cert = Ret cert"
| "watch_loop reads (e # es) cert = (case e of
     WatchChange write create \<Rightarrow>
       if write \<or> create then
         (case reads of
            [] \<Rightarrow> Ret cert
          | Inl _ # _ \<Rightarrow> Panicked
          | Inr new # rs \<Rightarrow> watch_loop rs es new)
       else watch_loop reads es cert
   | WatchError \<Rightarrow> watch_loop reads es cert
   | EventsClosed \<Rightarrow> Ret cert | ErrorsClosed \<Rightarrow> Ret cert | CtxDone \<Rightarrow> Ret cert)"

text \<open>Where the file does not exist nothing is watched.  \<open>reads\<close> is what reading the file gives, time
  after time; the folder is watched by \<open>NewWatcher\<close> and \<open>Add\<close>, whose errors stop the process.\<close>

definition WatchGitCaCertFile ::
  "bool \<Rightarrow> string res list \<Rightarrow> bool \<Rightarrow> watch_event list \<Rightarrow> string \<Rightarrow> string go" where
  "WatchGitCaCertFile missing reads watched events gitCaCert = (if missing then Ret gitCaCert
     else case reads of
       Inr cert # rs \<Rightarrow> if watched then watch_loop rs events cert else Panicked
     | Inl _ # _ \<Rightarrow> Panicked
     | [] \<Rightarrow> Ret gitCaCert)"

end
