(* ===== verification/GitProps.thy ===== *)
theory GitProps
  imports GitClient "HOL-Library.Multiset"
begin

text \<open>
  Properties of the git client: the sessions of the secret service it opens are closed again, and the URL of
  a client is the one that the GitRepo of its deployment gets.
\<close>

section \<open>What a handler leaves of the world\<close>

definition leaves :: "('w \<Rightarrow> 'x) \<Rightarrow> (('e, 'w) world, 'a) state \<Rightarrow> bool" where
  "leaves g m = (\<forall>w. g (env (snd (run_state m w))) = g (env w))"

lemma leaves_simps [simp]:
  "leaves g (gret x)" "leaves g (gfail e)" "leaves g gpanic" "leaves g (gpure r)" "leaves g (State_Monad.return y)"
  by (simp_all add: leaves_def gret_def gfail_def gpanic_def gpure_def)

lemma leaves_call [simp]: "leaves g (call ev f) \<longleftrightarrow> (\<forall>w. g (snd (f w)) = g w)"
proof
  assume k: "leaves g (call ev f)"
  have "g (snd (f w)) = g w" for w
    using k [unfolded leaves_def, rule_format, of "\<lparr>env = w, trace = []\<rparr>"] by (simp split: prod.splits)
  then show "\<forall>w. g (snd (f w)) = g w" ..
qed (simp add: leaves_def split_beta)

lemma leaves_glift [simp]: "leaves g (glift m) \<longleftrightarrow> leaves g m"
  by (simp add: leaves_def split_beta)

lemma leaves_gcheck [simp]: "leaves g (gcheck m) \<longleftrightarrow> leaves g m"
  by (simp add: leaves_def split_beta)

lemma leaves_gtry: "leaves g m \<Longrightarrow> (\<And>x. leaves g (f x)) \<Longrightarrow> leaves g (gtry m f)"
  by (simp add: leaves_def run_gtry split_beta split: go.split sum.split)

section \<open>Sessions\<close>

text \<open>
  A ghost of the world: the tokens that were issued and whose revocation was not asked for.  A login adds its
  token, a revocation removes one, and no other call of the vault changes them.
\<close>

definition tracks_sessions :: "('w \<Rightarrow> string multiset) \<Rightarrow> 'w VaultApi \<Rightarrow> bool" where
  "tracks_sessions g v = (
     (\<forall>a b w. g (snd (va_Login v a b w)) =
        (case fst (va_Login v a b w) of Inr (Some t) \<Rightarrow> add_mset t (g w) | _ \<Rightarrow> g w)) \<and>
     (\<forall>t w. g (snd (va_RevokeSelf v t w)) = g w - {#t#}) \<and>
     (\<forall>a w. g (snd (va_NewClient v a w)) = g w) \<and> (\<forall>a w. g (snd (va_NewKubernetesAuth v a w)) = g w) \<and>
     (\<forall>t m p w. g (snd (va_Get v t m p w)) = g w))"

lemma GetVaultClient_opens:
  assumes "tracks_sessions g v"
  shows "case run_state (GetVaultClient v m) w of
     (Ret (Inr client), w') \<Rightarrow> g (env w') = add_mset client (g (env w)) | (_, w') \<Rightarrow> g (env w') = g (env w)"
proof -
  have n: "g w2 = g w1" if "va_NewClient v a w1 = (x, w2)" for a w1 x w2
    using assms that unfolding tracks_sessions_def by (metis snd_conv)
  have k: "g w2 = g w1" if "va_NewKubernetesAuth v a w1 = (x, w2)" for a w1 x w2
    using assms that unfolding tracks_sessions_def by (metis snd_conv)
  have l: "g w2 = (case x of Inr (Some t) \<Rightarrow> add_mset t (g w1) | _ \<Rightarrow> g w1)" if "va_Login v a b w1 = (x, w2)" for a b w1 x w2
    using assms that unfolding tracks_sessions_def by (metis fst_conv snd_conv)
  show ?thesis
    by (auto simp: GetVaultClient_def run_gtry split: prod.split sum.split option.split go.split dest!: n k l)
qed

lemma vaultLogout_closes: "tracks_sessions g v \<Longrightarrow> g (env (snd (run_state (vaultLogout v t) w))) = g (env w) - {#t#}"
  unfolding vaultLogout_def tracks_sessions_def by (simp add: run_gmap_err split: prod.split) (metis snd_conv)

lemma GetSecretValueString_leaves: "tracks_sessions g v \<Longrightarrow> leaves g (GetSecretValueString v m t p k)"
  unfolding GetSecretValueString_def GetKVSecret_def tracks_sessions_def
  by (intro leaves_gtry) (auto split: option.split kv_value.split)

lemma with_vault_leaves:
  assumes t: "tracks_sessions g (gs_vault s)" and f: "\<And>m client. leaves g (f m client)"
  shows "leaves g (with_vault s f)"
  unfolding leaves_def
proof
  fix w
  define m where "m = newManager (GetSecretServiceEndpoint (gs_environ s)) (GetServiceAccount (gs_environ s)) (GetSecretServiceMount (gs_environ s))"
  obtain r w1 where 1: "run_state (GetVaultClient (gs_vault s) m) w = (r, w1)" by fastforce
  note opens = GetVaultClient_opens [OF t, where m = m and w = w, unfolded 1]
  show "g (env (snd (run_state (with_vault s f) w))) = g (env w)"
  proof (cases "\<exists>client. r = Ret (Inr client)")
    case True
    then obtain client where c: "r = Ret (Inr client)" ..
    obtain x w2 where 2: "run_state (f m client) w1 = (x, w2)" by fastforce
    have "g (env w2) = g (env w1)" using f [of m client] 2 unfolding leaves_def by (metis snd_conv)
    then show ?thesis
      using opens vaultLogout_closes [OF t, of client w2]
      by (simp add: with_vault_def Let_def flip: m_def) (simp add: run_gtry 1 c gdefer_def 2 split_beta)
  next
    case False
    then show ?thesis
      using opens by (simp add: with_vault_def Let_def flip: m_def) (auto simp: run_gtry 1 split: go.splits sum.splits)
  qed
qed

lemma git_user_leaves: "tracks_sessions g (gs_vault s) \<Longrightarrow> leaves g (git_user s m client)"
  unfolding git_user_def by (rule GetSecretValueString_leaves)

lemma GetRemoteURL_leaves: "tracks_sessions g (gs_vault s) \<Longrightarrow> leaves g (GetRemoteURL s repo)"
  unfolding GetRemoteURL_def getRemoteURLWithSecretService_def
  by (intro leaves_gtry) (auto intro!: with_vault_leaves leaves_gtry git_user_leaves split: prod.split)


definition sample_vault :: "string list VaultApi" where
  "sample_vault = \<lparr>va_NewClient = (\<lambda>_ w. (None, w)), va_NewKubernetesAuth = (\<lambda>_ w. (None, w)),
     va_Login = (\<lambda>_ _ w. (Inr (Some ''token''), ''token'' # w)), va_RevokeSelf = (\<lambda>t w. (None, remove1 t w)),
     va_KVv2 = (\<lambda>_. True), va_Get = (\<lambda>_ _ _ w. (Inr [(''username'', KvString ''git''), (''password'', KvOther)], w))\<rparr>"

definition sample_gogit :: "'w GoGit" where
  "sample_gogit = \<lparr>gg_List = (\<lambda>_ _ w. (None, w)), gg_MkdirAll = (\<lambda>_ w. (None, w)), gg_PlainInit = (\<lambda>_ w. (None, w)),
     gg_CreateRemote = (\<lambda>_ _ w. (None, w)), gg_PlainClone = (\<lambda>_ _ _ w. (None, w)), gg_Worktree = (\<lambda>_. None),
     gg_Status = (\<lambda>_ w. (Inr [], w)), gg_AddAll = (\<lambda>_ w. (None, w)), gg_Commit = (\<lambda>_ _ w. (None, w)),
     gg_Push = (\<lambda>_ _ w. (None, w)), gg_AppendCerts = (\<lambda>_. True), gg_GiteaNew = (\<lambda>_ _ w. (None, w)),
     gg_GiteaDelete = (\<lambda>_ _ w. (None, w))\<rparr>"

definition sample_git_service :: "string list GitService" where
  "sample_git_service = \<lparr>gs_environ = [(''GIT_SERVER'', ''http://gitea''), (''GIT_PROVIDER'', ''gitea''),
       (''SECRET_SERVICE_ENABLED'', ''true''), (''FLEET_GIT_REMOTE_TYPE'', ''ssh'')],
     gs_vault = sample_vault, gs_git = sample_gogit, gs_Hostname = (\<lambda>_. Inr ''gitea'')\<rparr>"

lemma sample_tracks: "tracks_sessions mset (gs_vault sample_git_service)"
  by (simp add: tracks_sessions_def sample_git_service_def sample_vault_def)


section \<open>The URL of a client\<close>

text \<open>The secret service answers every reading of a secret with the same value, whatever the session.\<close>

definition git_user_of :: "'w GitService \<Rightarrow> string \<Rightarrow> bool" where
  "git_user_of s user = (if IsSecretServiceEnabled (gs_environ s) = Inr True
     then \<forall>t m w kv w'. va_Get (gs_vault s) t m (GetSecretServiceGitServicePath (gs_environ s)) w = (Inr kv, w') \<longrightarrow>
       map_of kv (GetSecretServiceGitServiceKVKeyUsername (gs_environ s)) = Some (KvString user)
     else GetGitUser (gs_environ s) = Inr user)"

lemma git_user_run:
  assumes "git_user_of s user" "IsSecretServiceEnabled (gs_environ s) = Inr True"
    "run_state (git_user s m client) w = (Ret (Inr u), w')"
  shows "u = user"
  using assms by (auto simp: git_user_of_def git_user_def GetSecretValueString_def GetKVSecret_def run_gtry
      split: prod.splits sum.splits go.splits option.splits kv_value.splits if_splits) (metis kv_value.inject option.inject)

lemma with_vault_run:
  assumes "run_state (with_vault s f) w = (Ret (Inr x), w')"
  obtains m client w1 w2 where "run_state (f m client) w1 = (Ret (Inr x), w2)"
  using assms by (auto simp: with_vault_def Let_def gdefer_def run_gtry split: prod.splits go.splits sum.splits)

text \<open>A client of a repository and the GitRepo of its deployment have the same URL.\<close>

lemma client_url:
  assumes "git_user_of s user" "run_state (NewGitClient s ca repo) w = (Ret (Inr g), w')"
  shows "git_settings (gs_environ s) = Inr (gc_Server g, gc_GitProvider g, IsSecretServiceEnabled (gs_environ s) = Inr True)"
    "gc_RemoteURL g = getRemoteURL (gc_Server g) user repo (gc_GitProvider g)" "gc_Repo g = None"
proof -
  obtain server gitProvider flag where st: "git_settings (gs_environ s) = Inr (server, gitProvider, flag)"
    "IsSecretServiceEnabled (gs_environ s) = Inr flag"
    using assms(2) by (auto simp: NewGitClient_def run_gtry git_settings_def split: sum.splits)
  have "\<exists>pw. g = new_git_client repo server gitProvider (GetGitProxy (gs_environ s)) ca user pw"
  proof (cases flag)
    case True
    then have "run_state (getGitClientWithSecretService s repo server gitProvider (GetGitProxy (gs_environ s)) ca) w = (Ret (Inr g), w')"
      using assms(2) st by (simp add: NewGitClient_def run_gtry Let_def)
    then show ?thesis unfolding getGitClientWithSecretService_def
      by (rule with_vault_run)
        (use st True in \<open>auto simp: run_gtry dest!: git_user_run [OF assms(1)] split: prod.splits go.splits sum.splits\<close>)
  next
    case False
    then show ?thesis using assms st
      by (auto simp: NewGitClient_def run_gtry Let_def getGitClientWithoutSecretService_def git_user_of_def split: sum.splits)
  qed
  then show "git_settings (gs_environ s) = Inr (gc_Server g, gc_GitProvider g, IsSecretServiceEnabled (gs_environ s) = Inr True)"
    "gc_RemoteURL g = getRemoteURL (gc_Server g) user repo (gc_GitProvider g)" "gc_Repo g = None"
    using st by (auto simp: new_git_client_def)
qed

lemma remote_url_agrees:
  assumes "git_user_of s user" "run_state (NewGitClient s ca repo) w = (Ret (Inr g), w')"
    "run_state (GetRemoteURL s repo) v = (Ret (Inr url), v')"
  shows "gc_RemoteURL g = url"
proof -
  note g = client_url [OF assms(1,2)]
  show ?thesis
  proof (cases "IsSecretServiceEnabled (gs_environ s) = Inr True")
    case True
    then have "run_state (getRemoteURLWithSecretService s repo (gc_Server g) (gc_GitProvider g)) v = (Ret (Inr url), v')"
      using assms(3) g(1) by (simp add: GetRemoteURL_def run_gtry)
    then show ?thesis unfolding getRemoteURLWithSecretService_def g(2)
      by (rule with_vault_run)
        (use True in \<open>auto simp: run_gtry dest!: git_user_run [OF assms(1)] split: prod.splits go.splits sum.splits\<close>)
  next
    case False
    then show ?thesis using assms(1,3) g
      by (auto simp: GetRemoteURL_def run_gtry getRemoteURLWithoutSecretService_def git_user_of_def split: sum.splits)
  qed
qed

section \<open>Repositories\<close>

text \<open>Nothing is committed or pushed before the client has a repository, and it gets one once.\<close>

lemma needs_repository:
  "gc_Repo g = None \<Longrightarrow> CommitFiles gg g = gfail not_initialized \<and> PushToRemote gg g = gfail not_initialized"
  "gc_Repo g \<noteq> None \<Longrightarrow> Initialize gg dir g = gfail already_initialized \<and> Clone gg dir g = gfail already_initialized"
  by (simp_all add: CommitFiles_def PushToRemote_def Initialize_def Clone_def)

text \<open>Nothing is committed for a work tree without changes.\<close>

lemma clean_tree_not_committed:
  "gc_Repo g = Some dir \<Longrightarrow> gg_Worktree gg dir = None \<Longrightarrow> fst (gg_Status gg dir (env w)) = Inr [] \<Longrightarrow>
   run_state (CommitFiles gg g) w = (Ret (Inr ()), w\<lparr>env := snd (gg_Status gg dir (env w)), trace := trace w @ [GcStatus dir]\<rparr>)"
  by (auto simp: CommitFiles_def run_gtry split: prod.splits)

end
