(* ===== verification/Tenant.thy ===== *)
theory Tenant
  imports GoIO ApiTypes Utils
begin

text \<open>
  The events of tenants (internal/tenant/nexus-hook.go) and the migration of the custom resources to a
  project (internal/manager/migration.go).

  The tenancy API and the API server are parameters; a project is what the hook reads of it.  The client of
  deployments gives a list also where it fails, which is empty then.
\<close>

section \<open>Projects and watchers\<close>

datatype watcher_status = StatusIndicationIdle | StatusIndicationInProgress | StatusIndicationError

record ActiveWatcher =
  aw_StatusIndicator :: watcher_status
  aw_Message :: string
  aw_TimeStamp :: int

record RuntimeProject =
  pj_Deleted :: bool
  pj_UID :: string
  pj_DisplayName :: string

datatype tenant_ev =
    TnInCluster | TnNewClient | TnAddProjectWatcher string | TnSubscribeAll | TnOnCreate | TnOnUpdate
  | TnNow | TnAddWatcher string ActiveWatcher | TnGetWatcher string | TnUpdateWatcher ActiveWatcher
  | TnDeleteWatcher string | TnList string labels | TnDelete string string

record 'w TenantApi =
  tn_InClusterConfig :: "'w \<Rightarrow> goerror option \<times> 'w"
  tn_NewForConfig :: "'w \<Rightarrow> goerror option \<times> 'w"
  tn_AddProjectWatchers :: "string \<Rightarrow> 'w \<Rightarrow> goerror option \<times> 'w"
  tn_SubscribeAll :: "'w \<Rightarrow> unit \<times> 'w"
  tn_RegisterAdd :: "'w \<Rightarrow> goerror option \<times> 'w"
  tn_RegisterUpdate :: "'w \<Rightarrow> goerror option \<times> 'w"
  tn_Unix :: "'w \<Rightarrow> int \<times> 'w"
  tn_AddActiveWatchers :: "RuntimeProject \<Rightarrow> string \<Rightarrow> ActiveWatcher \<Rightarrow> 'w \<Rightarrow> goerror option \<times> 'w"
  tn_GetActiveWatchers :: "RuntimeProject \<Rightarrow> string \<Rightarrow> 'w \<Rightarrow> ActiveWatcher res \<times> 'w"
  tn_UpdateWatcher :: "ActiveWatcher \<Rightarrow> 'w \<Rightarrow> goerror option \<times> 'w"
  tn_DeleteActiveWatchers :: "RuntimeProject \<Rightarrow> string \<Rightarrow> 'w \<Rightarrow> goerror option \<times> 'w"
  tn_List :: "string \<Rightarrow> labels \<Rightarrow> 'w \<Rightarrow> (string list \<times> goerror option) \<times> 'w"
  tn_Delete :: "string \<Rightarrow> string \<Rightarrow> 'w \<Rightarrow> goerror option \<times> 'w"
  tn_IsAlreadyExists :: "goerror \<Rightarrow> bool"
  tn_IsChildNotFound :: "goerror \<Rightarrow> bool"

type_synonym ('w, 'a) tnio = "(tenant_ev, 'w, 'a) io"

abbreviation appName :: string where "appName \<equiv> ''app-deployment-manager''"

section \<open>Subscribing\<close>

definition safeUnixTime :: "'w TenantApi \<Rightarrow> ('w, int) tnio" where
  "safeUnixTime h = do { t \<leftarrow> call TnNow (tn_Unix h); State_Monad.return (if t < 0 then 0 else t) }"

definition setupConfigADMWatcherConfig :: "'w TenantApi \<Rightarrow> ('w, goerror option) tnio" where
  "setupConfigADMWatcherConfig h = do { err \<leftarrow> call (TnAddProjectWatcher appName) (tn_AddProjectWatchers h appName);
     State_Monad.return (case err of Some e \<Rightarrow> if tn_IsAlreadyExists h e then None else Some e | None \<Rightarrow> None) }"

definition Subscribe :: "'w TenantApi \<Rightarrow> ((tenant_ev, 'w) world, unit) handler" where
  "Subscribe h =
     gtry (gcheck (call TnInCluster (tn_InClusterConfig h))) (\<lambda>_.
     gtry (gcheck (call TnNewClient (tn_NewForConfig h))) (\<lambda>_.
     gtry (gcheck (setupConfigADMWatcherConfig h)) (\<lambda>_.
     gtry (glift (do { _ \<leftarrow> call TnSubscribeAll (tn_SubscribeAll h); State_Monad.return (Inr ()) })) (\<lambda>_.
     gtry (gcheck (call TnOnCreate (tn_RegisterAdd h))) (\<lambda>_.
     gcheck (call TnOnUpdate (tn_RegisterUpdate h)))))))"

section \<open>Project events\<close>

definition setProjWatcherStatus :: "'w TenantApi \<Rightarrow> watcher_status \<Rightarrow> string \<Rightarrow> ActiveWatcher \<Rightarrow> ('w, goerror option \<times> ActiveWatcher) tnio" where
  "setProjWatcherStatus h statusInd message watcherObj = do {
     t \<leftarrow> safeUnixTime h;
     let watcherObj' = watcherObj\<lparr>aw_StatusIndicator := statusInd, aw_Message := message, aw_TimeStamp := t\<rparr>;
     err \<leftarrow> call (TnUpdateWatcher watcherObj') (tn_UpdateWatcher h watcherObj');
     State_Monad.return (err, watcherObj') }"

text \<open>A failing deletion is shown at the watcher, and the next deployment deleted.\<close>

definition delete_deployment_of :: "'w TenantApi \<Rightarrow> string \<Rightarrow> string \<Rightarrow> ActiveWatcher \<Rightarrow> ('w, ActiveWatcher) tnio" where
  "delete_deployment_of h namespace name watcherObj = do {
     err \<leftarrow> call (TnDelete namespace name) (tn_Delete h namespace name);
     case err of
       None \<Rightarrow> State_Monad.return watcherObj
     | Some _ \<Rightarrow> do { (_, w') \<leftarrow> setProjWatcherStatus h StatusIndicationError ''Failed to delete deployments'' watcherObj;
         State_Monad.return w' } }"

definition delete_watcher :: "'w TenantApi \<Rightarrow> RuntimeProject \<Rightarrow> ActiveWatcher \<Rightarrow> ('w, unit) tnio" where
  "delete_watcher h project watcherObj = do {
     err \<leftarrow> call (TnDeleteWatcher (pj_UID project)) (tn_DeleteActiveWatchers h project appName);
     case err of
       None \<Rightarrow> State_Monad.return ()
     | Some e \<Rightarrow> if tn_IsChildNotFound h e then State_Monad.return ()
         else do { _ \<leftarrow> setProjWatcherStatus h StatusIndicationError ''Failed to delete project'' watcherObj; State_Monad.return () } }"

definition projectUpdated :: "'w TenantApi \<Rightarrow> RuntimeProject \<Rightarrow> ('w, unit) tnio" where
  "projectUpdated h project = (if \<not> pj_Deleted project then State_Monad.return () else do {
     r \<leftarrow> call (TnGetWatcher (pj_UID project)) (tn_GetActiveWatchers h project appName);
     case r of
       Inl _ \<Rightarrow> State_Monad.return ()
     | Inr watcherObj \<Rightarrow> do {
         (_, watcher1) \<leftarrow> setProjWatcherStatus h StatusIndicationInProgress ''Deleting'' watcherObj;
         let namespace = pj_UID project;
         let selector = [(AppOrchActiveProjectID, pj_UID project)];
         (deployments, err) \<leftarrow> call (TnList namespace selector) (tn_List h namespace selector);
         watcher2 \<leftarrow> (if err = None then State_Monad.return watcher1 else do {
           (_, w') \<leftarrow> setProjWatcherStatus h StatusIndicationError ''Failed to get deployments'' watcher1;
           State_Monad.return w' });
         watcher3 \<leftarrow> fold_io (delete_deployment_of h namespace) deployments watcher2;
         delete_watcher h project watcher3 } })"

definition projectCreated :: "'w TenantApi \<Rightarrow> RuntimeProject \<Rightarrow> ('w, unit) tnio" where
  "projectCreated h project = (if pj_Deleted project then projectUpdated h project else do {
     t \<leftarrow> safeUnixTime h;
     let spec = \<lparr>aw_StatusIndicator = StatusIndicationIdle,
       aw_Message = appName @ '' subscribed to project '' @ pj_DisplayName project, aw_TimeStamp = t\<rparr>;
     _ \<leftarrow> call (TnAddWatcher (pj_UID project) spec) (tn_AddActiveWatchers h project appName spec);
     State_Monad.return () })"

section \<open>Migration\<close>

record CustomResource =
  cr_Namespace :: string
  cr_Name :: string
  cr_Labels :: "labels option"

record GroupVersionResource =
  gvr_Group :: string
  gvr_Version :: string
  gvr_Resource :: string

datatype migration_ev = MgList GroupVersionResource | MgUpdate GroupVersionResource CustomResource

record 'w DynamicClient =
  dy_List :: "GroupVersionResource \<Rightarrow> 'w \<Rightarrow> CustomResource list res \<times> 'w"
  dy_Update :: "GroupVersionResource \<Rightarrow> CustomResource \<Rightarrow> 'w \<Rightarrow> goerror option \<times> 'w"
  dy_Status :: "goerror \<Rightarrow> goerror"

type_synonym ('w, 'a) mgio = "((migration_ev, 'w) world, 'a) handler"

abbreviation appOrchResources :: "string list" where
  "appOrchResources \<equiv> [''deployments'', ''clusters'', ''deploymentclusters'']"
abbreviation rancherResources :: "string list" where
  "rancherResources \<equiv> [''gitrepos'', ''clusters'', ''bundles'']"

text \<open>A label is written into the map of labels, which is nil for a resource without labels.\<close>

definition migrate_cr :: "'w DynamicClient \<Rightarrow> string \<Rightarrow> GroupVersionResource \<Rightarrow> CustomResource \<Rightarrow> ('w, unit) mgio" where
  "migrate_cr k8sClient newUUID gvr cr =
     (if map_of (case cr_Labels cr of None \<Rightarrow> [] | Some l \<Rightarrow> l) AppOrchActiveProjectID \<noteq> None then gret ()
      else case cr_Labels cr of
        None \<Rightarrow> gpanic
      | Some labelList \<Rightarrow> (let cr' = cr\<lparr>cr_Labels := Some (AList.update AppOrchActiveProjectID newUUID labelList)\<rparr> in
          gmap_err (\<lambda>err. dy_Status k8sClient (K8sToTypedError err)) (gcheck (call (MgUpdate gvr cr') (dy_Update k8sClient gvr cr')))))"

definition migrate :: "'w DynamicClient \<Rightarrow> string \<Rightarrow> GroupVersionResource \<Rightarrow> ('w, unit) mgio" where
  "migrate k8sClient newUUID gvr = gtry (glift (call (MgList gvr) (dy_List k8sClient gvr))) (\<lambda>crList.
     geach (migrate_cr k8sClient newUUID gvr) crList)"

definition migration_start :: "'w DynamicClient \<Rightarrow> string \<Rightarrow> string \<Rightarrow> string \<Rightarrow> ('w, unit) mgio" where
  "migration_start k8sClient newUUID grp ver =
     gtry (geach (\<lambda>r. migrate k8sClient newUUID \<lparr>gvr_Group = grp, gvr_Version = ver, gvr_Resource = r\<rparr>) appOrchResources) (\<lambda>_.
     geach (\<lambda>r. migrate k8sClient newUUID \<lparr>gvr_Group = ''fleet.cattle.io'', gvr_Version = ''v1alpha1'', gvr_Resource = r\<rparr>) rancherResources)"

definition migration_run :: "'w DynamicClient \<Rightarrow> string \<Rightarrow> ('w, unit) mgio" where
  "migration_run k8sClient newUUID = migration_start k8sClient newUUID ''app.edge-orchestrator.intel.com'' ''v1beta1''"

end
