(* ===== verification/TenantProps.thy ===== *)
theory TenantProps
  imports Tenant
begin

text \<open>
  Properties of the tenant hook and of the migration: what is deleted with a project, and which resources are
  labelled.
\<close>

section \<open>Deletion of a project\<close>

definition tenant_deletion :: "tenant_ev \<Rightarrow> bool" where
  "tenant_deletion e = (case e of TnDelete _ _ \<Rightarrow> True | TnDeleteWatcher _ \<Rightarrow> True | _ \<Rightarrow> False)"

text \<open>The deletions in the trace after a step.\<close>

definition deletions :: "(tenant_ev, 'w) world \<Rightarrow> tenant_ev list" where
  "deletions w = filter tenant_deletion (trace w)"

lemma setProjWatcherStatus_deletions [simp]: "deletions (snd (run_state (setProjWatcherStatus h st msg a) w)) = deletions w"
  by (simp add: deletions_def setProjWatcherStatus_def safeUnixTime_def Let_def tenant_deletion_def split: prod.split)

lemma setProjWatcherStatus_run: "run_state (setProjWatcherStatus h st msg a) w = (r, w') \<Longrightarrow> deletions w' = deletions w"
  by (metis setProjWatcherStatus_deletions snd_conv)

lemma delete_deployment_deletions:
  "run_state (delete_deployment_of h ns n a) w = (r, w') \<Longrightarrow> deletions w' = deletions w @ [TnDelete ns n]"
  by (auto simp: deletions_def delete_deployment_of_def tenant_deletion_def split: prod.splits option.splits
      dest!: setProjWatcherStatus_run [unfolded deletions_def])

lemma fold_deployments:
  "run_state (fold_io (delete_deployment_of h ns) names a) w = (r, w') \<Longrightarrow> deletions w' = deletions w @ map (TnDelete ns) names"
proof (induction names arbitrary: a w)
  case (Cons n names)
  obtain a1 w1 where 1: "run_state (delete_deployment_of h ns n a) w = (a1, w1)" by fastforce
  with Cons.prems have "run_state (fold_io (delete_deployment_of h ns) names a1) w1 = (r, w')" by simp
  from Cons.IH [OF this] delete_deployment_deletions [OF 1] show ?case by simp
qed simp

lemma delete_watcher_deletions:
  "run_state (delete_watcher h p a) w = (r, w') \<Longrightarrow> deletions w' = deletions w @ [TnDeleteWatcher (pj_UID p)]"
  by (auto simp: deletions_def delete_watcher_def tenant_deletion_def split: prod.splits option.splits if_splits
      dest!: setProjWatcherStatus_run [unfolded deletions_def])

lemma does_setProjWatcherStatus: "does (\<lambda>_. True) (setProjWatcherStatus h st msg a) (\<lambda>_. True)"
  unfolding setProjWatcherStatus_def safeUnixTime_def by (intro emits_intros TrueI)

lemma projectUpdated_any: "does (\<lambda>_. True) (projectUpdated h p) (\<lambda>_. True)"
  unfolding projectUpdated_def delete_watcher_def delete_deployment_of_def
  by (intro emits_intros TrueI does_setProjWatcherStatus)

text \<open>
  Claim C39.  When a project is updated nothing is deleted unless it is marked as deleted and watched; then
  each deployment that is listed in the namespace of the project is deleted once, in the order of the list,
  and no other, before the watcher of the project is removed.
\<close>
theorem project_deletion:
  "if pj_Deleted p \<and> (\<exists>a. fst (tn_GetActiveWatchers h p appName (env w)) = Inr a)
   then \<exists>v. filter tenant_deletion (effects (projectUpdated h p) w) =
     map (TnDelete (pj_UID p)) (fst (fst (tn_List h (pj_UID p) [(AppOrchActiveProjectID, pj_UID p)] v))) @ [TnDeleteWatcher (pj_UID p)]
   else filter tenant_deletion (effects (projectUpdated h p) w) = []"
proof (cases "pj_Deleted p \<and> (\<exists>a. fst (tn_GetActiveWatchers h p appName (env w)) = Inr a)")
  case True
  then obtain a v1 where 1: "pj_Deleted p" "tn_GetActiveWatchers h p appName (env w) = (Inr a, v1)" by (metis prod.collapse)
  let ?uid = "pj_UID p" and ?sel = "[(AppOrchActiveProjectID, pj_UID p)]"
  let ?w1 = "w\<lparr>env := v1, trace := trace w @ [TnGetWatcher (pj_UID p)]\<rparr>"
  obtain x2 a2 w2 where 2: "run_state (setProjWatcherStatus h StatusIndicationInProgress ''Deleting'' a) ?w1 = ((x2, a2), w2)" by (metis prod.collapse)
  obtain names err v3 where 3: "tn_List h ?uid ?sel (env w2) = ((names, err), v3)" by (metis prod.collapse)
  let ?w3 = "w2\<lparr>env := v3, trace := trace w2 @ [TnList ?uid ?sel]\<rparr>"
  obtain a4 w4 where 4: "run_state (if err = None then State_Monad.return a2 else do {
       (_, w') \<leftarrow> setProjWatcherStatus h StatusIndicationError ''Failed to get deployments'' a2;
       State_Monad.return w' }) ?w3 = (a4, w4)" by fastforce
  obtain a5 w5 where 5: "run_state (fold_io (delete_deployment_of h ?uid) names a4) w4 = (a5, w5)" by fastforce
  obtain w6 where 6: "run_state (delete_watcher h p a5) w5 = ((), w6)" by (metis old.unit.exhaust prod.exhaust)
  have w6: "snd (run_state (projectUpdated h p) w) = w6"
    using 1 by (simp add: projectUpdated_def Let_def 2 3 4 5 6)
  have w4: "deletions w4 = deletions ?w3"
    using 4 by (auto split: if_splits prod.splits dest: setProjWatcherStatus_run)
  have "deletions w2 = deletions w" using setProjWatcherStatus_run [OF 2] by (simp add: deletions_def tenant_deletion_def)
  then have "deletions w6 = deletions w @ map (TnDelete ?uid) names @ [TnDeleteWatcher ?uid]"
    using delete_watcher_deletions [OF 6] fold_deployments [OF 5] w4 by (simp add: deletions_def tenant_deletion_def)
  then have "filter tenant_deletion (effects (projectUpdated h p) w) = map (TnDelete ?uid) names @ [TnDeleteWatcher ?uid]"
    using does_run [OF projectUpdated_any, of h p w] w6 by (auto simp: effects_def deletions_def)
  with True 3 show ?thesis by (metis fst_conv)
next
  case False
  then have "effects (projectUpdated h p) w = (if pj_Deleted p then [TnGetWatcher (pj_UID p)] else [])"
    by (auto simp: projectUpdated_def effects_def split: prod.split sum.split)
  with False show ?thesis by (simp add: tenant_deletion_def)
qed

section \<open>Migration\<close>

definition unlabelled :: "CustomResource \<Rightarrow> bool" where
  "unlabelled cr = (map_of (case cr_Labels cr of None \<Rightarrow> [] | Some l \<Rightarrow> l) AppOrchActiveProjectID = None)"

definition relabel :: "string \<Rightarrow> CustomResource \<Rightarrow> CustomResource" where
  "relabel newUUID cr = cr\<lparr>cr_Labels := map_option (AList.update AppOrchActiveProjectID newUUID) (cr_Labels cr)\<rparr>"

lemma relabel_project:
  "cr_Labels cr = Some l \<Longrightarrow> \<not> unlabelled (relabel newUUID cr) \<and>
     map_of (the (cr_Labels (relabel newUUID cr))) = (map_of l)(AppOrchActiveProjectID \<mapsto> newUUID)"
  by (auto simp: relabel_def unlabelled_def update_conv')

lemma migrate_cr_run:
  assumes "run_state (migrate_cr k u gvr cr) w = (Ret (Inr ()), w')"
  shows "trace w' = trace w @ (if unlabelled cr then [MgUpdate gvr (relabel u cr)] else []) \<and>
    (unlabelled cr \<longrightarrow> cr_Labels cr \<noteq> None)"
  using assms by (auto simp: migrate_cr_def unlabelled_def relabel_def Let_def run_gmap_err
      split: if_splits option.splits prod.splits)

lemma migrate_crs_run:
  assumes "run_state (geach (migrate_cr k u gvr) crs) w = (Ret (Inr ()), w')"
  shows "trace w' = trace w @ map (\<lambda>cr. MgUpdate gvr (relabel u cr)) (filter unlabelled crs) \<and>
    (\<forall>cr \<in> set crs. unlabelled cr \<longrightarrow> cr_Labels cr \<noteq> None)"
  using assms
proof (induction crs arbitrary: w)
  case (Cons cr crs)
  then obtain w1 where "run_state (migrate_cr k u gvr cr) w = (Ret (Inr ()), w1)"
    "run_state (geach (migrate_cr k u gvr) crs) w1 = (Ret (Inr ()), w')"
    by (auto simp: run_gtry split: prod.splits go.splits sum.splits)
  with Cons.IH [of w1] migrate_cr_run show ?case by fastforce
qed simp

text \<open>
  A migration of one kind of resource that does not fail updates exactly the listed resources
  without a project, each once and with nothing but the label of the new project added.
\<close>
theorem migrate_exact:
  assumes "result (migrate k u gvr) w = Ret (Inr ())"
  shows "\<exists>crs w1. dy_List k gvr (env w) = (Inr crs, w1) \<and>
    effects (migrate k u gvr) w = MgList gvr # map (\<lambda>cr. MgUpdate gvr (relabel u cr)) (filter unlabelled crs) \<and>
    list_all (\<lambda>cr. cr_Labels cr \<noteq> None) (filter unlabelled crs)"
proof -
  obtain w' where run: "run_state (migrate k u gvr) w = (Ret (Inr ()), w')"
    using assms by (metis prod.collapse result_def)
  then obtain crs w1 where crs: "dy_List k gvr (env w) = (Inr crs, w1)"
    "run_state (geach (migrate_cr k u gvr) crs) (w\<lparr>env := w1, trace := trace w @ [MgList gvr]\<rparr>) = (Ret (Inr ()), w')"
    by (auto simp: migrate_def run_gtry split: prod.splits sum.splits)
  from migrate_crs_run [OF crs(2)] crs(1) run show ?thesis
    by (auto simp: effects_def list_all_iff)
qed

definition sample_dynamic :: "nat DynamicClient" where
  "sample_dynamic = \<lparr>dy_List = (\<lambda>_ w. (Inr [\<lparr>cr_Namespace = ''n'', cr_Name = ''a'', cr_Labels = Some [(''k'', ''v'')]\<rparr>,
       \<lparr>cr_Namespace = ''n'', cr_Name = ''b'', cr_Labels = Some [(AppOrchActiveProjectID, ''old'')]\<rparr>], w)),
     dy_Update = (\<lambda>_ _ w. (None, w + 1)), dy_Status = (\<lambda>e. e)\<rparr>"

definition sample_gvr :: GroupVersionResource where
  "sample_gvr = \<lparr>gvr_Group = ''g'', gvr_Version = ''v1'', gvr_Resource = ''gitrepos''\<rparr>"

lemma migrate_exact_witness:
  "effects (migrate sample_dynamic ''new'' sample_gvr) \<lparr>env = 0, trace = []\<rparr> =
     [MgList sample_gvr, MgUpdate sample_gvr \<lparr>cr_Namespace = ''n'', cr_Name = ''a'',
        cr_Labels = Some [(''k'', ''v''), (AppOrchActiveProjectID, ''new'')]\<rparr>]"
proof -
  have "result (migrate sample_dynamic ''new'' sample_gvr) \<lparr>env = 0, trace = []\<rparr> = Ret (Inr ())" by code_simp
  from migrate_exact [OF this] show ?thesis by (auto simp: sample_dynamic_def unlabelled_def relabel_def)
qed

text \<open>A resource without labels stops the migration, and with it the deployment manager.\<close>

lemma migrate_without_labels:
  "dy_List k gvr (env w) = (Inr (cr # crs), w1) \<Longrightarrow> cr_Labels cr = None \<Longrightarrow> result (migrate k u gvr) w = Panicked"
  by (simp add: migrate_def migrate_cr_def result_def run_gtry)

end
