(* ===== verification/AdmTools.thy ===== *)
theory AdmTools
  imports GoIO EnvVars
begin

text \<open>
  Small parts of the deployment manager: the checker of log messages (pkg/logchecker), random tokens
  (internal/randomtoken) and the dashboards of Grafana (internal/grafana/status.go).  Regular expressions,
  random numbers, JSON objects of raw messages and the Grafana client are parameters.
\<close>

section \<open>Log messages\<close>

text \<open>The checks in the order in which a loop over the map finds them, which Go does not fix.\<close>

type_synonym LogChecker = "((string \<Rightarrow> bool) \<times> string) list"

definition logchecker_New :: LogChecker where
  "logchecker_New = []"

definition AddCheck :: "(string \<Rightarrow> (string \<Rightarrow> bool) option) \<Rightarrow> string \<Rightarrow> string \<Rightarrow> LogChecker \<Rightarrow> LogChecker go" where
  "AddCheck compile pattern response lc = (case compile pattern of
     None \<Rightarrow> Panicked | Some re \<Rightarrow> Ret (lc @ [(re, response)]))"

definition ProcessLog :: "(LogChecker \<Rightarrow> LogChecker) \<Rightarrow> LogChecker \<Rightarrow> string \<Rightarrow> string" where
  "ProcessLog order lc log = (case find (\<lambda>c. fst c log) (order lc) of None \<Rightarrow> log | Some c \<Rightarrow> snd c)"

text \<open>A message is kept, or replaced by the answer of a check that matches it, whatever the order.\<close>

lemma ProcessLog_cases:
  assumes "\<And>l. set (order l) = set l"
  shows "(\<forall>c \<in> set lc. \<not> fst c log) \<and> ProcessLog order lc log = log \<or>
    (\<exists>c \<in> set lc. fst c log \<and> ProcessLog order lc log = snd c)"
proof (cases "find (\<lambda>c. fst c log) (order lc)")
  case None
  then have "\<forall>c \<in> set lc. \<not> fst c log" using assms [of lc] by (auto simp: find_None_iff)
  with None show ?thesis by (simp add: ProcessLog_def)
next
  case (Some c)
  then have "c \<in> set lc \<and> fst c log" using assms [of lc] by (auto simp: find_Some_iff)
  with Some show ?thesis by (auto simp: ProcessLog_def)
qed

section \<open>Random tokens\<close>

definition token_characters :: string where "token_characters = ''bcdfghjklmnpqrstvwxz2456789''"
definition tokenLength :: nat where "tokenLength = 54"

datatype token_ev = RandInt int

definition token_char :: "(int \<Rightarrow> 'w \<Rightarrow> int res \<times> 'w) \<Rightarrow> string \<Rightarrow> ((token_ev, 'w) world, string) handler" where
  "token_char rand token = (let n = int (length token_characters) in
     gtry (glift (call (RandInt n) (rand n))) (\<lambda>r.
     if r < 0 \<or> r \<ge> n then gpanic else gret (token @ [token_characters ! nat r])))"

definition Generate :: "(int \<Rightarrow> 'w \<Rightarrow> int res \<times> 'w) \<Rightarrow> ((token_ev, 'w) world, string) handler" where
  "Generate rand = gfold (\<lambda>_ token. token_char rand token) [0..<tokenLength] []"

lemma token_char_returns:
  "set token \<subseteq> set token_characters \<Longrightarrow>
   returns (token_char rand token) (\<lambda>t. length t = length token + 1 \<and> set t \<subseteq> set token_characters)"
  unfolding token_char_def Let_def
  by (rule returns_gtry_any) auto

lemma gfold_token:
  "set token \<subseteq> set token_characters \<Longrightarrow>
   returns (gfold (\<lambda>_ token. token_char rand token) ns token) (\<lambda>t. length t = length token + length ns \<and> set t \<subseteq> set token_characters)"
proof (induction ns arbitrary: token)
  case (Cons n ns)
  show ?case unfolding gfold.simps
  proof (rule returns_gtry [OF token_char_returns [OF Cons.prems]])
    fix t assume "length t = length token + 1 \<and> set t \<subseteq> set token_characters"
    then show "returns (gfold (\<lambda>_ token. token_char rand token) ns t)
        (\<lambda>t. length t = length token + length (n # ns) \<and> set t \<subseteq> set token_characters)"
      using Cons.IH [of t] by simp
  qed
qed simp

text \<open>A token has its length, and only unambiguous letters and digits.\<close>

lemma Generate_token: "returns (Generate rand) (\<lambda>t. length t = tokenLength \<and> set t \<subseteq> set token_characters)"
  using gfold_token [of "[]" rand "[0..<tokenLength]"] by (simp add: Generate_def)

section \<open>Dashboards\<close>

abbreviation GrafanaURL :: string where "GrafanaURL \<equiv> ''http://kube-prometheus-stack-grafana.orch-platform''"
abbreviation GrafanaSecretName :: string where "GrafanaSecretName \<equiv> ''kube-prometheus-stack-grafana''"

datatype grafana_ev = GrConfig | GrClientset | GrSecret string | GrNew string string string | GrDashboard string

text \<open>An object is nil for the text null.\<close>

record 'w GrafanaApi =
  gr_Unmarshal :: "string \<Rightarrow> string gomap option res"
  gr_Marshal :: "string gomap \<Rightarrow> string res"
  gr_InClusterConfig :: "'w \<Rightarrow> goerror option \<times> 'w"
  gr_NewForConfig :: "'w \<Rightarrow> goerror option \<times> 'w"
  gr_GetSecret :: "string \<Rightarrow> 'w \<Rightarrow> string gomap res \<times> 'w"
  gr_New :: "string \<Rightarrow> string \<Rightarrow> string \<Rightarrow> 'w \<Rightarrow> goerror option \<times> 'w"
  gr_DashboardByUID :: "string \<Rightarrow> 'w \<Rightarrow> goerror option \<times> 'w"

type_synonym ('w, 'a) grio = "((grafana_ev, 'w) world, 'a) handler"

definition getGrafanaCredentials :: "'w GrafanaApi \<Rightarrow> ('w, string \<times> string) grio" where
  "getGrafanaCredentials g =
     gtry (gcheck (call GrConfig (gr_InClusterConfig g))) (\<lambda>_.
     gtry (gcheck (call GrClientset (gr_NewForConfig g))) (\<lambda>_.
     gtry (glift (call (GrSecret GrafanaSecretName) (gr_GetSecret g GrafanaSecretName))) (\<lambda>secret.
     gret (label_get secret ''admin-user'', label_get secret ''admin-password''))))"

text \<open>The quotes of the raw message are cut off, which panics for a message of one character.\<close>

definition GetGrafanaDashboardUID :: "'w GrafanaApi \<Rightarrow> string \<Rightarrow> string res go" where
  "GetGrafanaDashboardUID g dashboardJSONString = (case gr_Unmarshal g dashboardJSONString of
     Inl err \<Rightarrow> Ret (Inl err)
   | Inr objMap \<Rightarrow> (case map_of (case objMap of None \<Rightarrow> [] | Some m \<Rightarrow> m) ''uid'' of
       None \<Rightarrow> Ret (Inl (TypedErr KNotFound ''uid not found in dashboard JSON file''))
     | Some uid \<Rightarrow> if length uid < 2 then Panicked else Ret (Inr (butlast (List.tl uid)))))"

definition SetGrafanaDashboardUID :: "'w GrafanaApi \<Rightarrow> string \<Rightarrow> string \<Rightarrow> string res go" where
  "SetGrafanaDashboardUID g dashboardJSONString uid = (case gr_Unmarshal g dashboardJSONString of
     Inl err \<Rightarrow> Ret (Inl err)
   | Inr None \<Rightarrow> Panicked
   | Inr (Some objMap) \<Rightarrow> Ret (gr_Marshal g (AList.update ''uid'' (CHR 0x22 # uid @ [CHR 0x22]) objMap)))"

definition IsGrafanaDashboardReady :: "'w GrafanaApi \<Rightarrow> string \<Rightarrow> ('w, unit) grio" where
  "IsGrafanaDashboardReady g uid =
     gtry (getGrafanaCredentials g) (\<lambda>(username, password).
     gtry (gcheck (call (GrNew GrafanaURL username password) (gr_New g GrafanaURL username password))) (\<lambda>_.
     gcheck (call (GrDashboard uid) (gr_DashboardByUID g uid))))"

text \<open>A UID that was set is found again, where JSON gives back what it was given.\<close>

lemma dashboard_uid_roundtrip:
  assumes "SetGrafanaDashboardUID g s uid = Ret (Inr t)"
    and "\<And>m t. gr_Marshal g m = Inr t \<Longrightarrow> gr_Unmarshal g t = Inr (Some m)"
  shows "GetGrafanaDashboardUID g t = Ret (Inr uid)"
  using assms(1)
  by (auto simp: SetGrafanaDashboardUID_def GetGrafanaDashboardUID_def dest!: assms(2) simp: update_conv'
      split: sum.splits option.splits)

end
