(* ===== verification/RestBase.thy ===== *)
theory RestBase
  imports GoIO
begin

text \<open>
  The generated REST gateways of both managers (the files named pb.gw.go): how a route builds the message of a
  call from the path, the query and the body of a request, and what it answers.

  The library grpc-gateway is a parameter: the match of a pattern with a path, the conversion of strings, the form of
  a request and the parameters of its query, the decoder of a body and the annotated context.  A pattern is its
  list of operation codes with the pool of strings they refer to.
\<close>

section \<open>Messages\<close>

text \<open>The string fields of a message that are set, and its deployment, for the two messages that have one.\<close>

record 'b proto =
  pr_Fields :: "(string \<times> string) list"
  pr_Deployment :: "'b option"

definition empty_proto :: "'b proto" where
  "empty_proto = \<lparr>pr_Fields = [], pr_Deployment = None\<rparr>"

record 'b GwRequest =
  rq_Method :: string
  rq_Path :: string
  rq_Body :: string
  rq_Query :: string

type_synonym params = "(string \<times> string) list"
type_synonym pattern = "nat list \<times> string list"
type_synonym form = "(string \<times> string list) list"

text \<open>The error of a decoder comes with what it decoded before.\<close>

record 'b gwlib =
  gl_String :: "string \<Rightarrow> string res"
  gl_ReadBody :: "string \<Rightarrow> string res"
  gl_Decode :: "string \<Rightarrow> goerror option \<times> 'b option"
  gl_ParseForm :: "'b GwRequest \<Rightarrow> form res"
  gl_Populate :: "'b proto \<Rightarrow> form \<Rightarrow> string list \<Rightarrow> 'b proto res"
  gl_Match :: "pattern \<Rightarrow> string \<Rightarrow> params option"
  gl_Annotate :: "'b GwRequest \<Rightarrow> string \<Rightarrow> string \<Rightarrow> goerror option"

section \<open>Building a message\<close>

definition InvalidArgument :: "string \<Rightarrow> goerror" where
  "InvalidArgument m = PlainErr (''rpc error: code = InvalidArgument desc = '' @ m)"

definition io_EOF :: goerror where
  "io_EOF = PlainErr ''EOF''"

definition path_param :: "'b gwlib \<Rightarrow> string \<Rightarrow> string \<Rightarrow> params \<Rightarrow> 'b proto \<Rightarrow> 'b proto res" where
  "path_param L name fld pathParams protoReq = (case map_of pathParams name of
     None \<Rightarrow> Inl (InvalidArgument (''missing parameter '' @ name))
   | Some val \<Rightarrow> (case gl_String L val of
       Inl err \<Rightarrow> Inl (InvalidArgument (''type mismatch, parameter: '' @ name @ '', error: '' @ err_msg err))
     | Inr s \<Rightarrow> Inr (protoReq\<lparr>pr_Fields := pr_Fields protoReq @ [(fld, s)]\<rparr>)))"

definition decode_body :: "'b gwlib \<Rightarrow> 'b GwRequest \<Rightarrow> 'b proto \<Rightarrow> 'b proto res" where
  "decode_body L req protoReq = (case gl_ReadBody L (rq_Body req) of
     Inl berr \<Rightarrow> Inl (InvalidArgument (err_msg berr))
   | Inr body \<Rightarrow> (case gl_Decode L body of (err, d) \<Rightarrow>
       if err \<noteq> None \<and> err \<noteq> Some io_EOF then Inl (InvalidArgument (err_msg (the err)))
       else Inr (protoReq\<lparr>pr_Deployment := d\<rparr>)))"

definition populate :: "'b gwlib \<Rightarrow> string list \<Rightarrow> 'b GwRequest \<Rightarrow> 'b proto \<Rightarrow> 'b proto res" where
  "populate L filt req protoReq = (case gl_ParseForm L req of
     Inl err \<Rightarrow> Inl (InvalidArgument (err_msg err))
   | Inr form \<Rightarrow> (case gl_Populate L protoReq form filt of
       Inl err \<Rightarrow> Inl (InvalidArgument (err_msg err))
     | Inr protoReq' \<Rightarrow> Inr protoReq'))"

text \<open>A call is the name of its method with its message; the steps end with the first error.\<close>

type_synonym 'b gwcall = "string \<times> 'b proto"

fun run_steps :: "('b proto \<Rightarrow> 'b proto res) list \<Rightarrow> 'b proto \<Rightarrow> 'b proto res" where
  "run_steps [] protoReq = Inr protoReq"
| "run_steps (f # fs) protoReq = (case f protoReq of Inl err \<Rightarrow> Inl err | Inr protoReq' \<Rightarrow> run_steps fs protoReq')"

definition build :: "string \<Rightarrow> ('b proto \<Rightarrow> 'b proto res) list \<Rightarrow> 'b gwcall res" where
  "build m steps = (case run_steps steps empty_proto of Inl err \<Rightarrow> Inl err | Inr protoReq \<Rightarrow> Inr (m, protoReq))"

section \<open>Routes\<close>

datatype 'b route = Route (rt_Method: string) (rt_pattern: pattern) (rt_rpc: string) (rt_http: string)
  (rt_request: "'b gwlib \<Rightarrow> 'b GwRequest \<Rightarrow> params \<Rightarrow> 'b gwcall res")

datatype 'm GwAnswer = HTTPError goerror | ForwardResponse 'm

text \<open>What a registered handler does with a request that its pattern matches.\<close>

definition handle_route ::
  "'b gwlib \<Rightarrow> (string \<Rightarrow> 'b proto \<Rightarrow> 'w \<Rightarrow> 'm res \<times> 'w) \<Rightarrow> 'b route \<Rightarrow> 'b GwRequest \<Rightarrow> params \<Rightarrow>
     (('b gwcall, 'w) world, 'm GwAnswer) state" where
  "handle_route L client rt req pathParams = (case gl_Annotate L req (rt_rpc rt) (rt_http rt) of
     Some err \<Rightarrow> State_Monad.return (HTTPError err)
   | None \<Rightarrow> (case rt_request rt L req pathParams of
       Inl err \<Rightarrow> State_Monad.return (HTTPError err)
     | Inr (m, protoReq) \<Rightarrow> do {
         r \<leftarrow> call (m, protoReq) (client m protoReq);
         State_Monad.return (case r of Inl err \<Rightarrow> HTTPError err | Inr resp \<Rightarrow> ForwardResponse resp) }))"

text \<open>The routes whose method and pattern match a request, with the parameters of the path.\<close>

definition matching :: "'b gwlib \<Rightarrow> 'b route list \<Rightarrow> string \<Rightarrow> string \<Rightarrow> ('b route \<times> params) list" where
  "matching L routes m path = concat (map (\<lambda>rt. if rt_Method rt \<noteq> m then [] else
     (case gl_Match L (rt_pattern rt) path of None \<Rightarrow> [] | Some ps \<Rightarrow> [(rt, ps)])) routes)"

definition calls_of :: "'b gwlib \<Rightarrow> 'b route list \<Rightarrow> 'b GwRequest \<Rightarrow> 'b gwcall res list" where
  "calls_of L routes req = map (\<lambda>(rt, ps). rt_request rt L req ps) (matching L routes (rq_Method req) (rq_Path req))"

section \<open>Patterns\<close>

text \<open>
  The documented meaning of the operation codes: 2 with the index of a fixed segment, and 1, 4 and 5 for one segment that
  is captured under a name.  The library matches a path segment by segment.
\<close>

datatype tseg = TLit string | TVar string

fun template_of :: "nat list \<Rightarrow> string list \<Rightarrow> tseg list option" where
  "template_of [] pool = Some []"
| "template_of (a # i # ops) pool =
     (if a = 2 then map_option ((#) (TLit (pool ! i))) (template_of ops pool)
      else if a = 1 \<and> i = 0 then (case ops of
          b # n # c # k # ops' \<Rightarrow> if b = 4 \<and> n = 1 \<and> c = 5 then map_option ((#) (TVar (pool ! k))) (template_of ops' pool) else None
        | _ \<Rightarrow> None)
      else None)"
| "template_of [a] pool = None"

fun match_template :: "tseg list \<Rightarrow> string list \<Rightarrow> params option" where
  "match_template [] [] = Some []"
| "match_template (TLit l # ts) (s # ss) = (if s = l then match_template ts ss else None)"
| "match_template (TVar v # ts) (s # ss) = map_option ((#) (v, s)) (match_template ts ss)"
| "match_template _ _ = None"

named_theorems templates \<open>the templates of the patterns\<close>

text \<open>A segment that needs no escapes and cannot be a verb.\<close>

definition plain :: "string \<Rightarrow> bool" where
  "plain s = (s \<noteq> [] \<and> CHR ''/'' \<notin> set s \<and> CHR ''%'' \<notin> set s \<and> CHR '':'' \<notin> set s)"

definition gateway_ok :: "'b gwlib \<Rightarrow> bool" where
  "gateway_ok L = ((\<forall>s. gl_String L s = Inr s) \<and>
     (\<forall>ops pool segs. list_all plain segs \<longrightarrow> gl_Match L (ops, pool) (Join ([] # segs) ''/'') =
        (case template_of ops pool of None \<Rightarrow> None | Some t \<Rightarrow> match_template t segs)))"

lemma matching_nil [simp]: "matching L [] m path = []"
  by (simp add: matching_def)

lemma matching_cons [simp]:
  "matching L (rt # routes) m path = (if rt_Method rt \<noteq> m then [] else
     (case gl_Match L (rt_pattern rt) path of None \<Rightarrow> [] | Some ps \<Rightarrow> [(rt, ps)])) @ matching L routes m path"
  by (simp add: matching_def)

lemma matching_append: "matching L (rs @ rs') m path = matching L rs m path @ matching L rs' m path"
  by (simp add: matching_def)

lemma gateway_match:
  "gateway_ok L \<Longrightarrow> list_all plain segs \<Longrightarrow> gl_Match L (ops, pool) (Join ([] # segs) ''/'') =
     (case template_of ops pool of None \<Rightarrow> None | Some t \<Rightarrow> match_template t segs)"
  by (simp add: gateway_ok_def)

lemma gateway_param: "gateway_ok L \<Longrightarrow> path_param L name fld ps m = (case map_of ps name of
     None \<Rightarrow> Inl (InvalidArgument (''missing parameter '' @ name))
   | Some val \<Rightarrow> Inr (m\<lparr>pr_Fields := pr_Fields m @ [(fld, val)]\<rparr>))"
  by (simp add: path_param_def gateway_ok_def split: option.split)

text \<open>A library in memory: it splits the path, takes no query and decodes no body.\<close>

definition mem_gwlib :: "'b gwlib" where
  "mem_gwlib = \<lparr>gl_String = Inr, gl_ReadBody = Inr, gl_Decode = (\<lambda>_. (Some io_EOF, None)), gl_ParseForm = (\<lambda>_. Inr []),
     gl_Populate = (\<lambda>m _ _. Inr m),
     gl_Match = (\<lambda>(ops, pool) path. case Split path ''/'' of [] \<Rightarrow> None | s # segs \<Rightarrow>
       (case template_of ops pool of None \<Rightarrow> None | Some t \<Rightarrow> match_template t segs)),
     gl_Annotate = (\<lambda>_ _ _. None)\<rparr>"

lemma mem_gwlib_ok: "gateway_ok mem_gwlib"
proof -
  have "Split (Join ([] # segs) ''/'') ''/'' = [] # segs" if "list_all plain segs" for segs
    using that by (intro Split_Join_char) (auto simp: plain_def list_all_iff)
  then show ?thesis by (simp add: gateway_ok_def mem_gwlib_def del: Join.simps)
qed

end
