(* ===== verification/ArmRoutes.thy ===== *)
theory ArmRoutes
  imports RestBase
begin

text \<open>
  The routes of the App Resource Manager (api/nbi/v2/resource/v2, pb.gw.go): for each of its seven operations
  the path of the API, the path of older clients, without a project, and the path of the user interface.
\<close>

section \<open>EndpointsService\<close>

text \<open>The routes of EndpointsService (endpoint\_service.pb.gw.go).\<close>

definition pattern_EndpointsService_ListAppEndpoints_0 :: pattern where
  "pattern_EndpointsService_ListAppEndpoints_0 = ([2, 0, 2, 1, 1, 0, 4, 1, 5, 2, 2, 3, 2, 4, 1, 0, 4, 1, 5, 5, 1, 0, 4, 1, 5, 6],
     [''v1'', ''projects'', ''projectName'', ''resource'', ''endpoints'', ''app_id'', ''cluster_id''])"

definition pattern_EndpointsService_ListAppEndpoints_1 :: pattern where
  "pattern_EndpointsService_ListAppEndpoints_1 = ([2, 0, 2, 1, 2, 2, 1, 0, 4, 1, 5, 3, 1, 0, 4, 1, 5, 4],
     [''resource.orchestrator.apis'', ''v2'', ''endpoints'', ''app_id'', ''cluster_id''])"

definition pattern_EndpointsService_ListAppEndpoints_2 :: pattern where
  "pattern_EndpointsService_ListAppEndpoints_2 = ([2, 0, 2, 1, 1, 0, 4, 1, 5, 2, 2, 3, 2, 4, 2, 5, 1, 0, 4, 1, 5, 6, 2, 7, 1, 0, 4, 1, 5, 8],
     [''v1'', ''projects'', ''projectName'', ''resource'', ''endpoints'', ''applications'', ''app_id'', ''clusters'', ''cluster_id''])"

definition filter_EndpointsService_ListAppEndpoints_1 :: "string list" where
  "filter_EndpointsService_ListAppEndpoints_1 = [''app_id'', ''appId'', ''cluster_id'', ''clusterId'']"

definition request_EndpointsService_ListAppEndpoints_0 :: "'b gwlib \<Rightarrow> 'b GwRequest \<Rightarrow> params \<Rightarrow> 'b gwcall res" where
  "request_EndpointsService_ListAppEndpoints_0 L req pathParams =
     build ''ListAppEndpoints'' [path_param L ''projectName'' ''ProjectName'' pathParams,
       path_param L ''app_id'' ''AppId'' pathParams,
       path_param L ''cluster_id'' ''ClusterId'' pathParams]"

definition request_EndpointsService_ListAppEndpoints_1 :: "'b gwlib \<Rightarrow> 'b GwRequest \<Rightarrow> params \<Rightarrow> 'b gwcall res" where
  "request_EndpointsService_ListAppEndpoints_1 L req pathParams =
     build ''ListAppEndpoints'' [path_param L ''app_id'' ''AppId'' pathParams,
       path_param L ''cluster_id'' ''ClusterId'' pathParams,
       populate L filter_EndpointsService_ListAppEndpoints_1 req]"

definition request_EndpointsService_ListAppEndpoints_2 :: "'b gwlib \<Rightarrow> 'b GwRequest \<Rightarrow> params \<Rightarrow> 'b gwcall res" where
  "request_EndpointsService_ListAppEndpoints_2 L req pathParams =
     build ''ListAppEndpoints'' [path_param L ''projectName'' ''ProjectName'' pathParams,
       path_param L ''app_id'' ''AppId'' pathParams,
       path_param L ''cluster_id'' ''ClusterId'' pathParams]"

definition RegisterEndpointsServiceHandlerClient :: "'b route list" where
  "RegisterEndpointsServiceHandlerClient =
    [Route ''GET'' pattern_EndpointsService_ListAppEndpoints_0 ''/resource.v2.EndpointsService/ListAppEndpoints''
       ''/v1/projects/{projectName}/resource/endpoints/{app_id}/{cluster_id}'' request_EndpointsService_ListAppEndpoints_0,
     Route ''GET'' pattern_EndpointsService_ListAppEndpoints_1 ''/resource.v2.EndpointsService/ListAppEndpoints''
       ''/resource.orchestrator.apis/v2/endpoints/{app_id}/{cluster_id}'' request_EndpointsService_ListAppEndpoints_1,
     Route ''GET'' pattern_EndpointsService_ListAppEndpoints_2 ''/resource.v2.EndpointsService/ListAppEndpoints''
       ''/v1/projects/{projectName}/resource/endpoints/applications/{app_id}/clusters/{cluster_id}'' request_EndpointsService_ListAppEndpoints_2]"

lemma template_EndpointsService_ListAppEndpoints_0 [templates]:
  "template_of (fst pattern_EndpointsService_ListAppEndpoints_0) (snd pattern_EndpointsService_ListAppEndpoints_0) = Some
     [TLit ''v1'', TLit ''projects'', TVar ''projectName'', TLit ''resource'', TLit ''endpoints'', TVar ''app_id'', TVar ''cluster_id'']"
  by (simp add: pattern_EndpointsService_ListAppEndpoints_0_def)

lemma template_EndpointsService_ListAppEndpoints_1 [templates]:
  "template_of (fst pattern_EndpointsService_ListAppEndpoints_1) (snd pattern_EndpointsService_ListAppEndpoints_1) = Some
     [TLit ''resource.orchestrator.apis'', TLit ''v2'', TLit ''endpoints'', TVar ''app_id'', TVar ''cluster_id'']"
  by (simp add: pattern_EndpointsService_ListAppEndpoints_1_def)

lemma template_EndpointsService_ListAppEndpoints_2 [templates]:
  "template_of (fst pattern_EndpointsService_ListAppEndpoints_2) (snd pattern_EndpointsService_ListAppEndpoints_2) = Some
     [TLit ''v1'', TLit ''projects'', TVar ''projectName'', TLit ''resource'', TLit ''endpoints'', TLit ''applications'', TVar ''app_id'', TLit ''clusters'', TVar ''cluster_id'']"
  by (simp add: pattern_EndpointsService_ListAppEndpoints_2_def)

section \<open>AppWorkloadService\<close>

text \<open>The routes of AppWorkloadService (app\_workload\_service.pb.gw.go).\<close>

definition pattern_AppWorkloadService_ListAppWorkloads_0 :: pattern where
  "pattern_AppWorkloadService_ListAppWorkloads_0 = ([2, 0, 2, 1, 1, 0, 4, 1, 5, 2, 2, 3, 2, 4, 1, 0, 4, 1, 5, 5, 1, 0, 4, 1, 5, 6],
     [''v1'', ''projects'', ''projectName'', ''resource'', ''workloads'', ''app_id'', ''cluster_id''])"

definition pattern_AppWorkloadService_ListAppWorkloads_1 :: pattern where
  "pattern_AppWorkloadService_ListAppWorkloads_1 = ([2, 0, 2, 1, 2, 2, 1, 0, 4, 1, 5, 3, 1, 0, 4, 1, 5, 4],
     [''resource.orchestrator.apis'', ''v2'', ''workloads'', ''app_id'', ''cluster_id''])"

definition pattern_AppWorkloadService_ListAppWorkloads_2 :: pattern where
  "pattern_AppWorkloadService_ListAppWorkloads_2 = ([2, 0, 2, 1, 1, 0, 4, 1, 5, 2, 2, 3, 2, 4, 2, 5, 1, 0, 4, 1, 5, 6, 2, 7, 1, 0, 4, 1, 5, 8],
     [''v1'', ''projects'', ''projectName'', ''resource'', ''workloads'', ''applications'', ''app_id'', ''clusters'', ''cluster_id''])"

definition filter_AppWorkloadService_ListAppWorkloads_1 :: "string list" where
  "filter_AppWorkloadService_ListAppWorkloads_1 = [''app_id'', ''appId'', ''cluster_id'', ''clusterId'']"

definition request_AppWorkloadService_ListAppWorkloads_0 :: "'b gwlib \<Rightarrow> 'b GwRequest \<Rightarrow> params \<Rightarrow> 'b gwcall res" where
  "request_AppWorkloadService_ListAppWorkloads_0 L req pathParams =
     build ''ListAppWorkloads'' [path_param L ''projectName'' ''ProjectName'' pathParams,
       path_param L ''app_id'' ''AppId'' pathParams,
       path_param L ''cluster_id'' ''ClusterId'' pathParams]"

definition request_AppWorkloadService_ListAppWorkloads_1 :: "'b gwlib \<Rightarrow> 'b GwRequest \<Rightarrow> params \<Rightarrow> 'b gwcall res" where
  "request_AppWorkloadService_ListAppWorkloads_1 L req pathParams =
     build ''ListAppWorkloads'' [path_param L ''app_id'' ''AppId'' pathParams,
       path_param L ''cluster_id'' ''ClusterId'' pathParams,
       populate L filter_AppWorkloadService_ListAppWorkloads_1 req]"

definition request_AppWorkloadService_ListAppWorkloads_2 :: "'b gwlib \<Rightarrow> 'b GwRequest \<Rightarrow> params \<Rightarrow> 'b gwcall res" where
  "request_AppWorkloadService_ListAppWorkloads_2 L req pathParams =
     build ''ListAppWorkloads'' [path_param L ''projectName'' ''ProjectName'' pathParams,
       path_param L ''app_id'' ''AppId'' pathParams,
       path_param L ''cluster_id'' ''ClusterId'' pathParams]"

definition RegisterAppWorkloadServiceHandlerClient :: "'b route list" where
  "RegisterAppWorkloadServiceHandlerClient =
    [Route ''GET'' pattern_AppWorkloadService_ListAppWorkloads_0 ''/resource.v2.AppWorkloadService/ListAppWorkloads''
       ''/v1/projects/{projectName}/resource/workloads/{app_id}/{cluster_id}'' request_AppWorkloadService_ListAppWorkloads_0,
     Route ''GET'' pattern_AppWorkloadService_ListAppWorkloads_1 ''/resource.v2.AppWorkloadService/ListAppWorkloads''
       ''/resource.orchestrator.apis/v2/workloads/{app_id}/{cluster_id}'' request_AppWorkloadService_ListAppWorkloads_1,
     Route ''GET'' pattern_AppWorkloadService_ListAppWorkloads_2 ''/resource.v2.AppWorkloadService/ListAppWorkloads''
       ''/v1/projects/{projectName}/resource/workloads/applications/{app_id}/clusters/{cluster_id}'' request_AppWorkloadService_ListAppWorkloads_2]"

lemma template_AppWorkloadService_ListAppWorkloads_0 [templates]:
  "template_of (fst pattern_AppWorkloadService_ListAppWorkloads_0) (snd pattern_AppWorkloadService_ListAppWorkloads_0) = Some
     [TLit ''v1'', TLit ''projects'', TVar ''projectName'', TLit ''resource'', TLit ''workloads'', TVar ''app_id'', TVar ''cluster_id'']"
  by (simp add: pattern_AppWorkloadService_ListAppWorkloads_0_def)

lemma template_AppWorkloadService_ListAppWorkloads_1 [templates]:
  "template_of (fst pattern_AppWorkloadService_ListAppWorkloads_1) (snd pattern_AppWorkloadService_ListAppWorkloads_1) = Some
     [TLit ''resource.orchestrator.apis'', TLit ''v2'', TLit ''workloads'', TVar ''app_id'', TVar ''cluster_id'']"
  by (simp add: pattern_AppWorkloadService_ListAppWorkloads_1_def)

lemma template_AppWorkloadService_ListAppWorkloads_2 [templates]:
  "template_of (fst pattern_AppWorkloadService_ListAppWorkloads_2) (snd pattern_AppWorkloadService_ListAppWorkloads_2) = Some
     [TLit ''v1'', TLit ''projects'', TVar ''projectName'', TLit ''resource'', TLit ''workloads'', TLit ''applications'', TVar ''app_id'', TLit ''clusters'', TVar ''cluster_id'']"
  by (simp add: pattern_AppWorkloadService_ListAppWorkloads_2_def)

section \<open>PodService\<close>

text \<open>The routes of PodService (pod\_service.pb.gw.go).\<close>

definition pattern_PodService_DeletePod_0 :: pattern where
  "pattern_PodService_DeletePod_0 = ([2, 0, 2, 1, 1, 0, 4, 1, 5, 2, 2, 3, 2, 4, 2, 5, 1, 0, 4, 1, 5, 6, 1, 0, 4, 1, 5, 7, 1, 0, 4, 1, 5, 8, 2, 9],
     [''v1'', ''projects'', ''projectName'', ''resource'', ''workloads'', ''pods'', ''cluster_id'', ''namespace'', ''pod_name'', ''delete''])"

definition pattern_PodService_DeletePod_1 :: pattern where
  "pattern_PodService_DeletePod_1 = ([2, 0, 2, 1, 2, 2, 2, 3, 1, 0, 4, 1, 5, 4, 1, 0, 4, 1, 5, 5, 1, 0, 4, 1, 5, 6, 2, 7],
     [''resource.orchestrator.apis'', ''v2'', ''workloads'', ''pods'', ''cluster_id'', ''namespace'', ''pod_name'', ''delete''])"

definition pattern_PodService_DeletePod_2 :: pattern where
  "pattern_PodService_DeletePod_2 = ([2, 0, 2, 1, 1, 0, 4, 1, 5, 2, 2, 3, 2, 4, 2, 5, 2, 6, 1, 0, 4, 1, 5, 7, 2, 8, 1, 0, 4, 1, 5, 9, 2, 5, 1, 0, 4, 1, 5, 10, 2, 11],
     [''v1'', ''projects'', ''projectName'', ''resource'', ''workloads'', ''pods'', ''clusters'', ''cluster_id'', ''namespaces'', ''namespace'', ''pod_name'', ''delete''])"

definition filter_PodService_DeletePod_1 :: "string list" where
  "filter_PodService_DeletePod_1 = [''cluster_id'', ''clusterId'', ''namespace'', ''pod_name'', ''podName'']"

definition request_PodService_DeletePod_0 :: "'b gwlib \<Rightarrow> 'b GwRequest \<Rightarrow> params \<Rightarrow> 'b gwcall res" where
  "request_PodService_DeletePod_0 L req pathParams =
     build ''DeletePod'' [path_param L ''projectName'' ''ProjectName'' pathParams,
       path_param L ''cluster_id'' ''ClusterId'' pathParams,
       path_param L ''namespace'' ''Namespace'' pathParams,
       path_param L ''pod_name'' ''PodName'' pathParams]"

definition request_PodService_DeletePod_1 :: "'b gwlib \<Rightarrow> 'b GwRequest \<Rightarrow> params \<Rightarrow> 'b gwcall res" where
  "request_PodService_DeletePod_1 L req pathParams =
     build ''DeletePod'' [path_param L ''cluster_id'' ''ClusterId'' pathParams,
       path_param L ''namespace'' ''Namespace'' pathParams,
       path_param L ''pod_name'' ''PodName'' pathParams,
       populate L filter_PodService_DeletePod_1 req]"

definition request_PodService_DeletePod_2 :: "'b gwlib \<Rightarrow> 'b GwRequest \<Rightarrow> params \<Rightarrow> 'b gwcall res" where
  "request_PodService_DeletePod_2 L req pathParams =
     build ''DeletePod'' [path_param L ''projectName'' ''ProjectName'' pathParams,
       path_param L ''cluster_id'' ''ClusterId'' pathParams,
       path_param L ''namespace'' ''Namespace'' pathParams,
       path_param L ''pod_name'' ''PodName'' pathParams]"

definition RegisterPodServiceHandlerClient :: "'b route list" where
  "RegisterPodServiceHandlerClient =
    [Route ''PUT'' pattern_PodService_DeletePod_0 ''/resource.v2.PodService/DeletePod''
       ''/v1/projects/{projectName}/resource/workloads/pods/{cluster_id}/{namespace}/{pod_name}/delete'' request_PodService_DeletePod_0,
     Route ''PUT'' pattern_PodService_DeletePod_1 ''/resource.v2.PodService/DeletePod''
       ''/resource.orchestrator.apis/v2/workloads/pods/{cluster_id}/{namespace}/{pod_name}/delete'' request_PodService_DeletePod_1,
     Route ''PUT'' pattern_PodService_DeletePod_2 ''/resource.v2.PodService/DeletePod''
       ''/v1/projects/{projectName}/resource/workloads/pods/clusters/{cluster_id}/namespaces/{namespace}/pods/{pod_name}/delete'' request_PodService_DeletePod_2]"

lemma template_PodService_DeletePod_0 [templates]:
  "template_of (fst pattern_PodService_DeletePod_0) (snd pattern_PodService_DeletePod_0) = Some
     [TLit ''v1'', TLit ''projects'', TVar ''projectName'', TLit ''resource'', TLit ''workloads'', TLit ''pods'', TVar ''cluster_id'', TVar ''namespace'', TVar ''pod_name'', TLit ''delete'']"
  by (simp add: pattern_PodService_DeletePod_0_def)

lemma template_PodService_DeletePod_1 [templates]:
  "template_of (fst pattern_PodService_DeletePod_1) (snd pattern_PodService_DeletePod_1) = Some
     [TLit ''resource.orchestrator.apis'', TLit ''v2'', TLit ''workloads'', TLit ''pods'', TVar ''cluster_id'', TVar ''namespace'', TVar ''pod_name'', TLit ''delete'']"
  by (simp add: pattern_PodService_DeletePod_1_def)

lemma template_PodService_DeletePod_2 [templates]:
  "template_of (fst pattern_PodService_DeletePod_2) (snd pattern_PodService_DeletePod_2) = Some
     [TLit ''v1'', TLit ''projects'', TVar ''projectName'', TLit ''resource'', TLit ''workloads'', TLit ''pods'', TLit ''clusters'', TVar ''cluster_id'', TLit ''namespaces'', TVar ''namespace'', TLit ''pods'', TVar ''pod_name'', TLit ''delete'']"
  by (simp add: pattern_PodService_DeletePod_2_def)

section \<open>VirtualMachineService\<close>

text \<open>The routes of VirtualMachineService (vm\_service.pb.gw.go).\<close>

definition pattern_VirtualMachineService_StartVirtualMachine_0 :: pattern where
  "pattern_VirtualMachineService_StartVirtualMachine_0 = ([2, 0, 2, 1, 1, 0, 4, 1, 5, 2, 2, 3, 2, 4, 2, 5, 1, 0, 4, 1, 5, 6, 1, 0, 4, 1, 5, 7, 1, 0, 4, 1, 5, 8, 2, 9],
     [''v1'', ''projects'', ''projectName'', ''resource'', ''workloads'', ''virtual-machines'', ''app_id'', ''cluster_id'', ''virtual_machine_id'', ''start''])"

definition pattern_VirtualMachineService_StartVirtualMachine_1 :: pattern where
  "pattern_VirtualMachineService_StartVirtualMachine_1 = ([2, 0, 2, 1, 2, 2, 2, 3, 1, 0, 4, 1, 5, 4, 1, 0, 4, 1, 5, 5, 1, 0, 4, 1, 5, 6, 2, 7],
     [''resource.orchestrator.apis'', ''v2'', ''workloads'', ''virtual-machines'', ''app_id'', ''cluster_id'', ''virtual_machine_id'', ''start''])"

definition pattern_VirtualMachineService_StartVirtualMachine_2 :: pattern where
  "pattern_VirtualMachineService_StartVirtualMachine_2 = ([2, 0, 2, 1, 1, 0, 4, 1, 5, 2, 2, 3, 2, 4, 2, 5, 1, 0, 4, 1, 5, 6, 2, 7, 1, 0, 4, 1, 5, 8, 2, 9, 1, 0, 4, 1, 5, 10, 2, 11],
     [''v1'', ''projects'', ''projectName'', ''resource'', ''workloads'', ''applications'', ''app_id'', ''clusters'', ''cluster_id'', ''virtual-machines'', ''virtual_machine_id'', ''start''])"

definition pattern_VirtualMachineService_StopVirtualMachine_0 :: pattern where
  "pattern_VirtualMachineService_StopVirtualMachine_0 = ([2, 0, 2, 1, 1, 0, 4, 1, 5, 2, 2, 3, 2, 4, 2, 5, 1, 0, 4, 1, 5, 6, 1, 0, 4, 1, 5, 7, 1, 0, 4, 1, 5, 8, 2, 9],
     [''v1'', ''projects'', ''projectName'', ''resource'', ''workloads'', ''virtual-machines'', ''app_id'', ''cluster_id'', ''virtual_machine_id'', ''stop''])"

definition pattern_VirtualMachineService_StopVirtualMachine_1 :: pattern where
  "pattern_VirtualMachineService_StopVirtualMachine_1 = ([2, 0, 2, 1, 2, 2, 2, 3, 1, 0, 4, 1, 5, 4, 1, 0, 4, 1, 5, 5, 1, 0, 4, 1, 5, 6, 2, 7],
     [''resource.orchestrator.apis'', ''v2'', ''workloads'', ''virtual-machines'', ''app_id'', ''cluster_id'', ''virtual_machine_id'', ''stop''])"

definition pattern_VirtualMachineService_StopVirtualMachine_2 :: pattern where
  "pattern_VirtualMachineService_StopVirtualMachine_2 = ([2, 0, 2, 1, 1, 0, 4, 1, 5, 2, 2, 3, 2, 4, 2, 5, 1, 0, 4, 1, 5, 6, 2, 7, 1, 0, 4, 1, 5, 8, 2, 9, 1, 0, 4, 1, 5, 10, 2, 11],
     [''v1'', ''projects'', ''projectName'', ''resource'', ''workloads'', ''applications'', ''app_id'', ''clusters'', ''cluster_id'', ''virtual-machines'', ''virtual_machine_id'', ''stop''])"

definition pattern_VirtualMachineService_RestartVirtualMachine_0 :: pattern where
  "pattern_VirtualMachineService_RestartVirtualMachine_0 = ([2, 0, 2, 1, 1, 0, 4, 1, 5, 2, 2, 3, 2, 4, 2, 5, 1, 0, 4, 1, 5, 6, 1, 0, 4, 1, 5, 7, 1, 0, 4, 1, 5, 8, 2, 9],
     [''v1'', ''projects'', ''projectName'', ''resource'', ''workloads'', ''virtual-machines'', ''app_id'', ''cluster_id'', ''virtual_machine_id'', ''restart''])"

definition pattern_VirtualMachineService_RestartVirtualMachine_1 :: pattern where
  "pattern_VirtualMachineService_RestartVirtualMachine_1 = ([2, 0, 2, 1, 2, 2, 2, 3, 1, 0, 4, 1, 5, 4, 1, 0, 4, 1, 5, 5, 1, 0, 4, 1, 5, 6, 2, 7],
     [''resource.orchestrator.apis'', ''v2'', ''workloads'', ''virtual-machines'', ''app_id'', ''cluster_id'', ''virtual_machine_id'', ''restart''])"

definition pattern_VirtualMachineService_RestartVirtualMachine_2 :: pattern where
  "pattern_VirtualMachineService_RestartVirtualMachine_2 = ([2, 0, 2, 1, 1, 0, 4, 1, 5, 2, 2, 3, 2, 4, 2, 5, 1, 0, 4, 1, 5, 6, 2, 7, 1, 0, 4, 1, 5, 8, 2, 9, 1, 0, 4, 1, 5, 10, 2, 11],
     [''v1'', ''projects'', ''projectName'', ''resource'', ''workloads'', ''applications'', ''app_id'', ''clusters'', ''cluster_id'', ''virtual-machines'', ''virtual_machine_id'', ''restart''])"

definition pattern_VirtualMachineService_GetVNC_0 :: pattern where
  "pattern_VirtualMachineService_GetVNC_0 = ([2, 0, 2, 1, 1, 0, 4, 1, 5, 2, 2, 3, 2, 4, 2, 5, 1, 0, 4, 1, 5, 6, 1, 0, 4, 1, 5, 7, 1, 0, 4, 1, 5, 8, 2, 9],
     [''v1'', ''projects'', ''projectName'', ''resource'', ''workloads'', ''virtual-machines'', ''app_id'', ''cluster_id'', ''virtual_machine_id'', ''vnc''])"

definition pattern_VirtualMachineService_GetVNC_1 :: pattern where
  "pattern_VirtualMachineService_GetVNC_1 = ([2, 0, 2, 1, 2, 2, 2, 3, 1, 0, 4, 1, 5, 4, 1, 0, 4, 1, 5, 5, 1, 0, 4, 1, 5, 6, 2, 7],
     [''resource.orchestrator.apis'', ''v2'', ''workloads'', ''virtual-machines'', ''app_id'', ''cluster_id'', ''virtual_machine_id'', ''vnc''])"

definition pattern_VirtualMachineService_GetVNC_2 :: pattern where
  "pattern_VirtualMachineService_GetVNC_2 = ([2, 0, 2, 1, 1, 0, 4, 1, 5, 2, 2, 3, 2, 4, 2, 5, 1, 0, 4, 1, 5, 6, 2, 7, 1, 0, 4, 1, 5, 8, 2, 9, 1, 0, 4, 1, 5, 10, 2, 11],
     [''v1'', ''projects'', ''projectName'', ''resource'', ''workloads'', ''applications'', ''app_id'', ''clusters'', ''cluster_id'', ''virtual-machines'', ''virtual_machine_id'', ''vnc''])"

definition filter_VirtualMachineService_StartVirtualMachine_1 :: "string list" where
  "filter_VirtualMachineService_StartVirtualMachine_1 = [''app_id'', ''appId'', ''cluster_id'', ''clusterId'', ''virtual_machine_id'', ''virtualMachineId'']"

definition filter_VirtualMachineService_StopVirtualMachine_1 :: "string list" where
  "filter_VirtualMachineService_StopVirtualMachine_1 = [''app_id'', ''appId'', ''cluster_id'', ''clusterId'', ''virtual_machine_id'', ''virtualMachineId'']"

definition filter_VirtualMachineService_RestartVirtualMachine_1 :: "string list" where
  "filter_VirtualMachineService_RestartVirtualMachine_1 = [''app_id'', ''appId'', ''cluster_id'', ''clusterId'', ''virtual_machine_id'', ''virtualMachineId'']"

definition filter_VirtualMachineService_GetVNC_1 :: "string list" where
  "filter_VirtualMachineService_GetVNC_1 = [''app_id'', ''appId'', ''cluster_id'', ''clusterId'', ''virtual_machine_id'', ''virtualMachineId'']"

definition request_VirtualMachineService_StartVirtualMachine_0 :: "'b gwlib \<Rightarrow> 'b GwRequest \<Rightarrow> params \<Rightarrow> 'b gwcall res" where
  "request_VirtualMachineService_StartVirtualMachine_0 L req pathParams =
     build ''StartVirtualMachine'' [path_param L ''projectName'' ''ProjectName'' pathParams,
       path_param L ''app_id'' ''AppId'' pathParams,
       path_param L ''cluster_id'' ''ClusterId'' pathParams,
       path_param L ''virtual_machine_id'' ''VirtualMachineId'' pathParams]"

definition request_VirtualMachineService_StartVirtualMachine_1 :: "'b gwlib \<Rightarrow> 'b GwRequest \<Rightarrow> params \<Rightarrow> 'b gwcall res" where
  "request_VirtualMachineService_StartVirtualMachine_1 L req pathParams =
     build ''StartVirtualMachine'' [path_param L ''app_id'' ''AppId'' pathParams,
       path_param L ''cluster_id'' ''ClusterId'' pathParams,
       path_param L ''virtual_machine_id'' ''VirtualMachineId'' pathParams,
       populate L filter_VirtualMachineService_StartVirtualMachine_1 req]"

definition request_VirtualMachineService_StartVirtualMachine_2 :: "'b gwlib \<Rightarrow> 'b GwRequest \<Rightarrow> params \<Rightarrow> 'b gwcall res" where
  "request_VirtualMachineService_StartVirtualMachine_2 L req pathParams =
     build ''StartVirtualMachine'' [path_param L ''projectName'' ''ProjectName'' pathParams,
       path_param L ''app_id'' ''AppId'' pathParams,
       path_param L ''cluster_id'' ''ClusterId'' pathParams,
       path_param L ''virtual_machine_id'' ''VirtualMachineId'' pathParams]"

definition request_VirtualMachineService_StopVirtualMachine_0 :: "'b gwlib \<Rightarrow> 'b GwRequest \<Rightarrow> params \<Rightarrow> 'b gwcall res" where
  "request_VirtualMachineService_StopVirtualMachine_0 L req pathParams =
     build ''StopVirtualMachine'' [path_param L ''projectName'' ''ProjectName'' pathParams,
       path_param L ''app_id'' ''AppId'' pathParams,
       path_param L ''cluster_id'' ''ClusterId'' pathParams,
       path_param L ''virtual_machine_id'' ''VirtualMachineId'' pathParams]"

definition request_VirtualMachineService_StopVirtualMachine_1 :: "'b gwlib \<Rightarrow> 'b GwRequest \<Rightarrow> params \<Rightarrow> 'b gwcall res" where
  "request_VirtualMachineService_StopVirtualMachine_1 L req pathParams =
     build ''StopVirtualMachine'' [path_param L ''app_id'' ''AppId'' pathParams,
       path_param L ''cluster_id'' ''ClusterId'' pathParams,
       path_param L ''virtual_machine_id'' ''VirtualMachineId'' pathParams,
       populate L filter_VirtualMachineService_StopVirtualMachine_1 req]"

definition request_VirtualMachineService_StopVirtualMachine_2 :: "'b gwlib \<Rightarrow> 'b GwRequest \<Rightarrow> params \<Rightarrow> 'b gwcall res" where
  "request_VirtualMachineService_StopVirtualMachine_2 L req pathParams =
     build ''StopVirtualMachine'' [path_param L ''projectName'' ''ProjectName'' pathParams,
       path_param L ''app_id'' ''AppId'' pathParams,
       path_param L ''cluster_id'' ''ClusterId'' pathParams,
       path_param L ''virtual_machine_id'' ''VirtualMachineId'' pathParams]"

definition request_VirtualMachineService_RestartVirtualMachine_0 :: "'b gwlib \<Rightarrow> 'b GwRequest \<Rightarrow> params \<Rightarrow> 'b gwcall res" where
  "request_VirtualMachineService_RestartVirtualMachine_0 L req pathParams =
     build ''RestartVirtualMachine'' [path_param L ''projectName'' ''ProjectName'' pathParams,
       path_param L ''app_id'' ''AppId'' pathParams,
       path_param L ''cluster_id'' ''ClusterId'' pathParams,
       path_param L ''virtual_machine_id'' ''VirtualMachineId'' pathParams]"

definition request_VirtualMachineService_RestartVirtualMachine_1 :: "'b gwlib \<Rightarrow> 'b GwRequest \<Rightarrow> params \<Rightarrow> 'b gwcall res" where
  "request_VirtualMachineService_RestartVirtualMachine_1 L req pathParams =
     build ''RestartVirtualMachine'' [path_param L ''app_id'' ''AppId'' pathParams,
       path_param L ''cluster_id'' ''ClusterId'' pathParams,
       path_param L ''virtual_machine_id'' ''VirtualMachineId'' pathParams,
       populate L filter_VirtualMachineService_RestartVirtualMachine_1 req]"

definition request_VirtualMachineService_RestartVirtualMachine_2 :: "'b gwlib \<Rightarrow> 'b GwRequest \<Rightarrow> params \<Rightarrow> 'b gwcall res" where
  "request_VirtualMachineService_RestartVirtualMachine_2 L req pathParams =
     build ''RestartVirtualMachine'' [path_param L ''projectName'' ''ProjectName'' pathParams,
       path_param L ''app_id'' ''AppId'' pathParams,
       path_param L ''cluster_id'' ''ClusterId'' pathParams,
       path_param L ''virtual_machine_id'' ''VirtualMachineId'' pathParams]"

definition request_VirtualMachineService_GetVNC_0 :: "'b gwlib \<Rightarrow> 'b GwRequest \<Rightarrow> params \<Rightarrow> 'b gwcall res" where
  "request_VirtualMachineService_GetVNC_0 L req pathParams =
     build ''GetVNC'' [path_param L ''projectName'' ''ProjectName'' pathParams,
       path_param L ''app_id'' ''AppId'' pathParams,
       path_param L ''cluster_id'' ''ClusterId'' pathParams,
       path_param L ''virtual_machine_id'' ''VirtualMachineId'' pathParams]"

definition request_VirtualMachineService_GetVNC_1 :: "'b gwlib \<Rightarrow> 'b GwRequest \<Rightarrow> params \<Rightarrow> 'b gwcall res" where
  "request_VirtualMachineService_GetVNC_1 L req pathParams =
     build ''GetVNC'' [path_param L ''app_id'' ''AppId'' pathParams,
       path_param L ''cluster_id'' ''ClusterId'' pathParams,
       path_param L ''virtual_machine_id'' ''VirtualMachineId'' pathParams,
       populate L filter_VirtualMachineService_GetVNC_1 req]"

definition request_VirtualMachineService_GetVNC_2 :: "'b gwlib \<Rightarrow> 'b GwRequest \<Rightarrow> params \<Rightarrow> 'b gwcall res" where
  "request_VirtualMachineService_GetVNC_2 L req pathParams =
     build ''GetVNC'' [path_param L ''projectName'' ''ProjectName'' pathParams,
       path_param L ''app_id'' ''AppId'' pathParams,
       path_param L ''cluster_id'' ''ClusterId'' pathParams,
       path_param L ''virtual_machine_id'' ''VirtualMachineId'' pathParams]"

definition RegisterVirtualMachineServiceHandlerClient :: "'b route list" where
  "RegisterVirtualMachineServiceHandlerClient =
    [Route ''PUT'' pattern_VirtualMachineService_StartVirtualMachine_0 ''/resource.v2.VirtualMachineService/StartVirtualMachine''
       ''/v1/projects/{projectName}/resource/workloads/virtual-machines/{app_id}/{cluster_id}/{virtual_machine_id}/start'' request_VirtualMachineService_StartVirtualMachine_0,
     Route ''PUT'' pattern_VirtualMachineService_StartVirtualMachine_1 ''/resource.v2.VirtualMachineService/StartVirtualMachine''
       ''/resource.orchestrator.apis/v2/workloads/virtual-machines/{app_id}/{cluster_id}/{virtual_machine_id}/start'' request_VirtualMachineService_StartVirtualMachine_1,
     Route ''PUT'' pattern_VirtualMachineService_StartVirtualMachine_2 ''/resource.v2.VirtualMachineService/StartVirtualMachine''
       ''/v1/projects/{projectName}/resource/workloads/applications/{app_id}/clusters/{cluster_id}/virtual-machines/{virtual_machine_id}/start'' request_VirtualMachineService_StartVirtualMachine_2,
     Route ''PUT'' pattern_VirtualMachineService_StopVirtualMachine_0 ''/resource.v2.VirtualMachineService/StopVirtualMachine''
       ''/v1/projects/{projectName}/resource/workloads/virtual-machines/{app_id}/{cluster_id}/{virtual_machine_id}/stop'' request_VirtualMachineService_StopVirtualMachine_0,
     Route ''PUT'' pattern_VirtualMachineService_StopVirtualMachine_1 ''/resource.v2.VirtualMachineService/StopVirtualMachine''
       ''/resource.orchestrator.apis/v2/workloads/virtual-machines/{app_id}/{cluster_id}/{virtual_machine_id}/stop'' request_VirtualMachineService_StopVirtualMachine_1,
     Route ''PUT'' pattern_VirtualMachineService_StopVirtualMachine_2 ''/resource.v2.VirtualMachineService/StopVirtualMachine''
       ''/v1/projects/{projectName}/resource/workloads/applications/{app_id}/clusters/{cluster_id}/virtual-machines/{virtual_machine_id}/stop'' request_VirtualMachineService_StopVirtualMachine_2,
     Route ''PUT'' pattern_VirtualMachineService_RestartVirtualMachine_0 ''/resource.v2.VirtualMachineService/RestartVirtualMachine''
       ''/v1/projects/{projectName}/resource/workloads/virtual-machines/{app_id}/{cluster_id}/{virtual_machine_id}/restart'' request_VirtualMachineService_RestartVirtualMachine_0,
     Route ''PUT'' pattern_VirtualMachineService_RestartVirtualMachine_1 ''/resource.v2.VirtualMachineService/RestartVirtualMachine''
       ''/resource.orchestrator.apis/v2/workloads/virtual-machines/{app_id}/{cluster_id}/{virtual_machine_id}/restart'' request_VirtualMachineService_RestartVirtualMachine_1,
     Route ''PUT'' pattern_VirtualMachineService_RestartVirtualMachine_2 ''/resource.v2.VirtualMachineService/RestartVirtualMachine''
       ''/v1/projects/{projectName}/resource/workloads/applications/{app_id}/clusters/{cluster_id}/virtual-machines/{virtual_machine_id}/restart'' request_VirtualMachineService_RestartVirtualMachine_2,
     Route ''GET'' pattern_VirtualMachineService_GetVNC_0 ''/resource.v2.VirtualMachineService/GetVNC''
       ''/v1/projects/{projectName}/resource/workloads/virtual-machines/{app_id}/{cluster_id}/{virtual_machine_id}/vnc'' request_VirtualMachineService_GetVNC_0,
     Route ''GET'' pattern_VirtualMachineService_GetVNC_1 ''/resource.v2.VirtualMachineService/GetVNC''
       ''/resource.orchestrator.apis/v2/workloads/virtual-machines/{app_id}/{cluster_id}/{virtual_machine_id}/vnc'' request_VirtualMachineService_GetVNC_1,
     Route ''GET'' pattern_VirtualMachineService_GetVNC_2 ''/resource.v2.VirtualMachineService/GetVNC''
       ''/v1/projects/{projectName}/resource/workloads/applications/{app_id}/clusters/{cluster_id}/virtual-machines/{virtual_machine_id}/vnc'' request_VirtualMachineService_GetVNC_2]"

lemma template_VirtualMachineService_StartVirtualMachine_0 [templates]:
  "template_of (fst pattern_VirtualMachineService_StartVirtualMachine_0) (snd pattern_VirtualMachineService_StartVirtualMachine_0) = Some
     [TLit ''v1'', TLit ''projects'', TVar ''projectName'', TLit ''resource'', TLit ''workloads'', TLit ''virtual-machines'', TVar ''app_id'', TVar ''cluster_id'', TVar ''virtual_machine_id'', TLit ''start'']"
  by (simp add: pattern_VirtualMachineService_StartVirtualMachine_0_def)

lemma template_VirtualMachineService_StartVirtualMachine_1 [templates]:
  "template_of (fst pattern_VirtualMachineService_StartVirtualMachine_1) (snd pattern_VirtualMachineService_StartVirtualMachine_1) = Some
     [TLit ''resource.orchestrator.apis'', TLit ''v2'', TLit ''workloads'', TLit ''virtual-machines'', TVar ''app_id'', TVar ''cluster_id'', TVar ''virtual_machine_id'', TLit ''start'']"
  by (simp add: pattern_VirtualMachineService_StartVirtualMachine_1_def)

lemma template_VirtualMachineService_StartVirtualMachine_2 [templates]:
  "template_of (fst pattern_VirtualMachineService_StartVirtualMachine_2) (snd pattern_VirtualMachineService_StartVirtualMachine_2) = Some
     [TLit ''v1'', TLit ''projects'', TVar ''projectName'', TLit ''resource'', TLit ''workloads'', TLit ''applications'', TVar ''app_id'', TLit ''clusters'', TVar ''cluster_id'', TLit ''virtual-machines'', TVar ''virtual_machine_id'', TLit ''start'']"
  by (simp add: pattern_VirtualMachineService_StartVirtualMachine_2_def)

lemma template_VirtualMachineService_StopVirtualMachine_0 [templates]:
  "template_of (fst pattern_VirtualMachineService_StopVirtualMachine_0) (snd pattern_VirtualMachineService_StopVirtualMachine_0) = Some
     [TLit ''v1'', TLit ''projects'', TVar ''projectName'', TLit ''resource'', TLit ''workloads'', TLit ''virtual-machines'', TVar ''app_id'', TVar ''cluster_id'', TVar ''virtual_machine_id'', TLit ''stop'']"
  by (simp add: pattern_VirtualMachineService_StopVirtualMachine_0_def)

lemma template_VirtualMachineService_StopVirtualMachine_1 [templates]:
  "template_of (fst pattern_VirtualMachineService_StopVirtualMachine_1) (snd pattern_VirtualMachineService_StopVirtualMachine_1) = Some
     [TLit ''resource.orchestrator.apis'', TLit ''v2'', TLit ''workloads'', TLit ''virtual-machines'', TVar ''app_id'', TVar ''cluster_id'', TVar ''virtual_machine_id'', TLit ''stop'']"
  by (simp add: pattern_VirtualMachineService_StopVirtualMachine_1_def)

lemma template_VirtualMachineService_StopVirtualMachine_2 [templates]:
  "template_of (fst pattern_VirtualMachineService_StopVirtualMachine_2) (snd pattern_VirtualMachineService_StopVirtualMachine_2) = Some
     [TLit ''v1'', TLit ''projects'', TVar ''projectName'', TLit ''resource'', TLit ''workloads'', TLit ''applications'', TVar ''app_id'', TLit ''clusters'', TVar ''cluster_id'', TLit ''virtual-machines'', TVar ''virtual_machine_id'', TLit ''stop'']"
  by (simp add: pattern_VirtualMachineService_StopVirtualMachine_2_def)

lemma template_VirtualMachineService_RestartVirtualMachine_0 [templates]:
  "template_of (fst pattern_VirtualMachineService_RestartVirtualMachine_0) (snd pattern_VirtualMachineService_RestartVirtualMachine_0) = Some
     [TLit ''v1'', TLit ''projects'', TVar ''projectName'', TLit ''resource'', TLit ''workloads'', TLit ''virtual-machines'', TVar ''app_id'', TVar ''cluster_id'', TVar ''virtual_machine_id'', TLit ''restart'']"
  by (simp add: pattern_VirtualMachineService_RestartVirtualMachine_0_def)

lemma template_VirtualMachineService_RestartVirtualMachine_1 [templates]:
  "template_of (fst pattern_VirtualMachineService_RestartVirtualMachine_1) (snd pattern_VirtualMachineService_RestartVirtualMachine_1) = Some
     [TLit ''resource.orchestrator.apis'', TLit ''v2'', TLit ''workloads'', TLit ''virtual-machines'', TVar ''app_id'', TVar ''cluster_id'', TVar ''virtual_machine_id'', TLit ''restart'']"
  by (simp add: pattern_VirtualMachineService_RestartVirtualMachine_1_def)

lemma template_VirtualMachineService_RestartVirtualMachine_2 [templates]:
  "template_of (fst pattern_VirtualMachineService_RestartVirtualMachine_2) (snd pattern_VirtualMachineService_RestartVirtualMachine_2) = Some
     [TLit ''v1'', TLit ''projects'', TVar ''projectName'', TLit ''resource'', TLit ''workloads'', TLit ''applications'', TVar ''app_id'', TLit ''clusters'', TVar ''cluster_id'', TLit ''virtual-machines'', TVar ''virtual_machine_id'', TLit ''restart'']"
  by (simp add: pattern_VirtualMachineService_RestartVirtualMachine_2_def)

lemma template_VirtualMachineService_GetVNC_0 [templates]:
  "template_of (fst pattern_VirtualMachineService_GetVNC_0) (snd pattern_VirtualMachineService_GetVNC_0) = Some
     [TLit ''v1'', TLit ''projects'', TVar ''projectName'', TLit ''resource'', TLit ''workloads'', TLit ''virtual-machines'', TVar ''app_id'', TVar ''cluster_id'', TVar ''virtual_machine_id'', TLit ''vnc'']"
  by (simp add: pattern_VirtualMachineService_GetVNC_0_def)

lemma template_VirtualMachineService_GetVNC_1 [templates]:
  "template_of (fst pattern_VirtualMachineService_GetVNC_1) (snd pattern_VirtualMachineService_GetVNC_1) = Some
     [TLit ''resource.orchestrator.apis'', TLit ''v2'', TLit ''workloads'', TLit ''virtual-machines'', TVar ''app_id'', TVar ''cluster_id'', TVar ''virtual_machine_id'', TLit ''vnc'']"
  by (simp add: pattern_VirtualMachineService_GetVNC_1_def)

lemma template_VirtualMachineService_GetVNC_2 [templates]:
  "template_of (fst pattern_VirtualMachineService_GetVNC_2) (snd pattern_VirtualMachineService_GetVNC_2) = Some
     [TLit ''v1'', TLit ''projects'', TVar ''projectName'', TLit ''resource'', TLit ''workloads'', TLit ''applications'', TVar ''app_id'', TLit ''clusters'', TVar ''cluster_id'', TLit ''virtual-machines'', TVar ''virtual_machine_id'', TLit ''vnc'']"
  by (simp add: pattern_VirtualMachineService_GetVNC_2_def)

definition arm_routes :: "'b route list" where
  "arm_routes = RegisterEndpointsServiceHandlerClient @ RegisterAppWorkloadServiceHandlerClient @
     RegisterPodServiceHandlerClient @ RegisterVirtualMachineServiceHandlerClient"

end
