(* ===== verification/AdmRoutes.thy ===== *)
theory AdmRoutes
  imports RestBase
begin

text \<open>
  The routes of the App Deployment Manager (api/nbi/v2/deployment/v1, pb.gw.go): for each of its operations the path with
  a project, and the path of older clients without one.
\<close>

section \<open>DeploymentService\<close>

text \<open>The routes of DeploymentService (service.pb.gw.go).\<close>

definition pattern_DeploymentService_ListDeployments_0 :: pattern where
  "pattern_DeploymentService_ListDeployments_0 = ([2, 0, 2, 1, 1, 0, 4, 1, 5, 2, 2, 3, 2, 4],
     [''v1'', ''projects'', ''projectName'', ''appdeployment'', ''deployments''])"

definition pattern_DeploymentService_ListDeployments_1 :: pattern where
  "pattern_DeploymentService_ListDeployments_1 = ([2, 0, 2, 1, 2, 2],
     [''deployment.orchestrator.apis'', ''v1'', ''deployments''])"

definition pattern_DeploymentService_ListDeploymentsPerCluster_0 :: pattern where
  "pattern_DeploymentService_ListDeploymentsPerCluster_0 = ([2, 0, 2, 1, 1, 0, 4, 1, 5, 2, 2, 3, 2, 4, 2, 5, 1, 0, 4, 1, 5, 6],
     [''v1'', ''projects'', ''projectName'', ''appdeployment'', ''deployments'', ''clusters'', ''cluster_id''])"

definition pattern_DeploymentService_ListDeploymentsPerCluster_1 :: pattern where
  "pattern_DeploymentService_ListDeploymentsPerCluster_1 = ([2, 0, 2, 1, 2, 2, 2, 3, 1, 0, 4, 1, 5, 4],
     [''deployment.orchestrator.apis'', ''v1'', ''deployments'', ''clusters'', ''cluster_id''])"

definition pattern_DeploymentService_CreateDeployment_0 :: pattern where
  "pattern_DeploymentService_CreateDeployment_0 = ([2, 0, 2, 1, 1, 0, 4, 1, 5, 2, 2, 3, 2, 4],
     [''v1'', ''projects'', ''projectName'', ''appdeployment'', ''deployments''])"

definition pattern_DeploymentService_CreateDeployment_1 :: pattern where
  "pattern_DeploymentService_CreateDeployment_1 = ([2, 0, 2, 1, 2, 2],
     [''deployment.orchestrator.apis'', ''v1'', ''deployments''])"

definition pattern_DeploymentService_GetDeployment_0 :: pattern where
  "pattern_DeploymentService_GetDeployment_0 = ([2, 0, 2, 1, 1, 0, 4, 1, 5, 2, 2, 3, 2, 4, 1, 0, 4, 1, 5, 5],
     [''v1'', ''projects'', ''projectName'', ''appdeployment'', ''deployments'', ''depl_id''])"

definition pattern_DeploymentService_GetDeployment_1 :: pattern where
  "pattern_DeploymentService_GetDeployment_1 = ([2, 0, 2, 1, 2, 2, 1, 0, 4, 1, 5, 3],
     [''deployment.orchestrator.apis'', ''v1'', ''deployments'', ''depl_id''])"

definition pattern_DeploymentService_UpdateDeployment_0 :: pattern where
  "pattern_DeploymentService_UpdateDeployment_0 = ([2, 0, 2, 1, 1, 0, 4, 1, 5, 2, 2, 3, 2, 4, 1, 0, 4, 1, 5, 5],
     [''v1'', ''projects'', ''projectName'', ''appdeployment'', ''deployments'', ''depl_id''])"

definition pattern_DeploymentService_UpdateDeployment_1 :: pattern where
  "pattern_DeploymentService_UpdateDeployment_1 = ([2, 0, 2, 1, 2, 2, 1, 0, 4, 1, 5, 3],
     [''deployment.orchestrator.apis'', ''v1'', ''deployments'', ''depl_id''])"

definition pattern_DeploymentService_DeleteDeployment_0 :: pattern where
  "pattern_DeploymentService_DeleteDeployment_0 = ([2, 0, 2, 1, 1, 0, 4, 1, 5, 2, 2, 3, 2, 4, 1, 0, 4, 1, 5, 5],
     [''v1'', ''projects'', ''projectName'', ''appdeployment'', ''deployments'', ''depl_id''])"

definition pattern_DeploymentService_DeleteDeployment_1 :: pattern where
  "pattern_DeploymentService_DeleteDeployment_1 = ([2, 0, 2, 1, 2, 2, 1, 0, 4, 1, 5, 3],
     [''deployment.orchestrator.apis'', ''v1'', ''deployments'', ''depl_id''])"

definition pattern_DeploymentService_GetDeploymentsStatus_0 :: pattern where
  "pattern_DeploymentService_GetDeploymentsStatus_0 = ([2, 0, 2, 1, 1, 0, 4, 1, 5, 2, 2, 3, 2, 4, 2, 5],
     [''v1'', ''projects'', ''projectName'', ''appdeployment'', ''summary'', ''deployments_status''])"

definition pattern_DeploymentService_GetDeploymentsStatus_1 :: pattern where
  "pattern_DeploymentService_GetDeploymentsStatus_1 = ([2, 0, 2, 1, 2, 2, 2, 3],
     [''deployment.orchestrator.apis'', ''v1'', ''summary'', ''deployments_status''])"

definition pattern_DeploymentService_ListDeploymentClusters_0 :: pattern where
  "pattern_DeploymentService_ListDeploymentClusters_0 = ([2, 0, 2, 1, 1, 0, 4, 1, 5, 2, 2, 3, 2, 4, 1, 0, 4, 1, 5, 5, 2, 6],
     [''v1'', ''projects'', ''projectName'', ''appdeployment'', ''deployments'', ''depl_id'', ''clusters''])"

definition pattern_DeploymentService_ListDeploymentClusters_1 :: pattern where
  "pattern_DeploymentService_ListDeploymentClusters_1 = ([2, 0, 2, 1, 2, 2, 1, 0, 4, 1, 5, 3, 2, 4],
     [''deployment.orchestrator.apis'', ''v1'', ''deployments'', ''depl_id'', ''clusters''])"

definition filter_DeploymentService_ListDeployments_0 :: "string list" where
  "filter_DeploymentService_ListDeployments_0 = [''projectName'']"

definition filter_DeploymentService_ListDeployments_1 :: "string list" where
  "filter_DeploymentService_ListDeployments_1 = []"

definition filter_DeploymentService_ListDeploymentsPerCluster_0 :: "string list" where
  "filter_DeploymentService_ListDeploymentsPerCluster_0 = [''projectName'', ''cluster_id'', ''clusterId'']"

definition filter_DeploymentService_ListDeploymentsPerCluster_1 :: "string list" where
  "filter_DeploymentService_ListDeploymentsPerCluster_1 = [''cluster_id'', ''clusterId'']"

definition filter_DeploymentService_CreateDeployment_1 :: "string list" where
  "filter_DeploymentService_CreateDeployment_1 = [''deployment'']"

definition filter_DeploymentService_GetDeployment_1 :: "string list" where
  "filter_DeploymentService_GetDeployment_1 = [''depl_id'', ''deplId'']"

definition filter_DeploymentService_UpdateDeployment_1 :: "string list" where
  "filter_DeploymentService_UpdateDeployment_1 = [''deployment'', ''depl_id'', ''deplId'']"

definition filter_DeploymentService_DeleteDeployment_0 :: "string list" where
  "filter_DeploymentService_DeleteDeployment_0 = [''projectName'', ''depl_id'', ''deplId'']"

definition filter_DeploymentService_DeleteDeployment_1 :: "string list" where
  "filter_DeploymentService_DeleteDeployment_1 = [''depl_id'', ''deplId'']"

definition filter_DeploymentService_GetDeploymentsStatus_0 :: "string list" where
  "filter_DeploymentService_GetDeploymentsStatus_0 = [''projectName'']"

definition filter_DeploymentService_GetDeploymentsStatus_1 :: "string list" where
  "filter_DeploymentService_GetDeploymentsStatus_1 = []"

definition filter_DeploymentService_ListDeploymentClusters_0 :: "string list" where
  "filter_DeploymentService_ListDeploymentClusters_0 = [''projectName'', ''depl_id'', ''deplId'']"

definition filter_DeploymentService_ListDeploymentClusters_1 :: "string list" where
  "filter_DeploymentService_ListDeploymentClusters_1 = [''depl_id'', ''deplId'']"

definition request_DeploymentService_ListDeployments_0 :: "'b gwlib \<Rightarrow> 'b GwRequest \<Rightarrow> params \<Rightarrow> 'b gwcall res" where
  "request_DeploymentService_ListDeployments_0 L req pathParams =
     build ''ListDeployments'' [path_param L ''projectName'' ''ProjectName'' pathParams,
       populate L filter_DeploymentService_ListDeployments_0 req]"

definition request_DeploymentService_ListDeployments_1 :: "'b gwlib \<Rightarrow> 'b GwRequest \<Rightarrow> params \<Rightarrow> 'b gwcall res" where
  "request_DeploymentService_ListDeployments_1 L req pathParams =
     build ''ListDeployments'' [populate L filter_DeploymentService_ListDeployments_1 req]"

definition request_DeploymentService_ListDeploymentsPerCluster_0 :: "'b gwlib \<Rightarrow> 'b GwRequest \<Rightarrow> params \<Rightarrow> 'b gwcall res" where
  "request_DeploymentService_ListDeploymentsPerCluster_0 L req pathParams =
     build ''ListDeploymentsPerCluster'' [path_param L ''projectName'' ''ProjectName'' pathParams,
       path_param L ''cluster_id'' ''ClusterId'' pathParams,
       populate L filter_DeploymentService_ListDeploymentsPerCluster_0 req]"

definition request_DeploymentService_ListDeploymentsPerCluster_1 :: "'b gwlib \<Rightarrow> 'b GwRequest \<Rightarrow> params \<Rightarrow> 'b gwcall res" where
  "request_DeploymentService_ListDeploymentsPerCluster_1 L req pathParams =
     build ''ListDeploymentsPerCluster'' [path_param L ''cluster_id'' ''ClusterId'' pathParams,
       populate L filter_DeploymentService_ListDeploymentsPerCluster_1 req]"

definition request_DeploymentService_CreateDeployment_0 :: "'b gwlib \<Rightarrow> 'b GwRequest \<Rightarrow> params \<Rightarrow> 'b gwcall res" where
  "request_DeploymentService_CreateDeployment_0 L req pathParams =
     build ''CreateDeployment'' [decode_body L req,
       path_param L ''projectName'' ''ProjectName'' pathParams]"

definition request_DeploymentService_CreateDeployment_1 :: "'b gwlib \<Rightarrow> 'b GwRequest \<Rightarrow> params \<Rightarrow> 'b gwcall res" where
  "request_DeploymentService_CreateDeployment_1 L req pathParams =
     build ''CreateDeployment'' [decode_body L req,
       populate L filter_DeploymentService_CreateDeployment_1 req]"

definition request_DeploymentService_GetDeployment_0 :: "'b gwlib \<Rightarrow> 'b GwRequest \<Rightarrow> params \<Rightarrow> 'b gwcall res" where
  "request_DeploymentService_GetDeployment_0 L req pathParams =
     build ''GetDeployment'' [path_param L ''projectName'' ''ProjectName'' pathParams,
       path_param L ''depl_id'' ''DeplId'' pathParams]"

definition request_DeploymentService_GetDeployment_1 :: "'b gwlib \<Rightarrow> 'b GwRequest \<Rightarrow> params \<Rightarrow> 'b gwcall res" where
  "request_DeploymentService_GetDeployment_1 L req pathParams =
     build ''GetDeployment'' [path_param L ''depl_id'' ''DeplId'' pathParams,
       populate L filter_DeploymentService_GetDeployment_1 req]"

definition request_DeploymentService_UpdateDeployment_0 :: "'b gwlib \<Rightarrow> 'b GwRequest \<Rightarrow> params \<Rightarrow> 'b gwcall res" where
  "request_DeploymentService_UpdateDeployment_0 L req pathParams =
     build ''UpdateDeployment'' [decode_body L req,
       path_param L ''projectName'' ''ProjectName'' pathParams,
       path_param L ''depl_id'' ''DeplId'' pathParams]"

definition request_DeploymentService_UpdateDeployment_1 :: "'b gwlib \<Rightarrow> 'b GwRequest \<Rightarrow> params \<Rightarrow> 'b gwcall res" where
  "request_DeploymentService_UpdateDeployment_1 L req pathParams =
     build ''UpdateDeployment'' [decode_body L req,
       path_param L ''depl_id'' ''DeplId'' pathParams,
       populate L filter_DeploymentService_UpdateDeployment_1 req]"

definition request_DeploymentService_DeleteDeployment_0 :: "'b gwlib \<Rightarrow> 'b GwRequest \<Rightarrow> params \<Rightarrow> 'b gwcall res" where
  "request_DeploymentService_DeleteDeployment_0 L req pathParams =
     build ''DeleteDeployment'' [path_param L ''projectName'' ''ProjectName'' pathParams,
       path_param L ''depl_id'' ''DeplId'' pathParams,
       populate L filter_DeploymentService_DeleteDeployment_0 req]"

definition request_DeploymentService_DeleteDeployment_1 :: "'b gwlib \<Rightarrow> 'b GwRequest \<Rightarrow> params \<Rightarrow> 'b gwcall res" where
  "request_DeploymentService_DeleteDeployment_1 L req pathParams =
     build ''DeleteDeployment'' [path_param L ''depl_id'' ''DeplId'' pathParams,
       populate L filter_DeploymentService_DeleteDeployment_1 req]"

definition request_DeploymentService_GetDeploymentsStatus_0 :: "'b gwlib \<Rightarrow> 'b GwRequest \<Rightarrow> params \<Rightarrow> 'b gwcall res" where
  "request_DeploymentService_GetDeploymentsStatus_0 L req pathParams =
     build ''GetDeploymentsStatus'' [path_param L ''projectName'' ''ProjectName'' pathParams,
       populate L filter_DeploymentService_GetDeploymentsStatus_0 req]"

definition request_DeploymentService_GetDeploymentsStatus_1 :: "'b gwlib \<Rightarrow> 'b GwRequest \<Rightarrow> params \<Rightarrow> 'b gwcall res" where
  "request_DeploymentService_GetDeploymentsStatus_1 L req pathParams =
     build ''GetDeploymentsStatus'' [populate L filter_DeploymentService_GetDeploymentsStatus_1 req]"

definition request_DeploymentService_ListDeploymentClusters_0 :: "'b gwlib \<Rightarrow> 'b GwRequest \<Rightarrow> params \<Rightarrow> 'b gwcall res" where
  "request_DeploymentService_ListDeploymentClusters_0 L req pathParams =
     build ''ListDeploymentClusters'' [path_param L ''projectName'' ''ProjectName'' pathParams,
       path_param L ''depl_id'' ''DeplId'' pathParams,
       populate L filter_DeploymentService_ListDeploymentClusters_0 req]"

definition request_DeploymentService_ListDeploymentClusters_1 :: "'b gwlib \<Rightarrow> 'b GwRequest \<Rightarrow> params \<Rightarrow> 'b gwcall res" where
  "request_DeploymentService_ListDeploymentClusters_1 L req pathParams =
     build ''ListDeploymentClusters'' [path_param L ''depl_id'' ''DeplId'' pathParams,
       populate L filter_DeploymentService_ListDeploymentClusters_1 req]"

definition RegisterDeploymentServiceHandlerClient :: "'b route list" where
  "RegisterDeploymentServiceHandlerClient =
    [Route ''GET'' pattern_DeploymentService_ListDeployments_0 ''/deployment.v1.DeploymentService/ListDeployments''
       ''/v1/projects/{projectName}/appdeployment/deployments'' request_DeploymentService_ListDeployments_0,
     Route ''GET'' pattern_DeploymentService_ListDeployments_1 ''/deployment.v1.DeploymentService/ListDeployments''
       ''/deployment.orchestrator.apis/v1/deployments'' request_DeploymentService_ListDeployments_1,
     Route ''GET'' pattern_DeploymentService_ListDeploymentsPerCluster_0 ''/deployment.v1.DeploymentService/ListDeploymentsPerCluster''
       ''/v1/projects/{projectName}/appdeployment/deployments/clusters/{cluster_id}'' request_DeploymentService_ListDeploymentsPerCluster_0,
     Route ''GET'' pattern_DeploymentService_ListDeploymentsPerCluster_1 ''/deployment.v1.DeploymentService/ListDeploymentsPerCluster''
       ''/deployment.orchestrator.apis/v1/deployments/clusters/{cluster_id}'' request_DeploymentService_ListDeploymentsPerCluster_1,
     Route ''POST'' pattern_DeploymentService_CreateDeployment_0 ''/deployment.v1.DeploymentService/CreateDeployment''
       ''/v1/projects/{projectName}/appdeployment/deployments'' request_DeploymentService_CreateDeployment_0,
     Route ''POST'' pattern_DeploymentService_CreateDeployment_1 ''/deployment.v1.DeploymentService/CreateDeployment''
       ''/deployment.orchestrator.apis/v1/deployments'' request_DeploymentService_CreateDeployment_1,
     Route ''GET'' pattern_DeploymentService_GetDeployment_0 ''/deployment.v1.DeploymentService/GetDeployment''
       ''/v1/projects/{projectName}/appdeployment/deployments/{depl_id}'' request_DeploymentService_GetDeployment_0,
     Route ''GET'' pattern_DeploymentService_GetDeployment_1 ''/deployment.v1.DeploymentService/GetDeployment''
       ''/deployment.orchestrator.apis/v1/deployments/{depl_id}'' request_DeploymentService_GetDeployment_1,
     Route ''PUT'' pattern_DeploymentService_UpdateDeployment_0 ''/deployment.v1.DeploymentService/UpdateDeployment''
       ''/v1/projects/{projectName}/appdeployment/deployments/{depl_id}'' request_DeploymentService_UpdateDeployment_0,
     Route ''PUT'' pattern_DeploymentService_UpdateDeployment_1 ''/deployment.v1.DeploymentService/UpdateDeployment''
       ''/deployment.orchestrator.apis/v1/deployments/{depl_id}'' request_DeploymentService_UpdateDeployment_1,
     Route ''DELETE'' pattern_DeploymentService_DeleteDeployment_0 ''/deployment.v1.DeploymentService/DeleteDeployment''
       ''/v1/projects/{projectName}/appdeployment/deployments/{depl_id}'' request_DeploymentService_DeleteDeployment_0,
     Route ''DELETE'' pattern_DeploymentService_DeleteDeployment_1 ''/deployment.v1.DeploymentService/DeleteDeployment''
       ''/deployment.orchestrator.apis/v1/deployments/{depl_id}'' request_DeploymentService_DeleteDeployment_1,
     Route ''GET'' pattern_DeploymentService_GetDeploymentsStatus_0 ''/deployment.v1.DeploymentService/GetDeploymentsStatus''
       ''/v1/projects/{projectName}/appdeployment/summary/deployments_status'' request_DeploymentService_GetDeploymentsStatus_0,
     Route ''GET'' pattern_DeploymentService_GetDeploymentsStatus_1 ''/deployment.v1.DeploymentService/GetDeploymentsStatus''
       ''/deployment.orchestrator.apis/v1/summary/deployments_status'' request_DeploymentService_GetDeploymentsStatus_1,
     Route ''GET'' pattern_DeploymentService_ListDeploymentClusters_0 ''/deployment.v1.DeploymentService/ListDeploymentClusters''
       ''/v1/projects/{projectName}/appdeployment/deployments/{depl_id}/clusters'' request_DeploymentService_ListDeploymentClusters_0,
     Route ''GET'' pattern_DeploymentService_ListDeploymentClusters_1 ''/deployment.v1.DeploymentService/ListDeploymentClusters''
       ''/deployment.orchestrator.apis/v1/deployments/{depl_id}/clusters'' request_DeploymentService_ListDeploymentClusters_1]"

lemma template_DeploymentService_ListDeployments_0 [templates]:
  "template_of (fst pattern_DeploymentService_ListDeployments_0) (snd pattern_DeploymentService_ListDeployments_0) = Some
     [TLit ''v1'', TLit ''projects'', TVar ''projectName'', TLit ''appdeployment'', TLit ''deployments'']"
  by (simp add: pattern_DeploymentService_ListDeployments_0_def)

lemma template_DeploymentService_ListDeployments_1 [templates]:
  "template_of (fst pattern_DeploymentService_ListDeployments_1) (snd pattern_DeploymentService_ListDeployments_1) = Some
     [TLit ''deployment.orchestrator.apis'', TLit ''v1'', TLit ''deployments'']"
  by (simp add: pattern_DeploymentService_ListDeployments_1_def)

lemma template_DeploymentService_ListDeploymentsPerCluster_0 [templates]:
  "template_of (fst pattern_DeploymentService_ListDeploymentsPerCluster_0) (snd pattern_DeploymentService_ListDeploymentsPerCluster_0) = Some
     [TLit ''v1'', TLit ''projects'', TVar ''projectName'', TLit ''appdeployment'', TLit ''deployments'', TLit ''clusters'', TVar ''cluster_id'']"
  by (simp add: pattern_DeploymentService_ListDeploymentsPerCluster_0_def)

lemma template_DeploymentService_ListDeploymentsPerCluster_1 [templates]:
  "template_of (fst pattern_DeploymentService_ListDeploymentsPerCluster_1) (snd pattern_DeploymentService_ListDeploymentsPerCluster_1) = Some
     [TLit ''deployment.orchestrator.apis'', TLit ''v1'', TLit ''deployments'', TLit ''clusters'', TVar ''cluster_id'']"
  by (simp add: pattern_DeploymentService_ListDeploymentsPerCluster_1_def)

lemma template_DeploymentService_CreateDeployment_0 [templates]:
  "template_of (fst pattern_DeploymentService_CreateDeployment_0) (snd pattern_DeploymentService_CreateDeployment_0) = Some
     [TLit ''v1'', TLit ''projects'', TVar ''projectName'', TLit ''appdeployment'', TLit ''deployments'']"
  by (simp add: pattern_DeploymentService_CreateDeployment_0_def)

lemma template_DeploymentService_CreateDeployment_1 [templates]:
  "template_of (fst pattern_DeploymentService_CreateDeployment_1) (snd pattern_DeploymentService_CreateDeployment_1) = Some
     [TLit ''deployment.orchestrator.apis'', TLit ''v1'', TLit ''deployments'']"
  by (simp add: pattern_DeploymentService_CreateDeployment_1_def)

lemma template_DeploymentService_GetDeployment_0 [templates]:
  "template_of (fst pattern_DeploymentService_GetDeployment_0) (snd pattern_DeploymentService_GetDeployment_0) = Some
     [TLit ''v1'', TLit ''projects'', TVar ''projectName'', TLit ''appdeployment'', TLit ''deployments'', TVar ''depl_id'']"
  by (simp add: pattern_DeploymentService_GetDeployment_0_def)

lemma template_DeploymentService_GetDeployment_1 [templates]:
  "template_of (fst pattern_DeploymentService_GetDeployment_1) (snd pattern_DeploymentService_GetDeployment_1) = Some
     [TLit ''deployment.orchestrator.apis'', TLit ''v1'', TLit ''deployments'', TVar ''depl_id'']"
  by (simp add: pattern_DeploymentService_GetDeployment_1_def)

lemma template_DeploymentService_UpdateDeployment_0 [templates]:
  "template_of (fst pattern_DeploymentService_UpdateDeployment_0) (snd pattern_DeploymentService_UpdateDeployment_0) = Some
     [TLit ''v1'', TLit ''projects'', TVar ''projectName'', TLit ''appdeployment'', TLit ''deployments'', TVar ''depl_id'']"
  by (simp add: pattern_DeploymentService_UpdateDeployment_0_def)

lemma template_DeploymentService_UpdateDeployment_1 [templates]:
  "template_of (fst pattern_DeploymentService_UpdateDeployment_1) (snd pattern_DeploymentService_UpdateDeployment_1) = Some
     [TLit ''deployment.orchestrator.apis'', TLit ''v1'', TLit ''deployments'', TVar ''depl_id'']"
  by (simp add: pattern_DeploymentService_UpdateDeployment_1_def)

lemma template_DeploymentService_DeleteDeployment_0 [templates]:
  "template_of (fst pattern_DeploymentService_DeleteDeployment_0) (snd pattern_DeploymentService_DeleteDeployment_0) = Some
     [TLit ''v1'', TLit ''projects'', TVar ''projectName'', TLit ''appdeployment'', TLit ''deployments'', TVar ''depl_id'']"
  by (simp add: pattern_DeploymentService_DeleteDeployment_0_def)

lemma template_DeploymentService_DeleteDeployment_1 [templates]:
  "template_of (fst pattern_DeploymentService_DeleteDeployment_1) (snd pattern_DeploymentService_DeleteDeployment_1) = Some
     [TLit ''deployment.orchestrator.apis'', TLit ''v1'', TLit ''deployments'', TVar ''depl_id'']"
  by (simp add: pattern_DeploymentService_DeleteDeployment_1_def)

lemma template_DeploymentService_GetDeploymentsStatus_0 [templates]:
  "template_of (fst pattern_DeploymentService_GetDeploymentsStatus_0) (snd pattern_DeploymentService_GetDeploymentsStatus_0) = Some
     [TLit ''v1'', TLit ''projects'', TVar ''projectName'', TLit ''appdeployment'', TLit ''summary'', TLit ''deployments_status'']"
  by (simp add: pattern_DeploymentService_GetDeploymentsStatus_0_def)

lemma template_DeploymentService_GetDeploymentsStatus_1 [templates]:
  "template_of (fst pattern_DeploymentService_GetDeploymentsStatus_1) (snd pattern_DeploymentService_GetDeploymentsStatus_1) = Some
     [TLit ''deployment.orchestrator.apis'', TLit ''v1'', TLit ''summary'', TLit ''deployments_status'']"
  by (simp add: pattern_DeploymentService_GetDeploymentsStatus_1_def)

lemma template_DeploymentService_ListDeploymentClusters_0 [templates]:
  "template_of (fst pattern_DeploymentService_ListDeploymentClusters_0) (snd pattern_DeploymentService_ListDeploymentClusters_0) = Some
     [TLit ''v1'', TLit ''projects'', TVar ''projectName'', TLit ''appdeployment'', TLit ''deployments'', TVar ''depl_id'', TLit ''clusters'']"
  by (simp add: pattern_DeploymentService_ListDeploymentClusters_0_def)

lemma template_DeploymentService_ListDeploymentClusters_1 [templates]:
  "template_of (fst pattern_DeploymentService_ListDeploymentClusters_1) (snd pattern_DeploymentService_ListDeploymentClusters_1) = Some
     [TLit ''deployment.orchestrator.apis'', TLit ''v1'', TLit ''deployments'', TVar ''depl_id'', TLit ''clusters'']"
  by (simp add: pattern_DeploymentService_ListDeploymentClusters_1_def)

section \<open>ClusterService\<close>

text \<open>The routes of ClusterService (cluster\_service.pb.gw.go).\<close>

definition pattern_ClusterService_ListClusters_0 :: pattern where
  "pattern_ClusterService_ListClusters_0 = ([2, 0, 2, 1, 1, 0, 4, 1, 5, 2, 2, 3, 2, 4],
     [''v1'', ''projects'', ''projectName'', ''appdeployment'', ''clusters''])"

definition pattern_ClusterService_ListClusters_1 :: pattern where
  "pattern_ClusterService_ListClusters_1 = ([2, 0, 2, 1, 2, 2],
     [''deployment.orchestrator.apis'', ''v1'', ''clusters''])"

definition pattern_ClusterService_GetCluster_0 :: pattern where
  "pattern_ClusterService_GetCluster_0 = ([2, 0, 2, 1, 1, 0, 4, 1, 5, 2, 2, 3, 2, 4, 1, 0, 4, 1, 5, 5],
     [''v1'', ''projects'', ''projectName'', ''appdeployment'', ''clusters'', ''cluster_id''])"

definition pattern_ClusterService_GetCluster_1 :: pattern where
  "pattern_ClusterService_GetCluster_1 = ([2, 0, 2, 1, 2, 2, 1, 0, 4, 1, 5, 3],
     [''deployment.orchestrator.apis'', ''v1'', ''clusters'', ''cluster_id''])"

definition filter_ClusterService_ListClusters_0 :: "string list" where
  "filter_ClusterService_ListClusters_0 = [''projectName'']"

definition filter_ClusterService_ListClusters_1 :: "string list" where
  "filter_ClusterService_ListClusters_1 = []"

definition filter_ClusterService_GetCluster_1 :: "string list" where
  "filter_ClusterService_GetCluster_1 = [''cluster_id'', ''clusterId'']"

definition request_ClusterService_ListClusters_0 :: "'b gwlib \<Rightarrow> 'b GwRequest \<Rightarrow> params \<Rightarrow> 'b gwcall res" where
  "request_ClusterService_ListClusters_0 L req pathParams =
     build ''ListClusters'' [path_param L ''projectName'' ''ProjectName'' pathParams,
       populate L filter_ClusterService_ListClusters_0 req]"

definition request_ClusterService_ListClusters_1 :: "'b gwlib \<Rightarrow> 'b GwRequest \<Rightarrow> params \<Rightarrow> 'b gwcall res" where
  "request_ClusterService_ListClusters_1 L req pathParams =
     build ''ListClusters'' [populate L filter_ClusterService_ListClusters_1 req]"

definition request_ClusterService_GetCluster_0 :: "'b gwlib \<Rightarrow> 'b GwRequest \<Rightarrow> params \<Rightarrow> 'b gwcall res" where
  "request_ClusterService_GetCluster_0 L req pathParams =
     build ''GetCluster'' [path_param L ''projectName'' ''ProjectName'' pathParams,
       path_param L ''cluster_id'' ''ClusterId'' pathParams]"

definition request_ClusterService_GetCluster_1 :: "'b gwlib \<Rightarrow> 'b GwRequest \<Rightarrow> params \<Rightarrow> 'b gwcall res" where
  "request_ClusterService_GetCluster_1 L req pathParams =
     build ''GetCluster'' [path_param L ''cluster_id'' ''ClusterId'' pathParams,
       populate L filter_ClusterService_GetCluster_1 req]"

definition RegisterClusterServiceHandlerClient :: "'b route list" where
  "RegisterClusterServiceHandlerClient =
    [Route ''GET'' pattern_ClusterService_ListClusters_0 ''/deployment.v1.ClusterService/ListClusters''
       ''/v1/projects/{projectName}/appdeployment/clusters'' request_ClusterService_ListClusters_0,
     Route ''GET'' pattern_ClusterService_ListClusters_1 ''/deployment.v1.ClusterService/ListClusters''
       ''/deployment.orchestrator.apis/v1/clusters'' request_ClusterService_ListClusters_1,
     Route ''GET'' pattern_ClusterService_GetCluster_0 ''/deployment.v1.ClusterService/GetCluster''
       ''/v1/projects/{projectName}/appdeployment/clusters/{cluster_id}'' request_ClusterService_GetCluster_0,
     Route ''GET'' pattern_ClusterService_GetCluster_1 ''/deployment.v1.ClusterService/GetCluster''
       ''/deployment.orchestrator.apis/v1/clusters/{cluster_id}'' request_ClusterService_GetCluster_1]"

lemma template_ClusterService_ListClusters_0 [templates]:
  "template_of (fst pattern_ClusterService_ListClusters_0) (snd pattern_ClusterService_ListClusters_0) = Some
     [TLit ''v1'', TLit ''projects'', TVar ''projectName'', TLit ''appdeployment'', TLit ''clusters'']"
  by (simp add: pattern_ClusterService_ListClusters_0_def)

lemma template_ClusterService_ListClusters_1 [templates]:
  "template_of (fst pattern_ClusterService_ListClusters_1) (snd pattern_ClusterService_ListClusters_1) = Some
     [TLit ''deployment.orchestrator.apis'', TLit ''v1'', TLit ''clusters'']"
  by (simp add: pattern_ClusterService_ListClusters_1_def)

lemma template_ClusterService_GetCluster_0 [templates]:
  "template_of (fst pattern_ClusterService_GetCluster_0) (snd pattern_ClusterService_GetCluster_0) = Some
     [TLit ''v1'', TLit ''projects'', TVar ''projectName'', TLit ''appdeployment'', TLit ''clusters'', TVar ''cluster_id'']"
  by (simp add: pattern_ClusterService_GetCluster_0_def)

lemma template_ClusterService_GetCluster_1 [templates]:
  "template_of (fst pattern_ClusterService_GetCluster_1) (snd pattern_ClusterService_GetCluster_1) = Some
     [TLit ''deployment.orchestrator.apis'', TLit ''v1'', TLit ''clusters'', TVar ''cluster_id'']"
  by (simp add: pattern_ClusterService_GetCluster_1_def)

definition adm_routes :: "'b route list" where
  "adm_routes = RegisterDeploymentServiceHandlerClient @ RegisterClusterServiceHandlerClient"

end
