(* ===== verification/Gateways.thy ===== *)
theory Gateways
  imports Tenant EnvVars
begin

text \<open>
  The REST gateways of both managers (internal/restproxy), with the paths that the resource manager rewrites,
  and the start of the servers (internal/manager of both).

  The gin engine, the gRPC gateway and the resolution of projects are parameters; a fatal log stops the
  process and is a panic here.
\<close>

section \<open>Headers\<close>

definition upper_char :: "char \<Rightarrow> char" where
  "upper_char c = (let n = (of_char c :: nat) in if 97 \<le> n \<and> n \<le> 122 then char_of (n - 32) else c)"

abbreviation allowedHeaders :: "string list" where "allowedHeaders \<equiv> [''x-request-id'']"

definition isHeaderAllowed :: "string \<Rightarrow> string \<times> bool" where
  "isHeaderAllowed s = (if s \<in> set allowedHeaders then (map upper_char s, True) else (s, False))"

text \<open>The metadata of a request: its credentials and the project, which is the one that the path or the token
  gives, and the one of the client's header where there is none.\<close>

definition gateway_metadata ::
  "(string \<Rightarrow> string \<Rightarrow> string \<Rightarrow> 'w \<Rightarrow> string res \<times> 'w) \<Rightarrow> string \<Rightarrow> string \<Rightarrow> string \<Rightarrow> 'w \<Rightarrow> (string \<times> string) list \<times> 'w" where
  "gateway_metadata ResolveAndValidateProjectID path authHeader projectIDHeader w =
     (case ResolveAndValidateProjectID path authHeader projectIDHeader w of (r, w') \<Rightarrow>
        ([(''auth'', authHeader),
          (''activeprojectid'', case r of Inl _ \<Rightarrow> projectIDHeader | Inr projectUUID \<Rightarrow>
             if projectUUID \<noteq> [] then projectUUID else projectIDHeader)], w'))"

text \<open>An error with a gRPC status is converted to a typed error and back before it is answered.\<close>

definition gateway_error :: "(goerror \<Rightarrow> 'st option) \<Rightarrow> ('st \<Rightarrow> goerror) \<Rightarrow> (goerror \<Rightarrow> goerror) \<Rightarrow> goerror \<Rightarrow> goerror" where
  "gateway_error FromError FromStatus Status err = (case FromError err of
     Some grpcStatus \<Rightarrow> Status (FromStatus grpcStatus) | None \<Rightarrow> err)"

text \<open>Origins are allowed if the setting names more than one.\<close>

definition cors_origins :: "string \<Rightarrow> string list option" where
  "cors_origins allowedCorsOrigins = (let corsOrigins = Split allowedCorsOrigins '','' in
     if length corsOrigins > 1 then Some corsOrigins else None)"

lemma single_origin_ignored: "CHR '','' \<notin> set o1 \<Longrightarrow> cors_origins o1 = None"
  using Split_Join_char [of "[o1]" "CHR '',''"] by (simp add: cors_origins_def)

section \<open>Paths of the user interface\<close>

text \<open>
  The expressions match whole paths, segment by segment: fixed segments, segments that are not empty, and one of
  several actions.  \<open>match_segs\<close> gives the segments that are not fixed.
\<close>

datatype seg = Lit string | Seg | OneOf "string list"

fun match_segs :: "seg list \<Rightarrow> string list \<Rightarrow> string list option" where
  "match_segs [] [] = Some []"
| "match_segs (Lit l # ps) (s # ss) = (if s = l then match_segs ps ss else None)"
| "match_segs (Seg # ps) (s # ss) = (if s \<noteq> [] then map_option ((#) s) (match_segs ps ss) else None)"
| "match_segs (OneOf ls # ps) (s # ss) = (if s \<in> set ls then map_option ((#) s) (match_segs ps ss) else None)"
| "match_segs _ _ = None"

definition reArmVMUI :: "seg list" where
  "reArmVMUI = [Lit [], Lit ''v1'', Lit ''projects'', Seg, Lit ''resource'', Lit ''workloads'', Lit ''applications'', Seg,
     Lit ''clusters'', Seg, Lit ''virtual-machines'', Seg, OneOf [''start'', ''stop'', ''restart'', ''vnc'']]"

definition reArmWorkloadEndpointUI :: "seg list" where
  "reArmWorkloadEndpointUI = [Lit [], Lit ''v1'', Lit ''projects'', Seg, Lit ''resource'', OneOf [''workloads'', ''endpoints''],
     Lit ''applications'', Seg, Lit ''clusters'', Seg]"

definition reArmPodUI :: "seg list" where
  "reArmPodUI = [Lit [], Lit ''v1'', Lit ''projects'', Seg, Lit ''resource'', Lit ''workloads'', Lit ''pods'',
     Lit ''clusters'', Seg, Lit ''namespaces'', Seg, Lit ''pods'', Seg, Lit ''delete'']"

definition armUIPathRewriter :: "string \<Rightarrow> string" where
  "armUIPathRewriter path = (let ss = Split path ''/'' in
     case match_segs reArmVMUI ss of
       Some [p, app, cluster, vm, action] \<Rightarrow> ''/v1/projects/'' @ p @ ''/resource/workloads'' @ ''/virtual-machines/'' @
         app @ ''/'' @ cluster @ ''/'' @ vm @ ''/'' @ action
     | _ \<Rightarrow> (case match_segs reArmWorkloadEndpointUI ss of
         Some [p, kind, app, cluster] \<Rightarrow> ''/v1/projects/'' @ p @ ''/resource/'' @ kind @ ''/'' @ app @ ''/'' @ cluster
       | _ \<Rightarrow> (case match_segs reArmPodUI ss of
           Some [p, cluster, ns, pod] \<Rightarrow> ''/v1/projects/'' @ p @ ''/resource/workloads/pods'' @ ''/'' @ cluster @ ''/'' @ ns @
             ''/'' @ pod @ ''/delete''
         | _ \<Rightarrow> path)))"

section \<open>Starting the servers\<close>

datatype boot_ev = Boot string | BootMigration migration_ev | BootTenant tenant_ev

type_synonym ('w, 'a) bootio = "((boot_ev, 'w) world, 'a) handler"

text \<open>What the servers are started with: one action per constructor, by name.\<close>

record 'w BootEnv =
  bt_environ :: environ
  bt_step :: "string \<Rightarrow> 'w \<Rightarrow> goerror option \<times> 'w"
  bt_dynamic :: "'w DynamicClient"
  bt_tenant :: "'w TenantApi"

definition within :: "('f \<Rightarrow> 'e) \<Rightarrow> (('f, 'w) world, 'a) state \<Rightarrow> (('e, 'w) world, 'a) state" where
  "within ev m = State (\<lambda>s. case run_state m \<lparr>env = env s, trace = []\<rparr> of
     (r, w) \<Rightarrow> (r, s\<lparr>env := env w, trace := trace s @ map ev (trace w)\<rparr>))"

definition fatal :: "('s, 'a) handler \<Rightarrow> ('s, 'a) handler" where
  "fatal m = gcatch m (\<lambda>r. case r of Inl _ \<Rightarrow> gpanic | Inr x \<Rightarrow> gret x)"

definition boot :: "'w BootEnv \<Rightarrow> string \<Rightarrow> ('w, unit) bootio" where
  "boot b what = gcheck (call (Boot what) (bt_step b what))"

definition opa_address :: "environ \<Rightarrow> string res" where
  "opa_address en = (case Atoi (Getenv en ''OPA_PORT'') of
     Inl err \<Rightarrow> Inl err | Inr opaPort \<Rightarrow> Inr (''http://localhost:'' @ int_str opaPort))"

text \<open>Without both settings the service has no client of the policy agent and authorises every request.\<close>

definition adm_opa :: "'w BootEnv \<Rightarrow> ('w, string option) bootio" where
  "adm_opa b = (if Getenv (bt_environ b) ''OIDC_SERVER_URL'' \<noteq> [] \<and> IsOPAEnabled (bt_environ b)
     then gtry (fatal (gpure (Ret (opa_address (bt_environ b))))) (\<lambda>serverAddr.
       gtry (fatal (boot b (''opa client '' @ serverAddr))) (\<lambda>_. gret (Some serverAddr)))
     else gret None)"

definition adm_migration :: "'w BootEnv \<Rightarrow> ('w, unit) bootio" where
  "adm_migration b = (let projectUUIDVal = Getenv (bt_environ b) ''MT_UPGRADE_PROJECT_ID'' in
     if projectUUIDVal = [] then gret ()
     else gtry (fatal (boot b ''rest config'')) (\<lambda>_. gtry (fatal (boot b ''dynamic client'')) (\<lambda>_.
       fatal (within BootMigration (migration_run (bt_dynamic b) projectUUIDVal)))))"

abbreviation adm_clients :: "string list" where
  "adm_clients \<equiv> [''deployment client'', ''bundle client'', ''kubernetes client'', ''catalog client'', ''validator'',
     ''vault auth client'', ''deployment service'']"

text \<open>The value of the function is the address of the policy agent that the service uses.  The server runs beside
  the subscription, and its error is what the function returns.\<close>

definition adm_Start :: "'w BootEnv \<Rightarrow> ('w, string option) bootio" where
  "adm_Start b = gtry (adm_opa b) (\<lambda>opaClient.
     gtry (adm_migration b) (\<lambda>_.
     gtry (geach (\<lambda>c. fatal (boot b c)) adm_clients) (\<lambda>_.
     gtry (fatal (gpure (Ret (GetMessageSizeLimit (bt_environ b))))) (\<lambda>_.
     gcatch (boot b ''serve'') (\<lambda>served.
     gtry (fatal (within BootTenant (Subscribe (bt_tenant b)))) (\<lambda>_.
     case served of Inl err \<Rightarrow> gfail err | Inr _ \<Rightarrow> gret opaClient))))))"

definition arm_Start :: "'w BootEnv \<Rightarrow> string option \<Rightarrow> ('w, string option) bootio" where
  "arm_Start b opaClient = gtry (boot b ''deployment manager client'') (\<lambda>_.
     let opa = (if Getenv (bt_environ b) ''OIDC_SERVER_URL'' \<noteq> [] then opaClient else None) in
     gtry (gpure (Ret (GetMessageSizeLimit (bt_environ b)))) (\<lambda>_.
     gtry (boot b ''serve'') (\<lambda>_. gret opa)))"

end
