(* ===== verification/RouteProps.thy ===== *)
theory RouteProps
  imports ArmRoutes AdmRoutes GatewayProps
begin

text \<open>
  Properties of the REST gateways: each path of the API, and of the user interface, reaches exactly one operation, with
  the names of the path in its message.
\<close>

section \<open>App Resource Manager\<close>

abbreviation path_of :: "string list \<Rightarrow> string" where
  "path_of segs \<equiv> Join ([] # segs) ''/''"

lemmas arm_route_defs = arm_routes_def RegisterEndpointsServiceHandlerClient_def RegisterAppWorkloadServiceHandlerClient_def
  RegisterPodServiceHandlerClient_def RegisterVirtualMachineServiceHandlerClient_def

text \<open>The calls of the routes whose template matches the segments of a path.\<close>

definition template_calls :: "'b gwlib \<Rightarrow> 'b route list \<Rightarrow> 'b GwRequest \<Rightarrow> string list \<Rightarrow> 'b gwcall res list" where
  "template_calls L routes req segs = concat (map (\<lambda>rt. if rt_Method rt \<noteq> rq_Method req then [] else
     (case template_of (fst (rt_pattern rt)) (snd (rt_pattern rt)) of None \<Rightarrow> []
      | Some t \<Rightarrow> (case match_template t segs of None \<Rightarrow> [] | Some ps \<Rightarrow> [rt_request rt L req ps]))) routes)"

lemma template_calls_simps [simp]:
  "template_calls L [] req segs = []"
  "template_calls L (rt # routes) req segs = (if rt_Method rt \<noteq> rq_Method req then [] else
     (case template_of (fst (rt_pattern rt)) (snd (rt_pattern rt)) of None \<Rightarrow> []
      | Some t \<Rightarrow> (case match_template t segs of None \<Rightarrow> [] | Some ps \<Rightarrow> [rt_request rt L req ps]))) @
     template_calls L routes req segs"
  "template_calls L (rs @ rs') req segs = template_calls L rs req segs @ template_calls L rs' req segs"
  by (simp_all add: template_calls_def)

lemma calls_of_templates:
  assumes "gateway_ok L" "list_all plain segs" "rq_Path req = path_of segs"
  shows "calls_of L routes req = template_calls L routes req segs"
proof (induction routes)
  case (Cons rt routes)
  have "gl_Match L (rt_pattern rt) (path_of segs) =
      (case template_of (fst (rt_pattern rt)) (snd (rt_pattern rt)) of None \<Rightarrow> None | Some t \<Rightarrow> match_template t segs)"
    using gateway_match [OF assms(1,2), of "fst (rt_pattern rt)" "snd (rt_pattern rt)"] by simp
  with Cons show ?case using assms(3) by (simp add: calls_of_def split: option.split)
qed (simp add: calls_of_def)

definition message :: "(string \<times> string) list \<Rightarrow> 'b proto" where
  "message fs = \<lparr>pr_Fields = fs, pr_Deployment = None\<rparr>"

definition vm_call :: "string \<Rightarrow> string \<times> string" where
  "vm_call action = (if action = ''start'' then (''PUT'', ''StartVirtualMachine'')
     else if action = ''stop'' then (''PUT'', ''StopVirtualMachine'')
     else if action = ''restart'' then (''PUT'', ''RestartVirtualMachine'') else (''GET'', ''GetVNC''))"

lemma api_vm_calls:
  assumes L: "gateway_ok L" and act: "action \<in> set [''start'', ''stop'', ''restart'', ''vnc'']" and m: "rq_Method req = fst (vm_call action)"
  shows "template_calls L arm_routes req (List.tl (api_vm p a c v action)) =
    [Inr (snd (vm_call action), message [(''ProjectName'', p), (''AppId'', a), (''ClusterId'', c), (''VirtualMachineId'', v)])]"
  using act m unfolding arm_route_defs vm_call_def
  by (auto simp: templates request_VirtualMachineService_StartVirtualMachine_0_def
      request_VirtualMachineService_StopVirtualMachine_0_def request_VirtualMachineService_RestartVirtualMachine_0_def
      request_VirtualMachineService_GetVNC_0_def build_def gateway_param [OF L] empty_proto_def message_def)

lemma api_list_calls:
  assumes L: "gateway_ok L" and m: "rq_Method req = ''GET''"
  shows "template_calls L arm_routes req (List.tl (api_list p ''workloads'' a c)) =
      [Inr (''ListAppWorkloads'', message [(''ProjectName'', p), (''AppId'', a), (''ClusterId'', c)])]"
    "template_calls L arm_routes req (List.tl (api_list p ''endpoints'' a c)) =
      [Inr (''ListAppEndpoints'', message [(''ProjectName'', p), (''AppId'', a), (''ClusterId'', c)])]"
  unfolding arm_route_defs
  by (simp_all add: m templates request_AppWorkloadService_ListAppWorkloads_0_def
      request_EndpointsService_ListAppEndpoints_0_def build_def gateway_param [OF L] empty_proto_def message_def)

lemma api_pod_calls:
  assumes L: "gateway_ok L" and m: "rq_Method req = ''PUT''"
  shows "template_calls L arm_routes req (List.tl (api_pod p c n q)) =
      [Inr (''DeletePod'', message [(''ProjectName'', p), (''ClusterId'', c), (''Namespace'', n), (''PodName'', q)])]"
  unfolding arm_route_defs
  by (simp add: m templates request_PodService_DeletePod_0_def build_def gateway_param [OF L] empty_proto_def message_def)

definition arm_calls :: "'b gwlib \<Rightarrow> 'b GwRequest \<Rightarrow> string \<Rightarrow> string \<Rightarrow> 'b gwcall res list" where
  "arm_calls L req m path = calls_of L arm_routes (req\<lparr>rq_Method := m, rq_Path := armUIPathRewriter path\<rparr>)"

lemma arm_calls_segs:
  assumes "gateway_ok L" "list_all plain segs" "armUIPathRewriter path = path_of segs"
  shows "arm_calls L req m path = template_calls L arm_routes (req\<lparr>rq_Method := m, rq_Path := path_of segs\<rparr>) segs"
  using calls_of_templates [OF assms(1,2)] assms(3) by (simp add: arm_calls_def)

text \<open>
  Claim C40.  Of the routes of the resource manager's gateway exactly one takes a path of the API or of the user interface for
  a virtual machine, for the workloads or the endpoints of an application, or for a pod: it is the one of the operation
  that the path names, and it calls this operation with the project and the names of the path.
\<close>
theorem arm_paths_served:
  assumes L: "gateway_ok L" and segs: "list_all plain [p, a, c, v]"
    and act: "action \<in> set [''start'', ''stop'', ''restart'', ''vnc'']"
  shows "(\<forall>path \<in> set [ui_vm p a c v action, api_vm p a c v action]. arm_calls L req (fst (vm_call action)) (Join path ''/'') =
      [Inr (snd (vm_call action), message [(''ProjectName'', p), (''AppId'', a), (''ClusterId'', c), (''VirtualMachineId'', v)])]) \<and>
    (\<forall>path \<in> set [ui_list p ''workloads'' a c, api_list p ''workloads'' a c]. arm_calls L req ''GET'' (Join path ''/'') =
      [Inr (''ListAppWorkloads'', message [(''ProjectName'', p), (''AppId'', a), (''ClusterId'', c)])]) \<and>
    (\<forall>path \<in> set [ui_list p ''endpoints'' a c, api_list p ''endpoints'' a c]. arm_calls L req ''GET'' (Join path ''/'') =
      [Inr (''ListAppEndpoints'', message [(''ProjectName'', p), (''AppId'', a), (''ClusterId'', c)])]) \<and>
    (\<forall>path \<in> set [ui_pod p c a v, api_pod p c a v]. arm_calls L req ''PUT'' (Join path ''/'') =
      [Inr (''DeletePod'', message [(''ProjectName'', p), (''ClusterId'', c), (''Namespace'', a), (''PodName'', v)])])"
proof -
  have ok: "list_all seg_ok [p, a, c, v]" using segs by (auto simp: plain_def seg_ok_def)
  have act': "CHR ''/'' \<notin> set action" using act by auto
  have vm: "list_all plain (List.tl (api_vm p a c v action))" using segs act by (auto simp: plain_def)
  have ls: "list_all plain (List.tl (api_list p k a c))" if "k \<in> set [''workloads'', ''endpoints'']" for k
    using segs that by (auto simp: plain_def)
  have pod: "list_all plain (List.tl (api_pod p c a v))" using segs by (auto simp: plain_def)
  note ui = ui_paths_canonical [OF ok act]
  note stay = canonical_paths_stay [OF ok act']
  have kinds: "''workloads'' \<in> set [''workloads'', ''endpoints'']" "''endpoints'' \<in> set [''workloads'', ''endpoints'']"
    "CHR ''/'' \<notin> set ''workloads''" "CHR ''/'' \<notin> set ''endpoints''" by simp_all
  have served: "arm_calls L req m (Join path ''/'') = r"
    if "list_all plain segs" "armUIPathRewriter (Join path ''/'') = Join ([] # segs) ''/''"
      "template_calls L arm_routes (req\<lparr>rq_Method := m, rq_Path := path_of segs\<rparr>) segs = [x]" "r = [x]" for m path segs r x
    using arm_calls_segs [OF L that(1,2)] that(3,4) by simp
  have vm: "arm_calls L req (fst (vm_call action)) (Join path ''/'') =
      [Inr (snd (vm_call action), message [(''ProjectName'', p), (''AppId'', a), (''ClusterId'', c), (''VirtualMachineId'', v)])]"
    if "path \<in> set [ui_vm p a c v action, api_vm p a c v action]" for path
    by (rule served [OF vm _ api_vm_calls [OF L act]])
      (use that ui [OF kinds(1)] stay(1) [OF kinds(3)] in \<open>auto simp del: Join.simps\<close>)
  have work: "arm_calls L req ''GET'' (Join path ''/'') =
      [Inr (''ListAppWorkloads'', message [(''ProjectName'', p), (''AppId'', a), (''ClusterId'', c)])]"
    if "path \<in> set [ui_list p ''workloads'' a c, api_list p ''workloads'' a c]" for path
    by (rule served [OF ls [OF kinds(1)] _ api_list_calls(1) [OF L]])
      (use that ui [OF kinds(1)] stay(2) [OF kinds(3)] in \<open>auto simp del: Join.simps\<close>)
  have es: "arm_calls L req ''GET'' (Join path ''/'') =
      [Inr (''ListAppEndpoints'', message [(''ProjectName'', p), (''AppId'', a), (''ClusterId'', c)])]"
    if "path \<in> set [ui_list p ''endpoints'' a c, api_list p ''endpoints'' a c]" for path
    by (rule served [OF ls [OF kinds(2)] _ api_list_calls(2) [OF L]])
      (use that ui [OF kinds(2)] stay(2) [OF kinds(4)] in \<open>auto simp del: Join.simps\<close>)
  have pod: "arm_calls L req ''PUT'' (Join path ''/'') =
      [Inr (''DeletePod'', message [(''ProjectName'', p), (''ClusterId'', c), (''Namespace'', a), (''PodName'', v)])]"
    if "path \<in> set [ui_pod p c a v, api_pod p c a v]" for path
    by (rule served [OF pod _ api_pod_calls [OF L]])
      (use that ui [OF kinds(1)] stay(3) [OF kinds(3)] in \<open>auto simp del: Join.simps\<close>)
  show ?thesis by (intro conjI ballI vm work es pod)
qed

definition any_request :: "unit GwRequest" where
  "any_request = \<lparr>rq_Method = ''GET'', rq_Path = [], rq_Body = [], rq_Query = []\<rparr>"

lemma arm_paths_served_witness:
  "arm_calls mem_gwlib any_request ''PUT'' ''/v1/projects/p/resource/workloads/applications/a/clusters/c/virtual-machines/v/stop'' =
     [Inr (''StopVirtualMachine'', message [(''ProjectName'', ''p''), (''AppId'', ''a''), (''ClusterId'', ''c''), (''VirtualMachineId'', ''v'')])]"
proof -
  have "list_all plain [''p'', ''a'', ''c'', ''v'']" by (simp add: plain_def)
  then have "arm_calls mem_gwlib any_request (fst (vm_call ''stop'')) (Join (ui_vm ''p'' ''a'' ''c'' ''v'' ''stop'') ''/'') =
      [Inr (snd (vm_call ''stop''), message [(''ProjectName'', ''p''), (''AppId'', ''a''), (''ClusterId'', ''c''), (''VirtualMachineId'', ''v'')])]"
    by (intro arm_paths_served [OF mem_gwlib_ok, THEN conjunct1, THEN bspec]) simp_all
  then show ?thesis by (simp add: vm_call_def)
qed

section \<open>App Deployment Manager\<close>

lemmas adm_route_defs = adm_routes_def RegisterDeploymentServiceHandlerClient_def RegisterClusterServiceHandlerClient_def

text \<open>Each path of the API reaches one operation, except where a cluster or a deployment has the name clusters.\<close>

abbreviation api_deployments :: "string \<Rightarrow> string list" where
  "api_deployments p \<equiv> [''v1'', ''projects'', p, ''appdeployment'', ''deployments'']"

abbreviation api_clusters :: "string \<Rightarrow> string list" where
  "api_clusters p \<equiv> [''v1'', ''projects'', p, ''appdeployment'', ''clusters'']"

lemma adm_changing_paths:
  "rq_Method req = ''POST'' \<Longrightarrow> template_calls L adm_routes req (api_deployments p) =
     [request_DeploymentService_CreateDeployment_0 L req [(''projectName'', p)]]"
  "rq_Method req = ''PUT'' \<Longrightarrow> template_calls L adm_routes req (api_deployments p @ [d]) =
     [request_DeploymentService_UpdateDeployment_0 L req [(''projectName'', p), (''depl_id'', d)]]"
  "rq_Method req = ''DELETE'' \<Longrightarrow> template_calls L adm_routes req (api_deployments p @ [d]) =
     [request_DeploymentService_DeleteDeployment_0 L req [(''projectName'', p), (''depl_id'', d)]]"
  unfolding adm_route_defs by (simp_all add: templates)

lemma adm_reading_paths:
  assumes m: "rq_Method req = ''GET''"
  shows "template_calls L adm_routes req (api_deployments p) =
      [request_DeploymentService_ListDeployments_0 L req [(''projectName'', p)]]"
    "template_calls L adm_routes req (api_deployments p @ [d]) =
      [request_DeploymentService_GetDeployment_0 L req [(''projectName'', p), (''depl_id'', d)]]"
    "k \<noteq> ''clusters'' \<Longrightarrow> template_calls L adm_routes req (api_deployments p @ [''clusters'', k]) =
      [request_DeploymentService_ListDeploymentsPerCluster_0 L req [(''projectName'', p), (''cluster_id'', k)]]"
    "d \<noteq> ''clusters'' \<Longrightarrow> template_calls L adm_routes req (api_deployments p @ [d, ''clusters'']) =
      [request_DeploymentService_ListDeploymentClusters_0 L req [(''projectName'', p), (''depl_id'', d)]]"
    "template_calls L adm_routes req [''v1'', ''projects'', p, ''appdeployment'', ''summary'', ''deployments_status''] =
      [request_DeploymentService_GetDeploymentsStatus_0 L req [(''projectName'', p)]]"
    "template_calls L adm_routes req (api_clusters p) = [request_ClusterService_ListClusters_0 L req [(''projectName'', p)]]"
    "template_calls L adm_routes req (api_clusters p @ [k]) =
      [request_ClusterService_GetCluster_0 L req [(''projectName'', p), (''cluster_id'', k)]]"
  unfolding adm_route_defs by (simp_all add: m templates)

lemma ambiguous_clusters_path:
  "rq_Method req = ''GET'' \<Longrightarrow> template_calls L adm_routes req (api_deployments p @ [''clusters'', ''clusters'']) =
     [request_DeploymentService_ListDeploymentsPerCluster_0 L req [(''projectName'', p), (''cluster_id'', ''clusters'')],
      request_DeploymentService_ListDeploymentClusters_0 L req [(''projectName'', p), (''depl_id'', ''clusters'')]]"
  unfolding adm_route_defs by (simp add: templates)

text \<open>A create or update request carries the decoded body, or is refused before the call.\<close>

lemma create_carries_body:
  assumes L: "gateway_ok L"
  shows "request_DeploymentService_CreateDeployment_0 L req [(''projectName'', p)] = Inr (m, msg) \<longleftrightarrow>
    m = ''CreateDeployment'' \<and> pr_Fields msg = [(''ProjectName'', p)] \<and>
    (\<exists>body err. gl_ReadBody L (rq_Body req) = Inr body \<and> gl_Decode L body = (err, pr_Deployment msg) \<and>
       err \<in> {None, Some io_EOF})"
  by (auto simp: request_DeploymentService_CreateDeployment_0_def build_def decode_body_def gateway_param [OF L] empty_proto_def
      split: sum.splits prod.splits)

text \<open>An error of the annotated context or of the message is answered without a call.\<close>

lemma route_refuses:
  assumes "gl_Annotate L req (rt_rpc rt) (rt_http rt) \<noteq> None \<or> (\<exists>e. rt_request rt L req ps = Inl e)"
  shows "effects (handle_route L client rt req ps) w = []"
  using assms by (auto simp: handle_route_def effects_def split: option.split)

end
