(* ===== verification/Handover.thy ===== *)
theory Handover
  imports NbRead NbCreate NbSample LibProps
begin

text \<open>
  What the northbound service hands to the controller: a create request writes only Deployment resources that the
  controller can reconcile without a panic (internal/northbound, controllers/deployment, pkg/fleet).
\<close>

section \<open>The only creation of Deployment resources\<close>

definition no_create :: "nb_ev \<Rightarrow> bool" where
  "no_create e = (case e of NbWrite (CreateDeploymentCR _) \<Rightarrow> False | _ \<Rightarrow> True)"

lemma no_create_simps [simp]:
  "no_create (NbRead r)" "no_create NbToken" "no_create NbLogout" "no_create (NbName n)" "no_create (NbVault v)"
  "no_create (NbAuthorize a b c)" "no_create (NbWrite (CreateSecretCR x))" "no_create (NbWrite (UpdateSecretCR x))"
  "no_create (NbWrite (CreateNamespaceCR y))" "no_create (NbWrite (UpdateNamespaceCR y))"
  "no_create (NbWrite (CreateRoleBindingCR rb))" "no_create (NbWrite (UpdateDeploymentCR m d))"
  by (simp_all add: no_create_def)

lemma does_clientset:
  "does no_create (ks_GetSecret (svClientset s) a b) (\<lambda>_. True)" "does no_create (ks_UpdateSecret (svClientset s) c) (\<lambda>_. True)"
  "does no_create (ks_CreateSecret (svClientset s) c) (\<lambda>_. True)" "does no_create (ks_GetNamespace (svClientset s) d) (\<lambda>_. True)"
  "does no_create (ks_CreateNamespace (svClientset s) e) (\<lambda>_. True)" "does no_create (ks_UpdateNamespace (svClientset s) e) (\<lambda>_. True)"
  "does no_create (ks_CreateRoleBinding (svClientset s) f) (\<lambda>_. True)"
  by (simp_all add: svClientset_def does_call)

lemma does_secrets:
  "does no_create (GetSecretValue (svClientset s) a b) (\<lambda>_. True)"
  "does no_create (CreateSecret (svClientset s) a b c x) (\<lambda>_. True)"
  "does no_create (UpdateNsLabels (svClientset s) a) (\<lambda>_. True)"
  "does no_create (CreateRoleBinding (svClientset s) a b d) (\<lambda>_. True)"
  "does no_create (CreateNamespace (svClientset s) a) (\<lambda>_. True)"
  unfolding GetSecretValue_def CreateSecret_def UpdateNsLabels_def CreateRoleBinding_def CreateNamespace_def Let_def
  by (intro emits_intros TrueI does_clientset)+

lemma does_kube:
  "does no_create (svDeployments_List s a b) (\<lambda>_. True)" "does no_create (svDeployments_Get s a c) (\<lambda>_. True)"
  "does no_create (svDeployments_Update s a c d) (\<lambda>_. True)" "does no_create (svGenerateName s a) (\<lambda>_. True)"
  unfolding svDeployments_List_def svDeployments_Get_def svDeployments_Update_def svGenerateName_def
  by (intro emits_intros TrueI; simp)+

lemma does_outgoing: "does no_create (outgoing s x p) (\<lambda>_. True)"
  unfolding outgoing_def AddToOutgoingContext_def getCtxWithToken_def svVaultAuth_def try_io_def ret_io_def
  by (auto intro!: emits_intros)

lemma does_catalog:
  "does no_create (cat_GetDeploymentPackage (svCatalog s c) n v) (\<lambda>_. True)"
  "does no_create (cat_GetApplication (svCatalog s c) n v) (\<lambda>_. True)"
  "does no_create (cat_GetRegistry (svCatalog s c) n b) (\<lambda>_. True)"
  by (simp_all add: svCatalog_def does_call)

lemma does_lookup_app: "does no_create (lookup_app e (svCatalog s c) dp cp r) (\<lambda>_. True)"
  unfolding lookup_app_def add_profile_def add_requirement_def add_template_def Let_def
  by (intro emits_intros TrueI does_catalog)

lemma does_lookup: "does no_create (lookup_package s c n v p) (\<lambda>_. True)"
  unfolding lookup_package_def CatalogLookupDPAndHelmApps_def Let_def
  by (intro emits_intros TrueI does_catalog does_lookup_app)

lemma does_unmask: "does no_create (unmask_step s sc r p d) (\<lambda>_. True)"
  unfolding unmask_step_def unmask_app_def update_identity_def matchUIDDeployment_def Let_def
  by (auto intro!: emits_intros does_secrets does_kube split: sum.split option.split)

lemma does_name: "does no_create (name_step s sc r d) (\<lambda>_. True)"
  unfolding name_step_def Let_def
  by (intro emits_intros TrueI does_secrets does_kube)

lemma does_identity: "does no_create (existing_identity s ns p i b d) (\<lambda>_. True)"
  unfolding existing_identity_def getDeploymentCRWithDeploymentPackage_def Let_def
  by (intro emits_intros TrueI does_kube)

lemma does_gitsecret: "does no_create (createGitClientSecret s d) (\<lambda>_. True)"
  unfolding createGitClientSecret_def vault_value_def make_secret_def
  by (auto intro!: emits_intros does_secrets split: sum.split)

lemma does_createSecrets: "does no_create (createSecrets s d) (\<lambda>_. True)"
  unfolding createSecrets_def create_app_secrets_def profile_step_def overrides_step_def helmrepo_step_def imagerepo_step_def
    template_step_def configureRsProxy_def make_secret_def Let_def split_beta
  by (intro emits_intros TrueI does_secrets)

lemma does_owner: "does no_create (updateOwnerRefSecrets s d) (\<lambda>_. True)"
  unfolding updateOwnerRefSecrets_def own_app_secrets_def own_named_def updateOwnerRefSecret_def Let_def
  by (intro emits_intros TrueI does_clientset)

lemma does_update: "does no_create (update_dependent s ns p v) (\<lambda>_. True)"
  unfolding update_dependent_def Let_def
  by (intro emits_intros TrueI does_kube)

lemma does_propagate: "does no_create (propagateTargetsToChildDeployments s d) (\<lambda>_. True)"
  unfolding propagateTargetsToChildDeployments_def propagate_to_def Let_def
  by (auto intro!: emits_intros does_kube split: prod.split)

lemma does_initDeployment: "does no_create (initDeployment n s c p sc r ds) (\<lambda>_. True)"
proof (induction n arbitrary: sc r ds)
  case (Suc n)
  show ?case
    unfolding initDeployment.simps init_deployment_def addDepAndRelationships_def add_dependency_def Let_def split_beta
    by (intro emits_intros TrueI does_lookup does_unmask does_name does_identity Suc.IH) 
qed (simp add: does_gpanic)

section \<open>Well-formed deployments\<close>

definition reconcilable :: "Deployment \<Rightarrow> bool" where
  "reconcilable d = (list_all (\<lambda>app. ap_HelmApp app \<noteq> None) (sp_Applications (d_Spec d)) \<and>
     map_of (labels_of (d_Meta d)) AppOrchActiveProjectID \<noteq> None)"

definition creates_reconcilable :: "nb_ev \<Rightarrow> bool" where
  "creates_reconcilable e = (case e of NbWrite (CreateDeploymentCR d) \<Rightarrow> reconcilable d | _ \<Rightarrow> True)"

lemma no_create_ok: "does no_create m Q \<Longrightarrow> does creates_reconcilable m Q"
  by (erule does_weaken) (auto simp: no_create_def creates_reconcilable_def split: nb_ev.splits nb_write.splits)

lemma map_go_all: "map_go f xs = Ret ys \<Longrightarrow> (\<And>x y. f x = Ret y \<Longrightarrow> P y) \<Longrightarrow> list_all P ys"
  by (induction xs arbitrary: ys) (auto simp: go_bind_Ret)

lemma created_reconcilable:
  assumes "createDeploymentCr NL d sc rv e = Ret (Inr cr)"
  shows "reconcilable cr"
proof -
  obtain apps where apps: "map_go (application_of NL d sc e) (nd_HelmApps d) = Ret apps"
    "sp_Applications (d_Spec cr) = apps" "labels_of (d_Meta cr) = label_list d"
    using assms by (auto simp: createDeploymentCr_def go_bind_Ret Let_def deployment_spec_def empty_meta_def labels_of_def split: if_splits)
  have "list_all (\<lambda>app. ap_HelmApp app \<noteq> None) apps"
    by (rule map_go_all [OF apps(1)]) (auto simp: application_of_def go_bind_Ret)
  then show ?thesis using apps(2,3) by (simp add: reconcilable_def label_list_def)
qed

lemma addRelationship_reconcilable: "reconcilable (addRelationshipToDeploymentCR d cr) = reconcilable cr"
  by (simp add: reconcilable_def addRelationshipToDeploymentCR_def)

lemma does_create_cr: "does creates_reconcilable (create_cr s ns d) (\<lambda>_. True)"
proof -
  have w: "does creates_reconcilable (svDeployments_Create s ns (addRelationshipToDeploymentCR d' cr)) (\<lambda>_. True)"
    if "reconcilable cr" for d' cr
    using that by (simp add: svDeployments_Create_def does_glift does_call creates_reconcilable_def addRelationship_reconcilable)
  show ?thesis
    unfolding create_cr_def Let_def
    by (intro does_gtry_any does_gmap_err TrueI no_create_ok [OF does_createSecrets] no_create_ok [OF does_owner]
        does_gtry_returns [OF does_gpure [OF TrueI], where R = reconcilable] w)
      (auto simp: returns_def post_def created_reconcilable split: go.split sum.split intro!: emits_intros)
qed

lemma does_dependents: "does creates_reconcilable (dependent_step s ns p kv b) (\<lambda>_. True)"
  unfolding dependent_step_def Let_def
  by (intro emits_intros TrueI does_create_cr no_create_ok [OF does_update])

lemma does_create_deployment: "does creates_reconcilable (create_deployment n s x r p) (\<lambda>_. True)"
  unfolding create_deployment_def check_duplicate_def getDeploymentCRWithDeploymentPackage_def split_beta
  by (intro emits_intros TrueI does_dependents does_create_cr no_create_ok [OF does_outgoing] no_create_ok [OF does_initDeployment]
      no_create_ok [OF does_gitsecret] no_create_ok [OF does_kube(1)] no_create_ok [OF does_propagate])

lemma read_only_ok: "does read_only m Q \<Longrightarrow> does creates_reconcilable m Q"
  by (erule does_weaken) (auto simp: read_only_def creates_reconcilable_def split: nb_ev.splits nb_write.splits)

lemma does_CreateDeployment: "does creates_reconcilable (CreateDeployment n s x req) (\<lambda>_. True)"
  unfolding CreateDeployment_def as_status_def incomplete_def
  by (intro emits_intros TrueI does_create_deployment does_active_project read_only_ok [OF does_checked])

section \<open>Progress\<close>

text \<open>The GitRepos of the controller have labels, which it gives them when it creates them.\<close>

definition labelled :: "GitRepo \<Rightarrow> bool" where
  "labelled g = (om_Labels (gr_Meta g) \<noteq> None)"

definition labelled_gitrepos :: "('j, 'w) Reconciler \<Rightarrow> bool" where
  "labelled_gitrepos R = (\<forall>a b w. case fst (k_ListGitRepos (rc_kube R) a b w) of Inl _ \<Rightarrow> True | Inr items \<Rightarrow> list_all labelled items)"

lemma new_gitrepo_labelled: "labelled (new_gitrepo R d app helm url targets ca)"
  by (simp add: labelled_def new_gitrepo_def set_cabundle_def)

lemma grmap_labelled: "list_all labelled items \<Longrightarrow> list_all labelled (map snd (grmap_of items))"
proof -
  have "list_all labelled (map snd (fold (\<lambda>gr m. AList.update (om_Name (gr_Meta gr)) gr m) items m))"
    if "list_all labelled items" "list_all labelled (map snd m)" for m
    using that
  proof (induction items arbitrary: m)
    case (Cons g items)
    have "list_all labelled (map snd (AList.update (om_Name (gr_Meta g)) g m))"
      using Cons.prems by (induction m) auto
    with Cons show ?case by simp
  qed simp
  then show "list_all labelled items \<Longrightarrow> list_all labelled (map snd (grmap_of items))" by (simp add: grmap_of_def)
qed

lemma reconcile_app_progress:
  assumes "ap_HelmApp app \<noteq> None" "list_all labelled (map snd m)"
  shows "post (reconcile_app R d url app m) (\<lambda>(r, m'). r \<noteq> Panicked \<and> list_all labelled (map snd m'))"
proof -
  have del: "list_all labelled (map snd (AList.delete k m))" for k
    using assms(2) by (induction m) auto
  have "labelled g" if "map_of m k = Some g" for k g
    using assms(2) map_of_SomeD [OF that] by (force simp: list_all_iff)
  then have upd: "updated_gitrepo R d app url targets ca g \<noteq> Panicked" if "map_of m k = Some g" for k g targets ca
    using that assms(1) by (auto simp: updated_gitrepo_def labelled_def split: option.splits)
  show ?thesis
    unfolding reconcile_app_def Let_def
    by (rule post_bind [where R = "\<lambda>_. True"]) (use assms del upd in \<open>auto intro!: post_bind [where R = "\<lambda>_. True"] split: option.split go.split\<close>)
qed

lemma app_loop_progress:
  assumes "list_all (\<lambda>app. ap_HelmApp app \<noteq> None) apps" "list_all labelled (map snd m)"
  shows "post (app_loop (reconcile_app R d url) apps m) (\<lambda>(r, m'). r \<noteq> Panicked)"
  using assms
proof (induction apps arbitrary: m)
  case (Cons app apps)
  show ?case unfolding app_loop.simps
    by (rule post_bind [OF reconcile_app_progress [of app m]]) (use Cons in \<open>auto split: if_splits\<close>)
qed simp

lemma sync_gitrepos_progress:
  assumes "list_all (\<lambda>app. ap_HelmApp app \<noteq> None) (sp_Applications (d_Spec d))" "labelled_gitrepos R"
  shows "post (sync_gitrepos R d) (\<lambda>r. r \<noteq> Panicked)"
proof -
  have list: "post (kListGitRepos R d) (\<lambda>r. case r of Inl _ \<Rightarrow> True | Inr items \<Rightarrow> list_all labelled items)"
    using assms(2) by (simp add: kListGitRepos_def post_call labelled_gitrepos_def)
  have loop: "post (app_loop (reconcile_app R d url) (sp_Applications (d_Spec d)) (grmap_of items)) (\<lambda>(r, m'). r \<noteq> Panicked)"
    if "list_all labelled items" for url items
    by (rule app_loop_progress [OF assms(1) grmap_labelled [OF that]])
  show ?thesis
    unfolding sync_gitrepos_def
    by (rule post_bind_any, rule post_sum, simp, rule post_bind [OF list], rule post_sum, simp)
      (rule post_bind [OF loop], auto intro!: post_bind_any)
qed

section \<open>The claim\<close>

text \<open>
  Claim C13. The northbound service and the controller agree on the deployments they exchange: every Deployment resource that
  the create request writes, for the deployment of the request and for the packages it depends on, has Helm data for each of
  its applications and the label of its project. For such a resource neither the generation of the Fleet configuration nor
  the synchronisation of the GitRepos panics, whatever the server, the libraries and the Catalog answer, provided that the
  listed GitRepos carry the labels that the controller gives them.
\<close>

theorem created_deployments_reconcile:
  assumes "labelled_gitrepos R"
  shows "does creates_reconcilable (CreateDeployment depth s x req) (\<lambda>_. True) \<and>
    (reconcilable d \<longrightarrow>
      post (GenerateFleetConfigs F E d dir) (\<lambda>r. r \<noteq> Panicked) \<and> post (sync_gitrepos R d) (\<lambda>r. r \<noteq> Panicked))"
  using assms by (auto simp: does_CreateDeployment reconcilable_def list_all_iff
      intro!: GenerateFleetConfigs_no_panic sync_gitrepos_progress)

definition fresh_reconciler :: "(Deployment, mem) Reconciler" where
  "fresh_reconciler = mem_reconciler\<lparr>rc_kube := mem_kube\<lparr>k_ListGitRepos := (\<lambda>_ _ w. (Inr [], w))\<rparr>\<rparr>"

lemma fresh_labelled: "labelled_gitrepos fresh_reconciler"
  by (simp add: labelled_gitrepos_def fresh_reconciler_def)

lemma sample_reconcilable: "reconcilable sample_deployment"
  by code_simp

lemma created_deployments_reconcile_witness:
  "does creates_reconcilable (CreateDeployment 21 (sample_svc False) sample_ctx (Some \<lparr>crq_Deployment = Some sample_pb_deployment\<rparr>)) (\<lambda>_. True) \<and>
   post (GenerateFleetConfigs mem_fleetlib silent_fleet_env sample_deployment ''/tmp'') (\<lambda>r. r \<noteq> Panicked) \<and>
   post (sync_gitrepos fresh_reconciler sample_deployment) (\<lambda>r. r \<noteq> Panicked)"
  using created_deployments_reconcile [OF fresh_labelled, of 21 "sample_svc False" sample_ctx
      "Some \<lparr>crq_Deployment = Some sample_pb_deployment\<rparr>" sample_deployment
      mem_fleetlib silent_fleet_env "''/tmp''"] sample_reconcilable
  by blast

end
