(* ===== verification/Spec2Isabelle.thy ===== *)
theory Spec2Isabelle
  imports DepProps LibProps SelectProps NbProps NbTerm CtrlProps EnvVars Webhook ArmForward ArmVncProps ArmConsole AspProps AspRewriteProps GitProps TenantProps AdmTools RouteProps Handover
begin

text \<open>
  Verification of the application deployment services: the App Deployment Manager
  (src/app-deployment-manager), the App Resource Manager (src/app-resource-manager) and the App Service Proxy
  (src/app-service-proxy).

  The program.  A user asks the northbound service of the deployment manager for a deployment: a package of the Catalog with
  its applications, their profiles and override values, and the clusters they go to.  The service checks the request with the
  validator and the policy agent, looks the package up, creates the deployments of the packages that it requires, stores the
  secrets and writes a Deployment resource.  The Deployment controller reconciles that resource: it generates the Fleet
  configuration, pushes it to a git repository, keeps one GitRepo per application, and sums up the status of the
  DeploymentClusters.  Three more controllers keep the DeploymentClusters and the Cluster resources.  The resource manager
  shows and operates the workloads of a deployment on the clusters, and opens consoles of virtual machines.  The proxy forwards
  requests to the services of an application on a cluster, and rewrites the pages that they answer.

  How it is modelled.  Structs are records with the Go names behind a short prefix, maps are association lists in the order of
  an iteration, strings are lists of bytes, and integers are int, or words of the width of the field where it matters.  An
  error is a \<open>goerror\<close>, a fallible function returns \<open>goerror + 'a\<close>, and a function that may hit a nil pointer, a
  missing index or a nil map returns \<open>'a go\<close>, which is \<open>Panicked\<close> there (theories Prelude and GoIO).  A handler is
  a computation in the state monad over a world: the state of the servers, which is arbitrary, and the trace of the calls.
  What a server answers is a function of its state; every property holds for all of them, except where a hypothesis says
  what the API server, the Catalog or a library does.  Such hypotheses are named: \<open>k8slib_ok\<close> and its relatives for the
  helpers of Kubernetes, \<open>regexp_ok\<close> for expressions, \<open>sorting\<close> for the algorithm of sort.Sort, \<open>gateway_ok\<close> for
  the REST gateway.  Each of them holds of a concrete instance (theories DepSample, NbSample, ArmSample, and the locales).

  The deployment manager (paths below src/app-deployment-manager):

  \<^item> ApiTypes, ClusterTypes: the custom resources (api/v1beta1).  Utils, EnvVars, Patch, Catalog, Fleet, GitClient, AdmTools: the
    packages pkg/utils, internal/patch, internal/catalogclient, pkg/fleet, pkg/gitclient, pkg/vault, pkg/logchecker,
    internal/randomtoken and internal/grafana.
  \<^item> DepBase, DepCleanup, DepPhases, DepGitRepo, DepStatus, DepReconcile: the Deployment controller
    (controllers/deployment/deployment_controller.go), in the order of the file.  The reconciler is a record of its servers;
    the variables that outlive a call are the record \<open>rstate\<close>.  DcController and ClusterControllers: the other controllers.
  \<^item> NbTypes, StructPb, NbDepl, NbGraph, NbStatus, NbSvc, NbSecrets, NbInit, NbRead, NbCreate: the northbound service
    (internal/northbound): the messages, masked secrets, the deployment of a request, the dependency graph, answers, the clients
    and the policy agent, secrets, required packages, and the nine reading and three writing requests.
  \<^item> Comparable, DataSelect, QueryParser: the selection of list items (pkg/utils/dataselector, pkg/utils/parser).
  \<^item> Webhook (webhooks/deployment), Tenant (internal/tenant, internal/manager/migration.go), Gateways (internal/restproxy and
    internal/manager of both managers), RestBase and AdmRoutes (the routes of api/nbi/v2/deployment/v1).

  The resource manager (below src/app-resource-manager/internal): ArmBase (authorisation and clients), ArmValidate and ArmRoutes
  (the validation and the routes of the messages), ArmCounter and ArmSessions (the limits of consoles), ArmKube, ArmVirt and ArmNorth
  (workloads, endpoints, virtual machines and the services), ArmForward and ArmVnc (the copy loop and the handler of consoles).
  The proxy (below src/app-service-proxy/internal): GoHttp (headers and cookies), AspAuth, AspProxy and AspRewrite.

  What is shown.  The claims stand in the theories with the name Props, in NbTerm, ArmSessions, ArmCounter, ArmValidate,
  ArmConsole and Handover; those with hypotheses have an instance on servers in memory.

  \<^item> Access: requests that are invalid or not permitted make no call but the one to the policy agent (NbProps, ArmProps, AspProps,
    ArmVncProps); the proxy forwards no token; operations write only what they name.
  \<^item> The Deployment controller: a live deployment loses neither its repository nor its Catalog state; the conditions and the
    generation after a reconcile; deletion and finalizers; convergence of the GitRepos to the applications; the aggregated
    status.  DepSafety, DepOutcome, DepStatusProps, DepDeletion and DepConverge hold the lemmas on each phase.
  \<^item> The northbound service: a deletion reaches exactly the dependents of a deployment; masked secrets come back; the counts and the
    targets of an answer; the resources it writes can be reconciled without a panic (Handover).
  \<^item> Consoles: the counters refine the multiset of sessions, the handler follows the state machine of the sessions with other
    requests in between, the sessions stay within the limits, and an address that was given out is read back.
  \<^item> Lists, configuration and routes: the page of a list request, fleet.yaml, the content security policy, the identifiers that
    the validation accepts, and the operation that a path reaches.

  The interfaces are locales: \<open>three_way\<close> with \<open>keyed\<close> and \<open>two_keys\<close> for comparisons, \<open>sorting\<close> for the
  selection, and \<open>session_counter\<close> for the counters, each interpreted on the definitions of the code.

  Bounds and fuel.  \<open>delete_depth\<close> is 21: the code counts the depth from 0 and fails above maxDepth, which is 20, and the
  model counts down.  The recursion over required packages has no bound in the code; the model bounds the stack, and NbTerm shows
  that the rank of a package is enough, so that only cyclic packages exhaust it.  In the same way the search of the controllers
  of a pod needs the rank of the pod and one more, and panics beyond it, as an exhausted stack does.  The copy loop of
  ArmForward runs over the schedule of its rounds.  All other loops are structural or have a measure.

  Not modelled.  The programs' flags, the registration of controllers, routes of static pages, middleware and metrics, which are calls
  of frameworks; the typed REST clients of the API server, each function of which is one call that the model has as a parameter; the
  generated messages with their accessors, the OpenAPI clients, which no service uses, the generated deep copies, and the
  generated validators that are never called; time-outs of contexts, and the logs of activities, which change no state; tests,
  mocks and test tools.  Requests of different users run one after the other, except in ArmSessions and ArmVnc: the
  northbound service holds a mutex, and the controllers reconcile one resource at a time.
\<close>

end
